(* ===== verification/Prelude.thy ===== *)
theory Prelude
  imports Main "HOL-Library.Multiset"
begin

text \<open>
  Shared vocabulary of the development.

  \<^item> Machine integers: Rust's \<open>i64\<close> is an \<open>int\<close> with the wrap-around written out
    (\<open>wrap_i64\<close>), with the checked and saturating operations the sources use. The
    postgres \<open>bigint\<close> columns have the same range.
  \<^item> Computations: \<open>('s, 'e, 'a) tx\<close> is what runs inside one database transaction (an
    error drops the new state), \<open>('s, 'e, 'a) io\<close> is a handler, which can fail after
    having committed something.
  \<^item> Tables: a table is a list of rows; \<open>update_where\<close> is SQL's \<open>update\<close> and
    \<open>List.find\<close> is \<open>fetch_optional\<close>. The interface \<open>keyed_table\<close> gathers what the
    components use of a table with a primary key.
  \<^item> Strings: Rust strings are the list of their UTF-8 bytes, so \<open>length\<close> is
    \<open>str::len\<close>; \<open>trim\<close> knows every Unicode white space character.
  \<^item> Times: a \<open>DateTime<Utc>\<close> is an \<open>int\<close>, in nanoseconds since the epoch.
\<close>

named_theorems monad_simps \<open>unfolding of the transaction and handler combinators\<close>
named_theorems table_simps \<open>facts on rows and tables\<close>


section \<open>Machine integers\<close>

type_synonym i64 = int

abbreviation i64_min :: int where "i64_min \<equiv> - 9223372036854775808"
abbreviation i64_max :: int where "i64_max \<equiv> 9223372036854775807"

definition in_i64 :: "int \<Rightarrow> bool" where
  "in_i64 x \<longleftrightarrow> i64_min \<le> x \<and> x \<le> i64_max"

text \<open>The unchecked operators of a release build, and \<open>as i64\<close> casts.\<close>

definition wrap_i64 :: "int \<Rightarrow> i64" where
  "wrap_i64 x = (x + 9223372036854775808) mod 18446744073709551616 - 9223372036854775808"

definition i64_add :: "i64 \<Rightarrow> i64 \<Rightarrow> i64" where
  "i64_add a b = wrap_i64 (a + b)"

definition i64_sub :: "i64 \<Rightarrow> i64 \<Rightarrow> i64" where
  "i64_sub a b = wrap_i64 (a - b)"

definition i64_neg :: "i64 \<Rightarrow> i64" where
  "i64_neg a = wrap_i64 (- a)"

definition checked_add_i64 :: "i64 \<Rightarrow> i64 \<Rightarrow> i64 option" where
  "checked_add_i64 a b = (if in_i64 (a + b) then Some (a + b) else None)"

definition checked_mul_i64 :: "i64 \<Rightarrow> i64 \<Rightarrow> i64 option" where
  "checked_mul_i64 a b = (if in_i64 (a * b) then Some (a * b) else None)"

definition saturating_i64 :: "int \<Rightarrow> i64" where
  "saturating_i64 x = max i64_min (min i64_max x)"

definition saturating_add_i64 :: "i64 \<Rightarrow> i64 \<Rightarrow> i64" where
  "saturating_add_i64 a b = saturating_i64 (a + b)"

definition saturating_sub_i64 :: "i64 \<Rightarrow> i64 \<Rightarrow> i64" where
  "saturating_sub_i64 a b = saturating_i64 (a - b)"

definition clamp_int :: "int \<Rightarrow> int \<Rightarrow> int \<Rightarrow> int" where
  "clamp_int x lo hi = (if x < lo then lo else if hi < x then hi else x)"

text \<open>The 128-bit checked operations, for the one intermediate the sources widen.\<close>

definition in_i128 :: "int \<Rightarrow> bool" where
  "in_i128 x \<longleftrightarrow> - (2 ^ 127) \<le> x \<and> x < 2 ^ 127"

definition checked_add_i128 :: "int \<Rightarrow> int \<Rightarrow> int option" where
  "checked_add_i128 a b = (if in_i128 (a + b) then Some (a + b) else None)"

definition checked_mul_i128 :: "int \<Rightarrow> int \<Rightarrow> int option" where
  "checked_mul_i128 a b = (if in_i128 (a * b) then Some (a * b) else None)"

lemma wrap_i64_id [simp]: "in_i64 x \<Longrightarrow> wrap_i64 x = x"
  by (simp add: in_i64_def wrap_i64_def)

lemma in_i64_wrap [simp]: "in_i64 (wrap_i64 x)"
proof -
  have "0 \<le> (x + 9223372036854775808) mod 18446744073709551616"
    and "(x + 9223372036854775808) mod 18446744073709551616 < 18446744073709551616"
    by simp_all
  then show ?thesis by (simp add: in_i64_def wrap_i64_def)
qed

lemma in_i64_saturating [simp]: "in_i64 (saturating_i64 x)"
  by (simp add: in_i64_def saturating_i64_def)

lemma saturating_i64_id [simp]: "in_i64 x \<Longrightarrow> saturating_i64 x = x"
  by (simp add: in_i64_def saturating_i64_def)

lemma in_i64_between: "in_i64 a \<Longrightarrow> in_i64 b \<Longrightarrow> a \<le> x \<Longrightarrow> x \<le> b \<Longrightarrow> in_i64 x"
  by (simp add: in_i64_def)

lemma in_i64_0 [simp]: "in_i64 0"
  by (simp add: in_i64_def)

lemma in_i64_neg: "0 \<le> x \<Longrightarrow> in_i64 x \<Longrightarrow> in_i64 (- x)"
  by (simp add: in_i64_def)

lemma checked_add_Some: "checked_add_i64 a b = Some c \<longleftrightarrow> in_i64 (a + b) \<and> c = a + b"
  by (auto simp: checked_add_i64_def)

lemma checked_mul_Some: "checked_mul_i64 a b = Some c \<longleftrightarrow> in_i64 (a * b) \<and> c = a * b"
  by (auto simp: checked_mul_i64_def)

lemma clamp_int_bounds: "lo \<le> hi \<Longrightarrow> lo \<le> clamp_int x lo hi \<and> clamp_int x lo hi \<le> hi"
  by (simp add: clamp_int_def)


section \<open>Results, transactions and handlers\<close>

type_synonym ('s, 'e, 'a) tx = "'s \<Rightarrow> 'e + ('a \<times> 's)"
type_synonym ('s, 'e, 'a) io = "'s \<Rightarrow> ('e + 'a) \<times> 's"

definition ok_or :: "'a option \<Rightarrow> 'e \<Rightarrow> 'e + 'a" where
  "ok_or x e = (case x of None \<Rightarrow> Inl e | Some a \<Rightarrow> Inr a)"

definition rs_bind :: "'e + 'a \<Rightarrow> ('a \<Rightarrow> 'e + 'b) \<Rightarrow> 'e + 'b" where
  "rs_bind m k = (case m of Inl e \<Rightarrow> Inl e | Inr a \<Rightarrow> k a)"

definition tx_return :: "'a \<Rightarrow> ('s, 'e, 'a) tx" where
  "tx_return a = (\<lambda>s. Inr (a, s))"

definition tx_fail :: "'e \<Rightarrow> ('s, 'e, 'a) tx" where
  "tx_fail e = (\<lambda>s. Inl e)"

definition tx_bind :: "('s, 'e, 'a) tx \<Rightarrow> ('a \<Rightarrow> ('s, 'e, 'b) tx) \<Rightarrow> ('s, 'e, 'b) tx" where
  "tx_bind m k = (\<lambda>s. case m s of Inl e \<Rightarrow> Inl e | Inr (a, s') \<Rightarrow> k a s')"

definition tx_of :: "'e + 'a \<Rightarrow> ('s, 'e, 'a) tx" where
  "tx_of r = (\<lambda>s. case r of Inl e \<Rightarrow> Inl e | Inr a \<Rightarrow> Inr (a, s))"

definition tx_read :: "('s \<Rightarrow> 'e + 'a) \<Rightarrow> ('s, 'e, 'a) tx" where
  "tx_read f = (\<lambda>s. case f s of Inl e \<Rightarrow> Inl e | Inr a \<Rightarrow> Inr (a, s))"

definition tx_modify :: "('s \<Rightarrow> 's) \<Rightarrow> ('s, 'e, unit) tx" where
  "tx_modify f = (\<lambda>s. Inr ((), f s))"

text \<open>
  \<open>begin ... commit\<close>: an error inside the transaction leaves the state as it was (the
  transaction is rolled back when it is dropped).
\<close>

definition commit :: "('s, 'e, 'a) tx \<Rightarrow> ('s, 'e, 'a) io" where
  "commit m = (\<lambda>s. case m s of Inl e \<Rightarrow> (Inl e, s) | Inr (a, s') \<Rightarrow> (Inr a, s'))"

definition io_return :: "'a \<Rightarrow> ('s, 'e, 'a) io" where
  "io_return a = (\<lambda>s. (Inr a, s))"

definition io_fail :: "'e \<Rightarrow> ('s, 'e, 'a) io" where
  "io_fail e = (\<lambda>s. (Inl e, s))"

definition io_bind :: "('s, 'e, 'a) io \<Rightarrow> ('a \<Rightarrow> ('s, 'e, 'b) io) \<Rightarrow> ('s, 'e, 'b) io" where
  "io_bind m k = (\<lambda>s. case m s of (Inl e, s') \<Rightarrow> (Inl e, s') | (Inr a, s') \<Rightarrow> k a s')"

definition io_of :: "'e + 'a \<Rightarrow> ('s, 'e, 'a) io" where
  "io_of r = (\<lambda>s. (r, s))"

definition io_read :: "('s \<Rightarrow> 'e + 'a) \<Rightarrow> ('s, 'e, 'a) io" where
  "io_read f = (\<lambda>s. (f s, s))"

definition io_modify :: "('s \<Rightarrow> 's) \<Rightarrow> ('s, 'e, unit) io" where
  "io_modify f = (\<lambda>s. (Inr (), f s))"

lemmas monad_defs [monad_simps] =
  ok_or_def rs_bind_def tx_return_def tx_fail_def tx_bind_def tx_of_def tx_read_def
  tx_modify_def commit_def io_return_def io_fail_def io_bind_def io_of_def io_read_def
  io_modify_def

lemma tx_bind_Inr:
  "tx_bind m k s = Inr r \<longleftrightarrow> (\<exists>a s'. m s = Inr (a, s') \<and> k a s' = Inr r)"
  by (auto simp: tx_bind_def split: sum.splits)

lemma tx_bindI: "m s = Inr (a, s') \<Longrightarrow> k a s' = r \<Longrightarrow> tx_bind m k s = r"
  by (simp add: tx_bind_def)

lemma tx_of_Inr: "tx_of r s = Inr (a, s') \<longleftrightarrow> r = Inr a \<and> s' = s"
  by (auto simp: tx_of_def split: sum.splits)

lemma tx_read_Inr: "tx_read f s = Inr (a, s') \<longleftrightarrow> f s = Inr a \<and> s' = s"
  by (auto simp: tx_read_def split: sum.splits)

lemma tx_return_Inr: "tx_return a s = Inr (b, s') \<longleftrightarrow> a = b \<and> s' = s"
  by (auto simp: tx_return_def)

lemma tx_modify_Inr: "tx_modify f s = Inr (u, s') \<longleftrightarrow> s' = f s"
  by (auto simp: tx_modify_def)

lemma tx_fail_Inr: "tx_fail e s \<noteq> Inr r"
  by (simp add: tx_fail_def)

lemma ok_or_Inr: "ok_or x e = Inr a \<longleftrightarrow> x = Some a"
  by (auto simp: ok_or_def split: option.splits)

lemma rs_bind_Inr: "rs_bind m k = Inr b \<longleftrightarrow> (\<exists>a. m = Inr a \<and> k a = Inr b)"
  by (auto simp: rs_bind_def split: sum.splits)

lemmas tx_success = tx_bind_Inr tx_of_Inr tx_read_Inr tx_return_Inr tx_modify_Inr tx_fail_Inr
  ok_or_Inr rs_bind_Inr

lemma commit_cases:
  obtains (rolled_back) e where "m s = Inl e" "commit m s = (Inl e, s)"
    | (committed) a s' where "m s = Inr (a, s')" "commit m s = (Inr a, s')"
  by (cases "m s") (auto simp: commit_def)

lemma commit_keeps:
  assumes "P s" and "\<And>a s'. m s = Inr (a, s') \<Longrightarrow> P s'"
  shows "P (snd (commit m s))"
  using assms by (cases m s rule: commit_cases) auto

lemma io_bind_keeps:
  assumes "P (snd (m s))" and "\<And>a s'. m s = (Inr a, s') \<Longrightarrow> P (snd (k a s'))"
  shows "P (snd (io_bind m k s))"
  using assms by (cases "m s") (auto simp: io_bind_def split: sum.splits)


lemma io_bind_Inr:
  "io_bind m k s = (Inr b, s') \<longleftrightarrow> (\<exists>a s1. m s = (Inr a, s1) \<and> k a s1 = (Inr b, s'))"
  by (auto simp: io_bind_def split: sum.splits prod.splits)

lemma io_of_Inr: "io_of r s = (Inr a, s') \<longleftrightarrow> r = Inr a \<and> s' = s"
  by (auto simp: io_of_def)

lemma io_read_Inr: "io_read f s = (Inr a, s') \<longleftrightarrow> f s = Inr a \<and> s' = s"
  by (auto simp: io_read_def)

lemma io_return_Inr: "io_return a s = (Inr b, s') \<longleftrightarrow> a = b \<and> s' = s"
  by (auto simp: io_return_def)

lemma io_fail_Inr: "io_fail e s \<noteq> (Inr b, s')"
  by (simp add: io_fail_def)

lemma io_modify_Inr: "io_modify f s = (Inr u, s') \<longleftrightarrow> s' = f s"
  by (auto simp: io_modify_def)

lemma commit_Inr: "commit m s = (Inr a, s') \<longleftrightarrow> m s = Inr (a, s')"
  by (auto simp: commit_def split: sum.splits)

lemmas io_success = io_bind_Inr io_of_Inr io_read_Inr io_return_Inr io_fail_Inr io_modify_Inr
  commit_Inr ok_or_Inr

text \<open>
  A relation between the state before and after that every step of a computation respects;
  for a reflexive and transitive one, composed computations respect it when their parts do.
\<close>

definition tx_respects :: "('s \<Rightarrow> 's \<Rightarrow> bool) \<Rightarrow> ('s, 'e, 'a) tx \<Rightarrow> bool" where
  "tx_respects R m \<longleftrightarrow> (\<forall>s a s'. m s = Inr (a, s') \<longrightarrow> R s s')"

definition io_respects :: "('s \<Rightarrow> 's \<Rightarrow> bool) \<Rightarrow> ('s, 'e, 'a) io \<Rightarrow> bool" where
  "io_respects R m \<longleftrightarrow> (\<forall>s. R s (snd (m s)))"

locale evolution =
  fixes R :: "'s \<Rightarrow> 's \<Rightarrow> bool"
  assumes refl: "R s s" and trans: "R s t \<Longrightarrow> R t u \<Longrightarrow> R s u"
begin

lemma tx_bind: "tx_respects R m \<Longrightarrow> (\<And>a. tx_respects R (k a)) \<Longrightarrow> tx_respects R (tx_bind m k)"
  using trans by (auto simp: tx_respects_def tx_bind_Inr) blast

lemma tx_return: "tx_respects R (tx_return a)"
  by (simp add: tx_respects_def tx_return_Inr refl)

lemma tx_fail: "tx_respects R (tx_fail e)"
  by (simp add: tx_respects_def tx_fail_Inr)

lemma tx_of: "tx_respects R (tx_of r)"
  by (simp add: tx_respects_def tx_of_Inr refl)

lemma tx_read: "tx_respects R (tx_read f)"
  by (simp add: tx_respects_def tx_read_Inr refl)

lemma commit: "tx_respects R m \<Longrightarrow> io_respects R (commit m)"
  by (auto simp: tx_respects_def io_respects_def commit_def refl split: sum.splits)

lemma io_bind: "io_respects R m \<Longrightarrow> (\<And>a. io_respects R (k a)) \<Longrightarrow> io_respects R (io_bind m k)"
  unfolding io_respects_def io_bind_def
  using trans by (auto split: sum.splits prod.splits) (metis snd_conv)+

lemma io_return: "io_respects R (io_return a)"
  by (simp add: io_respects_def io_return_def refl)

lemma io_fail: "io_respects R (io_fail e)"
  by (simp add: io_respects_def io_fail_def refl)

lemma io_of: "io_respects R (io_of r)"
  by (simp add: io_respects_def io_of_def refl)

lemma io_read: "io_respects R (io_read f)"
  by (simp add: io_respects_def io_read_def refl)

text \<open>After a check, the rest of the computation may rely on what it returned.\<close>

lemma io_bind_of:
  "(\<And>a. r = Inr a \<Longrightarrow> io_respects R (k a)) \<Longrightarrow> io_respects R (io_bind (Prelude.io_of r) k)"
  by (cases r) (auto simp: io_respects_def io_bind_def io_of_def refl)

lemmas respects = tx_bind tx_return tx_fail tx_of tx_read commit io_bind io_return io_fail io_of io_read

end

lemma respects_branches:
  "tx_respects R m \<Longrightarrow> tx_respects R n \<Longrightarrow> tx_respects R (if b then m else n)"
  "io_respects R p \<Longrightarrow> io_respects R q \<Longrightarrow> io_respects R (if b then p else q)"
  "(\<And>x y. tx_respects R (f x y)) \<Longrightarrow> tx_respects R (case z of (x, y) \<Rightarrow> f x y)"
  "io_respects R p \<Longrightarrow> (\<And>v. io_respects R (g v)) \<Longrightarrow> io_respects R (case w of None \<Rightarrow> p | Some v \<Rightarrow> g v)"
  by (auto split: prod.split option.split)

lemma reads_own_state: "(\<And>d. tx_respects R (F d)) \<Longrightarrow> tx_respects R (\<lambda>db. F db db)"
  by (simp add: tx_respects_def)

text \<open>An evaluable form of \<open>x = Inr a\<close> for some \<open>a\<close> with \<open>P a\<close>.\<close>

definition succeeds_with :: "'e + 'a \<Rightarrow> ('a \<Rightarrow> bool) \<Rightarrow> bool" where
  "succeeds_with x P \<longleftrightarrow> (case x of Inl _ \<Rightarrow> False | Inr a \<Rightarrow> P a)"

lemma succeeds_withE:
  assumes "succeeds_with x P"
  obtains a where "x = Inr a" "P a"
  using assms by (auto simp: succeeds_with_def split: sum.splits)

lemma io_succeedsE:
  assumes "succeeds_with (fst (m s)) P"
  obtains a s' where "m s = (Inr a, s')" "P a"
  using assms by (cases "m s") (auto elim!: succeeds_withE)


section \<open>Tables\<close>

definition update_where :: "('r \<Rightarrow> bool) \<Rightarrow> ('r \<Rightarrow> 'r) \<Rightarrow> 'r list \<Rightarrow> 'r list" where
  "update_where P f t = map (\<lambda>r. if P r then f r else r) t"

definition count_where :: "('r \<Rightarrow> bool) \<Rightarrow> 'r list \<Rightarrow> int" where
  "count_where P t = int (length (filter P t))"

lemma update_where_Nil [simp]: "update_where P f [] = []"
  by (simp add: update_where_def)

lemma update_where_Cons [simp]:
  "update_where P f (r # t) = (if P r then f r else r) # update_where P f t"
  by (simp add: update_where_def)

lemma set_update_where [table_simps]:
  "set (update_where P f t) = (\<lambda>r. if P r then f r else r) ` set t"
  by (simp add: update_where_def)

lemma list_all_update_where:
  "(\<And>r. P r \<Longrightarrow> Q (f r)) \<Longrightarrow> (\<And>r. \<not> P r \<Longrightarrow> Q r) \<Longrightarrow> list_all Q (update_where P f t)"
  by (induction t) (simp_all add: update_where_def)

lemma length_update_where [simp]: "length (update_where P f t) = length t"
  by (simp add: update_where_def)

lemma update_where_id: "(\<And>r. r \<in> set t \<Longrightarrow> \<not> P r) \<Longrightarrow> update_where P f t = t"
  by (induction t) auto

lemma map_update_where_same [table_simps]:
  "(\<And>r. P r \<Longrightarrow> g (f r) = g r) \<Longrightarrow> map g (update_where P f t) = map g t"
  by (simp add: update_where_def)

lemma count_where_Cons [simp]:
  "count_where P (r # t) = (if P r then 1 else 0) + count_where P t"
  by (simp add: count_where_def)

lemma count_where_Nil [simp]: "count_where P [] = 0"
  by (simp add: count_where_def)

lemma count_where_append [simp]: "count_where P (t @ u) = count_where P t + count_where P u"
  by (simp add: count_where_def)

lemma count_where_nonneg [simp]: "0 \<le> count_where P t"
  by (simp add: count_where_def)

lemma count_where_mono:
  "(\<And>r. r \<in> set t \<Longrightarrow> P r \<Longrightarrow> Q r) \<Longrightarrow> count_where P t \<le> count_where Q t"
  by (induction t) auto

lemma count_update_where_le:
  "(\<And>r. r \<in> set t \<Longrightarrow> C r \<Longrightarrow> Q (f r) \<Longrightarrow> Q r) \<Longrightarrow>
    count_where Q (update_where C f t) \<le> count_where Q t"
  by (induction t) (auto simp: not_le)

lemma count_update_where_add:
  "count_where Q (update_where C f t) \<le> count_where Q t + count_where C t"
  by (induction t) auto

lemma count_where_zero: "(\<And>r. r \<in> set t \<Longrightarrow> \<not> P r) \<Longrightarrow> count_where P t = 0"
  by (induction t) auto

lemma count_key_le_1:
  "distinct (map key t) \<Longrightarrow> (\<And>r. r \<in> set t \<Longrightarrow> P r \<Longrightarrow> key r = k) \<Longrightarrow> count_where P t \<le> 1"
proof (induction t)
  case (Cons a t)
  show ?case
  proof (cases "P a")
    case True
    with Cons.prems have "\<And>r. r \<in> set t \<Longrightarrow> \<not> P r" by (auto simp: image_iff)
    then show ?thesis using count_where_zero [of t P] by simp
  next
    case False
    with Cons show ?thesis by simp
  qed
qed simp

lemma find_some: "List.find P t = Some r \<Longrightarrow> r \<in> set t \<and> P r"
  by (metis find_Some_iff nth_mem)

lemma find_snoc:
  "List.find P (xs @ [x])
    = (case List.find P xs of None \<Rightarrow> if P x then Some x else None | Some y \<Rightarrow> Some y)"
  by (induction xs) auto

lemma distinct_filter_update:
  assumes "\<And>r. P r \<Longrightarrow> k (f r) = k r" and "\<And>r. P r \<Longrightarrow> L (f r) \<Longrightarrow> L r"
    and "distinct (map k (filter L t))"
  shows "distinct (map k (filter L (update_where P f t)))"
proof -
  have sub: "k ` set (filter L (update_where P f u)) \<subseteq> k ` set (filter L u)" for u
    using assms(1,2) by (induction u) auto
  from assms(3) show ?thesis
  proof (induction t)
    case (Cons a t)
    then have IH: "distinct (map k (filter L (update_where P f t)))" by (auto split: if_splits)
    show ?case
    proof (cases "L (if P a then f a else a)")
      case True
      then have "L a" "k (if P a then f a else a) = k a" using assms(1,2) by (auto split: if_splits)
      with Cons.prems have "k (if P a then f a else a) \<notin> k ` set (filter L t)" by auto
      with sub [of t] IH True show ?thesis by (auto split: if_splits)
    next
      case False
      with IH show ?thesis by simp
    qed
  qed simp
qed

lemma find_update_where_other:
  "(\<And>r. C r \<Longrightarrow> \<not> P r \<and> \<not> P (f r)) \<Longrightarrow> List.find P (update_where C f t) = List.find P t"
  by (induction t) auto

text \<open>
  \<open>update ... returning\<close> of one row and \<open>insert\<close>, with the check constraints of the table
  (\<open>ok\<close>) and the rows a unique index keeps apart (\<open>clash\<close>); a violation is the error
  \<open>e\<close>, and the statement changes nothing.
\<close>

definition update_returning ::
    "('r \<Rightarrow> bool) \<Rightarrow> 'e \<Rightarrow> ('r \<Rightarrow> bool) \<Rightarrow> ('r \<Rightarrow> 'r) \<Rightarrow> 'r list \<Rightarrow> 'e + ('r option \<times> 'r list)"
  where
  "update_returning ok e P f t =
     (if list_all (\<lambda>r. P r \<longrightarrow> ok (f r)) t
      then Inr (map_option f (List.find P t), update_where P f t) else Inl e)"

definition insert_row ::
    "('r \<Rightarrow> bool) \<Rightarrow> ('r \<Rightarrow> 'r \<Rightarrow> bool) \<Rightarrow> 'e \<Rightarrow> 'r \<Rightarrow> 'r list \<Rightarrow> 'e + 'r list" where
  "insert_row ok clash e r t =
     (if ok r \<and> list_all (\<lambda>x. \<not> clash r x) t then Inr (t @ [r]) else Inl e)"

lemma update_returning_Inr:
  "update_returning ok e P f t = Inr (x, t') \<longleftrightarrow>
     list_all (\<lambda>r. P r \<longrightarrow> ok (f r)) t \<and> x = map_option f (List.find P t)
     \<and> t' = update_where P f t"
  by (auto simp: update_returning_def)

lemma insert_row_Inr:
  "insert_row ok clash e r t = Inr t' \<longleftrightarrow>
     ok r \<and> list_all (\<lambda>x. \<not> clash r x) t \<and> t' = t @ [r]"
  by (auto simp: insert_row_def)

text \<open>\<open>order by .. limit 1\<close>: the first row in a strict order.\<close>

fun first_by :: "('r \<Rightarrow> 'r \<Rightarrow> bool) \<Rightarrow> 'r list \<Rightarrow> 'r option" where
  "first_by lt [] = None"
| "first_by lt (x # xs) =
     (case first_by lt xs of
        None \<Rightarrow> Some x
      | Some y \<Rightarrow> if lt y x then Some y else Some x)"

lemma first_by_in: "first_by lt t = Some r \<Longrightarrow> r \<in> set t"
  by (induction t arbitrary: r) (auto split: option.splits if_splits)

lemma first_by_None: "first_by lt t = None \<longleftrightarrow> t = []"
  by (cases t) (auto split: option.splits)

lemma first_by_least:
  assumes "first_by lt t = Some r" and "x \<in> set t"
    and asym: "\<And>a b. lt a b \<Longrightarrow> \<not> lt b a"
    and trans: "\<And>a b c. \<not> lt a b \<Longrightarrow> \<not> lt b c \<Longrightarrow> \<not> lt a c"
  shows "\<not> lt x r"
  using assms(1,2)
proof (induction t arbitrary: r)
  case Nil
  then show ?case by simp
next
  case (Cons y t)
  show ?case
  proof (cases "first_by lt t")
    case None
    with Cons.prems asym show ?thesis by (auto simp: first_by_None)
  next
    case (Some z)
    show ?thesis
    proof (cases "lt z y")
      case True
      with Some Cons.prems have "r = z" "x = y \<or> x \<in> set t" by auto
      with True asym Cons.IH [OF Some] show ?thesis by blast
    next
      case False
      with Some Cons.prems have r: "r = y" and x: "x = y \<or> x \<in> set t" by auto
      show ?thesis
      proof (cases "x = y")
        case True
        with r asym show ?thesis by blast
      next
        case n: False
        with x have "x \<in> set t" by blast
        with Cons.IH [OF Some] have "\<not> lt x z" by blast
        from trans [OF this False] show ?thesis unfolding r .
      qed
    qed
  qed
qed

text \<open>
  A table with a primary key: \<open>key\<close> is the key column and \<open>wf_rows\<close> the rows the table
  can hold. The two laws are what the components that store into such a table promise: an
  update they make keeps the key.
\<close>

locale keyed_table =
  fixes key :: "'r \<Rightarrow> 'k"
    and upd :: "'k \<Rightarrow> ('r \<Rightarrow> 'r) \<Rightarrow> 'r list \<Rightarrow> 'r list"
    and get :: "'k \<Rightarrow> 'r list \<Rightarrow> 'r option"
  assumes get_find: "get k t = List.find (\<lambda>r. key r = k) t"
    and upd_rows: "upd k f t = update_where (\<lambda>r. key r = k) f t"
begin

lemma get_in: "get k t = Some r \<Longrightarrow> r \<in> set t \<and> key r = k"
  unfolding get_find by (drule find_some) simp

lemma get_None: "get k t = None \<longleftrightarrow> k \<notin> key ` set t"
  unfolding get_find find_None_iff by auto

lemma get_of_in:
  assumes "distinct (map key t)" and "r \<in> set t"
  shows "get (key r) t = Some r"
  using assms unfolding get_find by (induction t) auto

lemma get_upd:
  assumes "\<And>r. key (f r) = key r"
  shows "get k' (upd k f t) = (if k' = k then map_option f (get k t) else get k' t)"
  using assms unfolding get_find upd_rows by (induction t) auto

lemma keys_upd: "(\<And>r. key (f r) = key r) \<Longrightarrow> map key (upd k f t) = map key t"
  unfolding upd_rows by (simp add: map_update_where_same)

text \<open>As a multiset, the table changes in the one row that has the key.\<close>

lemma mset_upd:
  assumes "distinct (map key t)" and "get k t = Some r"
  shows "mset (upd k f t) = mset t - {#r#} + {#f r#}"
  using assms unfolding get_find upd_rows
proof (induction t)
  case (Cons a t)
  show ?case
  proof (cases "key a = k")
    case True
    with Cons.prems(1) have "k \<notin> key ` set t" by auto
    then have "\<And>x. x \<in> set t \<Longrightarrow> key x \<noteq> k" by (auto simp: image_iff)
    then have "update_where (\<lambda>r. key r = k) f t = t" by (rule update_where_id)
    with True Cons.prems(2) show ?thesis by simp
  next
    case False
    moreover from this Cons.prems(2) have "List.find (\<lambda>r. key r = k) t = Some r" by simp
    moreover from this have "r \<in># mset t" using find_some by fastforce
    ultimately show ?thesis using Cons by simp
  qed
qed simp

lemma all_upd:
  assumes "distinct (map key t)" and "get k t = Some r"
  shows "list_all (\<lambda>x. key x = k \<longrightarrow> Q x) t \<longleftrightarrow> Q r"
proof -
  have "x = r" if "x \<in> set t" "key x = k" for x
    using that get_of_in [OF assms(1)] assms(2) by fastforce
  then show ?thesis using get_in [OF assms(2)] by (auto simp: list_all_iff)
qed

lemma list_all_upd:
  assumes "distinct (map key t)" and "get k t = Some r" and "list_all Q t" and "Q (f r)"
  shows "list_all Q (upd k f t)"
proof -
  have "x = r" if "x \<in> set t" "key x = k" for x
    using that get_of_in [OF assms(1)] assms(2) by fastforce
  with assms(3,4) show ?thesis unfolding upd_rows by (auto simp: list_all_iff set_update_where)
qed

lemma key_set_upd: "(\<And>r. key (f r) = key r) \<Longrightarrow> key ` set (upd k f t) = key ` set t"
  using keys_upd by (metis list.set_map)

lemma upd_missing: "get k t = None \<Longrightarrow> upd k f t = t"
  unfolding get_None upd_rows by (rule update_where_id) auto

end


section \<open>Strings\<close>

text \<open>The UTF-8 encodings of the characters of Unicode's \<open>White_Space\<close>.\<close>

definition white_space :: "string list" where
  "white_space =
     [[CHR 0x09], [CHR 0x0A], [CHR 0x0B], [CHR 0x0C], [CHR 0x0D], [CHR 0x20],
      [CHR 0xC2, CHR 0x85], [CHR 0xC2, CHR 0xA0],
      [CHR 0xE1, CHR 0x9A, CHR 0x80],
      [CHR 0xE2, CHR 0x80, CHR 0x80], [CHR 0xE2, CHR 0x80, CHR 0x81],
      [CHR 0xE2, CHR 0x80, CHR 0x82], [CHR 0xE2, CHR 0x80, CHR 0x83],
      [CHR 0xE2, CHR 0x80, CHR 0x84], [CHR 0xE2, CHR 0x80, CHR 0x85],
      [CHR 0xE2, CHR 0x80, CHR 0x86], [CHR 0xE2, CHR 0x80, CHR 0x87],
      [CHR 0xE2, CHR 0x80, CHR 0x88], [CHR 0xE2, CHR 0x80, CHR 0x89],
      [CHR 0xE2, CHR 0x80, CHR 0x8A],
      [CHR 0xE2, CHR 0x80, CHR 0xA8], [CHR 0xE2, CHR 0x80, CHR 0xA9],
      [CHR 0xE2, CHR 0x80, CHR 0xAF], [CHR 0xE2, CHR 0x81, CHR 0x9F],
      [CHR 0xE3, CHR 0x80, CHR 0x80]]"

definition starts_with :: "string \<Rightarrow> string \<Rightarrow> bool" where
  "starts_with p s \<longleftrightarrow> take (length p) s = p"

fun strip_front_n :: "string list \<Rightarrow> nat \<Rightarrow> string \<Rightarrow> string" where
  "strip_front_n ps 0 s = s"
| "strip_front_n ps (Suc n) s =
     (case List.find (\<lambda>p. starts_with p s) ps of
        None \<Rightarrow> s
      | Some p \<Rightarrow> strip_front_n ps n (drop (length p) s))"

text \<open>Each round removes at least one byte, so the length of the string is enough rounds.\<close>

definition trim_start :: "string \<Rightarrow> string" where
  "trim_start s = strip_front_n white_space (length s) s"

definition trim_end :: "string \<Rightarrow> string" where
  "trim_end s = rev (strip_front_n (map rev white_space) (length s) (rev s))"

definition trim :: "string \<Rightarrow> string" where
  "trim s = trim_end (trim_start s)"

definition byte :: "char \<Rightarrow> nat" where
  "byte c = of_char c"

text \<open>The ASCII case conversions; other bytes, and so other characters, stay.\<close>

definition to_ascii_lowercase :: "string \<Rightarrow> string" where
  "to_ascii_lowercase s =
     map (\<lambda>c. if 65 \<le> byte c \<and> byte c \<le> 90 then char_of (byte c + 32) else c) s"

definition to_ascii_uppercase :: "string \<Rightarrow> string" where
  "to_ascii_uppercase s =
     map (\<lambda>c. if 97 \<le> byte c \<and> byte c \<le> 122 then char_of (byte c - 32) else c) s"

definition eq_ignore_ascii_case :: "string \<Rightarrow> string \<Rightarrow> bool" where
  "eq_ignore_ascii_case s t \<longleftrightarrow> to_ascii_lowercase s = to_ascii_lowercase t"

text \<open>\<open>chars().count()\<close>: the bytes that are not UTF-8 continuation bytes.\<close>

definition chars_count :: "string \<Rightarrow> nat" where
  "chars_count s = length (filter (\<lambda>c. \<not> (128 \<le> byte c \<and> byte c < 192)) s)"

definition utf8 :: "nat list \<Rightarrow> string" where
  "utf8 bs = map char_of bs"

lemma strip_front_n_suffix: "\<exists>d. s = d @ strip_front_n ps n s"
proof (induction n arbitrary: s)
  case 0
  show ?case by simp
next
  case (Suc n)
  show ?case
  proof (cases "List.find (\<lambda>p. starts_with p s) ps")
    case None
    then show ?thesis by simp
  next
    case (Some p)
    obtain d where "drop (length p) s = d @ strip_front_n ps n (drop (length p) s)"
      using Suc.IH by blast
    then have "s = (take (length p) s @ d) @ strip_front_n ps n (drop (length p) s)"
      by (metis append.assoc append_take_drop_id)
    moreover have "strip_front_n ps (Suc n) s = strip_front_n ps n (drop (length p) s)"
      using Some by simp
    ultimately show ?thesis by metis
  qed
qed

lemma strip_front_n_done:
  assumes "\<And>p. p \<in> set ps \<Longrightarrow> p \<noteq> []" and "length s \<le> n" and "p \<in> set ps"
  shows "\<not> starts_with p (strip_front_n ps n s)"
  using assms(2)
proof (induction n arbitrary: s)
  case 0
  with assms(1,3) show ?case by (auto simp: starts_with_def)
next
  case (Suc n)
  show ?case
  proof (cases "List.find (\<lambda>p. starts_with p s) ps")
    case None
    then have "\<not> starts_with p s" using assms(3) unfolding find_None_iff by blast
    with None show ?thesis by simp
  next
    case (Some q)
    then have "q \<noteq> []" "starts_with q s" using assms(1) find_some by metis+
    then have "length (drop (length q) s) \<le> n"
      using Suc.prems by (cases q) auto
    with Suc.IH Some show ?thesis by simp
  qed
qed

lemma white_space_nonempty: "p \<in> set white_space \<Longrightarrow> p \<noteq> []"
  by (auto simp: white_space_def)

lemma length_trim_start: "length (trim_start s) \<le> length s"
  unfolding trim_start_def using strip_front_n_suffix [of s white_space "length s"]
  by (metis le_add2 length_append)

lemma length_trim_end: "length (trim_end s) \<le> length s"
  unfolding trim_end_def
  using strip_front_n_suffix [of "rev s" "map rev white_space" "length s"]
  by (metis le_add2 length_append length_rev)

lemma length_trim: "length (trim s) \<le> length s"
  unfolding trim_def using length_trim_start length_trim_end le_trans by blast

text \<open>Nothing is left to trim at the end of a trimmed string.\<close>

lemma trim_end_done:
  assumes "p \<in> set white_space"
  shows "\<not> starts_with (rev p) (rev (trim_end s))"
proof -
  have "\<not> starts_with (rev p) (strip_front_n (map rev white_space) (length s) (rev s))"
    using assms by (intro strip_front_n_done) (auto dest: white_space_nonempty)
  then show ?thesis by (simp add: trim_end_def)
qed


lemma strip_none:
  assumes "\<And>p. p \<in> set ps \<Longrightarrow> \<not> starts_with p s"
  shows "strip_front_n ps n s = s"
proof -
  have "List.find (\<lambda>p. starts_with p s) ps = None" using assms by (simp add: find_None_iff)
  then show ?thesis by (cases n) auto
qed

lemma starts_with_append: "starts_with p s \<Longrightarrow> starts_with p (s @ d)"
  by (auto simp: starts_with_def)
    (metis append_Nil2 append_take_drop_id diff_is_0_eq' length_take min.absorb_iff2 nat_le_linear take0)

lemma trim_idem: "trim (trim s) = trim s"
proof -
  obtain d where d: "trim_start s = trim s @ d"
    unfolding trim_def trim_end_def
    using strip_front_n_suffix [of "rev (trim_start s)" "map rev white_space" "length (trim_start s)"]
    by (metis rev_append rev_rev_ident)
  have clean: "\<not> starts_with p (trim_start s)" if "p \<in> set white_space" for p
    unfolding trim_start_def using that white_space_nonempty by (intro strip_front_n_done) auto
  have "\<not> starts_with p (trim s)" if "p \<in> set white_space" for p
    using clean [OF that] starts_with_append [of p "trim s" d] unfolding d by blast
  then have "trim_start (trim s) = trim s"
    unfolding trim_start_def [of "trim s"] by (intro strip_none)
  moreover have "trim_end (trim s) = trim s"
    unfolding trim_end_def [of "trim s"]
    using strip_none [of "map rev white_space" "rev (trim s)"] trim_end_done
    unfolding trim_def by force
  ultimately show ?thesis unfolding trim_def [of "trim s"] by simp
qed

text \<open>A string that starts and ends with a visible ASCII character is its own trim.\<close>

definition graphic :: "char \<Rightarrow> bool" where
  "graphic c \<longleftrightarrow> 32 < byte c \<and> byte c < 127"

lemma white_space_not_graphic:
  "list_all (\<lambda>p. \<not> graphic (hd p) \<and> \<not> graphic (hd (rev p))) white_space"
  by code_simp

lemma starts_with_Cons: "starts_with p (c # s) \<Longrightarrow> p \<noteq> [] \<Longrightarrow> hd p = c"
  by (cases p) (auto simp: starts_with_def)

lemma strip_graphic:
  assumes "\<And>p. p \<in> set ps \<Longrightarrow> p \<noteq> [] \<and> \<not> graphic (hd p)" and "s = [] \<or> graphic (hd s)"
  shows "strip_front_n ps n s = s"
proof (cases n)
  case (Suc m)
  have "List.find (\<lambda>p. starts_with p s) ps = None" if "s \<noteq> []"
  proof -
    from that obtain c s' where s: "s = c # s'" by (cases s) auto
    have "\<not> starts_with p s" if "p \<in> set ps" for p
      using assms that starts_with_Cons [of p c s'] s by auto
    then show ?thesis unfolding find_None_iff by blast
  qed
  moreover have "List.find (\<lambda>p. starts_with p s) ps = None" if "s = []"
    using assms(1) that unfolding find_None_iff starts_with_def by auto
  ultimately show ?thesis using Suc by (cases "s = []") auto
qed simp

lemma white_space_front: "p \<in> set white_space \<Longrightarrow> p \<noteq> [] \<and> \<not> graphic (hd p)"
  using white_space_not_graphic white_space_nonempty by (auto simp: list_all_iff)

lemma white_space_back: "p \<in> set (map rev white_space) \<Longrightarrow> p \<noteq> [] \<and> \<not> graphic (hd p)"
  using white_space_not_graphic white_space_nonempty by (auto simp: list_all_iff)

lemma trim_start_graphic: "s = [] \<or> graphic (hd s) \<Longrightarrow> trim_start s = s"
  unfolding trim_start_def using strip_graphic [OF white_space_front] by blast

lemma strip_back_graphic:
  assumes "s = [] \<or> graphic (last s)"
  shows "strip_front_n (map rev white_space) n (rev s) = rev s"
  by (rule strip_graphic, erule white_space_back) (use assms in \<open>auto simp: hd_rev\<close>)

lemma trim_end_graphic: "s = [] \<or> graphic (last s) \<Longrightarrow> trim_end s = s"
  unfolding trim_end_def by (simp only: strip_back_graphic rev_rev_ident)

lemma trim_graphic: "s = [] \<or> (graphic (hd s) \<and> graphic (last s)) \<Longrightarrow> trim s = s"
  unfolding trim_def using trim_start_graphic trim_end_graphic by metis

lemma trim_all_graphic: "list_all graphic s \<Longrightarrow> trim s = s"
  by (rule trim_graphic) (auto simp: list_all_iff)

lemma trim_end_newline:
  assumes "s \<noteq> []" and "graphic (last s)"
  shows "trim_end (s @ [CHR 10]) = s"
proof -
  have f: "List.find (\<lambda>p. starts_with p (CHR 10 # rev s)) (map rev white_space) = Some [CHR 10]"
    by (simp add: white_space_def starts_with_def)
  have "strip_front_n (map rev white_space) (length s) (rev s) = rev s"
    using assms by (intro strip_back_graphic) blast
  with f show ?thesis unfolding trim_end_def by simp
qed

lemma trim_newline:
  assumes "s \<noteq> []" and "graphic (hd s)" and "graphic (last s)"
  shows "trim (s @ [CHR 10]) = s"
  unfolding trim_def using assms trim_start_graphic [of "s @ [CHR 10]"] trim_end_newline by simp


section \<open>Times\<close>

type_synonym time = int

abbreviation seconds :: "int \<Rightarrow> int" where
  "seconds n \<equiv> n * 1000000000"

text \<open>\<open>DateTime::timestamp\<close>: whole seconds, rounded down.\<close>

definition timestamp :: "time \<Rightarrow> i64" where
  "timestamp t = t div 1000000000"

type_synonym uuid = nat

end
