(* ===== verification/Errors.thy ===== *)
theory Errors
  imports Prelude
begin

text \<open>
  \<open>backend/src/error.rs\<close>: the error type every handler returns and its rendering as an
  HTTP response. \<open>app_error\<close> is the enum, the constants below it are the constructor
  functions without a message argument; \<open>error_triple\<close> is the table of
  \<open>AppError::into_response\<close> (HTTP status, numeric code, message tag) and
  \<open>into_response\<close> the whole response. The other constructor functions
  (\<open>AppError::validation_failed\<close> and so on) are the constructors themselves.
\<close>

datatype (plugins only: code size) app_error =
    AccountDisabled string
  | AlreadyRevoked string
  | AppDisabled string
  | AppNotFound string
  | BusinessRuleFailed string
  | Config string
  | Conflict string
  | Crypto string
  | CsrfFailed string
  | Dependency string
  | DeviceBlacklisted string
  | DeviceLimitExceeded string
  | DeviceNotFound string
  | DeviceNotActivated string
  | DuplicateEmail string
  | Forbidden string
  | InviteTokenInvalid string
  | InvalidLicenseState string
  | InvalidReleaseState string
  | InvalidRequest string
  | InvalidScriptState string
  | InvalidCredentials string
  | LicenseExpired string
  | LicenseInvalid string
  | LicenseNotFound string
  | RateLimited string
  | LoginRateLimited string
  | PasswordResetRateLimited string
  | ActivationRateLimited string
  | RefreshReuseDetected string
  | RefreshRateLimited string
  | ReleaseNotFound string
  | MfaAlreadyEnabled string
  | MfaFailed string
  | MfaNotEnabled string
  | MfaRequired string
  | NotFound string
  | NotificationChannelNameExists string
  | PasswordResetTokenInvalid string
  | SessionExpired string
  | SignatureInvalid string
  | SignatureRequired string
  | ScriptNotFound string
  | SubscriptionInactive string
  | TenantForbidden string
  | TenantNotFound string
  | TokenExpired string
  | TokenInvalid string
  | Unauthenticated string
  | UserNotFound string
  | ValidationFailed string
  | WeakPassword string

definition account_disabled :: app_error where
  "account_disabled = AccountDisabled ''account disabled''"

definition app_disabled :: app_error where
  "app_disabled = AppDisabled ''application disabled''"

definition app_not_found :: app_error where
  "app_not_found = AppNotFound ''application not found''"

definition device_blacklisted :: app_error where
  "device_blacklisted = DeviceBlacklisted ''device blacklisted''"

definition device_limit_exceeded :: app_error where
  "device_limit_exceeded = DeviceLimitExceeded ''device limit exceeded''"

definition device_not_found :: app_error where
  "device_not_found = DeviceNotFound ''device not found''"

definition device_not_activated :: app_error where
  "device_not_activated = DeviceNotActivated ''device not activated''"

definition duplicate_email :: app_error where
  "duplicate_email = DuplicateEmail ''duplicate email''"

definition csrf_failed :: app_error where
  "csrf_failed = CsrfFailed ''csrf failed''"

definition invalid_credentials :: app_error where
  "invalid_credentials = InvalidCredentials ''invalid credentials''"

definition license_expired :: app_error where
  "license_expired = LicenseExpired ''license expired''"

definition license_not_found :: app_error where
  "license_not_found = LicenseNotFound ''license not found''"

definition rate_limited :: app_error where
  "rate_limited = RateLimited ''rate limited''"

definition login_rate_limited :: app_error where
  "login_rate_limited = LoginRateLimited ''login rate limited''"

definition password_reset_rate_limited :: app_error where
  "password_reset_rate_limited = PasswordResetRateLimited ''password reset rate limited''"

definition activation_rate_limited :: app_error where
  "activation_rate_limited = ActivationRateLimited ''activation rate limited''"

definition refresh_rate_limited :: app_error where
  "refresh_rate_limited = RefreshRateLimited ''refresh rate limited''"

definition refresh_reuse_detected :: app_error where
  "refresh_reuse_detected = RefreshReuseDetected ''refresh token reuse detected''"

definition release_not_found :: app_error where
  "release_not_found = ReleaseNotFound ''release not found''"

definition mfa_required :: app_error where
  "mfa_required = MfaRequired ''mfa required''"

definition mfa_failed :: app_error where
  "mfa_failed = MfaFailed ''mfa failed''"

definition mfa_already_enabled :: app_error where
  "mfa_already_enabled = MfaAlreadyEnabled ''mfa already enabled''"

definition mfa_not_enabled :: app_error where
  "mfa_not_enabled = MfaNotEnabled ''mfa not enabled''"

definition notification_channel_name_exists :: app_error where
  "notification_channel_name_exists = NotificationChannelNameExists ''notification channel name exists''"

definition password_reset_token_invalid :: app_error where
  "password_reset_token_invalid = PasswordResetTokenInvalid ''password reset token invalid''"

definition session_expired :: app_error where
  "session_expired = SessionExpired ''session expired''"

definition script_not_found :: app_error where
  "script_not_found = ScriptNotFound ''secure script not found''"

definition tenant_forbidden :: app_error where
  "tenant_forbidden = TenantForbidden ''tenant forbidden''"

definition tenant_not_found :: app_error where
  "tenant_not_found = TenantNotFound ''tenant not found''"

definition token_expired :: app_error where
  "token_expired = TokenExpired ''token expired''"

definition unauthenticated :: app_error where
  "unauthenticated = Unauthenticated ''unauthenticated''"

definition user_not_found :: app_error where
  "user_not_found = UserNotFound ''user not found''"

definition weak_password :: app_error where
  "weak_password = WeakPassword ''password is too weak''"

definition invite_token_invalid :: app_error where
  "invite_token_invalid = InviteTokenInvalid ''invite token invalid''"

lemmas app_error_defs = account_disabled_def
  app_disabled_def
  app_not_found_def
  device_blacklisted_def
  device_limit_exceeded_def
  device_not_found_def
  device_not_activated_def
  duplicate_email_def
  csrf_failed_def
  invalid_credentials_def
  license_expired_def
  license_not_found_def
  rate_limited_def
  login_rate_limited_def
  password_reset_rate_limited_def
  activation_rate_limited_def
  refresh_rate_limited_def
  refresh_reuse_detected_def
  release_not_found_def
  mfa_required_def
  mfa_failed_def
  mfa_already_enabled_def
  mfa_not_enabled_def
  notification_channel_name_exists_def
  password_reset_token_invalid_def
  session_expired_def
  script_not_found_def
  tenant_forbidden_def
  tenant_not_found_def
  token_expired_def
  unauthenticated_def
  user_not_found_def
  weak_password_def
  invite_token_invalid_def

primrec error_triple :: "app_error \<Rightarrow> nat \<times> nat \<times> string" where
  "error_triple (AccountDisabled _) = (403, 40302, ''account_disabled'')"
| "error_triple (AlreadyRevoked _) = (409, 40906, ''already_revoked'')"
| "error_triple (AppDisabled _) = (403, 40310, ''app_disabled'')"
| "error_triple (AppNotFound _) = (404, 40403, ''app_not_found'')"
| "error_triple (BusinessRuleFailed _) = (422, 42200, ''business_rule_failed'')"
| "error_triple (Config _) = (500, 50000, ''internal_error'')"
| "error_triple (Conflict _) = (409, 40900, ''conflict'')"
| "error_triple (Crypto _) = (500, 50005, ''crypto_error'')"
| "error_triple (CsrfFailed _) = (403, 40105, ''csrf_failed'')"
| "error_triple (Dependency _) = (503, 50300, ''service_unavailable'')"
| "error_triple (DeviceBlacklisted _) = (403, 40303, ''device_blacklisted'')"
| "error_triple (DeviceLimitExceeded _) = (409, 40904, ''device_limit_exceeded'')"
| "error_triple (DeviceNotFound _) = (404, 40405, ''device_not_found'')"
| "error_triple (DeviceNotActivated _) = (403, 40309, ''device_not_activated'')"
| "error_triple (DuplicateEmail _) = (409, 40901, ''duplicate_email'')"
| "error_triple (Forbidden _) = (403, 40300, ''forbidden'')"
| "error_triple (InvalidLicenseState _) = (422, 42202, ''invalid_license_state'')"
| "error_triple (InvalidReleaseState _) = (422, 42203, ''invalid_release_state'')"
| "error_triple (InvalidRequest _) = (400, 40000, ''invalid_request'')"
| "error_triple (InvalidScriptState _) = (422, 42204, ''invalid_script_state'')"
| "error_triple (InvalidCredentials _) = (401, 40102, ''invalid_credentials'')"
| "error_triple (LicenseExpired _) = (403, 40305, ''license_expired'')"
| "error_triple (LicenseInvalid _) = (403, 40304, ''license_invalid'')"
| "error_triple (LicenseNotFound _) = (404, 40404, ''license_not_found'')"
| "error_triple (RateLimited _) = (429, 42900, ''rate_limited'')"
| "error_triple (LoginRateLimited _) = (429, 42901, ''login_rate_limited'')"
| "error_triple (PasswordResetRateLimited _) = (429, 42902, ''password_reset_rate_limited'')"
| "error_triple (ActivationRateLimited _) = (429, 42903, ''activation_rate_limited'')"
| "error_triple (RefreshReuseDetected _) = (401, 40108, ''refresh_reuse_detected'')"
| "error_triple (RefreshRateLimited _) = (429, 42904, ''refresh_rate_limited'')"
| "error_triple (ReleaseNotFound _) = (404, 40406, ''release_not_found'')"
| "error_triple (MfaAlreadyEnabled _) = (422, 42206, ''mfa_already_enabled'')"
| "error_triple (MfaFailed _) = (401, 40104, ''mfa_failed'')"
| "error_triple (MfaNotEnabled _) = (422, 42207, ''mfa_not_enabled'')"
| "error_triple (MfaRequired _) = (401, 40103, ''mfa_required'')"
| "error_triple (NotFound _) = (404, 40400, ''not_found'')"
| "error_triple (NotificationChannelNameExists _) = (409, 40909, ''notification_channel_name_exists'')"
| "error_triple (PasswordResetTokenInvalid _) = (401, 40109, ''password_reset_token_invalid'')"
| "error_triple (SessionExpired _) = (401, 40101, ''session_expired'')"
| "error_triple (SignatureInvalid _) = (403, 40308, ''signature_invalid'')"
| "error_triple (SignatureRequired _) = (403, 40307, ''signature_required'')"
| "error_triple (ScriptNotFound _) = (404, 40407, ''script_not_found'')"
| "error_triple (SubscriptionInactive _) = (403, 40306, ''subscription_inactive'')"
| "error_triple (TenantForbidden _) = (403, 40301, ''tenant_forbidden'')"
| "error_triple (TenantNotFound _) = (404, 40401, ''tenant_not_found'')"
| "error_triple (TokenExpired _) = (401, 40106, ''token_expired'')"
| "error_triple (TokenInvalid _) = (401, 40107, ''token_invalid'')"
| "error_triple (Unauthenticated _) = (401, 40100, ''unauthenticated'')"
| "error_triple (UserNotFound _) = (404, 40402, ''user_not_found'')"
| "error_triple (ValidationFailed _) = (400, 40001, ''validation_failed'')"
| "error_triple (WeakPassword _) = (422, 42201, ''weak_password'')"
| "error_triple (InviteTokenInvalid _) = (401, 40110, ''invite_token_invalid'')"

text \<open>The text of an error (\<open>Display\<close>).\<close>

primrec error_text :: "app_error \<Rightarrow> string" where
  "error_text (AccountDisabled message) = message"
| "error_text (AlreadyRevoked message) = message"
| "error_text (AppDisabled message) = message"
| "error_text (AppNotFound message) = message"
| "error_text (BusinessRuleFailed message) = message"
| "error_text (Config message) = message"
| "error_text (Conflict message) = message"
| "error_text (Crypto message) = message"
| "error_text (CsrfFailed message) = message"
| "error_text (Dependency message) = message"
| "error_text (DeviceBlacklisted message) = message"
| "error_text (DeviceLimitExceeded message) = message"
| "error_text (DeviceNotFound message) = message"
| "error_text (DeviceNotActivated message) = message"
| "error_text (DuplicateEmail message) = message"
| "error_text (Forbidden message) = message"
| "error_text (InviteTokenInvalid message) = message"
| "error_text (InvalidLicenseState message) = message"
| "error_text (InvalidReleaseState message) = message"
| "error_text (InvalidRequest message) = message"
| "error_text (InvalidScriptState message) = message"
| "error_text (InvalidCredentials message) = message"
| "error_text (LicenseExpired message) = message"
| "error_text (LicenseInvalid message) = message"
| "error_text (LicenseNotFound message) = message"
| "error_text (RateLimited message) = message"
| "error_text (LoginRateLimited message) = message"
| "error_text (PasswordResetRateLimited message) = message"
| "error_text (ActivationRateLimited message) = message"
| "error_text (RefreshReuseDetected message) = message"
| "error_text (RefreshRateLimited message) = message"
| "error_text (ReleaseNotFound message) = message"
| "error_text (MfaAlreadyEnabled message) = message"
| "error_text (MfaFailed message) = message"
| "error_text (MfaNotEnabled message) = message"
| "error_text (MfaRequired message) = message"
| "error_text (NotFound message) = message"
| "error_text (NotificationChannelNameExists message) = message"
| "error_text (PasswordResetTokenInvalid message) = message"
| "error_text (SessionExpired message) = message"
| "error_text (SignatureInvalid message) = message"
| "error_text (SignatureRequired message) = message"
| "error_text (ScriptNotFound message) = message"
| "error_text (SubscriptionInactive message) = message"
| "error_text (TenantForbidden message) = message"
| "error_text (TenantNotFound message) = message"
| "error_text (TokenExpired message) = message"
| "error_text (TokenInvalid message) = message"
| "error_text (Unauthenticated message) = message"
| "error_text (UserNotFound message) = message"
| "error_text (ValidationFailed message) = message"
| "error_text (WeakPassword message) = message"

definition stable_error_codes :: "string list" where
  "stable_error_codes =
     [''asset_not_ready'',
      ''model_not_support_reference_video'',
      ''model_not_support_reference_audio'',
      ''model_not_support_first_frame'',
      ''model_not_support_last_frame'',
      ''reference_asset_conflict'',
      ''reference_asset_kind_mismatch'',
      ''reference_asset_kind_not_allowed'',
      ''reference_asset_mime_not_allowed'',
      ''reference_asset_role_invalid'',
      ''reference_asset_too_large'',
      ''reference_image_too_many'',
      ''reference_asset_too_many'',
      ''reference_video_too_many'',
      ''reference_audio_too_many'']"

text \<open>\<open>str::split_once(':')\<close>, keeping the part before the colon.\<close>

definition before_colon :: "string \<Rightarrow> string option" where
  "before_colon m =
     (if CHR '':'' \<in> set m then Some (takeWhile (\<lambda>c. c \<noteq> CHR '':'') m) else None)"

definition is_stable_error_code :: "string \<Rightarrow> bool" where
  "is_stable_error_code v \<longleftrightarrow>
     v \<noteq> [] \<and> length v \<le> 80 \<and>
     list_all (\<lambda>c. (97 \<le> byte c \<and> byte c \<le> 122) \<or> (48 \<le> byte c \<and> byte c \<le> 57)
                    \<or> c = CHR ''_'') v"

definition stable_error_code :: "string \<Rightarrow> string option" where
  "stable_error_code v = (if v \<in> set stable_error_codes then Some v else None)"

definition detailed_message :: "app_error \<Rightarrow> string option" where
  "detailed_message e =
     (case e of
        BusinessRuleFailed m \<Rightarrow> Some m
      | Conflict m \<Rightarrow> Some m
      | Forbidden m \<Rightarrow> Some m
      | InvalidRequest m \<Rightarrow> Some m
      | NotFound m \<Rightarrow> Some m
      | SubscriptionInactive m \<Rightarrow> Some m
      | ValidationFailed m \<Rightarrow> Some m
      | _ \<Rightarrow> None)"

definition detailed_error_code :: "app_error \<Rightarrow> string option" where
  "detailed_error_code e =
     (case detailed_message e of
        None \<Rightarrow> None
      | Some m \<Rightarrow>
          (case before_colon m of
             None \<Rightarrow> None
           | Some c \<Rightarrow> if is_stable_error_code c then stable_error_code c else None))"

record api_error_response =
  aer_status :: nat
  aer_code :: nat
  aer_error_code :: string
  aer_message :: string
  aer_request_id :: string

definition into_response :: "app_error \<Rightarrow> api_error_response" where
  "into_response e =
     (let (status, code, message) = error_triple e;
          error_code = (case detailed_error_code e of Some c \<Rightarrow> c | None \<Rightarrow> message)
      in \<lparr>aer_status = status, aer_code = code, aer_error_code = error_code,
          aer_message = message, aer_request_id = ''req_bootstrap''\<rparr>)"


section \<open>Properties\<close>

lemma into_response_parts:
  "aer_status (into_response e) = fst (error_triple e)"
  "aer_code (into_response e) = fst (snd (error_triple e))"
  "aer_message (into_response e) = snd (snd (error_triple e))"
  by (simp_all add: into_response_def split_beta Let_def)

lemma error_code_status:
  "fst (snd (error_triple e)) div 100 =
     (case e of CsrfFailed _ \<Rightarrow> 401 | _ \<Rightarrow> fst (error_triple e))"
  by (cases e) simp_all

lemma stable_codes_are_stable: "v \<in> set stable_error_codes \<Longrightarrow> is_stable_error_code v"
  by (auto simp: stable_error_codes_def is_stable_error_code_def byte_def)

lemma detailed_error_code_range: "detailed_error_code e = Some c \<Longrightarrow> c \<in> set stable_error_codes"
  by (auto simp: detailed_error_code_def stable_error_code_def split: option.splits if_splits)

text \<open>
  The numeric code of a response starts with its HTTP status, for every error but the
  CSRF one, whose status is 403 and whose code is 40105.
\<close>

theorem response_code_matches_status:
  "aer_code (into_response e) div 100 =
     (case e of CsrfFailed _ \<Rightarrow> 401 | _ \<Rightarrow> aer_status (into_response e))"
  using error_code_status [of e] by (simp only: into_response_parts)

text \<open>
  What a response says never contains the text of an internal message: its error code
  is the tag of the variant or one of the fifteen stable codes, and the latter only if the
  message starts with that code and a colon.
\<close>

theorem response_hides_message:
  "aer_error_code (into_response e) = aer_message (into_response e) \<or>
   (\<exists>m rest. detailed_message e = Some m \<and>
      aer_error_code (into_response e) \<in> set stable_error_codes \<and>
      m = aer_error_code (into_response e) @ CHR '':'' # rest)"
proof (cases "detailed_error_code e")
  case None
  then show ?thesis by (simp add: into_response_def split_beta Let_def)
next
  case (Some c)
  then obtain m where m: "detailed_message e = Some m" "before_colon m = Some c"
    by (auto simp: detailed_error_code_def stable_error_code_def split: option.splits if_splits)
  from m(2) have "CHR '':'' \<in> set m" and c: "c = takeWhile (\<lambda>x. x \<noteq> CHR '':'') m"
    by (auto simp: before_colon_def split: if_splits)
  then have "dropWhile (\<lambda>x. x \<noteq> CHR '':'') m \<noteq> []" by (simp add: dropWhile_eq_Nil_conv)
  then obtain d rest where rest: "dropWhile (\<lambda>x. x \<noteq> CHR '':'') m = d # rest"
    by (cases "dropWhile (\<lambda>x. x \<noteq> CHR '':'') m") auto
  then have "d = CHR '':''" by (simp add: dropWhile_eq_Cons_conv)
  with rest c have "m = c @ CHR '':'' # rest" by (metis takeWhile_dropWhile_id)
  moreover have "aer_error_code (into_response e) = c"
    using Some by (simp add: into_response_def split_beta Let_def)
  ultimately show ?thesis using m(1) Some detailed_error_code_range by metis
qed

end
