(* ===== verification/Json.thy ===== *)
theory Json
  imports Prelude Complex_Main
begin

text \<open>
  JSON values as \<open>serde_json::Value\<close> holds them. A number is an integer (\<open>i64\<close> or
  \<open>u64\<close>) or a float; the floats of a JSON text are finite, so a float is the rational it
  denotes. An object is the association list of its map, keys distinct and in the map's
  order.
\<close>

datatype json_number = JInt int | JFloat rat

datatype json =
    JNull
  | JBool bool
  | JNumber json_number
  | JString string
  | JArray "json list"
  | JObject "(string \<times> json) list"

text \<open>\<open>Value::get\<close> with a string index, and the \<open>as_\<close> accessors.\<close>

fun json_get :: "string \<Rightarrow> json \<Rightarrow> json option" where
  "json_get k (JObject kvs) = map_of kvs k"
| "json_get k _ = None"

fun as_str :: "json \<Rightarrow> string option" where
  "as_str (JString s) = Some s"
| "as_str _ = None"

fun as_bool :: "json \<Rightarrow> bool option" where
  "as_bool (JBool b) = Some b"
| "as_bool _ = None"

fun as_array :: "json \<Rightarrow> json list option" where
  "as_array (JArray xs) = Some xs"
| "as_array _ = None"

fun is_object :: "json \<Rightarrow> bool" where
  "is_object (JObject _) = True"
| "is_object _ = False"

fun is_array :: "json \<Rightarrow> bool" where
  "is_array (JArray _) = True"
| "is_array _ = False"

fun as_i64 :: "json \<Rightarrow> i64 option" where
  "as_i64 (JNumber (JInt n)) = (if in_i64 n then Some n else None)"
| "as_i64 _ = None"

text \<open>\<open>as_f64\<close>, the integers converted exactly (the conversion's rounding is not modelled).\<close>

fun as_f64 :: "json \<Rightarrow> rat option" where
  "as_f64 (JNumber (JInt n)) = Some (of_int n)"
| "as_f64 (JNumber (JFloat q)) = Some q"
| "as_f64 _ = None"

text \<open>\<open>Value::pointer\<close> on a path of keys.\<close>

fun json_pointer :: "string list \<Rightarrow> json \<Rightarrow> json option" where
  "json_pointer [] v = Some v"
| "json_pointer (k # ks) v =
     (case json_get k v of None \<Rightarrow> None | Some w \<Rightarrow> json_pointer ks w)"

text \<open>Postgres' \<open>jsonb || jsonb\<close> on two objects: the right one wins.\<close>

fun jsonb_concat :: "json \<Rightarrow> json \<Rightarrow> json" where
  "jsonb_concat (JObject a) (JObject b) =
     JObject (filter (\<lambda>kv. fst kv \<notin> fst ` set b) a @ b)"
| "jsonb_concat a b = a"

lemma as_i64_bound: "as_i64 v = Some n \<Longrightarrow> in_i64 n"
  by (cases v rule: as_i64.cases) (auto split: if_splits)

lemma map_of_filter_out: "k \<in> K \<Longrightarrow> map_of (filter (\<lambda>kv. fst kv \<notin> K) a) k = None"
  by (induction a) auto

lemma json_get_concat:
  "json_get k (jsonb_concat (JObject a) (JObject b)) =
     (case map_of b k of Some v \<Rightarrow> Some v | None \<Rightarrow> map_of a k)"
proof (cases "k \<in> fst ` set b")
  case True
  then obtain v where "map_of b k = Some v" by (metis map_of_eq_None_iff option.exhaust)
  moreover have "map_of (filter (\<lambda>kv. fst kv \<notin> fst ` set b) a) k = None"
    using True by (rule map_of_filter_out)
  ultimately show ?thesis by (simp add: map_add_def)
next
  case False
  then have "map_of (filter (\<lambda>kv. fst kv \<notin> fst ` set b) a) k = map_of a k"
    by (induction a) auto
  moreover have "map_of b k = None" using False by (simp add: map_of_eq_None_iff)
  ultimately show ?thesis by (simp add: map_add_def split: option.splits)
qed

end
