(* ===== verification/AuditLog.thy ===== *)
theory AuditLog
  imports Errors Json
begin

text \<open>
  The audit log (\<open>modules/audit/mod.rs\<close>): \<open>audit_record\<close> is \<open>audit::record\<close>, which masks
  the sensitive keys of the three JSON columns before it inserts the row;
  \<open>sanitize_audit_value\<close> is applied again when a log is read
  (\<open>From<AuditLog> for AuditLogDetail\<close>).
\<close>

record audit_log_input =
  ai_tenant_id :: "uuid option"
  ai_actor_type :: string
  ai_actor_id :: "uuid option"
  ai_action :: string
  ai_resource_type :: string
  ai_resource_id :: "uuid option"
  ai_ip :: "string option"
  ai_user_agent :: "string option"
  ai_request_id :: "string option"
  ai_before_json :: "json option"
  ai_after_json :: "json option"
  ai_metadata_json :: json

record audit_log =
  al_id :: uuid
  al_tenant_id :: "uuid option"
  al_actor_type :: string
  al_actor_id :: "uuid option"
  al_action :: string
  al_resource_type :: string
  al_resource_id :: "uuid option"
  al_ip :: "string option"
  al_user_agent :: "string option"
  al_request_id :: "string option"
  al_before_json :: "json option"
  al_after_json :: "json option"
  al_metadata_json :: json
  al_created_at :: time

record audit_log_query =
  aq_actor_id :: "uuid option"
  aq_action :: "string option"
  aq_resource_type :: "string option"
  aq_resource_id :: "uuid option"
  aq_start_at :: "time option"
  aq_end_at :: "time option"
  aq_page :: "int option"
  aq_page_size :: "int option"

definition sensitive_audit_keys :: "string list" where
  "sensitive_audit_keys =
     [''password'', ''old_password'', ''new_password'', ''password_hash'', ''token'',
      ''token_hash'', ''access_token'', ''refresh_token'', ''refresh_token_hash'',
      ''api_key'', ''secret'', ''app_secret'', ''app_secret_hash'', ''authorization'',
      ''license_key'', ''license_key_hash'', ''private_key'', ''private_key_envelope'',
      ''recovery_code'', ''recovery_codes'', ''mfa_secret'']"

definition is_sensitive_audit_key :: "string \<Rightarrow> bool" where
  "is_sensitive_audit_key key \<longleftrightarrow> to_ascii_lowercase key \<in> set sensitive_audit_keys"

fun sanitize_audit_value :: "json \<Rightarrow> json" where
  "sanitize_audit_value (JObject kvs) =
     JObject (map (\<lambda>(k, v). (k, if is_sensitive_audit_key k then JString ''***''
                               else sanitize_audit_value v)) kvs)"
| "sanitize_audit_value (JArray vs) = JArray (map sanitize_audit_value vs)"
| "sanitize_audit_value other = other"

text \<open>
  The row \<open>record\<close> inserts. \<open>inet\<close> is postgres' cast of the address, which fails on a text
  that is not one, \<open>db_error\<close> the text of the database's error, \<open>fresh\<close> the row's uuid.
\<close>

definition audit_log_row ::
    "(string \<Rightarrow> string option) \<Rightarrow> string \<Rightarrow> uuid \<Rightarrow> time \<Rightarrow> audit_log_input
      \<Rightarrow> app_error + audit_log" where
  "audit_log_row inet db_error fresh db_now i =
     (let row = (\<lambda>ip. Inr \<lparr>al_id = fresh, al_tenant_id = ai_tenant_id i,
            al_actor_type = ai_actor_type i, al_actor_id = ai_actor_id i,
            al_action = ai_action i, al_resource_type = ai_resource_type i,
            al_resource_id = ai_resource_id i, al_ip = ip, al_user_agent = ai_user_agent i,
            al_request_id = ai_request_id i,
            al_before_json = map_option sanitize_audit_value (ai_before_json i),
            al_after_json = map_option sanitize_audit_value (ai_after_json i),
            al_metadata_json = sanitize_audit_value (ai_metadata_json i),
            al_created_at = db_now\<rparr>)
      in case ai_ip i of
           None \<Rightarrow> row None
         | Some a \<Rightarrow> (case inet a of
             Some x \<Rightarrow> row (Some x)
           | None \<Rightarrow> Inl (Dependency (''audit log database error: '' @ db_error))))"

definition audit_clean_optional :: "string option \<Rightarrow> string option" where
  "audit_clean_optional v =
     (case v of None \<Rightarrow> None | Some s \<Rightarrow> (let t = trim s in if t = [] then None else Some t))"

definition code_filter_char :: "char \<Rightarrow> bool" where
  "code_filter_char c \<longleftrightarrow>
     (48 \<le> byte c \<and> byte c \<le> 57) \<or> (65 \<le> byte c \<and> byte c \<le> 90) \<or> (97 \<le> byte c \<and> byte c \<le> 122)
     \<or> c = CHR ''_'' \<or> c = CHR ''-'' \<or> c = CHR ''.'' \<or> c = CHR '':''"

definition validate_code_filter :: "string \<Rightarrow> string \<Rightarrow> app_error + unit" where
  "validate_code_filter value field =
     (if list_all code_filter_char value then Inr ()
      else Inl (ValidationFailed (field @ '' is invalid'')))"

definition validate_audit_log_query :: "audit_log_query \<Rightarrow> app_error + unit" where
  "validate_audit_log_query q =
     rs_bind (case (aq_start_at q, aq_end_at q) of
                (Some s, Some e) \<Rightarrow>
                  if e < s
                  then Inl (ValidationFailed ''end_at must be greater than or equal to start_at'')
                  else Inr ()
              | _ \<Rightarrow> Inr ()) (\<lambda>_.
     rs_bind (case audit_clean_optional (aq_action q) of
                Some a \<Rightarrow> validate_code_filter a ''action'' | None \<Rightarrow> Inr ()) (\<lambda>_.
     rs_bind (case audit_clean_optional (aq_resource_type q) of
                Some r \<Rightarrow> validate_code_filter r ''resource_type'' | None \<Rightarrow> Inr ()) (\<lambda>_.
     Inr ())))"

text \<open>
  The rows a query selects, of one tenant only. \<open>order by created_at desc, id desc\<close> with
  \<open>limit\<close> and \<open>offset\<close>: the sort is stable and total on the pair.
\<close>

definition audit_query_matches :: "uuid \<Rightarrow> audit_log_query \<Rightarrow> audit_log \<Rightarrow> bool" where
  "audit_query_matches tenant q l \<longleftrightarrow>
     al_tenant_id l = Some tenant
     \<and> (aq_actor_id q = None \<or> al_actor_id l = aq_actor_id q)
     \<and> (case audit_clean_optional (aq_action q) of None \<Rightarrow> True | Some a \<Rightarrow> al_action l = a)
     \<and> (case audit_clean_optional (aq_resource_type q) of None \<Rightarrow> True
          | Some r \<Rightarrow> al_resource_type l = r)
     \<and> (aq_resource_id q = None \<or> al_resource_id l = aq_resource_id q)
     \<and> (case aq_start_at q of None \<Rightarrow> True | Some s \<Rightarrow> s \<le> al_created_at l)
     \<and> (case aq_end_at q of None \<Rightarrow> True | Some e \<Rightarrow> al_created_at l \<le> e)"

fun insert_newest :: "audit_log \<Rightarrow> audit_log list \<Rightarrow> audit_log list" where
  "insert_newest l [] = [l]"
| "insert_newest l (m # ms) =
     (if al_created_at m < al_created_at l
         \<or> (al_created_at m = al_created_at l \<and> al_id m \<le> al_id l)
      then l # m # ms else m # insert_newest l ms)"

definition list_with_bounds ::
    "uuid \<Rightarrow> audit_log_query \<Rightarrow> nat \<Rightarrow> nat \<Rightarrow> audit_log list \<Rightarrow> audit_log list" where
  "list_with_bounds tenant q limit offset logs =
     take limit (drop offset (foldr insert_newest (filter (audit_query_matches tenant q) logs) []))"

text \<open>\<open>(page - 1) * page_size\<close> is computed in \<open>u32\<close>, which wraps in a release build.\<close>

definition audit_list :: "uuid \<Rightarrow> audit_log_query \<Rightarrow> audit_log list \<Rightarrow> app_error + audit_log list"
  where
  "audit_list tenant q logs =
     rs_bind (validate_audit_log_query q) (\<lambda>_.
     let page = max 1 (case aq_page q of None \<Rightarrow> 1 | Some p \<Rightarrow> p);
         page_size = clamp_int (case aq_page_size q of None \<Rightarrow> 20 | Some n \<Rightarrow> n) 1 100;
         offset = ((page - 1) * page_size) mod 4294967296
     in Inr (list_with_bounds tenant q (nat page_size) (nat offset) logs))"

definition audit_export :: "uuid \<Rightarrow> audit_log_query \<Rightarrow> audit_log list \<Rightarrow> app_error + audit_log list"
  where
  "audit_export tenant q logs =
     rs_bind (validate_audit_log_query q) (\<lambda>_. Inr (list_with_bounds tenant q 1000 0 logs))"

definition audit_log_detail :: "audit_log \<Rightarrow> audit_log" where
  "audit_log_detail l =
     l\<lparr>al_before_json := map_option sanitize_audit_value (al_before_json l),
       al_after_json := map_option sanitize_audit_value (al_after_json l),
       al_metadata_json := sanitize_audit_value (al_metadata_json l)\<rparr>"


section \<open>Masking\<close>

text \<open>\<open>json_within v w\<close>: the value \<open>w\<close> occurs in \<open>v\<close>, at any depth.\<close>

inductive json_within :: "json \<Rightarrow> json \<Rightarrow> bool" where
  here: "json_within v v"
| elem: "x \<in> set vs \<Longrightarrow> json_within x w \<Longrightarrow> json_within (JArray vs) w"
| field: "(k, x) \<in> set kvs \<Longrightarrow> json_within x w \<Longrightarrow> json_within (JObject kvs) w"

lemma sanitize_string: "sanitize_audit_value v = JObject ps \<Longrightarrow> \<exists>kvs. v = JObject kvs"
  by (cases v) auto

lemma sanitize_masks_within:
  assumes "json_within (sanitize_audit_value v) (JObject ps)"
    and "(k, x) \<in> set ps" and "is_sensitive_audit_key k"
  shows "x = JString ''***''"
  using assms(1)
proof (induction v rule: sanitize_audit_value.induct)
  case (1 kvs)
  from 1(2) show ?case
  proof (cases rule: json_within.cases)
    case here
    with assms(2,3) show ?thesis by auto
  next
    case (field k' y ps')
    then obtain v' where v': "(k', v') \<in> set kvs"
      and y: "y = (if is_sensitive_audit_key k' then JString ''***'' else sanitize_audit_value v')"
      by auto
    have "\<not> is_sensitive_audit_key k'"
    proof
      assume "is_sensitive_audit_key k'"
      with y field have "json_within (JString ''***'') (JObject ps)" by simp
      then show False by (cases rule: json_within.cases)
    qed
    with 1(1) v' y field show ?thesis by simp
  next
    case (elem y vs)
    then show ?thesis by simp
  qed
next
  case (2 vs)
  from 2(2) show ?case
  proof (cases rule: json_within.cases)
    case (elem y vs')
    with 2(1) show ?thesis by auto
  qed simp_all
qed (auto elim: json_within.cases)

lemma sanitize_idem: "sanitize_audit_value (sanitize_audit_value v) = sanitize_audit_value v"
  by (induction v rule: sanitize_audit_value.induct) auto

lemma set_insert_newest: "set (insert_newest l ms) = insert l (set ms)"
  by (induction ms) auto

lemma set_sorted_logs: "set (foldr insert_newest ls []) = set ls"
  by (induction ls) (auto simp: set_insert_newest)

lemma list_with_bounds_matches:
  "l \<in> set (list_with_bounds tenant q n k logs) \<Longrightarrow> l \<in> set logs \<and> audit_query_matches tenant q l"
  unfolding list_with_bounds_def
  by (drule in_set_takeD, drule in_set_dropD) (simp add: set_sorted_logs)


section \<open>Properties\<close>

text \<open>
  Whatever the handlers pass to the audit log, no stored JSON column holds, at any
  depth, a value under a sensitive key other than the mask, in any spelling of the key's
  case.
\<close>

theorem audit_rows_are_masked:
  assumes "audit_log_row inet db_error fresh db_now i = Inr row"
    and "v \<in> set_option (al_before_json row) \<union> set_option (al_after_json row) \<union> {al_metadata_json row}"
    and "json_within v (JObject kvs)" and "(k, x) \<in> set kvs"
    and "to_ascii_lowercase k \<in> set sensitive_audit_keys"
  shows "x = JString ''***''"
proof -
  from assms(1) have "al_before_json row = map_option sanitize_audit_value (ai_before_json i)"
    "al_after_json row = map_option sanitize_audit_value (ai_after_json i)"
    "al_metadata_json row = sanitize_audit_value (ai_metadata_json i)"
    by (auto simp: audit_log_row_def Let_def split: option.splits)
  with assms(2) obtain w where "v = sanitize_audit_value w" by auto
  with assms(3-5) show ?thesis
    using sanitize_masks_within [of w kvs k x] by (simp add: is_sensitive_audit_key_def)
qed

definition sample_audit_input :: audit_log_input where
  "sample_audit_input = \<lparr>ai_tenant_id = Some 1, ai_actor_type = ''team_member'', ai_actor_id = None,
     ai_action = ''app.create'', ai_resource_type = ''app'', ai_resource_id = None, ai_ip = None,
     ai_user_agent = None, ai_request_id = None, ai_before_json = None, ai_after_json = None,
     ai_metadata_json = JArray [JObject [(''Api_Key'', JString ''ak_live'')]]\<rparr>"

theorem audit_rows_are_masked_witness:
  "\<exists>row v. audit_log_row Some ''e'' 1 5 sample_audit_input = Inr row
     \<and> al_metadata_json row = JArray [JObject [(''Api_Key'', v)]] \<and> v = JString ''***''"
proof -
  have sensitive: "to_ascii_lowercase ''Api_Key'' \<in> set sensitive_audit_keys" by code_simp
  obtain row where r: "audit_log_row Some ''e'' 1 5 sample_audit_input = Inr row"
    by (simp add: audit_log_row_def sample_audit_input_def)
  then obtain v where m: "al_metadata_json row = JArray [JObject [(''Api_Key'', v)]]"
    by (auto simp: audit_log_row_def sample_audit_input_def)
  have "json_within (al_metadata_json row) (JObject [(''Api_Key'', v)])"
    unfolding m by (rule json_within.elem) (auto intro: json_within.here)
  from audit_rows_are_masked [OF r _ this _ sensitive, of v] have "v = JString ''***''" by simp
  with r m show ?thesis by blast
qed

text \<open>
  A listing or an export of the audit log holds rows of the caller's tenant only, at
  most the page size or a thousand of them, and only rows that match the query.
\<close>

theorem audit_listing_is_tenant_local:
  assumes "audit_list tenant q logs = Inr page" and "audit_export tenant q logs = Inr all"
    and "l \<in> set page \<union> set all"
  shows "al_tenant_id l = Some tenant \<and> l \<in> set logs \<and> length page \<le> 100 \<and> length all \<le> 1000
    \<and> (\<forall>e. aq_end_at q = Some e \<longrightarrow> al_created_at l \<le> e)"
proof -
  obtain n k where page: "page = list_with_bounds tenant q n k logs" and "n \<le> 100"
    using assms(1) clamp_int_bounds [of 1 100 "case aq_page_size q of None \<Rightarrow> 20 | Some n \<Rightarrow> n"]
    by (auto simp: audit_list_def rs_bind_Inr Let_def)
  then have p: "length page \<le> 100" by (simp add: list_with_bounds_def)
  have "all = list_with_bounds tenant q 1000 0 logs"
    using assms(2) by (auto simp: audit_export_def rs_bind_Inr)
  with page assms(3) have all: "length all \<le> 1000"
    and l: "\<exists>n k. l \<in> set (list_with_bounds tenant q n k logs)"
    by (auto simp: list_with_bounds_def simp del: drop0)
  from l list_with_bounds_matches have "l \<in> set logs \<and> audit_query_matches tenant q l" by blast
  with p all show ?thesis by (auto simp: audit_query_matches_def)
qed

definition sample_query :: audit_log_query where
  "sample_query = \<lparr>aq_actor_id = None, aq_action = None, aq_resource_type = None, aq_resource_id = None,
     aq_start_at = None, aq_end_at = Some 9, aq_page = None, aq_page_size = Some 500\<rparr>"

definition sample_log :: "uuid \<Rightarrow> audit_log" where
  "sample_log t = \<lparr>al_id = t, al_tenant_id = Some t, al_actor_type = ''system'', al_actor_id = None,
     al_action = ''a'', al_resource_type = ''r'', al_resource_id = None, al_ip = None,
     al_user_agent = None, al_request_id = None, al_before_json = None, al_after_json = None,
     al_metadata_json = JNull, al_created_at = 5\<rparr>"

theorem audit_listing_is_tenant_local_witness:
  "\<exists>page. audit_list 1 sample_query [sample_log 1, sample_log 2] = Inr page \<and> sample_log 1 \<in> set page
     \<and> al_tenant_id (sample_log 1) = Some 1"
proof -
  have a: "audit_list 1 sample_query [sample_log 1, sample_log 2] = Inr [sample_log 1]"
    and b: "audit_export 1 sample_query [sample_log 1, sample_log 2] = Inr [sample_log 1]"
    by (simp_all add: audit_list_def audit_export_def validate_audit_log_query_def sample_query_def
        audit_clean_optional_def rs_bind_def list_with_bounds_def audit_query_matches_def sample_log_def
        clamp_int_def)
  from audit_listing_is_tenant_local [OF a b, of "sample_log 1"] a show ?thesis by simp
qed

end
