(* ===== verification/RateLimit.thy ===== *)
theory RateLimit
  imports Errors
begin

text \<open>
  The fixed-window rate limiter (\<open>backend/src/rate_limit.rs\<close>) on its redis store. A store
  maps a key to its value and, when one was set, the time its entry expires at; a read
  at or after that time finds nothing. The commands are redis' documented ones: \<open>INCR\<close>
  starts a missing key at 1 without a time to live and keeps that of a present one, \<open>SETNX\<close>
  stores only a missing key, \<open>EXPIRE\<close> sets the time to live of a present key.

  A command can fail: \<open>redis_fault\<close> says which of connection, first and second command of
  the request does.
\<close>

record redis_entry =
  red_count :: nat
  red_expires_at :: "time option"

type_synonym redis = "string \<Rightarrow> redis_entry option"

record redis_fault =
  fault_connect :: bool
  fault_command :: bool
  fault_expire :: bool
  fault_text :: string

definition redis_get :: "time \<Rightarrow> string \<Rightarrow> redis \<Rightarrow> redis_entry option" where
  "redis_get now key r =
     (case r key of
        None \<Rightarrow> None
      | Some e \<Rightarrow> (case red_expires_at e of
          None \<Rightarrow> Some e
        | Some t \<Rightarrow> if t \<le> now then None else Some e))"

definition redis_incr :: "time \<Rightarrow> string \<Rightarrow> redis \<Rightarrow> nat \<times> redis" where
  "redis_incr now key r =
     (case redis_get now key r of
        None \<Rightarrow> (1, r(key \<mapsto> \<lparr>red_count = 1, red_expires_at = None\<rparr>))
      | Some e \<Rightarrow> (Suc (red_count e), r(key \<mapsto> e\<lparr>red_count := Suc (red_count e)\<rparr>)))"

definition redis_set_nx :: "time \<Rightarrow> string \<Rightarrow> redis \<Rightarrow> bool \<times> redis" where
  "redis_set_nx now key r =
     (case redis_get now key r of
        None \<Rightarrow> (True, r(key \<mapsto> \<lparr>red_count = 1, red_expires_at = None\<rparr>))
      | Some e \<Rightarrow> (False, r))"

definition redis_expire :: "time \<Rightarrow> string \<Rightarrow> int \<Rightarrow> redis \<Rightarrow> redis" where
  "redis_expire now key ttl r =
     (case redis_get now key r of
        None \<Rightarrow> r
      | Some e \<Rightarrow> r(key \<mapsto> e\<lparr>red_expires_at := Some (now + seconds ttl)\<rparr>))"

definition check_fixed_window ::
    "redis_fault \<Rightarrow> time \<Rightarrow> string \<Rightarrow> nat \<Rightarrow> nat \<Rightarrow> app_error \<Rightarrow> (redis, app_error, unit) io"
  where
  "check_fixed_window fault now key max_attempts window limited r =
     (if max_attempts = 0 then (Inl limited, r)
      else if window = 0
        then (Inl (Config ''rate limit window_seconds must be greater than 0''), r)
      else if fault_connect fault
        then (Inl (Dependency (''redis connection failed: '' @ fault_text fault)), r)
      else if fault_command fault
        then (Inl (Dependency (''redis rate limit incr failed: '' @ fault_text fault)), r)
      else
        (let (count, r1) = redis_incr now key r in
         if count = 1 \<and> fault_expire fault
           then (Inl (Dependency (''redis rate limit expire failed: '' @ fault_text fault)), r1)
         else
           (let r2 = (if count = 1 then redis_expire now key (int window) r1 else r1) in
            if count > max_attempts then (Inl limited, r2) else (Inr (), r2))))"


section \<open>The keys\<close>

definition key_char :: "char \<Rightarrow> bool" where
  "key_char c \<longleftrightarrow>
     (97 \<le> byte c \<and> byte c \<le> 122) \<or> (65 \<le> byte c \<and> byte c \<le> 90) \<or> (48 \<le> byte c \<and> byte c \<le> 57)
     \<or> c = CHR ''-'' \<or> c = CHR ''_'' \<or> c = CHR ''.'' \<or> c = CHR ''@''"

text \<open>
  \<open>chars().map(..)\<close> replaces each other character by one underscore: the leading byte of
  a longer UTF-8 sequence is replaced, its continuation bytes are dropped.
\<close>

definition key_part :: "string \<Rightarrow> string" where
  "key_part value =
     (let n = trim value
      in if n = [] then ''empty''
         else map (\<lambda>c. if key_char c then c else CHR ''_'')
                (filter (\<lambda>c. \<not> (128 \<le> byte c \<and> byte c < 192)) n))"

definition client_ip :: "string option \<Rightarrow> string" where
  "client_ip header =
     (case header of
        None \<Rightarrow> ''unknown''
      | Some v \<Rightarrow> (let t = trim v in if t = [] then ''unknown'' else t))"

definition login_key :: "(string \<Rightarrow> string) \<Rightarrow> string \<Rightarrow> string \<Rightarrow> string" where
  "login_key lower email ip =
     ''rate:login:'' @ key_part (lower (trim email)) @ '':'' @ key_part ip"

definition activation_key :: "string \<Rightarrow> string \<Rightarrow> string \<Rightarrow> string" where
  "activation_key app_key machine ip =
     ''rate:activation:'' @ key_part (trim app_key) @ '':'' @ key_part (trim machine) @ '':''
       @ key_part ip"

definition refresh_key :: "string \<Rightarrow> string \<Rightarrow> string" where
  "refresh_key session ip = ''rate:refresh:'' @ key_part session @ '':'' @ key_part ip"

definition heartbeat_key :: "string \<Rightarrow> string" where
  "heartbeat_key device = ''rate:heartbeat:'' @ key_part device"

definition client_action_key :: "string \<Rightarrow> string \<Rightarrow> string" where
  "client_action_key action device =
     ''rate:client_action:'' @ key_part action @ '':'' @ key_part device"

definition email_verify_key :: "string \<Rightarrow> string \<Rightarrow> string" where
  "email_verify_key subject ip = ''rate:email_verify:'' @ key_part subject @ '':'' @ key_part ip"

definition mfa_key :: "string \<Rightarrow> string \<Rightarrow> string" where
  "mfa_key subject ip = ''rate:mfa:'' @ key_part subject @ '':'' @ key_part ip"

definition download_key :: "string \<Rightarrow> string \<Rightarrow> string" where
  "download_key file device = ''rate:download:'' @ key_part file @ '':'' @ key_part device"

definition ai_gateway_key :: "string \<Rightarrow> string" where
  "ai_gateway_key api_key = ''rate:ai_gateway:'' @ key_part api_key"

definition check_client_action ::
    "redis_fault \<Rightarrow> time \<Rightarrow> nat \<Rightarrow> nat \<Rightarrow> string \<Rightarrow> string \<Rightarrow> (redis, app_error, unit) io" where
  "check_client_action fault now max_attempts window action device =
     check_fixed_window fault now (client_action_key action device) max_attempts window
       rate_limited"


section \<open>The window\<close>

definition no_fault :: redis_fault where
  "no_fault = \<lparr>fault_connect = False, fault_command = False, fault_expire = False,
               fault_text = []\<rparr>"

text \<open>One attempt per element of \<open>ts\<close>, and how many of them were let through.\<close>

fun attempts :: "string \<Rightarrow> nat \<Rightarrow> nat \<Rightarrow> app_error \<Rightarrow> time list \<Rightarrow> redis \<Rightarrow> nat" where
  "attempts key m w limited [] r = 0"
| "attempts key m w limited (t # ts) r =
     (case check_fixed_window no_fault t key m w limited r of
        (Inr _, r') \<Rightarrow> Suc (attempts key m w limited ts r')
      | (Inl _, r') \<Rightarrow> attempts key m w limited ts r')"

lemma key_char_underscore [simp]: "key_char CHR ''_''"
  by (simp add: key_char_def)

lemma key_char_empty: "list_all key_char ''empty''"
  by code_simp

lemma key_part_chars: "c \<in> set (key_part v) \<Longrightarrow> key_char c"
  using key_char_empty unfolding key_part_def Let_def list_all_iff
  by (auto simp only: set_map set_filter split: if_splits) (auto split: if_splits)

lemma key_char_colon [simp]: "\<not> key_char CHR '':''"
  by (simp add: key_char_def byte_def)

lemma colon_not_in_key_part [simp]: "CHR '':'' \<notin> set (key_part v)"
  using key_part_chars key_char_colon by blast

lemma append_sep_inj:
  "x @ c # y = x' @ c # y' \<Longrightarrow> c \<notin> set x \<Longrightarrow> c \<notin> set x' \<Longrightarrow> x = x' \<and> y = y'"
proof (induction x arbitrary: x')
  case Nil
  then show ?case by (cases x') auto
next
  case (Cons a x)
  then show ?case by (cases x') auto
qed

text \<open>
  While the entry of a key is live, only the attempts that find the counter below the
  limit pass.
\<close>

lemma check_live:
  assumes "r key = Some e" and "red_expires_at e = Some x" and "t < x"
    and "0 < m" and "0 < w" and "0 < red_count e"
  shows "check_fixed_window no_fault t key m w limited r =
    ((if red_count e < m then Inr () else Inl limited),
     r(key \<mapsto> e\<lparr>red_count := Suc (red_count e)\<rparr>))"
  using assms
  by (simp add: check_fixed_window_def no_fault_def redis_incr_def redis_get_def Let_def)

lemma attempts_live:
  assumes "r key = Some e" and "red_expires_at e = Some x" and "\<And>t. t \<in> set ts \<Longrightarrow> t < x"
    and "0 < m" and "0 < w" and "0 < red_count e"
  shows "attempts key m w limited ts r = min (length ts) (m - red_count e)"
  using assms(1-3) assms(6)
proof (induction ts arbitrary: r e)
  case Nil
  then show ?case by simp
next
  case (Cons t ts)
  let ?e = "e\<lparr>red_count := Suc (red_count e)\<rparr>"
  have step: "check_fixed_window no_fault t key m w limited r =
    ((if red_count e < m then Inr () else Inl limited), r(key \<mapsto> ?e))"
    using Cons.prems assms(4,5) by (intro check_live) auto
  have "attempts key m w limited ts (r(key \<mapsto> ?e)) = min (length ts) (m - red_count ?e)"
    using Cons.prems by (intro Cons.IH) auto
  with step show ?case by auto
qed

text \<open>
  An entry without a time to live stays without one: only a counter of 1 sets it. So all
  later attempts together pass at most as often as the limit leaves.
\<close>

lemma check_immortal:
  assumes "r key = Some e" and "red_expires_at e = None" and "0 < red_count e"
    and "0 < m" and "0 < w"
  shows "check_fixed_window no_fault t key m w limited r =
    ((if red_count e < m then Inr () else Inl limited),
     r(key \<mapsto> e\<lparr>red_count := Suc (red_count e)\<rparr>))"
  using assms
  by (simp add: check_fixed_window_def no_fault_def redis_incr_def redis_get_def Let_def)

lemma attempts_immortal:
  assumes "r key = Some e" and "red_expires_at e = None" and "0 < red_count e"
    and "0 < m" and "0 < w"
  shows "attempts key m w limited ts r = min (length ts) (m - red_count e)"
  using assms(1-3)
proof (induction ts arbitrary: r e)
  case Nil
  then show ?case by simp
next
  case (Cons t ts)
  let ?e = "e\<lparr>red_count := Suc (red_count e)\<rparr>"
  have step: "check_fixed_window no_fault t key m w limited r =
    ((if red_count e < m then Inr () else Inl limited), r(key \<mapsto> ?e))"
    using Cons.prems assms(4,5) by (intro check_immortal) auto
  have "attempts key m w limited ts (r(key \<mapsto> ?e)) = min (length ts) (m - red_count ?e)"
    using Cons.prems by (intro Cons.IH) auto
  with step show ?case by auto
qed

lemma check_first:
  assumes "redis_get t key r = None" and "0 < m" and "0 < w"
  shows "check_fixed_window no_fault t key m w limited r =
    (Inr (), r(key \<mapsto> \<lparr>red_count = 1, red_expires_at = Some (t + seconds (int w))\<rparr>))"
  using assms
  by (simp add: check_fixed_window_def no_fault_def redis_incr_def redis_expire_def Let_def)
    (simp add: redis_get_def)


section \<open>Properties\<close>

text \<open>
  Of the attempts made in one window, the one that opens it included, exactly the
  first \<open>max_attempts\<close> pass, whatever their number and times.
\<close>

theorem window_admits_max_attempts:
  assumes "redis_get t key r = None" and "0 < m" and "0 < w"
    and "\<And>u. u \<in> set ts \<Longrightarrow> u < t + seconds (int w)"
  shows "attempts key m w limited (t # ts) r = min (Suc (length ts)) m"
proof -
  let ?r = "r(key \<mapsto> \<lparr>red_count = 1, red_expires_at = Some (t + seconds (int w))\<rparr>)"
  have "attempts key m w limited ts ?r = min (length ts) (m - 1)"
    using attempts_live [of ?r key] assms(2-4) by simp
  with check_first [OF assms(1-3)] assms(2) show ?thesis by auto
qed

theorem window_admits_max_attempts_witness:
  "attempts ''k'' 2 60 rate_limited [0, seconds 10, seconds 20, seconds 59] Map.empty = 2"
  by (subst window_admits_max_attempts) (auto simp: redis_get_def)

text \<open>
  C32. When the \<open>EXPIRE\<close> after the first \<open>INCR\<close> of a key fails, the key never expires: all
  attempts ever made after it pass at most \<open>max_attempts - 1\<close> times in total, however many
  windows lie between them.
\<close>

theorem failed_expire_locks_key:
  assumes "redis_get t key r = None" and "0 < m" and "0 < w" and "fault_expire fault"
    and "\<not> fault_connect fault" and "\<not> fault_command fault"
    and "check_fixed_window fault t key m w limited r = (x, r')"
  shows "attempts key m w limited ts r' = min (length ts) (m - 1)
    \<and> x = Inl (Dependency (''redis rate limit expire failed: '' @ fault_text fault))"
proof -
  have "r' = r(key \<mapsto> \<lparr>red_count = 1, red_expires_at = None\<rparr>)"
    and "x = Inl (Dependency (''redis rate limit expire failed: '' @ fault_text fault))"
    using assms by (simp_all add: check_fixed_window_def redis_incr_def Let_def)
  with attempts_immortal [of r' key _ m w limited ts] assms(2,3) show ?thesis by simp
qed

theorem failed_expire_locks_key_witness:
  "attempts ''k'' 3 60 rate_limited [seconds 100, seconds 1000, seconds 10000]
     (snd (check_fixed_window (no_fault\<lparr>fault_expire := True\<rparr>) 0 ''k'' 3 60 rate_limited Map.empty))
   = 2"
  using failed_expire_locks_key [of 0 "''k''" Map.empty 3 60 "no_fault\<lparr>fault_expire := True\<rparr>"
      rate_limited _ _ "[seconds 100, seconds 1000, seconds 10000]", OF _ _ _ _ _ _ prod.collapse [symmetric]]
  by (simp add: redis_get_def no_fault_def)

text \<open>
  Two refresh attempts share a counter only when both the session and the address
  normalise to the same part, and no other limiter uses the counter of a refresh.
\<close>

theorem refresh_keys_separate:
  "(refresh_key s a = refresh_key s' a' \<longleftrightarrow> key_part s = key_part s' \<and> key_part a = key_part a')
   \<and> refresh_key s a \<noteq> heartbeat_key d \<and> refresh_key s a \<noteq> client_action_key c d
   \<and> refresh_key s a \<noteq> activation_key k m i \<and> refresh_key s a \<noteq> login_key lower e i
   \<and> refresh_key s a \<noteq> mfa_key d i \<and> refresh_key s a \<noteq> email_verify_key d i
   \<and> refresh_key s a \<noteq> download_key d i \<and> refresh_key s a \<noteq> ai_gateway_key k"
proof -
  have "refresh_key s a = refresh_key s' a' \<longleftrightarrow> key_part s = key_part s' \<and> key_part a = key_part a'"
    using append_sep_inj [of "key_part s" "CHR '':''" "key_part a" "key_part s'" "key_part a'"]
    by (auto simp: refresh_key_def)
  then show ?thesis
    by (simp add: refresh_key_def heartbeat_key_def client_action_key_def activation_key_def
        login_key_def mfa_key_def email_verify_key_def download_key_def ai_gateway_key_def)
qed

end
