(* ===== verification/AccessModel.thy ===== *)
theory AccessModel
  imports AuditLog RateLimit
begin

text \<open>
  The rows of the access part of the database and the state its handlers run on:
  \<open>License\<close> and \<open>Subscription\<close> (\<open>modules/license/model.rs\<close>,
  \<open>modules/subscription/model.rs\<close>), \<open>Device\<close>, \<open>DeviceKey\<close> and the blacklist
  (\<open>modules/device/model.rs\<close>), \<open>ClientSession\<close> and \<open>ClientRefreshToken\<close>
  (\<open>modules/client_auth/model.rs\<close>), with the columns of tenants and applications the
  client handlers read. Statuses are the strings the columns hold.

  \<open>access_db\<close> is the database: one list of rows per table. \<open>access_env\<close> is what one
  request gets from outside: Rust's clock (\<open>Utc::now()\<close>), the database's clock
  (\<open>now()\<close>) and the fresh uuids the request draws.
\<close>

record tenant =
  ten_id :: uuid
  ten_status :: string
  ten_deleted_at :: "time option"

record application =
  app_id :: uuid
  app_tenant_id :: uuid
  app_key :: string
  app_status :: string
  app_auth_mode :: string
  app_deleted_at :: "time option"

record customer =
  cus_id :: uuid
  cus_tenant_id :: uuid
  cus_email :: string
  cus_password_hash :: "string option"
  cus_status :: string
  cus_deleted_at :: "time option"

record license =
  lic_id :: uuid
  lic_tenant_id :: uuid
  lic_app_id :: uuid
  lic_customer_id :: "uuid option"
  lic_license_key_hash :: string
  lic_license_type :: string
  lic_status :: string
  lic_max_devices :: int
  lic_features :: json
  lic_starts_at :: "time option"
  lic_expires_at :: "time option"
  lic_revoked_at :: "time option"
  lic_metadata :: json
  lic_created_at :: time
  lic_updated_at :: time
  lic_deleted_at :: "time option"

record subscription =
  sub_id :: uuid
  sub_tenant_id :: uuid
  sub_app_id :: uuid
  sub_customer_id :: uuid
  sub_plan :: string
  sub_status :: string
  sub_max_devices :: int
  sub_features :: json
  sub_starts_at :: time
  sub_expires_at :: "time option"
  sub_cancelled_at :: "time option"
  sub_metadata :: json
  sub_created_at :: time
  sub_updated_at :: time
  sub_deleted_at :: "time option"

record device =
  dev_id :: uuid
  dev_tenant_id :: uuid
  dev_app_id :: uuid
  dev_customer_id :: "uuid option"
  dev_license_id :: "uuid option"
  dev_subscription_id :: "uuid option"
  dev_machine_id :: string
  dev_device_name :: "string option"
  dev_os :: "string option"
  dev_app_version :: "string option"
  dev_status :: string
  dev_first_seen_at :: time
  dev_last_seen_at :: "time option"
  dev_metadata :: json
  dev_created_at :: time
  dev_updated_at :: time
  dev_deleted_at :: "time option"

record blacklist_entry =
  bl_id :: uuid
  bl_tenant_id :: uuid
  bl_app_id :: "uuid option"
  bl_machine_id :: string
  bl_reason :: "string option"
  bl_created_by :: "uuid option"
  bl_created_at :: time

record device_key =
  dk_id :: uuid
  dk_tenant_id :: uuid
  dk_app_id :: uuid
  dk_device_id :: uuid
  dk_public_key :: string
  dk_algorithm :: string
  dk_status :: string
  dk_created_at :: time
  dk_rotated_at :: "time option"
  dk_revoked_at :: "time option"

record client_session =
  ses_id :: uuid
  ses_tenant_id :: uuid
  ses_app_id :: uuid
  ses_customer_id :: "uuid option"
  ses_device_id :: uuid
  ses_machine_id :: string
  ses_auth_mode :: string
  ses_user_agent :: "string option"
  ses_client_ip :: "string option"
  ses_last_used_at :: "time option"
  ses_expires_at :: time
  ses_revoked_at :: "time option"
  ses_created_at :: time

record client_refresh_token =
  rt_id :: uuid
  rt_session_id :: uuid
  rt_token_hash :: string
  rt_created_at :: time
  rt_expires_at :: time
  rt_used_at :: "time option"
  rt_revoked_at :: "time option"

record signing_key =
  sk_id :: uuid
  sk_tenant_id :: "uuid option"
  sk_app_id :: "uuid option"
  sk_key_scope :: string
  sk_kid :: string
  sk_public_key_pem :: string
  sk_private_key_envelope :: "json option"
  sk_status :: string
  sk_not_before :: time
  sk_not_after :: "time option"
  sk_created_at :: time

record access_db =
  tenants :: "tenant list"
  applications :: "application list"
  customers :: "customer list"
  licenses :: "license list"
  subscriptions :: "subscription list"
  devices :: "device list"
  device_blacklist :: "blacklist_entry list"
  device_keys :: "device_key list"
  client_sessions :: "client_session list"
  client_refresh_tokens :: "client_refresh_token list"
  signing_keys :: "signing_key list"
  audit_logs :: "audit_log list"
  redis :: redis

record access_env =
  env_now :: time
  env_db_now :: time
  env_device_id :: uuid
  env_device_key_id :: uuid
  env_blacklist_id :: uuid
  env_session_id :: uuid
  env_refresh_token_id :: uuid
  env_license_id :: uuid
  env_subscription_id :: uuid
  env_signing_key_id :: uuid
  env_audit_id :: uuid
  env_request_id :: string
  env_db_error :: string
  env_uuid_text :: "uuid \<Rightarrow> string"
  env_time_text :: "time \<Rightarrow> string"
  env_inet :: "string \<Rightarrow> string option"
  env_lower :: "string \<Rightarrow> string"

type_synonym 'a access_tx = "(access_db, app_error, 'a) tx"
type_synonym 'a access_io = "(access_db, app_error, 'a) io"


section \<open>The constraints of the schema\<close>

text \<open>
  The check constraints of \<open>backend/migrations\<close>, with the SQL of each table. Postgres'
  \<open>btrim\<close> removes spaces only. The columns the model's operations never write are not
  repeated, nor are foreign keys: the operations never delete a referenced row.
\<close>

definition not_blank :: "string \<Rightarrow> bool" where
  "not_blank s \<longleftrightarrow> list_ex (\<lambda>c. c \<noteq> CHR '' '') s"

definition license_check :: "license \<Rightarrow> bool" where
  "license_check l \<longleftrightarrow>
     lic_status l \<in> {''active'', ''suspended'', ''revoked'', ''expired''}
     \<and> lic_license_type l \<in> {''standard'', ''trial'', ''enterprise''}
     \<and> 0 \<le> lic_max_devices l
     \<and> (case (lic_starts_at l, lic_expires_at l) of (Some s, Some e) \<Rightarrow> s < e | _ \<Rightarrow> True)"

definition subscription_check :: "subscription \<Rightarrow> bool" where
  "subscription_check s \<longleftrightarrow>
     sub_status s \<in> {''active'', ''trialing'', ''past_due'', ''cancelled'', ''expired''}
     \<and> not_blank (sub_plan s) \<and> 0 \<le> sub_max_devices s
     \<and> (case sub_expires_at s of Some e \<Rightarrow> sub_starts_at s < e | None \<Rightarrow> True)"

definition device_check :: "device \<Rightarrow> bool" where
  "device_check d \<longleftrightarrow>
     dev_status d \<in> {''active'', ''disabled'', ''blacklisted'', ''unbound''}
     \<and> not_blank (dev_machine_id d)"

definition device_clash :: "device \<Rightarrow> device \<Rightarrow> bool" where
  "device_clash d e \<longleftrightarrow>
     dev_id d = dev_id e
     \<or> (dev_tenant_id d = dev_tenant_id e \<and> dev_app_id d = dev_app_id e
        \<and> dev_machine_id d = dev_machine_id e
        \<and> dev_deleted_at d = None \<and> dev_deleted_at e = None)"

definition blacklist_check :: "blacklist_entry \<Rightarrow> bool" where
  "blacklist_check b \<longleftrightarrow> not_blank (bl_machine_id b)"

definition blacklist_clash :: "blacklist_entry \<Rightarrow> blacklist_entry \<Rightarrow> bool" where
  "blacklist_clash b c \<longleftrightarrow>
     bl_id b = bl_id c
     \<or> (bl_tenant_id b = bl_tenant_id c \<and> bl_machine_id b = bl_machine_id c
        \<and> (case bl_app_id b of None \<Rightarrow> 0 | Some a \<Rightarrow> a)
          = (case bl_app_id c of None \<Rightarrow> 0 | Some a \<Rightarrow> a))"

definition device_key_check :: "device_key \<Rightarrow> bool" where
  "device_key_check k \<longleftrightarrow>
     dk_algorithm k = ''Ed25519'' \<and> dk_status k \<in> {''active'', ''rotated'', ''revoked''}
     \<and> not_blank (dk_public_key k)"

definition device_key_clash :: "device_key \<Rightarrow> device_key \<Rightarrow> bool" where
  "device_key_clash k l \<longleftrightarrow>
     dk_id k = dk_id l
     \<or> (dk_device_id k = dk_device_id l \<and> dk_status k = ''active'' \<and> dk_status l = ''active'')"

definition client_session_check :: "client_session \<Rightarrow> bool" where
  "client_session_check s \<longleftrightarrow>
     ses_auth_mode s \<in> {''license'', ''subscription'', ''both''} \<and> not_blank (ses_machine_id s)"

definition client_session_clash :: "client_session \<Rightarrow> client_session \<Rightarrow> bool" where
  "client_session_clash s t \<longleftrightarrow> ses_id s = ses_id t"

definition refresh_token_clash :: "client_refresh_token \<Rightarrow> client_refresh_token \<Rightarrow> bool" where
  "refresh_token_clash s t \<longleftrightarrow> rt_id s = rt_id t \<or> rt_token_hash s = rt_token_hash t"

definition license_clash :: "license \<Rightarrow> license \<Rightarrow> bool" where
  "license_clash l m \<longleftrightarrow>
     lic_id l = lic_id m \<or> lic_license_key_hash l = lic_license_key_hash m"

definition subscription_clash :: "subscription \<Rightarrow> subscription \<Rightarrow> bool" where
  "subscription_clash s t \<longleftrightarrow> sub_id s = sub_id t"


section \<open>Shared steps of the handlers\<close>

text \<open>An error of the database, as each module's \<open>map_db_error\<close> maps it.\<close>

definition db_error :: "access_env \<Rightarrow> string \<Rightarrow> app_error" where
  "db_error env prefix = Dependency (prefix @ '' database error: '' @ env_db_error env)"

definition application_find_by_id :: "uuid \<Rightarrow> uuid \<Rightarrow> access_db \<Rightarrow> application option" where
  "application_find_by_id tenant i db =
     List.find (\<lambda>a. app_tenant_id a = tenant \<and> app_id a = i \<and> app_deleted_at a = None)
       (applications db)"

definition customer_find_by_id :: "uuid \<Rightarrow> uuid \<Rightarrow> access_db \<Rightarrow> customer option" where
  "customer_find_by_id tenant i db =
     List.find (\<lambda>c. cus_tenant_id c = tenant \<and> cus_id c = i \<and> cus_deleted_at c = None)
       (customers db)"

definition ensure_application_exists :: "uuid \<Rightarrow> uuid \<Rightarrow> access_db \<Rightarrow> app_error + unit" where
  "ensure_application_exists tenant i db =
     rs_bind (ok_or (application_find_by_id tenant i db) app_not_found) (\<lambda>_. Inr ())"

definition ensure_customer_exists :: "uuid \<Rightarrow> uuid \<Rightarrow> access_db \<Rightarrow> app_error + unit" where
  "ensure_customer_exists tenant i db =
     rs_bind (ok_or (customer_find_by_id tenant i db) (NotFound ''customer not found'')) (\<lambda>_. Inr ())"

text \<open>The permission check every admin handler starts with.\<close>

record admin_context =
  adm_tenant_id :: uuid
  adm_team_member_id :: uuid
  adm_permissions :: "string list"

definition ensure_admin_permission :: "admin_context \<Rightarrow> string \<Rightarrow> app_error + unit" where
  "ensure_admin_permission admin code =
     (if code \<in> set (adm_permissions admin) then Inr ()
      else Inl (Forbidden (''missing permission: '' @ code)))"

definition audit_record :: "access_env \<Rightarrow> audit_log_input \<Rightarrow> unit access_tx" where
  "audit_record env i =
     tx_bind (tx_of (audit_log_row (env_inet env) (env_db_error env) (env_audit_id env)
                (env_db_now env) i))
       (\<lambda>row. tx_modify (\<lambda>db. db\<lparr>audit_logs := audit_logs db @ [row]\<rparr>))"

text \<open>The entry of an admin handler, and the JSON of the values \<open>json!\<close> converts.\<close>

definition admin_audit ::
    "access_env \<Rightarrow> admin_context \<Rightarrow> string \<Rightarrow> string \<Rightarrow> uuid \<Rightarrow> json option \<Rightarrow> json option
      \<Rightarrow> json \<Rightarrow> audit_log_input" where
  "admin_audit env admin action resource i before_json after_json metadata =
     \<lparr>ai_tenant_id = Some (adm_tenant_id admin), ai_actor_type = ''team_member'',
      ai_actor_id = Some (adm_team_member_id admin), ai_action = action,
      ai_resource_type = resource, ai_resource_id = Some i, ai_ip = None,
      ai_user_agent = None, ai_request_id = Some (env_request_id env),
      ai_before_json = before_json, ai_after_json = after_json,
      ai_metadata_json = metadata\<rparr>"

definition json_uuid :: "access_env \<Rightarrow> uuid \<Rightarrow> json" where
  "json_uuid env u = JString (env_uuid_text env u)"

definition json_time :: "access_env \<Rightarrow> time \<Rightarrow> json" where
  "json_time env t = JString (env_time_text env t)"

definition json_int :: "int \<Rightarrow> json" where
  "json_int n = JNumber (JInt n)"

definition json_opt :: "('a \<Rightarrow> json) \<Rightarrow> 'a option \<Rightarrow> json" where
  "json_opt f v = (case v of None \<Rightarrow> JNull | Some x \<Rightarrow> f x)"

lemma audit_record_Inr:
  "audit_record env i db = Inr (u, db') \<Longrightarrow> \<exists>row. db' = db\<lparr>audit_logs := audit_logs db @ [row]\<rparr>"
  by (auto simp: audit_record_def tx_success)

lemma audit_record_no_ip:
  "ai_ip i = None \<Longrightarrow> \<exists>row. audit_record env i db = Inr ((), db\<lparr>audit_logs := audit_logs db @ [row]\<rparr>)"
  by (simp add: audit_record_def audit_log_row_def monad_simps Let_def) blast

lemma admin_audit_ip [simp]: "ai_ip (admin_audit env admin a r i b c m) = None"
  by (simp add: admin_audit_def)

lemma ensure_admin_permission_Inr:
  "ensure_admin_permission admin code = Inr () \<longleftrightarrow> code \<in> set (adm_permissions admin)"
  by (simp add: ensure_admin_permission_def)


section \<open>Concrete values\<close>

text \<open>An empty database and one request's inputs, for the concrete instances.\<close>

definition empty_db :: access_db where
  "empty_db = \<lparr>tenants = [], applications = [], customers = [], licenses = [],
     subscriptions = [], devices = [], device_blacklist = [], device_keys = [],
     client_sessions = [], client_refresh_tokens = [], signing_keys = [], audit_logs = [],
     redis = Map.empty\<rparr>"

definition sample_env :: access_env where
  "sample_env = \<lparr>env_now = 50, env_db_now = 50, env_device_id = 101, env_device_key_id = 102,
     env_blacklist_id = 103, env_session_id = 104, env_refresh_token_id = 105,
     env_license_id = 106, env_subscription_id = 107, env_signing_key_id = 108,
     env_audit_id = 109, env_request_id = ''req'', env_db_error = ''violation'',
     env_uuid_text = (\<lambda>u. replicate u CHR ''u''), env_time_text = (\<lambda>t. ''t''),
     env_inet = Some, env_lower = id\<rparr>"

end
