(* ===== verification/Entitlements.thy ===== *)
theory Entitlements
  imports AccessModel
begin

text \<open>
  The two grants that entitle a client: licenses and subscriptions.

  \<^item> \<open>license/service.rs\<close>, \<open>license/model.rs\<close>: validation of a license record and of
    a license key, input normalisation, status filters;
  \<^item> \<open>subscription/service.rs\<close>, \<open>subscription/model.rs\<close>: the same for subscriptions;
  \<^item> \<open>license/repository.rs\<close>, \<open>subscription/repository.rs\<close>: the lookups and updates.

  The contract both grants fulfil is the locale \<open>timed_grant\<close>: a grant is valid exactly
  while its status allows it, it is not withdrawn and the time lies in its half-open
  window.
\<close>


section \<open>Licenses\<close>

definition validate_license_record :: "license \<Rightarrow> time \<Rightarrow> app_error + unit" where
  "validate_license_record l now =
     (if lic_status l \<noteq> ''active'' then Inl (InvalidLicenseState (''license is '' @ lic_status l))
      else if lic_revoked_at l \<noteq> None then Inl (LicenseInvalid ''license is revoked'')
      else if (case lic_starts_at l of Some s \<Rightarrow> s > now | None \<Rightarrow> False)
        then Inl (LicenseInvalid ''license is not active yet'')
      else if (case lic_expires_at l of Some e \<Rightarrow> e \<le> now | None \<Rightarrow> False)
        then Inl license_expired
      else Inr ())"

definition normalize_license_key :: "string \<Rightarrow> app_error + string" where
  "normalize_license_key k =
     (let k = trim k in if k = [] then Inl (LicenseInvalid ''license key is required'') else Inr k)"

definition license_find_by_id :: "uuid \<Rightarrow> uuid \<Rightarrow> access_db \<Rightarrow> license option" where
  "license_find_by_id tenant i db =
     List.find (\<lambda>l. lic_tenant_id l = tenant \<and> lic_id l = i \<and> lic_deleted_at l = None)
       (licenses db)"

definition license_find_by_app_and_key_hash ::
    "uuid \<Rightarrow> uuid \<Rightarrow> string \<Rightarrow> access_db \<Rightarrow> license option" where
  "license_find_by_app_and_key_hash tenant app h db =
     List.find (\<lambda>l. lic_tenant_id l = tenant \<and> lic_app_id l = app
                  \<and> lic_license_key_hash l = h \<and> lic_deleted_at l = None) (licenses db)"

text \<open>\<open>hash_token pepper\<close> (an HMAC of the \<open>hmac\<close> and \<open>sha2\<close> crates) is a parameter.\<close>

definition validate_license_key ::
    "(string \<Rightarrow> app_error + string) \<Rightarrow> uuid \<Rightarrow> uuid \<Rightarrow> string \<Rightarrow> time \<Rightarrow> access_db
      \<Rightarrow> app_error + license" where
  "validate_license_key hash_token tenant app key now db =
     rs_bind (normalize_license_key key) (\<lambda>k.
     rs_bind (hash_token k) (\<lambda>h.
     rs_bind (ok_or (license_find_by_app_and_key_hash tenant app h db) license_not_found) (\<lambda>l.
     rs_bind (validate_license_record l now) (\<lambda>_. Inr l))))"

record create_license_input =
  cli_app_id :: uuid
  cli_customer_id :: "uuid option"
  cli_license_type :: "string option"
  cli_max_devices :: "int option"
  cli_features :: "json option"
  cli_starts_at :: "time option"
  cli_expires_at :: "time option"
  cli_metadata :: "json option"

record new_license =
  nl_id :: uuid
  nl_tenant_id :: uuid
  nl_app_id :: uuid
  nl_customer_id :: "uuid option"
  nl_license_key_hash :: string
  nl_license_type :: string
  nl_max_devices :: int
  nl_features :: json
  nl_starts_at :: "time option"
  nl_expires_at :: "time option"
  nl_metadata :: json

text \<open>\<open>str::to_lowercase\<close> uses Unicode's case tables; they are the parameter \<open>lower\<close>.\<close>

definition normalize_license_type ::
    "(string \<Rightarrow> string) \<Rightarrow> string option \<Rightarrow> app_error + string" where
  "normalize_license_type lower t =
     (let v = (case t of None \<Rightarrow> ''standard''
               | Some x \<Rightarrow> (let y = lower (trim x) in if y = [] then ''standard'' else y))
      in if v = ''standard'' \<or> v = ''trial'' \<or> v = ''enterprise'' then Inr v
         else Inl (ValidationFailed ''license type is invalid''))"

definition validate_max_devices :: "int \<Rightarrow> app_error + unit" where
  "validate_max_devices n =
     (if n < 0 then Inl (ValidationFailed ''max_devices must be greater than or equal to 0'')
      else Inr ())"

definition normalize_features :: "json option \<Rightarrow> app_error + json" where
  "normalize_features f =
     (let v = (case f of None \<Rightarrow> JArray [] | Some v \<Rightarrow> v)
      in if is_array v then Inr v else Inl (ValidationFailed ''features must be an array''))"

definition validate_license_window :: "time option \<Rightarrow> time option \<Rightarrow> app_error + unit" where
  "validate_license_window starts expires =
     (case (starts, expires) of
        (Some s, Some e) \<Rightarrow>
          if e \<le> s then Inl (ValidationFailed ''expires_at must be greater than starts_at'')
          else Inr ()
      | _ \<Rightarrow> Inr ())"

definition new_license_from_input ::
    "(string \<Rightarrow> string) \<Rightarrow> time \<Rightarrow> uuid \<Rightarrow> uuid \<Rightarrow> create_license_input \<Rightarrow> string
      \<Rightarrow> app_error + new_license" where
  "new_license_from_input lower now fresh tenant input key_hash =
     rs_bind (normalize_license_type lower (cli_license_type input)) (\<lambda>t.
     let n = (case cli_max_devices input of None \<Rightarrow> 1 | Some n \<Rightarrow> n) in
     rs_bind (validate_max_devices n) (\<lambda>_.
     rs_bind (normalize_features (cli_features input)) (\<lambda>f.
     let starts = (case cli_starts_at input of None \<Rightarrow> Some now | Some s \<Rightarrow> Some s) in
     rs_bind (validate_license_window starts (cli_expires_at input)) (\<lambda>_.
     Inr \<lparr>nl_id = fresh, nl_tenant_id = tenant, nl_app_id = cli_app_id input,
          nl_customer_id = cli_customer_id input, nl_license_key_hash = key_hash,
          nl_license_type = t, nl_max_devices = n, nl_features = f, nl_starts_at = starts,
          nl_expires_at = cli_expires_at input,
          nl_metadata = (case cli_metadata input of None \<Rightarrow> JObject [] | Some m \<Rightarrow> m)\<rparr>))))"

definition validate_license_status_filter :: "string option \<Rightarrow> app_error + unit" where
  "validate_license_status_filter s =
     (case s of None \<Rightarrow> Inr ()
      | Some v \<Rightarrow> if v \<in> {''active'', ''suspended'', ''revoked'', ''expired''} then Inr ()
                 else Inl (ValidationFailed ''license status is invalid''))"

definition validate_renew_license :: "license \<Rightarrow> time \<Rightarrow> app_error + unit" where
  "validate_renew_license current expires =
     (case lic_starts_at current of
        Some s \<Rightarrow>
          if expires \<le> s then Inl (ValidationFailed ''expires_at must be greater than starts_at'')
          else Inr ()
      | None \<Rightarrow> Inr ())"

definition normalize_reset_device_reason :: "string option \<Rightarrow> app_error + string" where
  "normalize_reset_device_reason r =
     rs_bind (ok_or (case r of None \<Rightarrow> None
                     | Some v \<Rightarrow> (let t = trim v in if t = [] then None else Some t))
               (ValidationFailed ''reason is required'')) (\<lambda>v.
     if chars_count v > 500 then Inl (ValidationFailed ''reason is too long'') else Inr v)"


section \<open>Subscriptions\<close>

definition validate_subscription_record :: "subscription \<Rightarrow> time \<Rightarrow> app_error + unit" where
  "validate_subscription_record s now =
     (if sub_status s \<noteq> ''active'' \<and> sub_status s \<noteq> ''trialing''
        then Inl (SubscriptionInactive (''subscription is '' @ sub_status s))
      else if sub_cancelled_at s \<noteq> None
        then Inl (SubscriptionInactive ''subscription is cancelled'')
      else if sub_starts_at s > now
        then Inl (SubscriptionInactive ''subscription is not active yet'')
      else if (case sub_expires_at s of Some e \<Rightarrow> e \<le> now | None \<Rightarrow> False)
        then Inl (SubscriptionInactive ''subscription is expired'')
      else Inr ())"

definition subscription_find_by_id :: "uuid \<Rightarrow> uuid \<Rightarrow> access_db \<Rightarrow> subscription option" where
  "subscription_find_by_id tenant i db =
     List.find (\<lambda>s. sub_tenant_id s = tenant \<and> sub_id s = i \<and> sub_deleted_at s = None)
       (subscriptions db)"

text \<open>
  \<open>SubscriptionRepository::find_active_for_customer\<close>, which the customer login uses:
  \<open>order by expires_at nulls last, created_at desc, id limit 1\<close>.
\<close>

definition subscription_before :: "subscription \<Rightarrow> subscription \<Rightarrow> bool" where
  "subscription_before s t \<longleftrightarrow>
     (let tie = sub_created_at t < sub_created_at s
                \<or> (sub_created_at s = sub_created_at t \<and> sub_id s < sub_id t)
      in case (sub_expires_at s, sub_expires_at t) of
           (Some a, Some b) \<Rightarrow> a < b \<or> (a = b \<and> tie)
         | (Some _, None) \<Rightarrow> True
         | (None, Some _) \<Rightarrow> False
         | (None, None) \<Rightarrow> tie)"

definition find_active_for_customer ::
    "uuid \<Rightarrow> uuid \<Rightarrow> uuid \<Rightarrow> time \<Rightarrow> access_db \<Rightarrow> subscription option" where
  "find_active_for_customer tenant app customer now db =
     first_by subscription_before
       (filter (\<lambda>s. sub_tenant_id s = tenant \<and> sub_app_id s = app \<and> sub_customer_id s = customer
                  \<and> sub_deleted_at s = None \<and> sub_status s \<in> {''active'', ''trialing''}
                  \<and> sub_cancelled_at s = None \<and> sub_starts_at s \<le> now
                  \<and> (case sub_expires_at s of None \<Rightarrow> True | Some e \<Rightarrow> now < e))
          (subscriptions db))"

record create_subscription_input =
  csi_app_id :: uuid
  csi_customer_id :: uuid
  csi_plan :: string
  csi_max_devices :: "int option"
  csi_starts_at :: "time option"
  csi_expires_at :: "time option"
  csi_features :: "json option"
  csi_metadata :: "json option"

record new_subscription =
  ns_id :: uuid
  ns_tenant_id :: uuid
  ns_app_id :: uuid
  ns_customer_id :: uuid
  ns_plan :: string
  ns_max_devices :: int
  ns_features :: json
  ns_starts_at :: time
  ns_expires_at :: "time option"
  ns_metadata :: json

definition normalize_plan :: "(string \<Rightarrow> string) \<Rightarrow> string \<Rightarrow> app_error + string" where
  "normalize_plan lower p =
     (let p = lower (trim p)
      in if p = [] then Inl (ValidationFailed ''plan is required'') else Inr p)"

definition validate_subscription_window :: "time \<Rightarrow> time option \<Rightarrow> app_error + unit" where
  "validate_subscription_window starts expires =
     (case expires of
        Some e \<Rightarrow>
          if e \<le> starts then Inl (ValidationFailed ''expires_at must be greater than starts_at'')
          else Inr ()
      | None \<Rightarrow> Inr ())"

definition new_subscription_from_input ::
    "(string \<Rightarrow> string) \<Rightarrow> time \<Rightarrow> uuid \<Rightarrow> uuid \<Rightarrow> create_subscription_input
      \<Rightarrow> app_error + new_subscription" where
  "new_subscription_from_input lower now fresh tenant input =
     rs_bind (normalize_plan lower (csi_plan input)) (\<lambda>p.
     let n = (case csi_max_devices input of None \<Rightarrow> 1 | Some n \<Rightarrow> n) in
     rs_bind (validate_max_devices n) (\<lambda>_.
     rs_bind (normalize_features (csi_features input)) (\<lambda>f.
     let starts = (case csi_starts_at input of None \<Rightarrow> now | Some s \<Rightarrow> s) in
     rs_bind (validate_subscription_window starts (csi_expires_at input)) (\<lambda>_.
     Inr \<lparr>ns_id = fresh, ns_tenant_id = tenant, ns_app_id = csi_app_id input,
          ns_customer_id = csi_customer_id input, ns_plan = p, ns_max_devices = n,
          ns_features = f, ns_starts_at = starts, ns_expires_at = csi_expires_at input,
          ns_metadata = (case csi_metadata input of None \<Rightarrow> JObject [] | Some m \<Rightarrow> m)\<rparr>))))"

definition validate_subscription_status_filter :: "string option \<Rightarrow> app_error + unit" where
  "validate_subscription_status_filter s =
     (case s of None \<Rightarrow> Inr ()
      | Some v \<Rightarrow>
          if v \<in> {''active'', ''trialing'', ''past_due'', ''suspended'', ''cancelled'', ''expired''}
          then Inr () else Inl (ValidationFailed ''subscription status is invalid''))"

definition validate_renew_subscription :: "subscription \<Rightarrow> time \<Rightarrow> app_error + unit" where
  "validate_renew_subscription current expires =
     (if expires \<le> sub_starts_at current
        then Inl (ValidationFailed ''expires_at must be greater than starts_at'') else Inr ())"


section \<open>The contract of a grant\<close>

locale timed_grant =
  fixes validate :: "'g \<Rightarrow> time \<Rightarrow> app_error + unit"
    and usable :: "'g \<Rightarrow> bool"
    and from_time :: "'g \<Rightarrow> time option"
    and to_time :: "'g \<Rightarrow> time option"
  assumes valid_iff:
    "validate g now = Inr () \<longleftrightarrow>
       usable g \<and> (case from_time g of Some s \<Rightarrow> s \<le> now | None \<Rightarrow> True)
       \<and> (case to_time g of Some e \<Rightarrow> now < e | None \<Rightarrow> True)"
begin

lemma valid_between:
  assumes "validate g a = Inr ()" and "validate g b = Inr ()" and "a \<le> t" and "t \<le> b"
  shows "validate g t = Inr ()"
  using assms unfolding valid_iff by (auto split: option.splits)

lemma expired_for_ever:
  assumes "to_time g = Some e" and "e \<le> now"
  shows "validate g now \<noteq> Inr ()"
  using assms unfolding valid_iff by simp

lemma unusable_never_valid: "\<not> usable g \<Longrightarrow> validate g now \<noteq> Inr ()"
  unfolding valid_iff by simp

text \<open>A grant whose window is not empty is valid at its start.\<close>

lemma valid_at_start:
  assumes "usable g" and "from_time g = Some s"
    and "case to_time g of Some e \<Rightarrow> s < e | None \<Rightarrow> True"
  shows "validate g s = Inr ()"
  using assms unfolding valid_iff by simp

end

definition license_usable :: "license \<Rightarrow> bool" where
  "license_usable l \<longleftrightarrow> lic_status l = ''active'' \<and> lic_revoked_at l = None"

definition subscription_usable :: "subscription \<Rightarrow> bool" where
  "subscription_usable s \<longleftrightarrow>
     (sub_status s = ''active'' \<or> sub_status s = ''trialing'') \<and> sub_cancelled_at s = None"

interpretation lic: timed_grant validate_license_record license_usable lic_starts_at lic_expires_at
  by unfold_locales
    (auto simp: validate_license_record_def license_usable_def split: option.splits)

interpretation sub: timed_grant validate_subscription_record subscription_usable
    "\<lambda>s. Some (sub_starts_at s)" sub_expires_at
  by unfold_locales
    (auto simp: validate_subscription_record_def subscription_usable_def split: option.splits)


section \<open>Stored grants\<close>

text \<open>The row an insert of a \<open>NewLicense\<close> creates, with the column defaults.\<close>

definition license_row :: "time \<Rightarrow> new_license \<Rightarrow> license" where
  "license_row db_now n =
     \<lparr>lic_id = nl_id n, lic_tenant_id = nl_tenant_id n, lic_app_id = nl_app_id n,
      lic_customer_id = nl_customer_id n, lic_license_key_hash = nl_license_key_hash n,
      lic_license_type = nl_license_type n, lic_status = ''active'',
      lic_max_devices = nl_max_devices n, lic_features = nl_features n,
      lic_starts_at = nl_starts_at n, lic_expires_at = nl_expires_at n,
      lic_revoked_at = None, lic_metadata = nl_metadata n, lic_created_at = db_now,
      lic_updated_at = db_now, lic_deleted_at = None\<rparr>"

definition subscription_row :: "time \<Rightarrow> new_subscription \<Rightarrow> subscription" where
  "subscription_row db_now n =
     \<lparr>sub_id = ns_id n, sub_tenant_id = ns_tenant_id n, sub_app_id = ns_app_id n,
      sub_customer_id = ns_customer_id n, sub_plan = ns_plan n, sub_status = ''active'',
      sub_max_devices = ns_max_devices n, sub_features = ns_features n,
      sub_starts_at = ns_starts_at n, sub_expires_at = ns_expires_at n,
      sub_cancelled_at = None, sub_metadata = ns_metadata n, sub_created_at = db_now,
      sub_updated_at = db_now, sub_deleted_at = None\<rparr>"

lemma validate_max_devices_Inr: "validate_max_devices n = Inr () \<longleftrightarrow> 0 \<le> n"
  by (simp add: validate_max_devices_def)

lemma normalize_features_Inr: "normalize_features f = Inr v \<Longrightarrow> is_array v"
  by (auto simp: normalize_features_def Let_def split: if_splits)

lemma normalize_license_type_Inr:
  "normalize_license_type lower t = Inr v \<Longrightarrow> v \<in> {''standard'', ''trial'', ''enterprise''}"
  by (auto simp only: normalize_license_type_def Let_def sum.inject split: if_splits)

lemma validate_license_window_Inr:
  "validate_license_window (Some s) e = Inr () \<Longrightarrow> case e of Some e \<Rightarrow> s < e | None \<Rightarrow> True"
  by (auto simp: validate_license_window_def split: option.splits if_splits)

lemma validate_subscription_window_Inr:
  "validate_subscription_window s e = Inr () \<Longrightarrow> case e of Some e \<Rightarrow> s < e | None \<Rightarrow> True"
  by (auto simp: validate_subscription_window_def split: option.splits if_splits)

lemma new_license_facts:
  assumes "new_license_from_input lower now fresh tenant input h = Inr n"
  shows "\<exists>s. nl_starts_at n = Some s
             \<and> s = (case cli_starts_at input of None \<Rightarrow> now | Some s \<Rightarrow> s)
             \<and> (case nl_expires_at n of Some e \<Rightarrow> s < e | None \<Rightarrow> True)"
    and "nl_expires_at n = cli_expires_at input"
    and "0 \<le> nl_max_devices n \<and> is_array (nl_features n)"
    and "nl_license_type n \<in> {''standard'', ''trial'', ''enterprise''}"
    and "nl_tenant_id n = tenant \<and> nl_id n = fresh"
proof -
  let ?s = "case cli_starts_at input of None \<Rightarrow> now | Some s \<Rightarrow> s"
  have s: "(case cli_starts_at input of None \<Rightarrow> Some now | Some s \<Rightarrow> Some s) = Some ?s"
    by (simp split: option.split)
  obtain t f where t: "normalize_license_type lower (cli_license_type input) = Inr t"
    and f: "normalize_features (cli_features input) = Inr f"
    and m: "validate_max_devices (case cli_max_devices input of None \<Rightarrow> 1 | Some n \<Rightarrow> n) = Inr ()"
    and w: "validate_license_window (Some ?s) (cli_expires_at input) = Inr ()"
    and n: "n = \<lparr>nl_id = fresh, nl_tenant_id = tenant, nl_app_id = cli_app_id input,
          nl_customer_id = cli_customer_id input, nl_license_key_hash = h,
          nl_license_type = t, nl_max_devices = (case cli_max_devices input of None \<Rightarrow> 1 | Some n \<Rightarrow> n),
          nl_features = f, nl_starts_at = Some ?s, nl_expires_at = cli_expires_at input,
          nl_metadata = (case cli_metadata input of None \<Rightarrow> JObject [] | Some m \<Rightarrow> m)\<rparr>"
    using assms unfolding new_license_from_input_def Let_def rs_bind_Inr s by auto
  show "\<exists>s. nl_starts_at n = Some s \<and> s = ?s
      \<and> (case nl_expires_at n of Some e \<Rightarrow> s < e | None \<Rightarrow> True)"
    using validate_license_window_Inr [OF w] by (simp add: n)
  show "nl_expires_at n = cli_expires_at input" "nl_tenant_id n = tenant \<and> nl_id n = fresh"
    by (simp_all add: n)
  show "0 \<le> nl_max_devices n \<and> is_array (nl_features n)"
    using m normalize_features_Inr [OF f] unfolding validate_max_devices_Inr by (simp add: n)
  show "nl_license_type n \<in> {''standard'', ''trial'', ''enterprise''}"
    using normalize_license_type_Inr [OF t] unfolding n by simp
qed

lemma new_subscription_facts:
  assumes "new_subscription_from_input lower now fresh tenant input = Inr n"
  shows "ns_starts_at n = (case csi_starts_at input of None \<Rightarrow> now | Some s \<Rightarrow> s)
           \<and> (case ns_expires_at n of Some e \<Rightarrow> ns_starts_at n < e | None \<Rightarrow> True)"
    and "ns_expires_at n = csi_expires_at input"
    and "0 \<le> ns_max_devices n \<and> is_array (ns_features n)"
    and "ns_tenant_id n = tenant \<and> ns_id n = fresh"
proof -
  let ?s = "case csi_starts_at input of None \<Rightarrow> now | Some s \<Rightarrow> s"
  obtain p f where f: "normalize_features (csi_features input) = Inr f"
    and m: "validate_max_devices (case csi_max_devices input of None \<Rightarrow> 1 | Some n \<Rightarrow> n) = Inr ()"
    and w: "validate_subscription_window ?s (csi_expires_at input) = Inr ()"
    and n: "n = \<lparr>ns_id = fresh, ns_tenant_id = tenant, ns_app_id = csi_app_id input,
          ns_customer_id = csi_customer_id input, ns_plan = p,
          ns_max_devices = (case csi_max_devices input of None \<Rightarrow> 1 | Some n \<Rightarrow> n),
          ns_features = f, ns_starts_at = ?s, ns_expires_at = csi_expires_at input,
          ns_metadata = (case csi_metadata input of None \<Rightarrow> JObject [] | Some m \<Rightarrow> m)\<rparr>"
    using assms unfolding new_subscription_from_input_def Let_def rs_bind_Inr by auto
  show "ns_starts_at n = ?s
      \<and> (case ns_expires_at n of Some e \<Rightarrow> ns_starts_at n < e | None \<Rightarrow> True)"
    using validate_subscription_window_Inr [OF w] by (auto simp: n split: option.splits)
  show "ns_expires_at n = csi_expires_at input" "ns_tenant_id n = tenant \<and> ns_id n = fresh"
    by (simp_all add: n)
  show "0 \<le> ns_max_devices n \<and> is_array (ns_features n)"
    using m normalize_features_Inr [OF f] unfolding validate_max_devices_Inr by (simp add: n)
qed


section \<open>Properties\<close>

lemma subscription_before_asym: "subscription_before s t \<Longrightarrow> \<not> subscription_before t s"
  unfolding subscription_before_def Let_def
  by (cases "sub_expires_at s"; cases "sub_expires_at t"; simp; linarith)

lemma subscription_before_trans:
  "\<not> subscription_before s t \<Longrightarrow> \<not> subscription_before t u \<Longrightarrow> \<not> subscription_before s u"
  unfolding subscription_before_def Let_def
  by (cases "sub_expires_at s"; cases "sub_expires_at t"; cases "sub_expires_at u"; simp; linarith)

lemma find_active_for_customer_facts:
  assumes "find_active_for_customer tenant app customer now db = Some s"
  shows "s \<in> set (subscriptions db)" and "validate_subscription_record s now = Inr ()"
    and "sub_tenant_id s = tenant" and "sub_app_id s = app" and "sub_customer_id s = customer"
    and "sub_deleted_at s = None"
  using first_by_in [OF assms [unfolded find_active_for_customer_def]]
  by (auto simp: validate_subscription_record_def split: option.splits)

text \<open>
  A license record is accepted exactly when its status is \<open>active\<close>, it is not revoked
  and the time lies in its half-open window; and an active, started license past its expiry
  is refused with the expiry error and no other.
\<close>

theorem license_valid_iff_in_window:
  "(validate_license_record l now = Inr () \<longleftrightarrow>
      lic_status l = ''active'' \<and> lic_revoked_at l = None
      \<and> (\<forall>s. lic_starts_at l = Some s \<longrightarrow> s \<le> now)
      \<and> (\<forall>e. lic_expires_at l = Some e \<longrightarrow> now < e))
   \<and> (validate_license_record l now = Inl license_expired \<longleftrightarrow>
      lic_status l = ''active'' \<and> lic_revoked_at l = None
      \<and> (\<forall>s. lic_starts_at l = Some s \<longrightarrow> s \<le> now)
      \<and> (\<exists>e. lic_expires_at l = Some e \<and> e \<le> now))"
  by (auto simp: validate_license_record_def license_expired_def split: option.splits)

theorem license_valid_iff_in_window_witness:
  "validate_license_record
     (license_row 5 \<lparr>nl_id = 1, nl_tenant_id = 1, nl_app_id = 1, nl_customer_id = None,
       nl_license_key_hash = ''h'', nl_license_type = ''trial'', nl_max_devices = 1,
       nl_features = JArray [], nl_starts_at = Some 5, nl_expires_at = Some 9,
       nl_metadata = JObject []\<rparr>) 8 = Inr ()"
  by (subst license_valid_iff_in_window [THEN conjunct1]) (simp add: license_row_def)

text \<open>
  A license made from an accepted input has one of the three types, a non-negative
  device limit and a feature array, and its stored row is valid from its start on until
  just before its expiry, whatever the clock was when it was made.
\<close>

theorem created_license_is_valid_in_window:
  assumes "new_license_from_input lower now fresh tenant input h = Inr n"
    and "nl_starts_at n = Some s" and "s \<le> t"
    and "\<forall>e. cli_expires_at input = Some e \<longrightarrow> t < e"
  shows "validate_license_record (license_row db_now n) s = Inr ()
    \<and> validate_license_record (license_row db_now n) t = Inr ()
    \<and> nl_license_type n \<in> {''standard'', ''trial'', ''enterprise''} \<and> 0 \<le> nl_max_devices n
    \<and> is_array (nl_features n)"
proof -
  note f = new_license_facts [OF assms(1)]
  have u: "license_usable (license_row db_now n)"
    by (simp add: license_usable_def license_row_def)
  have at_start: "validate_license_record (license_row db_now n) s = Inr ()"
    using assms(2) f(1) by (intro lic.valid_at_start [OF u]) (auto simp: license_row_def)
  have later: "validate_license_record (license_row db_now n) t = Inr ()"
    using u assms(2-4) f(2) unfolding lic.valid_iff
    by (auto simp: license_row_def split: option.splits)
  show ?thesis using at_start later f(3,4) by simp
qed

definition trial_input :: create_license_input where
  "trial_input =
     \<lparr>cli_app_id = 1, cli_customer_id = None, cli_license_type = Some '' trial '',
      cli_max_devices = Some 2, cli_features = None, cli_starts_at = Some 5,
      cli_expires_at = Some 9, cli_metadata = None\<rparr>"

theorem created_license_is_valid_in_window_witness:
  "\<exists>n. new_license_from_input id 3 7 1 trial_input ''h'' = Inr n
      \<and> validate_license_record (license_row 4 n) 8 = Inr ()"
proof -
  have made: "new_license_from_input id 3 7 1 trial_input ''h'' =
    Inr \<lparr>nl_id = 7, nl_tenant_id = 1, nl_app_id = 1, nl_customer_id = None,
      nl_license_key_hash = ''h'', nl_license_type = ''trial'', nl_max_devices = 2,
      nl_features = JArray [], nl_starts_at = Some 5, nl_expires_at = Some 9,
      nl_metadata = JObject []\<rparr>" (is "_ = Inr ?n")
    by code_simp
  have "validate_license_record (license_row 4 ?n) 8 = Inr ()"
    using created_license_is_valid_in_window [OF made, of 5 8 4] by (simp add: trial_input_def)
  with made show ?thesis by blast
qed

text \<open>
  Of a customer's subscriptions the login selects one that the record check accepts at
  that time, and among those one that expires first, never-expiring ones last; it finds
  none only when no subscription of the customer passes.
\<close>

theorem selected_subscription_is_valid_and_first:
  "(\<forall>s. find_active_for_customer tenant app customer now db = Some s \<longrightarrow>
      validate_subscription_record s now = Inr () \<and> sub_tenant_id s = tenant
      \<and> sub_customer_id s = customer
      \<and> (\<forall>t \<in> set (subscriptions db).
           sub_tenant_id t = tenant \<and> sub_app_id t = app \<and> sub_customer_id t = customer
           \<and> sub_deleted_at t = None \<and> validate_subscription_record t now = Inr ()
           \<longrightarrow> (case sub_expires_at t of
                  Some b \<Rightarrow> (\<exists>a. sub_expires_at s = Some a \<and> a \<le> b) | None \<Rightarrow> True)))
   \<and> (find_active_for_customer tenant app customer now db = None \<longleftrightarrow>
      (\<forall>t \<in> set (subscriptions db).
         sub_tenant_id t = tenant \<and> sub_app_id t = app \<and> sub_customer_id t = customer
         \<and> sub_deleted_at t = None \<longrightarrow> validate_subscription_record t now \<noteq> Inr ()))"
    (is "?sel \<and> ?none")
proof
  let ?P = "\<lambda>s. sub_tenant_id s = tenant \<and> sub_app_id s = app \<and> sub_customer_id s = customer
      \<and> sub_deleted_at s = None \<and> sub_status s \<in> {''active'', ''trialing''}
      \<and> sub_cancelled_at s = None \<and> sub_starts_at s \<le> now
      \<and> (case sub_expires_at s of None \<Rightarrow> True | Some e \<Rightarrow> now < e)"
  have P: "?P t \<longleftrightarrow> sub_tenant_id t = tenant \<and> sub_app_id t = app \<and> sub_customer_id t = customer
      \<and> sub_deleted_at t = None \<and> validate_subscription_record t now = Inr ()" for t
    unfolding sub.valid_iff by (auto simp: subscription_usable_def)
  show ?none
    unfolding find_active_for_customer_def first_by_None filter_empty_conv P by blast
  show ?sel
  proof (intro allI impI conjI ballI)
    fix s assume s: "find_active_for_customer tenant app customer now db = Some s"
    note f = find_active_for_customer_facts [OF s]
    show "validate_subscription_record s now = Inr ()" "sub_tenant_id s = tenant"
      "sub_customer_id s = customer" by (fact f)+
    fix t assume "t \<in> set (subscriptions db)" and "sub_tenant_id t = tenant
        \<and> sub_app_id t = app \<and> sub_customer_id t = customer \<and> sub_deleted_at t = None
        \<and> validate_subscription_record t now = Inr ()"
    then have "t \<in> set (filter ?P (subscriptions db))" unfolding set_filter P by simp
    then have "\<not> subscription_before t s"
      by (rule first_by_least [OF s [unfolded find_active_for_customer_def]])
        (fact subscription_before_asym subscription_before_trans)+
    then show "case sub_expires_at t of
        Some b \<Rightarrow> (\<exists>a. sub_expires_at s = Some a \<and> a \<le> b) | None \<Rightarrow> True"
      by (auto simp: subscription_before_def Let_def split: option.splits)
  qed
qed

definition sample_subscription :: "uuid \<Rightarrow> time option \<Rightarrow> subscription" where
  "sample_subscription i expires =
     subscription_row 5 \<lparr>ns_id = i, ns_tenant_id = 1, ns_app_id = 1, ns_customer_id = 1,
       ns_plan = ''pro'', ns_max_devices = 1, ns_features = JArray [], ns_starts_at = 5,
       ns_expires_at = expires, ns_metadata = JObject []\<rparr>"

theorem selected_subscription_is_valid_and_first_witness:
  "\<exists>s. find_active_for_customer 1 1 1 50
         (empty_db\<lparr>subscriptions := [sample_subscription 2 None, sample_subscription 3 (Some 90)]\<rparr>)
       = Some s \<and> sub_id s = 3 \<and> validate_subscription_record s 50 = Inr ()"
proof -
  let ?db = "empty_db\<lparr>subscriptions := [sample_subscription 2 None, sample_subscription 3 (Some 90)]\<rparr>"
  have "find_active_for_customer 1 1 1 50 ?db = Some (sample_subscription 3 (Some 90))"
    by (simp add: find_active_for_customer_def empty_db_def sample_subscription_def
        subscription_row_def subscription_before_def)
  with selected_subscription_is_valid_and_first [of 1 1 1 50 ?db, THEN conjunct1, rule_format, of _]
  show ?thesis by (simp add: sample_subscription_def subscription_row_def)
qed

end
