(* ===== verification/Crypto.thy ===== *)
theory Crypto
  imports Errors
begin

text \<open>
  \<open>backend/src/crypto\<close>: keyed token hashes (\<open>token.rs\<close>), the AES-GCM envelope of private
  keys (\<open>envelope.rs\<close>), Ed25519 keys and signatures (\<open>signing.rs\<close>) and the EdDSA access
  tokens (\<open>jwt.rs\<close>).

  The primitives are other crates' code (\<open>base64\<close>, \<open>hmac\<close>, \<open>sha2\<close>, \<open>ring\<close>,
  \<open>serde_json\<close>) and are the fields of \<open>crypto_lib\<close>; byte strings are strings. What a
  property needs of them is a hypothesis over these fields: decoding inverts encoding,
  the AEAD opens what it sealed, a signature verifies under the key that made it.
\<close>

record client_access_claims =
  cl_sub :: string
  cl_iss :: string
  cl_aud :: string
  cl_exp :: i64
  cl_iat :: i64
  cl_session_id :: uuid
  cl_tenant_id :: uuid
  cl_app_id :: uuid
  cl_device_id :: uuid
  cl_machine_id :: string
  cl_auth_mode :: string

record jwt_header =
  jh_alg :: string
  jh_typ :: "string option"
  jh_kid :: string

record crypto_lib =
  b64_url :: "string \<Rightarrow> string"
  b64_url_decode :: "string \<Rightarrow> string option"
  b64_std :: "string \<Rightarrow> string"
  b64_std_decode :: "string \<Rightarrow> string option"
  hmac_sha256 :: "string \<Rightarrow> string \<Rightarrow> string + string"
  sha256 :: "string \<Rightarrow> string"
  aead_seal :: "string \<Rightarrow> string \<Rightarrow> string \<Rightarrow> string option"
  aead_open :: "string \<Rightarrow> string \<Rightarrow> string \<Rightarrow> string option"
  ed25519_sign :: "string \<Rightarrow> string \<Rightarrow> string option"
  ed25519_verify :: "string \<Rightarrow> string \<Rightarrow> string \<Rightarrow> bool"
  header_to_json :: "jwt_header \<Rightarrow> string"
  header_of_json :: "string \<Rightarrow> jwt_header option"
  claims_to_json :: "client_access_claims \<Rightarrow> string"
  claims_of_json :: "string \<Rightarrow> client_access_claims option"


section \<open>Token hashes\<close>

definition hash_token :: "crypto_lib \<Rightarrow> string \<Rightarrow> string \<Rightarrow> app_error + string" where
  "hash_token c pepper token =
     (case hmac_sha256 c pepper token of
        Inl err \<Rightarrow> Inl (Crypto (''token hash key invalid: '' @ err))
      | Inr mac \<Rightarrow> Inr (b64_url c mac))"

definition verify_token_hash ::
    "crypto_lib \<Rightarrow> string \<Rightarrow> string \<Rightarrow> string \<Rightarrow> app_error + bool" where
  "verify_token_hash c pepper token expected =
     rs_bind (hash_token c pepper token) (\<lambda>h. Inr (h = expected))"

text \<open>\<open>generate_recovery_code\<close>: sixteen draws of a \<open>u32\<close>, in groups of four.\<close>

definition recovery_charset :: string where
  "recovery_charset = ''ABCDEFGHJKLMNPQRSTUVWXYZ23456789''"

fun recovery_chars :: "nat \<Rightarrow> nat list \<Rightarrow> string" where
  "recovery_chars index [] = []"
| "recovery_chars index (draw # draws) =
     (if index > 0 \<and> index mod 4 = 0 then [CHR ''-''] else [])
       @ recovery_charset ! (draw mod length recovery_charset)
       # recovery_chars (Suc index) draws"

definition generate_recovery_code :: "nat list \<Rightarrow> string" where
  "generate_recovery_code draws = recovery_chars 0 (take 16 draws)"


section \<open>Private key envelopes\<close>

record private_key_envelope =
  pe_ciphertext :: string
  pe_nonce :: string
  pe_tag :: string
  pe_key_version :: string
  pe_alg :: string

text \<open>
  \<open>nonce\<close> are the twelve random bytes, \<open>None\<close> when the system's generator fails.
\<close>

definition encrypt_bytes ::
    "crypto_lib \<Rightarrow> string \<Rightarrow> string option \<Rightarrow> string \<Rightarrow> app_error + private_key_envelope" where
  "encrypt_bytes c master nonce plaintext =
     rs_bind (ok_or nonce (Crypto ''failed to generate private key encryption nonce'')) (\<lambda>n.
     rs_bind (ok_or (aead_seal c master n plaintext) (Crypto ''failed to encrypt private key''))
       (\<lambda>sealed.
     let cut = length sealed - 16 in
     Inr \<lparr>pe_ciphertext = b64_url c (take cut sealed), pe_nonce = b64_url c n,
          pe_tag = b64_url c (drop cut sealed), pe_key_version = ''v1'',
          pe_alg = ''AES-256-GCM''\<rparr>))"

definition decode_base64_text :: "crypto_lib \<Rightarrow> string \<Rightarrow> string option" where
  "decode_base64_text c value =
     (case b64_url_decode c (trim value) of
        Some b \<Rightarrow> Some b
      | None \<Rightarrow> b64_std_decode c (trim value))"

definition decrypt_bytes ::
    "crypto_lib \<Rightarrow> string \<Rightarrow> private_key_envelope \<Rightarrow> app_error + string" where
  "decrypt_bytes c master e =
     (if pe_key_version e \<noteq> ''v1'' then Inl (Crypto ''unsupported private key envelope version'')
      else if pe_alg e \<noteq> ''AES-256-GCM'' then Inl (Crypto ''unsupported private key envelope alg'')
      else
        rs_bind (ok_or (decode_base64_text c (pe_nonce e))
                   (Crypto ''private key envelope nonce invalid'')) (\<lambda>n.
        if length n \<noteq> 12 then Inl (Crypto ''private key envelope nonce invalid'') else
        rs_bind (ok_or (decode_base64_text c (pe_ciphertext e))
                   (Crypto ''private key envelope ciphertext invalid'')) (\<lambda>ct.
        rs_bind (ok_or (decode_base64_text c (pe_tag e))
                   (Crypto ''private key envelope tag invalid'')) (\<lambda>tag.
        if length tag \<noteq> 16 then Inl (Crypto ''private key envelope tag invalid'') else
        ok_or (aead_open c master n (ct @ tag)) (Crypto ''failed to decrypt private key'')))))"


section \<open>Ed25519 keys and signatures\<close>

definition ed25519_spki_prefix :: string where
  "ed25519_spki_prefix =
     utf8 [0x30, 0x2a, 0x30, 0x05, 0x06, 0x03, 0x2b, 0x65, 0x70, 0x03, 0x21, 0x00]"

definition ed25519_public_key_der :: "string \<Rightarrow> string" where
  "ed25519_public_key_der raw = ed25519_spki_prefix @ raw"

text \<open>\<open>chunks(64)\<close>, each followed by a newline.\<close>

function pem_lines :: "string \<Rightarrow> string" where
  "pem_lines s = (if s = [] then [] else take 64 s @ CHR 10 # pem_lines (drop 64 s))"
  by pat_completeness auto
termination by (relation "measure length") auto

declare pem_lines.simps [simp del]

definition pem_block :: "crypto_lib \<Rightarrow> string \<Rightarrow> string \<Rightarrow> string" where
  "pem_block c label der =
     ''-----BEGIN '' @ label @ ''-----'' @ CHR 10 # pem_lines (b64_std c der)
       @ ''-----END '' @ label @ ''-----'' @ [CHR 10]"

text \<open>
  \<open>str::lines\<close>: the pieces between newlines, a final empty one dropped, one carriage
  return at the end of a line that ended in a newline removed.
\<close>

fun split_lines :: "string \<Rightarrow> string \<Rightarrow> string list" where
  "split_lines acc [] = (if acc = [] then [] else [acc])"
| "split_lines acc (x # xs) =
     (if x = CHR 10
      then (if acc \<noteq> [] \<and> last acc = CHR 13 then butlast acc else acc) # split_lines [] xs
      else split_lines (acc @ [x]) xs)"

definition str_lines :: "string \<Rightarrow> string list" where
  "str_lines s = split_lines [] s"

definition parse_ed25519_public_key :: "crypto_lib \<Rightarrow> string \<Rightarrow> app_error + string" where
  "parse_ed25519_public_key c key =
     (let key = trim key in
      if starts_with ''-----BEGIN PUBLIC KEY-----'' key then
        rs_bind (ok_or (b64_std_decode c
                         (concat (filter (\<lambda>l. \<not> starts_with ''-----'' l) (str_lines key))))
                   (InvalidRequest ''device public key invalid'')) (\<lambda>der.
        if starts_with ed25519_spki_prefix der
        then Inr (drop (length ed25519_spki_prefix) der)
        else Inl (InvalidRequest ''device public key invalid''))
      else
        rs_bind (ok_or (decode_base64_text c key)
                   (InvalidRequest ''device public key invalid'')) (\<lambda>raw.
        if length raw \<noteq> 32 then Inl (InvalidRequest ''device public key invalid'')
        else Inr raw))"

definition sign_ed25519 :: "crypto_lib \<Rightarrow> string \<Rightarrow> string \<Rightarrow> app_error + string" where
  "sign_ed25519 c private_key message =
     rs_bind (ok_or (ed25519_sign c private_key message)
                (Crypto ''failed to read Ed25519 signing key'')) (\<lambda>s.
     Inr (b64_url c s))"

definition verify_ed25519_signature ::
    "crypto_lib \<Rightarrow> string \<Rightarrow> string \<Rightarrow> string \<Rightarrow> app_error + unit" where
  "verify_ed25519_signature c public_key message signature =
     rs_bind (parse_ed25519_public_key c public_key) (\<lambda>key.
     rs_bind (ok_or (decode_base64_text c signature) (InvalidRequest ''signature invalid'')) (\<lambda>s.
     if ed25519_verify c key message s then Inr ()
     else Inl (InvalidRequest ''signature invalid'')))"


section \<open>Access tokens\<close>

text \<open>\<open>str::split('.')\<close>, collected.\<close>

fun split_char :: "char \<Rightarrow> string \<Rightarrow> string list" where
  "split_char d [] = [[]]"
| "split_char d (x # xs) =
     (if x = d then [] # split_char d xs
      else (case split_char d xs of
              [] \<Rightarrow> [[x]]
            | p # ps \<Rightarrow> (x # p) # ps))"

definition access_token_invalid :: app_error where
  "access_token_invalid = TokenInvalid ''access token invalid''"

definition sign_eddsa ::
    "crypto_lib \<Rightarrow> client_access_claims \<Rightarrow> string \<Rightarrow> string \<Rightarrow> app_error + string" where
  "sign_eddsa c claims kid private_key =
     (let kid = trim kid in
      if kid = [] then Inl (Crypto ''jwt kid is required'')
      else
        (let header = b64_url c (header_to_json c \<lparr>jh_alg = ''EdDSA'', jh_typ = Some ''JWT'',
                                                  jh_kid = kid\<rparr>);
             payload = b64_url c (claims_to_json c claims);
             signing_input = header @ ''.'' @ payload
         in rs_bind (sign_ed25519 c private_key signing_input) (\<lambda>signature.
            Inr (signing_input @ ''.'' @ signature))))"

definition decode_eddsa_header :: "crypto_lib \<Rightarrow> string \<Rightarrow> app_error + jwt_header" where
  "decode_eddsa_header c token =
     (let parts = split_char CHR ''.'' token in
      if length parts \<noteq> 3 then Inl access_token_invalid
      else
        rs_bind (ok_or (b64_url_decode c (parts ! 0)) access_token_invalid) (\<lambda>b.
        rs_bind (ok_or (header_of_json c b) access_token_invalid) (\<lambda>h.
        if jh_alg h \<noteq> ''EdDSA'' \<or> trim (jh_kid h) = [] then Inl access_token_invalid
        else Inr h)))"

definition verify_eddsa ::
    "crypto_lib \<Rightarrow> string \<Rightarrow> string \<Rightarrow> string \<Rightarrow> string \<Rightarrow> i64
      \<Rightarrow> app_error + client_access_claims" where
  "verify_eddsa c token public_key issuer audience now =
     (let parts = split_char CHR ''.'' token in
      if length parts \<noteq> 3 then Inl access_token_invalid
      else
        rs_bind (decode_eddsa_header c token) (\<lambda>_.
        case verify_ed25519_signature c public_key (parts ! 0 @ ''.'' @ parts ! 1) (parts ! 2) of
          Inl _ \<Rightarrow> Inl access_token_invalid
        | Inr _ \<Rightarrow>
            rs_bind (ok_or (b64_url_decode c (parts ! 1)) access_token_invalid) (\<lambda>b.
            rs_bind (ok_or (claims_of_json c b) access_token_invalid) (\<lambda>claims.
            if cl_iss claims \<noteq> issuer \<or> cl_aud claims \<noteq> audience then Inl access_token_invalid
            else if cl_exp claims \<le> now then Inl token_expired
            else Inr claims))))"


section \<open>What the primitives promise\<close>

text \<open>The alphabets of RFC 4648, and that decoding inverts encoding.\<close>

definition b64_char :: "char \<Rightarrow> bool" where
  "b64_char c \<longleftrightarrow>
     (48 \<le> byte c \<and> byte c \<le> 57) \<or> (65 \<le> byte c \<and> byte c \<le> 90) \<or> (97 \<le> byte c \<and> byte c \<le> 122)
     \<or> c = CHR ''-'' \<or> c = CHR ''_''"

definition b64_std_char :: "char \<Rightarrow> bool" where
  "b64_std_char c \<longleftrightarrow>
     (48 \<le> byte c \<and> byte c \<le> 57) \<or> (65 \<le> byte c \<and> byte c \<le> 90) \<or> (97 \<le> byte c \<and> byte c \<le> 122)
     \<or> c = CHR ''+'' \<or> c = CHR ''/'' \<or> c = CHR ''=''"

definition base64_laws :: "crypto_lib \<Rightarrow> bool" where
  "base64_laws c \<longleftrightarrow>
     (\<forall>b. b64_url_decode c (b64_url c b) = Some b \<and> list_all b64_char (b64_url c b)
        \<and> b64_std_decode c (b64_std c b) = Some b \<and> list_all b64_std_char (b64_std c b))"

definition aead_laws :: "crypto_lib \<Rightarrow> string \<Rightarrow> bool" where
  "aead_laws c master \<longleftrightarrow>
     (\<forall>n p. case aead_seal c master n p of
              None \<Rightarrow> True
            | Some s \<Rightarrow> length s = length p + 16 \<and> aead_open c master n s = Some p)"

lemma b64_char_graphic: "b64_char c \<Longrightarrow> graphic c \<and> c \<noteq> CHR ''.''"
  by (auto simp: b64_char_def graphic_def byte_def)

lemma b64_std_char_line: "b64_std_char c \<Longrightarrow> c \<noteq> CHR 10 \<and> c \<noteq> CHR 13 \<and> c \<noteq> CHR ''-''"
  by (auto simp: b64_std_char_def byte_def)

lemma decode_b64_url:
  assumes "base64_laws c"
  shows "decode_base64_text c (b64_url c b) = Some b"
proof -
  have "list_all graphic (b64_url c b)"
    using assms b64_char_graphic by (auto simp: base64_laws_def list_all_iff)
  then show ?thesis using assms by (simp add: decode_base64_text_def trim_all_graphic base64_laws_def)
qed

lemma b64_url_no_dot: "base64_laws c \<Longrightarrow> CHR ''.'' \<notin> set (b64_url c b)"
  using b64_char_graphic by (auto simp: base64_laws_def list_all_iff)

lemma split_char_nosep: "d \<notin> set x \<Longrightarrow> split_char d x = [x]"
  by (induction x) auto

lemma split_char_sep: "d \<notin> set x \<Longrightarrow> split_char d (x @ d # y) = x # split_char d y"
  by (induction x) auto

lemma split_char_not_Nil [simp]: "split_char d x \<noteq> []"
  by (cases x) (auto split: list.splits)

text \<open>What joining the pieces with the separator gives back.\<close>

lemma split_char_join:
  assumes "split_char d x = [a, b, e]"
  shows "x = a @ d # b @ d # e"
proof -
  have one: "split_char d y = [p] \<Longrightarrow> y = p" for y p
  proof (induction y arbitrary: p)
    case (Cons z y)
    then show ?case by (auto split: if_splits list.splits)
  qed simp
  have two: "split_char d y = [p, q] \<Longrightarrow> y = p @ d # q" for y p q
  proof (induction y arbitrary: p)
    case (Cons z y)
    then show ?case using one [of y] by (auto split: if_splits list.splits)
  qed simp
  show ?thesis using assms
  proof (induction x arbitrary: a)
    case (Cons z x)
    then show ?case using two [of x] by (auto split: if_splits list.splits)
  qed simp
qed

lemma split_lines_line:
  "CHR 10 \<notin> set x \<Longrightarrow> (acc @ x = [] \<or> last (acc @ x) \<noteq> CHR 13) \<Longrightarrow>
    split_lines acc (x @ CHR 10 # y) = (acc @ x) # split_lines [] y"
  by (induction x arbitrary: acc) auto

lemma split_lines_last: "CHR 10 \<notin> set x \<Longrightarrow> acc @ x \<noteq> [] \<Longrightarrow> split_lines acc x = [acc @ x]"
  by (induction x arbitrary: acc) auto

lemma concat_pem_lines:
  assumes "list_all b64_std_char s"
  shows "concat (filter (\<lambda>l. \<not> starts_with ''-----'' l) (split_lines [] (pem_lines s @ e)))
    = s @ concat (filter (\<lambda>l. \<not> starts_with ''-----'' l) (split_lines [] e))"
  using assms
proof (induction s rule: pem_lines.induct)
  case (1 s)
  show ?case
  proof (cases "s = []")
    case True
    then show ?thesis by (simp add: pem_lines.simps)
  next
    case False
    let ?x = "take 64 s"
    have all: "list_all b64_std_char ?x" and rest: "list_all b64_std_char (drop 64 s)"
      using 1(2) by (auto simp: list_all_iff dest: in_set_takeD in_set_dropD)
    from all have nl: "CHR 10 \<notin> set ?x" and cr: "CHR 13 \<notin> set ?x" and m: "CHR ''-'' \<notin> set ?x"
      by (auto simp: list_all_iff dest: b64_std_char_line)
    from False obtain a t where x: "?x = a # t" by (cases s) auto
    have lst: "last ?x \<noteq> CHR 13" using cr last_in_set [of ?x] x by auto
    have dash: "\<not> starts_with ''-----'' ?x"
      using m unfolding x by (auto simp: starts_with_def)
    have "split_lines [] (pem_lines s @ e) = ?x # split_lines [] (pem_lines (drop 64 s) @ e)"
      using split_lines_line [OF nl, of "[]" "pem_lines (drop 64 s) @ e"] lst False
      by (subst pem_lines.simps) simp
    with dash 1(1) [OF False rest] show ?thesis by simp
  qed
qed


section \<open>Concrete primitives\<close>

text \<open>
  Primitives for the concrete instances: two letters per byte as the base64 codecs, an AEAD
  that appends sixteen zero bytes, signatures that repeat the message.
\<close>

fun letters :: "string \<Rightarrow> string" where
  "letters [] = []"
| "letters (x # xs) = char_of (97 + byte x div 16) # char_of (97 + byte x mod 16) # letters xs"

fun of_letters :: "string \<Rightarrow> string option" where
  "of_letters [] = Some []"
| "of_letters [x] = None"
| "of_letters (x # y # xs) =
     (case of_letters xs of
        None \<Rightarrow> None
      | Some r \<Rightarrow> Some (char_of ((byte x - 97) * 16 + (byte y - 97)) # r))"

definition sample_claims :: client_access_claims where
  "sample_claims = \<lparr>cl_sub = ''s'', cl_iss = ''iss'', cl_aud = ''aud'', cl_exp = 900, cl_iat = 0,
     cl_session_id = 104, cl_tenant_id = 1, cl_app_id = 1, cl_device_id = 101,
     cl_machine_id = ''m'', cl_auth_mode = ''license''\<rparr>"

definition sample_crypto :: crypto_lib where
  "sample_crypto = \<lparr>b64_url = letters, b64_url_decode = of_letters, b64_std = letters,
     b64_std_decode = of_letters, hmac_sha256 = (\<lambda>k m. Inr (k @ m)), sha256 = id,
     aead_seal = (\<lambda>k n p. Some (p @ replicate 16 CHR 0x00)),
     aead_open = (\<lambda>k n s. Some (take (length s - 16) s)),
     ed25519_sign = (\<lambda>k m. Some m), ed25519_verify = (\<lambda>k m s. m = s),
     header_to_json = (\<lambda>h. jh_kid h), header_of_json =
       (\<lambda>s. Some \<lparr>jh_alg = ''EdDSA'', jh_typ = Some ''JWT'', jh_kid = s\<rparr>),
     claims_to_json = cl_machine_id, claims_of_json = (\<lambda>s. Some sample_claims)\<rparr>"

lemma byte_bound: "byte x < 256"
  by (simp add: byte_def)

lemma of_letters_letters: "of_letters (letters s) = Some s"
proof (induction s)
  case (Cons x s)
  have "byte x div 16 < 16" "byte x mod 16 < 16" using byte_bound [of x] by auto
  then show ?case using Cons by (simp add: byte_def)
qed simp

lemma letter_char:
  "(n::nat) < 16 \<Longrightarrow> b64_char (char_of (97 + n)) \<and> b64_std_char (char_of (97 + n))"
  by (simp add: b64_char_def b64_std_char_def byte_def)

lemma letters_chars: "list_all b64_char (letters s) \<and> list_all b64_std_char (letters s)"
proof (induction s)
  case (Cons x s)
  have "byte x div 16 < 16" using byte_bound [of x] by auto
  with Cons letter_char show ?case by simp
qed simp

lemma sample_base64_laws: "base64_laws sample_crypto"
  by (simp add: base64_laws_def sample_crypto_def of_letters_letters letters_chars)

lemma sample_aead_laws: "aead_laws sample_crypto k"
  by (simp add: aead_laws_def sample_crypto_def)


section \<open>Properties\<close>

lemma sealed_key_opens:
  assumes "base64_laws c" and "aead_laws c master" and "length n = 12"
    and "encrypt_bytes c master (Some n) plaintext = Inr e"
  shows "decrypt_bytes c master e = Inr plaintext"
proof -
  from assms(4) obtain s where s: "aead_seal c master n plaintext = Some s"
    and e: "e = \<lparr>pe_ciphertext = b64_url c (take (length s - 16) s), pe_nonce = b64_url c n,
      pe_tag = b64_url c (drop (length s - 16) s), pe_key_version = ''v1'',
      pe_alg = ''AES-256-GCM''\<rparr>"
    by (auto simp: encrypt_bytes_def ok_or_def rs_bind_def Let_def split: option.splits)
  from assms(2) s have "length s = length plaintext + 16" "aead_open c master n s = Some plaintext"
    by (auto simp: aead_laws_def split: option.splits)
  with assms(1,3) show ?thesis
    by (simp add: e decrypt_bytes_def decode_b64_url ok_or_def rs_bind_def)
qed

text \<open>
  A private key that was sealed under the master key is what opening its envelope
  gives, for every key and every nonce of twelve bytes.
\<close>

theorem envelope_roundtrip:
  assumes "base64_laws c" and "aead_laws c master" and "length n = 12"
    and "encrypt_bytes c master (Some n) plaintext = Inr e"
  shows "decrypt_bytes c master e = Inr plaintext"
  using assms by (rule sealed_key_opens)

theorem envelope_roundtrip_witness:
  "\<exists>e. encrypt_bytes sample_crypto ''k'' (Some ''123456789012'') ''pkcs8'' = Inr e
      \<and> decrypt_bytes sample_crypto ''k'' e = Inr ''pkcs8''"
proof -
  obtain e where e: "encrypt_bytes sample_crypto ''k'' (Some ''123456789012'') ''pkcs8'' = Inr e"
    by (simp add: encrypt_bytes_def sample_crypto_def ok_or_def rs_bind_def Let_def)
  from envelope_roundtrip [OF sample_base64_laws sample_aead_laws _ e] e show ?thesis by simp
qed

lemma pem_block_parses:
  assumes "base64_laws c"
  shows "parse_ed25519_public_key c (pem_block c ''PUBLIC KEY'' (ed25519_public_key_der raw))
    = Inr raw"
proof -
  let ?b = "b64_std c (ed25519_public_key_der raw)"
  let ?h = "''-----BEGIN PUBLIC KEY-----''"
  let ?f = "''-----END PUBLIC KEY-----''"
  have pem: "pem_block c ''PUBLIC KEY'' (ed25519_public_key_der raw)
      = (?h @ CHR 10 # pem_lines ?b @ ?f) @ [CHR 10]"
    by (simp add: pem_block_def)
  have key: "trim ((?h @ CHR 10 # pem_lines ?b @ ?f) @ [CHR 10]) = ?h @ CHR 10 # pem_lines ?b @ ?f"
    by (rule trim_newline) (simp_all add: graphic_def byte_def)
  have all: "list_all b64_std_char ?b" and dec: "b64_std_decode c ?b = Some (ed25519_public_key_der raw)"
    using assms by (auto simp: base64_laws_def)
  have lines: "str_lines (?h @ CHR 10 # pem_lines ?b @ ?f) = ?h # split_lines [] (pem_lines ?b @ ?f)"
    unfolding str_lines_def by (subst split_lines_line) auto
  have last: "split_lines [] ?f = [?f]" by simp
  have "concat (filter (\<lambda>l. \<not> starts_with ''-----'' l) (str_lines (?h @ CHR 10 # pem_lines ?b @ ?f))) = ?b"
    unfolding lines using concat_pem_lines [OF all, of ?f] unfolding last
    by (simp add: starts_with_def)
  with dec show ?thesis unfolding pem parse_ed25519_public_key_def Let_def key
    by (simp add: starts_with_def ok_or_def rs_bind_def ed25519_public_key_der_def)
qed

text \<open>
  The PEM text of a public key is parsed back to its bytes, whatever their number.
\<close>

theorem public_key_pem_roundtrip:
  assumes "base64_laws c"
  shows "parse_ed25519_public_key c (pem_block c ''PUBLIC KEY'' (ed25519_public_key_der raw))
    = Inr raw"
  using assms by (rule pem_block_parses)

theorem public_key_pem_roundtrip_witness:
  "parse_ed25519_public_key sample_crypto
     (pem_block sample_crypto ''PUBLIC KEY'' (ed25519_public_key_der ''32 raw bytes of an Ed25519 key..''))
   = Inr ''32 raw bytes of an Ed25519 key..''"
  by (rule public_key_pem_roundtrip [OF sample_base64_laws])

lemma signed_token_verifies:
  assumes "base64_laws c" and "sign_eddsa c claims kid private_key = Inr token"
    and "header_of_json c (header_to_json c \<lparr>jh_alg = ''EdDSA'', jh_typ = Some ''JWT'', jh_kid = trim kid\<rparr>)
      = Some \<lparr>jh_alg = ''EdDSA'', jh_typ = Some ''JWT'', jh_kid = trim kid\<rparr>"
    and "claims_of_json c (claims_to_json c claims) = Some claims"
    and "parse_ed25519_public_key c public_key = Inr raw"
    and "\<And>m s. ed25519_sign c private_key m = Some s \<Longrightarrow> ed25519_verify c raw m s"
    and "now < cl_exp claims"
  shows "verify_eddsa c token public_key (cl_iss claims) (cl_aud claims) now = Inr claims"
proof -
  let ?hd = "\<lparr>jh_alg = ''EdDSA'', jh_typ = Some ''JWT'', jh_kid = trim kid\<rparr>"
  let ?h = "b64_url c (header_to_json c ?hd)"
  let ?p = "b64_url c (claims_to_json c claims)"
  from assms(2) obtain s where s: "ed25519_sign c private_key (?h @ ''.'' @ ?p) = Some s"
    and token: "token = ?h @ CHR ''.'' # ?p @ CHR ''.'' # b64_url c s" and kid: "trim kid \<noteq> []"
    by (auto simp: sign_eddsa_def sign_ed25519_def ok_or_def rs_bind_def Let_def
        split: if_splits option.splits)
  have parts: "split_char CHR ''.'' token = [?h, ?p, b64_url c s]"
    unfolding token using b64_url_no_dot [OF assms(1)]
    by (simp add: split_char_sep split_char_nosep)
  have dec: "b64_url_decode c (b64_url c b) = Some b" for b
    using assms(1) by (simp add: base64_laws_def)
  have header: "decode_eddsa_header c token = Inr ?hd"
    using parts dec assms(3) kid
    by (simp add: trim_idem decode_eddsa_header_def Let_def ok_or_def rs_bind_def)
  have sig: "verify_ed25519_signature c public_key (?h @ ''.'' @ ?p) (b64_url c s) = Inr ()"
    using assms(5) assms(6) [OF s] decode_b64_url [OF assms(1)]
    by (simp add: verify_ed25519_signature_def ok_or_def rs_bind_def)
  show ?thesis
    using parts header sig dec assms(4,7)
    by (simp add: verify_eddsa_def Let_def ok_or_def rs_bind_def)
qed

text \<open>
  C30. An access token the server signed verifies, under the public key of the signing key,
  to exactly the claims it was signed for, until they expire.
\<close>

theorem access_token_roundtrip:
  assumes "base64_laws c" and "sign_eddsa c claims kid private_key = Inr token"
    and "header_of_json c (header_to_json c \<lparr>jh_alg = ''EdDSA'', jh_typ = Some ''JWT'', jh_kid = trim kid\<rparr>)
      = Some \<lparr>jh_alg = ''EdDSA'', jh_typ = Some ''JWT'', jh_kid = trim kid\<rparr>"
    and "claims_of_json c (claims_to_json c claims) = Some claims"
    and "parse_ed25519_public_key c public_key = Inr raw"
    and "\<And>m s. ed25519_sign c private_key m = Some s \<Longrightarrow> ed25519_verify c raw m s"
    and "now < cl_exp claims"
  shows "verify_eddsa c token public_key (cl_iss claims) (cl_aud claims) now = Inr claims"
  using assms by (rule signed_token_verifies)

definition sample_pem :: string where
  "sample_pem = pem_block sample_crypto ''PUBLIC KEY'' (ed25519_public_key_der ''raw'')"

lemma sample_pem_parses: "parse_ed25519_public_key sample_crypto sample_pem = Inr ''raw''"
  by code_simp

definition sample_token :: string where
  "sample_token = (case sign_eddsa sample_crypto sample_claims ''kid_1'' ''priv'' of
     Inr t \<Rightarrow> t | Inl _ \<Rightarrow> [])"

lemma sample_token_signed: "sign_eddsa sample_crypto sample_claims ''kid_1'' ''priv'' = Inr sample_token"
  by code_simp

theorem access_token_roundtrip_witness:
  "\<exists>t. sign_eddsa sample_crypto sample_claims ''kid_1'' ''priv'' = Inr t
      \<and> verify_eddsa sample_crypto t sample_pem ''iss'' ''aud'' 899 = Inr sample_claims"
proof -
  have verifies: "ed25519_sign sample_crypto ''priv'' m = Some s \<Longrightarrow> ed25519_verify sample_crypto ''raw'' m s"
    for m s by (simp add: sample_crypto_def)
  have header: "header_of_json sample_crypto (header_to_json sample_crypto
      \<lparr>jh_alg = ''EdDSA'', jh_typ = Some ''JWT'', jh_kid = trim ''kid_1''\<rparr>)
    = Some \<lparr>jh_alg = ''EdDSA'', jh_typ = Some ''JWT'', jh_kid = trim ''kid_1''\<rparr>"
    and claims: "claims_of_json sample_crypto (claims_to_json sample_crypto sample_claims) = Some sample_claims"
    by (simp_all add: sample_crypto_def)
  have "verify_eddsa sample_crypto sample_token sample_pem (cl_iss sample_claims) (cl_aud sample_claims) 899
      = Inr sample_claims"
    by (rule access_token_roundtrip [OF sample_base64_laws sample_token_signed header claims
          sample_pem_parses verifies]) (simp_all add: sample_claims_def)
  with sample_token_signed show ?thesis by (auto simp: sample_claims_def)
qed

text \<open>
  C31. A token that verifies is of three parts, its header names EdDSA and a key id, its
  signature is one of the first two parts under the public key, and its claims are those
  of the second part, for this issuer and audience and not yet expired.
\<close>

theorem verified_token_is_signed:
  assumes "verify_eddsa c token public_key issuer audience now = Inr claims"
  shows "\<exists>h p s raw sig hd. token = h @ ''.'' @ p @ ''.'' @ s
      \<and> decode_eddsa_header c token = Inr hd \<and> jh_alg hd = ''EdDSA'' \<and> trim (jh_kid hd) \<noteq> []
      \<and> parse_ed25519_public_key c public_key = Inr raw \<and> decode_base64_text c s = Some sig
      \<and> ed25519_verify c raw (h @ ''.'' @ p) sig
      \<and> (\<exists>b. b64_url_decode c p = Some b \<and> claims_of_json c b = Some claims)
      \<and> cl_iss claims = issuer \<and> cl_aud claims = audience \<and> now < cl_exp claims"
proof -
  from assms have len: "length (split_char CHR ''.'' token) = 3"
    by (auto simp: verify_eddsa_def Let_def split: if_splits)
  then obtain h p s where parts: "split_char CHR ''.'' token = [h, p, s]"
    by (auto simp: numeral_3_eq_3 length_Suc_conv)
  have token: "token = h @ CHR ''.'' # p @ CHR ''.'' # s" by (rule split_char_join [OF parts])
  obtain hd where hd: "decode_eddsa_header c token = Inr hd"
    and ver: "verify_ed25519_signature c public_key (h @ ''.'' @ p) s = Inr ()"
    and cl: "\<exists>b. b64_url_decode c p = Some b \<and> claims_of_json c b = Some claims"
    and iss: "cl_iss claims = issuer \<and> cl_aud claims = audience \<and> now < cl_exp claims"
    using assms parts
    by (auto simp: verify_eddsa_def Let_def rs_bind_Inr ok_or_Inr split: sum.splits if_splits)
  have head: "jh_alg hd = ''EdDSA'' \<and> trim (jh_kid hd) \<noteq> []"
    using hd parts by (auto simp: decode_eddsa_header_def Let_def rs_bind_Inr split: if_splits)
  obtain raw sig where "parse_ed25519_public_key c public_key = Inr raw"
    and "decode_base64_text c s = Some sig" and "ed25519_verify c raw (h @ ''.'' @ p) sig"
    using ver by (auto simp: verify_ed25519_signature_def rs_bind_Inr ok_or_Inr split: if_splits)
  with token hd head cl iss show ?thesis by force
qed

theorem verified_token_is_signed_witness:
  "\<exists>h p s. sample_token = h @ ''.'' @ p @ ''.'' @ s \<and> ed25519_verify sample_crypto ''raw'' (h @ ''.'' @ p)
      (the (decode_base64_text sample_crypto s))"
proof -
  have "verify_eddsa sample_crypto sample_token sample_pem ''iss'' ''aud'' 899 = Inr sample_claims"
    by code_simp
  from verified_token_is_signed [OF this] sample_pem_parses show ?thesis by force
qed

end
