(* ===== verification/Devices.thy ===== *)
theory Devices
  imports Entitlements Crypto
begin

text \<open>
  Devices, their keys and the blacklist: \<open>modules/device/model.rs\<close>, \<open>repository.rs\<close> and
  the binding rules of \<open>service.rs\<close>. A statement of \<open>repository.rs\<close> is a transaction
  over \<open>access_db\<close>; the functions that take a pool run the same statement in a
  transaction of its own (\<open>commit\<close>).
\<close>


section \<open>Input\<close>

record device_bind_input =
  dbi_tenant_id :: uuid
  dbi_app_id :: uuid
  dbi_customer_id :: "uuid option"
  dbi_license_id :: "uuid option"
  dbi_subscription_id :: "uuid option"
  dbi_machine_id :: string
  dbi_device_name :: "string option"
  dbi_os :: "string option"
  dbi_app_version :: "string option"
  dbi_metadata :: "json option"

record new_device =
  nd_id :: uuid
  nd_tenant_id :: uuid
  nd_app_id :: uuid
  nd_customer_id :: "uuid option"
  nd_license_id :: "uuid option"
  nd_subscription_id :: "uuid option"
  nd_machine_id :: string
  nd_device_name :: "string option"
  nd_os :: "string option"
  nd_app_version :: "string option"
  nd_metadata :: json

record new_device_key =
  ndk_id :: uuid
  ndk_tenant_id :: uuid
  ndk_app_id :: uuid
  ndk_device_id :: uuid
  ndk_public_key :: string

definition normalize_machine_id :: "string \<Rightarrow> app_error + string" where
  "normalize_machine_id m =
     (let m = trim m in if m = [] then Inl (ValidationFailed ''machine_id is required'') else Inr m)"

definition clean_optional :: "string option \<Rightarrow> string option" where
  "clean_optional v =
     (case v of None \<Rightarrow> None | Some s \<Rightarrow> (let t = trim s in if t = [] then None else Some t))"

definition new_device_from_bind_input ::
    "access_env \<Rightarrow> device_bind_input \<Rightarrow> app_error + new_device" where
  "new_device_from_bind_input env i =
     rs_bind (normalize_machine_id (dbi_machine_id i)) (\<lambda>m.
     Inr \<lparr>nd_id = env_device_id env, nd_tenant_id = dbi_tenant_id i, nd_app_id = dbi_app_id i,
          nd_customer_id = dbi_customer_id i, nd_license_id = dbi_license_id i,
          nd_subscription_id = dbi_subscription_id i, nd_machine_id = m,
          nd_device_name = clean_optional (dbi_device_name i), nd_os = clean_optional (dbi_os i),
          nd_app_version = clean_optional (dbi_app_version i),
          nd_metadata = (case dbi_metadata i of None \<Rightarrow> JObject [] | Some v \<Rightarrow> v)\<rparr>)"

definition new_device_key_new ::
    "crypto_lib \<Rightarrow> access_env \<Rightarrow> uuid \<Rightarrow> uuid \<Rightarrow> uuid \<Rightarrow> string \<Rightarrow> app_error + new_device_key"
  where
  "new_device_key_new c env tenant app device public_key =
     (let key = trim public_key in
      if key = [] then Inl (ValidationFailed ''device_public_key is required'')
      else (case parse_ed25519_public_key c key of
              Inl _ \<Rightarrow> Inl (ValidationFailed ''device_public_key invalid'')
            | Inr _ \<Rightarrow> Inr \<lparr>ndk_id = env_device_key_id env, ndk_tenant_id = tenant,
                 ndk_app_id = app, ndk_device_id = device, ndk_public_key = key\<rparr>))"

definition validate_device_status_filter :: "string option \<Rightarrow> app_error + unit" where
  "validate_device_status_filter s =
     (case s of None \<Rightarrow> Inr ()
      | Some v \<Rightarrow> if v \<in> {''active'', ''disabled'', ''blacklisted'', ''unbound''} then Inr ()
                 else Inl (ValidationFailed ''device status is invalid''))"


section \<open>Statements\<close>

definition device_db_error :: "access_env \<Rightarrow> app_error" where
  "device_db_error env = db_error env ''device repository''"

definition find_device_by_machine_id ::
    "uuid \<Rightarrow> uuid \<Rightarrow> string \<Rightarrow> access_db \<Rightarrow> device option" where
  "find_device_by_machine_id tenant app m db =
     List.find (\<lambda>d. dev_tenant_id d = tenant \<and> dev_app_id d = app \<and> dev_machine_id d = m
                  \<and> dev_deleted_at d = None) (devices db)"

definition device_find_by_id :: "uuid \<Rightarrow> uuid \<Rightarrow> uuid \<Rightarrow> access_db \<Rightarrow> device option" where
  "device_find_by_id tenant app i db =
     List.find (\<lambda>d. dev_tenant_id d = tenant \<and> dev_app_id d = app \<and> dev_id d = i
                  \<and> dev_deleted_at d = None) (devices db)"

definition device_find_by_id_for_admin :: "uuid \<Rightarrow> uuid \<Rightarrow> access_db \<Rightarrow> device option" where
  "device_find_by_id_for_admin tenant i db =
     List.find (\<lambda>d. dev_tenant_id d = tenant \<and> dev_id d = i \<and> dev_deleted_at d = None)
       (devices db)"

definition device_row :: "access_env \<Rightarrow> new_device \<Rightarrow> device" where
  "device_row env n =
     \<lparr>dev_id = nd_id n, dev_tenant_id = nd_tenant_id n, dev_app_id = nd_app_id n,
      dev_customer_id = nd_customer_id n, dev_license_id = nd_license_id n,
      dev_subscription_id = nd_subscription_id n, dev_machine_id = nd_machine_id n,
      dev_device_name = nd_device_name n, dev_os = nd_os n, dev_app_version = nd_app_version n,
      dev_status = ''active'', dev_first_seen_at = env_db_now env, dev_last_seen_at = None,
      dev_metadata = nd_metadata n, dev_created_at = env_db_now env,
      dev_updated_at = env_db_now env, dev_deleted_at = None\<rparr>"

definition create_device :: "access_env \<Rightarrow> new_device \<Rightarrow> device access_tx" where
  "create_device env n =
     (let row = device_row env n in
      tx_bind (tx_read (\<lambda>db. insert_row device_check device_clash (device_db_error env) row (devices db)))
        (\<lambda>t. tx_bind (tx_modify (\<lambda>db. db\<lparr>devices := t\<rparr>)) (\<lambda>_. tx_return row)))"

definition occupies :: "device \<Rightarrow> bool" where
  "occupies d \<longleftrightarrow> dev_status d \<in> {''active'', ''disabled''} \<and> dev_deleted_at d = None"

definition active_device_count_for_license :: "uuid \<Rightarrow> uuid \<Rightarrow> uuid \<Rightarrow> access_db \<Rightarrow> int" where
  "active_device_count_for_license tenant app l db =
     count_where (\<lambda>d. dev_tenant_id d = tenant \<and> dev_app_id d = app
                    \<and> dev_license_id d = Some l \<and> occupies d) (devices db)"

definition active_device_count_for_subscription ::
    "uuid \<Rightarrow> uuid \<Rightarrow> uuid \<Rightarrow> access_db \<Rightarrow> int" where
  "active_device_count_for_subscription tenant app s db =
     count_where (\<lambda>d. dev_tenant_id d = tenant \<and> dev_app_id d = app
                    \<and> dev_subscription_id d = Some s \<and> occupies d) (devices db)"

text \<open>An update of the devices of one tenant that \<open>P\<close> selects, returning the row.\<close>

definition update_devices ::
    "access_env \<Rightarrow> uuid \<Rightarrow> (device \<Rightarrow> bool) \<Rightarrow> (device \<Rightarrow> device) \<Rightarrow> device option access_tx"
  where
  "update_devices env tenant P f =
     tx_bind (tx_read (\<lambda>db. update_returning device_check (device_db_error env)
                (\<lambda>d. dev_tenant_id d = tenant \<and> P d \<and> dev_deleted_at d = None)
                (\<lambda>d. (f d)\<lparr>dev_updated_at := env_db_now env\<rparr>) (devices db)))
       (\<lambda>(r, t). tx_bind (tx_modify (\<lambda>db. db\<lparr>devices := t\<rparr>)) (\<lambda>_. tx_return r))"

definition set_subscription_binding ::
    "access_env \<Rightarrow> uuid \<Rightarrow> uuid \<Rightarrow> uuid \<Rightarrow> uuid \<Rightarrow> device option access_tx" where
  "set_subscription_binding env tenant i customer s =
     update_devices env tenant (\<lambda>d. dev_id d = i)
       (\<lambda>d. d\<lparr>dev_customer_id := Some customer, dev_license_id := None,
             dev_subscription_id := Some s\<rparr>)"

definition set_device_status ::
    "access_env \<Rightarrow> uuid \<Rightarrow> uuid \<Rightarrow> string \<Rightarrow> device option access_tx" where
  "set_device_status env tenant i status =
     update_devices env tenant (\<lambda>d. dev_id d = i) (\<lambda>d. d\<lparr>dev_status := status\<rparr>)"

definition touch_device ::
    "access_env \<Rightarrow> uuid \<Rightarrow> uuid \<Rightarrow> uuid \<Rightarrow> string option \<Rightarrow> unit access_tx" where
  "touch_device env tenant app i version =
     tx_bind (update_devices env tenant (\<lambda>d. dev_app_id d = app \<and> dev_id d = i)
       (\<lambda>d. d\<lparr>dev_last_seen_at := Some (env_db_now env),
             dev_app_version := (case version of None \<Rightarrow> dev_app_version d | Some v \<Rightarrow> Some v)\<rparr>))
       (\<lambda>_. tx_return ())"

definition is_device_blacklisted :: "uuid \<Rightarrow> uuid \<Rightarrow> string \<Rightarrow> access_db \<Rightarrow> bool" where
  "is_device_blacklisted tenant app m db =
     list_ex (\<lambda>b. bl_tenant_id b = tenant \<and> bl_machine_id b = m
                \<and> (bl_app_id b = None \<or> bl_app_id b = Some app)) (device_blacklist db)"

definition find_active_key ::
    "uuid \<Rightarrow> uuid \<Rightarrow> uuid \<Rightarrow> uuid \<Rightarrow> access_db \<Rightarrow> device_key option" where
  "find_active_key tenant app device k db =
     List.find (\<lambda>x. dk_tenant_id x = tenant \<and> dk_app_id x = app \<and> dk_device_id x = device
                  \<and> dk_id x = k \<and> dk_status x = ''active'') (device_keys db)"

definition create_device_key :: "access_env \<Rightarrow> new_device_key \<Rightarrow> device_key access_tx" where
  "create_device_key env k =
     (let row = \<lparr>dk_id = ndk_id k, dk_tenant_id = ndk_tenant_id k, dk_app_id = ndk_app_id k,
           dk_device_id = ndk_device_id k, dk_public_key = ndk_public_key k,
           dk_algorithm = ''Ed25519'', dk_status = ''active'', dk_created_at = env_db_now env,
           dk_rotated_at = None, dk_revoked_at = None\<rparr> in
      tx_bind (tx_read (\<lambda>db. insert_row device_key_check device_key_clash (device_db_error env)
                              row (device_keys db)))
        (\<lambda>t. tx_bind (tx_modify (\<lambda>db. db\<lparr>device_keys := t\<rparr>)) (\<lambda>_. tx_return row)))"

definition rotate_device_key ::
    "access_env \<Rightarrow> uuid \<Rightarrow> uuid \<Rightarrow> uuid \<Rightarrow> uuid \<Rightarrow> device_key option access_tx" where
  "rotate_device_key env tenant app device k =
     tx_bind (tx_read (\<lambda>db. update_returning device_key_check (device_db_error env)
                (\<lambda>x. dk_tenant_id x = tenant \<and> dk_app_id x = app \<and> dk_device_id x = device
                   \<and> dk_id x = k \<and> dk_status x = ''active'')
                (\<lambda>x. x\<lparr>dk_status := ''rotated'', dk_rotated_at := Some (env_db_now env)\<rparr>)
                (device_keys db)))
       (\<lambda>(r, t). tx_bind (tx_modify (\<lambda>db. db\<lparr>device_keys := t\<rparr>)) (\<lambda>_. tx_return r))"

definition blacklist_scope :: "uuid \<Rightarrow> uuid \<Rightarrow> string \<Rightarrow> blacklist_entry \<Rightarrow> bool" where
  "blacklist_scope tenant app m b \<longleftrightarrow>
     bl_tenant_id b = tenant \<and> bl_app_id b = Some app \<and> bl_machine_id b = m"

definition add_device_blacklist ::
    "access_env \<Rightarrow> uuid \<Rightarrow> uuid \<Rightarrow> string \<Rightarrow> string \<Rightarrow> uuid \<Rightarrow> unit access_tx" where
  "add_device_blacklist env tenant app m reason created_by =
     tx_bind (tx_modify (\<lambda>db. db\<lparr>device_blacklist :=
                filter (\<lambda>b. \<not> blacklist_scope tenant app m b) (device_blacklist db)\<rparr>)) (\<lambda>_.
     tx_bind (tx_read (\<lambda>db. insert_row blacklist_check blacklist_clash (device_db_error env)
                \<lparr>bl_id = env_blacklist_id env, bl_tenant_id = tenant, bl_app_id = Some app,
                 bl_machine_id = m, bl_reason = Some reason, bl_created_by = Some created_by,
                 bl_created_at = env_db_now env\<rparr> (device_blacklist db)))
       (\<lambda>t. tx_modify (\<lambda>db. db\<lparr>device_blacklist := t\<rparr>)))"

definition remove_device_blacklist :: "uuid \<Rightarrow> uuid \<Rightarrow> string \<Rightarrow> int access_tx" where
  "remove_device_blacklist tenant app m =
     tx_bind (tx_read (\<lambda>db. Inr (count_where (blacklist_scope tenant app m) (device_blacklist db))))
       (\<lambda>n. tx_bind (tx_modify (\<lambda>db. db\<lparr>device_blacklist :=
                filter (\<lambda>b. \<not> blacklist_scope tenant app m b) (device_blacklist db)\<rparr>))
       (\<lambda>_. tx_return n))"


section \<open>Revoking the sessions of devices\<close>

text \<open>
  The two statements every revocation runs, for the devices \<open>D\<close> of a tenant:
  \<open>revoke_device_sessions_in_transaction\<close> with one device, and the license and
  subscription versions with the devices bound to the grant.
\<close>

definition revoke_sessions_of :: "access_env \<Rightarrow> uuid \<Rightarrow> (access_db \<Rightarrow> uuid \<Rightarrow> bool) \<Rightarrow> int access_tx"
  where
  "revoke_sessions_of env tenant D =
     tx_bind (tx_read (\<lambda>db. Inr (\<lambda>s. ses_tenant_id s = tenant \<and> ses_revoked_at s = None
                                      \<and> D db (ses_device_id s)))) (\<lambda>hit.
     tx_bind (tx_read (\<lambda>db. Inr (count_where hit (client_sessions db)))) (\<lambda>n.
     tx_bind (tx_modify (\<lambda>db. db\<lparr>client_sessions :=
        update_where hit (\<lambda>s. s\<lparr>ses_revoked_at := Some (env_db_now env)\<rparr>) (client_sessions db)\<rparr>))
       (\<lambda>_. tx_return n)))"

definition revoke_refresh_tokens_of ::
    "access_env \<Rightarrow> uuid \<Rightarrow> (access_db \<Rightarrow> uuid \<Rightarrow> bool) \<Rightarrow> int access_tx" where
  "revoke_refresh_tokens_of env tenant D =
     tx_bind (tx_read (\<lambda>db. Inr (\<lambda>rt. rt_revoked_at rt = None
        \<and> list_ex (\<lambda>s. ses_id s = rt_session_id rt \<and> ses_tenant_id s = tenant
                      \<and> D db (ses_device_id s)) (client_sessions db)))) (\<lambda>hit.
     tx_bind (tx_read (\<lambda>db. Inr (count_where hit (client_refresh_tokens db)))) (\<lambda>n.
     tx_bind (tx_modify (\<lambda>db. db\<lparr>client_refresh_tokens :=
        update_where hit (\<lambda>rt. rt\<lparr>rt_revoked_at := Some (env_db_now env)\<rparr>)
          (client_refresh_tokens db)\<rparr>))
       (\<lambda>_. tx_return n)))"

definition revoke_device_sessions :: "access_env \<Rightarrow> uuid \<Rightarrow> uuid \<Rightarrow> int access_tx" where
  "revoke_device_sessions env tenant i = revoke_sessions_of env tenant (\<lambda>_ d. d = i)"

definition revoke_device_refresh_tokens :: "access_env \<Rightarrow> uuid \<Rightarrow> uuid \<Rightarrow> int access_tx" where
  "revoke_device_refresh_tokens env tenant i = revoke_refresh_tokens_of env tenant (\<lambda>_ d. d = i)"


section \<open>Binding\<close>

record bind_device_result =
  bdr_device :: device
  bdr_created :: bool

definition ensure_existing_device_usable :: "device \<Rightarrow> app_error + unit" where
  "ensure_existing_device_usable d =
     (if dev_status d = ''active'' then Inr ()
      else if dev_status d = ''blacklisted'' then Inl device_blacklisted
      else if dev_status d = ''disabled'' \<or> dev_status d = ''unbound'' then Inl device_not_activated
      else Inl (InvalidRequest ''device status is invalid''))"

definition ensure_device_limit_available ::
    "device_bind_input \<Rightarrow> license \<Rightarrow> access_db \<Rightarrow> app_error + unit" where
  "ensure_device_limit_available i l db =
     (if lic_max_devices l = 0 then Inl device_limit_exceeded
      else (case dbi_license_id i of
              None \<Rightarrow> Inr ()
            | Some k \<Rightarrow>
                if active_device_count_for_license (dbi_tenant_id i) (dbi_app_id i) k db
                     \<ge> lic_max_devices l
                then Inl device_limit_exceeded else Inr ()))"

text \<open>
  The pool version counts the devices of the input's subscription and lets an input without
  one through, the version in a transaction counts those of the subscription itself.
\<close>

definition ensure_subscription_device_limit_available ::
    "device_bind_input \<Rightarrow> subscription \<Rightarrow> access_db \<Rightarrow> app_error + unit" where
  "ensure_subscription_device_limit_available i s db =
     (if sub_max_devices s = 0 then Inl device_limit_exceeded
      else (case dbi_subscription_id i of
              None \<Rightarrow> Inr ()
            | Some k \<Rightarrow>
                if active_device_count_for_subscription (dbi_tenant_id i) (dbi_app_id i) k db
                     \<ge> sub_max_devices s
                then Inl device_limit_exceeded else Inr ()))"

definition ensure_subscription_device_limit_available_in_transaction ::
    "device_bind_input \<Rightarrow> subscription \<Rightarrow> access_db \<Rightarrow> app_error + unit" where
  "ensure_subscription_device_limit_available_in_transaction i s db =
     (if sub_max_devices s = 0 then Inl device_limit_exceeded
      else if active_device_count_for_subscription (dbi_tenant_id i) (dbi_app_id i) (sub_id s) db
                \<ge> sub_max_devices s
        then Inl device_limit_exceeded else Inr ())"

definition ensure_not_blacklisted :: "uuid \<Rightarrow> uuid \<Rightarrow> string \<Rightarrow> access_db \<Rightarrow> app_error + unit" where
  "ensure_not_blacklisted tenant app m db =
     (if is_device_blacklisted tenant app m db then Inl device_blacklisted else Inr ())"

definition bind_new_device :: "access_env \<Rightarrow> device_bind_input \<Rightarrow> bind_device_result access_tx" where
  "bind_new_device env i =
     tx_bind (tx_of (new_device_from_bind_input env i)) (\<lambda>n.
     tx_bind (create_device env n) (\<lambda>d.
     tx_return \<lparr>bdr_device = d, bdr_created = True\<rparr>))"

definition bind_for_license_in_transaction ::
    "access_env \<Rightarrow> device_bind_input \<Rightarrow> license \<Rightarrow> bind_device_result access_tx" where
  "bind_for_license_in_transaction env i l =
     tx_bind (tx_of (normalize_machine_id (dbi_machine_id i))) (\<lambda>m.
     tx_bind (tx_read (ensure_not_blacklisted (dbi_tenant_id i) (dbi_app_id i) m)) (\<lambda>_.
     tx_bind (tx_read (\<lambda>db. Inr (find_device_by_machine_id (dbi_tenant_id i) (dbi_app_id i) m db)))
       (\<lambda>found. case found of
          Some existing \<Rightarrow>
            tx_bind (tx_of (ensure_existing_device_usable existing)) (\<lambda>_.
            tx_return \<lparr>bdr_device = existing, bdr_created = False\<rparr>)
        | None \<Rightarrow>
            tx_bind (tx_read (ensure_device_limit_available i l)) (\<lambda>_. bind_new_device env i))))"

definition bind_for_subscription_in_transaction ::
    "access_env \<Rightarrow> device_bind_input \<Rightarrow> subscription \<Rightarrow> bind_device_result access_tx" where
  "bind_for_subscription_in_transaction env i s =
     tx_bind (tx_of (normalize_machine_id (dbi_machine_id i))) (\<lambda>m.
     tx_bind (tx_read (ensure_not_blacklisted (dbi_tenant_id i) (dbi_app_id i) m)) (\<lambda>_.
     tx_bind (tx_read (\<lambda>db. Inr (find_device_by_machine_id (dbi_tenant_id i) (dbi_app_id i) m db)))
       (\<lambda>found. case found of
          Some existing \<Rightarrow>
            tx_bind (tx_of (ensure_existing_device_usable existing)) (\<lambda>_.
            if dev_subscription_id existing = Some (sub_id s)
            then tx_return \<lparr>bdr_device = existing, bdr_created = False\<rparr>
            else
              tx_bind (tx_read (ensure_subscription_device_limit_available_in_transaction i s)) (\<lambda>_.
              tx_bind (set_subscription_binding env (dbi_tenant_id i) (dev_id existing)
                         (sub_customer_id s) (sub_id s)) (\<lambda>r.
              tx_bind (tx_of (ok_or r device_not_found)) (\<lambda>d.
              tx_return \<lparr>bdr_device = d, bdr_created = False\<rparr>))))
        | None \<Rightarrow>
            tx_bind (tx_read (ensure_subscription_device_limit_available_in_transaction i s)) (\<lambda>_.
            bind_new_device env i))))"

definition bind_for_customer_session_in_transaction ::
    "access_env \<Rightarrow> device_bind_input \<Rightarrow> bind_device_result access_tx" where
  "bind_for_customer_session_in_transaction env i =
     tx_bind (tx_of (normalize_machine_id (dbi_machine_id i))) (\<lambda>m.
     tx_bind (tx_read (ensure_not_blacklisted (dbi_tenant_id i) (dbi_app_id i) m)) (\<lambda>_.
     tx_bind (tx_read (\<lambda>db. Inr (find_device_by_machine_id (dbi_tenant_id i) (dbi_app_id i) m db)))
       (\<lambda>found. case found of
          Some existing \<Rightarrow>
            tx_bind (tx_of (ensure_existing_device_usable existing)) (\<lambda>_.
            tx_return \<lparr>bdr_device = existing, bdr_created = False\<rparr>)
        | None \<Rightarrow> bind_new_device env i)))"

text \<open>The pool versions: the reads, and the one write in a transaction of its own.\<close>

definition bind_for_license ::
    "access_env \<Rightarrow> device_bind_input \<Rightarrow> license \<Rightarrow> bind_device_result access_io" where
  "bind_for_license env i l =
     io_bind (io_of (normalize_machine_id (dbi_machine_id i))) (\<lambda>m.
     io_bind (io_read (ensure_not_blacklisted (dbi_tenant_id i) (dbi_app_id i) m)) (\<lambda>_.
     io_bind (io_read (\<lambda>db. Inr (find_device_by_machine_id (dbi_tenant_id i) (dbi_app_id i) m db)))
       (\<lambda>found. case found of
          Some existing \<Rightarrow>
            io_bind (io_of (ensure_existing_device_usable existing)) (\<lambda>_.
            io_return \<lparr>bdr_device = existing, bdr_created = False\<rparr>)
        | None \<Rightarrow>
            io_bind (io_read (ensure_device_limit_available i l)) (\<lambda>_.
            commit (bind_new_device env i)))))"

definition bind_for_subscription ::
    "access_env \<Rightarrow> device_bind_input \<Rightarrow> subscription \<Rightarrow> bind_device_result access_io" where
  "bind_for_subscription env i s =
     io_bind (io_of (normalize_machine_id (dbi_machine_id i))) (\<lambda>m.
     io_bind (io_read (ensure_not_blacklisted (dbi_tenant_id i) (dbi_app_id i) m)) (\<lambda>_.
     io_bind (io_read (\<lambda>db. Inr (find_device_by_machine_id (dbi_tenant_id i) (dbi_app_id i) m db)))
       (\<lambda>found. case found of
          Some existing \<Rightarrow>
            io_bind (io_of (ensure_existing_device_usable existing)) (\<lambda>_.
            if dev_subscription_id existing = Some (sub_id s)
            then io_return \<lparr>bdr_device = existing, bdr_created = False\<rparr>
            else
              io_bind (io_read (ensure_subscription_device_limit_available i s)) (\<lambda>_.
              io_bind (commit (set_subscription_binding env (dbi_tenant_id i) (dev_id existing)
                         (sub_customer_id s) (sub_id s))) (\<lambda>r.
              io_bind (io_of (ok_or r device_not_found)) (\<lambda>d.
              io_return \<lparr>bdr_device = d, bdr_created = False\<rparr>))))
        | None \<Rightarrow>
            io_bind (io_read (ensure_subscription_device_limit_available i s)) (\<lambda>_.
            commit (bind_new_device env i)))))"


section \<open>The device table stays well formed\<close>

definition machine_slot :: "device \<Rightarrow> uuid \<times> uuid \<times> string" where
  "machine_slot d = (dev_tenant_id d, dev_app_id d, dev_machine_id d)"

definition live :: "device \<Rightarrow> bool" where
  "live d \<longleftrightarrow> dev_deleted_at d = None"

definition devices_wf :: "device list \<Rightarrow> bool" where
  "devices_wf ds \<longleftrightarrow>
     list_all device_check ds \<and> distinct (map dev_id ds)
     \<and> distinct (map machine_slot (filter live ds))"

lemma create_device_Inr:
  "create_device env n db = Inr (d, db') \<longleftrightarrow>
     d = device_row env n \<and> device_check d \<and> list_all (\<lambda>x. \<not> device_clash d x) (devices db)
     \<and> db' = db\<lparr>devices := devices db @ [d]\<rparr>"
  by (auto simp: create_device_def Let_def tx_success insert_row_Inr)

lemma update_devices_Inr:
  "update_devices env tenant P f db = Inr (r, db') \<longleftrightarrow>
     list_all (\<lambda>d. (dev_tenant_id d = tenant \<and> P d \<and> dev_deleted_at d = None)
                   \<longrightarrow> device_check ((f d)\<lparr>dev_updated_at := env_db_now env\<rparr>)) (devices db)
     \<and> r = map_option (\<lambda>d. (f d)\<lparr>dev_updated_at := env_db_now env\<rparr>)
            (List.find (\<lambda>d. dev_tenant_id d = tenant \<and> P d \<and> dev_deleted_at d = None) (devices db))
     \<and> db' = db\<lparr>devices := update_where (\<lambda>d. dev_tenant_id d = tenant \<and> P d \<and> dev_deleted_at d = None)
                (\<lambda>d. (f d)\<lparr>dev_updated_at := env_db_now env\<rparr>) (devices db)\<rparr>"
  by (auto simp: update_devices_def tx_success update_returning_Inr split: prod.splits)

lemma devices_wf_insert:
  assumes "devices_wf ds" and "device_check d" and "list_all (\<lambda>x. \<not> device_clash d x) ds"
  shows "devices_wf (ds @ [d])"
  using assms
  by (auto simp: devices_wf_def list_all_iff device_clash_def machine_slot_def live_def)

text \<open>An update that keeps the identity of the rows, and whose rows pass the checks.\<close>

definition keeps_identity :: "(device \<Rightarrow> device) \<Rightarrow> bool" where
  "keeps_identity f \<longleftrightarrow>
     (\<forall>d. dev_id (f d) = dev_id d \<and> machine_slot (f d) = machine_slot d
        \<and> dev_deleted_at (f d) = dev_deleted_at d)"

lemma filter_update_where:
  "(\<And>r. P r \<Longrightarrow> Q (f r) = Q r) \<Longrightarrow> filter Q (update_where P f t) = update_where P f (filter Q t)"
  by (induction t) auto

lemma devices_wf_update:
  assumes "devices_wf ds" and "keeps_identity f" and "list_all (\<lambda>d. P d \<longrightarrow> device_check (f d)) ds"
  shows "devices_wf (update_where P f ds)"
proof -
  have "map dev_id (update_where P f ds) = map dev_id ds"
    using assms(2) by (intro map_update_where_same) (auto simp: keeps_identity_def)
  moreover have "map machine_slot (filter live (update_where P f ds)) = map machine_slot (filter live ds)"
    using assms(2)
    by (subst filter_update_where) (auto simp: keeps_identity_def live_def intro!: map_update_where_same)
  moreover have "list_all device_check (update_where P f ds)"
    using assms(1,3) by (auto simp: devices_wf_def list_all_iff set_update_where)
  ultimately show ?thesis using assms(1) by (simp add: devices_wf_def)
qed

lemma update_devices_wf:
  assumes "update_devices env tenant P f db = Inr (r, db')" and "keeps_identity f"
    and "devices_wf (devices db)"
  shows "devices_wf (devices db')"
proof -
  let ?g = "\<lambda>d. (f d)\<lparr>dev_updated_at := env_db_now env\<rparr>"
  from assms(2) have "keeps_identity ?g"
    by (simp add: keeps_identity_def machine_slot_def)
  from devices_wf_update [OF assms(3) this] assms(1) show ?thesis
    unfolding update_devices_Inr by auto
qed

lemma wf_unique_id:
  assumes "devices_wf ds" and "d \<in> set ds" and "e \<in> set ds" and "dev_id d = dev_id e"
  shows "d = e"
  using assms by (auto simp: devices_wf_def distinct_map dest: inj_onD)

lemma find_by_machine_Some:
  "find_device_by_machine_id tenant app m db = Some d \<Longrightarrow>
    d \<in> set (devices db) \<and> dev_tenant_id d = tenant \<and> dev_app_id d = app \<and> dev_machine_id d = m
    \<and> dev_deleted_at d = None"
  unfolding find_device_by_machine_id_def by (drule find_some) simp

lemma normalize_machine_id_Inr: "normalize_machine_id x = Inr m \<longleftrightarrow> m = trim x \<and> m \<noteq> []"
  by (auto simp: normalize_machine_id_def Let_def)

lemma bind_new_device_Inr:
  "bind_new_device env i db = Inr (r, db') \<Longrightarrow>
    \<exists>n. new_device_from_bind_input env i = Inr n \<and> r = \<lparr>bdr_device = device_row env n, bdr_created = True\<rparr>
      \<and> create_device env n db = Inr (device_row env n, db')"
  by (auto simp: bind_new_device_def tx_success create_device_Inr)

lemma new_device_facts:
  "new_device_from_bind_input env i = Inr n \<Longrightarrow>
    nd_tenant_id n = dbi_tenant_id i \<and> nd_app_id n = dbi_app_id i
    \<and> nd_machine_id n = trim (dbi_machine_id i) \<and> nd_license_id n = dbi_license_id i
    \<and> nd_subscription_id n = dbi_subscription_id i \<and> nd_customer_id n = dbi_customer_id i
    \<and> nd_id n = env_device_id env"
  by (auto simp: new_device_from_bind_input_def rs_bind_Inr normalize_machine_id_Inr)

lemma ensure_existing_Inr: "ensure_existing_device_usable d = Inr () \<longleftrightarrow> dev_status d = ''active''"
  by (simp add: ensure_existing_device_usable_def device_blacklisted_def device_not_activated_def)

lemma ensure_not_blacklisted_Inr:
  "ensure_not_blacklisted t a m db = Inr () \<longleftrightarrow> \<not> is_device_blacklisted t a m db"
  by (simp add: ensure_not_blacklisted_def)


section \<open>What every binding promises\<close>

definition bind_post :: "device_bind_input \<Rightarrow> access_db \<Rightarrow> bind_device_result \<Rightarrow> access_db \<Rightarrow> bool"
  where
  "bind_post i db r db' \<longleftrightarrow>
     (let m = trim (dbi_machine_id i); d = bdr_device r in
      m \<noteq> [] \<and> \<not> is_device_blacklisted (dbi_tenant_id i) (dbi_app_id i) m db
      \<and> dev_tenant_id d = dbi_tenant_id i \<and> dev_app_id d = dbi_app_id i \<and> dev_machine_id d = m
      \<and> dev_status d = ''active'' \<and> dev_deleted_at d = None \<and> d \<in> set (devices db')
      \<and> (bdr_created r \<longleftrightarrow>
           find_device_by_machine_id (dbi_tenant_id i) (dbi_app_id i) m db = None)
      \<and> db' = db\<lparr>devices := devices db'\<rparr> \<and> devices_wf (devices db'))"

text \<open>
  The contract the client handlers rely on when they bind a device: \<open>activate\<close> binds for a
  license, \<open>login\<close> for a subscription or for the customer alone.
\<close>

locale device_binder =
  fixes bind :: "device_bind_input \<Rightarrow> bind_device_result access_tx"
  assumes bind_sound:
    "devices_wf (devices db) \<Longrightarrow> bind i db = Inr (r, db') \<Longrightarrow> bind_post i db r db'"
begin

lemma bound_device_found:
  assumes "devices_wf (devices db)" and "bind i db = Inr (r, db')"
  shows "device_find_by_id (dbi_tenant_id i) (dbi_app_id i) (dev_id (bdr_device r)) db'
    = Some (bdr_device r)"
proof -
  from bind_sound [OF assms] have d: "bdr_device r \<in> set (devices db')" and wf: "devices_wf (devices db')"
    and t: "dev_tenant_id (bdr_device r) = dbi_tenant_id i" "dev_app_id (bdr_device r) = dbi_app_id i"
      "dev_deleted_at (bdr_device r) = None"
    by (auto simp: bind_post_def Let_def)
  show ?thesis
  proof (cases "device_find_by_id (dbi_tenant_id i) (dbi_app_id i) (dev_id (bdr_device r)) db'")
    case None
    with d t show ?thesis unfolding device_find_by_id_def find_None_iff by blast
  next
    case (Some e)
    from find_some [OF this [unfolded device_find_by_id_def]] have "e \<in> set (devices db')"
      "dev_id e = dev_id (bdr_device r)" by auto
    with wf_unique_id [OF wf] d Some show ?thesis by blast
  qed
qed

lemma blacklisted_never_bound:
  assumes "devices_wf (devices db)"
    and "is_device_blacklisted (dbi_tenant_id i) (dbi_app_id i) (trim (dbi_machine_id i)) db"
  shows "\<exists>e. bind i db = Inl e"
proof (cases "bind i db")
  case (Inr rs)
  then obtain r db' where "bind i db = Inr (r, db')" by (cases rs) auto
  from bind_sound [OF assms(1) this] assms(2) show ?thesis by (simp add: bind_post_def Let_def)
qed simp

lemma second_bind_finds:
  assumes "devices_wf (devices db)" and "bind i db = Inr (r, db')" and "bind i db' = Inr (r2, db2)"
  shows "\<not> bdr_created r2"
proof -
  let ?m = "trim (dbi_machine_id i)"
  from bind_sound [OF assms(1,2)] have d: "bdr_device r \<in> set (devices db')"
    and t: "dev_tenant_id (bdr_device r) = dbi_tenant_id i" "dev_app_id (bdr_device r) = dbi_app_id i"
      "dev_machine_id (bdr_device r) = ?m" "dev_deleted_at (bdr_device r) = None"
    and wf: "devices_wf (devices db')"
    by (auto simp: bind_post_def Let_def)
  have "find_device_by_machine_id (dbi_tenant_id i) (dbi_app_id i) ?m db' \<noteq> None"
    using d t unfolding find_device_by_machine_id_def find_None_iff by blast
  with bind_sound [OF wf assms(3)] show ?thesis by (simp add: bind_post_def Let_def)
qed

end

lemma bind_post_existing:
  assumes "devices_wf (devices db)" and "trim (dbi_machine_id i) \<noteq> []"
    and "\<not> is_device_blacklisted (dbi_tenant_id i) (dbi_app_id i) (trim (dbi_machine_id i)) db"
    and "find_device_by_machine_id (dbi_tenant_id i) (dbi_app_id i) (trim (dbi_machine_id i)) db = Some d"
    and "dev_status d = ''active''"
  shows "bind_post i db \<lparr>bdr_device = d, bdr_created = False\<rparr> db"
  using assms find_by_machine_Some [OF assms(4)] by (simp add: bind_post_def Let_def)

lemma bind_post_new:
  assumes "devices_wf (devices db)" and "trim (dbi_machine_id i) \<noteq> []"
    and "\<not> is_device_blacklisted (dbi_tenant_id i) (dbi_app_id i) (trim (dbi_machine_id i)) db"
    and "find_device_by_machine_id (dbi_tenant_id i) (dbi_app_id i) (trim (dbi_machine_id i)) db = None"
    and "bind_new_device env i db = Inr (r, db')"
  shows "bind_post i db r db'"
proof -
  from bind_new_device_Inr [OF assms(5)] obtain n where n: "new_device_from_bind_input env i = Inr n"
    and r: "r = \<lparr>bdr_device = device_row env n, bdr_created = True\<rparr>"
    and c: "create_device env n db = Inr (device_row env n, db')" by blast
  from c have "devices_wf (devices db')" "device_row env n \<in> set (devices db')"
    "db' = db\<lparr>devices := devices db'\<rparr>"
    unfolding create_device_Inr using devices_wf_insert [OF assms(1)] by auto
  with assms(2-4) new_device_facts [OF n] r show ?thesis
    by (simp add: bind_post_def Let_def device_row_def)
qed


section \<open>The bindings fulfil it\<close>

lemma bind_for_license_cases:
  assumes "bind_for_license_in_transaction env i l db = Inr (r, db')"
  obtains (existing) d where
      "trim (dbi_machine_id i) \<noteq> []"
      "\<not> is_device_blacklisted (dbi_tenant_id i) (dbi_app_id i) (trim (dbi_machine_id i)) db"
      "find_device_by_machine_id (dbi_tenant_id i) (dbi_app_id i) (trim (dbi_machine_id i)) db = Some d"
      "dev_status d = ''active''" "r = \<lparr>bdr_device = d, bdr_created = False\<rparr>" "db' = db"
    | (new) "trim (dbi_machine_id i) \<noteq> []"
      "\<not> is_device_blacklisted (dbi_tenant_id i) (dbi_app_id i) (trim (dbi_machine_id i)) db"
      "find_device_by_machine_id (dbi_tenant_id i) (dbi_app_id i) (trim (dbi_machine_id i)) db = None"
      "ensure_device_limit_available i l db = Inr ()" "bind_new_device env i db = Inr (r, db')"
proof (cases "find_device_by_machine_id (dbi_tenant_id i) (dbi_app_id i) (trim (dbi_machine_id i)) db")
  case None
  with assms new show ?thesis
    unfolding bind_for_license_in_transaction_def
    by (auto simp: tx_success normalize_machine_id_Inr ensure_not_blacklisted_Inr)
next
  case (Some d)
  with assms existing show ?thesis
    unfolding bind_for_license_in_transaction_def
    by (auto simp: tx_success normalize_machine_id_Inr ensure_not_blacklisted_Inr ensure_existing_Inr)
qed

lemma bind_for_customer_cases:
  assumes "bind_for_customer_session_in_transaction env i db = Inr (r, db')"
  obtains (existing) d where
      "trim (dbi_machine_id i) \<noteq> []"
      "\<not> is_device_blacklisted (dbi_tenant_id i) (dbi_app_id i) (trim (dbi_machine_id i)) db"
      "find_device_by_machine_id (dbi_tenant_id i) (dbi_app_id i) (trim (dbi_machine_id i)) db = Some d"
      "dev_status d = ''active''" "r = \<lparr>bdr_device = d, bdr_created = False\<rparr>" "db' = db"
    | (new) "trim (dbi_machine_id i) \<noteq> []"
      "\<not> is_device_blacklisted (dbi_tenant_id i) (dbi_app_id i) (trim (dbi_machine_id i)) db"
      "find_device_by_machine_id (dbi_tenant_id i) (dbi_app_id i) (trim (dbi_machine_id i)) db = None"
      "bind_new_device env i db = Inr (r, db')"
proof (cases "find_device_by_machine_id (dbi_tenant_id i) (dbi_app_id i) (trim (dbi_machine_id i)) db")
  case None
  with assms new show ?thesis
    unfolding bind_for_customer_session_in_transaction_def
    by (auto simp: tx_success normalize_machine_id_Inr ensure_not_blacklisted_Inr)
next
  case (Some d)
  with assms existing show ?thesis
    unfolding bind_for_customer_session_in_transaction_def
    by (auto simp: tx_success normalize_machine_id_Inr ensure_not_blacklisted_Inr ensure_existing_Inr)
qed

lemma bind_for_subscription_cases:
  assumes "bind_for_subscription_in_transaction env i s db = Inr (r, db')"
  obtains (existing) d where
      "trim (dbi_machine_id i) \<noteq> []"
      "\<not> is_device_blacklisted (dbi_tenant_id i) (dbi_app_id i) (trim (dbi_machine_id i)) db"
      "find_device_by_machine_id (dbi_tenant_id i) (dbi_app_id i) (trim (dbi_machine_id i)) db = Some d"
      "dev_status d = ''active''" "dev_subscription_id d = Some (sub_id s)"
      "r = \<lparr>bdr_device = d, bdr_created = False\<rparr>" "db' = db"
    | (rebound) d e where
      "trim (dbi_machine_id i) \<noteq> []"
      "\<not> is_device_blacklisted (dbi_tenant_id i) (dbi_app_id i) (trim (dbi_machine_id i)) db"
      "find_device_by_machine_id (dbi_tenant_id i) (dbi_app_id i) (trim (dbi_machine_id i)) db = Some d"
      "dev_status d = ''active''" "dev_subscription_id d \<noteq> Some (sub_id s)"
      "ensure_subscription_device_limit_available_in_transaction i s db = Inr ()"
      "set_subscription_binding env (dbi_tenant_id i) (dev_id d) (sub_customer_id s) (sub_id s) db
         = Inr (Some e, db')"
      "r = \<lparr>bdr_device = e, bdr_created = False\<rparr>"
    | (new) "trim (dbi_machine_id i) \<noteq> []"
      "\<not> is_device_blacklisted (dbi_tenant_id i) (dbi_app_id i) (trim (dbi_machine_id i)) db"
      "find_device_by_machine_id (dbi_tenant_id i) (dbi_app_id i) (trim (dbi_machine_id i)) db = None"
      "ensure_subscription_device_limit_available_in_transaction i s db = Inr ()"
      "bind_new_device env i db = Inr (r, db')"
proof (cases "find_device_by_machine_id (dbi_tenant_id i) (dbi_app_id i) (trim (dbi_machine_id i)) db")
  case None
  with assms new show ?thesis
    unfolding bind_for_subscription_in_transaction_def
    by (auto simp: tx_success normalize_machine_id_Inr ensure_not_blacklisted_Inr)
next
  case (Some d)
  with assms existing rebound show ?thesis
    unfolding bind_for_subscription_in_transaction_def
    by (cases "dev_subscription_id d = Some (sub_id s)")
      (auto simp: tx_success normalize_machine_id_Inr ensure_not_blacklisted_Inr ensure_existing_Inr)
qed

text \<open>The rebinding updates exactly the device that was found.\<close>

lemma set_subscription_binding_found:
  assumes "devices_wf (devices db)" and "d \<in> set (devices db)" and "dev_tenant_id d = tenant"
    and "dev_deleted_at d = None"
    and "set_subscription_binding env tenant (dev_id d) customer s db = Inr (Some e, db')"
  shows "e = d\<lparr>dev_customer_id := Some customer, dev_license_id := None, dev_subscription_id := Some s,
             dev_updated_at := env_db_now env\<rparr>"
    and "e \<in> set (devices db')" and "db' = db\<lparr>devices := devices db'\<rparr>"
    and "devices_wf (devices db')"
proof -
  let ?P = "\<lambda>x. dev_tenant_id x = tenant \<and> dev_id x = dev_id d \<and> dev_deleted_at x = None"
  note u = assms(5) [unfolded set_subscription_binding_def update_devices_Inr]
  from u obtain x where x: "List.find ?P (devices db) = Some x"
    and e: "e = x\<lparr>dev_customer_id := Some customer, dev_license_id := None,
      dev_subscription_id := Some s, dev_updated_at := env_db_now env\<rparr>"
    by (cases "List.find ?P (devices db)") auto
  from find_some [OF x] wf_unique_id [OF assms(1) _ assms(2), of x] have "x = d" by blast
  with e show "e = d\<lparr>dev_customer_id := Some customer, dev_license_id := None,
      dev_subscription_id := Some s, dev_updated_at := env_db_now env\<rparr>" by simp
  with u assms(2-4) show "e \<in> set (devices db')" by (auto simp: set_update_where image_iff)
  from u show "db' = db\<lparr>devices := devices db'\<rparr>" by auto
  show "devices_wf (devices db')"
    by (rule update_devices_wf [OF assms(5) [unfolded set_subscription_binding_def] _ assms(1)])
      (simp add: keeps_identity_def machine_slot_def)
qed

interpretation license_binder: device_binder "\<lambda>i. bind_for_license_in_transaction env i l" for env l
proof
  fix db i r db'
  assume wf: "devices_wf (devices db)" and b: "bind_for_license_in_transaction env i l db = Inr (r, db')"
  from b show "bind_post i db r db'"
    by (cases rule: bind_for_license_cases) (auto intro: bind_post_existing [OF wf] bind_post_new [OF wf])
qed

interpretation customer_binder: device_binder "bind_for_customer_session_in_transaction env" for env
proof
  fix db i r db'
  assume wf: "devices_wf (devices db)"
    and b: "bind_for_customer_session_in_transaction env i db = Inr (r, db')"
  from b show "bind_post i db r db'"
    by (cases rule: bind_for_customer_cases) (auto intro: bind_post_existing [OF wf] bind_post_new [OF wf])
qed

interpretation subscription_binder:
  device_binder "\<lambda>i. bind_for_subscription_in_transaction env i s" for env s
proof
  fix db i r db'
  assume wf: "devices_wf (devices db)"
    and b: "bind_for_subscription_in_transaction env i s db = Inr (r, db')"
  from b show "bind_post i db r db'"
  proof (cases rule: bind_for_subscription_cases)
    case (rebound d e)
    from find_by_machine_Some [OF rebound(3)] have d: "d \<in> set (devices db)"
      "dev_tenant_id d = dbi_tenant_id i" "dev_app_id d = dbi_app_id i"
      "dev_machine_id d = trim (dbi_machine_id i)" "dev_deleted_at d = None" by auto
    from set_subscription_binding_found [OF wf d(1,2,5) rebound(7)] d rebound(1-4,8)
    show ?thesis by (simp add: bind_post_def Let_def)
  qed (auto intro: bind_post_existing [OF wf] bind_post_new [OF wf])
qed


section \<open>Device limits\<close>

definition license_slots :: "uuid \<Rightarrow> uuid \<Rightarrow> uuid \<Rightarrow> device \<Rightarrow> bool" where
  "license_slots tenant app l d \<longleftrightarrow>
     dev_tenant_id d = tenant \<and> dev_app_id d = app \<and> dev_license_id d = Some l \<and> occupies d"

lemma license_count: "active_device_count_for_license t a l db = count_where (license_slots t a l) (devices db)"
  unfolding active_device_count_for_license_def
  by (rule arg_cong2 [where f = count_where]) (auto simp: license_slots_def fun_eq_iff)

lemma count_new_device:
  assumes "bind_new_device env i db = Inr (r, db')" and "dbi_license_id i = k"
  shows "active_device_count_for_license t a l db' = active_device_count_for_license t a l db
    + (if t = dbi_tenant_id i \<and> a = dbi_app_id i \<and> k = Some l then 1 else 0)"
proof -
  from bind_new_device_Inr [OF assms(1)] obtain n where n: "new_device_from_bind_input env i = Inr n"
    and "create_device env n db = Inr (device_row env n, db')" by blast
  then have "devices db' = devices db @ [device_row env n]" by (simp add: create_device_Inr)
  with new_device_facts [OF n] assms(2) show ?thesis
    by (simp add: license_count license_slots_def device_row_def occupies_def)
qed


section \<open>Properties\<close>

text \<open>
  C25. Binding a machine for a license never takes the license beyond its device limit: the
  devices that occupy a slot of it grow only when a new device is created, by one, up to
  the limit; no other license's count changes; a license without slots admits no new
  device.
\<close>

theorem license_binding_keeps_limit:
  assumes "bind_for_license_in_transaction env i l db = Inr (r, db')"
    and "dbi_license_id i = Some (lic_id l)"
  shows "active_device_count_for_license t a k db'
      = active_device_count_for_license t a k db
        + (if t = dbi_tenant_id i \<and> a = dbi_app_id i \<and> k = lic_id l \<and> bdr_created r then 1 else 0)
    \<and> (bdr_created r \<longrightarrow> lic_max_devices l \<noteq> 0
        \<and> active_device_count_for_license (dbi_tenant_id i) (dbi_app_id i) (lic_id l) db' \<le> lic_max_devices l)"
  using assms(1)
proof (cases rule: bind_for_license_cases)
  case (existing d)
  then show ?thesis by simp
next
  case new
  from new(4) assms(2) have lim: "lic_max_devices l \<noteq> 0"
    "active_device_count_for_license (dbi_tenant_id i) (dbi_app_id i) (lic_id l) db < lic_max_devices l"
    by (auto simp: ensure_device_limit_available_def split: if_splits)
  from bind_new_device_Inr [OF new(5)] have "bdr_created r" by auto
  with lim count_new_device [OF new(5) assms(2)] show ?thesis by auto
qed

text \<open>
  A device bound for a subscription is bound to that subscription, and never beyond its
  limit; a machine that already holds a slot of it keeps it, whatever the limit says now.
\<close>

theorem subscription_binding_binds_within_limit:
  assumes "devices_wf (devices db)" and "bind_for_subscription_in_transaction env i s db = Inr (r, db')"
    and "dbi_subscription_id i = Some (sub_id s)"
  shows "dev_subscription_id (bdr_device r) = Some (sub_id s)
    \<and> active_device_count_for_subscription (dbi_tenant_id i) (dbi_app_id i) (sub_id s) db'
        \<le> max (sub_max_devices s)
             (active_device_count_for_subscription (dbi_tenant_id i) (dbi_app_id i) (sub_id s) db)
    \<and> (db' = db \<or> active_device_count_for_subscription (dbi_tenant_id i) (dbi_app_id i) (sub_id s) db
                    < sub_max_devices s)"
proof -
  let ?t = "dbi_tenant_id i" and ?a = "dbi_app_id i" and ?m = "trim (dbi_machine_id i)"
  let ?n = "active_device_count_for_subscription ?t ?a (sub_id s)"
  have limit: "?n db < sub_max_devices s"
    if "ensure_subscription_device_limit_available_in_transaction i s db = Inr ()"
    using that by (auto simp: ensure_subscription_device_limit_available_in_transaction_def
        split: if_splits)
  from assms(2) show ?thesis
  proof (cases rule: bind_for_subscription_cases)
    case (existing d)
    then show ?thesis by simp
  next
    case (rebound d e)
    from find_by_machine_Some [OF rebound(3)] have d: "d \<in> set (devices db)"
      "dev_tenant_id d = ?t" "dev_deleted_at d = None" by auto
    from set_subscription_binding_found(1) [OF assms(1) d rebound(7)]
    have e: "dev_subscription_id e = Some (sub_id s)" by simp
    let ?P = "\<lambda>x. dev_tenant_id x = ?t \<and> dev_id x = dev_id d \<and> dev_deleted_at x = None"
    have "count_where ?P (devices db) \<le> 1"
      using assms(1) by (intro count_key_le_1 [where key = dev_id and k = "dev_id d"])
        (auto simp: devices_wf_def)
    moreover from rebound(7) have "devices db' = update_where ?P
        (\<lambda>x. x\<lparr>dev_customer_id := Some (sub_customer_id s), dev_license_id := None,
          dev_subscription_id := Some (sub_id s), dev_updated_at := env_db_now env\<rparr>) (devices db)"
      unfolding set_subscription_binding_def update_devices_Inr by simp
    ultimately have "?n db' \<le> ?n db + 1"
      unfolding active_device_count_for_subscription_def
      using count_update_where_add [of _ ?P _ "devices db"] by (metis (no_types, lifting) add_left_mono order_trans)
    with e limit [OF rebound(6)] rebound(8) show ?thesis by simp
  next
    case new
    from bind_new_device_Inr [OF new(5)] obtain n where n: "new_device_from_bind_input env i = Inr n"
      and r: "r = \<lparr>bdr_device = device_row env n, bdr_created = True\<rparr>"
      and c: "create_device env n db = Inr (device_row env n, db')" by blast
    from c have "devices db' = devices db @ [device_row env n]" by (simp add: create_device_Inr)
    then have "?n db' \<le> ?n db + 1" by (simp add: active_device_count_for_subscription_def)
    with new_device_facts [OF n] limit [OF new(4)] assms(3) r show ?thesis
      by (simp add: device_row_def)
  qed
qed

text \<open>
  A blacklisted machine is refused by every binding with the blacklist error, before
  anything else about it is looked at, and for the entries of all applications too.
\<close>

theorem blacklisted_machine_refused:
  assumes "trim (dbi_machine_id i) \<noteq> []" and "b \<in> set (device_blacklist db)"
    and "bl_tenant_id b = dbi_tenant_id i" and "bl_machine_id b = trim (dbi_machine_id i)"
    and "bl_app_id b = None \<or> bl_app_id b = Some (dbi_app_id i)"
  shows "bind_for_license_in_transaction env i l db = Inl device_blacklisted
    \<and> bind_for_subscription_in_transaction env i s db = Inl device_blacklisted
    \<and> bind_for_customer_session_in_transaction env i db = Inl device_blacklisted"
proof -
  have "is_device_blacklisted (dbi_tenant_id i) (dbi_app_id i) (trim (dbi_machine_id i)) db"
    using assms by (auto simp: is_device_blacklisted_def list_ex_iff)
  then have "ensure_not_blacklisted (dbi_tenant_id i) (dbi_app_id i) (trim (dbi_machine_id i)) db
      = Inl device_blacklisted" by (simp add: ensure_not_blacklisted_def)
  with assms(1) show ?thesis
    by (simp add: bind_for_license_in_transaction_def bind_for_subscription_in_transaction_def
        bind_for_customer_session_in_transaction_def normalize_machine_id_def Let_def
        tx_bind_def tx_of_def tx_read_def)
qed

text \<open>
  For a machine that is already registered, binding for a license looks at the status
  of the stored device and at nothing else: an active device is returned as it is, with
  whatever license it has and whatever the limit of the license in the request; a disabled
  or unbound one is refused for ever, and no binding makes it active again.
\<close>

theorem registered_machine_outcome:
  assumes "trim (dbi_machine_id i) \<noteq> []"
    and "\<not> is_device_blacklisted (dbi_tenant_id i) (dbi_app_id i) (trim (dbi_machine_id i)) db"
    and "find_device_by_machine_id (dbi_tenant_id i) (dbi_app_id i) (trim (dbi_machine_id i)) db = Some d"
  shows "bind_for_license_in_transaction env i l db =
    (if dev_status d = ''active'' then Inr (\<lparr>bdr_device = d, bdr_created = False\<rparr>, db)
     else Inl (if dev_status d = ''blacklisted'' then device_blacklisted
               else if dev_status d = ''disabled'' \<or> dev_status d = ''unbound'' then device_not_activated
               else InvalidRequest ''device status is invalid''))"
  using assms
  by (simp add: bind_for_license_in_transaction_def normalize_machine_id_def Let_def
      tx_bind_def tx_of_def tx_read_def tx_return_def ensure_not_blacklisted_def
      ensure_existing_device_usable_def)

text \<open>
  Binding twice for the same input creates at most one device: after a binding that
  succeeded, the second finds the machine.
\<close>

theorem binding_creates_once:
  assumes "devices_wf (devices db)"
    and "bind_for_subscription_in_transaction env i s db = Inr (r, db')"
    and "bind_for_subscription_in_transaction env i s db' = Inr (r2, db2)"
  shows "\<not> bdr_created r2 \<and> devices_wf (devices db2)
    \<and> device_find_by_id (dbi_tenant_id i) (dbi_app_id i) (dev_id (bdr_device r)) db'
        = Some (bdr_device r)"
proof -
  have "devices_wf (devices db')"
    using subscription_binder.bind_sound [OF assms(1,2)] by (simp add: bind_post_def Let_def)
  with assms show ?thesis
    using subscription_binder.second_bind_finds [OF assms]
      subscription_binder.bound_device_found [OF assms(1,2)]
      subscription_binder.bind_sound [of db' env i s r2 db2]
    by (simp add: bind_post_def Let_def)
qed


section \<open>Concrete instances\<close>

definition sample_license :: "uuid \<Rightarrow> int \<Rightarrow> license" where
  "sample_license i slots =
     license_row 5 \<lparr>nl_id = i, nl_tenant_id = 1, nl_app_id = 1, nl_customer_id = None,
       nl_license_key_hash = replicate i CHR ''h'', nl_license_type = ''trial'', nl_max_devices = slots,
       nl_features = JArray [], nl_starts_at = Some 5, nl_expires_at = Some 90,
       nl_metadata = JObject []\<rparr>"

definition sample_bind :: "string \<Rightarrow> uuid option \<Rightarrow> uuid option \<Rightarrow> device_bind_input" where
  "sample_bind m l s =
     \<lparr>dbi_tenant_id = 1, dbi_app_id = 1, dbi_customer_id = None, dbi_license_id = l,
      dbi_subscription_id = s, dbi_machine_id = m, dbi_device_name = None, dbi_os = None,
      dbi_app_version = None, dbi_metadata = None\<rparr>"

definition sample_device :: "uuid \<Rightarrow> string \<Rightarrow> uuid option \<Rightarrow> string \<Rightarrow> device" where
  "sample_device i m l status =
     (device_row sample_env \<lparr>nd_id = i, nd_tenant_id = 1, nd_app_id = 1, nd_customer_id = None,
        nd_license_id = l, nd_subscription_id = None, nd_machine_id = m, nd_device_name = None,
        nd_os = None, nd_app_version = None, nd_metadata = JObject []\<rparr>)\<lparr>dev_status := status\<rparr>"

lemma sample_trim [simp]: "trim ''m1'' = ''m1''" "trim ''m2'' = ''m2''"
  by (simp_all add: trim_graphic graphic_def byte_def)

lemma sample_bind_simps [simp]:
  "dbi_tenant_id (sample_bind m l s) = 1" "dbi_app_id (sample_bind m l s) = 1"
  "dbi_machine_id (sample_bind m l s) = m" "dbi_license_id (sample_bind m l s) = l"
  "dbi_subscription_id (sample_bind m l s) = s"
  by (simp_all add: sample_bind_def)

text \<open>A license of one slot, taken by the machine \<open>m1\<close>.\<close>

theorem license_binding_keeps_limit_witness:
  "\<exists>r db'. bind_for_license_in_transaction sample_env (sample_bind ''m1'' (Some 7) None)
             (sample_license 7 1) empty_db = Inr (r, db')
     \<and> bdr_created r \<and> active_device_count_for_license 1 1 7 db' \<le> 1"
proof -
  have "succeeds_with (bind_for_license_in_transaction sample_env (sample_bind ''m1'' (Some 7) None)
      (sample_license 7 1) empty_db) (\<lambda>(r, db'). bdr_created r)" by code_simp
  then obtain r db' where b: "bind_for_license_in_transaction sample_env
      (sample_bind ''m1'' (Some 7) None) (sample_license 7 1) empty_db = Inr (r, db')"
    and c: "bdr_created r" by (auto elim!: succeeds_withE)
  have id: "lic_id (sample_license 7 1) = 7" "lic_max_devices (sample_license 7 1) = 1"
    by (simp_all add: sample_license_def license_row_def)
  from license_binding_keeps_limit [OF b, of 1 1 7] b c id
  show ?thesis by auto
qed

definition sample_subscribed :: access_db where
  "sample_subscribed = empty_db\<lparr>devices := [sample_device 1 ''m1'' (Some 7) ''active'']\<rparr>"

lemma sample_subscribed_wf: "devices_wf (devices sample_subscribed)"
  by code_simp

text \<open>A machine of a license moves to a subscription at the login of its customer.\<close>

theorem subscription_binding_binds_within_limit_witness:
  "\<exists>r db'. bind_for_subscription_in_transaction sample_env (sample_bind ''m1'' None (Some 3))
             (sample_subscription 3 None) sample_subscribed = Inr (r, db')
     \<and> \<not> bdr_created r \<and> dev_subscription_id (bdr_device r) = Some 3"
proof -
  have "succeeds_with (bind_for_subscription_in_transaction sample_env (sample_bind ''m1'' None (Some 3))
      (sample_subscription 3 None) sample_subscribed) (\<lambda>(r, db'). \<not> bdr_created r)" by code_simp
  then obtain r db' where b: "bind_for_subscription_in_transaction sample_env
      (sample_bind ''m1'' None (Some 3)) (sample_subscription 3 None) sample_subscribed = Inr (r, db')"
    and c: "\<not> bdr_created r" by (auto elim!: succeeds_withE)
  have "sub_id (sample_subscription 3 None) = 3"
    by (simp add: sample_subscription_def subscription_row_def)
  with subscription_binding_binds_within_limit [OF sample_subscribed_wf b] b c show ?thesis by auto
qed

definition sample_blacklist :: blacklist_entry where
  "sample_blacklist = \<lparr>bl_id = 1, bl_tenant_id = 1, bl_app_id = None, bl_machine_id = ''m1'',
     bl_reason = None, bl_created_by = None, bl_created_at = 5\<rparr>"

theorem blacklisted_machine_refused_witness:
  "bind_for_license_in_transaction sample_env (sample_bind ''m1'' (Some 7) None) (sample_license 7 1)
     (empty_db\<lparr>device_blacklist := [sample_blacklist]\<rparr>) = Inl device_blacklisted"
  using blacklisted_machine_refused [of "sample_bind ''m1'' (Some 7) None" sample_blacklist
      "empty_db\<lparr>device_blacklist := [sample_blacklist]\<rparr>" sample_env "sample_license 7 1"]
  by (simp add: sample_blacklist_def)

text \<open>
  The machine \<open>m1\<close> holds the license 7; the license 8 without any slot finds it, too, and a
  reset machine is refused.
\<close>

theorem registered_machine_outcome_witness:
  "bind_for_license_in_transaction sample_env (sample_bind ''m1'' (Some 8) None) (sample_license 8 0)
     sample_subscribed
   = Inr (\<lparr>bdr_device = sample_device 1 ''m1'' (Some 7) ''active'', bdr_created = False\<rparr>, sample_subscribed)"
proof -
  have "find_device_by_machine_id 1 1 ''m1'' sample_subscribed
      = Some (sample_device 1 ''m1'' (Some 7) ''active'')"
    and "\<not> is_device_blacklisted 1 1 ''m1'' sample_subscribed"
    by (code_simp, code_simp)
  then show ?thesis
    using registered_machine_outcome [of "sample_bind ''m1'' (Some 8) None" sample_subscribed]
    by (simp add: sample_device_def)
qed

theorem binding_creates_once_witness:
  "\<exists>r db' r2 db2. bind_for_subscription_in_transaction sample_env (sample_bind ''m2'' None (Some 3))
      (sample_subscription 3 None) empty_db = Inr (r, db')
    \<and> bind_for_subscription_in_transaction sample_env (sample_bind ''m2'' None (Some 3))
      (sample_subscription 3 None) db' = Inr (r2, db2) \<and> bdr_created r \<and> \<not> bdr_created r2"
proof -
  let ?b = "bind_for_subscription_in_transaction sample_env (sample_bind ''m2'' None (Some 3))
      (sample_subscription 3 None)"
  have "succeeds_with (?b empty_db) (\<lambda>(r, db'). bdr_created r \<and> succeeds_with (?b db') (\<lambda>_. True))"
    by code_simp
  then obtain r db' r2 db2 where b: "?b empty_db = Inr (r, db')" "?b db' = Inr (r2, db2)" "bdr_created r"
    by (auto elim!: succeeds_withE)
  have "devices_wf (devices empty_db)" by code_simp
  from binding_creates_once [OF this b(1,2)] b show ?thesis by blast
qed

end
