(* ===== verification/AccessAdmin.thy ===== *)
theory AccessAdmin
  imports Devices
begin

text \<open>
  The administration of licenses, subscriptions and devices: \<open>modules/license/admin.rs\<close>,
  \<open>modules/subscription/admin.rs\<close> and \<open>modules/device/admin.rs\<close>. A handler checks the
  permission, reads the row it is about from the pool, and does the rest in one
  transaction that ends with an audit entry.
\<close>


section \<open>License administration\<close>

definition license_db_error :: "access_env \<Rightarrow> app_error" where
  "license_db_error env = db_error env ''license admin''"

definition license_audit_json :: "access_env \<Rightarrow> license \<Rightarrow> json" where
  "license_audit_json env l =
     JObject [(''id'', json_uuid env (lic_id l)), (''app_id'', json_uuid env (lic_app_id l)),
       (''customer_id'', json_opt (json_uuid env) (lic_customer_id l)),
       (''type'', JString (lic_license_type l)), (''status'', JString (lic_status l)),
       (''max_devices'', json_int (lic_max_devices l)), (''features'', lic_features l),
       (''starts_at'', json_opt (json_time env) (lic_starts_at l)),
       (''expires_at'', json_opt (json_time env) (lic_expires_at l)),
       (''revoked_at'', json_opt (json_time env) (lic_revoked_at l)),
       (''metadata'', lic_metadata l)]"

definition audit_license_create :: "access_env \<Rightarrow> admin_context \<Rightarrow> license \<Rightarrow> unit access_tx" where
  "audit_license_create env admin l =
     audit_record env (admin_audit env admin ''license.create'' ''license'' (lic_id l) None
       (Some (license_audit_json env l)) (JObject []))"

definition revocation_metadata :: "int \<Rightarrow> int \<Rightarrow> json" where
  "revocation_metadata sessions tokens =
     JObject [(''revoked_sessions'', json_int sessions), (''revoked_refresh_tokens'', json_int tokens)]"

definition audit_license_status_change ::
    "access_env \<Rightarrow> admin_context \<Rightarrow> string \<Rightarrow> license \<Rightarrow> license \<Rightarrow> int \<Rightarrow> int \<Rightarrow> unit access_tx"
  where
  "audit_license_status_change env admin action before l sessions tokens =
     audit_record env (admin_audit env admin action ''license'' (lic_id l)
       (Some (license_audit_json env before)) (Some (license_audit_json env l))
       (revocation_metadata sessions tokens))"

definition create_license_in_transaction :: "access_env \<Rightarrow> new_license \<Rightarrow> license access_tx" where
  "create_license_in_transaction env n =
     (let row = license_row (env_db_now env) n in
      tx_bind (tx_read (\<lambda>db. insert_row license_check license_clash (license_db_error env) row (licenses db)))
        (\<lambda>t. tx_bind (tx_modify (\<lambda>db. db\<lparr>licenses := t\<rparr>)) (\<lambda>_. tx_return row)))"

definition update_license ::
    "access_env \<Rightarrow> uuid \<Rightarrow> uuid \<Rightarrow> (license \<Rightarrow> bool) \<Rightarrow> (license \<Rightarrow> license) \<Rightarrow> license option access_tx"
  where
  "update_license env tenant i P f =
     tx_bind (tx_read (\<lambda>db. update_returning license_check (license_db_error env)
                (\<lambda>l. lic_tenant_id l = tenant \<and> lic_id l = i \<and> lic_deleted_at l = None \<and> P l)
                (\<lambda>l. (f l)\<lparr>lic_updated_at := env_db_now env\<rparr>) (licenses db)))
       (\<lambda>(r, t). tx_bind (tx_modify (\<lambda>db. db\<lparr>licenses := t\<rparr>)) (\<lambda>_. tx_return r))"

definition set_license_status_in_transaction ::
    "access_env \<Rightarrow> uuid \<Rightarrow> uuid \<Rightarrow> string \<Rightarrow> bool \<Rightarrow> license option access_tx" where
  "set_license_status_in_transaction env tenant i status revoked =
     update_license env tenant i (\<lambda>l. lic_status l \<noteq> status)
       (\<lambda>l. l\<lparr>lic_status := status,
             lic_revoked_at := (if revoked then Some (env_db_now env) else lic_revoked_at l)\<rparr>)"

definition renew_license_in_transaction ::
    "access_env \<Rightarrow> uuid \<Rightarrow> uuid \<Rightarrow> time \<Rightarrow> license option access_tx" where
  "renew_license_in_transaction env tenant i expires =
     update_license env tenant i (\<lambda>l. lic_status l \<noteq> ''revoked'')
       (\<lambda>l. l\<lparr>lic_status := ''active'', lic_expires_at := Some expires, lic_revoked_at := None\<rparr>)"

definition reset_license_devices_in_transaction ::
    "access_env \<Rightarrow> uuid \<Rightarrow> uuid \<Rightarrow> int access_tx" where
  "reset_license_devices_in_transaction env tenant l =
     tx_bind (tx_read (\<lambda>db. Inr (count_where (\<lambda>d. dev_tenant_id d = tenant \<and>
                (dev_license_id d = Some l \<and> dev_status d \<noteq> ''unbound'') \<and> dev_deleted_at d = None)
                (devices db)))) (\<lambda>n.
     tx_bind (update_devices env tenant (\<lambda>d. dev_license_id d = Some l \<and> dev_status d \<noteq> ''unbound'')
                (\<lambda>d. d\<lparr>dev_status := ''unbound''\<rparr>)) (\<lambda>_.
     tx_return n))"

definition device_of_license :: "uuid \<Rightarrow> uuid \<Rightarrow> access_db \<Rightarrow> uuid \<Rightarrow> bool" where
  "device_of_license tenant l db i =
     list_ex (\<lambda>d. dev_id d = i \<and> dev_tenant_id d = tenant \<and> dev_license_id d = Some l
                \<and> dev_deleted_at d = None) (devices db)"

definition revoke_license_sessions_in_transaction :: "access_env \<Rightarrow> uuid \<Rightarrow> uuid \<Rightarrow> int access_tx" where
  "revoke_license_sessions_in_transaction env tenant l =
     revoke_sessions_of env tenant (device_of_license tenant l)"

definition revoke_license_refresh_tokens_in_transaction ::
    "access_env \<Rightarrow> uuid \<Rightarrow> uuid \<Rightarrow> int access_tx" where
  "revoke_license_refresh_tokens_in_transaction env tenant l =
     revoke_refresh_tokens_of env tenant (device_of_license tenant l)"

text \<open>The body of a reset: \<open>parse\<close> is \<open>serde_json::from_slice\<close> on the one field.\<close>

definition parse_reset_devices_reason ::
    "(string \<Rightarrow> string option option) \<Rightarrow> string \<Rightarrow> app_error + string" where
  "parse_reset_devices_reason parse body =
     (if body = [] then Inl (ValidationFailed ''reason is required'')
      else if length body > 4 * 1024 then Inl (ValidationFailed ''reset device payload is too large'')
      else rs_bind (ok_or (parse body) (ValidationFailed ''reset device payload is invalid''))
             normalize_reset_device_reason)"

definition create_license ::
    "access_env \<Rightarrow> crypto_lib \<Rightarrow> string \<Rightarrow> string \<Rightarrow> admin_context \<Rightarrow> create_license_input
      \<Rightarrow> (string \<times> license) access_io" where
  "create_license env c pepper token admin payload =
     io_bind (io_of (ensure_admin_permission admin ''license:create'')) (\<lambda>_.
     io_bind (io_read (ensure_application_exists (adm_tenant_id admin) (cli_app_id payload))) (\<lambda>_.
     io_bind (case cli_customer_id payload of
                None \<Rightarrow> io_return ()
              | Some k \<Rightarrow> io_read (ensure_customer_exists (adm_tenant_id admin) k)) (\<lambda>_.
     let license_key = ''lic_'' @ token in
     io_bind (io_of (hash_token c pepper license_key)) (\<lambda>h.
     io_bind (io_of (new_license_from_input (env_lower env) (env_now env) (env_license_id env)
                (adm_tenant_id admin) payload h)) (\<lambda>n.
     commit (
       tx_bind (create_license_in_transaction env n) (\<lambda>l.
       tx_bind (audit_license_create env admin l) (\<lambda>_.
       tx_return (license_key, l)))))))))"

definition find_license_or_fail :: "admin_context \<Rightarrow> uuid \<Rightarrow> license access_io" where
  "find_license_or_fail admin i =
     io_read (\<lambda>db. ok_or (license_find_by_id (adm_tenant_id admin) i db) license_not_found)"

definition revoke_license :: "access_env \<Rightarrow> admin_context \<Rightarrow> uuid \<Rightarrow> (license \<times> int) access_io" where
  "revoke_license env admin i =
     io_bind (io_of (ensure_admin_permission admin ''license:revoke'')) (\<lambda>_.
     io_bind (find_license_or_fail admin i) (\<lambda>before.
     commit (
       tx_bind (set_license_status_in_transaction env (adm_tenant_id admin) i ''revoked'' True) (\<lambda>r.
       tx_bind (tx_of (ok_or r (AlreadyRevoked ''license already revoked''))) (\<lambda>l.
       tx_bind (revoke_license_refresh_tokens_in_transaction env (adm_tenant_id admin) i) (\<lambda>tokens.
       tx_bind (revoke_license_sessions_in_transaction env (adm_tenant_id admin) i) (\<lambda>sessions.
       tx_bind (audit_license_status_change env admin ''license.revoke'' before l sessions tokens) (\<lambda>_.
       tx_return (l, sessions)))))))))"

definition suspend_license :: "access_env \<Rightarrow> admin_context \<Rightarrow> uuid \<Rightarrow> (license \<times> int) access_io" where
  "suspend_license env admin i =
     io_bind (io_of (ensure_admin_permission admin ''license:suspend'')) (\<lambda>_.
     io_bind (find_license_or_fail admin i) (\<lambda>before.
     commit (
       tx_bind (set_license_status_in_transaction env (adm_tenant_id admin) i ''suspended'' False) (\<lambda>r.
       tx_bind (tx_of (ok_or r (Conflict ''license already suspended''))) (\<lambda>l.
       tx_bind (revoke_license_refresh_tokens_in_transaction env (adm_tenant_id admin) i) (\<lambda>tokens.
       tx_bind (revoke_license_sessions_in_transaction env (adm_tenant_id admin) i) (\<lambda>sessions.
       tx_bind (audit_license_status_change env admin ''license.suspend'' before l sessions tokens) (\<lambda>_.
       tx_return (l, sessions)))))))))"

definition renew_license ::
    "access_env \<Rightarrow> admin_context \<Rightarrow> uuid \<Rightarrow> time \<Rightarrow> (license \<times> int) access_io" where
  "renew_license env admin i expires =
     io_bind (io_of (ensure_admin_permission admin ''license:renew'')) (\<lambda>_.
     io_bind (find_license_or_fail admin i) (\<lambda>before.
     io_bind (io_of (validate_renew_license before expires)) (\<lambda>_.
     commit (
       tx_bind (renew_license_in_transaction env (adm_tenant_id admin) i expires) (\<lambda>r.
       tx_bind (tx_of (ok_or r (AlreadyRevoked ''revoked license cannot be renewed''))) (\<lambda>l.
       tx_bind (audit_license_status_change env admin ''license.renew'' before l 0 0) (\<lambda>_.
       tx_return (l, 0))))))))"

definition reset_metadata :: "int \<Rightarrow> int \<Rightarrow> int \<Rightarrow> string \<Rightarrow> json" where
  "reset_metadata sessions tokens reset reason =
     JObject [(''revoked_sessions'', json_int sessions), (''revoked_refresh_tokens'', json_int tokens),
       (''devices_reset'', json_int reset), (''reason'', JString reason)]"

definition reset_license_devices ::
    "access_env \<Rightarrow> (string \<Rightarrow> string option option) \<Rightarrow> admin_context \<Rightarrow> uuid \<Rightarrow> string
      \<Rightarrow> (license \<times> int) access_io" where
  "reset_license_devices env parse admin i body =
     io_bind (io_of (ensure_admin_permission admin ''license:reset_device'')) (\<lambda>_.
     io_bind (io_of (parse_reset_devices_reason parse body)) (\<lambda>reason.
     io_bind (find_license_or_fail admin i) (\<lambda>l.
     commit (
       tx_bind (reset_license_devices_in_transaction env (adm_tenant_id admin) i) (\<lambda>n.
       tx_bind (revoke_license_refresh_tokens_in_transaction env (adm_tenant_id admin) i) (\<lambda>tokens.
       tx_bind (revoke_license_sessions_in_transaction env (adm_tenant_id admin) i) (\<lambda>sessions.
       tx_bind (audit_record env (admin_audit env admin ''license.devices.reset'' ''license'' (lic_id l)
                  None None (reset_metadata sessions tokens n reason))) (\<lambda>_.
       tx_return (l, sessions)))))))))"


section \<open>Subscription administration\<close>

definition subscription_db_error :: "access_env \<Rightarrow> app_error" where
  "subscription_db_error env = db_error env ''subscription admin''"

definition subscription_audit_json :: "access_env \<Rightarrow> subscription \<Rightarrow> json" where
  "subscription_audit_json env s =
     JObject [(''id'', json_uuid env (sub_id s)), (''app_id'', json_uuid env (sub_app_id s)),
       (''customer_id'', json_uuid env (sub_customer_id s)), (''plan'', JString (sub_plan s)),
       (''status'', JString (sub_status s)), (''max_devices'', json_int (sub_max_devices s)),
       (''features'', sub_features s), (''starts_at'', json_time env (sub_starts_at s)),
       (''expires_at'', json_opt (json_time env) (sub_expires_at s)),
       (''cancelled_at'', json_opt (json_time env) (sub_cancelled_at s)),
       (''metadata'', sub_metadata s)]"

definition audit_subscription_create ::
    "access_env \<Rightarrow> admin_context \<Rightarrow> subscription \<Rightarrow> unit access_tx" where
  "audit_subscription_create env admin s =
     audit_record env (admin_audit env admin ''subscription.create'' ''subscription'' (sub_id s) None
       (Some (subscription_audit_json env s)) (JObject []))"

definition audit_subscription_status_change ::
    "access_env \<Rightarrow> admin_context \<Rightarrow> string \<Rightarrow> subscription \<Rightarrow> subscription \<Rightarrow> int \<Rightarrow> int
      \<Rightarrow> unit access_tx" where
  "audit_subscription_status_change env admin action before s sessions tokens =
     audit_record env (admin_audit env admin action ''subscription'' (sub_id s)
       (Some (subscription_audit_json env before)) (Some (subscription_audit_json env s))
       (revocation_metadata sessions tokens))"

definition create_subscription_in_transaction ::
    "access_env \<Rightarrow> new_subscription \<Rightarrow> subscription access_tx" where
  "create_subscription_in_transaction env n =
     (let row = subscription_row (env_db_now env) n in
      tx_bind (tx_read (\<lambda>db. insert_row subscription_check subscription_clash
                              (subscription_db_error env) row (subscriptions db)))
        (\<lambda>t. tx_bind (tx_modify (\<lambda>db. db\<lparr>subscriptions := t\<rparr>)) (\<lambda>_. tx_return row)))"

definition update_subscription ::
    "access_env \<Rightarrow> uuid \<Rightarrow> uuid \<Rightarrow> (subscription \<Rightarrow> bool) \<Rightarrow> (subscription \<Rightarrow> subscription)
      \<Rightarrow> subscription option access_tx" where
  "update_subscription env tenant i P f =
     tx_bind (tx_read (\<lambda>db. update_returning subscription_check (subscription_db_error env)
                (\<lambda>s. sub_tenant_id s = tenant \<and> sub_id s = i \<and> sub_deleted_at s = None \<and> P s)
                (\<lambda>s. (f s)\<lparr>sub_updated_at := env_db_now env\<rparr>) (subscriptions db)))
       (\<lambda>(r, t). tx_bind (tx_modify (\<lambda>db. db\<lparr>subscriptions := t\<rparr>)) (\<lambda>_. tx_return r))"

definition set_subscription_status_in_transaction ::
    "access_env \<Rightarrow> uuid \<Rightarrow> uuid \<Rightarrow> string \<Rightarrow> bool \<Rightarrow> subscription option access_tx" where
  "set_subscription_status_in_transaction env tenant i status cancelled =
     update_subscription env tenant i (\<lambda>s. sub_status s \<noteq> status \<and> sub_status s \<noteq> ''cancelled'')
       (\<lambda>s. s\<lparr>sub_status := status,
             sub_cancelled_at := (if cancelled then Some (env_db_now env) else sub_cancelled_at s)\<rparr>)"

definition renew_subscription_in_transaction ::
    "access_env \<Rightarrow> uuid \<Rightarrow> uuid \<Rightarrow> time \<Rightarrow> subscription option access_tx" where
  "renew_subscription_in_transaction env tenant i expires =
     update_subscription env tenant i (\<lambda>s. sub_status s \<noteq> ''cancelled'')
       (\<lambda>s. s\<lparr>sub_status := ''active'', sub_expires_at := Some expires, sub_cancelled_at := None\<rparr>)"

definition reset_subscription_devices_in_transaction ::
    "access_env \<Rightarrow> uuid \<Rightarrow> uuid \<Rightarrow> int access_tx" where
  "reset_subscription_devices_in_transaction env tenant s =
     tx_bind (tx_read (\<lambda>db. Inr (count_where (\<lambda>d. dev_tenant_id d = tenant \<and>
                dev_subscription_id d = Some s \<and> dev_deleted_at d = None) (devices db)))) (\<lambda>n.
     tx_bind (update_devices env tenant (\<lambda>d. dev_subscription_id d = Some s)
                (\<lambda>d. d\<lparr>dev_subscription_id := None\<rparr>)) (\<lambda>_.
     tx_return n))"

definition device_of_subscription :: "uuid \<Rightarrow> uuid \<Rightarrow> access_db \<Rightarrow> uuid \<Rightarrow> bool" where
  "device_of_subscription tenant s db i =
     list_ex (\<lambda>d. dev_id d = i \<and> dev_tenant_id d = tenant \<and> dev_subscription_id d = Some s
                \<and> dev_deleted_at d = None) (devices db)"

definition revoke_subscription_sessions_in_transaction ::
    "access_env \<Rightarrow> uuid \<Rightarrow> uuid \<Rightarrow> int access_tx" where
  "revoke_subscription_sessions_in_transaction env tenant s =
     revoke_sessions_of env tenant (device_of_subscription tenant s)"

definition revoke_subscription_refresh_tokens_in_transaction ::
    "access_env \<Rightarrow> uuid \<Rightarrow> uuid \<Rightarrow> int access_tx" where
  "revoke_subscription_refresh_tokens_in_transaction env tenant s =
     revoke_refresh_tokens_of env tenant (device_of_subscription tenant s)"

definition create_subscription ::
    "access_env \<Rightarrow> admin_context \<Rightarrow> create_subscription_input \<Rightarrow> subscription access_io" where
  "create_subscription env admin payload =
     io_bind (io_of (ensure_admin_permission admin ''subscription:create'')) (\<lambda>_.
     io_bind (io_read (ensure_application_exists (adm_tenant_id admin) (csi_app_id payload))) (\<lambda>_.
     io_bind (io_read (ensure_customer_exists (adm_tenant_id admin) (csi_customer_id payload))) (\<lambda>_.
     io_bind (io_of (new_subscription_from_input (env_lower env) (env_now env)
                (env_subscription_id env) (adm_tenant_id admin) payload)) (\<lambda>n.
     commit (
       tx_bind (create_subscription_in_transaction env n) (\<lambda>s.
       tx_bind (audit_subscription_create env admin s) (\<lambda>_.
       tx_return s)))))))"

definition find_subscription_or_fail :: "admin_context \<Rightarrow> uuid \<Rightarrow> subscription access_io" where
  "find_subscription_or_fail admin i =
     io_read (\<lambda>db. ok_or (subscription_find_by_id (adm_tenant_id admin) i db)
                      (NotFound ''subscription not found''))"

text \<open>The part \<open>cancel\<close> and \<open>suspend\<close> share, after the status was set.\<close>

definition withdraw_subscription ::
    "access_env \<Rightarrow> admin_context \<Rightarrow> uuid \<Rightarrow> string \<Rightarrow> bool \<Rightarrow> string \<Rightarrow> string \<Rightarrow> subscription
      \<Rightarrow> (subscription \<times> int) access_tx" where
  "withdraw_subscription env admin i status cancelled conflict action before =
     tx_bind (set_subscription_status_in_transaction env (adm_tenant_id admin) i status cancelled) (\<lambda>r.
     tx_bind (tx_of (ok_or r (Conflict conflict))) (\<lambda>s.
     tx_bind (revoke_subscription_refresh_tokens_in_transaction env (adm_tenant_id admin) i) (\<lambda>tokens.
     tx_bind (revoke_subscription_sessions_in_transaction env (adm_tenant_id admin) i) (\<lambda>sessions.
     tx_bind (audit_subscription_status_change env admin action before s sessions tokens) (\<lambda>_.
     tx_return (s, sessions))))))"

definition cancel_subscription ::
    "access_env \<Rightarrow> admin_context \<Rightarrow> uuid \<Rightarrow> (subscription \<times> int) access_io" where
  "cancel_subscription env admin i =
     io_bind (io_of (ensure_admin_permission admin ''subscription:cancel'')) (\<lambda>_.
     io_bind (find_subscription_or_fail admin i) (\<lambda>before.
     commit (withdraw_subscription env admin i ''cancelled'' True ''subscription already cancelled''
               ''subscription.cancel'' before)))"

definition suspend_subscription ::
    "access_env \<Rightarrow> admin_context \<Rightarrow> uuid \<Rightarrow> (subscription \<times> int) access_io" where
  "suspend_subscription env admin i =
     io_bind (io_of (ensure_admin_permission admin ''subscription:suspend'')) (\<lambda>_.
     io_bind (find_subscription_or_fail admin i) (\<lambda>before.
     if sub_status before = ''cancelled''
       then io_fail (Conflict ''cancelled subscription cannot be suspended'')
     else if sub_status before = ''suspended''
       then io_fail (Conflict ''subscription already suspended'')
     else commit (withdraw_subscription env admin i ''suspended'' False
                    ''subscription already suspended'' ''subscription.suspend'' before)))"

definition resume_subscription ::
    "access_env \<Rightarrow> admin_context \<Rightarrow> uuid \<Rightarrow> (subscription \<times> int) access_io" where
  "resume_subscription env admin i =
     io_bind (io_of (ensure_admin_permission admin ''subscription:resume'')) (\<lambda>_.
     io_bind (find_subscription_or_fail admin i) (\<lambda>before.
     if sub_status before \<noteq> ''suspended'' then io_fail (Conflict ''subscription is not suspended'')
     else if (case sub_expires_at before of Some e \<Rightarrow> e \<le> env_now env | None \<Rightarrow> False)
       then io_fail (Conflict ''suspended subscription is already expired'')
     else commit (
       tx_bind (set_subscription_status_in_transaction env (adm_tenant_id admin) i ''active'' False) (\<lambda>r.
       tx_bind (tx_of (ok_or r (Conflict ''subscription already active''))) (\<lambda>s.
       tx_bind (audit_subscription_status_change env admin ''subscription.resume'' before s 0 0) (\<lambda>_.
       tx_return (s, 0)))))))"

definition renew_subscription ::
    "access_env \<Rightarrow> admin_context \<Rightarrow> uuid \<Rightarrow> time \<Rightarrow> (subscription \<times> int) access_io" where
  "renew_subscription env admin i expires =
     io_bind (io_of (ensure_admin_permission admin ''subscription:renew'')) (\<lambda>_.
     io_bind (find_subscription_or_fail admin i) (\<lambda>before.
     if sub_status before = ''cancelled''
       then io_fail (Conflict ''cancelled subscription cannot be renewed'')
     else
       io_bind (io_of (validate_renew_subscription before expires)) (\<lambda>_.
       commit (
         tx_bind (renew_subscription_in_transaction env (adm_tenant_id admin) i expires) (\<lambda>r.
         tx_bind (tx_of (ok_or r (Conflict ''cancelled subscription cannot be renewed''))) (\<lambda>s.
         tx_bind (audit_subscription_status_change env admin ''subscription.renew'' before s 0 0) (\<lambda>_.
         tx_return (s, 0))))))))"

definition reset_subscription_devices ::
    "access_env \<Rightarrow> (string \<Rightarrow> string option option) \<Rightarrow> admin_context \<Rightarrow> uuid \<Rightarrow> string
      \<Rightarrow> (subscription \<times> int) access_io" where
  "reset_subscription_devices env parse admin i body =
     io_bind (io_of (ensure_admin_permission admin ''subscription:reset_device'')) (\<lambda>_.
     io_bind (io_of (parse_reset_devices_reason parse body)) (\<lambda>reason.
     io_bind (find_subscription_or_fail admin i) (\<lambda>s.
     commit (
       tx_bind (reset_subscription_devices_in_transaction env (adm_tenant_id admin) i) (\<lambda>n.
       tx_bind (revoke_subscription_refresh_tokens_in_transaction env (adm_tenant_id admin) i) (\<lambda>tokens.
       tx_bind (revoke_subscription_sessions_in_transaction env (adm_tenant_id admin) i) (\<lambda>sessions.
       tx_bind (audit_record env (admin_audit env admin ''subscription.devices.reset'' ''subscription''
                  (sub_id s) None None (reset_metadata sessions tokens n reason))) (\<lambda>_.
       tx_return (s, sessions)))))))))"


section \<open>Device administration\<close>

definition device_audit_json :: "access_env \<Rightarrow> device \<Rightarrow> json" where
  "device_audit_json env d =
     JObject [(''id'', json_uuid env (dev_id d)), (''app_id'', json_uuid env (dev_app_id d)),
       (''customer_id'', json_opt (json_uuid env) (dev_customer_id d)),
       (''license_id'', json_opt (json_uuid env) (dev_license_id d)),
       (''subscription_id'', json_opt (json_uuid env) (dev_subscription_id d)),
       (''machine_id'', JString (dev_machine_id d)),
       (''device_name'', json_opt JString (dev_device_name d)),
       (''os'', json_opt JString (dev_os d)), (''app_version'', json_opt JString (dev_app_version d)),
       (''status'', JString (dev_status d)),
       (''last_seen_at'', json_opt (json_time env) (dev_last_seen_at d))]"

definition audit_device_change ::
    "access_env \<Rightarrow> admin_context \<Rightarrow> string \<Rightarrow> device \<Rightarrow> device \<Rightarrow> json \<Rightarrow> unit access_tx" where
  "audit_device_change env admin action before d metadata =
     audit_record env (admin_audit env admin action ''device'' (dev_id d)
       (Some (device_audit_json env before)) (Some (device_audit_json env d)) metadata)"

definition normalize_blacklist_reason :: "string option \<Rightarrow> app_error + string" where
  "normalize_blacklist_reason r =
     rs_bind (ok_or (clean_optional r) (ValidationFailed ''reason is required'')) (\<lambda>v.
     if chars_count v > 500 then Inl (ValidationFailed ''reason is too long'') else Inr v)"

definition find_device_or_fail :: "admin_context \<Rightarrow> uuid \<Rightarrow> device access_io" where
  "find_device_or_fail admin i =
     io_read (\<lambda>db. ok_or (device_find_by_id_for_admin (adm_tenant_id admin) i db) device_not_found)"

definition unbind_device :: "access_env \<Rightarrow> admin_context \<Rightarrow> uuid \<Rightarrow> (device \<times> int) access_io" where
  "unbind_device env admin i =
     io_bind (io_of (ensure_admin_permission admin ''device:unbind'')) (\<lambda>_.
     io_bind (find_device_or_fail admin i) (\<lambda>before.
     commit (
       tx_bind (set_device_status env (adm_tenant_id admin) i ''unbound'') (\<lambda>r.
       tx_bind (tx_of (ok_or r device_not_found)) (\<lambda>d.
       tx_bind (revoke_device_refresh_tokens env (adm_tenant_id admin) i) (\<lambda>tokens.
       tx_bind (revoke_device_sessions env (adm_tenant_id admin) i) (\<lambda>sessions.
       tx_bind (audit_device_change env admin ''device.unbind'' before d
                  (revocation_metadata sessions tokens)) (\<lambda>_.
       tx_return (d, sessions)))))))))"

definition blacklist_device ::
    "access_env \<Rightarrow> admin_context \<Rightarrow> uuid \<Rightarrow> string option \<Rightarrow> (device \<times> int) access_io" where
  "blacklist_device env admin i reason =
     io_bind (io_of (ensure_admin_permission admin ''device:blacklist'')) (\<lambda>_.
     io_bind (io_of (normalize_blacklist_reason reason)) (\<lambda>why.
     io_bind (find_device_or_fail admin i) (\<lambda>before.
     commit (
       tx_bind (add_device_blacklist env (adm_tenant_id admin) (dev_app_id before)
                  (dev_machine_id before) why (adm_team_member_id admin)) (\<lambda>_.
       tx_bind (set_device_status env (adm_tenant_id admin) i ''blacklisted'') (\<lambda>r.
       tx_bind (tx_of (ok_or r device_not_found)) (\<lambda>d.
       tx_bind (revoke_device_refresh_tokens env (adm_tenant_id admin) i) (\<lambda>tokens.
       tx_bind (revoke_device_sessions env (adm_tenant_id admin) i) (\<lambda>sessions.
       tx_bind (audit_device_change env admin ''device.blacklist'' before d
                  (JObject [(''reason'', JString why), (''revoked_sessions'', json_int sessions),
                     (''revoked_refresh_tokens'', json_int tokens)])) (\<lambda>_.
       tx_return (d, sessions)))))))))))"

definition unblacklist_device :: "access_env \<Rightarrow> admin_context \<Rightarrow> uuid \<Rightarrow> (device \<times> int) access_io" where
  "unblacklist_device env admin i =
     io_bind (io_of (ensure_admin_permission admin ''device:unblacklist'')) (\<lambda>_.
     io_bind (find_device_or_fail admin i) (\<lambda>before.
     commit (
       tx_bind (remove_device_blacklist (adm_tenant_id admin) (dev_app_id before)
                  (dev_machine_id before)) (\<lambda>removed.
       tx_bind (set_device_status env (adm_tenant_id admin) i ''active'') (\<lambda>r.
       tx_bind (tx_of (ok_or r device_not_found)) (\<lambda>d.
       tx_bind (audit_device_change env admin ''device.unblacklist'' before d
                  (JObject [(''removed_blacklist'', json_int removed)])) (\<lambda>_.
       tx_return (d, 0))))))))"


section \<open>Revocation\<close>

lemma revoke_sessions_of_Inr:
  "revoke_sessions_of env tenant D db = Inr (n, db') \<longleftrightarrow>
     n = count_where (\<lambda>s. ses_tenant_id s = tenant \<and> ses_revoked_at s = None \<and> D db (ses_device_id s))
           (client_sessions db)
     \<and> db' = db\<lparr>client_sessions :=
         update_where (\<lambda>s. ses_tenant_id s = tenant \<and> ses_revoked_at s = None \<and> D db (ses_device_id s))
           (\<lambda>s. s\<lparr>ses_revoked_at := Some (env_db_now env)\<rparr>) (client_sessions db)\<rparr>"
  by (auto simp: revoke_sessions_of_def tx_success)

definition token_of :: "uuid \<Rightarrow> (uuid \<Rightarrow> bool) \<Rightarrow> client_session list \<Rightarrow> client_refresh_token \<Rightarrow> bool" where
  "token_of tenant D sessions rt \<longleftrightarrow>
     list_ex (\<lambda>s. ses_id s = rt_session_id rt \<and> ses_tenant_id s = tenant \<and> D (ses_device_id s)) sessions"

lemma token_of_update [simp]:
  "token_of tenant D (update_where P (\<lambda>s. s\<lparr>ses_revoked_at := x\<rparr>) t) rt = token_of tenant D t rt"
  by (induction t) (simp_all add: token_of_def)

lemma revoke_refresh_tokens_of_Inr:
  "revoke_refresh_tokens_of env tenant D db = Inr (n, db') \<longleftrightarrow>
     n = count_where (\<lambda>rt. rt_revoked_at rt = None \<and> token_of tenant (D db) (client_sessions db) rt)
           (client_refresh_tokens db)
     \<and> db' = db\<lparr>client_refresh_tokens :=
         update_where (\<lambda>rt. rt_revoked_at rt = None \<and> token_of tenant (D db) (client_sessions db) rt)
           (\<lambda>rt. rt\<lparr>rt_revoked_at := Some (env_db_now env)\<rparr>) (client_refresh_tokens db)\<rparr>"
  by (auto simp: revoke_refresh_tokens_of_def tx_success token_of_def)

text \<open>
  The two revocation statements in the order every handler runs them: what they promise
  needs of the selection only that it looks at the device table.
\<close>

definition access_revoked :: "uuid \<Rightarrow> (uuid \<Rightarrow> bool) \<Rightarrow> access_db \<Rightarrow> bool" where
  "access_revoked tenant D db \<longleftrightarrow>
     list_all (\<lambda>s. ses_tenant_id s = tenant \<and> D (ses_device_id s) \<longrightarrow> ses_revoked_at s \<noteq> None)
       (client_sessions db)
     \<and> list_all (\<lambda>rt. token_of tenant D (client_sessions db) rt \<longrightarrow> rt_revoked_at rt \<noteq> None)
       (client_refresh_tokens db)"

locale device_selection =
  fixes D :: "access_db \<Rightarrow> uuid \<Rightarrow> bool"
  assumes only_devices: "devices db = devices db' \<Longrightarrow> D db = D db'"
begin

lemma revocation_effect:
  assumes "revoke_refresh_tokens_of env tenant D db = Inr (n, db1)"
    and "revoke_sessions_of env tenant D db1 = Inr (k, db2)"
  shows "client_sessions db2 = update_where
        (\<lambda>s. ses_tenant_id s = tenant \<and> ses_revoked_at s = None \<and> D db (ses_device_id s))
        (\<lambda>s. s\<lparr>ses_revoked_at := Some (env_db_now env)\<rparr>) (client_sessions db)"
    and "client_refresh_tokens db2 = update_where
        (\<lambda>rt. rt_revoked_at rt = None \<and> token_of tenant (D db) (client_sessions db) rt)
        (\<lambda>rt. rt\<lparr>rt_revoked_at := Some (env_db_now env)\<rparr>) (client_refresh_tokens db)"
    and "db2 = db\<lparr>client_sessions := client_sessions db2, client_refresh_tokens := client_refresh_tokens db2\<rparr>"
    and "k = count_where (\<lambda>s. ses_tenant_id s = tenant \<and> ses_revoked_at s = None \<and> D db (ses_device_id s))
              (client_sessions db)"
    and "n = count_where (\<lambda>rt. rt_revoked_at rt = None \<and> token_of tenant (D db) (client_sessions db) rt)
              (client_refresh_tokens db)"
proof -
  obtain T where e1: "db1 = db\<lparr>client_refresh_tokens := T\<rparr>" and n: "n = count_where
      (\<lambda>rt. rt_revoked_at rt = None \<and> token_of tenant (D db) (client_sessions db) rt) (client_refresh_tokens db)"
    and T: "T = update_where
        (\<lambda>rt. rt_revoked_at rt = None \<and> token_of tenant (D db) (client_sessions db) rt)
        (\<lambda>rt. rt\<lparr>rt_revoked_at := Some (env_db_now env)\<rparr>) (client_refresh_tokens db)"
    using assms(1) unfolding revoke_refresh_tokens_of_Inr by blast
  have c1: "client_sessions db1 = client_sessions db" by (simp add: e1)
  have D: "D db1 = D db" by (rule only_devices) (simp add: e1)
  obtain S where e2: "db2 = db1\<lparr>client_sessions := S\<rparr>"
    and S: "S = update_where
        (\<lambda>s. ses_tenant_id s = tenant \<and> ses_revoked_at s = None \<and> D db (ses_device_id s))
        (\<lambda>s. s\<lparr>ses_revoked_at := Some (env_db_now env)\<rparr>) (client_sessions db)"
    and k: "k = count_where (\<lambda>s. ses_tenant_id s = tenant \<and> ses_revoked_at s = None
        \<and> D db (ses_device_id s)) (client_sessions db)"
    using assms(2) unfolding revoke_sessions_of_Inr D c1 by blast
  show "client_sessions db2 = update_where
        (\<lambda>s. ses_tenant_id s = tenant \<and> ses_revoked_at s = None \<and> D db (ses_device_id s))
        (\<lambda>s. s\<lparr>ses_revoked_at := Some (env_db_now env)\<rparr>) (client_sessions db)"
    unfolding S [symmetric] e2 by simp
  show "client_refresh_tokens db2 = update_where
        (\<lambda>rt. rt_revoked_at rt = None \<and> token_of tenant (D db) (client_sessions db) rt)
        (\<lambda>rt. rt\<lparr>rt_revoked_at := Some (env_db_now env)\<rparr>) (client_refresh_tokens db)"
    unfolding T [symmetric] e2 e1 by simp
  show "db2 = db\<lparr>client_sessions := client_sessions db2, client_refresh_tokens := client_refresh_tokens db2\<rparr>"
    unfolding e2 e1 by simp
  show "k = count_where (\<lambda>s. ses_tenant_id s = tenant \<and> ses_revoked_at s = None
      \<and> D db (ses_device_id s)) (client_sessions db)" by (rule k)
  show "n = count_where (\<lambda>rt. rt_revoked_at rt = None \<and> token_of tenant (D db) (client_sessions db) rt)
      (client_refresh_tokens db)" by (rule n)
qed

lemma revocation_complete:
  assumes "revoke_refresh_tokens_of env tenant D db = Inr (n, db1)"
    and "revoke_sessions_of env tenant D db1 = Inr (k, db2)"
  shows "access_revoked tenant (D db) db2"
proof -
  note e = revocation_effect [OF assms]
  have "list_all (\<lambda>s. ses_tenant_id s = tenant \<and> D db (ses_device_id s) \<longrightarrow> ses_revoked_at s \<noteq> None)
      (client_sessions db2)"
    unfolding e(1) by (rule list_all_update_where, simp, argo)
  moreover have "list_all (\<lambda>rt. token_of tenant (D db) (client_sessions db2) rt \<longrightarrow> rt_revoked_at rt \<noteq> None)
      (client_refresh_tokens db2)"
    unfolding e(1,2) token_of_update by (rule list_all_update_where, simp, argo)
  ultimately show ?thesis by (simp add: access_revoked_def)
qed

lemma revocation_other_tenants:
  assumes "revoke_refresh_tokens_of env tenant D db = Inr (n, db1)"
    and "revoke_sessions_of env tenant D db1 = Inr (k, db2)"
  shows "filter (\<lambda>s. ses_tenant_id s \<noteq> tenant) (client_sessions db2)
    = filter (\<lambda>s. ses_tenant_id s \<noteq> tenant) (client_sessions db)"
proof -
  have "filter (\<lambda>s. ses_tenant_id s \<noteq> tenant) (update_where
      (\<lambda>s. ses_tenant_id s = tenant \<and> ses_revoked_at s = None \<and> Q s)
      (\<lambda>s. s\<lparr>ses_revoked_at := x\<rparr>) t) = filter (\<lambda>s. ses_tenant_id s \<noteq> tenant) t" for Q x t
    by (induction t) simp_all
  then show ?thesis unfolding revocation_effect(1) [OF assms] .
qed

text \<open>A selection without devices revokes nothing.\<close>

lemma empty_selection_revokes_nothing:
  assumes "revoke_refresh_tokens_of env tenant D db = Inr (n, db1)"
    and "revoke_sessions_of env tenant D db1 = Inr (k, db2)" and none: "\<And>i. \<not> D db i"
  shows "db2 = db \<and> n = 0 \<and> k = 0"
proof -
  note e = revocation_effect [OF assms(1,2)]
  have t: "\<not> token_of tenant (D db) (client_sessions db) rt" for rt
    by (simp add: token_of_def none list_ex_iff)
  have "client_sessions db2 = client_sessions db" "k = 0"
    unfolding e(1,4) by (rule update_where_id, simp add: none) (rule count_where_zero, simp add: none)
  moreover have "client_refresh_tokens db2 = client_refresh_tokens db" "n = 0"
    unfolding e(2,5) by (rule update_where_id, simp add: t) (rule count_where_zero, simp add: t)
  ultimately show ?thesis using e(3) by simp
qed

end

interpretation one_device: device_selection "\<lambda>_ d. d = i" for i
  by unfold_locales simp

interpretation licensed: device_selection "device_of_license tenant l" for tenant l
  by unfold_locales (simp add: device_of_license_def fun_eq_iff)

interpretation subscribed: device_selection "device_of_subscription tenant s" for tenant s
  by unfold_locales (simp add: device_of_subscription_def fun_eq_iff)


section \<open>What administration keeps\<close>

text \<open>
  \<open>access_evolves\<close>: the device table stays well formed, a cancelled subscription stays as it
  is, a revoked session stays revoked and the audit log only grows.
\<close>

definition access_evolves :: "access_db \<Rightarrow> access_db \<Rightarrow> bool" where
  "access_evolves db db' \<longleftrightarrow>
     (devices_wf (devices db) \<longrightarrow> devices_wf (devices db'))
     \<and> (\<forall>s \<in> set (subscriptions db). sub_status s = ''cancelled'' \<longrightarrow> s \<in> set (subscriptions db'))
     \<and> (\<forall>s \<in> set (client_sessions db). ses_revoked_at s \<noteq> None \<longrightarrow> s \<in> set (client_sessions db'))
     \<and> (\<exists>new. audit_logs db' = audit_logs db @ new)"

text \<open>What belongs to the other tenants, a refresh token through the sessions it may use.\<close>

definition foreign :: "uuid \<Rightarrow> access_db \<Rightarrow> license list \<times> subscription list \<times> device list
    \<times> blacklist_entry list \<times> client_session list \<times> client_refresh_token list" where
  "foreign tenant db =
     (filter (\<lambda>l. lic_tenant_id l \<noteq> tenant) (licenses db),
      filter (\<lambda>s. sub_tenant_id s \<noteq> tenant) (subscriptions db),
      filter (\<lambda>d. dev_tenant_id d \<noteq> tenant) (devices db),
      filter (\<lambda>b. bl_tenant_id b \<noteq> tenant) (device_blacklist db),
      filter (\<lambda>s. ses_tenant_id s \<noteq> tenant) (client_sessions db),
      filter (\<lambda>rt. \<not> token_of tenant (\<lambda>_. True) (client_sessions db) rt) (client_refresh_tokens db))"

lemma update_where_keeps: "r \<in> set t \<Longrightarrow> \<not> P r \<Longrightarrow> r \<in> set (update_where P f t)"
  by (induction t) auto

lemma filter_update_other:
  "(\<And>r. P r \<Longrightarrow> \<not> Q r \<and> \<not> Q (f r)) \<Longrightarrow> filter Q (update_where P f t) = filter Q t"
  by (induction t) auto

lemma update_license_Inr:
  "update_license env tenant i P f db = Inr (r, db') \<Longrightarrow>
    db' = db\<lparr>licenses := update_where
       (\<lambda>l. lic_tenant_id l = tenant \<and> lic_id l = i \<and> lic_deleted_at l = None \<and> P l)
       (\<lambda>l. (f l)\<lparr>lic_updated_at := env_db_now env\<rparr>) (licenses db)\<rparr>
    \<and> r = map_option (\<lambda>l. (f l)\<lparr>lic_updated_at := env_db_now env\<rparr>)
       (List.find (\<lambda>l. lic_tenant_id l = tenant \<and> lic_id l = i \<and> lic_deleted_at l = None \<and> P l) (licenses db))"
  by (auto simp: update_license_def tx_success update_returning_Inr split: prod.splits)

lemma update_subscription_Inr:
  "update_subscription env tenant i P f db = Inr (r, db') \<Longrightarrow>
    db' = db\<lparr>subscriptions := update_where
       (\<lambda>s. sub_tenant_id s = tenant \<and> sub_id s = i \<and> sub_deleted_at s = None \<and> P s)
       (\<lambda>s. (f s)\<lparr>sub_updated_at := env_db_now env\<rparr>) (subscriptions db)\<rparr>
    \<and> r = map_option (\<lambda>s. (f s)\<lparr>sub_updated_at := env_db_now env\<rparr>)
       (List.find (\<lambda>s. sub_tenant_id s = tenant \<and> sub_id s = i \<and> sub_deleted_at s = None \<and> P s)
         (subscriptions db))
    \<and> list_all (\<lambda>s. (sub_tenant_id s = tenant \<and> sub_id s = i \<and> sub_deleted_at s = None \<and> P s)
         \<longrightarrow> subscription_check ((f s)\<lparr>sub_updated_at := env_db_now env\<rparr>)) (subscriptions db)"
  by (auto simp: update_subscription_def tx_success update_returning_Inr split: prod.splits)

lemma keeps_identity_sets [simp]:
  "keeps_identity (\<lambda>d. d\<lparr>dev_status := x\<rparr>)" "keeps_identity (\<lambda>d. d\<lparr>dev_subscription_id := y\<rparr>)"
  by (simp_all add: keeps_identity_def machine_slot_def)

section \<open>Sequences of administration\<close>

text \<open>One administrative request of a tenant, whatever its outcome.\<close>

inductive admin_step :: "uuid \<Rightarrow> access_db \<Rightarrow> access_db \<Rightarrow> bool" where
  create_license: "adm_tenant_id admin = t \<Longrightarrow>
    admin_step t db (snd (create_license env c pepper token admin payload db))"
| revoke_license: "adm_tenant_id admin = t \<Longrightarrow> admin_step t db (snd (revoke_license env admin i db))"
| suspend_license: "adm_tenant_id admin = t \<Longrightarrow> admin_step t db (snd (suspend_license env admin i db))"
| renew_license: "adm_tenant_id admin = t \<Longrightarrow> admin_step t db (snd (renew_license env admin i x db))"
| reset_license_devices: "adm_tenant_id admin = t \<Longrightarrow>
    admin_step t db (snd (reset_license_devices env parse admin i body db))"
| create_subscription: "adm_tenant_id admin = t \<Longrightarrow>
    admin_step t db (snd (create_subscription env admin sub_payload db))"
| cancel_subscription: "adm_tenant_id admin = t \<Longrightarrow>
    admin_step t db (snd (cancel_subscription env admin i db))"
| suspend_subscription: "adm_tenant_id admin = t \<Longrightarrow>
    admin_step t db (snd (suspend_subscription env admin i db))"
| resume_subscription: "adm_tenant_id admin = t \<Longrightarrow>
    admin_step t db (snd (resume_subscription env admin i db))"
| renew_subscription: "adm_tenant_id admin = t \<Longrightarrow>
    admin_step t db (snd (renew_subscription env admin i x db))"
| reset_subscription_devices: "adm_tenant_id admin = t \<Longrightarrow>
    admin_step t db (snd (reset_subscription_devices env parse admin i body db))"
| unbind_device: "adm_tenant_id admin = t \<Longrightarrow> admin_step t db (snd (unbind_device env admin i db))"
| blacklist_device: "adm_tenant_id admin = t \<Longrightarrow>
    admin_step t db (snd (blacklist_device env admin i reason db))"
| unblacklist_device: "adm_tenant_id admin = t \<Longrightarrow>
    admin_step t db (snd (unblacklist_device env admin i db))"

inductive admin_steps :: "(uuid \<Rightarrow> bool) \<Rightarrow> access_db \<Rightarrow> access_db \<Rightarrow> bool" for T where
  none: "admin_steps T db db"
| more: "admin_steps T db db' \<Longrightarrow> T t \<Longrightarrow> admin_step t db' db'' \<Longrightarrow> admin_steps T db db''"

text \<open>
  What a relation between database states has to satisfy for every administrative request of
  the tenants \<open>T\<close> to respect it: the statements respect it. The handlers are then proved
  once, for every such relation.
\<close>

locale administered = evolution R for R :: "access_db \<Rightarrow> access_db \<Rightarrow> bool" +
  fixes T :: "uuid \<Rightarrow> bool"
  assumes audit: "tx_respects R (audit_record env entry)"
    and new_license: "T (nl_tenant_id n) \<Longrightarrow> tx_respects R (create_license_in_transaction env n)"
    and edit_license: "T t \<Longrightarrow> (\<And>l. lic_tenant_id (f l) = lic_tenant_id l) \<Longrightarrow>
      tx_respects R (update_license env t i P f)"
    and new_subscription: "T (ns_tenant_id m) \<Longrightarrow> tx_respects R (create_subscription_in_transaction env m)"
    and edit_subscription: "T t \<Longrightarrow> (\<And>s. Q s \<Longrightarrow> sub_status s \<noteq> ''cancelled'') \<Longrightarrow>
      (\<And>s. sub_tenant_id (g s) = sub_tenant_id s) \<Longrightarrow> tx_respects R (update_subscription env t i Q g)"
    and edit_devices: "T t \<Longrightarrow> keeps_identity h \<Longrightarrow> tx_respects R (update_devices env t C h)"
    and end_sessions: "T t \<Longrightarrow> tx_respects R (revoke_sessions_of env t D)"
    and end_tokens: "T t \<Longrightarrow> tx_respects R (revoke_refresh_tokens_of env t D)"
    and blacklist: "T t \<Longrightarrow> tx_respects R (add_device_blacklist env t a mid r c)"
    and unblacklist: "T t \<Longrightarrow> tx_respects R (remove_device_blacklist t a mid)"
begin

lemma statements:
  assumes "T t"
  shows "tx_respects R (set_license_status_in_transaction env t i st b)"
    and "tx_respects R (renew_license_in_transaction env t i x)"
    and "tx_respects R (set_subscription_status_in_transaction env t i st b)"
    and "tx_respects R (renew_subscription_in_transaction env t i x)"
    and "tx_respects R (set_device_status env t i st)"
    and "tx_respects R (reset_license_devices_in_transaction env t i)"
    and "tx_respects R (reset_subscription_devices_in_transaction env t i)"
  unfolding set_license_status_in_transaction_def renew_license_in_transaction_def
    set_subscription_status_in_transaction_def renew_subscription_in_transaction_def set_device_status_def
    reset_license_devices_in_transaction_def reset_subscription_devices_in_transaction_def
  by (intro respects edit_license edit_subscription edit_devices assms; simp)+

lemmas parts = respects audit statements end_sessions end_tokens blacklist unblacklist

lemma handlers:
  assumes "T (adm_tenant_id admin)"
  shows "io_respects R (revoke_license env admin i)"
    and "io_respects R (suspend_license env admin i)"
    and "io_respects R (renew_license env admin i x)"
    and "io_respects R (reset_license_devices env parse admin i body)"
    and "io_respects R (cancel_subscription env admin i)"
    and "io_respects R (suspend_subscription env admin i)"
    and "io_respects R (resume_subscription env admin i)"
    and "io_respects R (renew_subscription env admin i x)"
    and "io_respects R (reset_subscription_devices env parse admin i body)"
    and "io_respects R (unbind_device env admin i)"
    and "io_respects R (blacklist_device env admin i reason)"
    and "io_respects R (unblacklist_device env admin i)"
  unfolding revoke_license_def suspend_license_def renew_license_def
    reset_license_devices_def cancel_subscription_def suspend_subscription_def
    resume_subscription_def renew_subscription_def reset_subscription_devices_def unbind_device_def
    blacklist_device_def unblacklist_device_def withdraw_subscription_def find_license_or_fail_def
    find_subscription_or_fail_def find_device_or_fail_def
    audit_license_status_change_def audit_subscription_status_change_def
    audit_device_change_def revoke_license_sessions_in_transaction_def
    revoke_license_refresh_tokens_in_transaction_def revoke_subscription_sessions_in_transaction_def
    revoke_subscription_refresh_tokens_in_transaction_def revoke_device_sessions_def
    revoke_device_refresh_tokens_def Let_def
  by ((intro parts assms | simp split: option.split | intro conjI impI allI)+)

lemma creations:
  assumes "T (adm_tenant_id admin)"
  shows "io_respects R (create_license env c pepper token admin payload)"
    and "io_respects R (create_subscription env admin sub_payload)"
proof -
  show "io_respects R (create_license env c pepper token admin payload)"
    unfolding create_license_def audit_license_create_def Let_def
    by (intro io_bind_of io_bind commit tx_bind tx_return audit new_license io_read)
      (auto simp: assms new_license_facts(5) split: option.split intro: io_return io_read)
  show "io_respects R (create_subscription env admin sub_payload)"
    unfolding create_subscription_def audit_subscription_create_def
    by (intro io_bind_of io_bind commit tx_bind tx_return audit new_subscription io_read)
      (simp add: assms new_subscription_facts(4))
qed

lemma step: "admin_step t db db' \<Longrightarrow> T t \<Longrightarrow> R db db'"
  by (cases rule: admin_step.cases) (use handlers creations in \<open>auto simp: io_respects_def\<close>)

lemma steps: "admin_steps T db db' \<Longrightarrow> R db db'"
  by (induction rule: admin_steps.induct) (auto intro: refl trans step)

end

lemma access_evolves_refl: "access_evolves db db"
  by (auto simp: access_evolves_def)

lemma access_evolves_trans: "access_evolves db db' \<Longrightarrow> access_evolves db' db'' \<Longrightarrow> access_evolves db db''"
  by (auto simp: access_evolves_def)

lemma ev_audit: "tx_respects access_evolves (audit_record env i)"
  unfolding tx_respects_def by (auto dest!: audit_record_Inr simp: access_evolves_def)

lemma ev_create_license: "tx_respects access_evolves (create_license_in_transaction env n)"
  unfolding tx_respects_def
  by (auto simp: create_license_in_transaction_def Let_def tx_success access_evolves_def)

lemma ev_update_license: "tx_respects access_evolves (update_license env tenant i P f)"
  unfolding tx_respects_def by (auto dest!: update_license_Inr simp: access_evolves_def)

lemma ev_create_subscription: "tx_respects access_evolves (create_subscription_in_transaction env n)"
  unfolding tx_respects_def
  by (auto simp: create_subscription_in_transaction_def Let_def tx_success access_evolves_def
      insert_row_Inr)

lemma ev_update_subscription:
  assumes "\<And>s. P s \<Longrightarrow> sub_status s \<noteq> ''cancelled''"
  shows "tx_respects access_evolves (update_subscription env tenant i P f)"
  unfolding tx_respects_def using assms
  by (auto dest!: update_subscription_Inr simp: access_evolves_def intro!: update_where_keeps)

lemma ev_update_devices:
  assumes "keeps_identity f"
  shows "tx_respects access_evolves (update_devices env tenant P f)"
  unfolding tx_respects_def
proof (intro allI impI)
  fix db r db'
  assume u: "update_devices env tenant P f db = Inr (r, db')"
  have "devices_wf (devices db) \<longrightarrow> devices_wf (devices db')"
    using update_devices_wf [OF u assms] by blast
  moreover have "subscriptions db' = subscriptions db" "client_sessions db' = client_sessions db"
    "audit_logs db' = audit_logs db" using u by (simp_all add: update_devices_Inr)
  ultimately show "access_evolves db db'" by (simp add: access_evolves_def)
qed

lemma ev_revoke_sessions: "tx_respects access_evolves (revoke_sessions_of env tenant D)"
  unfolding tx_respects_def
  by (auto simp: revoke_sessions_of_Inr access_evolves_def intro!: update_where_keeps)

lemma ev_revoke_tokens: "tx_respects access_evolves (revoke_refresh_tokens_of env tenant D)"
  unfolding tx_respects_def by (simp add: revoke_refresh_tokens_of_Inr access_evolves_def)

lemma ev_add_blacklist: "tx_respects access_evolves (add_device_blacklist env t a m r c)"
  unfolding tx_respects_def by (auto simp: add_device_blacklist_def tx_success access_evolves_def)

lemma ev_remove_blacklist: "tx_respects access_evolves (remove_device_blacklist t a m)"
  unfolding tx_respects_def by (auto simp: remove_device_blacklist_def tx_success access_evolves_def)

lemma iso_audit: "tx_respects (\<lambda>db db'. foreign t db' = foreign t db) (audit_record env i)"
  unfolding tx_respects_def by (auto dest!: audit_record_Inr simp: foreign_def)

lemma iso_create_license:
  "nl_tenant_id n = t \<Longrightarrow>
    tx_respects (\<lambda>db db'. foreign t db' = foreign t db) (create_license_in_transaction env n)"
  unfolding tx_respects_def
  by (auto simp: create_license_in_transaction_def Let_def tx_success insert_row_Inr foreign_def
      license_row_def)

lemma iso_create_subscription:
  "ns_tenant_id n = t \<Longrightarrow>
    tx_respects (\<lambda>db db'. foreign t db' = foreign t db) (create_subscription_in_transaction env n)"
  unfolding tx_respects_def
  by (auto simp: create_subscription_in_transaction_def Let_def tx_success insert_row_Inr foreign_def
      subscription_row_def)

lemma iso_update_license:
  assumes "\<And>l. lic_tenant_id (f l) = lic_tenant_id l"
  shows "tx_respects (\<lambda>db db'. foreign t db' = foreign t db) (update_license env t i P f)"
  unfolding tx_respects_def
  using assms by (auto dest!: update_license_Inr simp: foreign_def intro!: filter_update_other)

lemma iso_update_subscription:
  assumes "\<And>s. sub_tenant_id (f s) = sub_tenant_id s"
  shows "tx_respects (\<lambda>db db'. foreign t db' = foreign t db) (update_subscription env t i P f)"
  unfolding tx_respects_def
  using assms by (auto dest!: update_subscription_Inr simp: foreign_def intro!: filter_update_other)

lemma iso_update_devices:
  assumes "keeps_identity f"
  shows "tx_respects (\<lambda>db db'. foreign t db' = foreign t db) (update_devices env t P f)"
  unfolding tx_respects_def using assms
  by (auto simp: update_devices_Inr foreign_def keeps_identity_def machine_slot_def
      intro!: filter_update_other)

lemma iso_revoke_sessions: "tx_respects (\<lambda>db db'. foreign t db' = foreign t db) (revoke_sessions_of env t D)"
  unfolding tx_respects_def
  by (auto simp: revoke_sessions_of_Inr foreign_def intro!: filter_update_other)

lemma token_of_mono: "token_of t D ss rt \<Longrightarrow> token_of t (\<lambda>_. True) ss rt"
  by (auto simp: token_of_def list_ex_iff)

lemma iso_revoke_tokens:
  "tx_respects (\<lambda>db db'. foreign t db' = foreign t db) (revoke_refresh_tokens_of env t D)"
  unfolding tx_respects_def
proof (intro allI impI)
  fix db n db'
  assume "revoke_refresh_tokens_of env t D db = Inr (n, db')"
  then have e: "db' = db\<lparr>client_refresh_tokens :=
         update_where (\<lambda>rt. rt_revoked_at rt = None \<and> token_of t (D db) (client_sessions db) rt)
           (\<lambda>rt. rt\<lparr>rt_revoked_at := Some (env_db_now env)\<rparr>) (client_refresh_tokens db)\<rparr>"
    unfolding revoke_refresh_tokens_of_Inr by blast
  have same: "token_of t Q ss (rt\<lparr>rt_revoked_at := x\<rparr>) = token_of t Q ss rt" for Q ss rt x
    by (simp add: token_of_def)
  have "filter (\<lambda>rt. \<not> token_of t (\<lambda>_. True) (client_sessions db) rt) (client_refresh_tokens db')
      = filter (\<lambda>rt. \<not> token_of t (\<lambda>_. True) (client_sessions db) rt) (client_refresh_tokens db)"
    unfolding e by (simp, rule filter_update_other) (metis same token_of_mono)
  then show "foreign t db' = foreign t db" by (simp add: foreign_def e)
qed

lemma iso_add_blacklist:
  "tx_respects (\<lambda>db db'. foreign t db' = foreign t db) (add_device_blacklist env t a m r c)"
  unfolding tx_respects_def
  by (auto simp: add_device_blacklist_def tx_success insert_row_Inr foreign_def blacklist_scope_def
      filter_filter intro!: filter_cong)

lemma iso_remove_blacklist:
  "tx_respects (\<lambda>db db'. foreign t db' = foreign t db) (remove_device_blacklist t a m)"
  unfolding tx_respects_def
  by (auto simp: remove_device_blacklist_def tx_success foreign_def blacklist_scope_def filter_filter
      intro!: filter_cong)

lemma all_tenants: "admin_steps T db db' \<Longrightarrow> admin_steps (\<lambda>_. True) db db'"
  by (induction rule: admin_steps.induct) (auto intro: admin_steps.intros)

interpretation ev: administered access_evolves "\<lambda>_. True"
  by unfold_locales
    (use ev_audit ev_create_license ev_update_license ev_create_subscription ev_update_subscription
      ev_update_devices ev_revoke_sessions ev_revoke_tokens ev_add_blacklist ev_remove_blacklist
      in \<open>auto simp: access_evolves_def [symmetric] intro: access_evolves_refl access_evolves_trans\<close>)

interpretation iso: administered "\<lambda>db db'. foreign tenant db' = foreign tenant db" "\<lambda>t. t = tenant" for tenant
  by unfold_locales
    (simp_all add: iso_audit iso_create_license iso_update_license iso_create_subscription
      iso_update_subscription iso_update_devices iso_revoke_sessions iso_revoke_tokens
      iso_add_blacklist iso_remove_blacklist)


section \<open>Properties\<close>

text \<open>
  C6. Whatever the administrators of the other tenants do, in any order and with any outcome,
  the licenses, subscriptions, devices, blacklist entries and sessions of a tenant stay
  exactly as they are.
\<close>

theorem administration_is_tenant_local:
  assumes "admin_steps (\<lambda>t. t \<noteq> own) db db'"
  shows "filter (\<lambda>l. lic_tenant_id l = own) (licenses db') = filter (\<lambda>l. lic_tenant_id l = own) (licenses db)
    \<and> filter (\<lambda>s. sub_tenant_id s = own) (subscriptions db')
        = filter (\<lambda>s. sub_tenant_id s = own) (subscriptions db)
    \<and> filter (\<lambda>d. dev_tenant_id d = own) (devices db') = filter (\<lambda>d. dev_tenant_id d = own) (devices db)
    \<and> filter (\<lambda>b. bl_tenant_id b = own) (device_blacklist db')
        = filter (\<lambda>b. bl_tenant_id b = own) (device_blacklist db)
    \<and> filter (\<lambda>s. ses_tenant_id s = own) (client_sessions db')
        = filter (\<lambda>s. ses_tenant_id s = own) (client_sessions db)"
  using assms
proof (induction rule: admin_steps.induct)
  case (more db db' t db'')
  have own: "filter (\<lambda>x. f x = own) xs = filter (\<lambda>x. f x = own) (filter (\<lambda>x. f x \<noteq> t) xs)"
    for f :: "'z \<Rightarrow> uuid" and xs
    using more(2) by (induction xs) auto
  from iso.step [OF more(3) refl] more(4) show ?case
    unfolding foreign_def prod.inject by (metis own)
qed simp

text \<open>
  C26. A cancelled subscription is final: its row is in the table, unchanged, after any
  sequence of administrative requests of any tenants; a revoked session stays revoked, the
  device table stays well formed and no audit entry is ever removed or changed.
\<close>

theorem cancellation_and_revocation_are_final:
  assumes "admin_steps T db db'"
  shows "(\<forall>s \<in> set (subscriptions db). sub_status s = ''cancelled'' \<longrightarrow> s \<in> set (subscriptions db'))
    \<and> (\<forall>s \<in> set (client_sessions db). ses_revoked_at s \<noteq> None \<longrightarrow> s \<in> set (client_sessions db'))
    \<and> (devices_wf (devices db) \<longrightarrow> devices_wf (devices db'))
    \<and> (\<exists>new. audit_logs db' = audit_logs db @ new)"
  using ev.steps [OF all_tenants [OF assms]] by (simp add: access_evolves_def)

lemma access_revoked_audit [simp]:
  "access_revoked t D (db\<lparr>audit_logs := x\<rparr>) = access_revoked t D db"
  by (simp add: access_revoked_def)

lemma set_license_status_Inr:
  assumes "set_license_status_in_transaction env t i st b db = Inr (Some l, db1)"
  shows "lic_status l = st" and "b \<Longrightarrow> lic_revoked_at l = Some (env_db_now env)"
    and "l \<in> set (licenses db1)" and "db1 = db\<lparr>licenses := licenses db1\<rparr>"
    and "lic_tenant_id l = t" and "lic_id l = i" and "lic_deleted_at l = None"
proof -
  let ?P = "\<lambda>l. lic_tenant_id l = t \<and> lic_id l = i \<and> lic_deleted_at l = None \<and> lic_status l \<noteq> st"
  let ?f = "\<lambda>l. l\<lparr>lic_status := st, lic_revoked_at := (if b then Some (env_db_now env) else lic_revoked_at l),
      lic_updated_at := env_db_now env\<rparr>"
  note u = update_license_Inr [OF assms [unfolded set_license_status_in_transaction_def]]
  from u obtain x where x: "List.find ?P (licenses db) = Some x" and l: "l = ?f x"
    by (cases "List.find ?P (licenses db)") auto
  note px = find_some [OF x]
  from u have d: "db1 = db\<lparr>licenses := update_where ?P ?f (licenses db)\<rparr>" by simp
  show "lic_status l = st" "b \<Longrightarrow> lic_revoked_at l = Some (env_db_now env)" "lic_tenant_id l = t"
    "lic_id l = i" "lic_deleted_at l = None" using l px by simp_all
  show "db1 = db\<lparr>licenses := licenses db1\<rparr>" using d by simp
  have "?f x \<in> set (update_where ?P ?f (licenses db))"
    unfolding set_update_where by (rule image_eqI [where x = x]) (simp_all add: px)
  then show "l \<in> set (licenses db1)" using d l by simp
qed

text \<open>
  C24. Revoking a license ends every access that rests on it: the stored license is revoked
  and valid at no time any more, and every session and every refresh token of every device
  bound to it is revoked. One audit entry is added, and the devices are left alone.
\<close>

theorem revoke_license_ends_access:
  assumes "revoke_license env admin i db = (Inr (l, n), db')"
  shows "l \<in> set (licenses db') \<and> lic_id l = i \<and> lic_status l = ''revoked''
    \<and> lic_revoked_at l = Some (env_db_now env) \<and> validate_license_record l now \<noteq> Inr ()
    \<and> access_revoked (adm_tenant_id admin) (device_of_license (adm_tenant_id admin) i db) db'
    \<and> devices db' = devices db \<and> length (audit_logs db') = Suc (length (audit_logs db))
    \<and> ''license:revoke'' \<in> set (adm_permissions admin)"
proof -
  let ?t = "adm_tenant_id admin"
  obtain before db1 k db2 db3 where
    p: "''license:revoke'' \<in> set (adm_permissions admin)"
    and st: "set_license_status_in_transaction env ?t i ''revoked'' True db = Inr (Some l, db1)"
    and tok: "revoke_refresh_tokens_of env ?t (device_of_license ?t i) db1 = Inr (k, db2)"
    and ses: "revoke_sessions_of env ?t (device_of_license ?t i) db2 = Inr (n, db3)"
    and aud: "audit_license_status_change env admin ''license.revoke'' before l n k db3 = Inr ((), db')"
    using assms
    by (auto simp: revoke_license_def find_license_or_fail_def io_success tx_success
        ensure_admin_permission_Inr revoke_license_sessions_in_transaction_def
        revoke_license_refresh_tokens_in_transaction_def)
  note l = set_license_status_Inr [OF st]
  have sel: "device_of_license ?t i db1 = device_of_license ?t i db"
    by (rule licensed.only_devices) (subst l(4), simp)
  from aud obtain row where db': "db' = db3\<lparr>audit_logs := audit_logs db3 @ [row]\<rparr>"
    unfolding audit_license_status_change_def by (blast dest: audit_record_Inr)
  have r: "access_revoked ?t (device_of_license ?t i db) db'"
    using licensed.revocation_complete [OF tok ses] unfolding db' sel by simp
  have frame: "licenses db' = licenses db1" "devices db' = devices db1" "audit_logs db3 = audit_logs db1"
    unfolding db' by (subst licensed.revocation_effect(3) [OF tok ses], simp)+
  have base: "devices db1 = devices db" "audit_logs db1 = audit_logs db"
    by (subst l(4), simp)+
  have invalid: "validate_license_record l now \<noteq> Inr ()"
    using l(1) by (intro lic.unusable_never_valid) (simp add: license_usable_def)
  show ?thesis using l p r frame base invalid db' by simp
qed

text \<open>
  C28. Suspending a subscription never succeeds and never changes anything: the status
  \<open>suspended\<close> is not among those the check constraint of the table allows, so the update
  of a subscription that is not cancelled is refused by the database.
\<close>

theorem suspend_subscription_never_succeeds:
  "(\<exists>e. suspend_subscription env admin i db = (Inl e, db))
   \<and> (''subscription:suspend'' \<in> set (adm_permissions admin)
      \<and> subscription_find_by_id (adm_tenant_id admin) i db = Some s
      \<and> sub_status s \<in> {''active'', ''trialing'', ''past_due'', ''expired''}
      \<longrightarrow> suspend_subscription env admin i db = (Inl (subscription_db_error env), db))"
proof -
  let ?t = "adm_tenant_id admin"
  have refused: "withdraw_subscription env admin i ''suspended'' False c a before db
      = Inl (subscription_db_error env)"
    if f: "subscription_find_by_id ?t i db = Some s"
      and st: "sub_status s \<noteq> ''suspended''" "sub_status s \<noteq> ''cancelled''" for c a before s
  proof -
    from find_some [OF f [unfolded subscription_find_by_id_def]] st
    have "\<not> list_all (\<lambda>s. sub_tenant_id s = ?t \<and> sub_id s = i \<and> sub_deleted_at s = None
          \<and> sub_status s \<noteq> ''suspended'' \<and> sub_status s \<noteq> ''cancelled'' \<longrightarrow>
        subscription_check (s\<lparr>sub_status := ''suspended'', sub_cancelled_at := sub_cancelled_at s,
          sub_updated_at := env_db_now env\<rparr>)) (subscriptions db)"
      unfolding list_all_iff subscription_check_def by fastforce
    then show ?thesis
      by (simp add: withdraw_subscription_def set_subscription_status_in_transaction_def
          update_subscription_def update_returning_def tx_bind_def tx_read_def)
  qed
  show ?thesis
  proof (cases "''subscription:suspend'' \<in> set (adm_permissions admin)")
    case False
    then show ?thesis
      by (simp add: suspend_subscription_def ensure_admin_permission_def io_bind_def io_of_def)
  next
    case p: True
    show ?thesis
    proof (cases "subscription_find_by_id ?t i db")
      case None
      then show ?thesis
        by (simp add: suspend_subscription_def ensure_admin_permission_def io_bind_def io_of_def
            find_subscription_or_fail_def io_read_def ok_or_def)
    next
      case (Some x)
      with p refused [OF Some] show ?thesis
        by (auto simp: suspend_subscription_def ensure_admin_permission_def io_bind_def io_of_def
            find_subscription_or_fail_def io_read_def ok_or_def io_fail_def commit_def)
    qed
  qed
qed

text \<open>
  C29. Resetting the devices of a subscription unbinds them and then looks for the sessions
  of the devices that are still bound to it: there are none, so not one session or refresh
  token is revoked, and the request reports zero revoked sessions whatever there were.
\<close>

theorem reset_subscription_devices_revokes_nothing:
  assumes "reset_subscription_devices env parse admin i body db = (Inr (s, n), db')"
  shows "n = 0 \<and> client_sessions db' = client_sessions db
    \<and> client_refresh_tokens db' = client_refresh_tokens db
    \<and> (\<forall>d \<in> set (devices db'). dev_tenant_id d = adm_tenant_id admin \<and> dev_deleted_at d = None
         \<longrightarrow> dev_subscription_id d \<noteq> Some i)"
proof -
  let ?t = "adm_tenant_id admin"
  let ?P = "\<lambda>d. dev_tenant_id d = ?t \<and> dev_subscription_id d = Some i \<and> dev_deleted_at d = None"
  let ?f = "\<lambda>d. d\<lparr>dev_subscription_id := None, dev_updated_at := env_db_now env\<rparr>"
  obtain m db1 k db2 db3 reason where
    reset: "reset_subscription_devices_in_transaction env ?t i db = Inr (m, db1)"
    and tok: "revoke_refresh_tokens_of env ?t (device_of_subscription ?t i) db1 = Inr (k, db2)"
    and ses: "revoke_sessions_of env ?t (device_of_subscription ?t i) db2 = Inr (n, db3)"
    and aud: "audit_record env (admin_audit env admin ''subscription.devices.reset'' ''subscription''
       (sub_id s) None None (reset_metadata n k m reason)) db3 = Inr ((), db')"
    using assms
    by (auto simp: reset_subscription_devices_def find_subscription_or_fail_def io_success tx_success
        revoke_subscription_sessions_in_transaction_def
        revoke_subscription_refresh_tokens_in_transaction_def)
  from reset have db1: "db1 = db\<lparr>devices := update_where ?P ?f (devices db)\<rparr>"
    by (auto simp: reset_subscription_devices_in_transaction_def tx_success update_devices_Inr)
  have "list_all (\<lambda>d. \<not> ?P d) (update_where ?P ?f (devices db))"
    by (rule list_all_update_where, simp)
  then have unbound: "list_all (\<lambda>d. \<not> ?P d) (devices db1)" by (simp add: db1)
  have "\<not> device_of_subscription ?t i db1 j" for j
    using unbound by (auto simp: device_of_subscription_def list_ex_iff list_all_iff)
  from subscribed.empty_selection_revokes_nothing [OF tok ses this] have "db3 = db1 \<and> n = 0" by blast
  moreover from aud obtain row where "db' = db3\<lparr>audit_logs := audit_logs db3 @ [row]\<rparr>"
    by (blast dest: audit_record_Inr)
  ultimately show ?thesis using unbound by (auto simp: db1 list_all_iff)
qed

lemma add_device_blacklist_Inr:
  assumes "add_device_blacklist env t a m why who db = Inr (u, db')"
  shows "\<exists>b. b \<in> set (device_blacklist db') \<and> bl_tenant_id b = t \<and> bl_app_id b = Some a
      \<and> bl_machine_id b = m"
  using assms unfolding add_device_blacklist_def tx_success insert_row_Inr by force

text \<open>
  Blacklisting a device refuses its machine from then on: the stored device is
  blacklisted, its sessions and refresh tokens are revoked, and every binding of its machine
  for the same application fails with the blacklist error, for any license.
\<close>

theorem blacklist_device_shuts_machine_out:
  assumes "blacklist_device env admin i reason db = (Inr (d, n), db')"
    and "dbi_tenant_id b = adm_tenant_id admin" and "dbi_app_id b = dev_app_id d"
    and "trim (dbi_machine_id b) = dev_machine_id d" and "trim (dbi_machine_id b) \<noteq> []"
    and "devices_wf (devices db)"
  shows "dev_status d = ''blacklisted'' \<and> access_revoked (adm_tenant_id admin) (\<lambda>k. k = i) db'
    \<and> bind_for_license_in_transaction env2 b l db' = Inl device_blacklisted"
proof -
  let ?t = "adm_tenant_id admin"
  obtain why before db0 db1 k db2 db3 meta where
    f: "device_find_by_id_for_admin ?t i db = Some before"
    and bl: "add_device_blacklist env ?t (dev_app_id before) (dev_machine_id before) why
        (adm_team_member_id admin) db = Inr ((), db0)"
    and st: "set_device_status env ?t i ''blacklisted'' db0 = Inr (Some d, db1)"
    and tok: "revoke_refresh_tokens_of env ?t (\<lambda>_ d. d = i) db1 = Inr (k, db2)"
    and ses: "revoke_sessions_of env ?t (\<lambda>_ d. d = i) db2 = Inr (n, db3)"
    and aud: "audit_device_change env admin ''device.blacklist'' before d meta db3 = Inr ((), db')"
    using assms(1)
    by (auto simp: blacklist_device_def find_device_or_fail_def io_success tx_success
        revoke_device_sessions_def revoke_device_refresh_tokens_def)
  from aud obtain row where db': "db' = db3\<lparr>audit_logs := audit_logs db3 @ [row]\<rparr>"
    unfolding audit_device_change_def by (blast dest: audit_record_Inr)
  have r: "access_revoked ?t (\<lambda>k. k = i) db'"
    using one_device.revocation_complete [OF tok ses] unfolding db' by simp
  have ds: "devices db0 = devices db"
    using bl by (auto simp: add_device_blacklist_def tx_success)
  let ?P = "\<lambda>d. dev_tenant_id d = ?t \<and> dev_id d = i \<and> dev_deleted_at d = None"
  from st obtain x where x: "List.find ?P (devices db) = Some x"
    and d: "d = x\<lparr>dev_status := ''blacklisted'', dev_updated_at := env_db_now env\<rparr>"
    unfolding set_device_status_def update_devices_Inr ds
    by (cases "List.find ?P (devices db)") auto
  from f x have "x = before" by (simp add: device_find_by_id_for_admin_def)
  with d have m: "dev_app_id before = dev_app_id d" "dev_machine_id before = dev_machine_id d" by simp_all
  from add_device_blacklist_Inr [OF bl] m
  obtain e where e: "e \<in> set (device_blacklist db0)" "bl_tenant_id e = ?t"
    "bl_app_id e = Some (dev_app_id d)" "bl_machine_id e = dev_machine_id d" by auto
  have same: "device_blacklist db' = device_blacklist db0"
    unfolding db' using st
    by (subst one_device.revocation_effect(3) [OF tok ses])
      (auto simp: set_device_status_def update_devices_Inr)
  have "is_device_blacklisted (dbi_tenant_id b) (dbi_app_id b) (trim (dbi_machine_id b)) db'"
    using e assms(2-4) unfolding is_device_blacklisted_def same list_ex_iff by auto
  then have "bind_for_license_in_transaction env2 b l db' = Inl device_blacklisted"
    using assms(5)
    by (simp add: bind_for_license_in_transaction_def normalize_machine_id_def Let_def tx_bind_def
        tx_of_def tx_read_def ensure_not_blacklisted_def)
  with d r show ?thesis by simp
qed

lemma find_update_first:
  "List.find P t = Some r \<Longrightarrow> Q r \<Longrightarrow> (\<And>x. P x \<Longrightarrow> P (f x)) \<Longrightarrow>
    List.find P (update_where (\<lambda>x. P x \<and> Q x) f t) = Some (f r)"
  by (induction t) (auto split: if_splits)

lemma find_guarded: "List.find P t = Some r \<Longrightarrow> Q r \<Longrightarrow> List.find (\<lambda>x. P x \<and> Q x) t = Some r"
  by (induction t) (auto split: if_splits)

lemma distinct_key_eq:
  "distinct (map key t) \<Longrightarrow> a \<in> set t \<Longrightarrow> b \<in> set t \<Longrightarrow> key a = key b \<Longrightarrow> a = b"
  by (auto simp: distinct_map dest: inj_onD)

text \<open>An update of the license that the lookup finds, under a guard it passes.\<close>

lemma update_license_found:
  assumes "license_find_by_id t i db = Some l" and "P l" and "distinct (map lic_id (licenses db))"
    and "license_check ((f l)\<lparr>lic_updated_at := env_db_now env\<rparr>)"
    and "\<And>x. lic_tenant_id (f x) = lic_tenant_id x \<and> lic_id (f x) = lic_id x
      \<and> lic_deleted_at (f x) = lic_deleted_at x"
  shows "\<exists>db'. update_license env t i P f db = Inr (Some ((f l)\<lparr>lic_updated_at := env_db_now env\<rparr>), db')
    \<and> license_find_by_id t i db' = Some ((f l)\<lparr>lic_updated_at := env_db_now env\<rparr>)
    \<and> distinct (map lic_id (licenses db')) \<and> db' = db\<lparr>licenses := licenses db'\<rparr>"
proof -
  let ?K = "\<lambda>l. lic_tenant_id l = t \<and> lic_id l = i \<and> lic_deleted_at l = None"
  let ?f = "\<lambda>l. (f l)\<lparr>lic_updated_at := env_db_now env\<rparr>"
  have F: "List.find ?K (licenses db) = Some l" using assms(1) by (simp add: license_find_by_id_def)
  note fl = find_some [OF F]
  have K: "?K x \<Longrightarrow> ?K (?f x)" for x using assms(5) by simp
  have only: "x = l" if "x \<in> set (licenses db)" "?K x" for x
    using distinct_key_eq [OF assms(3) that(1), of l] fl that(2) by simp
  have ok: "list_all (\<lambda>x. (?K x \<and> P x) \<longrightarrow> license_check (?f x)) (licenses db)"
    unfolding list_all_iff using only assms(4) by blast
  have found: "List.find (\<lambda>x. ?K x \<and> P x) (licenses db) = Some l"
    by (rule find_guarded [where Q = P, OF F assms(2)])
  let ?t = "update_where (\<lambda>x. ?K x \<and> P x) ?f (licenses db)"
  have u: "update_license env t i P f db = Inr (Some (?f l), db\<lparr>licenses := ?t\<rparr>)"
    using ok found by (simp add: update_license_def update_returning_def monad_simps conj_assoc)
  have "List.find ?K ?t = Some (?f l)" by (rule find_update_first [where Q = P, OF F assms(2)]) (rule K)
  moreover have "map lic_id ?t = map lic_id (licenses db)"
    using assms(5) by (intro map_update_where_same) simp
  ultimately show ?thesis using u assms(3) by (auto simp: license_find_by_id_def)
qed

lemma revocations_total:
  "\<exists>n db'. revoke_refresh_tokens_of env t D db = Inr (n, db') \<and> licenses db' = licenses db"
  "\<exists>n db'. revoke_sessions_of env t D db = Inr (n, db') \<and> licenses db' = licenses db"
  by (simp_all add: revoke_refresh_tokens_of_def revoke_sessions_of_def monad_simps)

text \<open>
  C27. A revoked license is not final: an administrator who may suspend and renew makes it
  valid again, until any later time. Suspending accepts a revoked license, and renewing,
  which refuses a revoked one, accepts the suspended one and clears the time of its
  revocation.
\<close>

theorem revoked_license_can_be_renewed:
  assumes "license_find_by_id (adm_tenant_id admin) i db = Some l" and "lic_status l = ''revoked''"
    and "distinct (map lic_id (licenses db))" and "license_check l"
    and "{''license:suspend'', ''license:renew''} \<subseteq> set (adm_permissions admin)"
    and "lic_starts_at l = Some s" and "s \<le> now" and "now < expires"
  shows "\<exists>l1 n1 db1 l2 n2 db2. suspend_license env admin i db = (Inr (l1, n1), db1)
    \<and> renew_license env admin i expires db1 = (Inr (l2, n2), db2)
    \<and> license_find_by_id (adm_tenant_id admin) i db2 = Some l2
    \<and> validate_license_record l2 now = Inr ()"
proof -
  let ?t = "adm_tenant_id admin"
  let ?l1 = "l\<lparr>lic_status := ''suspended'', lic_updated_at := env_db_now env\<rparr>"
  let ?l2 = "?l1\<lparr>lic_status := ''active'', lic_expires_at := Some expires, lic_revoked_at := None,
      lic_updated_at := env_db_now env\<rparr>"
  have check: "license_check ?l1" "license_check ?l2"
    using assms(4,6-8) by (auto simp: license_check_def split: option.splits)
  obtain dba where a: "set_license_status_in_transaction env ?t i ''suspended'' False db = Inr (Some ?l1, dba)"
    and fa: "license_find_by_id ?t i dba = Some ?l1" and da: "distinct (map lic_id (licenses dba))"
    using update_license_found [OF assms(1), where P = "\<lambda>l. lic_status l \<noteq> ''suspended''"
        and f = "\<lambda>l. l\<lparr>lic_status := ''suspended'', lic_revoked_at := (if False then Some (env_db_now env) else lic_revoked_at l)\<rparr>"
        and env = env] assms(2,3) check(1)
    by (auto simp: set_license_status_in_transaction_def)
  obtain k dbb where b: "revoke_refresh_tokens_of env ?t (device_of_license ?t i) dba = Inr (k, dbb)"
    and lb: "licenses dbb = licenses dba" using revocations_total(1) by blast
  obtain n dbc where c: "revoke_sessions_of env ?t (device_of_license ?t i) dbb = Inr (n, dbc)"
    and lc: "licenses dbc = licenses dbb" using revocations_total(2) by blast
  obtain r where r: "audit_license_status_change env admin ''license.suspend'' l ?l1 n k dbc
      = Inr ((), dbc\<lparr>audit_logs := audit_logs dbc @ [r]\<rparr>)"
    unfolding audit_license_status_change_def using audit_record_no_ip by fastforce
  let ?db1 = "dbc\<lparr>audit_logs := audit_logs dbc @ [r]\<rparr>"
  have suspend: "suspend_license env admin i db = (Inr (?l1, n), ?db1)"
    using assms(1,5) a b c r
    by (simp add: suspend_license_def find_license_or_fail_def ensure_admin_permission_def
        revoke_license_sessions_in_transaction_def revoke_license_refresh_tokens_in_transaction_def
        io_bind_def io_of_def io_read_def ok_or_def commit_def tx_bind_def tx_of_def tx_return_def)
  have f1: "license_find_by_id ?t i ?db1 = Some ?l1" "distinct (map lic_id (licenses ?db1))"
    using fa da lb lc by (simp_all add: license_find_by_id_def)
  obtain dbd where d: "renew_license_in_transaction env ?t i expires ?db1 = Inr (Some ?l2, dbd)"
    and fd: "license_find_by_id ?t i dbd = Some ?l2"
    using update_license_found [OF f1(1), where P = "\<lambda>l. lic_status l \<noteq> ''revoked''"
        and f = "\<lambda>l. l\<lparr>lic_status := ''active'', lic_expires_at := Some expires, lic_revoked_at := None\<rparr>"
        and env = env]
      f1(2) check(2)
    by (auto simp: renew_license_in_transaction_def)
  obtain r2 where r2: "audit_license_status_change env admin ''license.renew'' ?l1 ?l2 0 0 dbd
      = Inr ((), dbd\<lparr>audit_logs := audit_logs dbd @ [r2]\<rparr>)"
    unfolding audit_license_status_change_def using audit_record_no_ip by fastforce
  have "validate_renew_license ?l1 expires = Inr ()"
    using assms(6-8) by (simp add: validate_renew_license_def)
  then have renew: "renew_license env admin i expires ?db1
      = (Inr (?l2, 0), dbd\<lparr>audit_logs := audit_logs dbd @ [r2]\<rparr>)"
    using f1(1) assms(5) d r2
    by (simp add: renew_license_def find_license_or_fail_def ensure_admin_permission_def
        io_bind_def io_of_def io_read_def ok_or_def commit_def tx_bind_def tx_of_def tx_return_def)
  have valid: "validate_license_record ?l2 now = Inr ()"
    unfolding lic.valid_iff using assms(6-8) by (simp add: license_usable_def)
  show ?thesis using suspend renew valid fd by (auto simp: license_find_by_id_def)
qed


section \<open>Concrete instances\<close>

definition sample_admin :: "uuid \<Rightarrow> admin_context" where
  "sample_admin t = \<lparr>adm_tenant_id = t, adm_team_member_id = 9, adm_permissions =
     [''license:revoke'', ''license:suspend'', ''license:renew'', ''subscription:suspend'',
      ''subscription:cancel'', ''subscription:reset_device'', ''device:blacklist'']\<rparr>"

definition sample_session :: "uuid \<Rightarrow> uuid \<Rightarrow> client_session" where
  "sample_session i d = \<lparr>ses_id = i, ses_tenant_id = 1, ses_app_id = 1, ses_customer_id = None,
     ses_device_id = d, ses_machine_id = ''m1'', ses_auth_mode = ''license'', ses_user_agent = None,
     ses_client_ip = None, ses_last_used_at = None, ses_expires_at = 90, ses_revoked_at = None,
     ses_created_at = 5\<rparr>"

definition sample_refresh_token :: "uuid \<Rightarrow> uuid \<Rightarrow> client_refresh_token" where
  "sample_refresh_token i s = \<lparr>rt_id = i, rt_session_id = s, rt_token_hash = replicate i CHR ''t'',
     rt_created_at = 5, rt_expires_at = 90, rt_used_at = None, rt_revoked_at = None\<rparr>"

definition sample_db :: access_db where
  "sample_db = empty_db\<lparr>licenses := [sample_license 7 1], subscriptions := [sample_subscription 3 None],
     devices := [sample_device 1 ''m1'' (Some 7) ''active'',
                 (sample_device 2 ''m2'' None ''active'')\<lparr>dev_subscription_id := Some 3\<rparr>],
     client_sessions := [sample_session 11 1, sample_session 12 2],
     client_refresh_tokens := [sample_refresh_token 21 11, sample_refresh_token 22 12]\<rparr>"

lemma sample_db_wf: "devices_wf (devices sample_db)"
  by code_simp

theorem revoke_license_ends_access_witness:
  "\<exists>l n db'. revoke_license sample_env (sample_admin 1) 7 sample_db = (Inr (l, n), db') \<and> n = 1
     \<and> validate_license_record l 50 \<noteq> Inr ()"
proof -
  have "succeeds_with (fst (revoke_license sample_env (sample_admin 1) 7 sample_db)) (\<lambda>(l, n). n = 1)"
    by code_simp
  then obtain l n db' where r: "revoke_license sample_env (sample_admin 1) 7 sample_db = (Inr (l, n), db')"
    "n = 1" by (auto elim!: io_succeedsE)
  from revoke_license_ends_access [OF r(1)] r show ?thesis by blast
qed

theorem administration_is_tenant_local_witness:
  "filter (\<lambda>d. dev_tenant_id d = 1) (devices (snd (revoke_license sample_env (sample_admin 2) 7 sample_db)))
   = filter (\<lambda>d. dev_tenant_id d = 1) (devices sample_db)"
proof -
  have "admin_steps (\<lambda>t. t \<noteq> 1) sample_db (snd (revoke_license sample_env (sample_admin 2) 7 sample_db))"
    by (rule admin_steps.more [OF admin_steps.none, of _ 2])
      (simp, rule admin_step.revoke_license, simp add: sample_admin_def)
  from administration_is_tenant_local [OF this] show ?thesis by blast
qed

definition sample_db_ended :: access_db where
  "sample_db_ended = sample_db\<lparr>
     subscriptions := [(sample_subscription 3 None)\<lparr>sub_status := ''cancelled''\<rparr>],
     client_sessions := [(sample_session 11 1)\<lparr>ses_revoked_at := Some 40\<rparr>]\<rparr>"

theorem cancellation_and_revocation_are_final_witness:
  "(sample_subscription 3 None)\<lparr>sub_status := ''cancelled''\<rparr>
     \<in> set (subscriptions (snd (renew_subscription sample_env (sample_admin 1) 3 90 sample_db_ended)))"
proof -
  let ?db = "snd (renew_subscription sample_env (sample_admin 1) 3 90 sample_db_ended)"
  have "admin_steps (\<lambda>_. True) sample_db_ended ?db"
    by (rule admin_steps.more [OF admin_steps.none, of _ 1])
      (simp, rule admin_step.renew_subscription, simp add: sample_admin_def)
  from cancellation_and_revocation_are_final [OF this]
  have "sub_status x = ''cancelled'' \<longrightarrow> x \<in> set (subscriptions ?db)" if "x \<in> set (subscriptions sample_db_ended)" for x
    using that by blast
  then show ?thesis by (simp add: sample_db_ended_def)
qed

theorem suspend_subscription_never_succeeds_witness:
  "suspend_subscription sample_env (sample_admin 1) 3 sample_db
   = (Inl (Dependency ''subscription admin database error: violation''), sample_db)"
proof -
  have "subscription_find_by_id 1 3 sample_db = Some (sample_subscription 3 None)" by code_simp
  moreover have "sub_status (sample_subscription 3 None) = ''active''"
    by (simp add: sample_subscription_def subscription_row_def)
  moreover have "subscription_db_error sample_env
      = Dependency ''subscription admin database error: violation''"
    by (simp add: subscription_db_error_def db_error_def sample_env_def)
  ultimately show ?thesis
    using suspend_subscription_never_succeeds [of sample_env "sample_admin 1" 3 sample_db
        "sample_subscription 3 None"]
    by (simp add: sample_admin_def)
qed

theorem reset_subscription_devices_revokes_nothing_witness:
  "\<exists>s n db'. reset_subscription_devices sample_env (\<lambda>b. Some (Some b)) (sample_admin 1) 3 ''lost'' sample_db
       = (Inr (s, n), db') \<and> n = 0 \<and> client_sessions db' = client_sessions sample_db"
proof -
  have "succeeds_with (fst (reset_subscription_devices sample_env (\<lambda>b. Some (Some b)) (sample_admin 1) 3
      ''lost'' sample_db)) (\<lambda>_. True)" by code_simp
  then obtain s n db' where r: "reset_subscription_devices sample_env (\<lambda>b. Some (Some b)) (sample_admin 1) 3
      ''lost'' sample_db = (Inr (s, n), db')" by (auto elim!: io_succeedsE)
  from reset_subscription_devices_revokes_nothing [OF r] r show ?thesis by blast
qed

theorem blacklist_device_shuts_machine_out_witness:
  "\<exists>d n db'. blacklist_device sample_env (sample_admin 1) 1 (Some ''stolen'') sample_db = (Inr (d, n), db')
     \<and> bind_for_license_in_transaction sample_env (sample_bind ''m1'' (Some 7) None) (sample_license 7 1) db'
         = Inl device_blacklisted"
proof -
  have "succeeds_with (fst (blacklist_device sample_env (sample_admin 1) 1 (Some ''stolen'') sample_db))
      (\<lambda>(d, n). dev_app_id d = 1 \<and> dev_machine_id d = ''m1'')" by code_simp
  then obtain d n db' where r: "blacklist_device sample_env (sample_admin 1) 1 (Some ''stolen'') sample_db
      = (Inr (d, n), db')" and d: "dev_app_id d = 1" "dev_machine_id d = ''m1''"
    by (auto elim!: io_succeedsE)
  from blacklist_device_shuts_machine_out [OF r, of "sample_bind ''m1'' (Some 7) None" sample_env
      "sample_license 7 1"] r d sample_db_wf
  show ?thesis by (simp add: sample_admin_def)
qed

theorem revoked_license_can_be_renewed_witness:
  "\<exists>l1 n1 db1 l2 n2 db2.
     suspend_license sample_env (sample_admin 1) 7
       (sample_db\<lparr>licenses := [(sample_license 7 1)\<lparr>lic_status := ''revoked'', lic_revoked_at := Some 30\<rparr>]\<rparr>)
       = (Inr (l1, n1), db1)
     \<and> renew_license sample_env (sample_admin 1) 7 200 db1 = (Inr (l2, n2), db2)
     \<and> validate_license_record l2 60 = Inr ()"
proof -
  let ?l = "(sample_license 7 1)\<lparr>lic_status := ''revoked'', lic_revoked_at := Some 30\<rparr>"
  let ?db = "sample_db\<lparr>licenses := [?l]\<rparr>"
  have l: "license_find_by_id 1 7 ?db = Some ?l" "license_check ?l" "lic_starts_at ?l = Some 5"
    by (simp_all add: license_find_by_id_def sample_license_def license_row_def license_check_def)
  show ?thesis
    using revoked_license_can_be_renewed [of "sample_admin 1" 7 ?db ?l 5 60 200 sample_env] l
    by (simp add: sample_admin_def) blast
qed

end
