(* ===== verification/Sessions.thy ===== *)
theory Sessions
  imports AccessAdmin
begin

text \<open>
  Client sessions (\<open>modules/client_auth\<close>): the statements of \<open>repository.rs\<close>, the access
  tokens of a session and their signing key (\<open>access_token.rs\<close>), the middleware that
  authenticates a request (\<open>session.rs\<close>) and the handlers that only need its context
  (\<open>heartbeat.rs\<close>, \<open>logout.rs\<close>, \<open>verify.rs\<close>).

  \<open>client_world\<close> is what one request gets from outside: the clocks and fresh ids of
  \<open>access_env\<close>, the security section of the configuration, the primitives of the crypto
  crates, the random bytes it draws and the faults of redis. The two readings of
  \<open>Utc::now()\<close> in one request are one value.
\<close>

record security_config =
  cfg_master_key :: string
  cfg_token_hash_pepper :: string
  cfg_refresh_token_pepper :: string
  cfg_jwt_issuer :: string
  cfg_jwt_audience :: string
  cfg_client_access_token_ttl_seconds :: i64
  cfg_client_refresh_token_ttl_seconds :: i64
  cfg_client_session_ttl_seconds :: i64
  cfg_login_rate_limit_max :: nat
  cfg_login_rate_limit_window_seconds :: nat
  cfg_activation_rate_limit_max :: nat
  cfg_activation_rate_limit_window_seconds :: nat
  cfg_refresh_rate_limit_max :: nat
  cfg_refresh_rate_limit_window_seconds :: nat
  cfg_heartbeat_rate_limit_max :: nat
  cfg_heartbeat_rate_limit_window_seconds :: nat
  cfg_client_action_rate_limit_max :: nat
  cfg_client_action_rate_limit_window_seconds :: nat

text \<open>
  \<open>cx_token\<close> is the request's refresh token and \<open>cx_kid_token\<close> the token in the id of a new
  signing key (\<open>generate_token\<close>); \<open>cx_pkcs8\<close> and \<open>cx_public_key\<close> are \<open>ring\<close>'s key
  generation and the public half of a key; \<open>cx_nonce\<close> are the random bytes of an envelope,
  \<open>cx_envelope_to_value\<close> and \<open>cx_envelope_of_value\<close> serde's conversions, \<open>cx_parse_hash\<close> the
  argon2 crate: it parses a stored hash to the test whether a password matches. \<open>cx_db_lower\<close>
  is the database's \<open>lower\<close>.
\<close>

record client_world =
  cx_env :: access_env
  cx_cfg :: security_config
  cx_crypto :: crypto_lib
  cx_fault :: redis_fault
  cx_ip_header :: "string option"
  cx_token :: string
  cx_kid_token :: string
  cx_pkcs8 :: "string option"
  cx_public_key :: "string \<Rightarrow> string option"
  cx_nonce :: "string option"
  cx_envelope_to_value :: "private_key_envelope \<Rightarrow> string + json"
  cx_envelope_of_value :: "json \<Rightarrow> string + private_key_envelope"
  cx_parse_hash :: "string \<Rightarrow> string + (string \<Rightarrow> bool)"
  cx_db_lower :: "string \<Rightarrow> string"

definition on_redis :: "(redis, app_error, 'a) io \<Rightarrow> 'a access_io" where
  "on_redis m = (\<lambda>db. case m (redis db) of (x, r) \<Rightarrow> (x, db\<lparr>redis := r\<rparr>))"


section \<open>Statements\<close>

definition client_auth_db_error :: "access_env \<Rightarrow> app_error" where
  "client_auth_db_error env = db_error env ''client auth repository''"

definition find_refresh_token_by_hash :: "string \<Rightarrow> access_db \<Rightarrow> client_refresh_token option" where
  "find_refresh_token_by_hash h db =
     List.find (\<lambda>rt. rt_token_hash rt = h) (client_refresh_tokens db)"

definition find_session_by_id :: "uuid \<Rightarrow> access_db \<Rightarrow> client_session option" where
  "find_session_by_id i db = List.find (\<lambda>s. ses_id s = i) (client_sessions db)"

definition revoke_session :: "access_env \<Rightarrow> uuid \<Rightarrow> int access_io" where
  "revoke_session env i =
     (\<lambda>db. (Inr (count_where (\<lambda>s. ses_id s = i \<and> ses_revoked_at s = None) (client_sessions db)),
            db\<lparr>client_sessions :=
                 update_where (\<lambda>s. ses_id s = i \<and> ses_revoked_at s = None)
                   (\<lambda>s. s\<lparr>ses_revoked_at := Some (env_db_now env)\<rparr>) (client_sessions db)\<rparr>))"

definition touch_session :: "access_env \<Rightarrow> uuid \<Rightarrow> unit access_io" where
  "touch_session env i =
     io_modify (\<lambda>db. db\<lparr>client_sessions :=
       update_where (\<lambda>s. ses_id s = i)
         (\<lambda>s. s\<lparr>ses_last_used_at := Some (env_db_now env)\<rparr>) (client_sessions db)\<rparr>)"

record new_client_session =
  ncs_id :: uuid
  ncs_tenant_id :: uuid
  ncs_app_id :: uuid
  ncs_customer_id :: "uuid option"
  ncs_device_id :: uuid
  ncs_machine_id :: string
  ncs_auth_mode :: string
  ncs_user_agent :: "string option"
  ncs_client_ip :: "string option"
  ncs_expires_at :: time

definition new_client_session_new ::
    "access_env \<Rightarrow> uuid \<Rightarrow> uuid \<Rightarrow> uuid option \<Rightarrow> uuid \<Rightarrow> string \<Rightarrow> string \<Rightarrow> time
      \<Rightarrow> new_client_session" where
  "new_client_session_new env tenant app customer device m mode expires =
     \<lparr>ncs_id = env_session_id env, ncs_tenant_id = tenant, ncs_app_id = app,
      ncs_customer_id = customer, ncs_device_id = device, ncs_machine_id = m,
      ncs_auth_mode = mode, ncs_user_agent = None, ncs_client_ip = None,
      ncs_expires_at = expires\<rparr>"

record new_client_refresh_token =
  nrt_id :: uuid
  nrt_session_id :: uuid
  nrt_token_hash :: string
  nrt_expires_at :: time

definition new_client_refresh_token_new ::
    "access_env \<Rightarrow> uuid \<Rightarrow> string \<Rightarrow> time \<Rightarrow> new_client_refresh_token" where
  "new_client_refresh_token_new env session h expires =
     \<lparr>nrt_id = env_refresh_token_id env, nrt_session_id = session, nrt_token_hash = h,
      nrt_expires_at = expires\<rparr>"

text \<open>\<open>$9::inet\<close> fails on a text that is no address.\<close>

definition client_session_row ::
    "access_env \<Rightarrow> new_client_session \<Rightarrow> string option \<Rightarrow> client_session" where
  "client_session_row env n ip =
     \<lparr>ses_id = ncs_id n, ses_tenant_id = ncs_tenant_id n, ses_app_id = ncs_app_id n,
      ses_customer_id = ncs_customer_id n, ses_device_id = ncs_device_id n,
      ses_machine_id = ncs_machine_id n, ses_auth_mode = ncs_auth_mode n,
      ses_user_agent = ncs_user_agent n, ses_client_ip = ip, ses_last_used_at = None,
      ses_expires_at = ncs_expires_at n, ses_revoked_at = None, ses_created_at = env_db_now env\<rparr>"

definition create_client_session_in_transaction ::
    "access_env \<Rightarrow> new_client_session \<Rightarrow> client_session access_tx" where
  "create_client_session_in_transaction env n =
     tx_bind (tx_of (case ncs_client_ip n of
                None \<Rightarrow> Inr None
              | Some a \<Rightarrow> rs_bind (ok_or (env_inet env a) (client_auth_db_error env)) (Inr \<circ> Some)))
       (\<lambda>ip. let row = client_session_row env n ip in
     tx_bind (tx_read (\<lambda>db. insert_row client_session_check client_session_clash
                (client_auth_db_error env) row (client_sessions db))) (\<lambda>t.
     tx_bind (tx_modify (\<lambda>db. db\<lparr>client_sessions := t\<rparr>)) (\<lambda>_. tx_return row)))"

definition refresh_token_row ::
    "access_env \<Rightarrow> new_client_refresh_token \<Rightarrow> client_refresh_token" where
  "refresh_token_row env n =
     \<lparr>rt_id = nrt_id n, rt_session_id = nrt_session_id n, rt_token_hash = nrt_token_hash n,
      rt_created_at = env_db_now env, rt_expires_at = nrt_expires_at n, rt_used_at = None,
      rt_revoked_at = None\<rparr>"

definition create_client_refresh_token_in_transaction ::
    "access_env \<Rightarrow> new_client_refresh_token \<Rightarrow> client_refresh_token access_tx" where
  "create_client_refresh_token_in_transaction env n =
     (let row = refresh_token_row env n in
      tx_bind (tx_read (\<lambda>db. insert_row (\<lambda>_. True) refresh_token_clash
                 (client_auth_db_error env) row (client_refresh_tokens db))) (\<lambda>t.
      tx_bind (tx_modify (\<lambda>db. db\<lparr>client_refresh_tokens := t\<rparr>)) (\<lambda>_. tx_return row)))"

definition live_token :: "client_refresh_token \<Rightarrow> bool" where
  "live_token rt \<longleftrightarrow> rt_used_at rt = None \<and> rt_revoked_at rt = None"

definition mark_refresh_token_used_in_transaction ::
    "access_env \<Rightarrow> uuid \<Rightarrow> unit access_tx" where
  "mark_refresh_token_used_in_transaction env i =
     tx_bind (tx_read (\<lambda>db. update_returning (\<lambda>_. True) (client_auth_db_error env)
                (\<lambda>rt. rt_id rt = i \<and> live_token rt)
                (\<lambda>rt. rt\<lparr>rt_used_at := Some (env_db_now env)\<rparr>) (client_refresh_tokens db)))
       (\<lambda>(used, t). tx_bind (tx_modify (\<lambda>db. db\<lparr>client_refresh_tokens := t\<rparr>)) (\<lambda>_.
       if used = None then tx_fail refresh_reuse_detected else tx_return ()))"

definition tenant_find_by_id :: "uuid \<Rightarrow> access_db \<Rightarrow> tenant option" where
  "tenant_find_by_id i db =
     List.find (\<lambda>t. ten_id t = i \<and> ten_deleted_at t = None) (tenants db)"

definition find_by_app_key :: "string \<Rightarrow> access_db \<Rightarrow> application option" where
  "find_by_app_key k db =
     List.find (\<lambda>a. app_key a = k \<and> app_deleted_at a = None) (applications db)"

definition customer_find_by_email ::
    "(string \<Rightarrow> string) \<Rightarrow> uuid \<Rightarrow> string \<Rightarrow> access_db \<Rightarrow> customer option" where
  "customer_find_by_email db_lower tenant email db =
     List.find (\<lambda>c. cus_tenant_id c = tenant \<and> db_lower (cus_email c) = db_lower email
                  \<and> cus_deleted_at c = None) (customers db)"


section \<open>The signing key of the access tokens\<close>

text \<open>The conditions both lookups share: a global key of the scope, in its window.\<close>

definition global_key_usable :: "time \<Rightarrow> string \<Rightarrow> signing_key \<Rightarrow> bool" where
  "global_key_usable now scope k \<longleftrightarrow>
     sk_tenant_id k = None \<and> sk_app_id k = None \<and> sk_key_scope k = scope
     \<and> sk_not_before k \<le> now
     \<and> (case sk_not_after k of None \<Rightarrow> True | Some t \<Rightarrow> now < t)"

definition signing_key_newer :: "signing_key \<Rightarrow> signing_key \<Rightarrow> bool" where
  "signing_key_newer k l \<longleftrightarrow>
     sk_created_at l < sk_created_at k \<or> (sk_created_at k = sk_created_at l \<and> sk_id k < sk_id l)"

definition find_active_global_signing_key_with_private_envelope ::
    "time \<Rightarrow> string \<Rightarrow> access_db \<Rightarrow> signing_key option" where
  "find_active_global_signing_key_with_private_envelope now scope db =
     first_by signing_key_newer
       (filter (\<lambda>k. global_key_usable now scope k \<and> sk_status k = ''active''
                  \<and> sk_private_key_envelope k \<noteq> None) (signing_keys db))"

definition find_public_global_signing_key_by_kid ::
    "time \<Rightarrow> string \<Rightarrow> string \<Rightarrow> access_db \<Rightarrow> signing_key option" where
  "find_public_global_signing_key_by_kid now scope kid db =
     map_option (\<lambda>k. k\<lparr>sk_private_key_envelope := None\<rparr>)
       (List.find (\<lambda>k. global_key_usable now scope k \<and> sk_kid k = kid
                     \<and> sk_status k \<in> {''active'', ''retiring''}) (signing_keys db))"

record new_signing_key =
  nsk_id :: uuid
  nsk_tenant_id :: "uuid option"
  nsk_app_id :: "uuid option"
  nsk_key_scope :: string
  nsk_kid :: string
  nsk_public_key_pem :: string
  nsk_private_key_envelope :: json

definition new_signing_key_jwt_access_token ::
    "access_env \<Rightarrow> string \<Rightarrow> string \<Rightarrow> json \<Rightarrow> new_signing_key" where
  "new_signing_key_jwt_access_token env kid pem envelope =
     \<lparr>nsk_id = env_signing_key_id env, nsk_tenant_id = None, nsk_app_id = None,
      nsk_key_scope = ''jwt_access_token'', nsk_kid = kid, nsk_public_key_pem = pem,
      nsk_private_key_envelope = envelope\<rparr>"

definition signing_key_check :: "signing_key \<Rightarrow> bool" where
  "signing_key_check k \<longleftrightarrow>
     sk_key_scope k \<in> {''jwt_access_token'', ''release_file'', ''secure_script'', ''app_request''}
     \<and> sk_status k \<in> {''active'', ''retiring'', ''retired'', ''revoked''}
     \<and> (case sk_not_after k of None \<Rightarrow> True | Some t \<Rightarrow> sk_not_before k < t)"

definition signing_key_clash :: "signing_key \<Rightarrow> signing_key \<Rightarrow> bool" where
  "signing_key_clash k l \<longleftrightarrow> sk_id k = sk_id l \<or> sk_kid k = sk_kid l"

definition signing_key_row :: "access_env \<Rightarrow> new_signing_key \<Rightarrow> signing_key" where
  "signing_key_row env n =
     \<lparr>sk_id = nsk_id n, sk_tenant_id = nsk_tenant_id n, sk_app_id = nsk_app_id n,
      sk_key_scope = nsk_key_scope n, sk_kid = nsk_kid n,
      sk_public_key_pem = nsk_public_key_pem n,
      sk_private_key_envelope = Some (nsk_private_key_envelope n), sk_status = ''active'',
      sk_not_before = env_db_now env, sk_not_after = None, sk_created_at = env_db_now env\<rparr>"

definition create_signing_key_in_transaction ::
    "access_env \<Rightarrow> new_signing_key \<Rightarrow> signing_key access_tx" where
  "create_signing_key_in_transaction env n =
     (let row = signing_key_row env n in
      tx_bind (tx_read (\<lambda>db. insert_row signing_key_check signing_key_clash
                 (db_error env ''application repository'') row (signing_keys db))) (\<lambda>t.
      tx_bind (tx_modify (\<lambda>db. db\<lparr>signing_keys := t\<rparr>)) (\<lambda>_. tx_return row)))"

record generated_signing_key =
  gsk_kid :: string
  gsk_public_key_pem :: string
  gsk_private_key_pkcs8_der :: string

definition generate_ed25519_key :: "client_world \<Rightarrow> app_error + generated_signing_key" where
  "generate_ed25519_key cx =
     rs_bind (ok_or (cx_pkcs8 cx) (Crypto ''failed to generate Ed25519 keypair'')) (\<lambda>pkcs8.
     rs_bind (ok_or (cx_public_key cx pkcs8) (Crypto ''failed to read generated Ed25519 keypair''))
       (\<lambda>public.
     Inr \<lparr>gsk_kid = ''kid_'' @ cx_kid_token cx,
          gsk_public_key_pem = pem_block (cx_crypto cx) ''PUBLIC KEY'' (ed25519_public_key_der public),
          gsk_private_key_pkcs8_der = pkcs8\<rparr>))"

definition audit_signing_key_create :: "client_world \<Rightarrow> signing_key \<Rightarrow> unit access_tx" where
  "audit_signing_key_create cx k =
     audit_record (cx_env cx)
       \<lparr>ai_tenant_id = None, ai_actor_type = ''system'', ai_actor_id = None,
        ai_action = ''jwt.signing_key.create'', ai_resource_type = ''signing_key'',
        ai_resource_id = Some (sk_id k), ai_ip = None, ai_user_agent = None,
        ai_request_id = Some (env_request_id (cx_env cx)), ai_before_json = None,
        ai_after_json = Some (JObject [(''id'', json_uuid (cx_env cx) (sk_id k)),
          (''kid'', JString (sk_kid k)), (''key_scope'', JString (sk_key_scope k)),
          (''status'', JString (sk_status k))]),
        ai_metadata_json = JObject []\<rparr>"

definition get_or_create_jwt_signing_key :: "client_world \<Rightarrow> signing_key access_io" where
  "get_or_create_jwt_signing_key cx =
     (let env = cx_env cx in
      io_bind (io_read (\<lambda>db. Inr (find_active_global_signing_key_with_private_envelope
                 (env_db_now env) ''jwt_access_token'' db))) (\<lambda>found.
      case found of
        Some k \<Rightarrow> io_return k
      | None \<Rightarrow>
          io_bind (io_of (generate_ed25519_key cx)) (\<lambda>g.
          io_bind (io_of (encrypt_bytes (cx_crypto cx) (cfg_master_key (cx_cfg cx)) (cx_nonce cx)
                     (gsk_private_key_pkcs8_der g))) (\<lambda>envelope.
          io_bind (io_of (case cx_envelope_to_value cx envelope of
                     Inl err \<Rightarrow> Inl (Crypto (''private key envelope serialization failed: '' @ err))
                   | Inr v \<Rightarrow> Inr v)) (\<lambda>value.
          commit
            (tx_bind (create_signing_key_in_transaction env
                (new_signing_key_jwt_access_token env (gsk_kid g) (gsk_public_key_pem g) value)) (\<lambda>k.
             tx_bind (audit_signing_key_create cx k) (\<lambda>_. tx_return k))))))))"

definition decrypt_signing_key :: "client_world \<Rightarrow> signing_key \<Rightarrow> app_error + string" where
  "decrypt_signing_key cx k =
     rs_bind (ok_or (sk_private_key_envelope k)
                (Crypto ''jwt signing key private envelope missing'')) (\<lambda>value.
     rs_bind (case cx_envelope_of_value cx value of
                Inl err \<Rightarrow> Inl (Crypto (''jwt signing key envelope invalid: '' @ err))
              | Inr e \<Rightarrow> Inr e) (\<lambda>envelope.
     decrypt_bytes (cx_crypto cx) (cfg_master_key (cx_cfg cx)) envelope))"

record client_access_token_signer =
  sig_kid :: string
  sig_private_key :: string

definition prepare_client_access_token_signer ::
    "client_world \<Rightarrow> client_access_token_signer access_io" where
  "prepare_client_access_token_signer cx =
     io_bind (get_or_create_jwt_signing_key cx) (\<lambda>k.
     io_bind (io_of (decrypt_signing_key cx k)) (\<lambda>private_key.
     io_return \<lparr>sig_kid = sk_kid k, sig_private_key = private_key\<rparr>))"

definition signer_sign ::
    "client_world \<Rightarrow> client_access_token_signer \<Rightarrow> client_access_claims \<Rightarrow> app_error + string" where
  "signer_sign cx s claims = sign_eddsa (cx_crypto cx) claims (sig_kid s) (sig_private_key s)"

definition verify_client_access_token ::
    "client_world \<Rightarrow> string \<Rightarrow> access_db \<Rightarrow> app_error + client_access_claims" where
  "verify_client_access_token cx token db =
     rs_bind (decode_eddsa_header (cx_crypto cx) token) (\<lambda>header.
     rs_bind (ok_or (find_public_global_signing_key_by_kid (env_db_now (cx_env cx))
                       ''jwt_access_token'' (jh_kid header) db) access_token_invalid) (\<lambda>k.
     verify_eddsa (cx_crypto cx) token (sk_public_key_pem k) (cfg_jwt_issuer (cx_cfg cx))
       (cfg_jwt_audience (cx_cfg cx)) (timestamp (env_now (cx_env cx)))))"


section \<open>The middleware\<close>

record client_context =
  ctx_session_id :: uuid
  ctx_tenant_id :: uuid
  ctx_app_id :: uuid
  ctx_customer_id :: "uuid option"
  ctx_device_id :: uuid
  ctx_machine_id :: string
  ctx_auth_mode :: string
  ctx_entitlement_id :: "uuid option"
  ctx_entitlement_kind :: "string option"
  ctx_entitlement_status :: string
  ctx_entitlement_active :: bool
  ctx_features :: json
  ctx_entitlement_expires_at :: "time option"

record client_entitlement =
  ent_id :: uuid
  ent_kind :: string
  ent_status :: string
  ent_active :: bool
  ent_features :: json
  ent_expires_at :: "time option"

text \<open>
  The header's value, \<open>None\<close> when it is missing or not visible ASCII.
\<close>

definition bearer_token :: "string option \<Rightarrow> app_error + string" where
  "bearer_token header =
     rs_bind (ok_or header unauthenticated) (\<lambda>value.
     if \<not> starts_with ''Bearer '' value then Inl unauthenticated
     else (let token = drop (length ''Bearer '') value in
           if trim token = [] then Inl unauthenticated else Inr token))"

definition ensure_active_tenant :: "uuid \<Rightarrow> access_db \<Rightarrow> app_error + unit" where
  "ensure_active_tenant i db =
     rs_bind (ok_or (tenant_find_by_id i db) session_expired) (\<lambda>t.
     if ten_status t \<noteq> ''active'' then Inl tenant_forbidden else Inr ())"

definition is_ok :: "'e + 'a \<Rightarrow> bool" where
  "is_ok r = (case r of Inl _ \<Rightarrow> False | Inr _ \<Rightarrow> True)"

definition load_client_entitlement ::
    "client_session \<Rightarrow> device \<Rightarrow> time \<Rightarrow> access_db \<Rightarrow> app_error + client_entitlement option" where
  "load_client_entitlement session d now db =
     (case dev_license_id d of
        Some i \<Rightarrow>
          rs_bind (ok_or (license_find_by_id (ses_tenant_id session) i db) license_not_found) (\<lambda>l.
          Inr (Some \<lparr>ent_id = lic_id l, ent_kind = ''license'', ent_status = lic_status l,
                     ent_active = is_ok (validate_license_record l now),
                     ent_features = lic_features l, ent_expires_at = lic_expires_at l\<rparr>))
      | None \<Rightarrow>
          (case dev_subscription_id d of
             Some i \<Rightarrow>
               rs_bind (ok_or (subscription_find_by_id (ses_tenant_id session) i db)
                          (LicenseInvalid ''subscription not found'')) (\<lambda>s.
               Inr (Some \<lparr>ent_id = sub_id s, ent_kind = ''subscription'',
                          ent_status = sub_status s,
                          ent_active = is_ok (validate_subscription_record s now),
                          ent_features = sub_features s, ent_expires_at = sub_expires_at s\<rparr>))
           | None \<Rightarrow> Inr None))"

text \<open>
  The checks the middleware and \<open>refresh\<close> both make on a session: its tenant, application
  and device have to be active. It returns the device.
\<close>

definition ensure_session_usable :: "client_session \<Rightarrow> access_db \<Rightarrow> app_error + device" where
  "ensure_session_usable session db =
     rs_bind (ensure_active_tenant (ses_tenant_id session) db) (\<lambda>_.
     rs_bind (ok_or (application_find_by_id (ses_tenant_id session) (ses_app_id session) db)
                app_not_found) (\<lambda>application.
     if app_status application \<noteq> ''active'' then Inl app_disabled else
     rs_bind (ok_or (device_find_by_id (ses_tenant_id session) (ses_app_id session)
                       (ses_device_id session) db) device_not_found) (\<lambda>d.
     if dev_status d = ''blacklisted'' then Inl device_blacklisted
     else if dev_status d \<noteq> ''active'' then Inl device_not_activated
     else Inr d)))"

definition active_entitlement :: "client_entitlement option \<Rightarrow> client_entitlement option" where
  "active_entitlement e =
     (case e of None \<Rightarrow> None | Some x \<Rightarrow> if ent_active x then Some x else None)"

definition entitlement_status :: "client_entitlement option \<Rightarrow> string" where
  "entitlement_status e = (case e of None \<Rightarrow> ''none'' | Some x \<Rightarrow> ent_status x)"

definition active_features :: "client_entitlement option \<Rightarrow> json" where
  "active_features e =
     (case active_entitlement e of None \<Rightarrow> JArray [] | Some x \<Rightarrow> ent_features x)"

definition session_context :: "client_session \<Rightarrow> client_entitlement option \<Rightarrow> client_context" where
  "session_context s e =
     \<lparr>ctx_session_id = ses_id s, ctx_tenant_id = ses_tenant_id s, ctx_app_id = ses_app_id s,
      ctx_customer_id = ses_customer_id s, ctx_device_id = ses_device_id s,
      ctx_machine_id = ses_machine_id s, ctx_auth_mode = ses_auth_mode s,
      ctx_entitlement_id = map_option ent_id e, ctx_entitlement_kind = map_option ent_kind e,
      ctx_entitlement_status = entitlement_status e,
      ctx_entitlement_active = (active_entitlement e \<noteq> None),
      ctx_features = active_features e,
      ctx_entitlement_expires_at = Option.bind e ent_expires_at\<rparr>"

definition require_client_session ::
    "client_world \<Rightarrow> string option \<Rightarrow> access_db \<Rightarrow> app_error + client_context" where
  "require_client_session cx authorization db =
     rs_bind (bearer_token authorization) (\<lambda>token.
     let now = env_now (cx_env cx) in
     rs_bind (verify_client_access_token cx token db) (\<lambda>claims.
     rs_bind (ok_or (find_session_by_id (cl_session_id claims) db) session_expired) (\<lambda>session.
     if ses_revoked_at session \<noteq> None \<or> ses_expires_at session \<le> now then Inl session_expired
     else if ses_tenant_id session \<noteq> cl_tenant_id claims \<or> ses_app_id session \<noteq> cl_app_id claims
             \<or> ses_device_id session \<noteq> cl_device_id claims
             \<or> ses_machine_id session \<noteq> cl_machine_id claims
       then Inl access_token_invalid
     else
     rs_bind (ensure_session_usable session db) (\<lambda>d.
     rs_bind (load_client_entitlement session d now db) (\<lambda>entitlement.
     Inr (session_context session entitlement))))))"

definition ensure_active_entitlement :: "client_context \<Rightarrow> app_error + unit" where
  "ensure_active_entitlement c =
     (if ctx_entitlement_active c \<and> ctx_entitlement_id c \<noteq> None then Inr ()
      else Inl (SubscriptionInactive ''active subscription or license required''))"

definition ensure_active_subscription :: "client_context \<Rightarrow> app_error + unit" where
  "ensure_active_subscription c =
     (if ctx_entitlement_active c \<and> ctx_entitlement_kind c = Some ''subscription'' then Inr ()
      else Inl (SubscriptionInactive ''active subscription required''))"


section \<open>Heartbeat, verification and logout\<close>

definition subscription_id_of :: "client_context \<Rightarrow> uuid option" where
  "subscription_id_of c =
     (if ctx_entitlement_kind c = Some ''subscription'' then ctx_entitlement_id c else None)"

record heartbeat_response =
  hb_status :: string
  hb_server_time :: i64
  hb_license_status :: string
  hb_entitlement_id :: "uuid option"
  hb_entitlement_kind :: "string option"
  hb_entitlement_status :: string
  hb_entitlement_active :: bool
  hb_subscription_id :: "uuid option"

definition heartbeat ::
    "client_world \<Rightarrow> client_context \<Rightarrow> string option \<Rightarrow> heartbeat_response access_io" where
  "heartbeat cx c version =
     (let env = cx_env cx; cfg = cx_cfg cx in
      io_bind (on_redis (check_fixed_window (cx_fault cx) (env_now env)
                 (heartbeat_key (env_uuid_text env (ctx_device_id c)))
                 (cfg_heartbeat_rate_limit_max cfg) (cfg_heartbeat_rate_limit_window_seconds cfg)
                 rate_limited)) (\<lambda>_.
      io_bind (touch_session env (ctx_session_id c)) (\<lambda>_.
      io_bind (commit (touch_device env (ctx_tenant_id c) (ctx_app_id c) (ctx_device_id c)
                 (clean_optional version))) (\<lambda>_.
      io_return \<lparr>hb_status = ''ok'', hb_server_time = timestamp (env_now env),
        hb_license_status = ctx_entitlement_status c, hb_entitlement_id = ctx_entitlement_id c,
        hb_entitlement_kind = ctx_entitlement_kind c,
        hb_entitlement_status = ctx_entitlement_status c,
        hb_entitlement_active = ctx_entitlement_active c,
        hb_subscription_id = subscription_id_of c\<rparr>))))"

definition client_action :: "client_world \<Rightarrow> string \<Rightarrow> client_context \<Rightarrow> unit access_io" where
  "client_action cx action c =
     on_redis (check_client_action (cx_fault cx) (env_now (cx_env cx))
       (cfg_client_action_rate_limit_max (cx_cfg cx))
       (cfg_client_action_rate_limit_window_seconds (cx_cfg cx)) action
       (env_uuid_text (cx_env cx) (ctx_device_id c)))"

definition logout :: "client_world \<Rightarrow> client_context \<Rightarrow> bool access_io" where
  "logout cx c =
     io_bind (client_action cx ''logout'' c) (\<lambda>_.
     io_bind (revoke_session (cx_env cx) (ctx_session_id c)) (\<lambda>n.
     io_return (n > 0)))"

record verify_response =
  vr_valid :: bool
  vr_features :: json
  vr_expires_at :: "time option"
  vr_entitlement_id :: "uuid option"
  vr_entitlement_kind :: "string option"
  vr_entitlement_status :: string
  vr_entitlement_active :: bool
  vr_subscription_id :: "uuid option"

definition verify :: "client_world \<Rightarrow> client_context \<Rightarrow> verify_response access_io" where
  "verify cx c =
     io_bind (client_action cx ''verify'' c) (\<lambda>_.
     io_return \<lparr>vr_valid = True, vr_features = ctx_features c,
       vr_expires_at = ctx_entitlement_expires_at c, vr_entitlement_id = ctx_entitlement_id c,
       vr_entitlement_kind = ctx_entitlement_kind c,
       vr_entitlement_status = ctx_entitlement_status c,
       vr_entitlement_active = ctx_entitlement_active c,
       vr_subscription_id = subscription_id_of c\<rparr>)"


section \<open>What an authenticated request can rely on\<close>

lemma find_session_Some:
  "find_session_by_id i db = Some s \<Longrightarrow> s \<in> set (client_sessions db) \<and> ses_id s = i"
  unfolding find_session_by_id_def by (drule find_some) simp

lemma device_find_Some:
  "device_find_by_id t a i db = Some d \<Longrightarrow>
    d \<in> set (devices db) \<and> dev_tenant_id d = t \<and> dev_app_id d = a \<and> dev_id d = i
    \<and> dev_deleted_at d = None"
  unfolding device_find_by_id_def by (drule find_some) simp

text \<open>A session whose tenant, application and device are all active.\<close>

definition session_active :: "client_session \<Rightarrow> device \<Rightarrow> access_db \<Rightarrow> bool" where
  "session_active s d db \<longleftrightarrow>
     (case tenant_find_by_id (ses_tenant_id s) db of
        None \<Rightarrow> False | Some t \<Rightarrow> ten_status t = ''active'')
     \<and> (case application_find_by_id (ses_tenant_id s) (ses_app_id s) db of
          None \<Rightarrow> False | Some a \<Rightarrow> app_status a = ''active'')
     \<and> device_find_by_id (ses_tenant_id s) (ses_app_id s) (ses_device_id s) db = Some d
     \<and> dev_status d = ''active''"

lemma ensure_session_usable_Inr: "ensure_session_usable s db = Inr d \<longleftrightarrow> session_active s d db"
  by (auto simp: ensure_session_usable_def session_active_def ensure_active_tenant_def rs_bind_Inr
      ok_or_Inr split: option.splits if_splits)

text \<open>The grant of a device, as the middleware finds it: it holds at \<open>now\<close>.\<close>

definition device_entitled :: "uuid \<Rightarrow> device \<Rightarrow> time \<Rightarrow> access_db \<Rightarrow> bool" where
  "device_entitled tenant d now db \<longleftrightarrow>
     (case dev_license_id d of
        Some i \<Rightarrow> (case license_find_by_id tenant i db of
                    None \<Rightarrow> False | Some l \<Rightarrow> validate_license_record l now = Inr ())
      | None \<Rightarrow> (case dev_subscription_id d of
                   Some i \<Rightarrow> (case subscription_find_by_id tenant i db of
                               None \<Rightarrow> False | Some s \<Rightarrow> validate_subscription_record s now = Inr ())
                 | None \<Rightarrow> False))"

lemma is_ok_unit [simp]: "is_ok (r :: 'e + unit) \<longleftrightarrow> r = Inr ()"
  by (cases r) (auto simp: is_ok_def)

lemma load_entitlement_active:
  "load_client_entitlement s d now db = Inr e \<Longrightarrow>
    active_entitlement e \<noteq> None \<longleftrightarrow> device_entitled (ses_tenant_id s) d now db"
  by (auto simp: load_client_entitlement_def device_entitled_def active_entitlement_def rs_bind_Inr
      ok_or_Inr split: option.splits if_splits)

lemma bearer_token_Inr: "bearer_token auth = Inr token \<Longrightarrow> auth = Some (''Bearer '' @ token)"
proof -
  let ?n = "length ''Bearer ''"
  assume "bearer_token auth = Inr token"
  then obtain v where v: "auth = Some v" "take ?n v = ''Bearer ''" "token = drop ?n v"
    by (auto simp only: bearer_token_def starts_with_def rs_bind_Inr ok_or_Inr Let_def sum.inject
        split: if_splits)
  from v(2,3) have "v = ''Bearer '' @ token" by (metis append_take_drop_id)
  with v(1) show ?thesis by simp
qed

lemma require_client_session_Inr:
  assumes "require_client_session cx auth db = Inr c"
  obtains token claims s d e where
    "auth = Some (''Bearer '' @ token)" "verify_client_access_token cx token db = Inr claims"
    "s \<in> set (client_sessions db)" "find_session_by_id (cl_session_id claims) db = Some s"
    "ses_id s = cl_session_id claims" "ses_revoked_at s = None" "env_now (cx_env cx) < ses_expires_at s"
    "ses_tenant_id s = cl_tenant_id claims" "ses_app_id s = cl_app_id claims"
    "ses_device_id s = cl_device_id claims" "ses_machine_id s = cl_machine_id claims"
    "session_active s d db"
    "load_client_entitlement s d (env_now (cx_env cx)) db = Inr e" "c = session_context s e"
proof -
  from assms obtain token claims s d e where r: "bearer_token auth = Inr token"
    "verify_client_access_token cx token db = Inr claims"
    "find_session_by_id (cl_session_id claims) db = Some s"
    "ses_revoked_at s = None" "\<not> ses_expires_at s \<le> env_now (cx_env cx)"
    "ses_tenant_id s = cl_tenant_id claims" "ses_app_id s = cl_app_id claims"
    "ses_device_id s = cl_device_id claims" "ses_machine_id s = cl_machine_id claims"
    "ensure_session_usable s db = Inr d"
    "load_client_entitlement s d (env_now (cx_env cx)) db = Inr e" "c = session_context s e"
    unfolding require_client_session_def Let_def
    by (auto simp only: rs_bind_Inr ok_or_Inr split: if_splits) blast
  from r(1) have "auth = Some (''Bearer '' @ token)" by (rule bearer_token_Inr)
  with that r find_session_Some [OF r(3)] show ?thesis
    unfolding ensure_session_usable_Inr by (metis not_le)
qed

section \<open>The stored signing keys are key pairs\<close>

text \<open>
  What a request relies on of the primitives: the codecs and the AEAD, that \<open>ring\<close>'s
  public half verifies what the private half signs, that serde reads back what it wrote
  and that the random bytes of an envelope are twelve.
\<close>

definition verifies_under :: "crypto_lib \<Rightarrow> string \<Rightarrow> string \<Rightarrow> bool" where
  "verifies_under c private_key raw \<longleftrightarrow>
     (\<forall>m s. ed25519_sign c private_key m = Some s \<longrightarrow> ed25519_verify c raw m s)"

definition world_laws :: "client_world \<Rightarrow> bool" where
  "world_laws cx \<longleftrightarrow>
     base64_laws (cx_crypto cx) \<and> aead_laws (cx_crypto cx) (cfg_master_key (cx_cfg cx))
     \<and> (\<forall>k raw. cx_public_key cx k = Some raw \<longrightarrow> verifies_under (cx_crypto cx) k raw)
     \<and> (\<forall>e v. cx_envelope_to_value cx e = Inr v \<longrightarrow> cx_envelope_of_value cx v = Inr e)
     \<and> (\<forall>n. cx_nonce cx = Some n \<longrightarrow> length n = 12)
     \<and> list_all b64_char (cx_kid_token cx)"

text \<open>
  A key that signs access tokens: its envelope opens to a private key whose signatures its
  public key verifies.
\<close>

definition key_pair :: "client_world \<Rightarrow> signing_key \<Rightarrow> bool" where
  "key_pair cx k \<longleftrightarrow>
     list_all graphic (sk_kid k)
     \<and> (\<exists>private_key raw. decrypt_signing_key cx k = Inr private_key
          \<and> parse_ed25519_public_key (cx_crypto cx) (sk_public_key_pem k) = Inr raw
          \<and> verifies_under (cx_crypto cx) private_key raw)"

definition signing_keys_wf :: "client_world \<Rightarrow> access_db \<Rightarrow> bool" where
  "signing_keys_wf cx db \<longleftrightarrow>
     distinct (map sk_kid (signing_keys db))
     \<and> list_all (\<lambda>k. sk_key_scope k = ''jwt_access_token'' \<and> sk_private_key_envelope k \<noteq> None
                  \<longrightarrow> key_pair cx k) (signing_keys db)"

text \<open>What creating the key changes: the key table and the audit log.\<close>

definition only_keys_changed :: "access_db \<Rightarrow> access_db \<Rightarrow> bool" where
  "only_keys_changed db db' \<longleftrightarrow>
     db' = db\<lparr>signing_keys := signing_keys db', audit_logs := audit_logs db'\<rparr>"

lemma only_keys_changed_refl [simp]: "only_keys_changed db db"
  by (simp add: only_keys_changed_def)

lemma map_err_Inr: "(case x of Inl err \<Rightarrow> Inl (f err) | Inr v \<Rightarrow> Inr v) = Inr y \<longleftrightarrow> x = Inr y"
  by (cases x) auto

lemma only_keys_changedD:
  assumes "only_keys_changed db db'"
  shows "tenants db' = tenants db" "applications db' = applications db" "devices db' = devices db"
    "licenses db' = licenses db" "subscriptions db' = subscriptions db"
    "device_blacklist db' = device_blacklist db" "device_keys db' = device_keys db"
    "client_sessions db' = client_sessions db" "customers db' = customers db"
    "client_refresh_tokens db' = client_refresh_tokens db" "redis db' = redis db"
  by (subst assms [unfolded only_keys_changed_def], simp)+

lemma generated_key_pair:
  assumes "world_laws cx" and "generate_ed25519_key cx = Inr g"
    and "encrypt_bytes (cx_crypto cx) (cfg_master_key (cx_cfg cx)) (cx_nonce cx)
           (gsk_private_key_pkcs8_der g) = Inr e"
    and "cx_envelope_to_value cx e = Inr v"
  shows "key_pair cx (signing_key_row env
    (new_signing_key_jwt_access_token env (gsk_kid g) (gsk_public_key_pem g) v))"
proof -
  from assms(2) obtain pk raw where g: "cx_public_key cx pk = Some raw"
    "gsk_private_key_pkcs8_der g = pk" "gsk_kid g = ''kid_'' @ cx_kid_token cx"
    "gsk_public_key_pem g = pem_block (cx_crypto cx) ''PUBLIC KEY'' (ed25519_public_key_der raw)"
    by (auto simp: generate_ed25519_key_def rs_bind_Inr ok_or_Inr)
  from assms(3) obtain n where n: "cx_nonce cx = Some n"
    by (auto simp: encrypt_bytes_def rs_bind_Inr ok_or_Inr)
  have laws: "base64_laws (cx_crypto cx)" "aead_laws (cx_crypto cx) (cfg_master_key (cx_cfg cx))"
    "length n = 12" "verifies_under (cx_crypto cx) pk raw" "cx_envelope_of_value cx v = Inr e"
    using assms(1,4) g(1) n unfolding world_laws_def by blast+
  have open_it: "decrypt_bytes (cx_crypto cx) (cfg_master_key (cx_cfg cx)) e = Inr pk"
    using sealed_key_opens [OF laws(1,2,3)] assms(3) n g(2) by simp
  have "list_all graphic (''kid_'' @ cx_kid_token cx)"
  proof -
    have "list_all b64_char (cx_kid_token cx)" using assms(1) by (simp add: world_laws_def)
    then have "list_all graphic (cx_kid_token cx)" using b64_char_graphic by (simp add: list_all_iff)
    then show ?thesis by (simp add: graphic_def byte_def)
  qed
  with laws(4,5) open_it pem_block_parses [OF laws(1)] g show ?thesis
    by (simp add: key_pair_def decrypt_signing_key_def signing_key_row_def rs_bind_def ok_or_def
        new_signing_key_jwt_access_token_def)
qed

lemma create_signing_key_Inr:
  "create_signing_key_in_transaction env n db = Inr (k, db') \<longleftrightarrow>
     k = signing_key_row env n \<and> signing_key_check k
     \<and> list_all (\<lambda>x. \<not> signing_key_clash k x) (signing_keys db)
     \<and> db' = db\<lparr>signing_keys := signing_keys db @ [k]\<rparr>"
  by (auto simp: create_signing_key_in_transaction_def Let_def tx_success insert_row_Inr)

lemma usable_new_key: "global_key_usable (env_db_now env) ''jwt_access_token''
    (signing_key_row env (new_signing_key_jwt_access_token env kid pem v))"
  by (simp add: global_key_usable_def signing_key_row_def new_signing_key_jwt_access_token_def)

text \<open>The key a request signs with: stored, usable now, and the invariant is kept.\<close>

definition signs_now :: "client_world \<Rightarrow> signing_key \<Rightarrow> access_db \<Rightarrow> bool" where
  "signs_now cx k db \<longleftrightarrow>
     k \<in> set (signing_keys db) \<and> global_key_usable (env_db_now (cx_env cx)) ''jwt_access_token'' k
     \<and> sk_status k = ''active'' \<and> sk_private_key_envelope k \<noteq> None"

lemma get_or_create_key:
  assumes "world_laws cx" and "signing_keys_wf cx db"
    and "get_or_create_jwt_signing_key cx db = (Inr k, db')"
  shows "signs_now cx k db' \<and> signing_keys_wf cx db' \<and> only_keys_changed db db'"
proof (cases "find_active_global_signing_key_with_private_envelope (env_db_now (cx_env cx))
    ''jwt_access_token'' db")
  case (Some l)
  with assms(3) have "k = l" "db' = db"
    by (auto simp: get_or_create_jwt_signing_key_def Let_def io_success)
  with first_by_in [OF Some [unfolded find_active_global_signing_key_with_private_envelope_def]]
  show ?thesis using assms(2) by (simp add: signs_now_def)
next
  case None
  let ?env = "cx_env cx"
  from None assms(3) obtain g e v db1 where gen: "generate_ed25519_key cx = Inr g"
    "encrypt_bytes (cx_crypto cx) (cfg_master_key (cx_cfg cx)) (cx_nonce cx)
       (gsk_private_key_pkcs8_der g) = Inr e" "cx_envelope_to_value cx e = Inr v"
    and c: "create_signing_key_in_transaction ?env (new_signing_key_jwt_access_token ?env (gsk_kid g)
       (gsk_public_key_pem g) v) db = Inr (k, db1)"
    and a: "audit_signing_key_create cx k db1 = Inr ((), db')"
    by (auto simp: get_or_create_jwt_signing_key_def Let_def io_success tx_success map_err_Inr)
  from c have k: "k = signing_key_row ?env (new_signing_key_jwt_access_token ?env (gsk_kid g)
       (gsk_public_key_pem g) v)" and fresh: "list_all (\<lambda>x. \<not> signing_key_clash k x) (signing_keys db)"
    and db1: "db1 = db\<lparr>signing_keys := signing_keys db @ [k]\<rparr>" unfolding create_signing_key_Inr by blast+
  from audit_record_Inr [OF a [unfolded audit_signing_key_create_def]] obtain row where
    db': "db' = db1\<lparr>audit_logs := audit_logs db1 @ [row]\<rparr>" by blast
  have pair: "key_pair cx k" using generated_key_pair [OF assms(1) gen] k by simp
  have "distinct (map sk_kid (signing_keys db @ [k]))"
    using assms(2) fresh by (auto simp: signing_keys_wf_def list_all_iff signing_key_clash_def)
  with assms(2) pair have "signing_keys_wf cx db'"
    by (simp add: signing_keys_wf_def db' db1)
  moreover have "signs_now cx k db'"
    unfolding signs_now_def db' db1 using usable_new_key by (simp add: k signing_key_row_def)
  ultimately show ?thesis by (simp add: db' db1 only_keys_changed_def)
qed

abbreviation eddsa_header :: "string \<Rightarrow> jwt_header" where
  "eddsa_header kid \<equiv> \<lparr>jh_alg = ''EdDSA'', jh_typ = Some ''JWT'', jh_kid = kid\<rparr>"

lemma signed_token_header:
  assumes "base64_laws c" and "sign_eddsa c claims kid private_key = Inr token"
    and "\<And>kid. header_of_json c (header_to_json c (eddsa_header kid)) = Some (eddsa_header kid)"
  shows "decode_eddsa_header c token = Inr \<lparr>jh_alg = ''EdDSA'', jh_typ = Some ''JWT'', jh_kid = trim kid\<rparr>"
proof -
  let ?hd = "\<lparr>jh_alg = ''EdDSA'', jh_typ = Some ''JWT'', jh_kid = trim kid\<rparr>"
  from assms(2) obtain s where kid: "trim kid \<noteq> []"
    and token: "token = b64_url c (header_to_json c ?hd) @ CHR ''.'' # b64_url c (claims_to_json c claims)
      @ CHR ''.'' # b64_url c s"
    by (auto simp: sign_eddsa_def sign_ed25519_def ok_or_def rs_bind_def Let_def
        split: if_splits option.splits)
  have "split_char CHR ''.'' token
      = [b64_url c (header_to_json c ?hd), b64_url c (claims_to_json c claims), b64_url c s]"
    unfolding token using b64_url_no_dot [OF assms(1)] by (simp add: split_char_sep split_char_nosep)
  then show ?thesis using assms(1,3) kid
    by (simp add: trim_idem decode_eddsa_header_def Let_def ok_or_def rs_bind_def base64_laws_def)
qed

lemma find_distinct_key:
  assumes "distinct (map key t)" and "r \<in> set t" and "P r" and "\<And>x. P x \<Longrightarrow> key x = key r"
  shows "List.find P t = Some r"
  using assms(1,2)
proof (induction t)
  case (Cons a t)
  show ?case
  proof (cases "a = r")
    case True
    with assms(3) show ?thesis by simp
  next
    case False
    with Cons.prems have "r \<in> set t" "key a \<noteq> key r" by auto
    with assms(4) Cons show ?thesis by auto
  qed
qed simp

text \<open>
  A token a request signed is accepted by every later request that finds the same keys, as
  long as the key is in its window and the claims have not expired.
\<close>

lemma signed_claims_verified:
  assumes laws: "world_laws cx" and wf: "signing_keys_wf cx db"
    and p: "prepare_client_access_token_signer cx db = (Inr signer, db1)"
    and sign: "signer_sign cx signer claims = Inr token"
    and keys: "signing_keys db' = signing_keys db1"
    and same: "cx_crypto cx' = cx_crypto cx" "cx_cfg cx' = cx_cfg cx"
    and json: "\<And>kid. header_of_json (cx_crypto cx) (header_to_json (cx_crypto cx) (eddsa_header kid))
        = Some (eddsa_header kid)"
      "claims_of_json (cx_crypto cx) (claims_to_json (cx_crypto cx) claims) = Some claims"
    and claims: "cl_iss claims = cfg_jwt_issuer (cx_cfg cx)" "cl_aud claims = cfg_jwt_audience (cx_cfg cx)"
      "timestamp (env_now (cx_env cx')) < cl_exp claims"
    and later: "env_db_now (cx_env cx) \<le> env_db_now (cx_env cx')"
      "list_all (\<lambda>k. sk_not_after k = None) (signing_keys db1)"
  shows "verify_client_access_token cx' token db' = Inr claims"
proof -
  let ?c = "cx_crypto cx"
  from p obtain k private_key where g: "get_or_create_jwt_signing_key cx db = (Inr k, db1)"
    and d: "decrypt_signing_key cx k = Inr private_key"
    and signer: "signer = \<lparr>sig_kid = sk_kid k, sig_private_key = private_key\<rparr>"
    by (auto simp: prepare_client_access_token_signer_def io_success)
  from get_or_create_key [OF laws wf g] have k: "signs_now cx k db1" and wf1: "signing_keys_wf cx db1"
    by blast+
  then have "key_pair cx k" and kin: "k \<in> set (signing_keys db1)"
    by (auto simp: signing_keys_wf_def signs_now_def list_all_iff global_key_usable_def)
  then obtain raw where kid: "trim (sk_kid k) = sk_kid k"
    and raw: "parse_ed25519_public_key ?c (sk_public_key_pem k) = Inr raw" "verifies_under ?c private_key raw"
    using d trim_all_graphic by (auto simp: key_pair_def)
  have signed: "sign_eddsa ?c claims (sk_kid k) private_key = Inr token"
    using sign signer by (simp add: signer_sign_def)
  have header: "decode_eddsa_header ?c token = Inr \<lparr>jh_alg = ''EdDSA'', jh_typ = Some ''JWT'', jh_kid = sk_kid k\<rparr>"
    using signed_token_header [OF _ signed json(1)] laws kid by (simp add: world_laws_def)
  have later_ok: "global_key_usable (env_db_now (cx_env cx')) ''jwt_access_token'' k"
    using k later kin by (simp add: signs_now_def global_key_usable_def list_all_iff)
  have "find_public_global_signing_key_by_kid (env_db_now (cx_env cx')) ''jwt_access_token'' (sk_kid k) db'
      = Some (k\<lparr>sk_private_key_envelope := None\<rparr>)"
    unfolding find_public_global_signing_key_by_kid_def keys
    using wf1 kin later_ok k
    by (subst find_distinct_key [of sk_kid _ k]) (simp_all add: signing_keys_wf_def signs_now_def)
  moreover have "verify_eddsa ?c token (sk_public_key_pem k) (cl_iss claims) (cl_aud claims)
      (timestamp (env_now (cx_env cx'))) = Inr claims"
    by (rule signed_token_verifies [OF _ signed _ json(2) raw(1)])
      (use laws json(1) raw(2) claims(3) in \<open>auto simp: world_laws_def verifies_under_def\<close>)
  ultimately show ?thesis using header claims(1,2) same
    by (simp add: verify_client_access_token_def rs_bind_def ok_or_def)
qed

end
