(* ===== verification/ClientAuth.thy ===== *)
theory ClientAuth
  imports Sessions
begin

text \<open>
  How a client gets a session and keeps it (\<open>modules/client_auth\<close>): activation with a
  license key (\<open>activate.rs\<close>), login of a customer (\<open>login.rs\<close>) and the rotation of
  refresh tokens (\<open>refresh.rs\<close>). Each handler is one computation over the database; it
  reads through the pool and writes in one transaction at its end.
\<close>

record session_response =
  sr_access_token :: string
  sr_refresh_token :: string
  sr_expires_in :: i64
  sr_refresh_expires_in :: i64
  sr_session_id :: uuid
  sr_device_id :: uuid
  sr_device_key_id :: "uuid option"
  sr_subscription_id :: "uuid option"
  sr_entitlement_id :: "uuid option"
  sr_entitlement_kind :: "string option"
  sr_entitlement_status :: string
  sr_entitlement_active :: bool
  sr_features :: json

definition access_claims ::
    "client_world \<Rightarrow> client_session \<Rightarrow> time \<Rightarrow> i64 \<Rightarrow> client_access_claims" where
  "access_claims cx s now ttl =
     \<lparr>cl_sub = env_uuid_text (cx_env cx) (ses_id s), cl_iss = cfg_jwt_issuer (cx_cfg cx),
      cl_aud = cfg_jwt_audience (cx_cfg cx), cl_exp = timestamp (now + seconds ttl),
      cl_iat = timestamp now, cl_session_id = ses_id s, cl_tenant_id = ses_tenant_id s,
      cl_app_id = ses_app_id s, cl_device_id = ses_device_id s,
      cl_machine_id = ses_machine_id s, cl_auth_mode = ses_auth_mode s\<rparr>"

definition validate_device_public_key :: "crypto_lib \<Rightarrow> string \<Rightarrow> app_error + unit" where
  "validate_device_public_key c key =
     (let key = trim key in
      if key = [] then Inl (ValidationFailed ''device_public_key is required'')
      else (case parse_ed25519_public_key c key of
              Inl _ \<Rightarrow> Inl (ValidationFailed ''device_public_key invalid'')
            | Inr _ \<Rightarrow> Inr ()))"

text \<open>The audit entry of a new device; the actor is the device or the customer.\<close>

definition audit_device_create ::
    "client_world \<Rightarrow> string \<Rightarrow> uuid \<Rightarrow> string \<Rightarrow> device \<Rightarrow> uuid option \<Rightarrow> uuid \<Rightarrow> unit access_tx" where
  "audit_device_create cx actor_type actor mode d key session =
     (let env = cx_env cx in
      audit_record env
       \<lparr>ai_tenant_id = Some (dev_tenant_id d), ai_actor_type = actor_type,
        ai_actor_id = Some actor, ai_action = ''device.create'', ai_resource_type = ''device'',
        ai_resource_id = Some (dev_id d), ai_ip = None, ai_user_agent = None,
        ai_request_id = Some (env_request_id env), ai_before_json = None,
        ai_after_json = Some (JObject [(''id'', json_uuid env (dev_id d)),
          (''app_id'', json_uuid env (dev_app_id d)),
          (''customer_id'', json_opt (json_uuid env) (dev_customer_id d)),
          (''license_id'', json_opt (json_uuid env) (dev_license_id d)),
          (''subscription_id'', json_opt (json_uuid env) (dev_subscription_id d)),
          (''machine_id'', JString (dev_machine_id d)),
          (''device_name'', json_opt JString (dev_device_name d)),
          (''os'', json_opt JString (dev_os d)),
          (''app_version'', json_opt JString (dev_app_version d)),
          (''status'', JString (dev_status d))]),
        ai_metadata_json = JObject [(''auth_mode'', JString mode),
          (''device_key_id'', json_opt (json_uuid env) key),
          (''session_id'', json_uuid env session)]\<rparr>)"

text \<open>
  The part of the transaction \<open>activate\<close> and \<open>login\<close> share after the binding: the key of a
  new device, the session, its first refresh token and the audit entry.
\<close>

record open_session_input =
  osi_application :: application
  osi_customer_id :: "uuid option"
  osi_auth_mode :: string
  osi_public_key :: string
  osi_token_hash :: string

definition device_key_of_bind ::
    "client_world \<Rightarrow> application \<Rightarrow> string \<Rightarrow> bind_device_result \<Rightarrow> uuid option access_tx" where
  "device_key_of_bind cx application public_key b =
     (if bdr_created b then
        tx_bind (tx_of (new_device_key_new (cx_crypto cx) (cx_env cx) (app_tenant_id application)
                   (app_id application) (dev_id (bdr_device b)) public_key)) (\<lambda>n.
        tx_bind (create_device_key (cx_env cx) n) (\<lambda>k. tx_return (Some (dk_id k))))
      else tx_return None)"

definition open_session ::
    "client_world \<Rightarrow> open_session_input \<Rightarrow> bind_device_result
      \<Rightarrow> (uuid option \<times> client_session) access_tx" where
  "open_session cx i b =
     (let env = cx_env cx; cfg = cx_cfg cx; now = env_now env; a = osi_application i in
      tx_bind (device_key_of_bind cx a (osi_public_key i) b) (\<lambda>key.
      tx_bind (create_client_session_in_transaction env
         (new_client_session_new env (app_tenant_id a) (app_id a) (osi_customer_id i)
            (dev_id (bdr_device b)) (dev_machine_id (bdr_device b)) (osi_auth_mode i)
            (now + seconds (cfg_client_session_ttl_seconds cfg)))) (\<lambda>session.
      tx_bind (create_client_refresh_token_in_transaction env
         (new_client_refresh_token_new env (ses_id session) (osi_token_hash i)
            (now + seconds (cfg_client_refresh_token_ttl_seconds cfg)))) (\<lambda>_.
      tx_return (key, session)))))"


section \<open>Activation\<close>

record activate_request =
  ar_app_key :: string
  ar_license_key :: string
  ar_machine_id :: string
  ar_device_name :: "string option"
  ar_os :: "string option"
  ar_app_version :: "string option"
  ar_device_public_key :: string

definition activate_bind_input :: "application \<Rightarrow> license \<Rightarrow> activate_request \<Rightarrow> device_bind_input" where
  "activate_bind_input a l p =
     \<lparr>dbi_tenant_id = app_tenant_id a, dbi_app_id = app_id a, dbi_customer_id = lic_customer_id l,
      dbi_license_id = Some (lic_id l), dbi_subscription_id = None,
      dbi_machine_id = ar_machine_id p, dbi_device_name = ar_device_name p, dbi_os = ar_os p,
      dbi_app_version = ar_app_version p, dbi_metadata = None\<rparr>"

definition activate_transaction ::
    "client_world \<Rightarrow> application \<Rightarrow> license \<Rightarrow> activate_request \<Rightarrow> string
      \<Rightarrow> client_access_token_signer \<Rightarrow> session_response access_tx" where
  "activate_transaction cx a l p token_hash signer =
     (let env = cx_env cx; cfg = cx_cfg cx in
      tx_bind (bind_for_license_in_transaction env (activate_bind_input a l p) l) (\<lambda>b.
      tx_bind (open_session cx \<lparr>osi_application = a, osi_customer_id = lic_customer_id l,
                 osi_auth_mode = ''license'', osi_public_key = ar_device_public_key p,
                 osi_token_hash = token_hash\<rparr> b) (\<lambda>(key, session).
      tx_bind (if bdr_created b
               then audit_device_create cx ''device'' (dev_id (bdr_device b)) ''license''
                      (bdr_device b) key (ses_id session)
               else tx_return ()) (\<lambda>_.
      tx_bind (tx_of (signer_sign cx signer (access_claims cx session (env_now env)
                 (cfg_client_access_token_ttl_seconds cfg)))) (\<lambda>access_token.
      tx_return \<lparr>sr_access_token = access_token, sr_refresh_token = cx_token cx,
        sr_expires_in = cfg_client_access_token_ttl_seconds cfg,
        sr_refresh_expires_in = cfg_client_refresh_token_ttl_seconds cfg,
        sr_session_id = ses_id session, sr_device_id = dev_id (bdr_device b),
        sr_device_key_id = key, sr_subscription_id = None, sr_entitlement_id = Some (lic_id l),
        sr_entitlement_kind = Some ''license'', sr_entitlement_status = lic_status l,
        sr_entitlement_active = True, sr_features = lic_features l\<rparr>)))))"

definition activate :: "client_world \<Rightarrow> activate_request \<Rightarrow> session_response access_io" where
  "activate cx p =
     (let env = cx_env cx; cfg = cx_cfg cx; c = cx_crypto cx in
      io_bind (on_redis (check_fixed_window (cx_fault cx) (env_now env)
                 (activation_key (ar_app_key p) (ar_machine_id p) (client_ip (cx_ip_header cx)))
                 (cfg_activation_rate_limit_max cfg) (cfg_activation_rate_limit_window_seconds cfg)
                 activation_rate_limited)) (\<lambda>_.
      io_bind (io_of (validate_device_public_key c (ar_device_public_key p))) (\<lambda>_.
      io_bind (io_read (\<lambda>db. ok_or (find_by_app_key (trim (ar_app_key p)) db)
                               (NotFound ''application not found''))) (\<lambda>a.
      if app_status a \<noteq> ''active'' then io_fail app_disabled
      else if app_auth_mode a = ''subscription''
        then io_fail (InvalidRequest ''application does not allow license activation'')
      else
      io_bind (io_read (validate_license_key (hash_token c (cfg_token_hash_pepper cfg))
                 (app_tenant_id a) (app_id a) (ar_license_key p) (env_now env))) (\<lambda>l.
      io_bind (io_of (hash_token c (cfg_refresh_token_pepper cfg) (cx_token cx))) (\<lambda>token_hash.
      io_bind (prepare_client_access_token_signer cx) (\<lambda>signer.
      commit (activate_transaction cx a l p token_hash signer))))))))"


section \<open>Login\<close>

record customer_login_request =
  clr_app_key :: string
  clr_email :: string
  clr_password :: string
  clr_machine_id :: string
  clr_device_name :: "string option"
  clr_os :: "string option"
  clr_app_version :: "string option"
  clr_device_public_key :: string

definition normalize_email :: "(string \<Rightarrow> string) \<Rightarrow> string \<Rightarrow> app_error + string" where
  "normalize_email lower email =
     (let email = lower (trim email) in
      if email = [] \<or> CHR ''@'' \<notin> set email then Inl invalid_credentials else Inr email)"

definition verify_password ::
    "(string \<Rightarrow> string + (string \<Rightarrow> bool)) \<Rightarrow> string \<Rightarrow> string \<Rightarrow> app_error + bool" where
  "verify_password parse_hash password h =
     (case parse_hash h of
        Inl err \<Rightarrow> Inl (Crypto (''password hash parse failed: '' @ err))
      | Inr matches \<Rightarrow> Inr (matches password))"

definition login_bind_input ::
    "application \<Rightarrow> customer \<Rightarrow> subscription option \<Rightarrow> customer_login_request \<Rightarrow> device_bind_input" where
  "login_bind_input a c s p =
     \<lparr>dbi_tenant_id = app_tenant_id a, dbi_app_id = app_id a, dbi_customer_id = Some (cus_id c),
      dbi_license_id = None, dbi_subscription_id = map_option sub_id s,
      dbi_machine_id = clr_machine_id p, dbi_device_name = clr_device_name p,
      dbi_os = clr_os p, dbi_app_version = clr_app_version p, dbi_metadata = None\<rparr>"

definition login_bind ::
    "access_env \<Rightarrow> subscription option \<Rightarrow> device_bind_input \<Rightarrow> bind_device_result access_tx" where
  "login_bind env active i =
     (case active of
        Some s \<Rightarrow> bind_for_subscription_in_transaction env i s
      | None \<Rightarrow> bind_for_customer_session_in_transaction env i)"

text \<open>
  \<open>load_client_entitlement\<close> reads through the pool, outside the transaction: what it sees is
  the database \<open>db\<close> the transaction started on.
\<close>

definition login_transaction ::
    "client_world \<Rightarrow> application \<Rightarrow> customer \<Rightarrow> subscription option \<Rightarrow> customer_login_request
      \<Rightarrow> string \<Rightarrow> client_access_token_signer \<Rightarrow> session_response access_tx" where
  "login_transaction cx a c active p token_hash signer = (\<lambda>db.
     (let env = cx_env cx; cfg = cx_cfg cx in
      tx_bind (login_bind env active (login_bind_input a c active p)) (\<lambda>b.
      tx_bind (open_session cx \<lparr>osi_application = a, osi_customer_id = Some (cus_id c),
                 osi_auth_mode = ''subscription'', osi_public_key = clr_device_public_key p,
                 osi_token_hash = token_hash\<rparr> b) (\<lambda>(key, session).
      tx_bind (if bdr_created b
               then audit_device_create cx ''customer'' (cus_id c) ''subscription''
                      (bdr_device b) key (ses_id session)
               else tx_return ()) (\<lambda>_.
      tx_bind (tx_of (signer_sign cx signer (access_claims cx session (env_now env)
                 (cfg_client_access_token_ttl_seconds cfg)))) (\<lambda>access_token.
      tx_bind (tx_of (load_client_entitlement session (bdr_device b) (env_now env) db)) (\<lambda>e.
      tx_return \<lparr>sr_access_token = access_token, sr_refresh_token = cx_token cx,
        sr_expires_in = cfg_client_access_token_ttl_seconds cfg,
        sr_refresh_expires_in = cfg_client_refresh_token_ttl_seconds cfg,
        sr_session_id = ses_id session, sr_device_id = ses_device_id session,
        sr_device_key_id = key,
        sr_subscription_id = (case e of None \<Rightarrow> None
          | Some x \<Rightarrow> if ent_kind x = ''subscription'' then Some (ent_id x) else None),
        sr_entitlement_id = map_option ent_id e, sr_entitlement_kind = map_option ent_kind e,
        sr_entitlement_status = entitlement_status e,
        sr_entitlement_active = (active_entitlement e \<noteq> None),
        sr_features = active_features e\<rparr>))))) db))"

definition login_customer ::
    "client_world \<Rightarrow> application \<Rightarrow> string \<Rightarrow> string \<Rightarrow> access_db \<Rightarrow> app_error + customer" where
  "login_customer cx a email password db =
     rs_bind (ok_or (customer_find_by_email (cx_db_lower cx) (app_tenant_id a) email db)
                invalid_credentials) (\<lambda>c.
     if cus_status c \<noteq> ''active'' then Inl account_disabled else
     rs_bind (ok_or (cus_password_hash c) invalid_credentials) (\<lambda>h.
     rs_bind (verify_password (cx_parse_hash cx) password h) (\<lambda>ok.
     if ok then Inr c else Inl invalid_credentials)))"

definition login_subscription ::
    "application \<Rightarrow> customer \<Rightarrow> time \<Rightarrow> access_db \<Rightarrow> app_error + subscription option" where
  "login_subscription a c now db =
     (case find_active_for_customer (app_tenant_id a) (app_id a) (cus_id c) now db of
        None \<Rightarrow> Inr None
      | Some s \<Rightarrow> rs_bind (validate_subscription_record s now) (\<lambda>_. Inr (Some s)))"

definition login :: "client_world \<Rightarrow> customer_login_request \<Rightarrow> session_response access_io" where
  "login cx p =
     (let env = cx_env cx; cfg = cx_cfg cx; c = cx_crypto cx in
      io_bind (io_of (normalize_email (env_lower env) (clr_email p))) (\<lambda>email.
      io_bind (on_redis (check_fixed_window (cx_fault cx) (env_now env)
                 (login_key (env_lower env) email (client_ip (cx_ip_header cx)))
                 (cfg_login_rate_limit_max cfg) (cfg_login_rate_limit_window_seconds cfg)
                 login_rate_limited)) (\<lambda>_.
      io_bind (io_of (validate_device_public_key c (clr_device_public_key p))) (\<lambda>_.
      io_bind (io_read (\<lambda>db. ok_or (find_by_app_key (trim (clr_app_key p)) db)
                               (NotFound ''application not found''))) (\<lambda>a.
      if app_status a \<noteq> ''active'' then io_fail app_disabled
      else if app_auth_mode a = ''license''
        then io_fail (InvalidRequest ''application does not allow subscription login'')
      else
      io_bind (io_read (login_customer cx a email (clr_password p))) (\<lambda>customer.
      io_bind (io_read (login_subscription a customer (env_now env))) (\<lambda>active.
      io_bind (io_of (hash_token c (cfg_refresh_token_pepper cfg) (cx_token cx))) (\<lambda>token_hash.
      io_bind (prepare_client_access_token_signer cx) (\<lambda>signer.
      commit (login_transaction cx a customer active p token_hash signer))))))))))"


section \<open>Refresh\<close>

text \<open>
  \<open>refresh\<close> in its two parts: everything before the transaction begins, and the
  transaction with the handling of its failure. Requests of several clients interleave
  between the two.
\<close>

record refresh_plan =
  rp_token :: client_refresh_token
  rp_session :: client_session
  rp_entitlement :: "client_entitlement option"
  rp_next_token_hash :: string
  rp_signer :: client_access_token_signer

definition refresh_limit :: "client_world \<Rightarrow> string \<Rightarrow> unit access_io" where
  "refresh_limit cx subject =
     on_redis (check_fixed_window (cx_fault cx) (env_now (cx_env cx))
       (refresh_key subject (client_ip (cx_ip_header cx)))
       (cfg_refresh_rate_limit_max (cx_cfg cx)) (cfg_refresh_rate_limit_window_seconds (cx_cfg cx))
       refresh_rate_limited)"

definition refresh_check :: "client_world \<Rightarrow> string \<Rightarrow> refresh_plan access_io" where
  "refresh_check cx token =
     (let env = cx_env cx; cfg = cx_cfg cx; c = cx_crypto cx; now = env_now env;
          refresh_token = trim token in
      if refresh_token = [] then io_fail (InvalidRequest ''refresh_token is required'') else
      io_bind (io_of (hash_token c (cfg_refresh_token_pepper cfg) refresh_token)) (\<lambda>h.
      io_bind (io_read (\<lambda>db. Inr (find_refresh_token_by_hash h db))) (\<lambda>found.
      case found of
        None \<Rightarrow> io_bind (refresh_limit cx ''invalid-token'')
                  (\<lambda>_. io_fail (TokenInvalid ''refresh token invalid''))
      | Some stored \<Rightarrow>
          io_bind (refresh_limit cx (env_uuid_text env (rt_session_id stored))) (\<lambda>_.
          io_bind (io_read (\<lambda>db. ok_or (find_session_by_id (rt_session_id stored) db)
                                    session_expired)) (\<lambda>session.
          if rt_used_at stored \<noteq> None \<or> rt_revoked_at stored \<noteq> None
            then io_bind (revoke_session env (ses_id session)) (\<lambda>_. io_fail refresh_reuse_detected)
          else if rt_expires_at stored \<le> now \<or> ses_expires_at session \<le> now
                  \<or> ses_revoked_at session \<noteq> None
            then io_fail session_expired
          else
          io_bind (io_read (ensure_session_usable session)) (\<lambda>d.
          io_bind (io_read (load_client_entitlement session d now)) (\<lambda>e.
          io_bind (io_of (hash_token c (cfg_refresh_token_pepper cfg) (cx_token cx))) (\<lambda>next_hash.
          io_bind (prepare_client_access_token_signer cx) (\<lambda>signer.
          io_return \<lparr>rp_token = stored, rp_session = session, rp_entitlement = e,
                     rp_next_token_hash = next_hash, rp_signer = signer\<rparr>)))))))))"

definition refresh_transaction :: "client_world \<Rightarrow> refresh_plan \<Rightarrow> session_response access_tx" where
  "refresh_transaction cx p =
     (let env = cx_env cx; cfg = cx_cfg cx; session = rp_session p; e = rp_entitlement p in
      tx_bind (mark_refresh_token_used_in_transaction env (rt_id (rp_token p))) (\<lambda>_.
      tx_bind (create_client_refresh_token_in_transaction env
         (new_client_refresh_token_new env (ses_id session) (rp_next_token_hash p)
            (env_now env + seconds (cfg_client_refresh_token_ttl_seconds cfg)))) (\<lambda>_.
      tx_bind (tx_of (signer_sign cx (rp_signer p) (access_claims cx session (env_now env)
                 (cfg_client_access_token_ttl_seconds cfg)))) (\<lambda>access_token.
      tx_return \<lparr>sr_access_token = access_token, sr_refresh_token = cx_token cx,
        sr_expires_in = cfg_client_access_token_ttl_seconds cfg,
        sr_refresh_expires_in = cfg_client_refresh_token_ttl_seconds cfg,
        sr_session_id = ses_id session, sr_device_id = ses_device_id session,
        sr_device_key_id = None,
        sr_subscription_id = (case e of None \<Rightarrow> None
          | Some x \<Rightarrow> if ent_kind x = ''subscription'' then Some (ent_id x) else None),
        sr_entitlement_id = map_option ent_id e, sr_entitlement_kind = map_option ent_kind e,
        sr_entitlement_status = entitlement_status e,
        sr_entitlement_active = (active_entitlement e \<noteq> None),
        sr_features = active_features e\<rparr>))))"

definition is_refresh_reuse :: "app_error \<Rightarrow> bool" where
  "is_refresh_reuse e = (case e of RefreshReuseDetected _ \<Rightarrow> True | _ \<Rightarrow> False)"

definition refresh_rotate :: "client_world \<Rightarrow> refresh_plan \<Rightarrow> session_response access_io" where
  "refresh_rotate cx p = (\<lambda>db.
     case mark_refresh_token_used_in_transaction (cx_env cx) (rt_id (rp_token p)) db of
       Inl err \<Rightarrow>
         (if is_refresh_reuse err
          then io_bind (revoke_session (cx_env cx) (ses_id (rp_session p))) (\<lambda>_. io_fail err) db
          else io_fail err db)
     | Inr _ \<Rightarrow> commit (refresh_transaction cx p) db)"

definition refresh :: "client_world \<Rightarrow> string \<Rightarrow> session_response access_io" where
  "refresh cx token = io_bind (refresh_check cx token) (refresh_rotate cx)"


section \<open>Sessions as they are opened\<close>

lemma on_redis_state: "\<exists>rd. snd (on_redis m db) = db\<lparr>redis := rd\<rparr>"
  by (auto simp: on_redis_def split: prod.split)

lemma on_redis_Inr: "on_redis m db = (Inr x, db1) \<Longrightarrow> \<exists>rd. db1 = db\<lparr>redis := rd\<rparr>"
  using on_redis_state [of m db] by simp

lemma create_session_Inr:
  assumes "ncs_client_ip n = None"
  shows "create_client_session_in_transaction env n db = Inr (s, db') \<longleftrightarrow>
     s = client_session_row env n None \<and> client_session_check s
     \<and> list_all (\<lambda>x. \<not> client_session_clash s x) (client_sessions db)
     \<and> db' = db\<lparr>client_sessions := client_sessions db @ [s]\<rparr>"
  using assms
  by (auto simp: create_client_session_in_transaction_def Let_def tx_success insert_row_Inr)

lemma create_token_Inr:
  "create_client_refresh_token_in_transaction env n db = Inr (t, db') \<longleftrightarrow>
     t = refresh_token_row env n
     \<and> list_all (\<lambda>x. \<not> refresh_token_clash t x) (client_refresh_tokens db)
     \<and> db' = db\<lparr>client_refresh_tokens := client_refresh_tokens db @ [t]\<rparr>"
  by (auto simp: create_client_refresh_token_in_transaction_def Let_def tx_success insert_row_Inr)

lemma device_key_of_bind_Inr:
  "device_key_of_bind cx a pk b db = Inr (k, db') \<Longrightarrow>
    (\<exists>t. db' = db\<lparr>device_keys := t\<rparr>) \<and> (k \<noteq> None \<longleftrightarrow> bdr_created b)"
  by (auto simp: device_key_of_bind_def create_device_key_def Let_def tx_success insert_row_Inr
      split: if_splits intro: exI [of _ "device_keys db"])

text \<open>The session and the token \<open>open_session\<close> stores.\<close>

definition opened_session ::
    "client_world \<Rightarrow> open_session_input \<Rightarrow> bind_device_result \<Rightarrow> client_session" where
  "opened_session cx i b =
     client_session_row (cx_env cx) (new_client_session_new (cx_env cx)
       (app_tenant_id (osi_application i)) (app_id (osi_application i)) (osi_customer_id i)
       (dev_id (bdr_device b)) (dev_machine_id (bdr_device b)) (osi_auth_mode i)
       (env_now (cx_env cx) + seconds (cfg_client_session_ttl_seconds (cx_cfg cx)))) None"

definition opened_token :: "client_world \<Rightarrow> uuid \<Rightarrow> string \<Rightarrow> client_refresh_token" where
  "opened_token cx session h =
     refresh_token_row (cx_env cx) (new_client_refresh_token_new (cx_env cx) session h
       (env_now (cx_env cx) + seconds (cfg_client_refresh_token_ttl_seconds (cx_cfg cx))))"

lemma opened_session_simps [simp]:
  "ses_id (opened_session cx i b) = env_session_id (cx_env cx)"
  "ses_tenant_id (opened_session cx i b) = app_tenant_id (osi_application i)"
  "ses_app_id (opened_session cx i b) = app_id (osi_application i)"
  "ses_device_id (opened_session cx i b) = dev_id (bdr_device b)"
  "ses_machine_id (opened_session cx i b) = dev_machine_id (bdr_device b)"
  "ses_revoked_at (opened_session cx i b) = None"
  "ses_expires_at (opened_session cx i b)
     = env_now (cx_env cx) + seconds (cfg_client_session_ttl_seconds (cx_cfg cx))"
  by (simp_all add: opened_session_def client_session_row_def new_client_session_new_def)

lemma opened_token_simps [simp]:
  "rt_id (opened_token cx s h) = env_refresh_token_id (cx_env cx)"
  "rt_session_id (opened_token cx s h) = s" "rt_token_hash (opened_token cx s h) = h"
  "live_token (opened_token cx s h)"
  by (simp_all add: opened_token_def refresh_token_row_def new_client_refresh_token_new_def live_token_def)

lemma open_session_Inr:
  assumes "open_session cx i b db = Inr ((k, s), db')"
  shows "s = opened_session cx i b"
    and "list_all (\<lambda>x. \<not> client_session_clash s x) (client_sessions db)"
    and "list_all (\<lambda>x. \<not> refresh_token_clash (opened_token cx (ses_id s) (osi_token_hash i)) x)
           (client_refresh_tokens db)"
    and "k \<noteq> None \<longleftrightarrow> bdr_created b"
    and "\<exists>t. db' = db\<lparr>device_keys := t, client_sessions := client_sessions db @ [s],
           client_refresh_tokens := client_refresh_tokens db
             @ [opened_token cx (ses_id s) (osi_token_hash i)]\<rparr>"
proof -
  from assms obtain db1 db2 where key: "device_key_of_bind cx (osi_application i) (osi_public_key i) b db
      = Inr (k, db1)"
    and c: "create_client_session_in_transaction (cx_env cx) (new_client_session_new (cx_env cx)
       (app_tenant_id (osi_application i)) (app_id (osi_application i)) (osi_customer_id i)
       (dev_id (bdr_device b)) (dev_machine_id (bdr_device b)) (osi_auth_mode i)
       (env_now (cx_env cx) + seconds (cfg_client_session_ttl_seconds (cx_cfg cx)))) db1 = Inr (s, db2)"
    and t: "\<exists>rt. create_client_refresh_token_in_transaction (cx_env cx) (new_client_refresh_token_new (cx_env cx)
       (ses_id s) (osi_token_hash i)
       (env_now (cx_env cx) + seconds (cfg_client_refresh_token_ttl_seconds (cx_cfg cx)))) db2 = Inr (rt, db')"
    by (auto simp: open_session_def Let_def tx_success)
  have ip: "ncs_client_ip (new_client_session_new env' x1 x2 x3 x4 x5 x6 x7) = None" for env' x1 x2 x3 x4 x5 x6 x7
    by (simp add: new_client_session_new_def)
  from device_key_of_bind_Inr [OF key] obtain dk where db1: "db1 = db\<lparr>device_keys := dk\<rparr>"
    and created: "k \<noteq> None \<longleftrightarrow> bdr_created b" by blast
  note c1 = c [unfolded create_session_Inr [OF ip]]
  note t1 = t [unfolded create_token_Inr]
  show "s = opened_session cx i b" using c1 unfolding opened_session_def by blast
  show "list_all (\<lambda>x. \<not> client_session_clash s x) (client_sessions db)"
  proof -
    have "client_sessions db1 = client_sessions db" by (simp add: db1)
    moreover have "list_all (\<lambda>x. \<not> client_session_clash s x) (client_sessions db1)" using c1 by blast
    ultimately show ?thesis by simp
  qed
  have db2: "db2 = db1\<lparr>client_sessions := client_sessions db1 @ [s]\<rparr>" using c1 by blast
  show "list_all (\<lambda>x. \<not> refresh_token_clash (opened_token cx (ses_id s) (osi_token_hash i)) x)
           (client_refresh_tokens db)" using t1 unfolding opened_token_def by (auto simp: db2 db1)
  show "k \<noteq> None \<longleftrightarrow> bdr_created b" by (rule created)
  have "db' = db2\<lparr>client_refresh_tokens := client_refresh_tokens db2
      @ [opened_token cx (ses_id s) (osi_token_hash i)]\<rparr>" using t1 unfolding opened_token_def by blast
  then have "db' = db\<lparr>device_keys := dk, client_sessions := client_sessions db @ [s],
           client_refresh_tokens := client_refresh_tokens db
             @ [opened_token cx (ses_id s) (osi_token_hash i)]\<rparr>" by (simp add: db2 db1)
  then show "\<exists>t. db' = db\<lparr>device_keys := t, client_sessions := client_sessions db @ [s],
           client_refresh_tokens := client_refresh_tokens db
             @ [opened_token cx (ses_id s) (osi_token_hash i)]\<rparr>" by blast
qed

text \<open>An activation that succeeds, step by step.\<close>

lemma activate_Inr:
  assumes "activate cx p db = (Inr r, db')"
  obtains rd a l h signer db2 where
    "find_by_app_key (trim (ar_app_key p)) db = Some a" "app_status a = ''active''"
    "app_auth_mode a \<noteq> ''subscription''"
    "validate_license_key (hash_token (cx_crypto cx) (cfg_token_hash_pepper (cx_cfg cx)))
       (app_tenant_id a) (app_id a) (ar_license_key p) (env_now (cx_env cx)) db = Inr l"
    "prepare_client_access_token_signer cx (db\<lparr>redis := rd\<rparr>) = (Inr signer, db2)"
    "hash_token (cx_crypto cx) (cfg_refresh_token_pepper (cx_cfg cx)) (cx_token cx) = Inr h"
    "activate_transaction cx a l p h signer db2 = Inr (r, db')"
proof -
  from assms obtain db1 a l h signer db2 u where
    redis: "on_redis (check_fixed_window (cx_fault cx) (env_now (cx_env cx))
       (activation_key (ar_app_key p) (ar_machine_id p) (client_ip (cx_ip_header cx)))
       (cfg_activation_rate_limit_max (cx_cfg cx)) (cfg_activation_rate_limit_window_seconds (cx_cfg cx))
       activation_rate_limited) db = (Inr u, db1)"
    and rest: "find_by_app_key (trim (ar_app_key p)) db1 = Some a" "app_status a = ''active''"
    "app_auth_mode a \<noteq> ''subscription''"
    "validate_license_key (hash_token (cx_crypto cx) (cfg_token_hash_pepper (cx_cfg cx)))
       (app_tenant_id a) (app_id a) (ar_license_key p) (env_now (cx_env cx)) db1 = Inr l"
    "prepare_client_access_token_signer cx db1 = (Inr signer, db2)"
    "hash_token (cx_crypto cx) (cfg_refresh_token_pepper (cx_cfg cx)) (cx_token cx) = Inr h"
    "activate_transaction cx a l p h signer db2 = Inr (r, db')"
    unfolding activate_def Let_def by (auto simp: io_success split: if_splits)
  from on_redis_Inr [OF redis] obtain rd where db1: "db1 = db\<lparr>redis := rd\<rparr>" by blast
  have "find_by_app_key k (db\<lparr>redis := rd\<rparr>) = find_by_app_key k db" for k
    by (simp add: find_by_app_key_def)
  moreover have "validate_license_key f t x k now (db\<lparr>redis := rd\<rparr>) = validate_license_key f t x k now db"
    for f t x k now by (simp add: validate_license_key_def license_find_by_app_and_key_hash_def)
  ultimately show ?thesis using that rest by (simp add: db1)
qed

lemma activate_transaction_Inr:
  assumes "activate_transaction cx a l p h signer db = Inr (r, db')" and "devices_wf (devices db)"
  obtains b s where
    "bind_post (activate_bind_input a l p) db b (db\<lparr>devices := devices db'\<rparr>)"
    "bind_for_license_in_transaction (cx_env cx) (activate_bind_input a l p) l db
       = Inr (b, db\<lparr>devices := devices db'\<rparr>)"
    "s = opened_session cx \<lparr>osi_application = a, osi_customer_id = lic_customer_id l,
       osi_auth_mode = ''license'', osi_public_key = ar_device_public_key p, osi_token_hash = h\<rparr> b"
    "list_all (\<lambda>x. \<not> client_session_clash s x) (client_sessions db)"
    "list_all (\<lambda>x. \<not> refresh_token_clash (opened_token cx (ses_id s) h) x) (client_refresh_tokens db)"
    "signer_sign cx signer (access_claims cx s (env_now (cx_env cx))
       (cfg_client_access_token_ttl_seconds (cx_cfg cx))) = Inr (sr_access_token r)"
    "sr_session_id r = ses_id s" "sr_device_id r = dev_id (bdr_device b)"
    "sr_entitlement_id r = Some (lic_id l)" "sr_device_key_id r \<noteq> None \<longleftrightarrow> bdr_created b"
    "client_sessions db' = client_sessions db @ [s]"
    "client_refresh_tokens db' = client_refresh_tokens db @ [opened_token cx (ses_id s) h]"
    "tenants db' = tenants db" "applications db' = applications db" "licenses db' = licenses db"
    "subscriptions db' = subscriptions db" "signing_keys db' = signing_keys db"
proof -
  let ?i = "\<lparr>osi_application = a, osi_customer_id = lic_customer_id l,
       osi_auth_mode = ''license'', osi_public_key = ar_device_public_key p, osi_token_hash = h\<rparr>"
  from assms(1) obtain b db1 key s db2 db3 where
    b: "bind_for_license_in_transaction (cx_env cx) (activate_bind_input a l p) l db = Inr (b, db1)"
    and op: "open_session cx ?i b db1 = Inr ((key, s), db2)"
    and au: "(if bdr_created b then audit_device_create cx ''device'' (dev_id (bdr_device b)) ''license''
        (bdr_device b) key (ses_id s) else tx_return ()) db2 = Inr ((), db3)"
    and sg: "signer_sign cx signer (access_claims cx s (env_now (cx_env cx))
       (cfg_client_access_token_ttl_seconds (cx_cfg cx))) = Inr (sr_access_token r)"
    and r: "sr_session_id r = ses_id s" "sr_device_id r = dev_id (bdr_device b)"
      "sr_entitlement_id r = Some (lic_id l)" "sr_device_key_id r = key" "db' = db3"
    by (auto simp: activate_transaction_def Let_def tx_success)
  have post: "bind_post (activate_bind_input a l p) db b db1"
    by (rule license_binder.bind_sound [OF assms(2) b])
  then have db1: "db1 = db\<lparr>devices := devices db1\<rparr>" by (simp add: bind_post_def Let_def)
  note os = open_session_Inr [OF op]
  from os(5) obtain dk where db2: "db2 = db1\<lparr>device_keys := dk, client_sessions := client_sessions db1 @ [s],
      client_refresh_tokens := client_refresh_tokens db1 @ [opened_token cx (ses_id s) h]\<rparr>" by auto
  have "\<exists>log. db3 = db2\<lparr>audit_logs := log\<rparr>"
    using au audit_record_Inr unfolding audit_device_create_def Let_def
    by (auto simp: tx_success split: if_splits intro: exI [of _ "audit_logs db2"]) blast
  then obtain log where db3: "db3 = db2\<lparr>audit_logs := log\<rparr>" by blast
  have dev: "devices db' = devices db1" by (simp add: r db3 db2)
  with db1 have dbb: "db1 = db\<lparr>devices := devices db'\<rparr>" by simp
  have fields: "client_sessions db1 = client_sessions db" "client_refresh_tokens db1 = client_refresh_tokens db"
    "tenants db1 = tenants db" "applications db1 = applications db" "licenses db1 = licenses db"
    "subscriptions db1 = subscriptions db" "signing_keys db1 = signing_keys db"
    by (subst db1, simp)+
  have out: "client_sessions db' = client_sessions db @ [s]"
    "client_refresh_tokens db' = client_refresh_tokens db @ [opened_token cx (ses_id s) h]"
    "tenants db' = tenants db" "applications db' = applications db" "licenses db' = licenses db"
    "subscriptions db' = subscriptions db" "signing_keys db' = signing_keys db"
    by (simp_all add: r(5) db3 db2 fields)
  have post': "bind_post (activate_bind_input a l p) db b (db\<lparr>devices := devices db'\<rparr>)"
    and b': "bind_for_license_in_transaction (cx_env cx) (activate_bind_input a l p) l db
       = Inr (b, db\<lparr>devices := devices db'\<rparr>)"
    using post b unfolding dbb [symmetric] .
  have fresh: "list_all (\<lambda>x. \<not> refresh_token_clash (opened_token cx (ses_id s) h) x) (client_refresh_tokens db)"
    "list_all (\<lambda>x. \<not> client_session_clash s x) (client_sessions db)"
    using os(2,3) by (simp_all add: fields)
  have key: "sr_device_key_id r \<noteq> None \<longleftrightarrow> bdr_created b" using os(4) r(4) by simp
  show ?thesis
    by (rule that [OF post' b' os(1) fresh(2,1) sg r(1-3) key out])
qed

lemma signed_token_graphic:
  assumes "base64_laws c" and "sign_eddsa c claims kid private_key = Inr token"
  shows "list_all graphic token \<and> token \<noteq> []"
proof -
  have b: "list_all graphic (b64_url c x)" for x
    using assms(1) b64_char_graphic by (auto simp: base64_laws_def list_all_iff)
  have "graphic CHR ''.''" by (simp add: graphic_def byte_def)
  with assms(2) b show ?thesis
    by (auto simp: sign_eddsa_def sign_ed25519_def ok_or_def rs_bind_def Let_def
        split: if_splits option.splits)
qed

lemma bearer_token_signed:
  assumes "list_all graphic token" and "token \<noteq> []"
  shows "bearer_token (Some (''Bearer '' @ token)) = Inr token"
  using assms trim_all_graphic [OF assms(1)]
  by (simp add: bearer_token_def ok_or_def rs_bind_def Let_def starts_with_def)

lemma find_appended: "list_all (\<lambda>x. \<not> P x) t \<Longrightarrow> P r \<Longrightarrow> List.find P (t @ [r]) = Some r"
  by (induction t) auto

lemma validate_license_key_Inr:
  assumes "validate_license_key f t a k now db = Inr l"
  shows "l \<in> set (licenses db) \<and> lic_tenant_id l = t \<and> lic_app_id l = a \<and> lic_deleted_at l = None
    \<and> validate_license_record l now = Inr ()"
  using assms find_some
  by (fastforce simp: validate_license_key_def rs_bind_Inr ok_or_Inr license_find_by_app_and_key_hash_def)

lemma find_by_app_key_Some:
  "find_by_app_key k db = Some a \<Longrightarrow> a \<in> set (applications db) \<and> app_deleted_at a = None"
  unfolding find_by_app_key_def by (drule find_some) simp

text \<open>A device new to the application is bound to the license it was activated with.\<close>

lemma license_bind_created:
  assumes "bind_for_license_in_transaction env i l db = Inr (b, db')" and "bdr_created b"
  shows "dev_license_id (bdr_device b) = dbi_license_id i"
  using assms(1)
proof (cases rule: bind_for_license_cases)
  case (existing d)
  with assms(2) show ?thesis by simp
next
  case new
  from bind_new_device_Inr [OF new(5)] obtain n where
    "new_device_from_bind_input env i = Inr n" "bdr_device b = device_row env n" by auto
  then show ?thesis using new_device_facts by (simp add: device_row_def)
qed

lemma license_bind_existing:
  assumes "bind_for_license_in_transaction env i l db = Inr (b, db')" and "\<not> bdr_created b"
  shows "bdr_device b \<in> set (devices db)"
  using assms(1)
proof (cases rule: bind_for_license_cases)
  case (existing d)
  then show ?thesis using find_by_machine_Some by auto
next
  case new
  with assms(2) bind_new_device_Inr [OF new(5)] show ?thesis by auto
qed

lemma active_tenant_found:
  assumes "list_all (\<lambda>t. ten_status t = ''active'' \<and> ten_deleted_at t = None) (tenants db)"
    and "i \<in> ten_id ` set (tenants db)"
  shows "\<exists>t. tenant_find_by_id i db = Some t \<and> ten_status t = ''active''"
proof (cases "tenant_find_by_id i db")
  case None
  with assms show ?thesis by (auto simp: tenant_find_by_id_def find_None_iff list_all_iff)
next
  case (Some t)
  with assms(1) find_some [OF Some [unfolded tenant_find_by_id_def]] show ?thesis
    by (auto simp: list_all_iff)
qed

lemma session_authenticates:
  assumes "bearer_token auth = Inr token" and "verify_client_access_token cx token db = Inr claims"
    and "find_session_by_id (cl_session_id claims) db = Some s"
    and "ses_revoked_at s = None" and "env_now (cx_env cx) < ses_expires_at s"
    and "cl_tenant_id claims = ses_tenant_id s" and "cl_app_id claims = ses_app_id s"
    and "cl_device_id claims = ses_device_id s" and "cl_machine_id claims = ses_machine_id s"
    and "session_active s d db" and "load_client_entitlement s d (env_now (cx_env cx)) db = Inr e"
  shows "require_client_session cx auth db = Inr (session_context s e)"
  using assms unfolding require_client_session_def ensure_session_usable_Inr [symmetric]
  by (simp add: rs_bind_def ok_or_def Let_def)

lemma activation_authenticates:
  assumes "activate cx p db = (Inr r, db')"
    and "sr_device_key_id r \<noteq> None
      \<or> (\<exists>d \<in> set (devices db). dev_id d = sr_device_id r \<and> dev_license_id d = sr_entitlement_id r)"
    and "world_laws cx" and "signing_keys_wf cx db" and "devices_wf (devices db)"
    and "distinct (map app_id (applications db))" and "distinct (map lic_id (licenses db))"
    and "\<And>kid. header_of_json (cx_crypto cx) (header_to_json (cx_crypto cx) (eddsa_header kid))
      = Some (eddsa_header kid)"
    and "\<And>s. s \<in> set (client_sessions db') \<Longrightarrow>
      let c = access_claims cx s (env_now (cx_env cx)) (cfg_client_access_token_ttl_seconds (cx_cfg cx))
      in claims_of_json (cx_crypto cx) (claims_to_json (cx_crypto cx) c) = Some c"
    and "list_all (\<lambda>t. ten_status t = ''active'' \<and> ten_deleted_at t = None) (tenants db)"
    and "\<And>a. a \<in> set (applications db) \<Longrightarrow> app_tenant_id a \<in> ten_id ` set (tenants db)"
    and "list_all (\<lambda>k. sk_not_after k = None) (signing_keys db')"
    and "cx_crypto cx' = cx_crypto cx" and "cx_cfg cx' = cx_cfg cx"
    and "env_db_now (cx_env cx) \<le> env_db_now (cx_env cx')"
    and "timestamp (env_now (cx_env cx'))
      < timestamp (env_now (cx_env cx) + seconds (cfg_client_access_token_ttl_seconds (cx_cfg cx)))"
    and "env_now (cx_env cx') < env_now (cx_env cx) + seconds (cfg_client_session_ttl_seconds (cx_cfg cx))"
  shows "\<exists>c l. require_client_session cx' (Some (''Bearer '' @ sr_access_token r)) db' = Inr c
    \<and> ctx_session_id c = sr_session_id r \<and> ctx_device_id c = sr_device_id r
    \<and> l \<in> set (licenses db) \<and> sr_entitlement_id r = Some (lic_id l)
    \<and> ctx_entitlement_id c = Some (lic_id l)
    \<and> (ctx_entitlement_active c \<longleftrightarrow> validate_license_record l (env_now (cx_env cx')) = Inr ())"
proof -
  from assms(1) obtain rd a l h signer db2 where
    a: "find_by_app_key (trim (ar_app_key p)) db = Some a" "app_status a = ''active''"
    and vl: "validate_license_key (hash_token (cx_crypto cx) (cfg_token_hash_pepper (cx_cfg cx)))
       (app_tenant_id a) (app_id a) (ar_license_key p) (env_now (cx_env cx)) db = Inr l"
    and sg: "prepare_client_access_token_signer cx (db\<lparr>redis := rd\<rparr>) = (Inr signer, db2)"
    and tx: "activate_transaction cx a l p h signer db2 = Inr (r, db')"
    by (rule activate_Inr)
  have wf: "signing_keys_wf cx (db\<lparr>redis := rd\<rparr>)" using assms(4) by (simp add: signing_keys_wf_def)
  from sg obtain k where "get_or_create_jwt_signing_key cx (db\<lparr>redis := rd\<rparr>) = (Inr k, db2)"
    by (auto simp: prepare_client_access_token_signer_def io_success)
  from get_or_create_key [OF assms(3) wf this] have frame: "only_keys_changed (db\<lparr>redis := rd\<rparr>) db2"
    by blast
  note fr = only_keys_changedD [OF frame, simplified]
  have "devices_wf (devices db2)" using assms(5) fr by simp
  with tx obtain b s where post: "bind_post (activate_bind_input a l p) db2 b (db2\<lparr>devices := devices db'\<rparr>)"
    and bind: "bind_for_license_in_transaction (cx_env cx) (activate_bind_input a l p) l db2
       = Inr (b, db2\<lparr>devices := devices db'\<rparr>)"
    and s: "s = opened_session cx \<lparr>osi_application = a, osi_customer_id = lic_customer_id l,
       osi_auth_mode = ''license'', osi_public_key = ar_device_public_key p, osi_token_hash = h\<rparr> b"
    and fresh: "list_all (\<lambda>x. \<not> client_session_clash s x) (client_sessions db2)"
    and token: "signer_sign cx signer (access_claims cx s (env_now (cx_env cx))
       (cfg_client_access_token_ttl_seconds (cx_cfg cx))) = Inr (sr_access_token r)"
    and r: "sr_session_id r = ses_id s" "sr_device_id r = dev_id (bdr_device b)"
      "sr_entitlement_id r = Some (lic_id l)" "sr_device_key_id r \<noteq> None \<longleftrightarrow> bdr_created b"
    and db': "client_sessions db' = client_sessions db2 @ [s]"
      "tenants db' = tenants db2" "applications db' = applications db2" "licenses db' = licenses db2"
      "subscriptions db' = subscriptions db2" "signing_keys db' = signing_keys db2"
    using activate_transaction_Inr [OF tx] by metis
  let ?claims = "access_claims cx s (env_now (cx_env cx)) (cfg_client_access_token_ttl_seconds (cx_cfg cx))"
  have json: "claims_of_json (cx_crypto cx) (claims_to_json (cx_crypto cx) ?claims) = Some ?claims"
    using assms(9) [of s] db'(1) by (simp add: Let_def)
  have verified: "verify_client_access_token cx' (sr_access_token r) db' = Inr ?claims"
    by (rule signed_claims_verified [OF assms(3) wf sg token db'(6) assms(13,14,8) json])
      (use assms(12,15,16) db'(6) in \<open>simp_all add: access_claims_def\<close>)
  have "list_all graphic (sr_access_token r)" "sr_access_token r \<noteq> []"
    using signed_token_graphic token assms(3) unfolding signer_sign_def world_laws_def by blast+
  then have bearer: "bearer_token (Some (''Bearer '' @ sr_access_token r)) = Inr (sr_access_token r)"
    by (rule bearer_token_signed)
  have session: "find_session_by_id (ses_id s) db' = Some s"
    unfolding find_session_by_id_def db'(1)
    by (rule find_appended) (use fresh in \<open>auto simp: client_session_clash_def list_all_iff\<close>)
  note lf = validate_license_key_Inr [OF vl]
  have device: "device_find_by_id (app_tenant_id a) (app_id a) (dev_id (bdr_device b)) db' = Some (bdr_device b)"
    using license_binder.bound_device_found [OF \<open>devices_wf (devices db2)\<close> bind]
    by (simp add: device_find_by_id_def activate_bind_input_def)
  have dl: "dev_status (bdr_device b) = ''active''" "dev_license_id (bdr_device b) = Some (lic_id l)"
  proof -
    show "dev_status (bdr_device b) = ''active''" using post by (simp add: bind_post_def Let_def)
    show "dev_license_id (bdr_device b) = Some (lic_id l)"
    proof (cases "bdr_created b")
      case True
      with license_bind_created [OF bind] show ?thesis by (simp add: activate_bind_input_def)
    next
      case False
      with assms(2) r(4) obtain d where d: "d \<in> set (devices db)" "dev_id d = sr_device_id r"
        "dev_license_id d = sr_entitlement_id r" by blast
      from license_bind_existing [OF bind False] have "bdr_device b \<in> set (devices db)" using fr(3) by simp
      with d wf_unique_id [OF assms(5) d(1)] r(2,3) show ?thesis by simp
    qed
  qed
  have active: "session_active s (bdr_device b) db'"
  proof -
    from find_by_app_key_Some [OF a(1)] have ain: "a \<in> set (applications db)" "app_deleted_at a = None"
      by blast+
    have "application_find_by_id (app_tenant_id a) (app_id a) db' = Some a"
      unfolding application_find_by_id_def db'(3) fr(2)
      by (rule find_distinct_key [OF assms(6)]) (use ain in auto)
    moreover obtain t where "tenant_find_by_id (app_tenant_id a) db' = Some t" "ten_status t = ''active''"
      using active_tenant_found [OF assms(10) assms(11) [OF ain(1)]]
      by (auto simp: tenant_find_by_id_def db'(2) fr(1))
    ultimately show ?thesis using a(2) device dl(1) by (simp add: session_active_def s)
  qed
  have lic: "license_find_by_id (app_tenant_id a) (lic_id l) db' = Some l"
    unfolding license_find_by_id_def db'(4) fr(4)
    by (rule find_distinct_key [OF assms(7)]) (use lf in auto)
  let ?e = "Some \<lparr>ent_id = lic_id l, ent_kind = ''license'', ent_status = lic_status l,
      ent_active = is_ok (validate_license_record l (env_now (cx_env cx'))),
      ent_features = lic_features l, ent_expires_at = lic_expires_at l\<rparr>"
  have load: "load_client_entitlement s (bdr_device b) (env_now (cx_env cx')) db' = Inr ?e"
    using lic dl by (simp add: load_client_entitlement_def s ok_or_def rs_bind_def)
  have "require_client_session cx' (Some (''Bearer '' @ sr_access_token r)) db' = Inr (session_context s ?e)"
    by (rule session_authenticates [OF bearer verified _ _ _ _ _ _ _ active load])
      (use session assms(17) in \<open>simp_all add: access_claims_def s\<close>)
  moreover have "ctx_session_id (session_context s ?e) = sr_session_id r"
    "ctx_device_id (session_context s ?e) = sr_device_id r" "ctx_entitlement_id (session_context s ?e) = Some (lic_id l)"
    "ctx_entitlement_active (session_context s ?e)
       \<longleftrightarrow> validate_license_record l (env_now (cx_env cx')) = Inr ()"
    using r s by (simp_all add: session_context_def active_entitlement_def)
  ultimately show ?thesis using r lf by blast
qed

text \<open>
  C2. The access token of an activation authenticates its device until it expires, when the device
  is new or was already bound to the activated license: a request with it, in the database the
  activation left and at a time before the token's and the session's expiry, passes the
  middleware as the session and device of the response, with the activated license as its
  entitlement, active exactly while the license holds. It relies on the primitives'
  documented behaviour (\<open>world_laws\<close>, and that serde reads back headers and claims), on the
  stored signing keys being key pairs, on unique ids, and on the tenant being active, which
  \<open>activate\<close> itself does not check.
\<close>

theorem activated_client_authenticates:
  assumes "activate cx p db = (Inr r, db')"
    and "sr_device_key_id r \<noteq> None
      \<or> (\<exists>d \<in> set (devices db). dev_id d = sr_device_id r \<and> dev_license_id d = sr_entitlement_id r)"
    and "world_laws cx" and "signing_keys_wf cx db" and "devices_wf (devices db)"
    and "distinct (map app_id (applications db))" and "distinct (map lic_id (licenses db))"
    and "\<And>kid. header_of_json (cx_crypto cx) (header_to_json (cx_crypto cx) (eddsa_header kid))
      = Some (eddsa_header kid)"
    and "\<And>s. s \<in> set (client_sessions db') \<Longrightarrow>
      let c = access_claims cx s (env_now (cx_env cx)) (cfg_client_access_token_ttl_seconds (cx_cfg cx))
      in claims_of_json (cx_crypto cx) (claims_to_json (cx_crypto cx) c) = Some c"
    and "list_all (\<lambda>t. ten_status t = ''active'' \<and> ten_deleted_at t = None) (tenants db)"
    and "\<And>a. a \<in> set (applications db) \<Longrightarrow> app_tenant_id a \<in> ten_id ` set (tenants db)"
    and "list_all (\<lambda>k. sk_not_after k = None) (signing_keys db')"
    and "cx_crypto cx' = cx_crypto cx" and "cx_cfg cx' = cx_cfg cx"
    and "env_db_now (cx_env cx) \<le> env_db_now (cx_env cx')"
    and "timestamp (env_now (cx_env cx'))
      < timestamp (env_now (cx_env cx) + seconds (cfg_client_access_token_ttl_seconds (cx_cfg cx)))"
    and "env_now (cx_env cx') < env_now (cx_env cx) + seconds (cfg_client_session_ttl_seconds (cx_cfg cx))"
  shows "\<exists>c l. require_client_session cx' (Some (''Bearer '' @ sr_access_token r)) db' = Inr c
    \<and> ctx_session_id c = sr_session_id r \<and> ctx_device_id c = sr_device_id r
    \<and> l \<in> set (licenses db) \<and> sr_entitlement_id r = Some (lic_id l)
    \<and> ctx_entitlement_id c = Some (lic_id l)
    \<and> (ctx_entitlement_active c \<longleftrightarrow> validate_license_record l (env_now (cx_env cx')) = Inr ())"
  using assms by (rule activation_authenticates)

text \<open>
  C3. A request that passes the middleware carries a bearer token that verifies, and the
  context it gets is that of a stored session which is neither revoked nor expired, agrees
  with the token's claims and whose tenant, application and device are active. The
  context's features are those of a grant only if the device's license or subscription
  holds at that moment, and an empty list otherwise.
\<close>

theorem authenticated_request_is_active:
  assumes "require_client_session cx auth db = Inr c"
  shows "\<exists>token claims s d. auth = Some (''Bearer '' @ token)
    \<and> verify_client_access_token cx token db = Inr claims
    \<and> s \<in> set (client_sessions db) \<and> ses_revoked_at s = None \<and> env_now (cx_env cx) < ses_expires_at s
    \<and> ses_id s = cl_session_id claims \<and> ses_tenant_id s = cl_tenant_id claims
    \<and> ses_app_id s = cl_app_id claims \<and> ses_device_id s = cl_device_id claims
    \<and> ses_machine_id s = cl_machine_id claims
    \<and> session_active s d db
    \<and> ctx_session_id c = ses_id s \<and> ctx_tenant_id c = ses_tenant_id s \<and> ctx_device_id c = ses_device_id s
    \<and> (ctx_entitlement_active c \<longleftrightarrow> device_entitled (ses_tenant_id s) d (env_now (cx_env cx)) db)
    \<and> (\<not> ctx_entitlement_active c \<longrightarrow> ctx_features c = JArray [])
    \<and> (ensure_active_entitlement c = Inr () \<longleftrightarrow> ctx_entitlement_active c)"
proof -
  from assms obtain token claims s d e where r: "auth = Some (''Bearer '' @ token)"
    "verify_client_access_token cx token db = Inr claims"
    "s \<in> set (client_sessions db)" "ses_id s = cl_session_id claims"
    "ses_revoked_at s = None" "env_now (cx_env cx) < ses_expires_at s"
    "ses_tenant_id s = cl_tenant_id claims" "ses_app_id s = cl_app_id claims"
    "ses_device_id s = cl_device_id claims" "ses_machine_id s = cl_machine_id claims"
    "session_active s d db"
    and l: "load_client_entitlement s d (env_now (cx_env cx)) db = Inr e" and c: "c = session_context s e"
    by (rule require_client_session_Inr)
  have a: "ctx_entitlement_active c \<longleftrightarrow> device_entitled (ses_tenant_id s) d (env_now (cx_env cx)) db"
    using load_entitlement_active [OF l] c by (simp add: session_context_def)
  have "\<not> ctx_entitlement_active c \<longrightarrow> ctx_features c = JArray []"
    using c by (simp add: session_context_def active_features_def)
  moreover have "ensure_active_entitlement c = Inr () \<longleftrightarrow> ctx_entitlement_active c"
    using c by (cases e) (auto simp: ensure_active_entitlement_def session_context_def active_entitlement_def)
  moreover have "ctx_session_id c = ses_id s" "ctx_tenant_id c = ses_tenant_id s"
    "ctx_device_id c = ses_device_id s" using c by (simp_all add: session_context_def)
  ultimately show ?thesis using r a by blast
qed

lemma prepare_signer_found:
  assumes "find_active_global_signing_key_with_private_envelope (env_db_now (cx_env cx))
      ''jwt_access_token'' db = Some k"
    and "decrypt_signing_key cx k = Inr pk"
  shows "prepare_client_access_token_signer cx db = (Inr \<lparr>sig_kid = sk_kid k, sig_private_key = pk\<rparr>, db)"
  using assms
  by (simp add: prepare_client_access_token_signer_def get_or_create_jwt_signing_key_def Let_def monad_simps)

lemma audit_device_create_total:
  "\<exists>log. audit_device_create cx ty actor mode d key session db = Inr ((), db\<lparr>audit_logs := log\<rparr>)"
  unfolding audit_device_create_def Let_def using audit_record_no_ip by (metis audit_log_input.select_convs(7))

text \<open>What an activation needs to succeed: the checks, the binding and the signature.\<close>

lemma activate_succeeds:
  assumes "check_fixed_window (cx_fault cx) (env_now (cx_env cx))
      (activation_key (ar_app_key p) (ar_machine_id p) (client_ip (cx_ip_header cx)))
      (cfg_activation_rate_limit_max (cx_cfg cx)) (cfg_activation_rate_limit_window_seconds (cx_cfg cx))
      activation_rate_limited (redis db) = (Inr u, rd)"
    and "validate_device_public_key (cx_crypto cx) (ar_device_public_key p) = Inr ()"
    and "find_by_app_key (trim (ar_app_key p)) db = Some a" and "app_status a = ''active''"
    and "app_auth_mode a \<noteq> ''subscription''"
    and "validate_license_key (hash_token (cx_crypto cx) (cfg_token_hash_pepper (cx_cfg cx)))
       (app_tenant_id a) (app_id a) (ar_license_key p) (env_now (cx_env cx)) db = Inr l"
    and "hash_token (cx_crypto cx) (cfg_refresh_token_pepper (cx_cfg cx)) (cx_token cx) = Inr h"
    and "prepare_client_access_token_signer cx (db\<lparr>redis := rd\<rparr>) = (Inr signer, db2)"
    and "bind_for_license_in_transaction (cx_env cx) (activate_bind_input a l p) l db2 = Inr (b, db3)"
    and "open_session cx \<lparr>osi_application = a, osi_customer_id = lic_customer_id l,
       osi_auth_mode = ''license'', osi_public_key = ar_device_public_key p, osi_token_hash = h\<rparr> b db3
       = Inr ((key, s), db4)"
    and "signer_sign cx signer (access_claims cx s (env_now (cx_env cx))
       (cfg_client_access_token_ttl_seconds (cx_cfg cx))) = Inr token"
  shows "\<exists>r db'. activate cx p db = (Inr r, db') \<and> sr_device_key_id r = key \<and> sr_access_token r = token
    \<and> (\<exists>log. db' = db4\<lparr>audit_logs := log\<rparr>)"
proof -
  have "\<exists>log. (if bdr_created b then audit_device_create cx ''device'' (dev_id (bdr_device b)) ''license''
      (bdr_device b) key (ses_id s) else tx_return ()) db4 = Inr ((), db4\<lparr>audit_logs := log\<rparr>)"
    using audit_device_create_total by (auto simp: tx_return_def intro: exI [of _ "audit_logs db4"])
  then obtain db5 where audit: "(if bdr_created b then audit_device_create cx ''device''
      (dev_id (bdr_device b)) ''license'' (bdr_device b) key (ses_id s) else tx_return ()) db4 = Inr ((), db5)"
    and db5: "\<exists>log. db5 = db4\<lparr>audit_logs := log\<rparr>" by blast
  have tx: "\<exists>r. activate_transaction cx a l p h signer db2 = Inr (r, db5)
      \<and> sr_device_key_id r = key \<and> sr_access_token r = token"
    using assms(9-11) audit by (simp add: activate_transaction_def Let_def tx_bind_def tx_of_def tx_return_def)
  have same: "find_by_app_key k (db\<lparr>redis := rd\<rparr>) = find_by_app_key k db"
    "validate_license_key f t x k now (db\<lparr>redis := rd\<rparr>) = validate_license_key f t x k now db" for f t x k now
    by (simp_all add: find_by_app_key_def validate_license_key_def license_find_by_app_and_key_hash_def)
  show ?thesis
    using assms(1-8) tx same db5
    by (auto simp: activate_def Let_def io_bind_def on_redis_def io_of_def io_read_def commit_def ok_or_def)
qed


section \<open>Concrete instances\<close>

definition sample_config :: security_config where
  "sample_config = \<lparr>cfg_master_key = ''master'', cfg_token_hash_pepper = ''p'',
     cfg_refresh_token_pepper = ''q'', cfg_jwt_issuer = ''iss'', cfg_jwt_audience = ''aud'',
     cfg_client_access_token_ttl_seconds = 900, cfg_client_refresh_token_ttl_seconds = 2592000,
     cfg_client_session_ttl_seconds = 2592000, cfg_login_rate_limit_max = 10,
     cfg_login_rate_limit_window_seconds = 300, cfg_activation_rate_limit_max = 20,
     cfg_activation_rate_limit_window_seconds = 300, cfg_refresh_rate_limit_max = 60,
     cfg_refresh_rate_limit_window_seconds = 300, cfg_heartbeat_rate_limit_max = 120,
     cfg_heartbeat_rate_limit_window_seconds = 60, cfg_client_action_rate_limit_max = 120,
     cfg_client_action_rate_limit_window_seconds = 60\<rparr>"

definition sample_world :: "time \<Rightarrow> client_world" where
  "sample_world now = \<lparr>cx_env = sample_env\<lparr>env_now := now, env_db_now := now, env_uuid_text := (\<lambda>_. ''s'')\<rparr>,
     cx_cfg = sample_config, cx_crypto = sample_crypto, cx_fault = no_fault, cx_ip_header = None,
     cx_token = ''tok'', cx_kid_token = ''k1'', cx_pkcs8 = Some ''pkcs8'',
     cx_public_key = (\<lambda>_. Some ''raw''), cx_nonce = Some ''123456789012'',
     cx_envelope_to_value = (\<lambda>e. Inr (JArray (map JString [pe_ciphertext e, pe_nonce e, pe_tag e,
        pe_key_version e, pe_alg e]))),
     cx_envelope_of_value = (\<lambda>v. case v of
         JArray [JString a, JString b, JString c, JString d, JString e] \<Rightarrow>
           Inr \<lparr>pe_ciphertext = a, pe_nonce = b, pe_tag = c, pe_key_version = d, pe_alg = e\<rparr>
       | _ \<Rightarrow> Inl ''invalid''),
     cx_parse_hash = (\<lambda>h. Inr (\<lambda>pw. pw = h)), cx_db_lower = id\<rparr>"

definition sample_key :: signing_key where
  "sample_key = \<lparr>sk_id = 1, sk_tenant_id = None, sk_app_id = None, sk_key_scope = ''jwt_access_token'',
     sk_kid = ''kid_1'', sk_public_key_pem = sample_pem,
     sk_private_key_envelope = Some (JArray (map JString [letters ''pkcs8'', letters ''123456789012'',
       letters (replicate 16 CHR 0x00), ''v1'', ''AES-256-GCM''])),
     sk_status = ''active'', sk_not_before = 0, sk_not_after = None, sk_created_at = 0\<rparr>"

definition sample_app :: application where
  "sample_app = \<lparr>app_id = 1, app_tenant_id = 1, app_key = ''app'', app_status = ''active'',
     app_auth_mode = ''both'', app_deleted_at = None\<rparr>"

definition sample_activated_license :: license where
  "sample_activated_license = (sample_license 7 1)\<lparr>lic_license_key_hash := letters ''pL1''\<rparr>"

definition sample_client_db :: access_db where
  "sample_client_db = empty_db\<lparr>signing_keys := [sample_key],
     tenants := [\<lparr>ten_id = 1, ten_status = ''active'', ten_deleted_at = None\<rparr>],
     applications := [sample_app], licenses := [sample_activated_license]\<rparr>"

definition sample_activate :: activate_request where
  "sample_activate = \<lparr>ar_app_key = ''app'', ar_license_key = ''L1'', ar_machine_id = ''m'',
     ar_device_name = None, ar_os = None, ar_app_version = None,
     ar_device_public_key = letters ''32 raw bytes of an Ed25519 key..''\<rparr>"

lemma sample_world_laws: "world_laws (sample_world now)"
proof -
  have "list_all b64_char ''k1''" by code_simp
  moreover have "verifies_under sample_crypto k raw" for k raw
    by (simp add: verifies_under_def sample_crypto_def)
  ultimately show ?thesis
    using sample_base64_laws sample_aead_laws by (auto simp: world_laws_def sample_world_def)
qed

lemma sample_checks:
  "validate_device_public_key sample_crypto (ar_device_public_key sample_activate) = Inr ()"
  by code_simp

lemma sample_license_found:
  "validate_license_key (hash_token sample_crypto ''p'') 1 1 ''L1'' 50 sample_client_db
     = Inr sample_activated_license"
  by code_simp

lemma sample_limit:
  "fst (check_fixed_window no_fault 50 (activation_key ''app'' ''m'' ''unknown'') 20 300
      activation_rate_limited Map.empty) = Inr ()"
  by code_simp

lemma sample_decrypt: "decrypt_signing_key (sample_world 50) sample_key = Inr ''pkcs8''"
  by code_simp

lemma sample_key_found:
  "find_active_global_signing_key_with_private_envelope 50 ''jwt_access_token'' (sample_client_db\<lparr>redis := rd\<rparr>) = Some sample_key"
    by (simp add: sample_client_db_def sample_key_def global_key_usable_def
        find_active_global_signing_key_with_private_envelope_def)

lemma sample_opened:
  "succeeds_with (tx_bind (bind_for_license_in_transaction (cx_env (sample_world 50))
       (activate_bind_input sample_app sample_activated_license sample_activate) sample_activated_license)
     (\<lambda>b. tx_bind (open_session (sample_world 50) \<lparr>osi_application = sample_app, osi_customer_id = None,
        osi_auth_mode = ''license'', osi_public_key = ar_device_public_key sample_activate,
        osi_token_hash = letters ''qtok''\<rparr> b) (\<lambda>(key, s). tx_return (b, key, s)))
     (sample_client_db\<lparr>redis := rd\<rparr>))
   (\<lambda>((b, key, s), db). key = Some 102 \<and> access_claims (sample_world 50) s 50 900 = sample_claims
      \<and> list_all (\<lambda>s. access_claims (sample_world 50) s 50 900 = sample_claims) (client_sessions db)
      \<and> list_all (\<lambda>k. sk_not_after k = None) (signing_keys db))"
  by code_simp

lemma sample_world_simps [simp]:
  "cx_crypto (sample_world now) = sample_crypto" "cx_cfg (sample_world now) = sample_config"
  "cx_fault (sample_world now) = no_fault" "cx_ip_header (sample_world now) = None"
  "cx_token (sample_world now) = ''tok''"
  "env_now (cx_env (sample_world now)) = now" "env_db_now (cx_env (sample_world now)) = now"
  by (simp_all add: sample_world_def)

lemma sample_activation:
  "\<exists>r db'. activate (sample_world 50) sample_activate sample_client_db = (Inr r, db')
     \<and> sr_device_key_id r \<noteq> None
     \<and> list_all (\<lambda>s. access_claims (sample_world 50) s 50 900 = sample_claims) (client_sessions db')
     \<and> list_all (\<lambda>k. sk_not_after k = None) (signing_keys db')"
proof -
  let ?cx = "sample_world 50" and ?p = sample_activate and ?db = sample_client_db
  let ?check = "check_fixed_window no_fault 50 (activation_key ''app'' ''m'' ''unknown'') 20 300
      activation_rate_limited Map.empty"
  have limit: "?check = (Inr (), snd ?check)" using sample_limit by (metis prod.collapse)
  let ?rdb = "?db\<lparr>redis := snd ?check\<rparr>"
  have signer: "prepare_client_access_token_signer ?cx ?rdb
      = (Inr \<lparr>sig_kid = ''kid_1'', sig_private_key = ''pkcs8''\<rparr>, ?rdb)"
    using prepare_signer_found [of ?cx ?rdb sample_key "''pkcs8''"] sample_key_found sample_decrypt
    by (simp add: sample_key_def)
  obtain b db3 key s db4 where
    b: "bind_for_license_in_transaction (cx_env ?cx)
      (activate_bind_input sample_app sample_activated_license ?p) sample_activated_license ?rdb = Inr (b, db3)"
    and op: "open_session ?cx \<lparr>osi_application = sample_app, osi_customer_id = None,
        osi_auth_mode = ''license'', osi_public_key = ar_device_public_key ?p,
        osi_token_hash = letters ''qtok''\<rparr> b db3 = Inr ((key, s), db4)"
    and ks: "key = Some 102" "access_claims ?cx s 50 900 = sample_claims"
      "list_all (\<lambda>s. access_claims ?cx s 50 900 = sample_claims) (client_sessions db4)"
      "list_all (\<lambda>k. sk_not_after k = None) (signing_keys db4)"
    using sample_opened [of "snd ?check"] by (auto elim!: succeeds_withE simp: tx_success)
  have fields: "lic_customer_id sample_activated_license = None" "ar_app_key ?p = ''app''"
    "ar_machine_id ?p = ''m''" "client_ip None = ''unknown''" "ar_license_key ?p = ''L1''"
    "redis ?db = Map.empty" "trim ''app'' = ''app''" "app_tenant_id sample_app = 1" "app_id sample_app = 1"
    by (simp_all add: sample_license_def license_row_def sample_activate_def client_ip_def sample_client_db_def
        empty_db_def trim_graphic graphic_def byte_def sample_activated_license_def sample_app_def)
  have app: "find_by_app_key ''app'' ?db = Some sample_app" "app_status sample_app = ''active''"
    "app_auth_mode sample_app \<noteq> ''subscription''" "hash_token sample_crypto ''q'' ''tok'' = Inr (letters ''qtok'')"
    by (simp_all add: find_by_app_key_def sample_client_db_def sample_app_def hash_token_def sample_crypto_def)
  have cfg: "cfg_activation_rate_limit_max sample_config = 20" "cfg_activation_rate_limit_window_seconds sample_config = 300"
    "cfg_token_hash_pepper sample_config = ''p''" "cfg_refresh_token_pepper sample_config = ''q''"
    "cfg_client_access_token_ttl_seconds sample_config = 900"
    by (simp_all add: sample_config_def)
  have sign: "signer_sign ?cx \<lparr>sig_kid = ''kid_1'', sig_private_key = ''pkcs8''\<rparr> (access_claims ?cx s 50 900)
      = Inr sample_token" unfolding ks(2) by code_simp
  have "\<exists>r db'. activate ?cx ?p ?db = (Inr r, db') \<and> sr_device_key_id r = key \<and> sr_access_token r = sample_token
      \<and> (\<exists>log. db' = db4\<lparr>audit_logs := log\<rparr>)"
    by (rule activate_succeeds [where a = sample_app and l = sample_activated_license and ?db2.0 = ?rdb
        and rd = "snd ?check" and b = b and ?db3.0 = db3 and s = s and ?db4.0 = db4
        and signer = "\<lparr>sig_kid = ''kid_1'', sig_private_key = ''pkcs8''\<rparr>" and h = "letters ''qtok''" and u = "()"];
      (unfold fields cfg sample_world_simps)?; fact limit sample_checks app sample_license_found signer b op sign)
  then obtain r db' log where act: "activate ?cx ?p ?db = (Inr r, db')" "sr_device_key_id r = key"
    "db' = db4\<lparr>audit_logs := log\<rparr>" by blast
  from act(3) ks(3,4) have
    "list_all (\<lambda>s. access_claims ?cx s 50 900 = sample_claims) (client_sessions db')"
    "list_all (\<lambda>k. sk_not_after k = None) (signing_keys db')" by simp_all
  with act(1,2) ks(1) show ?thesis by blast
qed

lemma sample_client_db_wf: "devices_wf (devices sample_client_db)"
  "signing_keys_wf (sample_world now) sample_client_db"
proof -
  show "devices_wf (devices sample_client_db)" by code_simp
  have "decrypt_signing_key (sample_world now) sample_key = decrypt_signing_key (sample_world 50) sample_key"
    by (simp add: decrypt_signing_key_def sample_world_def)
  moreover have "list_all graphic (sk_kid sample_key)" by code_simp
  ultimately have "key_pair (sample_world now) sample_key"
    using sample_decrypt sample_pem_parses
    by (auto simp: key_pair_def verifies_under_def sample_key_def sample_crypto_def)
  then show "signing_keys_wf (sample_world now) sample_client_db"
    by (simp add: signing_keys_wf_def sample_client_db_def)
qed

text \<open>What the laws of the primitives and the sample database give for an activation.\<close>

lemmas sample_instance = sample_world_laws sample_client_db_wf(2,1)

lemma sample_facts:
  "distinct (map app_id (applications sample_client_db))" "distinct (map lic_id (licenses sample_client_db))"
  "list_all (\<lambda>t. ten_status t = ''active'' \<and> ten_deleted_at t = None) (tenants sample_client_db)"
  "\<And>a. a \<in> set (applications sample_client_db) \<Longrightarrow> app_tenant_id a \<in> ten_id ` set (tenants sample_client_db)"
  "\<And>kid. header_of_json (cx_crypto (sample_world now)) (header_to_json (cx_crypto (sample_world now))
     (eddsa_header kid)) = Some (eddsa_header kid)"
  "timestamp 60 < timestamp (50 + seconds 900)" "claims_of_json sample_crypto x = Some sample_claims"
  "\<And>l. l \<in> set (licenses sample_client_db) \<Longrightarrow> validate_license_record l 60 = Inr ()"
  "cfg_client_access_token_ttl_seconds sample_config = 900" "cfg_client_session_ttl_seconds sample_config = 2592000"
  by (simp_all add: sample_client_db_def sample_app_def sample_crypto_def timestamp_def sample_config_def
      sample_activated_license_def sample_license_def license_row_def validate_license_record_def)

theorem activated_client_authenticates_witness:
  "\<exists>r db' c. activate (sample_world 50) sample_activate sample_client_db = (Inr r, db')
     \<and> require_client_session (sample_world 60) (Some (''Bearer '' @ sr_access_token r)) db' = Inr c
     \<and> ctx_entitlement_active c"
proof -
  obtain r db' where act: "activate (sample_world 50) sample_activate sample_client_db = (Inr r, db')"
    and key: "sr_device_key_id r \<noteq> None"
    and cl: "list_all (\<lambda>s. access_claims (sample_world 50) s 50 900 = sample_claims) (client_sessions db')"
    and sk: "list_all (\<lambda>k. sk_not_after k = None) (signing_keys db')" using sample_activation by blast
  have "\<exists>c l. require_client_session (sample_world 60) (Some (''Bearer '' @ sr_access_token r)) db' = Inr c
    \<and> ctx_session_id c = sr_session_id r \<and> ctx_device_id c = sr_device_id r
    \<and> l \<in> set (licenses sample_client_db) \<and> sr_entitlement_id r = Some (lic_id l)
    \<and> ctx_entitlement_id c = Some (lic_id l)
    \<and> (ctx_entitlement_active c \<longleftrightarrow> validate_license_record l (env_now (cx_env (sample_world 60))) = Inr ())"
    by (rule activated_client_authenticates [OF act disjI1 [OF key] sample_instance sample_facts(1,2,5) _ sample_facts(3,4) sk])
      (use cl sample_facts in \<open>auto simp: Let_def list_all_iff\<close>)
  with act sample_facts(8) show ?thesis by fastforce
qed

theorem authenticated_request_is_active_witness:
  "\<exists>auth db c s. require_client_session (sample_world 60) auth db = Inr c
     \<and> s \<in> set (client_sessions db) \<and> ses_revoked_at s = None \<and> ctx_session_id c = ses_id s"
proof -
  obtain r db' where act: "activate (sample_world 50) sample_activate sample_client_db = (Inr r, db')"
    and key: "sr_device_key_id r \<noteq> None"
    and cl: "list_all (\<lambda>s. access_claims (sample_world 50) s 50 900 = sample_claims) (client_sessions db')"
    and sk: "list_all (\<lambda>k. sk_not_after k = None) (signing_keys db')" using sample_activation by blast
  have "\<exists>c l. require_client_session (sample_world 60) (Some (''Bearer '' @ sr_access_token r)) db' = Inr c
    \<and> ctx_session_id c = sr_session_id r \<and> ctx_device_id c = sr_device_id r
    \<and> l \<in> set (licenses sample_client_db) \<and> sr_entitlement_id r = Some (lic_id l)
    \<and> ctx_entitlement_id c = Some (lic_id l)
    \<and> (ctx_entitlement_active c \<longleftrightarrow> validate_license_record l (env_now (cx_env (sample_world 60))) = Inr ())"
    by (rule activation_authenticates [OF act disjI1 [OF key] sample_instance sample_facts(1,2,5) _ sample_facts(3,4) sk])
      (use cl sample_facts in \<open>auto simp: Let_def list_all_iff\<close>)
  then obtain c where "require_client_session (sample_world 60) (Some (''Bearer '' @ sr_access_token r)) db' = Inr c"
    by blast
  with authenticated_request_is_active [OF this] show ?thesis by blast
qed

end
