(* ===== verification/SessionRuns.thy ===== *)
theory SessionRuns
  imports ClientAuth
begin

text \<open>
  Sessions and refresh tokens over whole runs of the server: the requests of clients and
  administrators in any order, the two parts of \<open>refresh\<close> (\<open>client_auth/refresh.rs\<close>)
  interleaved with everything else. The invariant is that each session has at most one
  refresh token that is neither used nor revoked; a token rotates at most once and a revoked
  session stays dead.
\<close>


section \<open>The invariant\<close>

definition sessions_wf :: "access_db \<Rightarrow> bool" where
  "sessions_wf db \<longleftrightarrow>
     distinct (map ses_id (client_sessions db))
     \<and> distinct (map rt_id (client_refresh_tokens db))
     \<and> distinct (map rt_token_hash (client_refresh_tokens db))
     \<and> list_all (\<lambda>rt. rt_session_id rt \<in> ses_id ` set (client_sessions db)) (client_refresh_tokens db)
     \<and> distinct (map rt_session_id (filter live_token (client_refresh_tokens db)))"

text \<open>
  How sessions and tokens change: the invariant is kept, no row disappears, a revoked session
  stays revoked and a token that was used or revoked never becomes live again.
\<close>

definition session_continues :: "client_session \<Rightarrow> client_session \<Rightarrow> bool" where
  "session_continues s s' \<longleftrightarrow>
     ses_id s' = ses_id s \<and> (ses_revoked_at s \<noteq> None \<longrightarrow> ses_revoked_at s' \<noteq> None)"

definition token_continues :: "client_refresh_token \<Rightarrow> client_refresh_token \<Rightarrow> bool" where
  "token_continues rt rt' \<longleftrightarrow>
     rt_id rt' = rt_id rt \<and> rt_session_id rt' = rt_session_id rt \<and> rt_token_hash rt' = rt_token_hash rt
     \<and> (live_token rt' \<longrightarrow> live_token rt)"

definition sessions_evolve :: "access_db \<Rightarrow> access_db \<Rightarrow> bool" where
  "sessions_evolve db db' \<longleftrightarrow>
     (sessions_wf db \<longrightarrow> sessions_wf db')
     \<and> (\<forall>s \<in> set (client_sessions db). \<exists>s' \<in> set (client_sessions db'). session_continues s s')
     \<and> (\<forall>rt \<in> set (client_refresh_tokens db). \<exists>rt' \<in> set (client_refresh_tokens db'). token_continues rt rt')"

lemma session_continues_refl [simp]: "session_continues s s"
  by (simp add: session_continues_def)

lemma token_continues_refl [simp]: "token_continues rt rt"
  by (simp add: token_continues_def)

lemma sessions_evolve_trans:
  assumes "sessions_evolve db db'" and "sessions_evolve db' db''"
  shows "sessions_evolve db db''"
proof -
  have "session_continues s s' \<Longrightarrow> session_continues s' s'' \<Longrightarrow> session_continues s s''"
    and "token_continues rt rt' \<Longrightarrow> token_continues rt' rt'' \<Longrightarrow> token_continues rt rt''"
    for s s' s'' rt rt' rt'' by (auto simp: session_continues_def token_continues_def)
  with assms show ?thesis unfolding sessions_evolve_def by meson
qed

lemma evolve_same:
  "client_sessions db' = client_sessions db \<Longrightarrow> client_refresh_tokens db' = client_refresh_tokens db \<Longrightarrow>
    sessions_evolve db db'"
  by (simp add: sessions_evolve_def sessions_wf_def)
    (meson session_continues_refl token_continues_refl)

lemma continues_update:
  assumes "\<And>r. P r \<Longrightarrow> C r (f r)" and "\<And>r. C r r" and "r \<in> set t"
  shows "\<exists>r' \<in> set (update_where P f t). C r r'"
  using assms(3) by (induction t) (use assms in auto)

lemma evolve_update_sessions:
  assumes "client_sessions db' = update_where P f (client_sessions db)"
    and "client_refresh_tokens db' = client_refresh_tokens db"
    and "\<And>s. P s \<Longrightarrow> session_continues s (f s)"
  shows "sessions_evolve db db'"
proof -
  have "map ses_id (client_sessions db') = map ses_id (client_sessions db)"
    unfolding assms(1) using assms(3) by (intro map_update_where_same) (simp add: session_continues_def)
  then have "ses_id ` set (client_sessions db') = ses_id ` set (client_sessions db)"
    and "sessions_wf db \<longrightarrow> sessions_wf db'"
    using assms(2) unfolding sessions_wf_def by (metis list.set_map, metis list.set_map)
  moreover have "\<forall>s \<in> set (client_sessions db). \<exists>s' \<in> set (client_sessions db'). session_continues s s'"
    unfolding assms(1) using continues_update [of P session_continues f] assms(3) by simp
  ultimately show ?thesis using assms(2) by (auto simp: sessions_evolve_def intro!: bexI)
qed

lemma evolve_update_tokens:
  assumes "client_sessions db' = client_sessions db"
    and "client_refresh_tokens db' = update_where P f (client_refresh_tokens db)"
    and "\<And>rt. P rt \<Longrightarrow> token_continues rt (f rt)"
  shows "sessions_evolve db db'"
proof -
  let ?t = "client_refresh_tokens db"
  have same: "map rt_id (update_where P f ?t) = map rt_id ?t"
    "map rt_session_id (update_where P f ?t) = map rt_session_id ?t"
    "map rt_token_hash (update_where P f ?t) = map rt_token_hash ?t"
    using assms(3) by (simp_all add: map_update_where_same token_continues_def)
  have refs: "list_all (\<lambda>rt. rt_session_id rt \<in> X) u \<longleftrightarrow> set (map rt_session_id u) \<subseteq> X" for X u
    by (auto simp: list_all_iff)
  have "distinct (map rt_session_id (filter live_token ?t)) \<Longrightarrow>
      distinct (map rt_session_id (filter live_token (update_where P f ?t)))"
    using assms(3) by (intro distinct_filter_update) (auto simp: token_continues_def)
  then have "sessions_wf db \<longrightarrow> sessions_wf db'"
    unfolding sessions_wf_def assms(1,2) refs same by blast
  moreover have "\<forall>rt \<in> set ?t. \<exists>rt' \<in> set (client_refresh_tokens db'). token_continues rt rt'"
    unfolding assms(2) using continues_update [of P token_continues f] assms(3) by simp
  ultimately show ?thesis unfolding sessions_evolve_def assms(1) by (meson session_continues_refl)
qed

lemma frame_respects:
  assumes "\<And>db a db'. m db = Inr (a, db') \<Longrightarrow>
    client_sessions db' = client_sessions db \<and> client_refresh_tokens db' = client_refresh_tokens db"
  shows "tx_respects sessions_evolve m"
  unfolding tx_respects_def using assms evolve_same by blast

interpretation se: administered sessions_evolve "\<lambda>_. True"
proof unfold_locales
  show "sessions_evolve s s" for s by (rule evolve_same) simp_all
  show "sessions_evolve s t \<Longrightarrow> sessions_evolve t u \<Longrightarrow> sessions_evolve s u" for s t u
    by (rule sessions_evolve_trans)
  show "tx_respects sessions_evolve (audit_record env entry)" for env entry
    by (rule frame_respects) (auto dest!: audit_record_Inr)
  show "tx_respects sessions_evolve (create_license_in_transaction env n)" for env n
    by (rule frame_respects) (auto simp: create_license_in_transaction_def Let_def tx_success)
  show "tx_respects sessions_evolve (update_license env t i P f)" for env t i P f
    by (rule frame_respects) (auto dest!: update_license_Inr)
  show "tx_respects sessions_evolve (create_subscription_in_transaction env m)" for env m
    by (rule frame_respects) (auto simp: create_subscription_in_transaction_def Let_def tx_success)
  show "tx_respects sessions_evolve (update_subscription env t i Q g)" for env t i Q g
    by (rule frame_respects) (auto dest!: update_subscription_Inr)
  show "tx_respects sessions_evolve (update_devices env t C h)" for env t C h
    by (rule frame_respects) (auto simp: update_devices_Inr)
  show "tx_respects sessions_evolve (add_device_blacklist env t a mid r c)" for env t a mid r c
    by (rule frame_respects) (auto simp: add_device_blacklist_def tx_success)
  show "tx_respects sessions_evolve (remove_device_blacklist t a mid)" for t a mid
    by (rule frame_respects) (auto simp: remove_device_blacklist_def tx_success)
  show "tx_respects sessions_evolve (revoke_sessions_of env t D)" for env t D
    unfolding tx_respects_def revoke_sessions_of_Inr
    by (auto intro!: evolve_update_sessions simp: session_continues_def)
  show "tx_respects sessions_evolve (revoke_refresh_tokens_of env t D)" for env t D
    unfolding tx_respects_def revoke_refresh_tokens_of_Inr
    by (auto intro!: evolve_update_tokens simp: token_continues_def live_token_def)
qed


section \<open>The requests of clients\<close>

lemma se_on_redis: "io_respects sessions_evolve (on_redis m)"
proof -
  have "client_sessions (snd (on_redis m db)) = client_sessions db
      \<and> client_refresh_tokens (snd (on_redis m db)) = client_refresh_tokens db" for db
    using on_redis_state [of m db] by auto
  then show ?thesis unfolding io_respects_def using evolve_same by blast
qed

lemma se_revoke_session: "io_respects sessions_evolve (revoke_session env i)"
  unfolding io_respects_def revoke_session_def
  by (auto intro!: evolve_update_sessions simp: session_continues_def)

lemma se_touch_session: "io_respects sessions_evolve (touch_session env i)"
  unfolding io_respects_def touch_session_def io_modify_def
  by (auto intro!: evolve_update_sessions simp: session_continues_def)

lemma se_touch_device: "tx_respects sessions_evolve (touch_device env t a i v)"
  unfolding touch_device_def by (rule frame_respects) (auto simp: update_devices_Inr tx_success)

lemma se_signing_key: "io_respects sessions_evolve (prepare_client_access_token_signer cx)"
proof -
  have "tx_respects sessions_evolve (create_signing_key_in_transaction env n)" for env n
    by (rule frame_respects) (auto simp: create_signing_key_Inr)
  then show ?thesis
    unfolding prepare_client_access_token_signer_def get_or_create_jwt_signing_key_def
      audit_signing_key_create_def Let_def
    by (auto split: option.split intro!: se.parts)
qed

text \<open>Binding a device touches neither sessions nor tokens.\<close>

lemma se_create_device: "tx_respects sessions_evolve (create_device env n)"
  by (rule frame_respects) (auto simp: create_device_Inr)

lemma se_bind:
  "tx_respects sessions_evolve (bind_for_license_in_transaction env i l)"
  "tx_respects sessions_evolve (bind_for_subscription_in_transaction env i s)"
  "tx_respects sessions_evolve (bind_for_customer_session_in_transaction env i)"
  unfolding bind_for_license_in_transaction_def bind_for_subscription_in_transaction_def
    bind_for_customer_session_in_transaction_def bind_new_device_def set_subscription_binding_def
  by (auto split: option.split intro!: se.parts se_create_device se.edit_devices
      simp: keeps_identity_def machine_slot_def)

lemma se_login_bind: "tx_respects sessions_evolve (login_bind env active i)"
  unfolding login_bind_def by (auto split: option.split intro: se_bind)

text \<open>A new session comes with exactly one live token.\<close>

lemma evolve_open:
  assumes "client_sessions db' = client_sessions db @ [s]"
    and "client_refresh_tokens db' = client_refresh_tokens db @ [rt]"
    and "list_all (\<lambda>x. \<not> client_session_clash s x) (client_sessions db)"
    and "list_all (\<lambda>x. \<not> refresh_token_clash rt x) (client_refresh_tokens db)"
    and "rt_session_id rt = ses_id s"
  shows "sessions_evolve db db'"
proof -
  have new: "ses_id s \<notin> ses_id ` set (client_sessions db)" "rt_id rt \<notin> rt_id ` set (client_refresh_tokens db)"
    "rt_token_hash rt \<notin> rt_token_hash ` set (client_refresh_tokens db)"
    using assms(3,4) by (auto simp: list_all_iff client_session_clash_def refresh_token_clash_def)
  have "sessions_wf db'" if wf: "sessions_wf db"
  proof -
    have "ses_id s \<notin> rt_session_id ` set (client_refresh_tokens db)"
      using wf new(1) by (auto simp: sessions_wf_def list_all_iff)
    then have "distinct (map rt_session_id (filter live_token (client_refresh_tokens db @ [rt])))"
      using wf assms(5) by (auto simp: sessions_wf_def)
    moreover have "list_all (\<lambda>x. rt_session_id x \<in> ses_id ` set (client_sessions db')) (client_refresh_tokens db')"
      using wf assms(1,2,5) by (auto simp: sessions_wf_def list_all_iff)
    ultimately show ?thesis using wf new assms(1,2) by (simp add: sessions_wf_def)
  qed
  then show ?thesis using assms(1,2)
    by (simp add: sessions_evolve_def) (meson Un_iff session_continues_refl token_continues_refl)
qed

lemma se_open_session: "tx_respects sessions_evolve (open_session cx i b)"
  unfolding tx_respects_def
proof (intro allI impI)
  fix db r db'
  assume o1: "open_session cx i b db = Inr (r, db')"
  obtain k s where r: "r = (k, s)" by (cases r)
  note os = open_session_Inr [OF o1 [unfolded r]]
  from os(5) obtain t where "db' = db\<lparr>device_keys := t, client_sessions := client_sessions db @ [s],
      client_refresh_tokens := client_refresh_tokens db @ [opened_token cx (ses_id s) (osi_token_hash i)]\<rparr>"
    by blast
  then show "sessions_evolve db db'"
    using os(2,3) by (intro evolve_open [of db' db s "opened_token cx (ses_id s) (osi_token_hash i)"]) simp_all
qed

lemmas se_client = respects_branches se_on_redis se_revoke_session se_touch_session se_touch_device
  se_signing_key se_bind se_login_bind se_open_session

lemma se_transactions:
  "tx_respects sessions_evolve (activate_transaction cx a l p h signer)"
  "tx_respects sessions_evolve (login_transaction cx a c active creq h signer)"
  unfolding activate_transaction_def login_transaction_def audit_device_create_def Let_def
  by (intro se.parts se_client) (rule reads_own_state, intro se.parts se_client)

lemma se_handlers:
  "io_respects sessions_evolve (activate cx req)"
  "io_respects sessions_evolve (login cx creq)"
  "io_respects sessions_evolve (heartbeat cx c version)"
  "io_respects sessions_evolve (logout cx c)"
  "io_respects sessions_evolve (verify cx c)"
  "io_respects sessions_evolve (refresh_check cx token)"
  unfolding activate_def login_def heartbeat_def logout_def verify_def client_action_def
    refresh_check_def refresh_limit_def Let_def
  by (intro se.parts se_client se_transactions)+


section \<open>Rotation\<close>

text \<open>A plan fits a database: it was made for a token of the session it holds.\<close>

definition plan_ok :: "refresh_plan \<Rightarrow> access_db \<Rightarrow> bool" where
  "plan_ok p db \<longleftrightarrow>
     ses_id (rp_session p) = rt_session_id (rp_token p)
     \<and> (\<exists>rt \<in> set (client_refresh_tokens db). rt_id rt = rt_id (rp_token p)
          \<and> rt_session_id rt = rt_session_id (rp_token p))"

lemma plan_ok_evolves: "plan_ok p db \<Longrightarrow> sessions_evolve db db' \<Longrightarrow> plan_ok p db'"
  unfolding plan_ok_def sessions_evolve_def token_continues_def by (metis (no_types, lifting))

lemma mark_used_Inr:
  "mark_refresh_token_used_in_transaction env i db = Inr (u, db') \<longleftrightarrow>
     (\<exists>rt \<in> set (client_refresh_tokens db). rt_id rt = i \<and> live_token rt)
     \<and> db' = db\<lparr>client_refresh_tokens := update_where (\<lambda>rt. rt_id rt = i \<and> live_token rt)
          (\<lambda>rt. rt\<lparr>rt_used_at := Some (env_db_now env)\<rparr>) (client_refresh_tokens db)\<rparr>"
  by (auto simp: mark_refresh_token_used_in_transaction_def tx_success update_returning_def find_None_iff
      list.pred_True split: if_splits)

lemma mark_used_Inl:
  "mark_refresh_token_used_in_transaction env i db = Inl e \<longleftrightarrow>
     (\<forall>rt \<in> set (client_refresh_tokens db). rt_id rt = i \<longrightarrow> \<not> live_token rt)
     \<and> e = refresh_reuse_detected"
  by (auto simp: mark_refresh_token_used_in_transaction_def monad_simps update_returning_def find_None_iff
      list.pred_True split: if_splits)

lemma refresh_transaction_Inr:
  assumes "refresh_transaction cx p db = Inr (r, db')"
  shows "\<exists>rt \<in> set (client_refresh_tokens db). rt_id rt = rt_id (rp_token p) \<and> live_token rt"
    and "let used = update_where (\<lambda>rt. rt_id rt = rt_id (rp_token p) \<and> live_token rt)
             (\<lambda>rt. rt\<lparr>rt_used_at := Some (env_db_now (cx_env cx))\<rparr>) (client_refresh_tokens db);
           new = opened_token cx (ses_id (rp_session p)) (rp_next_token_hash p)
         in list_all (\<lambda>x. \<not> refresh_token_clash new x) used
            \<and> db' = db\<lparr>client_refresh_tokens := used @ [new]\<rparr>"
    and "sr_session_id r = ses_id (rp_session p)"
  using assms
  by (auto simp: refresh_transaction_def Let_def tx_success mark_used_Inr create_token_Inr opened_token_def)

lemma live_used_other:
  "live_token rt' \<Longrightarrow> rt' \<in> set (update_where (\<lambda>rt. rt_id rt = i \<and> live_token rt)
      (\<lambda>rt. rt\<lparr>rt_used_at := Some x\<rparr>) t) \<Longrightarrow> rt' \<in> set t \<and> rt_id rt' \<noteq> i"
  by (induction t) (auto simp: live_token_def split: if_splits)

lemma evolve_rotation:
  assumes ok: "plan_ok p db" and tx: "refresh_transaction cx p db = Inr (r, db')"
  shows "sessions_evolve db db'"
proof -
  let ?i = "rt_id (rp_token p)" and ?s = "ses_id (rp_session p)"
  let ?used = "update_where (\<lambda>rt. rt_id rt = ?i \<and> live_token rt)
      (\<lambda>rt. rt\<lparr>rt_used_at := Some (env_db_now (cx_env cx))\<rparr>) (client_refresh_tokens db)"
  let ?new = "opened_token cx ?s (rp_next_token_hash p)"
  let ?mid = "db\<lparr>client_refresh_tokens := ?used\<rparr>"
  from refresh_transaction_Inr(2) [OF tx] have clash: "list_all (\<lambda>x. \<not> refresh_token_clash ?new x) ?used"
    and db': "db' = db\<lparr>client_refresh_tokens := ?used @ [?new]\<rparr>" by (simp_all add: Let_def)
  have mid: "sessions_evolve db ?mid"
    by (rule evolve_update_tokens [of _ _ "\<lambda>rt. rt_id rt = ?i \<and> live_token rt"
          "\<lambda>rt. rt\<lparr>rt_used_at := Some (env_db_now (cx_env cx))\<rparr>"])
      (simp_all add: token_continues_def live_token_def)
  have "sessions_wf db'" if wf: "sessions_wf db"
  proof -
    from ok refresh_transaction_Inr(1) [OF tx] obtain rt x where
      rt: "rt \<in> set (client_refresh_tokens db)" "rt_id rt = ?i" "rt_session_id rt = ?s"
      and x: "x \<in> set (client_refresh_tokens db)" "rt_id x = ?i" "live_token x"
      by (auto simp: plan_ok_def)
    with wf have "rt = x"
      by (intro inj_onD [of rt_id "set (client_refresh_tokens db)"]) (auto simp: sessions_wf_def distinct_map)
    with x(3) have live: "live_token rt" by simp
    have m: "sessions_wf ?mid" using mid wf by (simp add: sessions_evolve_def)
    have gone: "rt_session_id x \<noteq> ?s" if x: "x \<in> set ?used" "live_token x" for x
    proof
      assume "rt_session_id x = ?s"
      from live_used_other [OF x(2,1)] have "x \<in> set (client_refresh_tokens db)" "rt_id x \<noteq> ?i" by blast+
      moreover have "x = rt"
        using wf \<open>x \<in> set (client_refresh_tokens db)\<close> rt live x(2) \<open>rt_session_id x = ?s\<close>
        by (intro inj_onD [of rt_session_id "set (filter live_token (client_refresh_tokens db))"])
          (auto simp: sessions_wf_def distinct_map)
      ultimately show False using rt(2) by blast
    qed
    have new: "rt_id ?new \<notin> rt_id ` set ?used" "rt_token_hash ?new \<notin> rt_token_hash ` set ?used"
      using clash by (auto simp: list_all_iff refresh_token_clash_def)
    have "?s \<in> ses_id ` set (client_sessions db)"
      using wf rt(1,3) unfolding sessions_wf_def list_all_iff by metis
    moreover have "?s \<notin> rt_session_id ` set (filter live_token ?used)"
      unfolding image_iff set_filter using gone by fastforce
    ultimately show ?thesis using m new by (simp add: sessions_wf_def db')
  qed
  moreover have "\<forall>x \<in> set (client_refresh_tokens db). \<exists>x' \<in> set (client_refresh_tokens db'). token_continues x x'"
    using mid by (auto simp: sessions_evolve_def db')
  ultimately show ?thesis
    unfolding sessions_evolve_def db' by (simp, meson session_continues_refl)
qed

lemma refresh_rotate_cases:
  obtains (rotated) r db' where "refresh_transaction cx p db = Inr (r, db')"
      "refresh_rotate cx p db = (Inr r, db')"
    | (failed) e where "refresh_rotate cx p db = (Inl e, db)"
    | (reused) db' where "\<forall>rt \<in> set (client_refresh_tokens db). rt_id rt = rt_id (rp_token p) \<longrightarrow> \<not> live_token rt"
      "db' = snd (revoke_session (cx_env cx) (ses_id (rp_session p)) db)"
      "refresh_rotate cx p db = (Inl refresh_reuse_detected, db')"
proof (cases "mark_refresh_token_used_in_transaction (cx_env cx) (rt_id (rp_token p)) db")
  case (Inl e)
  note facts = this [unfolded mark_used_Inl]
  have "refresh_rotate cx p db
      = (Inl refresh_reuse_detected, snd (revoke_session (cx_env cx) (ses_id (rp_session p)) db))"
    using Inl facts by (simp add: refresh_rotate_def io_bind_def revoke_session_def io_fail_def
        is_refresh_reuse_def refresh_reuse_detected_def)
  with facts show ?thesis using reused by blast
next
  case (Inr x)
  then have "refresh_rotate cx p db = commit (refresh_transaction cx p) db" by (simp add: refresh_rotate_def)
  then show ?thesis using rotated failed by (cases "refresh_transaction cx p db") (auto simp: commit_def)
qed

lemma rotate_evolves:
  assumes "plan_ok p db" and "refresh_rotate cx p db = (r, db')"
  shows "sessions_evolve db db'"
proof (cases rule: refresh_rotate_cases [where cx = cx and p = p and db = db])
  case (rotated r' db'')
  with evolve_rotation [OF assms(1) rotated(1)] assms(2) show ?thesis by simp
next
  case (failed e)
  with assms(2) show ?thesis using se.refl by simp
next
  case (reused db'')
  with assms(2) se_revoke_session show ?thesis by (auto simp: io_respects_def)
qed

lemma signer_frame:
  assumes "prepare_client_access_token_signer cx db = (r, db')"
  shows "only_keys_changed db db'"
proof -
  have "tx_respects only_keys_changed (tx_bind (create_signing_key_in_transaction env n)
      (\<lambda>k. tx_bind (audit_signing_key_create cx k) (\<lambda>_. tx_return k)))" for env n
    by (auto simp: tx_respects_def tx_success create_signing_key_Inr audit_signing_key_create_def
        only_keys_changed_def dest!: audit_record_Inr)
  then have "only_keys_changed db (snd (get_or_create_jwt_signing_key cx db))" for db
    by (auto simp: get_or_create_jwt_signing_key_def Let_def monad_simps tx_respects_def
        split: option.split sum.split prod.split)
  then show ?thesis using assms
    by (auto simp: prepare_client_access_token_signer_def monad_simps split: prod.splits sum.splits)
      (metis snd_conv)+
qed

text \<open>The plan of a check that succeeds: a live, unexpired token of a live session.\<close>

lemma refresh_check_Inr:
  assumes "refresh_check cx token db = (Inr p, db')"
  shows "rp_token p \<in> set (client_refresh_tokens db') \<and> live_token (rp_token p)
    \<and> rp_session p \<in> set (client_sessions db') \<and> ses_id (rp_session p) = rt_session_id (rp_token p)
    \<and> env_now (cx_env cx) < rt_expires_at (rp_token p) \<and> env_now (cx_env cx) < ses_expires_at (rp_session p)
    \<and> ses_revoked_at (rp_session p) = None \<and> (\<exists>d. session_active (rp_session p) d db')
    \<and> hash_token (cx_crypto cx) (cfg_refresh_token_pepper (cx_cfg cx)) (trim token)
        = Inr (rt_token_hash (rp_token p))
    \<and> hash_token (cx_crypto cx) (cfg_refresh_token_pepper (cx_cfg cx)) (cx_token cx)
        = Inr (rp_next_token_hash p)
    \<and> (\<exists>rd. only_keys_changed (db\<lparr>redis := rd\<rparr>) db')"
proof -
  from assms obtain h u db1 d where
    h: "hash_token (cx_crypto cx) (cfg_refresh_token_pepper (cx_cfg cx)) (trim token) = Inr h"
    and t: "find_refresh_token_by_hash h db = Some (rp_token p)"
    and limit: "refresh_limit cx (env_uuid_text (cx_env cx) (rt_session_id (rp_token p))) db = (Inr u, db1)"
    and s: "find_session_by_id (rt_session_id (rp_token p)) db1 = Some (rp_session p)"
    and live: "live_token (rp_token p)" "env_now (cx_env cx) < rt_expires_at (rp_token p)"
      "env_now (cx_env cx) < ses_expires_at (rp_session p)" "ses_revoked_at (rp_session p) = None"
    and d: "ensure_session_usable (rp_session p) db1 = Inr d"
    and n: "hash_token (cx_crypto cx) (cfg_refresh_token_pepper (cx_cfg cx)) (cx_token cx)
        = Inr (rp_next_token_hash p)"
    and k: "prepare_client_access_token_signer cx db1 = (Inr (rp_signer p), db')"
    unfolding refresh_check_def Let_def
    by (auto simp: io_success live_token_def not_le split: if_splits option.splits)
  from on_redis_Inr [OF limit [unfolded refresh_limit_def]] obtain rd where db1: "db1 = db\<lparr>redis := rd\<rparr>" by blast
  note fr = only_keys_changedD [OF signer_frame [OF k]]
  from find_some [OF t [unfolded find_refresh_token_by_hash_def]]
  have "rp_token p \<in> set (client_refresh_tokens db')" "rt_token_hash (rp_token p) = h"
    by (simp_all add: fr db1)
  moreover have "session_active (rp_session p) d db'"
    using d unfolding ensure_session_usable_Inr session_active_def
    by (simp add: tenant_find_by_id_def application_find_by_id_def device_find_by_id_def fr)
  moreover from find_session_Some [OF s] have "rp_session p \<in> set (client_sessions db')"
    "ses_id (rp_session p) = rt_session_id (rp_token p)" by (simp_all add: fr)
  ultimately show ?thesis using h n live signer_frame [OF k] db1 by blast
qed


section \<open>Runs\<close>

text \<open>
  \<open>serves start db pending rotated\<close>: from \<open>start\<close> the server reached \<open>db\<close>, with the
  refreshes \<open>pending\<close> between their two parts and the tokens \<open>rotated\<close> whose refresh
  succeeded. Every request of a client or an administrator may come next, of any inputs and
  with any outcome.
\<close>

inductive serves ::
    "access_db \<Rightarrow> access_db \<Rightarrow> (client_world \<times> refresh_plan) list \<Rightarrow> uuid list \<Rightarrow> bool" for start where
  start: "serves start start [] []"
| admin: "serves start db ps ts \<Longrightarrow> admin_step t db db' \<Longrightarrow> serves start db' ps ts"
| activate: "serves start db ps ts \<Longrightarrow> serves start (snd (activate cx req db)) ps ts"
| login: "serves start db ps ts \<Longrightarrow> serves start (snd (login cx creq db)) ps ts"
| heartbeat: "serves start db ps ts \<Longrightarrow> serves start (snd (heartbeat cx c version db)) ps ts"
| logout: "serves start db ps ts \<Longrightarrow> serves start (snd (logout cx c db)) ps ts"
| verify: "serves start db ps ts \<Longrightarrow> serves start (snd (verify cx c db)) ps ts"
| refresh_begin: "serves start db ps ts \<Longrightarrow> refresh_check cx token db = (Inr p, db') \<Longrightarrow>
    serves start db' ((cx, p) # ps) ts"
| refresh_refused: "serves start db ps ts \<Longrightarrow> refresh_check cx token db = (Inl e, db') \<Longrightarrow>
    serves start db' ps ts"
| refresh_end: "serves start db ps ts \<Longrightarrow> (cx, p) \<in> set ps \<Longrightarrow> refresh_rotate cx p db = (Inr r, db') \<Longrightarrow>
    serves start db' (remove1 (cx, p) ps) (rt_id (rp_token p) # ts)"
| refresh_lost: "serves start db ps ts \<Longrightarrow> (cx, p) \<in> set ps \<Longrightarrow> refresh_rotate cx p db = (Inl e, db') \<Longrightarrow>
    serves start db' (remove1 (cx, p) ps) ts"

definition run_ok :: "access_db \<Rightarrow> access_db \<Rightarrow> (client_world \<times> refresh_plan) list \<Rightarrow> uuid list \<Rightarrow> bool" where
  "run_ok start db ps ts \<longleftrightarrow>
     sessions_evolve start db \<and> (\<forall>(cx, p) \<in> set ps. plan_ok p db)
     \<and> (sessions_wf start \<longrightarrow> distinct ts)
     \<and> (\<forall>i \<in> set ts. \<exists>rt \<in> set (client_refresh_tokens db). rt_id rt = i \<and> \<not> live_token rt)"

lemma run_ok_step:
  assumes "run_ok start db ps ts" and "sessions_evolve db db'" and "set ps' \<subseteq> set ps"
  shows "run_ok start db' ps' ts"
proof -
  have "\<exists>rt \<in> set (client_refresh_tokens db'). rt_id rt = i \<and> \<not> live_token rt" if "i \<in> set ts" for i
    using assms(1,2) that unfolding run_ok_def sessions_evolve_def token_continues_def by metis
  moreover have "\<forall>(cx, p) \<in> set ps'. plan_ok p db'"
    using assms plan_ok_evolves unfolding run_ok_def by fast
  ultimately show ?thesis using assms(1,2) sessions_evolve_trans unfolding run_ok_def by blast
qed

lemma run_ok_rotated:
  assumes "run_ok start db ps ts" and "(cx, p) \<in> set ps" and "refresh_rotate cx p db = (Inr r, db')"
  shows "run_ok start db' (remove1 (cx, p) ps) (rt_id (rp_token p) # ts)"
proof -
  let ?i = "rt_id (rp_token p)"
  from assms(1,2) have ok: "plan_ok p db" by (auto simp: run_ok_def)
  have tx: "refresh_transaction cx p db = Inr (r, db')"
    using assms(3) by (cases rule: refresh_rotate_cases [where cx = cx and p = p and db = db]) auto
  from refresh_transaction_Inr(1) [OF tx] obtain x where
    x: "x \<in> set (client_refresh_tokens db)" "rt_id x = ?i" "live_token x" by blast
  have "?i \<notin> set ts" if wf: "sessions_wf start"
  proof
    assume "?i \<in> set ts"
    with assms(1) obtain y where "y \<in> set (client_refresh_tokens db)" "rt_id y = ?i" "\<not> live_token y"
      by (auto simp: run_ok_def)
    moreover have "distinct (map rt_id (client_refresh_tokens db))"
      using assms(1) wf by (auto simp: run_ok_def sessions_evolve_def sessions_wf_def)
    ultimately show False using x unfolding distinct_map inj_on_def by metis
  qed
  moreover have "\<exists>rt \<in> set (client_refresh_tokens db'). rt_id rt = ?i \<and> \<not> live_token rt"
  proof -
    let ?u = "x\<lparr>rt_used_at := Some (env_db_now (cx_env cx))\<rparr>"
    have "?u \<in> set (client_refresh_tokens db')"
      using refresh_transaction_Inr(2) [OF tx] x by (auto simp: Let_def set_update_where image_iff)
    then show ?thesis using x(2) by (auto simp: live_token_def intro!: bexI [of _ ?u])
  qed
  moreover have "run_ok start db' (remove1 (cx, p) ps) ts"
    by (rule run_ok_step [OF assms(1) rotate_evolves [OF ok assms(3)] set_remove1_subset])
  ultimately show ?thesis by (auto simp: run_ok_def)
qed

lemma run_ok: "serves start db ps ts \<Longrightarrow> run_ok start db ps ts"
proof (induction rule: serves.induct)
  case start
  then show ?case using se.refl by (simp add: run_ok_def)
next
  case (admin db ps ts t db')
  then show ?case using run_ok_step se.step by blast
next
  case (activate db ps ts cx req)
  then show ?case using run_ok_step se_handlers(1) unfolding io_respects_def by blast
next
  case (login db ps ts cx creq)
  then show ?case using run_ok_step se_handlers(2) unfolding io_respects_def by blast
next
  case (heartbeat db ps ts cx c version)
  then show ?case using run_ok_step se_handlers(3) unfolding io_respects_def by blast
next
  case (logout db ps ts cx c)
  then show ?case using run_ok_step se_handlers(4) unfolding io_respects_def by blast
next
  case (verify db ps ts cx c)
  then show ?case using run_ok_step se_handlers(5) unfolding io_respects_def by blast
next
  case (refresh_begin db ps ts cx token p db')
  then have "sessions_evolve db db'" using se_handlers(6) unfolding io_respects_def by (metis snd_conv)
  with refresh_begin run_ok_step have ok: "run_ok start db' ps ts" by blast
  have "plan_ok p db'"
    using refresh_check_Inr [OF refresh_begin(2)] unfolding plan_ok_def by blast
  with ok show ?case by (simp add: run_ok_def)
next
  case (refresh_refused db ps ts cx token e db')
  then have "sessions_evolve db db'" using se_handlers(6) unfolding io_respects_def by (metis snd_conv)
  with refresh_refused run_ok_step show ?case by blast
next
  case (refresh_end db ps ts cx p r db')
  then show ?case using run_ok_rotated by blast
next
  case (refresh_lost db ps ts cx p e db')
  then have "plan_ok p db" by (auto simp: run_ok_def)
  from rotate_evolves [OF this refresh_lost(3)] refresh_lost run_ok_step set_remove1_subset
  show ?case by metis
qed


section \<open>Properties\<close>

text \<open>
  C1. However the requests of clients and administrators interleave, also two refreshes of the
  same token that both passed the checks: no refresh token is rotated twice, every session has
  at most one token that is neither used nor revoked, and the ids and hashes stay unique.
\<close>

theorem refresh_tokens_rotate_once:
  assumes "serves start db pending rotated" and "sessions_wf start"
  shows "distinct rotated \<and> sessions_wf db
    \<and> (\<forall>i. count_where (\<lambda>rt. rt_session_id rt = i \<and> live_token rt) (client_refresh_tokens db) \<le> 1)"
proof -
  from run_ok [OF assms(1)] assms(2) have d: "distinct rotated" and wf: "sessions_wf db"
    by (auto simp: run_ok_def sessions_evolve_def)
  have "count_where (\<lambda>rt. rt_session_id rt = i \<and> live_token rt) t \<le> 1"
    if "distinct (map rt_session_id (filter live_token t))" for i t
  proof -
    have "count_where (\<lambda>rt. rt_session_id rt = i \<and> live_token rt) t
        = count_where (\<lambda>rt. rt_session_id rt = i) (filter live_token t)"
      by (simp add: count_where_def filter_filter conj_commute)
    also have "\<dots> \<le> 1" using that by (rule count_key_le_1) simp
    finally show ?thesis .
  qed
  with d wf show ?thesis by (auto simp: sessions_wf_def)
qed

lemma find_revoked:
  "List.find (\<lambda>s. ses_id s = i) t = Some s \<Longrightarrow>
    \<exists>s'. List.find (\<lambda>s. ses_id s = i) (update_where (\<lambda>s. ses_id s = i \<and> ses_revoked_at s = None)
      (\<lambda>s. s\<lparr>ses_revoked_at := Some x\<rparr>) t) = Some s' \<and> ses_revoked_at s' \<noteq> None"
  by (induction t) (auto split: if_splits)

lemma session_revoked:
  assumes "find_session_by_id i db = Some s" and "revoke_session env i db = (r, db')"
  shows "(\<exists>s'. find_session_by_id i db' = Some s' \<and> ses_revoked_at s' \<noteq> None)
    \<and> client_refresh_tokens db' = client_refresh_tokens db
    \<and> filter (\<lambda>x. ses_id x \<noteq> i) (client_sessions db') = filter (\<lambda>x. ses_id x \<noteq> i) (client_sessions db)"
proof -
  from assms(2) have db': "db' = db\<lparr>client_sessions := update_where (\<lambda>s. ses_id s = i \<and> ses_revoked_at s = None)
      (\<lambda>s. s\<lparr>ses_revoked_at := Some (env_db_now env)\<rparr>) (client_sessions db)\<rparr>"
    by (simp add: revoke_session_def)
  have "filter (\<lambda>x. ses_id x \<noteq> i) (client_sessions db') = filter (\<lambda>x. ses_id x \<noteq> i) (client_sessions db)"
    unfolding db' by (simp, rule filter_update_other) simp
  with find_revoked [OF assms(1) [unfolded find_session_by_id_def]] show ?thesis
    by (simp add: find_session_by_id_def db')
qed

text \<open>
  C5. A refresh with a token that was already used or revoked is refused as a reuse, and the
  session it belongs to is revoked with it, as long as the rate limiter lets the request
  through and the session exists; no token and no other session changes.
\<close>

theorem reused_token_revokes_session:
  assumes "trim token \<noteq> []"
    and "hash_token (cx_crypto cx) (cfg_refresh_token_pepper (cx_cfg cx)) (trim token) = Inr h"
    and "find_refresh_token_by_hash h db = Some rt" and "\<not> live_token rt"
    and "refresh_limit cx (env_uuid_text (cx_env cx) (rt_session_id rt)) db = (Inr (), db1)"
    and "find_session_by_id (rt_session_id rt) db = Some s"
  shows "\<exists>db'. refresh cx token db = (Inl refresh_reuse_detected, db')
    \<and> (\<exists>s'. find_session_by_id (rt_session_id rt) db' = Some s' \<and> ses_revoked_at s' \<noteq> None)
    \<and> client_refresh_tokens db' = client_refresh_tokens db
    \<and> filter (\<lambda>x. ses_id x \<noteq> rt_session_id rt) (client_sessions db')
        = filter (\<lambda>x. ses_id x \<noteq> rt_session_id rt) (client_sessions db)"
proof -
  from on_redis_Inr [OF assms(5) [unfolded refresh_limit_def]] obtain rd where db1: "db1 = db\<lparr>redis := rd\<rparr>" by blast
  have s: "find_session_by_id (rt_session_id rt) db1 = Some s"
    using assms(6) by (simp add: find_session_by_id_def db1)
  then have i: "ses_id s = rt_session_id rt" using find_session_Some by blast
  have used: "rt_used_at rt \<noteq> None \<or> rt_revoked_at rt \<noteq> None" using assms(4) by (auto simp: live_token_def)
  obtain n db' where rv: "revoke_session (cx_env cx) (ses_id s) db1 = (Inr n, db')"
    by (simp add: revoke_session_def)
  have "refresh_check cx token db = (Inl refresh_reuse_detected, db')"
    using assms(1-3,5) s used rv
    by (simp add: refresh_check_def Let_def io_bind_def io_of_def io_read_def ok_or_def io_fail_def)
  then have "refresh cx token db = (Inl refresh_reuse_detected, db')"
    by (simp add: refresh_def io_bind_def)
  with session_revoked [OF s rv [unfolded i]] show ?thesis by (simp add: db1)
qed

text \<open>
  A refresh that succeeds had a live, unexpired token of a session that was neither
  revoked nor expired and whose tenant, application and device were active. It marks that
  token used and stores one new live token of the same session, under the hash of the token it
  hands out; no session changes.
\<close>

theorem refresh_rotates_token:
  assumes "refresh cx token db = (Inr r, db')"
  shows "\<exists>rt s d new rest. rt \<in> set (client_refresh_tokens db) \<and> live_token rt
    \<and> hash_token (cx_crypto cx) (cfg_refresh_token_pepper (cx_cfg cx)) (trim token) = Inr (rt_token_hash rt)
    \<and> env_now (cx_env cx) < rt_expires_at rt
    \<and> s \<in> set (client_sessions db) \<and> ses_id s = rt_session_id rt \<and> ses_revoked_at s = None
    \<and> env_now (cx_env cx) < ses_expires_at s \<and> session_active s d db
    \<and> sr_session_id r = ses_id s
    \<and> client_refresh_tokens db' = rest @ [new]
    \<and> rest = update_where (\<lambda>x. rt_id x = rt_id rt \<and> live_token x)
        (\<lambda>x. x\<lparr>rt_used_at := Some (env_db_now (cx_env cx))\<rparr>) (client_refresh_tokens db)
    \<and> live_token new \<and> rt_session_id new = ses_id s
    \<and> hash_token (cx_crypto cx) (cfg_refresh_token_pepper (cx_cfg cx)) (sr_refresh_token r)
        = Inr (rt_token_hash new)
    \<and> client_sessions db' = client_sessions db"
proof -
  from assms obtain p db1 where c: "refresh_check cx token db = (Inr p, db1)"
    and ro: "refresh_rotate cx p db1 = (Inr r, db')" by (auto simp: refresh_def io_success)
  have tx: "refresh_transaction cx p db1 = Inr (r, db')"
    using ro by (cases rule: refresh_rotate_cases [where cx = cx and p = p and db = db1]) auto
  note p = refresh_check_Inr [OF c]
  from p obtain rd d where "only_keys_changed (db\<lparr>redis := rd\<rparr>) db1" and d: "session_active (rp_session p) d db1"
    by blast
  note fr = only_keys_changedD [OF this(1), simplified]
  have out: "sr_refresh_token r = cx_token cx" "sr_session_id r = ses_id (rp_session p)"
    using tx by (auto simp: refresh_transaction_def Let_def tx_success)
  have "session_active (rp_session p) d db"
    using d by (simp add: session_active_def tenant_find_by_id_def application_find_by_id_def
        device_find_by_id_def fr)
  moreover from refresh_transaction_Inr(2) [OF tx]
  have "client_refresh_tokens db' = update_where (\<lambda>x. rt_id x = rt_id (rp_token p) \<and> live_token x)
      (\<lambda>x. x\<lparr>rt_used_at := Some (env_db_now (cx_env cx))\<rparr>) (client_refresh_tokens db)
      @ [opened_token cx (ses_id (rp_session p)) (rp_next_token_hash p)]"
    "client_sessions db' = client_sessions db"
    by (simp_all add: Let_def fr)
  ultimately show ?thesis using p out fr
    by (intro exI [of _ "rp_token p"] exI [of _ "rp_session p"] exI [of _ d]
        exI [of _ "opened_token cx (ses_id (rp_session p)) (rp_next_token_hash p)"] exI) simp
qed

lemma session_stays_revoked:
  assumes "sessions_evolve start db" and "sessions_wf start"
    and "s \<in> set (client_sessions start)" and "ses_revoked_at s \<noteq> None"
    and "x \<in> set (client_sessions db)" and "ses_id x = ses_id s"
  shows "ses_revoked_at x \<noteq> None"
proof -
  from assms(1,3,4) obtain y where y: "y \<in> set (client_sessions db)" "ses_id y = ses_id s"
    "ses_revoked_at y \<noteq> None" unfolding sessions_evolve_def session_continues_def by metis
  have "distinct (map ses_id (client_sessions db))"
    using assms(1,2) by (simp add: sessions_evolve_def sessions_wf_def)
  with y assms(5,6) have "x = y" unfolding distinct_map inj_on_def by metis
  with y show ?thesis by simp
qed

lemma checked_is_not_revoked:
  assumes "sessions_evolve start db" and "sessions_wf start"
    and "s \<in> set (client_sessions start)" and "ses_revoked_at s \<noteq> None"
    and "refresh_check cx token db = (Inr p, db')"
  shows "ses_id (rp_session p) \<noteq> ses_id s"
proof -
  have "sessions_evolve db db'" using se_handlers(6) assms(5) unfolding io_respects_def by (metis snd_conv)
  with assms(1) have "sessions_evolve start db'" by (rule sessions_evolve_trans)
  from session_stays_revoked [OF this assms(2-4)] refresh_check_Inr [OF assms(5)] show ?thesis by blast
qed

lemma pending_is_not_revoked:
  assumes "serves start db ps ts" and "sessions_wf start"
    and "s \<in> set (client_sessions start)" and "ses_revoked_at s \<noteq> None"
  shows "\<forall>(cx, p) \<in> set ps. ses_id (rp_session p) \<noteq> ses_id s"
  using assms(1)
proof induction
  case (refresh_begin db ps ts cx token p db')
  from run_ok [OF refresh_begin(1)] have "sessions_evolve start db" by (simp add: run_ok_def)
  with refresh_begin checked_is_not_revoked [OF _ assms(2-4)] show ?case by auto
next
  case (refresh_end db ps ts cx p r db')
  then show ?case using set_remove1_subset by fast
next
  case (refresh_lost db ps ts cx p e db')
  then show ?case using set_remove1_subset by fast
qed simp_all

text \<open>
  C4. A revoked session is dead: in every state the server can reach from one where the session
  is revoked, no request authenticates as it, no refresh passes its checks, and of the refreshes
  that began since, none is of that session, so none rotates a token of it. A refresh that passed its
  checks before the revocation is not among them and can still rotate.
\<close>

theorem revoked_session_stays_dead:
  assumes "serves start db pending rotated" and "sessions_wf start"
    and "s \<in> set (client_sessions start)" and "ses_revoked_at s \<noteq> None"
  shows "(\<forall>cx auth c. require_client_session cx auth db = Inr c \<longrightarrow> ctx_session_id c \<noteq> ses_id s)
    \<and> (\<forall>cx token p db'. refresh_check cx token db = (Inr p, db') \<longrightarrow> ses_id (rp_session p) \<noteq> ses_id s)
    \<and> (\<forall>(cx, p) \<in> set pending. ses_id (rp_session p) \<noteq> ses_id s)"
proof -
  from run_ok [OF assms(1)] have ev: "sessions_evolve start db" by (simp add: run_ok_def)
  have "ctx_session_id c \<noteq> ses_id s" if "require_client_session cx auth db = Inr c" for cx auth c
    using that
  proof (rule require_client_session_Inr)
    fix x e
    assume "x \<in> set (client_sessions db)" "ses_revoked_at x = None" "c = session_context x e"
    moreover from this(3) have "ctx_session_id c = ses_id x" by (simp add: session_context_def)
    ultimately show ?thesis using session_stays_revoked [OF ev assms(2-4)] by metis
  qed
  with checked_is_not_revoked [OF ev assms(2-4)] pending_is_not_revoked [OF assms] show ?thesis by blast
qed


section \<open>A live session can refresh\<close>

lemma session_active_redis: "session_active s d (db\<lparr>redis := rd\<rparr>) = session_active s d db"
  by (simp add: session_active_def tenant_find_by_id_def application_find_by_id_def device_find_by_id_def)

lemma entitlement_redis: "load_client_entitlement s d now (db\<lparr>redis := rd\<rparr>) = load_client_entitlement s d now db"
  by (simp add: load_client_entitlement_def license_find_by_id_def subscription_find_by_id_def
      split: option.split)

lemma refresh_succeeds:
  assumes "trim token \<noteq> []"
    and "hash_token (cx_crypto cx) (cfg_refresh_token_pepper (cx_cfg cx)) (trim token) = Inr (rt_token_hash rt)"
    and "find_refresh_token_by_hash (rt_token_hash rt) db = Some rt" and "live_token rt"
    and "env_now (cx_env cx) < rt_expires_at rt"
    and "refresh_limit cx (env_uuid_text (cx_env cx) (rt_session_id rt)) db = (Inr (), db\<lparr>redis := rd\<rparr>)"
    and "find_session_by_id (rt_session_id rt) db = Some s" and "ses_revoked_at s = None"
    and "env_now (cx_env cx) < ses_expires_at s" and "session_active s d db"
    and "load_client_entitlement s d (env_now (cx_env cx)) db = Inr e"
    and "hash_token (cx_crypto cx) (cfg_refresh_token_pepper (cx_cfg cx)) (cx_token cx) = Inr h"
    and "prepare_client_access_token_signer cx (db\<lparr>redis := rd\<rparr>) = (Inr signer, db1)"
    and "signer_sign cx signer (access_claims cx s (env_now (cx_env cx))
       (cfg_client_access_token_ttl_seconds (cx_cfg cx))) = Inr access"
    and "list_all (\<lambda>x. rt_id x \<noteq> env_refresh_token_id (cx_env cx) \<and> rt_token_hash x \<noteq> h)
       (client_refresh_tokens db)"
  shows "\<exists>p r db'. refresh_check cx token db = (Inr p, db1) \<and> refresh_rotate cx p db1 = (Inr r, db')
    \<and> rp_token p = rt \<and> sr_access_token r = access \<and> sr_session_id r = ses_id s"
proof -
  let ?p = "\<lparr>rp_token = rt, rp_session = s, rp_entitlement = e, rp_next_token_hash = h, rp_signer = signer\<rparr>"
  let ?rdb = "db\<lparr>redis := rd\<rparr>"
  have found: "find_session_by_id (rt_session_id rt) ?rdb = Some s"
    using assms(7) by (simp add: find_session_by_id_def)
  have usable: "ensure_session_usable s ?rdb = Inr d"
    using assms(10) by (simp add: ensure_session_usable_Inr session_active_redis)
  have check: "refresh_check cx token db = (Inr ?p, db1)"
    using assms(1-6,8,9,11-13) found usable
    by (simp add: refresh_check_def Let_def io_bind_def io_of_def io_read_def io_return_def ok_or_def
        live_token_def entitlement_redis)
  note fr = only_keys_changedD [OF signer_frame [OF assms(13)], simplified]
  let ?used = "update_where (\<lambda>x. rt_id x = rt_id rt \<and> live_token x)
      (\<lambda>x. x\<lparr>rt_used_at := Some (env_db_now (cx_env cx))\<rparr>) (client_refresh_tokens db1)"
  have "rt \<in> set (client_refresh_tokens db1)"
    using assms(3) find_some unfolding find_refresh_token_by_hash_def fr by metis
  then have mark: "mark_refresh_token_used_in_transaction (cx_env cx) (rt_id rt) db1
      = Inr ((), db1\<lparr>client_refresh_tokens := ?used\<rparr>)"
    using assms(4) by (auto simp: mark_used_Inr)
  have "list_all (\<lambda>x. \<not> refresh_token_clash (opened_token cx (ses_id s) h) x) ?used"
    using assms(15) unfolding fr by (auto simp: list_all_iff set_update_where refresh_token_clash_def)
  then have new: "create_client_refresh_token_in_transaction (cx_env cx)
      (new_client_refresh_token_new (cx_env cx) (ses_id s) h
        (env_now (cx_env cx) + seconds (cfg_client_refresh_token_ttl_seconds (cx_cfg cx))))
      (db1\<lparr>client_refresh_tokens := ?used\<rparr>)
      = Inr (opened_token cx (ses_id s) h, db1\<lparr>client_refresh_tokens := ?used @ [opened_token cx (ses_id s) h]\<rparr>)"
    unfolding create_token_Inr by (simp add: opened_token_def)
  have "\<exists>r. refresh_transaction cx ?p db1
      = Inr (r, db1\<lparr>client_refresh_tokens := ?used @ [opened_token cx (ses_id s) h]\<rparr>)
      \<and> sr_access_token r = access \<and> sr_session_id r = ses_id s"
    using mark new assms(14)
    by (simp add: refresh_transaction_def Let_def tx_bind_def tx_of_def tx_return_def)
  then have "\<exists>r db'. refresh_rotate cx ?p db1 = (Inr r, db') \<and> sr_access_token r = access
      \<and> sr_session_id r = ses_id s"
    using mark by (auto simp: refresh_rotate_def commit_def)
  with check show ?thesis by fastforce
qed

text \<open>
  A client with a live, unexpired token of a live session of an active tenant, application
  and device can refresh: if the limiter admits the request, the signing key is there and the
  fresh token is new, the two parts of \<open>refresh\<close> succeed and return a new access token of
  that session.
\<close>

theorem live_session_can_refresh:
  assumes "trim token \<noteq> []"
    and "hash_token (cx_crypto cx) (cfg_refresh_token_pepper (cx_cfg cx)) (trim token) = Inr (rt_token_hash rt)"
    and "find_refresh_token_by_hash (rt_token_hash rt) db = Some rt" and "live_token rt"
    and "env_now (cx_env cx) < rt_expires_at rt"
    and "refresh_limit cx (env_uuid_text (cx_env cx) (rt_session_id rt)) db = (Inr (), db\<lparr>redis := rd\<rparr>)"
    and "find_session_by_id (rt_session_id rt) db = Some s" and "ses_revoked_at s = None"
    and "env_now (cx_env cx) < ses_expires_at s" and "session_active s d db"
    and "load_client_entitlement s d (env_now (cx_env cx)) db = Inr e"
    and "hash_token (cx_crypto cx) (cfg_refresh_token_pepper (cx_cfg cx)) (cx_token cx) = Inr h"
    and "prepare_client_access_token_signer cx (db\<lparr>redis := rd\<rparr>) = (Inr signer, db1)"
    and "signer_sign cx signer (access_claims cx s (env_now (cx_env cx))
       (cfg_client_access_token_ttl_seconds (cx_cfg cx))) = Inr access"
    and "list_all (\<lambda>x. rt_id x \<noteq> env_refresh_token_id (cx_env cx) \<and> rt_token_hash x \<noteq> h)
       (client_refresh_tokens db)"
  shows "\<exists>r db'. refresh cx token db = (Inr r, db') \<and> sr_access_token r = access
    \<and> sr_session_id r = rt_session_id rt"
  using refresh_succeeds [OF assms] find_session_Some [OF assms(7)]
  by (auto simp: refresh_def io_bind_def)


section \<open>Concrete instances\<close>

definition sample_old_token :: client_refresh_token where
  "sample_old_token = (sample_refresh_token 21 11)\<lparr>rt_token_hash := letters ''qold''\<rparr>"

definition sample_session_db :: access_db where
  "sample_session_db = sample_client_db\<lparr>devices := [sample_device 1 ''m1'' (Some 7) ''active''],
     client_sessions := [sample_session 11 1], client_refresh_tokens := [sample_old_token]\<rparr>"

lemma sample_session_db_wf: "sessions_wf sample_session_db"
  by (simp add: sessions_wf_def sample_session_db_def sample_old_token_def sample_refresh_token_def
      sample_session_def)

abbreviation sample_refresh_limit :: "(app_error + unit) \<times> redis" where
  "sample_refresh_limit \<equiv> check_fixed_window no_fault 50 (refresh_key ''s'' ''unknown'') 60 300
     refresh_rate_limited Map.empty"

lemma sample_refresh_allowed: "fst sample_refresh_limit = Inr ()"
  by code_simp

lemma sample_limit_step:
  assumes "redis db = Map.empty"
  shows "refresh_limit (sample_world 50) (env_uuid_text (cx_env (sample_world 50)) i) db
    = (Inr (), db\<lparr>redis := snd sample_refresh_limit\<rparr>)"
proof -
  have "env_uuid_text (cx_env (sample_world 50)) i = ''s''" by (simp add: sample_world_def)
  then show ?thesis using sample_refresh_allowed assms
    by (simp add: refresh_limit_def on_redis_def sample_config_def client_ip_def case_prod_unfold)
qed

lemma sample_session_redis: "redis sample_session_db = Map.empty"
  by (simp add: sample_session_db_def sample_client_db_def empty_db_def)

lemma sample_session_facts:
  "trim ''old'' \<noteq> []" "hash_token sample_crypto ''q'' (trim ''old'') = Inr (rt_token_hash sample_old_token)"
  "find_refresh_token_by_hash (rt_token_hash sample_old_token) sample_session_db = Some sample_old_token"
  "live_token sample_old_token" "50 < rt_expires_at sample_old_token"
  "find_session_by_id (rt_session_id sample_old_token) sample_session_db = Some (sample_session 11 1)"
  "ses_revoked_at (sample_session 11 1) = None" "50 < ses_expires_at (sample_session 11 1)"
  "hash_token sample_crypto ''q'' ''tok'' = Inr (letters ''qtok'')"
  by (simp_all add: sample_session_db_def sample_old_token_def sample_refresh_token_def sample_session_def
      find_refresh_token_by_hash_def find_session_by_id_def live_token_def trim_graphic graphic_def byte_def
      hash_token_def sample_crypto_def)

lemma sample_session_usable:
  "session_active (sample_session 11 1) (sample_device 1 ''m1'' (Some 7) ''active'') sample_session_db"
  "is_ok (load_client_entitlement (sample_session 11 1) (sample_device 1 ''m1'' (Some 7) ''active'') 50 sample_session_db)"
  "list_all (\<lambda>x. rt_id x \<noteq> 105 \<and> rt_token_hash x \<noteq> letters ''qtok'') (client_refresh_tokens sample_session_db)"
  "is_ok (signer_sign (sample_world 50) \<lparr>sig_kid = ''kid_1'', sig_private_key = ''pkcs8''\<rparr>
     (access_claims (sample_world 50) (sample_session 11 1) 50 900))"
  by (code_simp, code_simp, code_simp, code_simp)

lemma sample_signer:
  "prepare_client_access_token_signer (sample_world 50) (sample_session_db\<lparr>redis := rd\<rparr>)
    = (Inr \<lparr>sig_kid = ''kid_1'', sig_private_key = ''pkcs8''\<rparr>, sample_session_db\<lparr>redis := rd\<rparr>)"
proof -
  have "find_active_global_signing_key_with_private_envelope 50 ''jwt_access_token''
      (sample_session_db\<lparr>redis := rd\<rparr>) = Some sample_key"
    using sample_key_found [of rd]
    by (simp add: sample_session_db_def find_active_global_signing_key_with_private_envelope_def)
  with sample_decrypt show ?thesis
    using prepare_signer_found [of "sample_world 50" "sample_session_db\<lparr>redis := rd\<rparr>" sample_key]
    by (simp add: sample_key_def)
qed

text \<open>What the client's one token of the sample session gives.\<close>

lemma sample_config_facts:
  "cfg_refresh_token_pepper sample_config = ''q''"
  "cfg_client_access_token_ttl_seconds sample_config = 900"
  "env_refresh_token_id (cx_env (sample_world now)) = 105"
  by (simp_all add: sample_config_def sample_world_def sample_env_def)

lemma is_okE: "is_ok r \<Longrightarrow> \<exists>x. r = Inr x"
  by (simp add: is_ok_def split: sum.splits)

lemma sample_refresh:
  "\<exists>p db1 r db'. refresh_check (sample_world 50) ''old'' sample_session_db = (Inr p, db1)
     \<and> refresh_rotate (sample_world 50) p db1 = (Inr r, db') \<and> rp_token p = sample_old_token"
proof -
  let ?s = "sample_session 11 1" and ?d = "sample_device 1 ''m1'' (Some 7) ''active''"
  obtain e access where e: "load_client_entitlement ?s ?d 50 sample_session_db = Inr e"
    and a: "signer_sign (sample_world 50) \<lparr>sig_kid = ''kid_1'', sig_private_key = ''pkcs8''\<rparr>
     (access_claims (sample_world 50) ?s 50 900) = Inr access"
    using is_okE [OF sample_session_usable(2)] is_okE [OF sample_session_usable(4)] by blast
  show ?thesis
    using refresh_succeeds [where cx = "sample_world 50", unfolded sample_world_simps sample_config_facts,
        OF sample_session_facts(1-5) sample_limit_step [OF sample_session_redis] sample_session_facts(6-8)
          sample_session_usable(1) e sample_session_facts(9) sample_signer a sample_session_usable(3)]
    by fastforce
qed

theorem refresh_tokens_rotate_once_witness:
  "\<exists>db. serves sample_session_db db [] [21] \<and> sessions_wf db"
proof -
  obtain p db1 r db' where c: "refresh_check (sample_world 50) ''old'' sample_session_db = (Inr p, db1)"
    and ro: "refresh_rotate (sample_world 50) p db1 = (Inr r, db')" "rp_token p = sample_old_token"
    using sample_refresh by blast
  have "serves sample_session_db db1 [(sample_world 50, p)] []"
    using serves.refresh_begin [OF serves.start c] by simp
  from serves.refresh_end [OF this _ ro(1)] have run: "serves sample_session_db db' [] [21]"
    by (simp add: ro(2) sample_old_token_def sample_refresh_token_def)
  with refresh_tokens_rotate_once [OF run sample_session_db_wf] show ?thesis by blast
qed

theorem refresh_rotates_token_witness:
  "\<exists>r db' rest new. refresh (sample_world 50) ''old'' sample_session_db = (Inr r, db')
     \<and> client_refresh_tokens db' = rest @ [new] \<and> live_token new"
proof -
  obtain r db' where "refresh (sample_world 50) ''old'' sample_session_db = (Inr r, db')"
    using sample_refresh by (auto simp: refresh_def io_bind_def)
  with refresh_rotates_token [OF this] show ?thesis by blast
qed

theorem live_session_can_refresh_witness:
  "\<exists>r db'. refresh (sample_world 50) ''old'' sample_session_db = (Inr r, db') \<and> sr_session_id r = 11"
proof -
  let ?s = "sample_session 11 1" and ?d = "sample_device 1 ''m1'' (Some 7) ''active''"
  obtain e access where e: "load_client_entitlement ?s ?d 50 sample_session_db = Inr e"
    and a: "signer_sign (sample_world 50) \<lparr>sig_kid = ''kid_1'', sig_private_key = ''pkcs8''\<rparr>
     (access_claims (sample_world 50) ?s 50 900) = Inr access"
    using is_okE [OF sample_session_usable(2)] is_okE [OF sample_session_usable(4)] by blast
  have "rt_session_id sample_old_token = 11" by (simp add: sample_old_token_def sample_refresh_token_def)
  then show ?thesis
    using live_session_can_refresh [where cx = "sample_world 50", unfolded sample_world_simps sample_config_facts,
        OF sample_session_facts(1-5) sample_limit_step [OF sample_session_redis] sample_session_facts(6-8)
          sample_session_usable(1) e sample_session_facts(9) sample_signer a sample_session_usable(3)]
    by fastforce
qed

text \<open>The same token after it was used.\<close>

theorem reused_token_revokes_session_witness:
  "\<exists>db'. refresh (sample_world 50) ''old''
       (sample_session_db\<lparr>client_refresh_tokens := [sample_old_token\<lparr>rt_used_at := Some 40\<rparr>]\<rparr>)
     = (Inl refresh_reuse_detected, db')
     \<and> (\<exists>s'. find_session_by_id 11 db' = Some s' \<and> ses_revoked_at s' \<noteq> None)"
proof -
  let ?rt = "sample_old_token\<lparr>rt_used_at := Some 40\<rparr>"
  let ?db = "sample_session_db\<lparr>client_refresh_tokens := [?rt]\<rparr>"
  have limit: "refresh_limit (sample_world 50) (env_uuid_text (cx_env (sample_world 50)) i) ?db
      = (Inr (), ?db\<lparr>redis := snd sample_refresh_limit\<rparr>)" for i
    by (rule sample_limit_step) (simp add: sample_session_redis)
  have "find_refresh_token_by_hash (rt_token_hash sample_old_token) ?db = Some ?rt" "\<not> live_token ?rt"
    "find_session_by_id 11 ?db = Some (sample_session 11 1)" "rt_session_id ?rt = 11"
    by (simp_all add: find_refresh_token_by_hash_def live_token_def find_session_by_id_def sample_session_db_def
        sample_session_def sample_old_token_def sample_refresh_token_def)
  then show ?thesis
    using reused_token_revokes_session [of "''old''" "sample_world 50" "rt_token_hash sample_old_token" ?db ?rt
        "?db\<lparr>redis := snd sample_refresh_limit\<rparr>" "sample_session 11 1"]
      sample_session_facts(1,2) limit
    unfolding sample_world_simps sample_config_facts by auto
qed

theorem revoked_session_stays_dead_witness:
  "\<nexists>cx auth c. require_client_session cx auth
       (snd (logout (sample_world 50) (session_context (sample_session 11 1) None)
         (sample_session_db\<lparr>client_sessions := [(sample_session 11 1)\<lparr>ses_revoked_at := Some 7\<rparr>]\<rparr>)))
     = Inr c \<and> ctx_session_id c = 11"
proof -
  let ?s = "(sample_session 11 1)\<lparr>ses_revoked_at := Some 7\<rparr>"
  let ?db = "sample_session_db\<lparr>client_sessions := [?s]\<rparr>"
  have wf: "sessions_wf ?db"
    by (simp add: sessions_wf_def sample_session_db_def sample_old_token_def sample_refresh_token_def
        sample_session_def)
  have run: "serves ?db (snd (logout (sample_world 50) (session_context (sample_session 11 1) None) ?db)) [] []"
    by (rule serves.logout [OF serves.start])
  have s: "?s \<in> set (client_sessions ?db)" "ses_revoked_at ?s \<noteq> None" "ses_id ?s = 11"
    by (simp_all add: sample_session_def)
  from revoked_session_stays_dead [OF run wf s(1,2)] show ?thesis unfolding s(3) by blast
qed

end
