(* ===== verification/Text.thy ===== *)
theory Text
  imports Prelude Complex_Main
begin

text \<open>
  The text of numbers, as Rust's standard library reads and prints them: \<open>i64\<close> in decimal, and
  the reading of an \<open>f64\<close>. A finite \<open>f64\<close> is the rational it denotes, and reading rounds to the
  nearest one, halves to the even mantissa, exactly as IEEE 754 asks.
\<close>


section \<open>Reading and printing an i64\<close>

fun digit :: "nat \<Rightarrow> char" where
  "digit n = char_of (48 + n mod 10)"

function show_nat :: "nat \<Rightarrow> string" where
  "show_nat n = (if n < 10 then [digit n] else show_nat (n div 10) @ [digit n])"
  by pat_completeness auto
termination by (relation "measure id") auto

declare show_nat.simps [simp del]

definition show_i64 :: "i64 \<Rightarrow> string" where
  "show_i64 n = (if n < 0 then CHR ''-'' # show_nat (nat (- n)) else show_nat (nat n))"

definition is_digit :: "char \<Rightarrow> bool" where
  "is_digit c \<longleftrightarrow> 48 \<le> byte c \<and> byte c \<le> 57"

definition digits_value :: "string \<Rightarrow> nat" where
  "digits_value s = foldl (\<lambda>v c. v * 10 + (byte c - 48)) 0 s"

text \<open>\<open>i64::from_str\<close>: one optional sign, at least one digit, a value in range.\<close>

definition parse_i64 :: "string \<Rightarrow> i64 option" where
  "parse_i64 s =
     (let negative = (s \<noteq> [] \<and> hd s = CHR ''-'');
          ds = (if negative \<or> (s \<noteq> [] \<and> hd s = CHR ''+'') then tl s else s);
          v = (if negative then - int (digits_value ds) else int (digits_value ds))
      in if ds \<noteq> [] \<and> list_all is_digit ds \<and> in_i64 v then Some v else None)"

lemma byte_digit: "byte (digit n) = 48 + n mod 10"
  by (simp add: byte_def)

lemma is_digit_digit [simp]: "is_digit (digit n)"
  unfolding is_digit_def byte_digit by (simp add: Suc_le_eq)

lemma show_nat_digits: "list_all is_digit (show_nat n) \<and> show_nat n \<noteq> []"
proof (induction n rule: show_nat.induct)
  case (1 n)
  then show ?case by (subst (1 2) show_nat.simps) (simp del: digit.simps)
qed

lemma digits_value_snoc: "digits_value (s @ [c]) = digits_value s * 10 + (byte c - 48)"
  by (simp add: digits_value_def)

lemma digits_value_show: "digits_value (show_nat n) = n"
proof (induction n rule: show_nat.induct)
  case (1 n)
  show ?case
  proof (cases "n < 10")
    case True
    then show ?thesis by (subst show_nat.simps) (simp add: digits_value_def byte_digit del: digit.simps)
  next
    case False
    with 1 show ?thesis
      by (subst show_nat.simps) (simp add: digits_value_snoc byte_digit del: digit.simps)
  qed
qed

lemma digit_not_sign: "is_digit c \<Longrightarrow> c \<noteq> CHR ''-'' \<and> c \<noteq> CHR ''+'' \<and> c \<noteq> CHR 10"
  by (auto simp: is_digit_def byte_def)

lemma parse_show_i64:
  assumes "in_i64 n"
  shows "parse_i64 (show_i64 n) = Some n"
proof -
  let ?d = "show_nat (nat \<bar>n\<bar>)"
  from show_nat_digits [of "nat \<bar>n\<bar>"] have d: "list_all is_digit ?d" "?d \<noteq> []" by auto
  then have "hd ?d \<noteq> CHR ''-''" "hd ?d \<noteq> CHR ''+''"
    using digit_not_sign by (cases ?d; auto)+
  moreover have "show_i64 n = (if n < 0 then CHR ''-'' # ?d else ?d)" by (simp add: show_i64_def)
  ultimately show ?thesis using d assms digits_value_show by (auto simp: parse_i64_def Let_def)
qed

lemma show_i64_chars: "CHR 10 \<notin> set (show_i64 n)"
  using show_nat_digits digit_not_sign by (auto simp: show_i64_def list_all_iff)


section \<open>Reading an f64\<close>

text \<open>The number of binary digits, and the exponent \<open>e\<close> with \<open>2^e \<le> a / b < 2^(e+1)\<close>.\<close>

function bit_length :: "nat \<Rightarrow> nat" where
  "bit_length n = (if n = 0 then 0 else Suc (bit_length (n div 2)))"
  by pat_completeness auto
termination by (relation "measure id") auto

declare bit_length.simps [simp del]

definition binary_exponent :: "nat \<Rightarrow> nat \<Rightarrow> int" where
  "binary_exponent a b =
     (let d = int (bit_length a) - int (bit_length b) in
      if (if 0 \<le> d then b * 2 ^ nat d \<le> a else b \<le> a * 2 ^ nat (- d)) then d else d - 1)"

definition round_half_even :: "nat \<Rightarrow> nat \<Rightarrow> nat" where
  "round_half_even a b =
     (let q = a div b; r = a mod b in
      if 2 * r < b \<or> (2 * r = b \<and> even q) then q else Suc q)"

text \<open>
  The double nearest to \<open>a / b\<close>: a mantissa below \<open>2^53\<close> at the exponent of the value, or at
  \<open>-1074\<close> for the subnormal ones, \<open>None\<close> when it is infinite.
\<close>

definition f64_of_ratio :: "nat \<Rightarrow> nat \<Rightarrow> rat option" where
  "f64_of_ratio a b =
     (if a = 0 then Some 0
      else
        (let e = max (- 1074) (binary_exponent a b - 52);
             m = (if 0 \<le> e then round_half_even a (b * 2 ^ nat e)
                  else round_half_even (a * 2 ^ nat (- e)) b);
             v = (if 0 \<le> e then of_nat (m * 2 ^ nat e) else of_nat m / of_nat (2 ^ nat (- e)))
         in if v < 2 ^ 1024 then Some v else None))"

definition take_digits :: "string \<Rightarrow> string \<times> string" where
  "take_digits s = (takeWhile is_digit s, dropWhile is_digit s)"

text \<open>An exponent: the letter, an optional sign and at least one digit, at the end.\<close>

definition parse_exponent :: "string \<Rightarrow> int option" where
  "parse_exponent s =
     (case s of
        [] \<Rightarrow> Some 0
      | c # rest \<Rightarrow>
          if c \<noteq> CHR ''e'' \<and> c \<noteq> CHR ''E'' then None
          else
            (let negative = (rest \<noteq> [] \<and> hd rest = CHR ''-'');
                 ds = (if negative \<or> (rest \<noteq> [] \<and> hd rest = CHR ''+'') then tl rest else rest) in
             if ds = [] \<or> \<not> list_all is_digit ds then None
             else Some (if negative then - int (digits_value ds) else int (digits_value ds))))"

text \<open>
  \<open>f64::from_str\<close>, \<open>None\<close> for an error and for the values that are not finite (\<open>inf\<close>,
  \<open>infinity\<close>, \<open>nan\<close>, or too large), which the sources all discard.
\<close>

definition parse_finite_f64 :: "string \<Rightarrow> rat option" where
  "parse_finite_f64 s =
     (let negative = (s \<noteq> [] \<and> hd s = CHR ''-'');
          body = (if negative \<or> (s \<noteq> [] \<and> hd s = CHR ''+'') then tl s else s);
          (int_part, rest) = take_digits body;
          (frac_part, rest) =
            (case rest of
               [] \<Rightarrow> ([], [])
             | c # cs \<Rightarrow> if c = CHR ''.'' then take_digits cs else ([], rest))
      in if int_part = [] \<and> frac_part = [] then None
         else
           (case parse_exponent rest of
              None \<Rightarrow> None
            | Some e \<Rightarrow>
                (let k = e - int (length frac_part);
                     n = digits_value (int_part @ frac_part);
                     v = (if 0 \<le> k then f64_of_ratio (n * 10 ^ nat k) 1
                          else f64_of_ratio n (10 ^ nat (- k)))
                 in map_option (\<lambda>q. if negative then - q else q) v)))"

text \<open>\<open>f64::ceil\<close> and the saturating cast \<open>as i64\<close>.\<close>

definition f64_ceil_as_i64 :: "rat \<Rightarrow> i64" where
  "f64_ceil_as_i64 q = saturating_i64 (ceiling q)"

text \<open>\<open>join\<close> of a slice of strings.\<close>

fun join_text :: "string \<Rightarrow> string list \<Rightarrow> string" where
  "join_text sep [] = []"
| "join_text sep [s] = s"
| "join_text sep (s # t # ss) = s @ sep @ join_text sep (t # ss)"

end
