(* ===== verification/Signatures.thy ===== *)
theory Signatures
  imports ClientAuth Text
begin

text \<open>
  Signed requests of devices (\<open>modules/client_auth/signature.rs\<close>): the headers, the message
  a device signs, the tolerance of its clock and the nonces in redis. Parsing a uuid is the
  uuid crate's code and a parameter; reading and printing an \<open>i64\<close> is in \<open>Text\<close>.
\<close>


section \<open>Headers\<close>

text \<open>The value of a header, \<open>None\<close> when it is missing or not visible ASCII.\<close>

type_synonym headers = "string \<Rightarrow> string option"

definition read_required_header :: "headers \<Rightarrow> string \<Rightarrow> app_error + string" where
  "read_required_header headers name =
     ok_or (case headers name of
              None \<Rightarrow> None
            | Some v \<Rightarrow> (let t = trim v in if t = [] then None else Some t))
       (SignatureRequired (name @ '' is required''))"

definition read_uuid_header ::
    "(string \<Rightarrow> uuid option) \<Rightarrow> headers \<Rightarrow> string \<Rightarrow> app_error + uuid" where
  "read_uuid_header parse_uuid headers name =
     rs_bind (read_required_header headers name) (\<lambda>v.
     ok_or (parse_uuid v) (SignatureInvalid (name @ '' is invalid'')))"

definition read_i64_header :: "headers \<Rightarrow> string \<Rightarrow> app_error + i64" where
  "read_i64_header headers name =
     rs_bind (read_required_header headers name) (\<lambda>v.
     ok_or (parse_i64 v) (SignatureInvalid (name @ '' is invalid'')))"

definition nonce_char :: "char \<Rightarrow> bool" where
  "nonce_char c \<longleftrightarrow>
     is_digit c \<or> (65 \<le> byte c \<and> byte c \<le> 90) \<or> (97 \<le> byte c \<and> byte c \<le> 122)
     \<or> c = CHR ''-'' \<or> c = CHR ''_''"

definition nonce_min_len :: nat where "nonce_min_len = 16"
definition nonce_max_len :: nat where "nonce_max_len = 128"
definition nonce_ttl_seconds :: int where "nonce_ttl_seconds = 300"
definition timestamp_tolerance_seconds :: i64 where "timestamp_tolerance_seconds = 300"

definition read_nonce_header :: "headers \<Rightarrow> string \<Rightarrow> app_error + string" where
  "read_nonce_header headers name =
     rs_bind (read_required_header headers name) (\<lambda>n.
     if length n < nonce_min_len \<or> length n > nonce_max_len \<or> \<not> list_all nonce_char n
     then Inl (SignatureInvalid (name @ '' is invalid'')) else Inr n)"


section \<open>The signature\<close>

text \<open>\<open>upper\<close> is \<open>str::to_uppercase\<close>, \<open>uuid_text\<close> the display of a uuid.\<close>

definition signature_message ::
    "(string \<Rightarrow> string) \<Rightarrow> (uuid \<Rightarrow> string) \<Rightarrow> string \<Rightarrow> string \<Rightarrow> string \<Rightarrow> i64 \<Rightarrow> string
      \<Rightarrow> uuid \<Rightarrow> uuid \<Rightarrow> uuid \<Rightarrow> string" where
  "signature_message upper uuid_text method path body_sha256 ts nonce device key session =
     upper method @ [CHR 10] @ path @ [CHR 10] @ body_sha256 @ [CHR 10] @ show_i64 ts
       @ [CHR 10] @ nonce @ [CHR 10] @ uuid_text device @ [CHR 10] @ uuid_text key @ [CHR 10]
       @ uuid_text session"

definition validate_body_hash :: "crypto_lib \<Rightarrow> string \<Rightarrow> string \<Rightarrow> app_error + unit" where
  "validate_body_hash c body expected =
     (if b64_url c (sha256 c body) \<noteq> expected then Inl (SignatureInvalid ''body hash mismatch'')
      else Inr ())"

text \<open>\<open>(now - timestamp).abs() > TOLERANCE\<close> with the wrapping operators of a release build.\<close>

definition timestamp_expired :: "i64 \<Rightarrow> i64 \<Rightarrow> bool" where
  "timestamp_expired now ts \<longleftrightarrow>
     (let d = i64_sub now ts in (if d < 0 then i64_neg d else d) > timestamp_tolerance_seconds)"

definition nonce_key :: "(uuid \<Rightarrow> string) \<Rightarrow> client_context \<Rightarrow> string \<Rightarrow> string" where
  "nonce_key uuid_text c nonce =
     ''nonce:'' @ uuid_text (ctx_tenant_id c) @ '':'' @ uuid_text (ctx_app_id c) @ '':''
       @ uuid_text (ctx_device_id c) @ '':'' @ nonce"

definition store_nonce ::
    "redis_fault \<Rightarrow> time \<Rightarrow> string \<Rightarrow> (redis, app_error, unit) io" where
  "store_nonce fault now key r =
     (if fault_connect fault
        then (Inl (Dependency (''redis connection failed: '' @ fault_text fault)), r)
      else if fault_command fault
        then (Inl (Dependency (''redis nonce set failed: '' @ fault_text fault)), r)
      else
        (let (stored, r1) = redis_set_nx now key r in
         if \<not> stored then (Inl (SignatureInvalid ''nonce already used''), r1)
         else if fault_expire fault
           then (Inl (Dependency (''redis nonce expire failed: '' @ fault_text fault)), r1)
         else (Inr (), redis_expire now key nonce_ttl_seconds r1)))"

record signed_request =
  sq_headers :: headers
  sq_method :: string
  sq_path :: string
  sq_body :: "string option"

text \<open>
  \<open>sq_body\<close> is \<open>None\<close> when reading it failed or it was longer than one mebibyte; \<open>parse_uuid\<close>
  and \<open>upper\<close> as above.
\<close>

definition require_device_signature ::
    "client_world \<Rightarrow> (string \<Rightarrow> uuid option) \<Rightarrow> (string \<Rightarrow> string) \<Rightarrow> client_context option
      \<Rightarrow> signed_request \<Rightarrow> unit access_io" where
  "require_device_signature cx parse_uuid upper context q =
     (let h = sq_headers q; uuid_text = env_uuid_text (cx_env cx) in
      io_bind (io_of (ok_or context unauthenticated)) (\<lambda>client.
      io_bind (io_of (read_uuid_header parse_uuid h ''X-Device-Key-Id'')) (\<lambda>key_id.
      io_bind (io_of (read_i64_header h ''X-Timestamp'')) (\<lambda>ts.
      io_bind (io_of (read_nonce_header h ''X-Nonce'')) (\<lambda>nonce.
      io_bind (io_of (read_required_header h ''X-Body-SHA256'')) (\<lambda>body_sha256.
      io_bind (io_of (read_required_header h ''X-Signature'')) (\<lambda>signature.
      if timestamp_expired (timestamp (env_now (cx_env cx))) ts
        then io_fail (SignatureInvalid ''signature timestamp expired'')
      else
      io_bind (io_of (ok_or (sq_body q) (SignatureInvalid ''request body invalid''))) (\<lambda>body.
      io_bind (io_of (validate_body_hash (cx_crypto cx) body body_sha256)) (\<lambda>_.
      io_bind (io_read (\<lambda>db. ok_or (find_active_key (ctx_tenant_id client) (ctx_app_id client)
                 (ctx_device_id client) key_id db) (SignatureInvalid ''device key invalid''))) (\<lambda>key.
      io_bind (io_of (case verify_ed25519_signature (cx_crypto cx) (dk_public_key key)
                 (signature_message upper uuid_text (sq_method q) (sq_path q) body_sha256 ts nonce
                    (ctx_device_id client) key_id (ctx_session_id client)) signature of
                 Inl _ \<Rightarrow> Inl (SignatureInvalid ''signature invalid'')
               | Inr _ \<Rightarrow> Inr ())) (\<lambda>_.
      on_redis (store_nonce (cx_fault cx) (env_now (cx_env cx))
        (nonce_key uuid_text client nonce)))))))))))))"


section \<open>Accepted requests\<close>

text \<open>What of a signed request does not depend on the clock.\<close>

definition request_signed ::
    "client_world \<Rightarrow> (string \<Rightarrow> uuid option) \<Rightarrow> (string \<Rightarrow> string) \<Rightarrow> client_context \<Rightarrow> signed_request
      \<Rightarrow> i64 \<Rightarrow> string \<Rightarrow> access_db \<Rightarrow> bool" where
  "request_signed cx parse_uuid upper c q ts nonce db \<longleftrightarrow>
     (\<exists>key_id body_sha256 signature body key.
        read_uuid_header parse_uuid (sq_headers q) ''X-Device-Key-Id'' = Inr key_id
        \<and> read_i64_header (sq_headers q) ''X-Timestamp'' = Inr ts
        \<and> read_nonce_header (sq_headers q) ''X-Nonce'' = Inr nonce
        \<and> read_required_header (sq_headers q) ''X-Body-SHA256'' = Inr body_sha256
        \<and> read_required_header (sq_headers q) ''X-Signature'' = Inr signature
        \<and> sq_body q = Some body \<and> body_sha256 = b64_url (cx_crypto cx) (sha256 (cx_crypto cx) body)
        \<and> find_active_key (ctx_tenant_id c) (ctx_app_id c) (ctx_device_id c) key_id db = Some key
        \<and> verify_ed25519_signature (cx_crypto cx) (dk_public_key key)
            (signature_message upper (env_uuid_text (cx_env cx)) (sq_method q) (sq_path q) body_sha256 ts nonce
               (ctx_device_id c) key_id (ctx_session_id c)) signature = Inr ())"

lemma drop_err_Inr: "(case x of Inl _ \<Rightarrow> Inl e | Inr _ \<Rightarrow> Inr ()) = Inr u \<longleftrightarrow> (\<exists>v. x = Inr v)"
  by (cases x) auto

lemma validate_body_hash_Inr:
  "validate_body_hash c body h = Inr u \<longleftrightarrow> h = b64_url c (sha256 c body)"
  by (auto simp: validate_body_hash_def)

lemma device_signature_Inr:
  "require_device_signature cx parse_uuid upper (Some c) q db = (Inr u, db') \<longleftrightarrow>
     (\<exists>ts nonce. request_signed cx parse_uuid upper c q ts nonce db
        \<and> \<not> timestamp_expired (timestamp (env_now (cx_env cx))) ts
        \<and> on_redis (store_nonce (cx_fault cx) (env_now (cx_env cx))
             (nonce_key (env_uuid_text (cx_env cx)) c nonce)) db = (Inr u, db'))"
  (is "?l \<longleftrightarrow> ?r")
proof
  show "?l \<Longrightarrow> ?r"
    unfolding require_device_signature_def request_signed_def Let_def
    by (auto simp: io_success drop_err_Inr validate_body_hash_Inr split: if_splits)
  show "?r \<Longrightarrow> ?l"
    unfolding require_device_signature_def request_signed_def Let_def
    by (auto simp: io_bind_def io_of_def io_read_def ok_or_def validate_body_hash_def)
qed

lemma store_nonce_Inr:
  "store_nonce fault now key r = (Inr u, r') \<longleftrightarrow>
     \<not> fault_connect fault \<and> \<not> fault_command fault \<and> \<not> fault_expire fault
     \<and> redis_get now key r = None
     \<and> r' = r(key \<mapsto> \<lparr>red_count = 1, red_expires_at = Some (now + seconds nonce_ttl_seconds)\<rparr>)"
  by (auto simp: store_nonce_def Let_def redis_set_nx_def redis_expire_def redis_get_def
      split: option.splits if_splits prod.splits)

text \<open>
  The wrapping subtraction and \<open>abs\<close>: besides the timestamps within the tolerance exactly one
  more passes, the one whose distance to the clock is \<open>-2^63\<close>, which \<open>abs\<close> leaves negative.
\<close>

lemma timestamp_in_tolerance:
  assumes "0 \<le> now" and "now < 2 ^ 62" and "in_i64 ts"
  shows "\<not> timestamp_expired now ts \<longleftrightarrow> \<bar>now - ts\<bar> \<le> timestamp_tolerance_seconds \<or> ts = now - 2 ^ 63"
proof (cases "now - ts \<le> i64_max")
  case True
  with assms have "i64_sub now ts = now - ts" "now - ts < 0 \<longrightarrow> i64_neg (now - ts) = ts - now"
    by (auto simp: i64_sub_def i64_neg_def in_i64_def intro!: wrap_i64_id)
  with True show ?thesis by (auto simp: timestamp_expired_def timestamp_tolerance_seconds_def)
next
  case False
  have "wrap_i64 (now - ts) = wrap_i64 (now - ts - 2 ^ 64)"
    using mod_add_self2 [of "now - ts - 2 ^ 64 + 9223372036854775808" "18446744073709551616 :: int"]
    by (simp add: wrap_i64_def add.commute)
  with False assms have sub: "i64_sub now ts = now - ts - 2 ^ 64"
    by (simp add: i64_sub_def in_i64_def)
  show ?thesis
  proof (cases "ts = now - 2 ^ 63")
    case True
    with sub have "i64_sub now ts = - 9223372036854775808" by simp
    then show ?thesis using True
      by (simp add: timestamp_expired_def i64_neg_def wrap_i64_def timestamp_tolerance_seconds_def)
  next
    case other: False
    with False assms have "i64_neg (now - ts - 2 ^ 64) = 2 ^ 64 - (now - ts)"
      by (auto simp: i64_neg_def in_i64_def intro!: wrap_i64_id [THEN trans])
    with other False assms show ?thesis
      by (auto simp: timestamp_expired_def sub in_i64_def timestamp_tolerance_seconds_def)
  qed
qed

lemma parsed_in_i64: "parse_i64 s = Some n \<Longrightarrow> in_i64 n"
  by (auto simp: parse_i64_def Let_def split: if_splits)

lemma nonce_step_Inr:
  "on_redis m db = (Inr u, db') \<longleftrightarrow> (\<exists>r. m (redis db) = (Inr u, r) \<and> db' = db\<lparr>redis := r\<rparr>)"
  by (auto simp: on_redis_def split: prod.splits)

lemma stored_nonce_refused:
  assumes "r key = Some \<lparr>red_count = 1, red_expires_at = Some t\<rparr>" and "now < t"
  shows "store_nonce fault now key r \<noteq> (Inr u, r')"
  using assms by (auto simp: store_nonce_Inr redis_get_def)

text \<open>The request is signed whatever the state of redis and the clock.\<close>

lemma request_signed_cong:
  assumes "cx_crypto cx' = cx_crypto cx" and "env_uuid_text (cx_env cx') = env_uuid_text (cx_env cx)"
    and "device_keys db' = device_keys db"
  shows "request_signed cx' parse_uuid upper c q ts nonce db' = request_signed cx parse_uuid upper c q ts nonce db"
  using assms by (simp add: request_signed_def find_active_key_def)

lemma request_signed_headers:
  assumes "request_signed cx parse_uuid upper c q ts nonce db"
  shows "read_i64_header (sq_headers q) ''X-Timestamp'' = Inr ts"
    and "read_nonce_header (sq_headers q) ''X-Nonce'' = Inr nonce" and "in_i64 ts"
  using assms parsed_in_i64
  by (auto simp: request_signed_def read_i64_header_def rs_bind_def ok_or_def
      split: sum.splits option.splits)

lemma nonce_key_device:
  "nonce_key u c n = nonce_key u d n" if "ctx_tenant_id c = ctx_tenant_id d" "ctx_app_id c = ctx_app_id d"
    "ctx_device_id c = ctx_device_id d"
  using that by (simp add: nonce_key_def)


section \<open>Properties\<close>

text \<open>
  C19. A request of a session passes the signature middleware only with a signature of its method,
  path, body, timestamp, nonce, device, key and session by an active key of the device, and with
  a timestamp that the tolerance check lets through: one at most 300 seconds from the server's
  clock, or the single one that lies \<open>2^63\<close> seconds before it, where the check wraps. From then on,
  for 300 seconds and whatever else happens in redis, no request of that device with the same nonce
  passes while the entry of the nonce is in place, whatever its session, path or body.
\<close>

theorem signed_request_consumes_nonce:
  assumes "require_device_signature cx parse_uuid upper (Some c) q db = (Inr u, db1)"
    and "0 \<le> timestamp (env_now (cx_env cx))" and "timestamp (env_now (cx_env cx)) < 2 ^ 62"
    and "read_nonce_header (sq_headers q) ''X-Nonce'' = Inr nonce"
    and "redis db2 (nonce_key (env_uuid_text (cx_env cx)) c nonce) = redis db1 (nonce_key (env_uuid_text (cx_env cx)) c nonce)"
    and "env_uuid_text (cx_env cx2) = env_uuid_text (cx_env cx)"
    and "env_now (cx_env cx2) < env_now (cx_env cx) + seconds nonce_ttl_seconds"
    and "ctx_tenant_id c2 = ctx_tenant_id c" and "ctx_app_id c2 = ctx_app_id c"
    and "ctx_device_id c2 = ctx_device_id c"
    and "read_nonce_header (sq_headers q2) ''X-Nonce'' = Inr nonce"
  shows "(\<exists>ts. request_signed cx parse_uuid upper c q ts nonce db
            \<and> (\<bar>timestamp (env_now (cx_env cx)) - ts\<bar> \<le> timestamp_tolerance_seconds
               \<or> ts = timestamp (env_now (cx_env cx)) - 2 ^ 63))
       \<and> (\<nexists>db3. require_device_signature cx2 parse_uuid upper (Some c2) q2 db2 = (Inr u, db3))"
proof
  from assms(1) obtain ts n where sig: "request_signed cx parse_uuid upper c q ts n db"
      "\<not> timestamp_expired (timestamp (env_now (cx_env cx))) ts"
    and st: "on_redis (store_nonce (cx_fault cx) (env_now (cx_env cx))
        (nonce_key (env_uuid_text (cx_env cx)) c n)) db = (Inr u, db1)"
    unfolding device_signature_Inr by blast
  have n: "n = nonce" using request_signed_headers(2) [OF sig(1)] assms(4) by simp
  have "in_i64 ts" using request_signed_headers(3) [OF sig(1)] .
  from sig(2) timestamp_in_tolerance [OF assms(2,3) this] sig(1) n
  show "\<exists>ts. request_signed cx parse_uuid upper c q ts nonce db
      \<and> (\<bar>timestamp (env_now (cx_env cx)) - ts\<bar> \<le> timestamp_tolerance_seconds
         \<or> ts = timestamp (env_now (cx_env cx)) - 2 ^ 63)" by blast
  show "\<nexists>db3. require_device_signature cx2 parse_uuid upper (Some c2) q2 db2 = (Inr u, db3)"
  proof
    assume "\<exists>db3. require_device_signature cx2 parse_uuid upper (Some c2) q2 db2 = (Inr u, db3)"
    then obtain ts2 n2 r2 where s2: "request_signed cx2 parse_uuid upper c2 q2 ts2 n2 db2"
      and st2: "store_nonce (cx_fault cx2) (env_now (cx_env cx2))
          (nonce_key (env_uuid_text (cx_env cx2)) c2 n2) (redis db2) = (Inr u, r2)"
      unfolding device_signature_Inr nonce_step_Inr by blast
    have "n2 = nonce" using request_signed_headers(2) [OF s2] assms(11) by simp
    then have "nonce_key (env_uuid_text (cx_env cx2)) c2 n2 = nonce_key (env_uuid_text (cx_env cx)) c nonce"
      using nonce_key_device [of c2 c] assms(6,8-10) by simp
    moreover from st have "redis db1 (nonce_key (env_uuid_text (cx_env cx)) c nonce)
        = Some \<lparr>red_count = 1, red_expires_at = Some (env_now (cx_env cx) + seconds nonce_ttl_seconds)\<rparr>"
      by (auto simp: nonce_step_Inr store_nonce_Inr n)
    ultimately show False using st2 stored_nonce_refused assms(5,7) by metis
  qed
qed

text \<open>
  C20. A request signed with a clock ahead of the server's can be replayed: the nonce is kept for
  300 seconds after the request was accepted, while its timestamp stays acceptable until 300
  seconds after the timestamp. In between, the very same request passes again.
\<close>

theorem early_request_can_be_replayed:
  assumes "require_device_signature cx parse_uuid upper (Some c) q db = (Inr u, db1)"
    and "read_i64_header (sq_headers q) ''X-Timestamp'' = Inr ts"
    and "env_now (cx_env cx) + seconds nonce_ttl_seconds \<le> later"
    and "timestamp later \<le> ts + timestamp_tolerance_seconds"
    and "ts \<le> timestamp later" and "timestamp later < 2 ^ 62" and "0 \<le> env_now (cx_env cx)"
  shows "\<exists>db2. require_device_signature (cx\<lparr>cx_env := (cx_env cx)\<lparr>env_now := later\<rparr>\<rparr>) parse_uuid upper
            (Some c) q db1 = (Inr u, db2)"
proof -
  let ?cx = "cx\<lparr>cx_env := (cx_env cx)\<lparr>env_now := later\<rparr>\<rparr>"
  from assms(1) obtain ts' nonce where sig: "request_signed cx parse_uuid upper c q ts' nonce db"
    and st: "on_redis (store_nonce (cx_fault cx) (env_now (cx_env cx))
        (nonce_key (env_uuid_text (cx_env cx)) c nonce)) db = (Inr u, db1)"
    unfolding device_signature_Inr by blast
  have ts: "ts' = ts" "in_i64 ts" using request_signed_headers [OF sig] assms(2) by auto
  have "0 \<le> later" using assms(3,7) by (simp add: nonce_ttl_seconds_def)
  then have "\<not> timestamp_expired (timestamp later) ts"
    using timestamp_in_tolerance [of "timestamp later" ts] assms(4-6) ts(2) by (simp add: timestamp_def)
  moreover have "request_signed ?cx parse_uuid upper c q ts nonce db1"
    using sig st ts(1) request_signed_cong [of ?cx cx db1 db] by (auto simp: nonce_step_Inr)
  moreover have "\<exists>db2. on_redis (store_nonce (cx_fault cx) later
      (nonce_key (env_uuid_text (cx_env cx)) c nonce)) db1 = (Inr u, db2)"
    using st assms(3) by (auto simp: nonce_step_Inr store_nonce_Inr redis_get_def)
  ultimately show ?thesis unfolding device_signature_Inr by auto
qed


section \<open>Concrete instances\<close>

definition sample_context :: client_context where
  "sample_context = \<lparr>ctx_session_id = 9, ctx_tenant_id = 1, ctx_app_id = 1, ctx_customer_id = None,
     ctx_device_id = 101, ctx_machine_id = ''m'', ctx_auth_mode = ''license'', ctx_entitlement_id = Some 7,
     ctx_entitlement_kind = Some ''license'', ctx_entitlement_status = ''active'',
     ctx_entitlement_active = True, ctx_features = JNull, ctx_entitlement_expires_at = None\<rparr>"

definition sample_device_key :: device_key where
  "sample_device_key = \<lparr>dk_id = 102, dk_tenant_id = 1, dk_app_id = 1, dk_device_id = 101,
     dk_public_key = letters ''32 raw bytes of an Ed25519 key..'', dk_algorithm = ''Ed25519'',
     dk_status = ''active'', dk_created_at = 0, dk_rotated_at = None, dk_revoked_at = None\<rparr>"

definition sample_signed_db :: access_db where
  "sample_signed_db = empty_db\<lparr>device_keys := [sample_device_key]\<rparr>"

definition sample_message :: string where
  "sample_message = signature_message id (\<lambda>_. ''s'') ''POST'' ''/p'' (letters ''body'') 300
     ''nonce-0123456789'' 101 102 9"

text \<open>A request signed by a client whose clock is 300 seconds ahead.\<close>

definition sample_request :: signed_request where
  "sample_request = \<lparr>sq_headers = map_of [(''X-Device-Key-Id'', ''k''), (''X-Timestamp'', ''300''),
       (''X-Nonce'', ''nonce-0123456789''), (''X-Body-SHA256'', letters ''body''),
       (''X-Signature'', letters sample_message)],
     sq_method = ''POST'', sq_path = ''/p'', sq_body = Some ''body''\<rparr>"

lemma trim_letters: "trim (letters s) = letters s"
proof (rule trim_all_graphic)
  show "list_all graphic (letters s)"
    using letters_chars [of s] b64_char_graphic by (auto simp: list_all_iff)
qed

lemma sample_headers:
  "read_uuid_header (\<lambda>_. Some 102) (sq_headers sample_request) ''X-Device-Key-Id'' = Inr 102"
  "read_i64_header (sq_headers sample_request) ''X-Timestamp'' = Inr 300"
  "read_nonce_header (sq_headers sample_request) ''X-Nonce'' = Inr ''nonce-0123456789''"
proof -
  have "sq_headers sample_request ''X-Device-Key-Id'' = Some ''k''"
    "sq_headers sample_request ''X-Timestamp'' = Some ''300''"
    "sq_headers sample_request ''X-Nonce'' = Some ''nonce-0123456789''"
    by (simp_all add: sample_request_def)
  moreover have "trim ''k'' = ''k''" "trim ''300'' = ''300''" "trim ''nonce-0123456789'' = ''nonce-0123456789''"
    "parse_i64 ''300'' = Some 300" "list_all nonce_char ''nonce-0123456789''" by code_simp+
  ultimately show
    "read_uuid_header (\<lambda>_. Some 102) (sq_headers sample_request) ''X-Device-Key-Id'' = Inr 102"
    "read_i64_header (sq_headers sample_request) ''X-Timestamp'' = Inr 300"
    "read_nonce_header (sq_headers sample_request) ''X-Nonce'' = Inr ''nonce-0123456789''"
    by (simp_all add: read_uuid_header_def read_i64_header_def read_nonce_header_def
        read_required_header_def ok_or_def rs_bind_def nonce_min_len_def nonce_max_len_def Let_def)
qed

lemma sample_signature_headers:
  "read_required_header (sq_headers sample_request) ''X-Body-SHA256'' = Inr (letters ''body'')"
  "read_required_header (sq_headers sample_request) ''X-Signature'' = Inr (letters sample_message)"
proof -
  have "letters sample_message \<noteq> []" by (cases sample_message) (simp_all add: sample_message_def signature_message_def)
  then show "read_required_header (sq_headers sample_request) ''X-Body-SHA256'' = Inr (letters ''body'')"
    "read_required_header (sq_headers sample_request) ''X-Signature'' = Inr (letters sample_message)"
    using trim_letters [of "''body''"]
    by (simp_all add: read_required_header_def sample_request_def ok_or_def Let_def trim_letters)
qed

lemma sample_signature:
  "verify_ed25519_signature sample_crypto (letters ''32 raw bytes of an Ed25519 key..'') sample_message
     (letters sample_message) = Inr ()"
proof -
  have "parse_ed25519_public_key sample_crypto (letters ''32 raw bytes of an Ed25519 key..'')
      = Inr ''32 raw bytes of an Ed25519 key..''" by code_simp
  then show ?thesis
    by (simp add: verify_ed25519_signature_def rs_bind_def ok_or_def decode_base64_text_def trim_letters
        of_letters_letters sample_crypto_def)
qed

lemma sample_request_signed:
  "request_signed (sample_world now) (\<lambda>_. Some 102) id sample_context sample_request 300
     ''nonce-0123456789'' sample_signed_db"
proof -
  have "find_active_key 1 1 101 102 sample_signed_db = Some sample_device_key"
    by (simp add: find_active_key_def sample_signed_db_def sample_device_key_def)
  moreover have "sq_body sample_request = Some ''body''" "sq_method sample_request = ''POST''"
    "sq_path sample_request = ''/p''" by (simp_all add: sample_request_def)
  moreover have "letters ''body'' = b64_url sample_crypto (sha256 sample_crypto ''body'')"
    by (simp add: sample_crypto_def)
  moreover have "dk_public_key sample_device_key = letters ''32 raw bytes of an Ed25519 key..''"
    by (simp add: sample_device_key_def)
  moreover have "env_uuid_text (cx_env (sample_world now)) = (\<lambda>_. ''s'')" by (simp add: sample_world_def)
  moreover have "ctx_tenant_id sample_context = 1" "ctx_app_id sample_context = 1"
    "ctx_device_id sample_context = 101" "ctx_session_id sample_context = 9"
    by (simp_all add: sample_context_def)
  ultimately show ?thesis
    using sample_headers sample_signature_headers sample_signature
    unfolding request_signed_def sample_message_def sample_world_simps
    by (metis (no_types, lifting))
qed

lemma sample_request_accepted:
  "\<exists>db1. require_device_signature (sample_world 0) (\<lambda>_. Some 102) id (Some sample_context) sample_request
     sample_signed_db = (Inr (), db1)"
proof -
  have "\<not> timestamp_expired 0 300" by code_simp
  moreover have "\<exists>db1. on_redis (store_nonce (cx_fault (sample_world 0)) (env_now (cx_env (sample_world 0)))
      (nonce_key (env_uuid_text (cx_env (sample_world 0))) sample_context ''nonce-0123456789''))
      sample_signed_db = (Inr (), db1)"
    by (simp add: nonce_step_Inr store_nonce_Inr no_fault_def sample_signed_db_def empty_db_def redis_get_def)
  ultimately show ?thesis unfolding device_signature_Inr
    using sample_request_signed [of 0] by (force simp: timestamp_def)
qed

theorem signed_request_consumes_nonce_witness:
  "\<exists>db1. require_device_signature (sample_world 0) (\<lambda>_. Some 102) id (Some sample_context) sample_request
        sample_signed_db = (Inr (), db1)
     \<and> (\<nexists>db3. require_device_signature (sample_world 60) (\<lambda>_. Some 102) id (Some sample_context)
              sample_request db1 = (Inr (), db3))"
proof -
  obtain db1 where ok: "require_device_signature (sample_world 0) (\<lambda>_. Some 102) id (Some sample_context)
      sample_request sample_signed_db = (Inr (), db1)" using sample_request_accepted by blast
  have "\<nexists>db3. require_device_signature (sample_world 60) (\<lambda>_. Some 102) id (Some sample_context)
      sample_request db1 = (Inr (), db3)"
    using signed_request_consumes_nonce [OF ok _ _ sample_headers(3), of db1 "sample_world 60" sample_context sample_request]
      sample_headers(3)
    by (simp add: nonce_ttl_seconds_def sample_world_def timestamp_def)
  with ok show ?thesis by blast
qed

theorem early_request_can_be_replayed_witness:
  "\<exists>db1 db2. require_device_signature (sample_world 0) (\<lambda>_. Some 102) id (Some sample_context)
        sample_request sample_signed_db = (Inr (), db1)
     \<and> require_device_signature ((sample_world 0)\<lparr>cx_env := (cx_env (sample_world 0))\<lparr>env_now := seconds 450\<rparr>\<rparr>)
         (\<lambda>_. Some 102) id (Some sample_context) sample_request db1 = (Inr (), db2)"
proof -
  obtain db1 where ok: "require_device_signature (sample_world 0) (\<lambda>_. Some 102) id (Some sample_context)
      sample_request sample_signed_db = (Inr (), db1)" using sample_request_accepted by blast
  with early_request_can_be_replayed [OF ok sample_headers(2), of "seconds 450"] show ?thesis
    by (auto simp: nonce_ttl_seconds_def timestamp_tolerance_seconds_def timestamp_def)
qed

end
