(* ===== verification/Capabilities.thy ===== *)
theory Capabilities
  imports Errors Json Text
begin

text \<open>
  What an AI model accepts (\<open>modules/ai/capabilities.rs\<close>): the capabilities in a model's
  pricing configuration and the checks of a request's payload against them.
\<close>

record model_capabilities =
  cap_ratios :: "string list"
  cap_resolutions :: "string list"
  cap_durations :: "i64 list"
  cap_default_duration_seconds :: "i64 option"
  cap_image_counts :: "i64 list"
  cap_max_images :: "i64 option"
  cap_input_modes :: "string list"
  cap_max_reference_images :: "i64 option"
  cap_max_reference_videos :: "i64 option"
  cap_max_reference_audios :: "i64 option"
  cap_supports_reference_video :: bool
  cap_supports_reference_audio :: bool
  cap_supports_first_frame :: bool
  cap_supports_last_frame :: bool
  cap_accepted_mime_types :: "string list"
  cap_max_asset_size_mb :: "i64 option"

definition default_max_video_seconds :: i64 where "default_max_video_seconds = 3600"


section \<open>Reading the configuration\<close>

definition value_to_positive_seconds :: "json \<Rightarrow> i64 option" where
  "value_to_positive_seconds v =
     (case as_i64 v of
        Some n \<Rightarrow> if 0 < n then Some n else None
      | None \<Rightarrow>
          (case as_f64 v of
             Some q \<Rightarrow> if 0 < q then Some (f64_ceil_as_i64 q) else None
           | None \<Rightarrow>
               (case as_str v of
                  None \<Rightarrow> None
                | Some s \<Rightarrow>
                    (case parse_finite_f64 (trim s) of
                       None \<Rightarrow> None
                     | Some q \<Rightarrow> if 0 < q then Some (f64_ceil_as_i64 q) else None))))"

text \<open>\<open>keys.iter().find_map(|key| source.get(key))\<close>.\<close>

fun first_key :: "json \<Rightarrow> string list \<Rightarrow> json option" where
  "first_key source [] = None"
| "first_key source (k # ks) = (case json_get k source of Some v \<Rightarrow> Some v | None \<Rightarrow> first_key source ks)"

fun collect_strings :: "json list \<Rightarrow> string list \<Rightarrow> app_error + string list" where
  "collect_strings [] out = Inr out"
| "collect_strings (item # items) out =
     (case map_option trim (as_str item) of
        None \<Rightarrow> Inl (ValidationFailed ''ai model capability items must be non-empty strings'')
      | Some text \<Rightarrow>
          if text = [] then Inl (ValidationFailed ''ai model capability items must be non-empty strings'')
          else if length text > 64 \<or> CHR 0x00 \<in> set text
            then Inl (ValidationFailed ''ai model capability item is invalid'')
          else collect_strings items (if text \<in> set out then out else out @ [text]))"

definition string_list :: "json \<Rightarrow> string list \<Rightarrow> app_error + string list" where
  "string_list source keys =
     (case first_key source keys of
        None \<Rightarrow> Inr []
      | Some v \<Rightarrow>
          rs_bind (ok_or (as_array v) (ValidationFailed ''ai model capability list must be an array''))
            (\<lambda>items. collect_strings items []))"

fun collect_numbers :: "json list \<Rightarrow> i64 list \<Rightarrow> app_error + i64 list" where
  "collect_numbers [] out = Inr out"
| "collect_numbers (item # items) out =
     (case value_to_positive_seconds item of
        None \<Rightarrow> Inl (ValidationFailed ''ai model capability numbers must be positive'')
      | Some n \<Rightarrow> collect_numbers items (if n \<in> set out then out else out @ [n]))"

definition positive_int_list :: "json \<Rightarrow> string list \<Rightarrow> app_error + i64 list" where
  "positive_int_list source keys =
     (case first_key source keys of
        None \<Rightarrow> Inr []
      | Some v \<Rightarrow>
          rs_bind (ok_or (as_array v) (ValidationFailed ''ai model capability list must be an array''))
            (\<lambda>items. rs_bind (collect_numbers items []) (\<lambda>out. Inr (sort out))))"

definition first_positive_int :: "json \<Rightarrow> string list \<Rightarrow> app_error + i64 option" where
  "first_positive_int source keys =
     (case first_key source keys of
        None \<Rightarrow> Inr None
      | Some v \<Rightarrow>
          ok_or (map_option Some (value_to_positive_seconds v))
            (ValidationFailed ''ai model capability number must be positive''))"

definition optional_bool :: "json \<Rightarrow> string list \<Rightarrow> app_error + bool option" where
  "optional_bool source keys =
     (case first_key source keys of
        None \<Rightarrow> Inr None
      | Some v \<Rightarrow>
          ok_or (map_option Some (as_bool v))
            (ValidationFailed ''ai model capability boolean must be valid''))"

definition bool_or_false :: "bool option \<Rightarrow> bool" where
  "bool_or_false b = (case b of None \<Rightarrow> False | Some x \<Rightarrow> x)"

definition from_config :: "json \<Rightarrow> app_error + model_capabilities" where
  "from_config config =
     (let source = (case json_get ''capabilities'' config of None \<Rightarrow> config | Some v \<Rightarrow> v) in
      rs_bind (string_list source [''ratios'', ''aspect_ratios'']) (\<lambda>ratios.
      rs_bind (string_list source [''resolutions'', ''sizes'']) (\<lambda>resolutions.
      rs_bind (positive_int_list source [''durations'', ''duration_seconds_options'']) (\<lambda>durations.
      rs_bind (first_positive_int source
                 [''default_duration_seconds'', ''duration_seconds'', ''seconds'']) (\<lambda>default_duration.
      rs_bind (positive_int_list source [''image_counts'', ''counts'']) (\<lambda>image_counts.
      rs_bind (first_positive_int source [''max_images'', ''max_image_count'']) (\<lambda>max_images.
      rs_bind (string_list source [''inputModes'', ''input_modes'']) (\<lambda>input_modes.
      rs_bind (first_positive_int source [''maxReferenceImages'', ''max_reference_images'']) (\<lambda>ref_images.
      rs_bind (first_positive_int source [''maxReferenceVideos'', ''max_reference_videos'']) (\<lambda>ref_videos.
      rs_bind (first_positive_int source [''maxReferenceAudios'', ''max_reference_audios'']) (\<lambda>ref_audios.
      rs_bind (optional_bool source [''supportsReferenceVideo'', ''supports_reference_video'']) (\<lambda>sup_video.
      rs_bind (optional_bool source [''supportsReferenceAudio'', ''supports_reference_audio'']) (\<lambda>sup_audio.
      rs_bind (optional_bool source [''supportsFirstFrame'', ''supports_first_frame'']) (\<lambda>sup_first.
      rs_bind (optional_bool source [''supportsLastFrame'', ''supports_last_frame'']) (\<lambda>sup_last.
      rs_bind (string_list source [''acceptedMimeTypes'', ''accepted_mime_types'']) (\<lambda>mimes.
      rs_bind (first_positive_int source [''maxAssetSizeMb'', ''max_asset_size_mb'']) (\<lambda>max_size.
      Inr \<lparr>cap_ratios = ratios, cap_resolutions = resolutions, cap_durations = durations,
           cap_default_duration_seconds = default_duration, cap_image_counts = image_counts,
           cap_max_images = max_images, cap_input_modes = input_modes,
           cap_max_reference_images = ref_images, cap_max_reference_videos = ref_videos,
           cap_max_reference_audios = ref_audios,
           cap_supports_reference_video = bool_or_false sup_video,
           cap_supports_reference_audio = bool_or_false sup_audio,
           cap_supports_first_frame = bool_or_false sup_first,
           cap_supports_last_frame = bool_or_false sup_last,
           cap_accepted_mime_types = mimes, cap_max_asset_size_mb = max_size\<rparr>)))))))))))))))))"

definition json_strings :: "string list \<Rightarrow> json" where
  "json_strings ss = JArray (map JString ss)"

definition json_numbers :: "i64 list \<Rightarrow> json" where
  "json_numbers ns = JArray (map (\<lambda>n. JNumber (JInt n)) ns)"

definition json_number_opt :: "i64 option \<Rightarrow> json" where
  "json_number_opt n = (case n of None \<Rightarrow> JNull | Some x \<Rightarrow> JNumber (JInt x))"

definition to_public_json :: "model_capabilities \<Rightarrow> json" where
  "to_public_json c = JObject
     [(''ratios'', json_strings (cap_ratios c)), (''resolutions'', json_strings (cap_resolutions c)),
      (''durations'', json_numbers (cap_durations c)),
      (''default_duration_seconds'', json_number_opt (cap_default_duration_seconds c)),
      (''image_counts'', json_numbers (cap_image_counts c)),
      (''max_images'', json_number_opt (cap_max_images c)),
      (''inputModes'', json_strings (cap_input_modes c)),
      (''maxReferenceImages'', json_number_opt (cap_max_reference_images c)),
      (''maxReferenceVideos'', json_number_opt (cap_max_reference_videos c)),
      (''maxReferenceAudios'', json_number_opt (cap_max_reference_audios c)),
      (''supportsReferenceVideo'', JBool (cap_supports_reference_video c)),
      (''supportsReferenceAudio'', JBool (cap_supports_reference_audio c)),
      (''supportsFirstFrame'', JBool (cap_supports_first_frame c)),
      (''supportsLastFrame'', JBool (cap_supports_last_frame c)),
      (''acceptedMimeTypes'', json_strings (cap_accepted_mime_types c)),
      (''maxAssetSizeMb'', json_number_opt (cap_max_asset_size_mb c))]"

definition validate_capabilities_config :: "json \<Rightarrow> app_error + unit" where
  "validate_capabilities_config config = rs_bind (from_config config) (\<lambda>_. Inr ())"

definition model_capabilities_json :: "json \<Rightarrow> app_error + json" where
  "model_capabilities_json config = rs_bind (from_config config) (\<lambda>c. Inr (to_public_json c))"


section \<open>Checking a payload\<close>

definition join_i64 :: "i64 list \<Rightarrow> string" where
  "join_i64 values = join_text '', '' (map show_i64 values)"

fun validate_optional_string_choice ::
    "json \<Rightarrow> string list \<Rightarrow> string list \<Rightarrow> app_error + unit" where
  "validate_optional_string_choice payload [] allowed = Inr ()"
| "validate_optional_string_choice payload (key # keys) allowed =
     (if allowed = [] then Inr ()
      else
        (case json_get key payload of
           None \<Rightarrow> validate_optional_string_choice payload keys allowed
         | Some v \<Rightarrow>
             (case map_option trim (as_str v) of
                None \<Rightarrow> Inl (ValidationFailed (key @ '' is invalid''))
              | Some s \<Rightarrow>
                  if s = [] then Inl (ValidationFailed (key @ '' is invalid''))
                  else if \<not> list_ex (\<lambda>item. eq_ignore_ascii_case item s) allowed
                    then Inl (ValidationFailed (key @ '' must be one of '' @ join_text '', '' allowed))
                  else Inr ())))"

definition image_count :: "json \<Rightarrow> i64 \<Rightarrow> app_error + i64" where
  "image_count payload fallback_max =
     (case json_get ''n'' payload of
        None \<Rightarrow> Inr 1
      | Some v \<Rightarrow>
          rs_bind (ok_or (as_i64 v) (ValidationFailed ''image count n must be an integer'')) (\<lambda>count.
          let max_count = max fallback_max 1 in
          if \<not> (1 \<le> count \<and> count \<le> max_count)
            then Inl (ValidationFailed (''image count n must be between 1 and '' @ show_i64 max_count))
          else Inr count))"

fun video_seconds_at :: "json \<Rightarrow> string list \<Rightarrow> app_error + i64 option" where
  "video_seconds_at v [] = Inr None"
| "video_seconds_at v (k # ks) =
     (case json_get k v of
        Some raw \<Rightarrow> ok_or (map_option Some (value_to_positive_seconds raw))
          (ValidationFailed ''video duration is invalid'')
      | None \<Rightarrow> video_seconds_at v ks)"

definition optional_video_seconds :: "json \<Rightarrow> app_error + i64 option" where
  "optional_video_seconds v = video_seconds_at v [''duration'', ''duration_seconds'', ''seconds'']"

definition requested_video_seconds :: "json \<Rightarrow> json \<Rightarrow> i64 \<Rightarrow> app_error + i64" where
  "requested_video_seconds payload config fallback_max =
     rs_bind (from_config config) (\<lambda>c.
     rs_bind (optional_video_seconds payload) (\<lambda>given.
     let nested = (case json_get ''video'' payload of
                     None \<Rightarrow> None
                   | Some v \<Rightarrow> (case optional_video_seconds v of Inl _ \<Rightarrow> None | Inr s \<Rightarrow> s));
         seconds = (case given of Some s \<Rightarrow> s
                    | None \<Rightarrow> (case nested of Some s \<Rightarrow> s
                      | None \<Rightarrow> (case cap_default_duration_seconds c of Some s \<Rightarrow> s | None \<Rightarrow> 8)));
         max_seconds = max fallback_max 1
     in if \<not> (1 \<le> seconds \<and> seconds \<le> max_seconds)
        then Inl (ValidationFailed (''video duration must be between 1 and '' @ show_i64 max_seconds @ '' seconds''))
        else Inr seconds))"

definition validate_image_payload :: "json \<Rightarrow> json \<Rightarrow> i64 \<Rightarrow> app_error + unit" where
  "validate_image_payload payload config fallback_max =
     rs_bind (from_config config) (\<lambda>c.
     rs_bind (validate_optional_string_choice payload [''ratio'', ''aspect_ratio''] (cap_ratios c)) (\<lambda>_.
     rs_bind (validate_optional_string_choice payload [''resolution'', ''size''] (cap_resolutions c)) (\<lambda>_.
     rs_bind (image_count payload fallback_max) (\<lambda>count.
     if cap_image_counts c \<noteq> [] \<and> count \<notin> set (cap_image_counts c)
       then Inl (ValidationFailed (''image count n must be one of '' @ join_i64 (cap_image_counts c)))
     else
       (case cap_max_images c of
          Some max_images \<Rightarrow>
            if count > max_images
            then Inl (ValidationFailed (''image count n must be less than or equal to '' @ show_i64 max_images))
            else Inr ()
        | None \<Rightarrow> Inr ())))))"

definition validate_video_payload :: "json \<Rightarrow> json \<Rightarrow> app_error + unit" where
  "validate_video_payload payload config =
     rs_bind (from_config config) (\<lambda>c.
     rs_bind (validate_optional_string_choice payload [''ratio'', ''aspect_ratio''] (cap_ratios c)) (\<lambda>_.
     rs_bind (validate_optional_string_choice payload [''resolution'', ''size''] (cap_resolutions c)) (\<lambda>_.
     rs_bind (validate_optional_string_choice payload [''inputMode'', ''input_mode''] (cap_input_modes c)) (\<lambda>_.
     rs_bind (requested_video_seconds payload config default_max_video_seconds) (\<lambda>seconds.
     if cap_durations c \<noteq> [] \<and> seconds \<notin> set (cap_durations c)
       then Inl (ValidationFailed (''video duration must be one of '' @ join_i64 (cap_durations c) @ '' seconds''))
     else Inr ())))))"

definition validate_input_mode :: "string \<Rightarrow> json \<Rightarrow> app_error + unit" where
  "validate_input_mode mode config =
     rs_bind (from_config config) (\<lambda>c.
     if cap_input_modes c = [] \<or> list_ex (\<lambda>item. eq_ignore_ascii_case item mode) (cap_input_modes c)
       then Inr ()
     else Inl (ValidationFailed (''inputMode must be one of '' @ join_text '', '' (cap_input_modes c))))"


section \<open>Well-formed capabilities\<close>

definition positive_i64 :: "i64 \<Rightarrow> bool" where
  "positive_i64 n \<longleftrightarrow> 0 < n \<and> in_i64 n"

definition capability_text :: "string \<Rightarrow> bool" where
  "capability_text s \<longleftrightarrow> s \<noteq> [] \<and> trim s = s \<and> length s \<le> 64 \<and> CHR 0x00 \<notin> set s"

definition texts_wf :: "string list \<Rightarrow> bool" where
  "texts_wf ss \<longleftrightarrow> distinct ss \<and> list_all capability_text ss"

definition numbers_wf :: "i64 list \<Rightarrow> bool" where
  "numbers_wf ns \<longleftrightarrow> distinct ns \<and> sorted ns \<and> list_all positive_i64 ns"

definition number_wf :: "i64 option \<Rightarrow> bool" where
  "number_wf n \<longleftrightarrow> (case n of None \<Rightarrow> True | Some x \<Rightarrow> positive_i64 x)"

definition capabilities_wf :: "model_capabilities \<Rightarrow> bool" where
  "capabilities_wf c \<longleftrightarrow>
     texts_wf (cap_ratios c) \<and> texts_wf (cap_resolutions c) \<and> numbers_wf (cap_durations c)
     \<and> number_wf (cap_default_duration_seconds c) \<and> numbers_wf (cap_image_counts c)
     \<and> number_wf (cap_max_images c) \<and> texts_wf (cap_input_modes c)
     \<and> number_wf (cap_max_reference_images c) \<and> number_wf (cap_max_reference_videos c)
     \<and> number_wf (cap_max_reference_audios c) \<and> texts_wf (cap_accepted_mime_types c)
     \<and> number_wf (cap_max_asset_size_mb c)"

lemma ceil_positive: "0 < q \<Longrightarrow> positive_i64 (f64_ceil_as_i64 q)"
  by (simp add: positive_i64_def f64_ceil_as_i64_def) (simp add: saturating_i64_def)

lemma seconds_positive: "value_to_positive_seconds v = Some n \<Longrightarrow> positive_i64 n"
  using as_i64_bound [of v] ceil_positive
  by (auto simp: value_to_positive_seconds_def positive_i64_def split: option.splits if_splits)

lemma collect_strings_wf:
  "collect_strings items out = Inr ss \<Longrightarrow> texts_wf out \<Longrightarrow> texts_wf ss"
proof (induction items out rule: collect_strings.induct)
  case (2 item items out)
  then show ?case
    by (auto simp: texts_wf_def capability_text_def trim_idem split: option.splits if_splits)
qed simp

lemma string_list_wf: "string_list source keys = Inr ss \<Longrightarrow> texts_wf ss"
  using collect_strings_wf [of _ "[]" ss]
  by (auto simp: string_list_def rs_bind_Inr texts_wf_def split: option.splits)

lemma collect_numbers_wf:
  "collect_numbers items out = Inr ns \<Longrightarrow> distinct out \<and> list_all positive_i64 out
     \<Longrightarrow> distinct ns \<and> list_all positive_i64 ns"
  by (induction items out rule: collect_numbers.induct)
    (auto dest: seconds_positive split: option.splits if_splits)

lemma positive_int_list_wf: "positive_int_list source keys = Inr ns \<Longrightarrow> numbers_wf ns"
  using collect_numbers_wf [of _ "[]"]
  by (auto simp: positive_int_list_def rs_bind_Inr numbers_wf_def list_all_iff split: option.splits)

lemma first_positive_int_wf: "first_positive_int source keys = Inr n \<Longrightarrow> number_wf n"
  by (auto simp: first_positive_int_def ok_or_Inr number_wf_def dest: seconds_positive split: option.splits)

lemma image_count_bounds: "image_count payload m = Inr n \<Longrightarrow> 1 \<le> n \<and> n \<le> max m 1"
  by (auto simp: image_count_def rs_bind_Inr Let_def split: option.splits if_splits)

lemma requested_video_seconds_bounds:
  "requested_video_seconds payload config m = Inr n \<Longrightarrow> 1 \<le> n \<and> n \<le> max m 1"
  by (auto simp: requested_video_seconds_def rs_bind_Inr Let_def split: if_splits)


section \<open>Properties\<close>

lemma from_config_wf: "from_config config = Inr c \<Longrightarrow> capabilities_wf c"
  by (clarsimp simp: from_config_def Let_def rs_bind_Inr capabilities_wf_def)
    (intro conjI; erule string_list_wf positive_int_list_wf first_positive_int_wf)

text \<open>
  A choice of the payload, read from the first of the keys that it has, is one of those on offer;
  and the number of images it asks for, one when it does not say.
\<close>

definition choice_offered :: "string list \<Rightarrow> string list \<Rightarrow> json \<Rightarrow> bool" where
  "choice_offered keys allowed payload \<longleftrightarrow> allowed = []
     \<or> (\<forall>k. List.find (\<lambda>k. json_get k payload \<noteq> None) keys = Some k \<longrightarrow>
          (\<exists>v s. json_get k payload = Some v \<and> as_str v = Some s \<and> trim s \<noteq> []
             \<and> (\<exists>item \<in> set allowed. eq_ignore_ascii_case item (trim s))))"

definition images_asked :: "json \<Rightarrow> i64 option" where
  "images_asked payload = (case json_get ''n'' payload of None \<Rightarrow> Some 1 | Some v \<Rightarrow> as_i64 v)"

lemma choice_accepts:
  "validate_optional_string_choice payload keys allowed = Inr () \<longleftrightarrow> choice_offered keys allowed payload"
proof (induction keys)
  case (Cons k keys)
  then show ?case
    by (cases "json_get k payload")
      (auto simp: choice_offered_def list_ex_iff split: option.splits if_splits)
qed (simp add: choice_offered_def)

lemma image_count_accepts:
  "image_count payload m = Inr n \<longleftrightarrow> images_asked payload = Some n \<and> 1 \<le> n \<and> n \<le> max m 1"
  by (auto simp: image_count_def images_asked_def rs_bind_Inr ok_or_Inr Let_def split: option.splits if_splits)

lemma validate_image_accepts:
  assumes "from_config config = Inr c"
  shows "validate_image_payload payload config m = Inr () \<longleftrightarrow>
      choice_offered [''ratio'', ''aspect_ratio''] (cap_ratios c) payload
      \<and> choice_offered [''resolution'', ''size''] (cap_resolutions c) payload
      \<and> (\<exists>n. images_asked payload = Some n \<and> 1 \<le> n \<and> n \<le> max m 1
          \<and> (cap_image_counts c = [] \<or> n \<in> set (cap_image_counts c))
          \<and> (\<forall>k. cap_max_images c = Some k \<longrightarrow> n \<le> k))"
proof -
  let ?body = "\<lambda>n. if cap_image_counts c \<noteq> [] \<and> n \<notin> set (cap_image_counts c)
       then Inl (ValidationFailed (''image count n must be one of '' @ join_i64 (cap_image_counts c)))
     else (case cap_max_images c of
         Some k \<Rightarrow> if n > k
           then Inl (ValidationFailed (''image count n must be less than or equal to '' @ show_i64 k)) else Inr ()
       | None \<Rightarrow> Inr ())"
  have unit: "rs_bind x f = Inr () \<longleftrightarrow> x = Inr () \<and> f () = Inr ()" for x :: "app_error + unit" and f
    by (cases x) (simp_all add: rs_bind_def)
  have body: "?body n = Inr () \<longleftrightarrow> (cap_image_counts c = [] \<or> n \<in> set (cap_image_counts c))
     \<and> (\<forall>k. cap_max_images c = Some k \<longrightarrow> n \<le> k)" for n
    by (auto split: option.splits)
  have "rs_bind (image_count payload m) ?body = Inr ()
     \<longleftrightarrow> (\<exists>n. images_asked payload = Some n \<and> 1 \<le> n \<and> n \<le> max m 1
         \<and> (cap_image_counts c = [] \<or> n \<in> set (cap_image_counts c))
         \<and> (\<forall>k. cap_max_images c = Some k \<longrightarrow> n \<le> k))"
    by (simp only: rs_bind_Inr body image_count_accepts conj_assoc)
  moreover have "validate_image_payload payload config m
     = rs_bind (validate_optional_string_choice payload [''ratio'', ''aspect_ratio''] (cap_ratios c)) (\<lambda>_.
       rs_bind (validate_optional_string_choice payload [''resolution'', ''size''] (cap_resolutions c)) (\<lambda>_.
       rs_bind (image_count payload m) ?body))"
    unfolding validate_image_payload_def assms by (simp only: rs_bind_def sum.case)
  ultimately show ?thesis by (simp only: unit choice_accepts)
qed

text \<open>
  The capabilities read from a model's configuration are well formed, whatever the model is for:
  every number is a positive \<open>i64\<close>, the lists of numbers are sorted, no list repeats an entry, and
  every text is trimmed, not empty and at most 64 bytes. An image payload is accepted exactly when
  its ratio and its resolution, if it has them, are texts the model offers (in upper or lower case),
  and it asks for a positive number of images, within the gateway's maximum, that the model offers
  and that is within the model's own maximum.
\<close>

theorem capabilities_well_formed:
  assumes "from_config config = Inr c"
  shows "capabilities_wf c
     \<and> (validate_image_payload payload config m = Inr () \<longleftrightarrow>
          choice_offered [''ratio'', ''aspect_ratio''] (cap_ratios c) payload
          \<and> choice_offered [''resolution'', ''size''] (cap_resolutions c) payload
          \<and> (\<exists>n. images_asked payload = Some n \<and> 1 \<le> n \<and> n \<le> max m 1
              \<and> (cap_image_counts c = [] \<or> n \<in> set (cap_image_counts c))
              \<and> (\<forall>k. cap_max_images c = Some k \<longrightarrow> n \<le> k)))"
  by (rule conjI [OF from_config_wf [OF assms] validate_image_accepts [OF assms]])

definition sample_pricing :: json where
  "sample_pricing = JObject [(''capabilities'', JObject [(''counts'',
     JArray [JNumber (JInt 4), JNumber (JInt 2), JNumber (JInt 4)]), (''max_images'', JNumber (JInt 6))])]"

lemmas capability_readers = from_config_def string_list_def positive_int_list_def first_positive_int_def
  optional_bool_def value_to_positive_seconds_def rs_bind_def ok_or_def

theorem capabilities_well_formed_witness:
  "\<exists>c. from_config sample_pricing = Inr c \<and> capabilities_wf c
     \<and> validate_image_payload (JObject [(''n'', JNumber (JInt 2))]) sample_pricing 10 = Inr ()
     \<and> validate_image_payload (JObject [(''n'', JNumber (JInt 3))]) sample_pricing 10 \<noteq> Inr ()"
proof -
  have "\<exists>c. from_config sample_pricing = Inr c \<and> cap_image_counts c = [2, 4] \<and> cap_max_images c = Some 6"
    by (simp add: capability_readers sample_pricing_def in_i64_def)
  then obtain c where c: "from_config sample_pricing = Inr c" "cap_image_counts c = [2, 4]" "cap_max_images c = Some 6"
    by blast
  have "images_asked (JObject [(''n'', JNumber (JInt k))]) = Some k" if "k \<in> {2, 3}" for k
    using that by (auto simp: images_asked_def in_i64_def)
  moreover have "choice_offered [''ratio'', ''aspect_ratio''] a (JObject [(''n'', JNumber (JInt k))])
      \<and> choice_offered [''resolution'', ''size''] b (JObject [(''n'', JNumber (JInt k))])" for a b k
    by (simp add: choice_offered_def)
  ultimately show ?thesis
    using capabilities_well_formed [OF c(1), of "JObject [(''n'', JNumber (JInt 2))]" 10]
      capabilities_well_formed [OF c(1), of "JObject [(''n'', JNumber (JInt 3))]" 10] c by simp
qed

end
