(* ===== verification/Pricing.thy ===== *)
theory Pricing
  imports Capabilities "HOL-Library.AList"
begin

text \<open>
  Prices of AI requests (\<open>modules/ai/gateway.rs\<close>): the model a request names, the checks of the
  model and of the request, the estimate that is held before the provider is called and the
  charge computed from its response. \<open>serde_json::to_vec\<close> is a parameter (\<open>to_vec\<close>, the bytes
  or the text of its error).
\<close>

record gateway_model =
  gm_id :: uuid
  gm_provider_id :: uuid
  gm_provider_kind :: string
  gm_provider_name :: string
  gm_provider_base_url :: string
  gm_provider_config :: json
  gm_provider_secret_encrypted :: "string option"
  gm_code :: string
  gm_modality :: string
  gm_provider_model :: "string option"
  gm_currency :: string
  gm_billing_mode :: string
  gm_input_1k_price_minor :: i64
  gm_output_1k_price_minor :: i64
  gm_request_price_minor :: i64
  gm_image_price_minor :: i64
  gm_second_price_minor :: i64
  gm_minute_price_minor :: i64
  gm_daily_spend_limit_minor :: "i64 option"
  gm_pricing_config :: json

record token_usage =
  tu_prompt_tokens :: "i64 option"
  tu_completion_tokens :: "i64 option"
  tu_total_tokens :: "i64 option"

definition no_token_usage :: token_usage where
  "no_token_usage = \<lparr>tu_prompt_tokens = None, tu_completion_tokens = None, tu_total_tokens = None\<rparr>"

definition default_completion_token_budget :: i64 where "default_completion_token_budget = 4096"
definition max_completion_token_budget :: i64 where "max_completion_token_budget = 128000"
definition max_prompt_token_estimate :: i64 where "max_prompt_token_estimate = 512000"
definition max_image_count :: i64 where "max_image_count = 10"
definition max_video_seconds :: i64 where "max_video_seconds = 3600"
definition max_idempotency_key_len :: nat where "max_idempotency_key_len = 200"


section \<open>Checks of the model and the request\<close>

text \<open>The four checks differ in the modalities, the billing modes and their messages.\<close>

definition validate_model ::
    "string list \<Rightarrow> string \<Rightarrow> string list \<Rightarrow> string \<Rightarrow> gateway_model \<Rightarrow> app_error + unit" where
  "validate_model modalities modality_error modes mode_error m =
     (if gm_provider_kind m \<noteq> ''openai_compatible''
        then Inl (ValidationFailed ''ai provider is not openai compatible'')
      else if gm_modality m \<notin> set modalities then Inl (ValidationFailed modality_error)
      else if gm_billing_mode m \<notin> set modes then Inl (ValidationFailed mode_error)
      else if gm_provider_secret_encrypted m = None
        then Inl (ValidationFailed ''ai provider api key is not configured'')
      else Inr ())"

definition validate_model_for_chat :: "gateway_model \<Rightarrow> app_error + unit" where
  "validate_model_for_chat = validate_model [''text'', ''multimodal'']
     ''ai model does not support chat completions'' [''token'']
     ''ai chat model billing mode must be token''"

definition validate_model_for_images :: "gateway_model \<Rightarrow> app_error + unit" where
  "validate_model_for_images = validate_model [''image'', ''multimodal'']
     ''ai model does not support image generations'' [''per_image'']
     ''ai image model billing mode must be per_image''"

definition validate_model_for_videos :: "gateway_model \<Rightarrow> app_error + unit" where
  "validate_model_for_videos = validate_model [''video'', ''multimodal'']
     ''ai model does not support video generations'' [''video_per_second'', ''video_per_request'']
     ''ai video model billing mode must be video_per_second or video_per_request''"

definition validate_model_for_embeddings :: "gateway_model \<Rightarrow> app_error + unit" where
  "validate_model_for_embeddings = validate_model [''embedding'', ''multimodal'']
     ''ai model does not support embeddings'' [''token'']
     ''ai embedding model billing mode must be token''"

definition reject_streaming_request :: "json \<Rightarrow> app_error + unit" where
  "reject_streaming_request payload =
     (if Option.bind (json_get ''stream'' payload) as_bool = Some True
      then Inl (ValidationFailed ''streaming chat completions are not supported yet'') else Inr ())"

definition requested_model_code :: "json \<Rightarrow> app_error + string" where
  "requested_model_code payload =
     ok_or (case map_option trim (Option.bind (json_get ''model'' payload) as_str) of
              None \<Rightarrow> None
            | Some s \<Rightarrow> if s = [] then None else Some s)
       (ValidationFailed ''model is required'')"

text \<open>
  The header's value: \<open>None\<close> when there is none, \<open>Some None\<close> when it is not visible ASCII
  (\<open>to_str\<close> fails).
\<close>

definition idempotency_key :: "string option option \<Rightarrow> app_error + string option" where
  "idempotency_key header =
     (case header of
        None \<Rightarrow> Inr None
      | Some v \<Rightarrow>
          rs_bind (ok_or v (ValidationFailed ''idempotency-key header is invalid'')) (\<lambda>s.
          let value = trim s in
          if value = [] \<or> length value > max_idempotency_key_len
             \<or> list_ex (\<lambda>c. byte c < 32 \<or> byte c = 127) value
            then Inl (ValidationFailed ''idempotency-key header is invalid'')
          else Inr (Some value)))"

definition provider_payload :: "json \<Rightarrow> gateway_model \<Rightarrow> app_error + json" where
  "provider_payload payload m =
     (let model = (case gm_provider_model m of None \<Rightarrow> gm_code m | Some s \<Rightarrow> s) in
      case payload of
        JObject kvs \<Rightarrow> Inr (JObject (AList.update ''model'' (JString model) kvs))
      | _ \<Rightarrow> Inl (ValidationFailed ''ai gateway body must be an object''))"

definition as_u64 :: "json \<Rightarrow> int option" where
  "as_u64 v = (case v of
     JNumber (JInt n) \<Rightarrow> if 0 \<le> n \<and> n < 2 ^ 64 then Some n else None | _ \<Rightarrow> None)"

definition provider_timeout :: "json \<Rightarrow> app_error + int" where
  "provider_timeout config =
     (let timeout =
        (case Option.bind (json_get ''timeout_seconds'' config) as_u64 of
           Some s \<Rightarrow> s
         | None \<Rightarrow>
             (case Option.bind (json_get ''timeout_ms'' config) as_u64 of
                Some ms \<Rightarrow> min (2 ^ 64 - 1) (ms + 999) div 1000
              | None \<Rightarrow> 120)) in
      if timeout = 0 \<or> timeout > 600 then Inl (ValidationFailed ''ai provider timeout is invalid'')
      else Inr timeout)"


section \<open>Estimates and charges\<close>

text \<open>The division of \<open>i128\<close> is on positive numbers; the cast to \<open>i64\<close> wraps.\<close>

definition token_price_minor :: "i64 \<Rightarrow> i64 \<Rightarrow> app_error + i64" where
  "token_price_minor tokens price =
     (if tokens \<le> 0 \<or> price \<le> 0 then Inr 0
      else
        rs_bind (ok_or (Option.bind (checked_mul_i128 tokens price) (\<lambda>v. checked_add_i128 v 999))
                   (ValidationFailed ''ai token charge is too large'')) (\<lambda>numerator.
        Inr (wrap_i64 (numerator div 1000))))"

definition result_ok :: "'e + 'a \<Rightarrow> 'a option" where
  "result_ok x = (case x of Inl _ \<Rightarrow> None | Inr a \<Rightarrow> Some a)"

definition estimate_prompt_tokens :: "(json \<Rightarrow> string + string) \<Rightarrow> json \<Rightarrow> app_error + i64" where
  "estimate_prompt_tokens to_vec payload =
     (let source = (case json_get ''messages'' payload of None \<Rightarrow> payload | Some v \<Rightarrow> v) in
      case to_vec source of
        Inl e \<Rightarrow> Inl (ValidationFailed (''chat body invalid: '' @ e))
      | Inr bytes \<Rightarrow> Inr (clamp_int (int (length bytes) div 4 + 1) 1 max_prompt_token_estimate))"

definition estimate_embedding_input_tokens ::
    "(json \<Rightarrow> string + string) \<Rightarrow> json \<Rightarrow> app_error + i64" where
  "estimate_embedding_input_tokens to_vec payload =
     rs_bind (ok_or (case json_get ''input'' payload of Some JNull \<Rightarrow> None | v \<Rightarrow> v)
                (ValidationFailed ''embedding input is required'')) (\<lambda>input.
     case to_vec input of
       Inl e \<Rightarrow> Inl (ValidationFailed (''embedding input invalid: '' @ e))
     | Inr bytes \<Rightarrow> Inr (clamp_int (int (length bytes) div 4 + 1) 1 max_prompt_token_estimate))"

definition completion_token_budget :: "json \<Rightarrow> i64" where
  "completion_token_budget payload =
     (let v = (case json_get ''max_completion_tokens'' payload of
                 Some v \<Rightarrow> Some v | None \<Rightarrow> json_get ''max_tokens'' payload) in
      clamp_int (case Option.bind v as_i64 of None \<Rightarrow> default_completion_token_budget | Some n \<Rightarrow> n)
        0 max_completion_token_budget)"

definition estimate_hold_minor ::
    "(json \<Rightarrow> string + string) \<Rightarrow> json \<Rightarrow> gateway_model \<Rightarrow> app_error + i64" where
  "estimate_hold_minor to_vec payload m =
     rs_bind (estimate_prompt_tokens to_vec payload) (\<lambda>prompt_tokens.
     rs_bind (token_price_minor prompt_tokens (gm_input_1k_price_minor m)) (\<lambda>input_minor.
     rs_bind (token_price_minor (completion_token_budget payload) (gm_output_1k_price_minor m))
       (\<lambda>output_minor.
     ok_or (Option.bind (checked_add_i64 (gm_request_price_minor m) input_minor)
              (\<lambda>v. checked_add_i64 v output_minor))
       (ValidationFailed ''ai estimated charge is too large''))))"

definition estimate_image_hold_minor :: "json \<Rightarrow> gateway_model \<Rightarrow> app_error + i64" where
  "estimate_image_hold_minor payload m =
     rs_bind (image_count payload max_image_count) (\<lambda>count.
     rs_bind (ok_or (checked_mul_i64 (gm_image_price_minor m) count)
                (ValidationFailed ''ai estimated image charge is too large'')) (\<lambda>image_minor.
     ok_or (checked_add_i64 (gm_request_price_minor m) image_minor)
       (ValidationFailed ''ai estimated charge is too large'')))"

definition image_result_count :: "json \<Rightarrow> i64 option" where
  "image_result_count body =
     (case Option.bind (json_get ''data'' body) as_array of
        None \<Rightarrow> None
      | Some items \<Rightarrow> if 0 < length items then Some (int (length items)) else None)"

definition calculate_image_charge_minor :: "gateway_model \<Rightarrow> json \<Rightarrow> i64 option" where
  "calculate_image_charge_minor m body =
     Option.bind (image_result_count body) (\<lambda>count.
     Option.bind (checked_mul_i64 (gm_image_price_minor m) count) (\<lambda>v.
     checked_add_i64 (gm_request_price_minor m) v))"

definition estimate_video_hold_minor :: "json \<Rightarrow> gateway_model \<Rightarrow> app_error + i64" where
  "estimate_video_hold_minor payload m =
     (if gm_billing_mode m = ''video_per_request'' then Inr (gm_request_price_minor m)
      else if gm_billing_mode m = ''video_per_second'' then
        rs_bind (requested_video_seconds payload (gm_pricing_config m) max_video_seconds) (\<lambda>secs.
        rs_bind (ok_or (checked_mul_i64 (gm_second_price_minor m) secs)
                   (ValidationFailed ''ai estimated video charge is too large'')) (\<lambda>v.
        ok_or (checked_add_i64 (gm_request_price_minor m) v)
          (ValidationFailed ''ai estimated charge is too large'')))
      else Inl (ValidationFailed ''ai video model billing mode is invalid''))"

text \<open>
  \<open>find_positive_seconds\<close>: the first duration in a value, depth first; the three keys of an
  object before its values.
\<close>

fun seconds_at_keys :: "json \<Rightarrow> string list \<Rightarrow> i64 option" where
  "seconds_at_keys v [] = None"
| "seconds_at_keys v (k # ks) =
     (case Option.bind (json_get k v) value_to_positive_seconds of
        Some s \<Rightarrow> Some s
      | None \<Rightarrow> seconds_at_keys v ks)"

fun find_positive_seconds :: "json \<Rightarrow> i64 option"
  and find_seconds_values :: "(string \<times> json) list \<Rightarrow> i64 option"
  and find_seconds_items :: "json list \<Rightarrow> i64 option" where
  "find_positive_seconds (JObject kvs) =
     (case seconds_at_keys (JObject kvs) [''duration'', ''duration_seconds'', ''seconds''] of
        Some s \<Rightarrow> Some s
      | None \<Rightarrow> find_seconds_values kvs)"
| "find_positive_seconds (JArray items) = find_seconds_items items"
| "find_positive_seconds JNull = None"
| "find_positive_seconds (JBool _) = None"
| "find_positive_seconds (JNumber _) = None"
| "find_positive_seconds (JString _) = None"
| "find_seconds_values [] = None"
| "find_seconds_values ((k, v) # kvs) =
     (case find_positive_seconds v of Some s \<Rightarrow> Some s | None \<Rightarrow> find_seconds_values kvs)"
| "find_seconds_items [] = None"
| "find_seconds_items (v # vs) =
     (case find_positive_seconds v of Some s \<Rightarrow> Some s | None \<Rightarrow> find_seconds_items vs)"

definition in_video_range :: "i64 \<Rightarrow> i64 option" where
  "in_video_range s = (if 1 \<le> s \<and> s \<le> max_video_seconds then Some s else None)"

definition video_seconds_from_response :: "json \<Rightarrow> i64 option" where
  "video_seconds_from_response body = Option.bind (find_positive_seconds body) in_video_range"

definition video_seconds_from_pricing_config :: "json \<Rightarrow> i64 option" where
  "video_seconds_from_pricing_config config =
     (let source = (case json_get ''capabilities'' config of None \<Rightarrow> config | Some v \<Rightarrow> v) in
      Option.bind (first_key source [''default_duration_seconds'', ''duration_seconds'', ''seconds''])
        (\<lambda>v. Option.bind (value_to_positive_seconds v) in_video_range))"

definition calculate_video_charge_minor :: "gateway_model \<Rightarrow> json \<Rightarrow> i64 option" where
  "calculate_video_charge_minor m body =
     (if gm_billing_mode m = ''video_per_request'' then Some (gm_request_price_minor m)
      else if gm_billing_mode m = ''video_per_second'' then
        Option.bind (case video_seconds_from_response body of
                       Some s \<Rightarrow> Some s
                     | None \<Rightarrow> video_seconds_from_pricing_config (gm_pricing_config m)) (\<lambda>secs.
        Option.bind (checked_mul_i64 (gm_second_price_minor m) secs) (\<lambda>v.
        checked_add_i64 (gm_request_price_minor m) v))
      else None)"

definition estimate_embedding_hold_minor ::
    "(json \<Rightarrow> string + string) \<Rightarrow> json \<Rightarrow> gateway_model \<Rightarrow> app_error + i64" where
  "estimate_embedding_hold_minor to_vec payload m =
     rs_bind (estimate_embedding_input_tokens to_vec payload) (\<lambda>input_tokens.
     rs_bind (token_price_minor input_tokens (gm_input_1k_price_minor m)) (\<lambda>input_minor.
     ok_or (checked_add_i64 (gm_request_price_minor m) input_minor)
       (ValidationFailed ''ai estimated charge is too large'')))"

definition calculate_actual_charge_minor :: "gateway_model \<Rightarrow> token_usage \<Rightarrow> i64 option" where
  "calculate_actual_charge_minor m usage =
     Option.bind (tu_prompt_tokens usage) (\<lambda>prompt.
     Option.bind (tu_completion_tokens usage) (\<lambda>completion.
     Option.bind (result_ok (token_price_minor prompt (gm_input_1k_price_minor m))) (\<lambda>i.
     Option.bind (checked_add_i64 (gm_request_price_minor m) i) (\<lambda>v.
     Option.bind (result_ok (token_price_minor completion (gm_output_1k_price_minor m))) (\<lambda>out.
     checked_add_i64 v out)))))"

definition calculate_embedding_charge_minor :: "gateway_model \<Rightarrow> token_usage \<Rightarrow> i64 option" where
  "calculate_embedding_charge_minor m usage =
     Option.bind (case tu_prompt_tokens usage of Some n \<Rightarrow> Some n | None \<Rightarrow> tu_total_tokens usage)
       (\<lambda>input.
     Option.bind (result_ok (token_price_minor input (gm_input_1k_price_minor m))) (\<lambda>i.
     checked_add_i64 (gm_request_price_minor m) i))"

definition token_usage_from_response :: "json \<Rightarrow> token_usage" where
  "token_usage_from_response body =
     (let field = (\<lambda>k. Option.bind (json_get ''usage'' body) (\<lambda>u. Option.bind (json_get k u) as_i64)) in
      \<lparr>tu_prompt_tokens = field ''prompt_tokens'', tu_completion_tokens = field ''completion_tokens'',
       tu_total_tokens = field ''total_tokens''\<rparr>)"

text \<open>\<open>Utc::now()\<close> in the snapshot is its text.\<close>

definition price_snapshot :: "gateway_model \<Rightarrow> i64 \<Rightarrow> string \<Rightarrow> json" where
  "price_snapshot m held_minor now_text =
     (let num = (\<lambda>n. JNumber (JInt n)) in
      JObject [(''currency'', JString (gm_currency m)), (''billing_mode'', JString (gm_billing_mode m)),
        (''input_1k_price_minor'', num (gm_input_1k_price_minor m)),
        (''output_1k_price_minor'', num (gm_output_1k_price_minor m)),
        (''request_price_minor'', num (gm_request_price_minor m)),
        (''image_price_minor'', num (gm_image_price_minor m)),
        (''second_price_minor'', num (gm_second_price_minor m)),
        (''minute_price_minor'', num (gm_minute_price_minor m)),
        (''pricing_config'', gm_pricing_config m), (''held_minor'', num held_minor),
        (''captured_at'', JString now_text)])"


section \<open>Facts on prices\<close>

lemma i64_mul_bound:
  assumes "in_i64 a" and "in_i64 b" and "0 < a" and "0 < b"
  shows "0 < a * b \<and> a * b \<le> i64_max * i64_max"
proof -
  have "a * b \<le> i64_max * i64_max" using assms by (intro mult_mono) (auto simp: in_i64_def)
  then show ?thesis using assms by simp
qed

lemma ceiling_div_1000: "\<lceil>(of_int n :: rat) / 1000\<rceil> = (n + 999) div 1000"
proof -
  let ?a = "(n + 999) div 1000"
  have "1000 * ?a + (n + 999) mod 1000 = n + 999" by (rule mult_div_mod_eq)
  moreover have "0 \<le> (n + 999) mod 1000" "(n + 999) mod 1000 < 1000" by simp_all
  ultimately have "1000 * ?a - 1000 < n" "n \<le> 1000 * ?a" by linarith+
  then have "(of_int (1000 * ?a - 1000) :: rat) < of_int n" "(of_int n :: rat) \<le> of_int (1000 * ?a)"
    by (simp_all only: of_int_less_iff of_int_le_iff)
  then show ?thesis by (intro ceiling_unique) auto
qed

lemma token_price_exact:
  assumes "in_i64 tokens" and "in_i64 price"
  shows "token_price_minor tokens price =
     Inr (if tokens \<le> 0 \<or> price \<le> 0 then 0 else wrap_i64 \<lceil>(of_int (tokens * price) :: rat) / 1000\<rceil>)"
proof (cases "tokens \<le> 0 \<or> price \<le> 0")
  case False
  then have "0 < tokens * price \<and> tokens * price \<le> i64_max * i64_max"
    using i64_mul_bound assms by simp
  then have "in_i128 (tokens * price)" "in_i128 (tokens * price + 999)" by (simp_all add: in_i128_def)
  with False show ?thesis
    unfolding ceiling_div_1000
    by (simp add: token_price_minor_def checked_mul_i128_def checked_add_i128_def rs_bind_def ok_or_def)
qed (simp add: token_price_minor_def)

text \<open>The price of more tokens is higher, as long as it still fits 64 bits.\<close>

definition token_fee :: "i64 \<Rightarrow> i64 \<Rightarrow> int" where
  "token_fee tokens price = (if tokens \<le> 0 \<or> price \<le> 0 then 0 else (tokens * price + 999) div 1000)"

lemma token_fee_nonneg: "0 \<le> token_fee t p"
  by (auto simp: token_fee_def pos_imp_zdiv_nonneg_iff)

lemma token_fee_mono: "t \<le> u \<Longrightarrow> token_fee t p \<le> token_fee u p"
proof -
  assume "t \<le> u"
  have "(t * p + 999) div 1000 \<le> (u * p + 999) div 1000" if "0 < t" "0 < p"
    using \<open>t \<le> u\<close> that by (intro zdiv_mono1) (auto intro: mult_right_mono)
  moreover have "0 \<le> (u * p + 999) div 1000" if "0 < u" "0 < p"
    using that by (simp add: pos_imp_zdiv_nonneg_iff)
  ultimately show ?thesis using \<open>t \<le> u\<close> by (auto simp: token_fee_def)
qed

lemma token_price_fee:
  assumes "in_i64 tokens" and "in_i64 price" and "token_fee tokens price \<le> i64_max"
  shows "token_price_minor tokens price = Inr (token_fee tokens price)"
proof -
  have "in_i64 (token_fee tokens price)" using assms(3) token_fee_nonneg [of tokens price]
    by (simp add: in_i64_def)
  then show ?thesis
    unfolding token_price_exact [OF assms(1,2)] ceiling_div_1000 by (auto simp: token_fee_def)
qed

lemma clamp_i64: "in_i64 (clamp_int x 0 max_completion_token_budget)"
  "in_i64 (clamp_int x 1 max_prompt_token_estimate)"
  by (auto simp: clamp_int_def max_completion_token_budget_def max_prompt_token_estimate_def in_i64_def)

lemma estimate_prompt_tokens_bounds:
  "estimate_prompt_tokens to_vec payload = Inr n \<Longrightarrow> in_i64 n \<and> 1 \<le> n \<and> n \<le> max_prompt_token_estimate"
  using clamp_int_bounds [of 1 max_prompt_token_estimate] clamp_i64
  by (auto simp: estimate_prompt_tokens_def Let_def max_prompt_token_estimate_def split: sum.splits)

text \<open>The prices a model can have: nonnegative \<open>bigint\<close> columns.\<close>

definition prices_wf :: "gateway_model \<Rightarrow> bool" where
  "prices_wf m \<longleftrightarrow>
     list_all (\<lambda>p. 0 \<le> p \<and> in_i64 p)
       [gm_input_1k_price_minor m, gm_output_1k_price_minor m, gm_request_price_minor m,
        gm_image_price_minor m, gm_second_price_minor m, gm_minute_price_minor m]"


section \<open>Properties\<close>

text \<open>
  C21. The price of tokens is the exact product divided by 1000 and rounded up, reduced to 64 bits
  by the final cast: the overflow error is never returned, and the price is exact if and only if it fits
  an \<open>i64\<close>.
\<close>

theorem token_price_is_wrapped_ceiling:
  assumes "in_i64 tokens" and "in_i64 price" and "0 < tokens" and "0 < price"
  shows "token_price_minor tokens price = Inr (wrap_i64 \<lceil>(of_int (tokens * price) :: rat) / 1000\<rceil>)
     \<and> (token_price_minor tokens price = Inr \<lceil>(of_int (tokens * price) :: rat) / 1000\<rceil>
          \<longleftrightarrow> \<lceil>(of_int (tokens * price) :: rat) / 1000\<rceil> \<le> i64_max)"
proof -
  let ?p = "\<lceil>(of_int (tokens * price) :: rat) / 1000\<rceil>"
  have eq: "token_price_minor tokens price = Inr (wrap_i64 ?p)"
    using token_price_exact [OF assms(1,2)] assms(3,4) by simp
  have "0 \<le> ?p" using assms(3,4) unfolding ceiling_div_1000 by (simp add: pos_imp_zdiv_nonneg_iff)
  then have "wrap_i64 ?p = ?p \<longleftrightarrow> ?p \<le> i64_max"
    using in_i64_wrap [of ?p] by (auto simp: in_i64_def)
  with eq show ?thesis by simp
qed

theorem token_price_is_wrapped_ceiling_witness:
  "token_price_minor 1500 7 = Inr 11 \<and> token_price_minor 4096 9007199254740992 = Inr 36893488147419104
   \<and> token_price_minor 512000 18014398509481985 = Inr (- 9223372036854775296)"
  using token_price_is_wrapped_ceiling [of 1500 7]
    token_price_is_wrapped_ceiling [of 4096 9007199254740992]
    token_price_is_wrapped_ceiling [of 512000 18014398509481985]
  unfolding ceiling_div_1000 by (simp add: in_i64_def wrap_i64_def)

text \<open>
  C22. For a chat request the amount held covers the later charge: when the provider reports no
  more prompt tokens than were estimated and no more completion tokens than were budgeted, and
  the prices of the estimate fit 64 bits, the charge computed from the response is at most the
  hold.
\<close>

theorem hold_covers_charge:
  assumes "estimate_hold_minor to_vec payload m = Inr hold" and "prices_wf m"
    and "estimate_prompt_tokens to_vec payload = Inr prompt"
    and "tu_prompt_tokens usage = Some pt" and "tu_completion_tokens usage = Some ct"
    and "in_i64 pt" and "in_i64 ct" and "pt \<le> prompt" and "ct \<le> completion_token_budget payload"
    and "token_fee prompt (gm_input_1k_price_minor m) \<le> i64_max"
    and "token_fee (completion_token_budget payload) (gm_output_1k_price_minor m) \<le> i64_max"
  shows "\<exists>charge. calculate_actual_charge_minor m usage = Some charge \<and> 0 \<le> charge \<and> charge \<le> hold"
proof -
  let ?in = "gm_input_1k_price_minor m" and ?out = "gm_output_1k_price_minor m"
    and ?r = "gm_request_price_minor m" and ?b = "completion_token_budget payload"
  have prices: "in_i64 ?in" "in_i64 ?out" "0 \<le> ?r" using assms(2) by (auto simp: prices_wf_def)
  have ranges: "in_i64 prompt" "in_i64 ?b"
    using estimate_prompt_tokens_bounds [OF assms(3)] clamp_i64
    by (auto simp: completion_token_budget_def Let_def)
  have fees: "0 \<le> token_fee pt ?in" "token_fee pt ?in \<le> token_fee prompt ?in"
    "0 \<le> token_fee ct ?out" "token_fee ct ?out \<le> token_fee ?b ?out"
    using token_fee_nonneg token_fee_mono assms(8,9) by auto
  have hold: "in_i64 (?r + token_fee prompt ?in)" "in_i64 hold" "hold = ?r + token_fee prompt ?in + token_fee ?b ?out"
    using assms(1,3) token_price_fee [OF ranges(1) prices(1) assms(10)]
      token_price_fee [OF ranges(2) prices(2) assms(11)]
    by (auto simp: estimate_hold_minor_def rs_bind_def ok_or_Inr checked_add_i64_def split: if_splits)
  have "token_price_minor pt ?in = Inr (token_fee pt ?in)" "token_price_minor ct ?out = Inr (token_fee ct ?out)"
    using token_price_fee prices fees assms(6,7,10,11) by auto
  moreover have "in_i64 (?r + token_fee pt ?in)" "in_i64 (?r + token_fee pt ?in + token_fee ct ?out)"
    using hold fees prices(3) by (auto simp: in_i64_def)
  ultimately have "calculate_actual_charge_minor m usage = Some (?r + token_fee pt ?in + token_fee ct ?out)"
    by (simp add: calculate_actual_charge_minor_def assms(4,5) result_ok_def checked_add_i64_def)
  with hold(3) fees prices(3) show ?thesis by auto
qed

definition sample_model :: gateway_model where
  "sample_model = \<lparr>gm_id = 3, gm_provider_id = 2, gm_provider_kind = ''openai_compatible'',
     gm_provider_name = ''p'', gm_provider_base_url = ''https://p'', gm_provider_config = JObject [],
     gm_provider_secret_encrypted = Some ''e'', gm_code = ''m'', gm_modality = ''text'',
     gm_provider_model = None, gm_currency = ''CNY'', gm_billing_mode = ''token'',
     gm_input_1k_price_minor = 500, gm_output_1k_price_minor = 1000, gm_request_price_minor = 2,
     gm_image_price_minor = 10, gm_second_price_minor = 0, gm_minute_price_minor = 0,
     gm_daily_spend_limit_minor = None, gm_pricing_config = JObject []\<rparr>"

text \<open>A chat payload whose messages serialize to eight bytes and that budgets 100 tokens.\<close>

definition sample_payload :: json where
  "sample_payload = JObject [(''model'', JString ''m''), (''messages'', JArray []),
     (''max_tokens'', JNumber (JInt 100))]"

definition sample_to_vec :: "json \<Rightarrow> string + string" where
  "sample_to_vec v = Inr (replicate 8 CHR ''x'')"

theorem hold_covers_charge_witness:
  "\<exists>charge. calculate_actual_charge_minor sample_model
      \<lparr>tu_prompt_tokens = Some 3, tu_completion_tokens = Some 40, tu_total_tokens = None\<rparr> = Some charge
     \<and> charge \<le> 104"
proof -
  have "estimate_prompt_tokens sample_to_vec sample_payload = Inr 3"
    by (simp add: estimate_prompt_tokens_def sample_to_vec_def clamp_int_def max_prompt_token_estimate_def)
  moreover have "completion_token_budget sample_payload = 100"
    by (simp add: completion_token_budget_def sample_payload_def clamp_int_def
        max_completion_token_budget_def in_i64_def)
  moreover from calculation have "estimate_hold_minor sample_to_vec sample_payload sample_model = Inr 104"
    by (simp add: estimate_hold_minor_def sample_model_def token_price_minor_def rs_bind_def ok_or_def
        checked_mul_i128_def checked_add_i128_def checked_add_i64_def in_i128_def in_i64_def)
  ultimately show ?thesis
    using hold_covers_charge [of sample_to_vec sample_payload sample_model 104 3
        "\<lparr>tu_prompt_tokens = Some 3, tu_completion_tokens = Some 40, tu_total_tokens = None\<rparr>" 3 40]
    by (auto simp: sample_model_def prices_wf_def in_i64_def token_fee_def)
qed

end
