(* ===== verification/AiModel.thy ===== *)
theory AiModel
  imports Pricing AuditLog RateLimit
begin

text \<open>
  The tables of the AI gateway (\<open>backend/migrations\<close>, \<open>ai_*\<close>) and what a request gets from
  outside. A usage record is the bill of one request: while it is running, its price snapshot
  holds the amount reserved for it in the wallet. A generation job is an asynchronous request,
  polled by a worker; it refers to its usage record.

  \<open>ae_decode_sum\<close> is sqlx's decoding of the \<open>numeric\<close> value of SQL's \<open>sum\<close> into an \<open>i64\<close> (the
  value or the text of the decoding error); \<open>ae_day_start\<close> is \<open>date_trunc('day', now())\<close>.
\<close>

record wallet =
  wal_id :: uuid
  wal_tenant_id :: uuid
  wal_customer_id :: uuid
  wal_currency :: string
  wal_balance_minor :: i64
  wal_held_minor :: i64
  wal_ai_enabled :: bool
  wal_daily_spend_limit_minor :: "i64 option"
  wal_updated_at :: time

record ledger_entry =
  le_tenant_id :: uuid
  le_wallet_id :: uuid
  le_customer_id :: uuid
  le_entry_type :: string
  le_amount_minor :: i64
  le_balance_after_minor :: i64
  le_held_after_minor :: i64
  le_reason :: string
  le_reference_type :: "string option"
  le_reference_id :: "string option"
  le_metadata_json :: json
  le_created_by :: "uuid option"

record usage_record =
  usr_id :: uuid
  usr_tenant_id :: uuid
  usr_wallet_id :: "uuid option"
  usr_customer_id :: "uuid option"
  usr_api_key_id :: "uuid option"
  usr_provider_id :: "uuid option"
  usr_model_id :: "uuid option"
  usr_request_id :: "string option"
  usr_idempotency_key :: "string option"
  usr_endpoint :: string
  usr_status :: string
  usr_provider_status :: "string option"
  usr_provider_request_id :: "string option"
  usr_prompt_tokens :: "i64 option"
  usr_completion_tokens :: "i64 option"
  usr_total_tokens :: "i64 option"
  usr_charged_minor :: i64
  usr_refunded_minor :: i64
  usr_price_snapshot :: json
  usr_provider_raw_response :: "json option"
  usr_metadata_json :: json
  usr_created_at :: time
  usr_completed_at :: "time option"

record generation_job =
  job_id :: uuid
  job_tenant_id :: uuid
  job_wallet_id :: "uuid option"
  job_customer_id :: uuid
  job_provider_id :: "uuid option"
  job_model_id :: "uuid option"
  job_usage_id :: "uuid option"
  job_server_key_id :: "uuid option"
  job_request_id :: "string option"
  job_idempotency_key :: "string option"
  job_type :: string
  job_status :: string
  job_provider_status :: "string option"
  job_provider_job_id :: "string option"
  job_provider_request_id :: "string option"
  job_provider_submit_response :: "json option"
  job_provider_result_response :: "json option"
  job_request_payload :: json
  job_result_json :: "json option"
  job_asset_urls :: json
  job_charge_mode :: string
  job_quantity :: i64
  job_held_minor :: i64
  job_charged_minor :: i64
  job_refunded_minor :: i64
  job_currency :: string
  job_failure_reason :: "string option"
  job_attempts :: int
  job_next_poll_at :: "time option"
  job_submitted_at :: "time option"
  job_completed_at :: "time option"
  job_created_at :: time

text \<open>What a job's worker reads of a provider, and a model row joined with its provider.\<close>

record provider_row =
  prv_id :: uuid
  prv_kind :: string
  prv_base_url :: string
  prv_config :: json
  prv_secret_encrypted :: "string option"
  prv_enabled :: bool

record model_row =
  mr_tenant_id :: uuid
  mr_model_enabled :: bool
  mr_provider_enabled :: bool
  mr_model :: gateway_model

record ai_customer =
  aic_tenant_id :: uuid
  aic_id :: uuid
  aic_email :: "string option"
  aic_name :: "string option"
  aic_deleted_at :: "time option"

text \<open>A generated file, the customer's entry of it and the work made of that.\<close>

record ai_asset =
  ast_id :: uuid
  ast_tenant_id :: uuid
  ast_usage_id :: "uuid option"
  ast_asset_type :: string
  ast_status :: string
  ast_provider_url :: "string option"
  ast_storage_key :: string
  ast_public_url :: string
  ast_mime_type :: "string option"
  ast_file_size :: "i64 option"
  ast_checksum_sha256 :: string

record customer_asset =
  cas_id :: uuid
  cas_tenant_id :: uuid
  cas_app_id :: uuid
  cas_customer_id :: uuid
  cas_ai_asset_id :: "uuid option"
  cas_name :: string
  cas_asset_type :: string
  cas_asset_role :: string
  cas_source :: string
  cas_status :: string
  cas_storage_key :: "string option"
  cas_public_url :: "string option"
  cas_mime_type :: "string option"
  cas_file_size :: "i64 option"
  cas_checksum_sha256 :: "string option"
  cas_metadata_json :: json
  cas_deleted_at :: "time option"

record customer_work =
  cwk_id :: uuid
  cwk_tenant_id :: uuid
  cwk_app_id :: uuid
  cwk_owner_customer_id :: uuid
  cwk_source_job_id :: "uuid option"
  cwk_title :: string
  cwk_work_type :: string
  cwk_visibility :: string
  cwk_primary_asset_id :: uuid
  cwk_metadata_json :: json
  cwk_deleted_at :: "time option"

record work_asset =
  was_work_id :: uuid
  was_asset_id :: uuid
  was_role :: string
  was_sort_order :: int

record ai_db =
  ai_providers :: "provider_row list"
  ai_models :: "model_row list"
  ai_customers :: "ai_customer list"
  ai_wallets :: "wallet list"
  ai_ledger :: "ledger_entry list"
  ai_usages :: "usage_record list"
  ai_jobs :: "generation_job list"
  ai_assets :: "ai_asset list"
  ai_customer_assets :: "customer_asset list"
  ai_works :: "customer_work list"
  ai_work_assets :: "work_asset list"
  ai_audit_logs :: "audit_log list"
  ai_redis :: redis

record ai_env =
  ae_now :: time
  ae_db_now :: time
  ae_day_start :: time
  ae_wallet_id :: uuid
  ae_usage_id :: uuid
  ae_job_id :: uuid
  ae_audit_id :: uuid
  ae_request_id :: string
  ae_db_error :: string
  ae_decode_sum :: "int \<Rightarrow> string + i64"
  ae_uuid_text :: "uuid \<Rightarrow> string"
  ae_time_text :: "time \<Rightarrow> string"
  ae_lower :: "string \<Rightarrow> string"
  ae_inet :: "string \<Rightarrow> string option"
  ae_to_vec :: "json \<Rightarrow> string + string"
  ae_fault :: redis_fault
  ae_rate_limit_max :: nat
  ae_rate_limit_window_seconds :: nat

type_synonym 'a ai_tx = "(ai_db, app_error, 'a) tx"
type_synonym 'a ai_io = "(ai_db, app_error, 'a) io"


section \<open>The constraints of the schema\<close>

text \<open>
  The check constraints and unique indexes the operations can run into. Arithmetic on
  \<open>bigint\<close> columns fails out of range, so a stored amount is an \<open>i64\<close>. The nil uuid of the
  index on idempotency keys is 0.
\<close>

definition currency_check :: "string \<Rightarrow> bool" where
  "currency_check s \<longleftrightarrow> length s = 3 \<and> list_all (\<lambda>c. 65 \<le> byte c \<and> byte c \<le> 90) s"

definition wallet_check :: "wallet \<Rightarrow> bool" where
  "wallet_check w \<longleftrightarrow>
     0 \<le> wal_held_minor w \<and> wal_held_minor w \<le> wal_balance_minor w \<and> in_i64 (wal_balance_minor w)
     \<and> currency_check (wal_currency w)
     \<and> (case wal_daily_spend_limit_minor w of None \<Rightarrow> True | Some l \<Rightarrow> 0 \<le> l)"

definition wallet_clash :: "wallet \<Rightarrow> wallet \<Rightarrow> bool" where
  "wallet_clash v w \<longleftrightarrow>
     wal_id v = wal_id w
     \<or> (wal_tenant_id v = wal_tenant_id w \<and> wal_customer_id v = wal_customer_id w)"

definition ledger_check :: "ledger_entry \<Rightarrow> bool" where
  "ledger_check e \<longleftrightarrow>
     le_entry_type e \<in> {''credit'', ''debit'', ''hold'', ''capture'', ''release'', ''refund'', ''adjustment''}
     \<and> le_amount_minor e \<noteq> 0
     \<and> 0 \<le> le_held_after_minor e \<and> le_held_after_minor e \<le> le_balance_after_minor e
     \<and> is_object (le_metadata_json e)"

text \<open>Postgres' \<open>btrim\<close> removes spaces, \<open>length\<close> counts characters.\<close>

definition btrim :: "string \<Rightarrow> string" where
  "btrim s = rev (dropWhile (\<lambda>c. c = CHR '' '') (rev (dropWhile (\<lambda>c. c = CHR '' '') s)))"

definition usage_check :: "usage_record \<Rightarrow> bool" where
  "usage_check u \<longleftrightarrow>
     usr_status u \<in> {''pending'', ''running'', ''succeeded'', ''failed'', ''refunded''}
     \<and> 0 \<le> usr_charged_minor u \<and> 0 \<le> usr_refunded_minor u \<and> in_i64 (usr_refunded_minor u)
     \<and> is_object (usr_price_snapshot u) \<and> is_object (usr_metadata_json u)
     \<and> (case usr_idempotency_key u of
          None \<Rightarrow> True | Some k \<Rightarrow> 1 \<le> chars_count (btrim k) \<and> chars_count (btrim k) \<le> 200)"

definition usage_clash :: "usage_record \<Rightarrow> usage_record \<Rightarrow> bool" where
  "usage_clash u v \<longleftrightarrow>
     usr_id u = usr_id v
     \<or> (usr_idempotency_key u \<noteq> None \<and> usr_idempotency_key u = usr_idempotency_key v
        \<and> usr_tenant_id u = usr_tenant_id v
        \<and> usr_customer_id u \<noteq> None \<and> usr_customer_id u = usr_customer_id v
        \<and> (case usr_api_key_id u of None \<Rightarrow> 0 | Some k \<Rightarrow> k) = (case usr_api_key_id v of None \<Rightarrow> 0 | Some k \<Rightarrow> k)
        \<and> usr_endpoint u = usr_endpoint v)"

definition job_check :: "generation_job \<Rightarrow> bool" where
  "job_check j \<longleftrightarrow>
     job_type j \<in> {''image'', ''video'', ''audio''}
     \<and> job_status j \<in> {''pending'', ''submitted'', ''running'', ''provider_succeeded'', ''caching'',
          ''succeeded'', ''provider_failed'', ''failed'', ''timeout_review'', ''cancelled''}
     \<and> job_charge_mode j \<in> {''per_image'', ''video_per_second'', ''video_per_request'',
          ''audio_per_second'', ''audio_per_minute'', ''audio_per_request''}
     \<and> currency_check (job_currency j)
     \<and> 0 < job_quantity j \<and> 0 \<le> job_held_minor j \<and> 0 \<le> job_charged_minor j
     \<and> 0 \<le> job_refunded_minor j \<and> in_i64 (job_refunded_minor j)
     \<and> is_object (job_request_payload j) \<and> is_array (job_asset_urls j)
     \<and> job_attempts j \<le> 2147483647"

definition job_clash :: "generation_job \<Rightarrow> generation_job \<Rightarrow> bool" where
  "job_clash i j \<longleftrightarrow>
     job_id i = job_id j
     \<or> (job_idempotency_key i \<noteq> None \<and> job_idempotency_key i = job_idempotency_key j
        \<and> job_tenant_id i = job_tenant_id j \<and> job_customer_id i = job_customer_id j
        \<and> job_server_key_id i \<noteq> None \<and> job_server_key_id i = job_server_key_id j
        \<and> job_type i = job_type j)"

definition empty_ai_db :: ai_db where
  "empty_ai_db = \<lparr>ai_providers = [], ai_models = [], ai_customers = [], ai_wallets = [], ai_ledger = [], ai_usages = [],
     ai_jobs = [], ai_assets = [], ai_customer_assets = [], ai_works = [], ai_work_assets = [],
     ai_audit_logs = [], ai_redis = Map.empty\<rparr>"

definition sample_ai_env :: ai_env where
  "sample_ai_env = \<lparr>ae_now = 50, ae_db_now = 50, ae_day_start = 0, ae_wallet_id = 11, ae_usage_id = 21,
     ae_job_id = 31, ae_audit_id = 41, ae_request_id = ''req'', ae_db_error = ''violation'',
     ae_decode_sum = Inr, ae_uuid_text = (\<lambda>u. ''u''), ae_time_text = (\<lambda>t. ''t''), ae_lower = id,
     ae_inet = Some, ae_to_vec = sample_to_vec, ae_fault = no_fault, ae_rate_limit_max = 60,
     ae_rate_limit_window_seconds = 60\<rparr>"

end
