(* ===== verification/Wallets.thy ===== *)
theory Wallets
  imports AiModel
begin

text \<open>
  Wallets and their bookkeeping (\<open>modules/ai/gateway.rs\<close>): an amount is held in the customer's
  wallet before the provider is called, and captured or released when it has answered. Each
  statement takes the error its module reports for a failed query, since \<open>jobs.rs\<close> repeats
  the statements with its own. A transaction locks the wallet row it reads (\<open>for update\<close>), so
  two transactions on one wallet do not overlap.
\<close>

record gateway_caller =
  gc_tenant_id :: uuid
  gc_app_id :: "uuid option"
  gc_customer_id :: uuid
  gc_api_key_id :: "uuid option"
  gc_rate_limit_key :: string
  gc_api_key_daily_spend_limit_minor :: "i64 option"
  gc_source :: string

record billing_reservation =
  br_usage_id :: uuid
  br_wallet_id :: uuid
  br_held_minor :: i64

record charge_settlement =
  cs_requested_minor :: i64
  cs_captured_minor :: i64
  cs_released_minor :: i64
  cs_additional_minor :: i64
  cs_shortfall_minor :: i64

definition gateway_db_error :: "ai_env \<Rightarrow> app_error" where
  "gateway_db_error env = Dependency (''ai gateway database error: '' @ ae_db_error env)"

definition num :: "int \<Rightarrow> json" where
  "num n = JNumber (JInt n)"

definition uuid_json :: "ai_env \<Rightarrow> uuid option \<Rightarrow> json" where
  "uuid_json env u = (case u of None \<Rightarrow> JNull | Some i \<Rightarrow> JString (ae_uuid_text env i))"


section \<open>Settling a charge\<close>

definition settle_charge :: "i64 \<Rightarrow> i64 \<Rightarrow> i64 \<Rightarrow> i64 \<Rightarrow> charge_settlement" where
  "settle_charge requested reservation_held wallet_balance wallet_held =
     (let requested = max requested 0;
          held = max reservation_held 0;
          available = max (saturating_sub_i64 wallet_balance wallet_held) 0;
          captured = min requested (saturating_add_i64 held available)
      in \<lparr>cs_requested_minor = requested, cs_captured_minor = captured,
          cs_released_minor = max (i64_sub held captured) 0,
          cs_additional_minor = max (i64_sub captured held) 0,
          cs_shortfall_minor = max (i64_sub requested captured) 0\<rparr>)"

definition settlement_fields :: "charge_settlement \<Rightarrow> (string \<times> json) list" where
  "settlement_fields s =
     [(''requested_minor'', num (cs_requested_minor s)), (''captured_minor'', num (cs_captured_minor s)),
      (''released_minor'', num (cs_released_minor s)), (''additional_minor'', num (cs_additional_minor s)),
      (''shortfall_minor'', num (cs_shortfall_minor s))]"

definition settlement_metadata :: "charge_settlement \<Rightarrow> json" where
  "settlement_metadata s = JObject [(''billing_settlement'', JObject (settlement_fields s))]"


section \<open>Statements on wallets\<close>

definition wallet_by_id :: "uuid \<Rightarrow> wallet list \<Rightarrow> wallet option" where
  "wallet_by_id i ws = List.find (\<lambda>w. wal_id w = i) ws"

definition set_wallet :: "uuid \<Rightarrow> (wallet \<Rightarrow> wallet) \<Rightarrow> wallet list \<Rightarrow> wallet list" where
  "set_wallet i f ws = update_where (\<lambda>w. wal_id w = i) f ws"

text \<open>The foreign key to the customers, then \<open>on conflict (tenant_id, customer_id) do nothing\<close>.\<close>

definition ensure_wallet_exists :: "ai_env \<Rightarrow> app_error \<Rightarrow> uuid \<Rightarrow> uuid \<Rightarrow> unit ai_tx" where
  "ensure_wallet_exists env e tenant customer =
     (\<lambda>db.
        if list_ex (\<lambda>w. wal_tenant_id w = tenant \<and> wal_customer_id w = customer) (ai_wallets db)
          then Inr ((), db)
        else if \<not> list_ex (\<lambda>c. aic_id c = customer) (ai_customers db) then Inl e
        else
          (case insert_row wallet_check wallet_clash e
                  \<lparr>wal_id = ae_wallet_id env, wal_tenant_id = tenant, wal_customer_id = customer,
                   wal_currency = ''CNY'', wal_balance_minor = 0, wal_held_minor = 0,
                   wal_ai_enabled = True, wal_daily_spend_limit_minor = None,
                   wal_updated_at = ae_db_now env\<rparr> (ai_wallets db) of
             Inl x \<Rightarrow> Inl x
           | Inr ws \<Rightarrow> Inr ((), db\<lparr>ai_wallets := ws\<rparr>)))"

definition find_wallet_for_update :: "app_error \<Rightarrow> uuid \<Rightarrow> uuid \<Rightarrow> wallet ai_tx" where
  "find_wallet_for_update e tenant customer =
     tx_read (\<lambda>db. ok_or (List.find (\<lambda>w. wal_tenant_id w = tenant \<and> wal_customer_id w = customer)
                           (ai_wallets db)) e)"

definition find_wallet_by_id_for_update :: "app_error \<Rightarrow> uuid \<Rightarrow> wallet ai_tx" where
  "find_wallet_by_id_for_update e i = tx_read (\<lambda>db. ok_or (wallet_by_id i (ai_wallets db)) e)"

text \<open>\<open>update ai_wallets set .., updated_at = now() where .. returning ..\<close>, \<open>fetch_one\<close>.\<close>

definition update_wallet ::
    "ai_env \<Rightarrow> app_error \<Rightarrow> (wallet \<Rightarrow> bool) \<Rightarrow> (wallet \<Rightarrow> wallet) \<Rightarrow> wallet ai_tx" where
  "update_wallet env e P f =
     (\<lambda>db. case update_returning wallet_check e P (\<lambda>w. (f w)\<lparr>wal_updated_at := ae_db_now env\<rparr>)
                  (ai_wallets db) of
             Inl x \<Rightarrow> Inl x
           | Inr (None, _) \<Rightarrow> Inl e
           | Inr (Some w, ws) \<Rightarrow> Inr (w, db\<lparr>ai_wallets := ws\<rparr>))"

definition update_wallet_hold :: "ai_env \<Rightarrow> app_error \<Rightarrow> uuid \<Rightarrow> uuid \<Rightarrow> i64 \<Rightarrow> wallet ai_tx" where
  "update_wallet_hold env e tenant i delta =
     update_wallet env e (\<lambda>w. wal_tenant_id w = tenant \<and> wal_id w = i)
       (\<lambda>w. w\<lparr>wal_held_minor := wal_held_minor w + delta\<rparr>)"

definition update_wallet_capture :: "ai_env \<Rightarrow> app_error \<Rightarrow> uuid \<Rightarrow> i64 \<Rightarrow> i64 \<Rightarrow> wallet ai_tx" where
  "update_wallet_capture env e i held charge =
     update_wallet env e (\<lambda>w. wal_id w = i)
       (\<lambda>w. w\<lparr>wal_balance_minor := wal_balance_minor w - charge,
              wal_held_minor := wal_held_minor w - held\<rparr>)"

definition insert_wallet_ledger_entry ::
    "ai_env \<Rightarrow> app_error \<Rightarrow> uuid \<Rightarrow> wallet \<Rightarrow> string \<Rightarrow> i64 \<Rightarrow> string \<Rightarrow> uuid \<Rightarrow> json \<Rightarrow> unit ai_tx" where
  "insert_wallet_ledger_entry env e tenant w entry_type amount reason usage metadata =
     (let row = \<lparr>le_tenant_id = tenant, le_wallet_id = wal_id w, le_customer_id = wal_customer_id w,
           le_entry_type = entry_type, le_amount_minor = amount,
           le_balance_after_minor = wal_balance_minor w, le_held_after_minor = wal_held_minor w,
           le_reason = reason, le_reference_type = Some ''ai_usage'',
           le_reference_id = Some (ae_uuid_text env usage), le_metadata_json = metadata,
           le_created_by = None\<rparr> in
      (\<lambda>db. if ledger_check row then Inr ((), db\<lparr>ai_ledger := ai_ledger db @ [row]\<rparr>) else Inl e))"


section \<open>Statements on usage records\<close>

definition usage_by_id :: "uuid \<Rightarrow> usage_record list \<Rightarrow> usage_record option" where
  "usage_by_id i us = List.find (\<lambda>u. usr_id u = i) us"

definition set_usage :: "uuid \<Rightarrow> (usage_record \<Rightarrow> usage_record) \<Rightarrow> usage_record list \<Rightarrow> usage_record list"
  where
  "set_usage i f us = update_where (\<lambda>u. usr_id u = i) f us"

text \<open>\<open>coalesce((price_snapshot_json->>'held_minor')::bigint, 0)\<close>, on the snapshots the code writes.\<close>

definition usage_held :: "usage_record \<Rightarrow> i64" where
  "usage_held u =
     (case json_get ''held_minor'' (usr_price_snapshot u) of
        Some (JNumber (JInt n)) \<Rightarrow> n | _ \<Rightarrow> 0)"

definition insert_usage :: "app_error \<Rightarrow> usage_record \<Rightarrow> unit ai_tx" where
  "insert_usage e row =
     (\<lambda>db. case insert_row usage_check usage_clash e row (ai_usages db) of
             Inl x \<Rightarrow> Inl x
           | Inr us \<Rightarrow> Inr ((), db\<lparr>ai_usages := us\<rparr>))"

definition insert_usage_record ::
    "ai_env \<Rightarrow> uuid \<Rightarrow> gateway_caller \<Rightarrow> gateway_model \<Rightarrow> uuid \<Rightarrow> string \<Rightarrow> string \<Rightarrow> i64 \<Rightarrow> json
      \<Rightarrow> string option \<Rightarrow> unit ai_tx" where
  "insert_usage_record env usage caller m wallet request_id endpoint held payload key =
     insert_usage (gateway_db_error env)
       \<lparr>usr_id = usage, usr_tenant_id = gc_tenant_id caller, usr_wallet_id = Some wallet,
        usr_customer_id = Some (gc_customer_id caller), usr_api_key_id = gc_api_key_id caller,
        usr_provider_id = Some (gm_provider_id m), usr_model_id = Some (gm_id m),
        usr_request_id = Some request_id, usr_idempotency_key = key, usr_endpoint = endpoint,
        usr_status = ''running'', usr_provider_status = None, usr_provider_request_id = None,
        usr_prompt_tokens = None, usr_completion_tokens = None, usr_total_tokens = None,
        usr_charged_minor = 0, usr_refunded_minor = 0,
        usr_price_snapshot = price_snapshot m held (ae_time_text env (ae_now env)),
        usr_provider_raw_response = None,
        usr_metadata_json = JObject [(''source'', JString (gc_source caller)),
          (''api_key_id'', uuid_json env (gc_api_key_id caller)),
          (''request_model'', JString (case requested_model_code payload of
             Inl _ \<Rightarrow> gm_code m | Inr c \<Rightarrow> c)),
          (''provider_name'', JString (gm_provider_name m))],
        usr_created_at = ae_db_now env, usr_completed_at = None\<rparr>"

definition update_usage :: "app_error \<Rightarrow> uuid \<Rightarrow> (usage_record \<Rightarrow> usage_record) \<Rightarrow> unit ai_tx" where
  "update_usage e i f =
     (\<lambda>db. case update_returning usage_check e (\<lambda>u. usr_id u = i) f (ai_usages db) of
             Inl x \<Rightarrow> Inl x
           | Inr (_, us) \<Rightarrow> Inr ((), db\<lparr>ai_usages := us\<rparr>))"

definition update_usage_succeeded ::
    "ai_env \<Rightarrow> uuid \<Rightarrow> int \<Rightarrow> string option \<Rightarrow> token_usage \<Rightarrow> i64 \<Rightarrow> json \<Rightarrow> json \<Rightarrow> unit ai_tx" where
  "update_usage_succeeded env i provider_status provider_request_id usage charged metadata body =
     update_usage (gateway_db_error env) i
       (\<lambda>u. u\<lparr>usr_status := ''succeeded'', usr_provider_status := Some (show_i64 provider_status),
              usr_provider_request_id := provider_request_id,
              usr_prompt_tokens := tu_prompt_tokens usage,
              usr_completion_tokens := tu_completion_tokens usage,
              usr_total_tokens := tu_total_tokens usage, usr_charged_minor := charged,
              usr_metadata_json := jsonb_concat (usr_metadata_json u) metadata,
              usr_provider_raw_response := Some body, usr_completed_at := Some (ae_db_now env)\<rparr>)"

definition update_usage_failed ::
    "ai_env \<Rightarrow> app_error \<Rightarrow> uuid \<Rightarrow> int \<Rightarrow> string option \<Rightarrow> i64 \<Rightarrow> json option \<Rightarrow> unit ai_tx" where
  "update_usage_failed env e i provider_status provider_request_id refunded body =
     update_usage e i
       (\<lambda>u. u\<lparr>usr_status := ''failed'', usr_provider_status := Some (show_i64 provider_status),
              usr_provider_request_id := provider_request_id, usr_refunded_minor := refunded,
              usr_provider_raw_response := body, usr_completed_at := Some (ae_db_now env)\<rparr>)"


section \<open>Daily limits\<close>

definition spend_of :: "usage_record \<Rightarrow> int" where
  "spend_of u =
     (if usr_status u = ''succeeded'' then usr_charged_minor u
      else if usr_status u = ''pending'' \<or> usr_status u = ''running'' then usage_held u
      else 0)"

definition daily_spend_minor ::
    "ai_env \<Rightarrow> app_error \<Rightarrow> uuid \<Rightarrow> uuid option \<Rightarrow> uuid option \<Rightarrow> uuid option \<Rightarrow> i64 ai_tx" where
  "daily_spend_minor env e tenant customer api_key model =
     tx_read (\<lambda>db.
       case ae_decode_sum env (sum_list (map spend_of
              (filter (\<lambda>u. usr_tenant_id u = tenant \<and> ae_day_start env \<le> usr_created_at u
                         \<and> (customer = None \<or> usr_customer_id u = customer)
                         \<and> (api_key = None \<or> usr_api_key_id u = api_key)
                         \<and> (model = None \<or> usr_model_id u = model)) (ai_usages db)))) of
         Inl _ \<Rightarrow> Inl e
       | Inr n \<Rightarrow> Inr n)"

definition ensure_daily_limit_available :: "string \<Rightarrow> i64 \<Rightarrow> i64 \<Rightarrow> i64 \<Rightarrow> app_error + unit" where
  "ensure_daily_limit_available label limit used hold =
     (if saturating_add_i64 used hold > limit then Inl (BusinessRuleFailed (label @ '' exceeded''))
      else Inr ())"

definition check_daily_limit ::
    "string \<Rightarrow> i64 option \<Rightarrow> i64 ai_tx \<Rightarrow> i64 \<Rightarrow> unit ai_tx" where
  "check_daily_limit label limit used hold =
     (case limit of
        None \<Rightarrow> tx_return ()
      | Some l \<Rightarrow> tx_bind used (\<lambda>u. tx_of (ensure_daily_limit_available label l u hold)))"

definition ensure_daily_spend_limits ::
    "ai_env \<Rightarrow> gateway_caller \<Rightarrow> gateway_model \<Rightarrow> wallet \<Rightarrow> i64 \<Rightarrow> unit ai_tx" where
  "ensure_daily_spend_limits env caller m w hold =
     (let e = gateway_db_error env; t = gc_tenant_id caller in
      if hold \<le> 0 then tx_return ()
      else
        tx_bind (check_daily_limit ''customer ai daily spend limit'' (wal_daily_spend_limit_minor w)
                   (daily_spend_minor env e t (Some (gc_customer_id caller)) None None) hold) (\<lambda>_.
        tx_bind (case gc_api_key_id caller of
                   None \<Rightarrow> tx_return ()
                 | Some k \<Rightarrow>
                     check_daily_limit ''ai api key daily spend limit''
                       (gc_api_key_daily_spend_limit_minor caller)
                       (daily_spend_minor env e t None (Some k) None) hold) (\<lambda>_.
        check_daily_limit ''ai model daily spend limit'' (gm_daily_spend_limit_minor m)
          (daily_spend_minor env e t None None (Some (gm_id m))) hold)))"


section \<open>Reserving, capturing and releasing\<close>

definition ensure_wallet_ai_enabled :: "wallet \<Rightarrow> app_error + unit" where
  "ensure_wallet_ai_enabled w =
     (if \<not> wal_ai_enabled w then Inl (BusinessRuleFailed ''customer ai access is frozen'') else Inr ())"

definition reason_hold :: string where
  "reason_hold = utf8 [65, 73, 32, 232, 175, 183, 230, 177, 130, 233, 162, 132, 230, 137, 163]"

definition reason_capture :: string where
  "reason_capture = utf8 [65, 73, 32, 232, 175, 183, 230, 177, 130, 230, 136, 144, 229, 138, 159,
     231, 187, 147, 231, 174, 151]"

definition reason_free :: string where
  "reason_free = utf8 [65, 73, 32, 232, 175, 183, 230, 177, 130, 230, 136, 144, 229, 138, 159, 228,
     189, 134, 230, 151, 160, 233, 156, 128, 230, 137, 163, 232, 180, 185, 239, 188, 140, 233, 135,
     138, 230, 148, 190, 233, 162, 132, 230, 137, 163, 233, 135, 145, 233, 162, 157]"

definition reserve_checks :: "wallet \<Rightarrow> gateway_model \<Rightarrow> i64 \<Rightarrow> app_error + unit" where
  "reserve_checks w m hold =
     rs_bind (ensure_wallet_ai_enabled w) (\<lambda>_.
     if wal_currency w \<noteq> gm_currency m
       then Inl (BusinessRuleFailed ''ai wallet currency does not match model currency'')
     else if i64_sub (wal_balance_minor w) (wal_held_minor w) < hold
       then Inl (BusinessRuleFailed ''ai wallet available balance is insufficient'')
     else Inr ())"

text \<open>
  The three transactions, with what the gateway and the jobs put into them: the check of the daily
  limits, the insert and update of the usage record, and the entries of the ledger.
\<close>

definition reserve_tx ::
    "ai_env \<Rightarrow> app_error \<Rightarrow> uuid \<Rightarrow> uuid \<Rightarrow> gateway_model \<Rightarrow> i64 \<Rightarrow> (wallet \<Rightarrow> unit ai_tx) \<Rightarrow> (uuid \<Rightarrow> unit ai_tx)
      \<Rightarrow> string \<Rightarrow> json \<Rightarrow> billing_reservation ai_tx" where
  "reserve_tx env e tenant customer m hold limits insert_usage_of reason metadata =
     (let usage = ae_usage_id env in
      tx_bind (ensure_wallet_exists env e tenant customer) (\<lambda>_.
      tx_bind (find_wallet_for_update e tenant customer) (\<lambda>w.
      tx_bind (tx_of (reserve_checks w m hold)) (\<lambda>_.
      tx_bind (limits w) (\<lambda>_.
      tx_bind (if hold > 0 then update_wallet_hold env e tenant (wal_id w) hold else tx_return w) (\<lambda>updated.
      tx_bind (insert_usage_of (wal_id w)) (\<lambda>_.
      tx_bind (if hold > 0
               then insert_wallet_ledger_entry env e tenant updated ''hold'' hold reason usage metadata
               else tx_return ()) (\<lambda>_.
      tx_return \<lparr>br_usage_id = usage, br_wallet_id = wal_id w, br_held_minor = hold\<rparr>))))))))"

definition reserve_wallet_and_create_usage ::
    "ai_env \<Rightarrow> gateway_caller \<Rightarrow> gateway_model \<Rightarrow> string \<Rightarrow> string \<Rightarrow> i64 \<Rightarrow> json \<Rightarrow> string option
      \<Rightarrow> billing_reservation ai_io" where
  "reserve_wallet_and_create_usage env caller m request_id endpoint hold payload key =
     commit (reserve_tx env (gateway_db_error env) (gc_tenant_id caller) (gc_customer_id caller) m hold
       (\<lambda>w. ensure_daily_spend_limits env caller m w hold)
       (\<lambda>wallet. insert_usage_record env (ae_usage_id env) caller m wallet request_id endpoint hold payload key)
       reason_hold
       (JObject [(''source'', JString (gc_source caller)),
          (''api_key_id'', uuid_json env (gc_api_key_id caller)),
          (''model'', JString (gm_code m))]))"

text \<open>\<open>captured\<close> and \<open>free\<close> are the reason and metadata of the entries of a charge and of none.\<close>

definition capture_tx ::
    "ai_env \<Rightarrow> app_error \<Rightarrow> uuid \<Rightarrow> uuid \<Rightarrow> i64 \<Rightarrow> i64 \<Rightarrow> string \<times> (charge_settlement \<Rightarrow> json) \<Rightarrow> string \<times> json
      \<Rightarrow> (charge_settlement \<Rightarrow> unit ai_tx) \<Rightarrow> unit ai_tx" where
  "capture_tx env e wallet usage held charge captured free close =
     tx_bind (find_wallet_by_id_for_update e wallet) (\<lambda>w.
     let s = settle_charge charge held (wal_balance_minor w) (wal_held_minor w) in
     tx_bind (update_wallet_capture env e (wal_id w) held (cs_captured_minor s)) (\<lambda>updated.
     tx_bind (if cs_captured_minor s > 0
              then insert_wallet_ledger_entry env e (wal_tenant_id w) updated ''capture''
                     (i64_neg (cs_captured_minor s)) (fst captured) usage (snd captured s)
              else if held > 0
              then insert_wallet_ledger_entry env e (wal_tenant_id w) updated ''release''
                     (i64_neg held) (fst free) usage (snd free)
              else tx_return ()) (\<lambda>_. close s)))"

definition capture_usage ::
    "ai_env \<Rightarrow> billing_reservation \<Rightarrow> gateway_model \<Rightarrow> int \<Rightarrow> string option \<Rightarrow> token_usage \<Rightarrow> i64 \<Rightarrow> json
      \<Rightarrow> unit ai_io" where
  "capture_usage env r m provider_status provider_request_id usage charge body =
     commit (capture_tx env (gateway_db_error env) (br_wallet_id r) (br_usage_id r) (br_held_minor r) charge
       (reason_capture,
        \<lambda>s. JObject ([(''model'', JString (gm_code m)), (''held_minor'', num (br_held_minor r))]
              @ settlement_fields s))
       (reason_free, JObject [(''model'', JString (gm_code m))])
       (\<lambda>s. update_usage_succeeded env (br_usage_id r) provider_status provider_request_id usage
              (cs_captured_minor s) (settlement_metadata s) body))"

definition release_reservation ::
    "ai_env \<Rightarrow> app_error \<Rightarrow> uuid \<Rightarrow> i64 \<Rightarrow> uuid \<Rightarrow> string \<Rightarrow> json \<Rightarrow> unit ai_tx" where
  "release_reservation env e wallet held usage reason metadata =
     tx_bind (find_wallet_by_id_for_update e wallet) (\<lambda>w.
     tx_bind (if held > 0 then update_wallet_hold env e (wal_tenant_id w) (wal_id w) (i64_neg held)
              else tx_return w) (\<lambda>updated.
     if held > 0
     then insert_wallet_ledger_entry env e (wal_tenant_id w) updated ''release'' (i64_neg held) reason
            usage metadata
     else tx_return ()))"

definition release_tx ::
    "ai_env \<Rightarrow> app_error \<Rightarrow> uuid \<Rightarrow> uuid \<Rightarrow> i64 \<Rightarrow> int \<Rightarrow> string option \<Rightarrow> json option \<Rightarrow> string \<Rightarrow> json
      \<Rightarrow> unit ai_tx" where
  "release_tx env e wallet usage held provider_status provider_request_id body reason metadata =
     tx_bind (release_reservation env e wallet held usage reason metadata) (\<lambda>_.
     update_usage_failed env e usage provider_status provider_request_id held body)"

definition release_usage ::
    "ai_env \<Rightarrow> app_error \<Rightarrow> billing_reservation \<Rightarrow> int \<Rightarrow> string option \<Rightarrow> json option \<Rightarrow> string
      \<Rightarrow> unit ai_io" where
  "release_usage env e r provider_status provider_request_id body reason =
     commit (release_tx env e (br_wallet_id r) (br_usage_id r) (br_held_minor r) provider_status
       provider_request_id body reason (JObject []))"


section \<open>Facts on the statements\<close>

interpretation wt: keyed_table wal_id set_wallet wallet_by_id
  by unfold_locales (simp_all add: set_wallet_def wallet_by_id_def)

interpretation ut: keyed_table usr_id set_usage usage_by_id
  by unfold_locales (simp_all add: set_usage_def usage_by_id_def)

lemma settled_amount:
  assumes "wallet_check w" and "0 \<le> held" and "held \<le> wal_held_minor w"
  shows "cs_captured_minor (settle_charge charge held (wal_balance_minor w) (wal_held_minor w))
    = min (max charge 0) (held + (wal_balance_minor w - wal_held_minor w))"
proof -
  have "in_i64 (wal_balance_minor w - wal_held_minor w)" "in_i64 (held + (wal_balance_minor w - wal_held_minor w))"
    using assms by (auto simp: wallet_check_def in_i64_def)
  then show ?thesis using assms
    by (simp add: settle_charge_def Let_def saturating_sub_i64_def saturating_add_i64_def wallet_check_def)
qed

text \<open>The row an update of a wallet writes, and the statement on a table with the row.\<close>

definition touched :: "ai_env \<Rightarrow> (wallet \<Rightarrow> wallet) \<Rightarrow> wallet \<Rightarrow> wallet" where
  "touched env f w = (f w)\<lparr>wal_updated_at := ae_db_now env\<rparr>"

lemma touched_simps [simp]:
  "wal_id (touched env f w) = wal_id (f w)" "wal_tenant_id (touched env f w) = wal_tenant_id (f w)"
  "wal_customer_id (touched env f w) = wal_customer_id (f w)"
  "wal_balance_minor (touched env f w) = wal_balance_minor (f w)"
  "wal_held_minor (touched env f w) = wal_held_minor (f w)"
  "wallet_check (touched env f w) = wallet_check (f w)"
  by (simp_all add: touched_def wallet_check_def)

lemma update_wallet_one:
  assumes "distinct (map wal_id (ai_wallets db))" and "wallet_by_id i (ai_wallets db) = Some w"
    and "\<And>x. x \<in> set (ai_wallets db) \<Longrightarrow> P x \<longleftrightarrow> wal_id x = i"
  shows "update_wallet env e P f db =
     (if wallet_check (f w)
      then Inr (touched env f w, db\<lparr>ai_wallets := set_wallet i (touched env f) (ai_wallets db)\<rparr>) else Inl e)"
proof -
  have "list_all (\<lambda>x. P x \<longrightarrow> wallet_check (touched env f x)) (ai_wallets db) \<longleftrightarrow> wallet_check (f w)"
    using wt.all_upd [OF assms(1,2), of "\<lambda>x. wallet_check (f x)"] assms(3)
    by (simp add: list_all_iff)
  moreover have "List.find P (ai_wallets db) = Some w"
    using assms(2,3) find_cong [of "ai_wallets db" "ai_wallets db" P "\<lambda>x. wal_id x = i"]
    by (simp add: wallet_by_id_def)
  moreover have "update_where P (touched env f) (ai_wallets db) = set_wallet i (touched env f) (ai_wallets db)"
    using assms(3) by (simp add: set_wallet_def update_where_def)
  ultimately show ?thesis
    by (simp add: update_wallet_def update_returning_def touched_def [symmetric, abs_def])
qed

lemma update_wallet_hold_one:
  assumes "distinct (map wal_id (ai_wallets db))" and "wallet_by_id i (ai_wallets db) = Some w"
    and "wal_tenant_id w = t"
  shows "update_wallet_hold env e t i d db =
     (let f = touched env (\<lambda>w. w\<lparr>wal_held_minor := wal_held_minor w + d\<rparr>) in
      if wallet_check (f w) then Inr (f w, db\<lparr>ai_wallets := set_wallet i f (ai_wallets db)\<rparr>) else Inl e)"
  unfolding update_wallet_hold_def Let_def touched_simps
proof (rule update_wallet_one [OF assms(1,2)])
  fix x assume "x \<in> set (ai_wallets db)"
  then show "(wal_tenant_id x = t \<and> wal_id x = i) = (wal_id x = i)"
    using wt.get_of_in [OF assms(1)] assms(2,3) by fastforce
qed

lemma update_wallet_capture_one:
  assumes "distinct (map wal_id (ai_wallets db))" and "wallet_by_id i (ai_wallets db) = Some w"
  shows "update_wallet_capture env e i h c db =
     (let f = touched env (\<lambda>w. w\<lparr>wal_balance_minor := wal_balance_minor w - c,
                                  wal_held_minor := wal_held_minor w - h\<rparr>) in
      if wallet_check (f w) then Inr (f w, db\<lparr>ai_wallets := set_wallet i f (ai_wallets db)\<rparr>) else Inl e)"
  unfolding update_wallet_capture_def Let_def touched_simps by (rule update_wallet_one [OF assms]) simp

lemma update_usage_one:
  assumes "distinct (map usr_id (ai_usages db))" and "usage_by_id i (ai_usages db) = Some u"
  shows "update_usage e i f db =
     (if usage_check (f u) then Inr ((), db\<lparr>ai_usages := set_usage i f (ai_usages db)\<rparr>) else Inl e)"
  using ut.all_upd [OF assms, of "\<lambda>x. usage_check (f x)"] assms(2)
  by (simp add: update_usage_def update_returning_def usage_by_id_def set_usage_def)

lemma ledger_entry_of_wallet:
  assumes "wallet_check w" and "amount \<noteq> 0" and "is_object metadata"
    and "entry_type \<in> {''credit'', ''debit'', ''hold'', ''capture'', ''release'', ''refund'', ''adjustment''}"
  shows "\<exists>row. insert_wallet_ledger_entry env e t w entry_type amount reason usage metadata db
    = Inr ((), db\<lparr>ai_ledger := ai_ledger db @ [row]\<rparr>)
    \<and> le_entry_type row = entry_type \<and> le_amount_minor row = amount \<and> le_wallet_id row = wal_id w"
  using assms by (auto simp: insert_wallet_ledger_entry_def ledger_check_def wallet_check_def)

lemma is_object_concat: "is_object a \<Longrightarrow> is_object (jsonb_concat a b)"
  by (cases a; cases b) auto

lemma is_object_settlement [simp]: "is_object (settlement_metadata s)"
  by (simp add: settlement_metadata_def)

lemma held_of_snapshot [simp]:
  "usage_held (u\<lparr>usr_price_snapshot := price_snapshot m h t\<rparr>) = h"
  by (simp add: usage_held_def price_snapshot_def)

lemma i64_neg_amount: "0 < x \<Longrightarrow> in_i64 x \<Longrightarrow> i64_neg x = - x"
  by (simp add: i64_neg_def in_i64_neg)

end
