(* ===== verification/Assets.thy ===== *)
theory Assets
  imports Wallets Crypto
begin

text \<open>
  Files of AI requests (\<open>modules/ai/gateway.rs\<close>, \<open>modules/ai/jobs.rs\<close>, the entry points in
  \<open>modules/web_assets.rs\<close> and \<open>modules/web_works.rs\<close>): the provider's response names files by
  URL, which are downloaded, stored and replaced by the address under which this server
  delivers them.

  Outside are the URL parser and the HTTP client of \<open>reqwest\<close>, base64, SHA-256, the object
  store and the drawing of identifiers (the \<open>n\<close>-th row of a table gets the \<open>n\<close>-th one).
  \<open>std::net\<close>'s reading of addresses is the standard library's and is written out.
\<close>

record url =
  url_scheme :: string
  url_host :: "string option"

record download =
  dl_success :: bool
  dl_status_text :: string
  dl_content_length :: "nat option"
  dl_content_type :: "string option"
  dl_chunks :: "(string + string) list"

record asset_services =
  sv_url :: "string \<Rightarrow> url option"
  sv_client :: "string + unit"
  sv_get :: "string \<Rightarrow> string + download"
  sv_base64 :: "string \<Rightarrow> string option"
  sv_sha256_hex :: "string \<Rightarrow> string"
  sv_put :: "string \<Rightarrow> string \<Rightarrow> app_error + unit"
  sv_asset_id :: "nat \<Rightarrow> uuid"
  sv_customer_asset_id :: "nat \<Rightarrow> uuid"
  sv_work_id :: "nat \<Rightarrow> uuid"
  sv_base_url :: "string option"

record decoded_asset =
  da_bytes :: string
  da_mime_type :: string

definition max_image_asset_bytes :: nat where "max_image_asset_bytes = 52428800"
definition max_video_asset_bytes :: nat where "max_video_asset_bytes = 536870912"


section \<open>Text\<close>

definition split_once :: "char \<Rightarrow> string \<Rightarrow> (string \<times> string) option" where
  "split_once c s =
     (case dropWhile (\<lambda>x. x \<noteq> c) s of [] \<Rightarrow> None | _ # r \<Rightarrow> Some (takeWhile (\<lambda>x. x \<noteq> c) s, r))"

fun contains_text :: "string \<Rightarrow> string \<Rightarrow> bool" where
  "contains_text p [] \<longleftrightarrow> p = []"
| "contains_text p (c # s) \<longleftrightarrow> starts_with p (c # s) \<or> contains_text p s"

definition ends_with :: "string \<Rightarrow> string \<Rightarrow> bool" where
  "ends_with p s \<longleftrightarrow> starts_with (rev p) (rev s)"

definition trim_start_matches :: "string \<Rightarrow> string \<Rightarrow> string" where
  "trim_start_matches p s = strip_front_n [p] (length s) s"

definition trim_end_matches :: "string \<Rightarrow> string \<Rightarrow> string" where
  "trim_end_matches p s = rev (strip_front_n [rev p] (length s) (rev s))"


section \<open>Internet addresses\<close>

datatype ip_addr = V4 "nat list" | V6 "nat list"

text \<open>A number in the given radix of at most \<open>n\<close> digits, and the rest of the text.\<close>

definition hex_digit :: "char \<Rightarrow> nat option" where
  "hex_digit c =
     (if 48 \<le> byte c \<and> byte c \<le> 57 then Some (byte c - 48)
      else if 97 \<le> byte c \<and> byte c \<le> 102 then Some (byte c - 87)
      else if 65 \<le> byte c \<and> byte c \<le> 70 then Some (byte c - 55)
      else None)"

definition radix_digit :: "nat \<Rightarrow> char \<Rightarrow> nat option" where
  "radix_digit radix c = (case hex_digit c of None \<Rightarrow> None | Some d \<Rightarrow> if d < radix then Some d else None)"

definition digits_of :: "nat \<Rightarrow> string \<Rightarrow> string" where
  "digits_of radix s = takeWhile (\<lambda>c. radix_digit radix c \<noteq> None) s"

definition number_of_digits :: "nat \<Rightarrow> string \<Rightarrow> nat" where
  "number_of_digits radix s = fold (\<lambda>c n. n * radix + the (radix_digit radix c)) s 0"

definition read_number :: "nat \<Rightarrow> nat \<Rightarrow> bool \<Rightarrow> nat \<Rightarrow> string \<Rightarrow> (nat \<times> string) option" where
  "read_number radix max_digits zero_prefix bound s =
     (let ds = digits_of radix s; n = number_of_digits radix ds in
      if ds = [] \<or> length ds > max_digits \<or> n > bound then None
      else if \<not> zero_prefix \<and> hd ds = CHR ''0'' \<and> length ds > 1 then None
      else Some (n, drop (length ds) s))"

definition read_char :: "char \<Rightarrow> string \<Rightarrow> string option" where
  "read_char c s = (case s of x # r \<Rightarrow> if x = c then Some r else None | [] \<Rightarrow> None)"

text \<open>The \<open>i\<close>-th item is preceded by the separator, except the first.\<close>

definition read_separator :: "char \<Rightarrow> nat \<Rightarrow> string \<Rightarrow> string option" where
  "read_separator c i s = (if i = 0 then Some s else read_char c s)"

fun read_octets :: "nat \<Rightarrow> nat \<Rightarrow> string \<Rightarrow> (nat list \<times> string) option" where
  "read_octets 0 i s = Some ([], s)"
| "read_octets (Suc n) i s =
     (case Option.bind (read_separator CHR ''.'' i s) (read_number 10 3 False 255) of
        None \<Rightarrow> None
      | Some (x, r) \<Rightarrow> map_option (\<lambda>(xs, r). (x # xs, r)) (read_octets n (Suc i) r))"

definition read_ipv4 :: "string \<Rightarrow> (nat list \<times> string) option" where
  "read_ipv4 s = read_octets 4 0 s"

text \<open>Up to \<open>n\<close> groups, the last two of which may be written as an IPv4 address.\<close>

fun read_groups :: "nat \<Rightarrow> nat \<Rightarrow> string \<Rightarrow> nat list \<times> bool \<times> string" where
  "read_groups 0 i s = ([], False, s)"
| "read_groups (Suc n) i s =
     (case (if 0 < n then Option.bind (read_separator CHR '':'' i s) read_ipv4 else None) of
        Some (o4, r) \<Rightarrow> ([o4 ! 0 * 256 + o4 ! 1, o4 ! 2 * 256 + o4 ! 3], True, r)
      | None \<Rightarrow>
          (case Option.bind (read_separator CHR '':'' i s) (read_number 16 4 True 65535) of
             None \<Rightarrow> ([], False, s)
           | Some (g, r) \<Rightarrow> (let (gs, v4, r') = read_groups n (Suc i) r in (g # gs, v4, r'))))"

definition read_ipv6 :: "string \<Rightarrow> (nat list \<times> string) option" where
  "read_ipv6 s =
     (let (front, v4, r) = read_groups 8 0 s in
      if length front = 8 then Some (front, r)
      else if v4 then None
      else
        (case Option.bind (read_char CHR '':'' r) (read_char CHR '':'') of
           None \<Rightarrow> None
         | Some r \<Rightarrow>
             (let (tail, _, r') = read_groups (7 - length front) 0 r in
              Some (front @ replicate (8 - length front - length tail) 0 @ tail, r'))))"

text \<open>\<open>str::parse::<IpAddr>\<close>: the whole text is an address.\<close>

definition parse_ip :: "string \<Rightarrow> ip_addr option" where
  "parse_ip s =
     (case read_ipv4 s of
        Some (o4, []) \<Rightarrow> Some (V4 o4)
      | Some _ \<Rightarrow> (case read_ipv6 s of Some (g, []) \<Rightarrow> Some (V6 g) | _ \<Rightarrow> None)
      | None \<Rightarrow> (case read_ipv6 s of Some (g, []) \<Rightarrow> Some (V6 g) | _ \<Rightarrow> None))"

definition v4_private :: "nat list \<Rightarrow> bool" where
  "v4_private a \<longleftrightarrow> a ! 0 = 10 \<or> (a ! 0 = 172 \<and> 16 \<le> a ! 1 \<and> a ! 1 \<le> 31) \<or> (a ! 0 = 192 \<and> a ! 1 = 168)"

definition v4_link_local :: "nat list \<Rightarrow> bool" where
  "v4_link_local a \<longleftrightarrow> a ! 0 = 169 \<and> a ! 1 = 254"

definition is_disallowed_asset_ip :: "ip_addr \<Rightarrow> bool" where
  "is_disallowed_asset_ip ip =
     (case ip of
        V4 a \<Rightarrow> v4_private a \<or> a ! 0 = 127 \<or> v4_link_local a \<or> a = [0, 0, 0, 0]
          \<or> a = [255, 255, 255, 255] \<or> (a ! 0 = 100 \<and> 64 \<le> a ! 1 \<and> a ! 1 \<le> 127)
      | V6 g \<Rightarrow> g = [0, 0, 0, 0, 0, 0, 0, 1] \<or> g = [0, 0, 0, 0, 0, 0, 0, 0]
          \<or> (64512 \<le> g ! 0 \<and> g ! 0 < 65024) \<or> (65152 \<le> g ! 0 \<and> g ! 0 < 65216))"

definition ensure_provider_asset_url_allowed :: "url \<Rightarrow> app_error + unit" where
  "ensure_provider_asset_url_allowed u =
     rs_bind (ok_or (url_host u) (Dependency ''ai provider asset url host is invalid'')) (\<lambda>host.
     let h = to_ascii_lowercase (trim_end_matches ''.'' host) in
     if h = ''localhost'' \<or> ends_with ''.localhost'' h
       then Inl (Dependency ''ai provider asset url host is not allowed'')
     else
       (case parse_ip h of
          None \<Rightarrow> Inr ()
        | Some ip \<Rightarrow>
            if is_disallowed_asset_ip ip
              then Inl (Dependency ''ai provider asset url ip is not allowed'')
            else Inr ()))"


section \<open>Downloading\<close>

definition normalize_mime_type :: "string \<Rightarrow> string option" where
  "normalize_mime_type value =
     (let v = to_ascii_lowercase (trim (takeWhile (\<lambda>c. c \<noteq> CHR '';'') value)) in
      if v = [] \<or> char_of (0::nat) \<in> set v \<or> CHR ''/'' \<notin> set v then None else Some v)"

definition is_http_url :: "url \<Rightarrow> bool" where
  "is_http_url u \<longleftrightarrow> (url_scheme u = ''http'' \<or> url_scheme u = ''https'') \<and> url_host u \<noteq> None"

definition is_http_asset_url :: "asset_services \<Rightarrow> string \<Rightarrow> bool" where
  "is_http_asset_url sv v = (case sv_url sv v of None \<Rightarrow> False | Some u \<Rightarrow> is_http_url u)"

fun read_body :: "nat \<Rightarrow> string \<Rightarrow> (string + string) list \<Rightarrow> app_error + string" where
  "read_body max_bytes acc [] = Inr acc"
| "read_body max_bytes acc (Inl e # cs) = Inl (Dependency (''ai asset download failed: '' @ e))"
| "read_body max_bytes acc (Inr c # cs) =
     (if length acc + length c > max_bytes then Inl (Dependency ''ai asset is too large'')
      else read_body max_bytes (acc @ c) cs)"

definition download_provider_asset :: "asset_services \<Rightarrow> string \<Rightarrow> nat \<Rightarrow> app_error + decoded_asset" where
  "download_provider_asset sv provider_url max_bytes =
     rs_bind (ok_or (sv_url sv provider_url) (Dependency ''ai provider asset url is invalid'')) (\<lambda>u.
     if \<not> is_http_url u then Inl (Dependency ''ai provider asset url must be http or https'') else
     rs_bind (ensure_provider_asset_url_allowed u) (\<lambda>_.
     case sv_client sv of
       Inl e \<Rightarrow> Inl (Dependency (''ai asset client failed: '' @ e))
     | Inr _ \<Rightarrow>
         (case sv_get sv provider_url of
            Inl e \<Rightarrow> Inl (Dependency (''ai asset download failed: '' @ e))
          | Inr d \<Rightarrow>
              if \<not> dl_success d
                then Inl (Dependency (''ai asset download failed: status '' @ dl_status_text d))
              else if (case dl_content_length d of None \<Rightarrow> False | Some n \<Rightarrow> n > max_bytes)
                then Inl (Dependency ''ai asset is too large'')
              else
                (let mime = (case Option.bind (dl_content_type d) normalize_mime_type of
                   None \<Rightarrow> ''application/octet-stream'' | Some m \<Rightarrow> m) in
                 rs_bind (read_body max_bytes [] (dl_chunks d)) (\<lambda>bytes.
                 Inr \<lparr>da_bytes = bytes, da_mime_type = mime\<rparr>)))))"

definition decode_base64_image_asset :: "asset_services \<Rightarrow> string \<Rightarrow> app_error + decoded_asset" where
  "decode_base64_image_asset sv value =
     (let (mime, b64) =
        (case split_once CHR '','' value of
           None \<Rightarrow> (''image/png'', value)
         | Some (metadata, data) \<Rightarrow>
             if starts_with ''data:'' metadata \<and> contains_text '';base64'' metadata
               then (case normalize_mime_type (trim_end_matches '';base64''
                            (trim_start_matches ''data:'' metadata)) of
                       None \<Rightarrow> ''image/png'' | Some m \<Rightarrow> m, data)
             else (''image/png'', value)) in
      rs_bind (ok_or (sv_base64 sv b64) (Dependency ''ai image b64_json is invalid'')) (\<lambda>bytes.
      if length bytes > max_image_asset_bytes then Inl (Dependency ''ai asset is too large'')
      else Inr \<lparr>da_bytes = bytes, da_mime_type = mime\<rparr>))"


section \<open>Storing\<close>

definition extension_for_mime :: "string \<Rightarrow> string" where
  "extension_for_mime m =
     (if m = ''image/jpeg'' \<or> m = ''image/jpg'' then ''jpg''
      else if m = ''image/png'' then ''png''
      else if m = ''image/webp'' then ''webp''
      else if m = ''image/gif'' then ''gif''
      else if m = ''video/mp4'' then ''mp4''
      else if m = ''video/webm'' then ''webm''
      else if m = ''video/quicktime'' then ''mov''
      else if m = ''video/mpeg'' then ''mpeg''
      else if m = ''video/x-msvideo'' then ''avi''
      else if m = ''video/x-matroska'' then ''mkv''
      else ''bin'')"

text \<open>The table of \<open>web_assets.rs\<close> also knows the audio types.\<close>

definition web_extension_for_mime :: "string \<Rightarrow> string" where
  "web_extension_for_mime m =
     (if m = ''audio/mpeg'' then ''mp3''
      else if m = ''audio/wav'' \<or> m = ''audio/x-wav'' then ''wav''
      else if m = ''audio/mp4'' then ''m4a''
      else if m = ''audio/webm'' then ''weba''
      else extension_for_mime m)"

definition asset_public_url :: "ai_env \<Rightarrow> asset_services \<Rightarrow> uuid \<Rightarrow> string" where
  "asset_public_url env sv i =
     (case sv_base_url sv of
        Some b \<Rightarrow> trim_end_matches ''/'' b @ ''/api/ai/assets/'' @ ae_uuid_text env i
      | None \<Rightarrow> ''/api/ai/assets/'' @ ae_uuid_text env i)"

definition asset_storage_key :: "ai_env \<Rightarrow> uuid \<Rightarrow> uuid \<Rightarrow> string \<Rightarrow> string" where
  "asset_storage_key env tenant i extension =
     ''tenants/'' @ ae_uuid_text env tenant @ ''/ai-assets/'' @ ae_uuid_text env i @ ''.'' @ extension"

text \<open>
  The inserts, each a statement of its own. The foreign keys name the rows the request was
  authenticated and billed with.
\<close>

definition asset_check :: "ai_asset \<Rightarrow> bool" where
  "asset_check a \<longleftrightarrow> ast_asset_type a \<in> {''image'', ''video'', ''audio'', ''file''}"

definition insert_ai_asset :: "app_error \<Rightarrow> ai_asset \<Rightarrow> unit ai_io" where
  "insert_ai_asset e row =
     commit (\<lambda>db. case insert_row asset_check (\<lambda>a b. ast_id a = ast_id b) e row (ai_assets db) of
       Inl x \<Rightarrow> Inl x | Inr t \<Rightarrow> Inr ((), db\<lparr>ai_assets := t\<rparr>))"

definition web_asset_db_error :: "ai_env \<Rightarrow> app_error" where
  "web_asset_db_error env = Dependency (''web asset database error: '' @ ae_db_error env)"

definition web_work_db_error :: "ai_env \<Rightarrow> app_error" where
  "web_work_db_error env = Dependency (''web work database error: '' @ ae_db_error env)"

definition customer_asset_check :: "customer_asset \<Rightarrow> bool" where
  "customer_asset_check a \<longleftrightarrow>
     btrim (cas_name a) \<noteq> [] \<and> cas_asset_type a \<in> {''image'', ''video'', ''audio'', ''file''}
     \<and> is_object (cas_metadata_json a)"

text \<open>\<open>on conflict (ai_asset_id) do update .. returning id\<close>: the row that is there.\<close>

definition mirror_generated_ai_asset ::
    "ai_env \<Rightarrow> asset_services \<Rightarrow> uuid \<Rightarrow> uuid \<Rightarrow> uuid \<Rightarrow> ai_asset \<Rightarrow> string \<Rightarrow> json \<Rightarrow> uuid ai_io" where
  "mirror_generated_ai_asset env sv tenant app customer asset mime metadata =
     commit (\<lambda>db.
       case List.find (\<lambda>a. cas_ai_asset_id a = Some (ast_id asset)) (ai_customer_assets db) of
         Some a \<Rightarrow> Inr (cas_id a, db)
       | None \<Rightarrow>
           (let row = \<lparr>cas_id = sv_customer_asset_id sv (length (ai_customer_assets db)),
               cas_tenant_id = tenant, cas_app_id = app, cas_customer_id = customer,
               cas_ai_asset_id = Some (ast_id asset),
               cas_name = ''generated-'' @ ae_uuid_text env (ast_id asset) @ ''.'' @ web_extension_for_mime mime,
               cas_asset_type = ast_asset_type asset, cas_asset_role = ''generated'',
               cas_source = ''generated'', cas_status = ''ready'',
               cas_storage_key = Some (ast_storage_key asset), cas_public_url = Some (ast_public_url asset),
               cas_mime_type = Some mime, cas_file_size = ast_file_size asset,
               cas_checksum_sha256 = Some (ast_checksum_sha256 asset), cas_metadata_json = metadata,
               cas_deleted_at = None\<rparr> in
            case insert_row customer_asset_check (\<lambda>a b. cas_id a = cas_id b) (web_asset_db_error env) row
                   (ai_customer_assets db) of
              Inl x \<Rightarrow> Inl x
            | Inr t \<Rightarrow> Inr (cas_id row, db\<lparr>ai_customer_assets := t\<rparr>)))"

definition normalize_work_type :: "string \<Rightarrow> app_error + string" where
  "normalize_work_type value =
     (let v = to_ascii_lowercase (trim value) in
      if v \<in> {''image'', ''video'', ''audio'', ''file''} then Inr v
      else Inl (ValidationFailed ''work type is invalid''))"

definition normalize_work_metadata :: "json option \<Rightarrow> app_error + json" where
  "normalize_work_metadata value =
     (let v = (case value of None \<Rightarrow> JObject [] | Some v \<Rightarrow> v) in
      if is_object v then Inr v else Inl (ValidationFailed ''work metadata must be an object''))"

text \<open>The titles are Chinese text: ``AI'' and generated video, image, audio or work.\<close>

definition generated_work_title :: "string \<Rightarrow> string" where
  "generated_work_title work_type =
     utf8 ([65, 73, 32, 231, 148, 159, 230, 136, 144] @
       (if work_type = ''video'' then [232, 167, 134, 233, 162, 145]
        else if work_type = ''image'' then [229, 155, 190, 231, 137, 135]
        else if work_type = ''audio'' then [233, 159, 179, 233, 162, 145]
        else [228, 189, 156, 229, 147, 129]))"

definition work_check :: "customer_work \<Rightarrow> bool" where
  "work_check w \<longleftrightarrow>
     btrim (cwk_title w) \<noteq> [] \<and> cwk_work_type w \<in> {''image'', ''video'', ''audio'', ''file''}
     \<and> is_object (cwk_metadata_json w)"

definition create_work_for_generated_asset ::
    "ai_env \<Rightarrow> asset_services \<Rightarrow> uuid \<Rightarrow> uuid \<Rightarrow> uuid \<Rightarrow> uuid option \<Rightarrow> uuid \<Rightarrow> string \<Rightarrow> json
      \<Rightarrow> uuid option ai_io" where
  "create_work_for_generated_asset env sv tenant app customer job asset work_type metadata =
     io_bind (io_of (normalize_work_type work_type)) (\<lambda>work_type.
     io_bind (io_of (normalize_work_metadata (Some metadata))) (\<lambda>metadata.
     io_bind (commit (\<lambda>db.
       if list_ex (\<lambda>w. cwk_tenant_id w = tenant \<and> cwk_app_id w = app \<and> cwk_primary_asset_id w = asset
                      \<and> cwk_deleted_at w = None) (ai_works db)
         then Inr (None, db)
       else
         (let row = \<lparr>cwk_id = sv_work_id sv (length (ai_works db)), cwk_tenant_id = tenant,
             cwk_app_id = app, cwk_owner_customer_id = customer, cwk_source_job_id = job,
             cwk_title = generated_work_title work_type, cwk_work_type = work_type,
             cwk_visibility = ''private'', cwk_primary_asset_id = asset, cwk_metadata_json = metadata,
             cwk_deleted_at = None\<rparr> in
          case insert_row work_check (\<lambda>v w. cwk_id v = cwk_id w) (web_work_db_error env) row (ai_works db) of
            Inl x \<Rightarrow> Inl x
          | Inr t \<Rightarrow> Inr (Some (cwk_id row), db\<lparr>ai_works := t\<rparr>)))) (\<lambda>work.
     case work of
       None \<Rightarrow> io_return None
     | Some w \<Rightarrow>
         io_bind (io_modify (\<lambda>db.
           if list_ex (\<lambda>x. was_work_id x = w \<and> was_asset_id x = asset \<and> was_role x = ''primary'')
                (ai_work_assets db) then db
           else db\<lparr>ai_work_assets := ai_work_assets db @
                  [\<lparr>was_work_id = w, was_asset_id = asset, was_role = ''primary'', was_sort_order = 0\<rparr>]\<rparr>))
           (\<lambda>_. io_return (Some w)))))"

text \<open>
  \<open>Uuid::new_v4\<close>, the object, the rows. \<open>e\<close> is the error of a failed query; the job that asks,
  the metadata of the mirrored asset and the extensions differ between the two modules.
\<close>

definition store_asset ::
    "ai_env \<Rightarrow> asset_services \<Rightarrow> app_error \<Rightarrow> (string \<Rightarrow> string) \<Rightarrow> uuid \<Rightarrow> uuid option \<Rightarrow> uuid
      \<Rightarrow> uuid option \<Rightarrow> uuid \<Rightarrow> string \<Rightarrow> string option \<Rightarrow> json \<Rightarrow> string \<Rightarrow> string \<Rightarrow> string ai_io" where
  "store_asset env sv e extension tenant app customer job usage asset_type provider_url metadata mime bytes =
     (\<lambda>db.
       (let i = sv_asset_id sv (length (ai_assets db));
            key = asset_storage_key env tenant i (extension mime);
            row = \<lparr>ast_id = i, ast_tenant_id = tenant, ast_usage_id = Some usage,
              ast_asset_type = asset_type, ast_status = ''ready'', ast_provider_url = provider_url,
              ast_storage_key = key, ast_public_url = asset_public_url env sv i, ast_mime_type = Some mime,
              ast_file_size = Some (int (length bytes)), ast_checksum_sha256 = sv_sha256_hex sv bytes\<rparr> in
        io_bind (io_of (sv_put sv key bytes)) (\<lambda>_.
        io_bind (insert_ai_asset e row) (\<lambda>_.
        io_bind (case app of
                   None \<Rightarrow> io_return ()
                 | Some a \<Rightarrow>
                     io_bind (mirror_generated_ai_asset env sv tenant a customer row mime metadata) (\<lambda>c.
                     io_bind (create_work_for_generated_asset env sv tenant a customer job c asset_type metadata)
                       (\<lambda>_. io_return ()))) (\<lambda>_.
        io_return (ast_public_url row)))) db))"

definition opt_text :: "string option \<Rightarrow> json" where
  "opt_text s = (case s of None \<Rightarrow> JNull | Some t \<Rightarrow> JString t)"

definition store_ai_asset ::
    "ai_env \<Rightarrow> asset_services \<Rightarrow> gateway_caller \<Rightarrow> uuid \<Rightarrow> string \<Rightarrow> string option \<Rightarrow> string \<Rightarrow> string
      \<Rightarrow> string ai_io" where
  "store_ai_asset env sv caller usage asset_type provider_url mime bytes =
     store_asset env sv (gateway_db_error env) extension_for_mime (gc_tenant_id caller) (gc_app_id caller)
       (gc_customer_id caller) None usage asset_type provider_url
       (JObject [(''source'', JString ''ai_gateway_sync''), (''usage_id'', JString (ae_uuid_text env usage)),
          (''provider_url'', opt_text provider_url)]) mime bytes"


section \<open>The maps of \<open>serde_json\<close>\<close>

text \<open>
  \<open>Map\<close> is a \<open>BTreeMap\<close>: the keys are in the order of their bytes. An insert under a key that is
  there (\<open>AList.update\<close>) keeps its place.
\<close>

fun text_less :: "string \<Rightarrow> string \<Rightarrow> bool" where
  "text_less s [] = False"
| "text_less [] (c # t) = True"
| "text_less (b # s) (c # t) = (byte b < byte c \<or> (b = c \<and> text_less s t))"

fun map_insert :: "string \<Rightarrow> json \<Rightarrow> (string \<times> json) list \<Rightarrow> (string \<times> json) list" where
  "map_insert k v [] = [(k, v)]"
| "map_insert k v ((j, w) # m) =
     (if k = j then (k, v) # m
      else if text_less k j then (k, v) # (j, w) # m
      else (j, w) # map_insert k v m)"

definition map_remove :: "string \<Rightarrow> (string \<times> json) list \<Rightarrow> (string \<times> json) list" where
  "map_remove k m = filter (\<lambda>(j, _). j \<noteq> k) m"

lemma map_of_insert [simp]: "map_of (map_insert k v m) = (map_of m)(k \<mapsto> v)"
  by (induction k v m rule: map_insert.induct) auto

lemma map_of_remove [simp]: "map_of (map_remove k m) = (map_of m)(k := None)"
  by (induction m) (auto simp: map_remove_def fun_eq_iff)

lemma set_map_insert: "set (map_insert k v m) \<subseteq> insert (k, v) (set m)"
  by (induction k v m rule: map_insert.induct) auto


section \<open>Caching the files of a response\<close>

text \<open>
  The response is rewritten in place: when a step fails, what was rewritten before it stays,
  and the caller sees the partly rewritten response. A result is the error or the number of
  cached files, the value as it is then, and the database.
\<close>

type_synonym 'a caching = "ai_db \<Rightarrow> (app_error + nat) \<times> 'a \<times> ai_db"

definition cache_file ::
    "ai_env \<Rightarrow> asset_services \<Rightarrow> gateway_caller \<Rightarrow> uuid \<Rightarrow> string \<Rightarrow> string option
      \<Rightarrow> app_error + decoded_asset \<Rightarrow> string ai_io" where
  "cache_file env sv caller usage asset_type provider_url asset =
     io_bind (io_of asset) (\<lambda>a.
       store_ai_asset env sv caller usage asset_type provider_url (da_mime_type a) (da_bytes a))"

definition cache_image_item ::
    "ai_env \<Rightarrow> asset_services \<Rightarrow> gateway_caller \<Rightarrow> uuid \<Rightarrow> json \<Rightarrow> json caching" where
  "cache_image_item env sv caller usage item db =
     (case item of
        JObject m \<Rightarrow>
          (case Option.bind (map_of m ''url'') as_str of
             Some u \<Rightarrow>
               (case cache_file env sv caller usage ''image'' (Some u)
                     (download_provider_asset sv u max_image_asset_bytes) db of
                  (Inl e, db) \<Rightarrow> (Inl e, item, db)
                | (Inr p, db) \<Rightarrow> (Inr 1, JObject (AList.update ''url'' (JString p) m), db))
           | None \<Rightarrow>
               (case Option.bind (map_of m ''b64_json'') as_str of
                  Some b \<Rightarrow>
                    (case cache_file env sv caller usage ''image'' None
                          (decode_base64_image_asset sv b) db of
                       (Inl e, db) \<Rightarrow> (Inl e, item, db)
                     | (Inr p, db) \<Rightarrow>
                         (Inr 1, JObject (map_remove ''b64_json'' (map_insert ''url'' (JString p) m)), db))
                | None \<Rightarrow> (Inr 0, item, db)))
      | _ \<Rightarrow> (Inr 0, item, db))"

fun cache_image_items ::
    "ai_env \<Rightarrow> asset_services \<Rightarrow> gateway_caller \<Rightarrow> uuid \<Rightarrow> nat \<Rightarrow> json list \<Rightarrow> json list caching" where
  "cache_image_items env sv caller usage n [] db = (Inr n, [], db)"
| "cache_image_items env sv caller usage n (v # vs) db =
     (case cache_image_item env sv caller usage v db of
        (Inl e, v', db') \<Rightarrow> (Inl e, v' # vs, db')
      | (Inr c, v', db') \<Rightarrow>
          (case cache_image_items env sv caller usage (n + c) vs db' of
             (r, vs', db'') \<Rightarrow> (r, v' # vs', db'')))"

definition cache_image_assets ::
    "ai_env \<Rightarrow> asset_services \<Rightarrow> gateway_caller \<Rightarrow> uuid \<Rightarrow> json \<Rightarrow> ai_db
      \<Rightarrow> (app_error + unit) \<times> json \<times> ai_db" where
  "cache_image_assets env sv caller usage body db =
     (case body of
        JObject m \<Rightarrow>
          (case Option.bind (map_of m ''data'') as_array of
             None \<Rightarrow> (Inl (Dependency ''ai image response missing data array''), body, db)
           | Some items \<Rightarrow>
               (case cache_image_items env sv caller usage 0 items db of
                  (r, items', db') \<Rightarrow>
                    (case r of
                       Inl e \<Rightarrow> Inl e
                     | Inr n \<Rightarrow>
                         if n = 0
                           then Inl (Dependency ''ai image response did not include cacheable image data'')
                         else Inr (),
                     JObject (map_insert ''data'' (JArray items') m), db')))
      | _ \<Rightarrow> (Inl (Dependency ''ai image response missing data array''), body, db))"

fun cache_video_keys ::
    "ai_env \<Rightarrow> asset_services \<Rightarrow> gateway_caller \<Rightarrow> uuid \<Rightarrow> string list \<Rightarrow> nat \<Rightarrow> (string \<times> json) list
      \<Rightarrow> (string \<times> json) list caching" where
  "cache_video_keys env sv caller usage [] n m db = (Inr n, m, db)"
| "cache_video_keys env sv caller usage (k # ks) n m db =
     (case Option.bind (map_of m k) as_str of
        None \<Rightarrow> cache_video_keys env sv caller usage ks n m db
      | Some u \<Rightarrow>
          if \<not> is_http_asset_url sv u then cache_video_keys env sv caller usage ks n m db
          else
            (case cache_file env sv caller usage ''video'' (Some u)
                  (download_provider_asset sv u max_video_asset_bytes) db of
               (Inl e, db') \<Rightarrow> (Inl e, m, db')
             | (Inr p, db') \<Rightarrow>
                 cache_video_keys env sv caller usage ks (Suc n) (AList.update k (JString p) m) db'))"

text \<open>The number of values in a value: replacing the text under a key keeps it.\<close>

fun json_nodes :: "json \<Rightarrow> nat"
  and map_nodes :: "(string \<times> json) list \<Rightarrow> nat"
  and list_nodes :: "json list \<Rightarrow> nat" where
  "json_nodes (JObject m) = Suc (map_nodes m)"
| "json_nodes (JArray vs) = Suc (list_nodes vs)"
| "json_nodes JNull = 1"
| "json_nodes (JBool _) = 1"
| "json_nodes (JNumber _) = 1"
| "json_nodes (JString _) = 1"
| "map_nodes [] = 0"
| "map_nodes ((k, v) # m) = Suc (json_nodes v + map_nodes m)"
| "list_nodes [] = 0"
| "list_nodes (v # vs) = Suc (json_nodes v + list_nodes vs)"

lemma map_nodes_append: "map_nodes (a @ b) = map_nodes a + map_nodes b"
  by (induction a) auto

lemma json_nodes_pos: "0 < json_nodes v"
  by (cases v) simp_all

lemma update_nodes:
  "map_of m k = Some (JString u) \<Longrightarrow> map_nodes (AList.update k (JString p) m) = map_nodes m"
  by (induction m) (auto split: if_splits)

lemma video_keys_nodes:
  "cache_video_keys env sv caller usage ks n m db = (r, m', db') \<Longrightarrow> map_nodes m' = map_nodes m"
proof (induction env sv caller usage ks n m db rule: cache_video_keys.induct)
  case (2 env sv caller usage k ks n m db)
  then show ?case
    by (cases "map_of m k"; cases "the (map_of m k)")
      (auto simp: update_nodes split: if_splits prod.splits sum.splits)
qed simp

definition video_url_keys :: "string list" where
  "video_url_keys = [''url'', ''video_url'', ''output_url'', ''download_url'']"

function (sequential) cache_video_value ::
    "ai_env \<Rightarrow> asset_services \<Rightarrow> gateway_caller \<Rightarrow> uuid \<Rightarrow> nat \<Rightarrow> json \<Rightarrow> json caching"
  and cache_video_fields ::
    "ai_env \<Rightarrow> asset_services \<Rightarrow> gateway_caller \<Rightarrow> uuid \<Rightarrow> nat \<Rightarrow> (string \<times> json) list
      \<Rightarrow> (string \<times> json) list caching"
  and cache_video_items ::
    "ai_env \<Rightarrow> asset_services \<Rightarrow> gateway_caller \<Rightarrow> uuid \<Rightarrow> nat \<Rightarrow> json list \<Rightarrow> json list caching"
  where
  "cache_video_value env sv caller usage n (JObject m) db =
     (case cache_video_keys env sv caller usage video_url_keys n m db of
        (Inl e, m', db') \<Rightarrow> (Inl e, JObject m', db')
      | (Inr n', m', db') \<Rightarrow>
          (case cache_video_fields env sv caller usage n' m' db' of (r, m'', db'') \<Rightarrow> (r, JObject m'', db'')))"
| "cache_video_value env sv caller usage n (JArray vs) db =
     (case cache_video_items env sv caller usage n vs db of (r, vs', db') \<Rightarrow> (r, JArray vs', db'))"
| "cache_video_value env sv caller usage n v db = (Inr n, v, db)"
| "cache_video_fields env sv caller usage n [] db = (Inr n, [], db)"
| "cache_video_fields env sv caller usage n ((k, v) # m) db =
     (case cache_video_value env sv caller usage n v db of
        (Inl e, v', db') \<Rightarrow> (Inl e, (k, v') # m, db')
      | (Inr n', v', db') \<Rightarrow>
          (case cache_video_fields env sv caller usage n' m db' of (r, m', db'') \<Rightarrow> (r, (k, v') # m', db'')))"
| "cache_video_items env sv caller usage n [] db = (Inr n, [], db)"
| "cache_video_items env sv caller usage n (v # vs) db =
     (case cache_video_value env sv caller usage n v db of
        (Inl e, v', db') \<Rightarrow> (Inl e, v' # vs, db')
      | (Inr n', v', db') \<Rightarrow>
          (case cache_video_items env sv caller usage n' vs db' of (r, vs', db'') \<Rightarrow> (r, v' # vs', db'')))"
  by pat_completeness auto
termination
  by (relation "measure (case_sum (\<lambda>(_, _, _, _, _, v, _). json_nodes v)
        (case_sum (\<lambda>(_, _, _, _, _, m, _). map_nodes m) (\<lambda>(_, _, _, _, _, vs, _). list_nodes vs)))")
    (auto dest!: video_keys_nodes [OF sym] video_keys_nodes)

definition cache_video_assets ::
    "ai_env \<Rightarrow> asset_services \<Rightarrow> gateway_caller \<Rightarrow> uuid \<Rightarrow> json \<Rightarrow> ai_db
      \<Rightarrow> (app_error + unit) \<times> json \<times> ai_db" where
  "cache_video_assets env sv caller usage body db =
     (case cache_video_value env sv caller usage 0 body db of
        (r, body', db') \<Rightarrow>
          (case r of
             Inl e \<Rightarrow> Inl e
           | Inr n \<Rightarrow>
               if n = 0 then Inl (Dependency ''ai video response did not include cacheable video urls'')
               else Inr (),
           body', db'))"


section \<open>Caching leaves the bills alone\<close>

definition same_billing :: "ai_db \<Rightarrow> ai_db \<Rightarrow> bool" where
  "same_billing a b \<longleftrightarrow>
     ai_wallets b = ai_wallets a \<and> ai_ledger b = ai_ledger a \<and> ai_usages b = ai_usages a
     \<and> ai_jobs b = ai_jobs a \<and> ai_models b = ai_models a \<and> ai_providers b = ai_providers a
     \<and> ai_customers b = ai_customers a
     \<and> ai_redis b = ai_redis a \<and> ai_audit_logs b = ai_audit_logs a"

lemma same_billing_refl [simp]: "same_billing a a"
  by (simp add: same_billing_def)

lemma same_billing_trans: "same_billing a b \<Longrightarrow> same_billing b c \<Longrightarrow> same_billing a c"
  by (simp add: same_billing_def)

interpretation billing_kept: evolution same_billing
  by unfold_locales (auto intro: same_billing_trans)

lemma respects_own_state: "(\<And>s. io_respects R (m s)) \<Longrightarrow> io_respects R (\<lambda>s. m s s)"
  by (simp add: io_respects_def)

lemma insert_asset_keeps: "io_respects same_billing (insert_ai_asset e row)"
  by (auto simp: io_respects_def insert_ai_asset_def commit_def same_billing_def split: sum.splits)

lemma mirror_keeps: "io_respects same_billing (mirror_generated_ai_asset env sv t a c row mime md)"
  by (auto simp: io_respects_def mirror_generated_ai_asset_def commit_def same_billing_def Let_def
      split: sum.splits option.splits)

lemma create_work_keeps: "io_respects same_billing (create_work_for_generated_asset env sv t a c j i ty md)"
  unfolding create_work_for_generated_asset_def
  by (intro billing_kept.respects)
    (auto simp: tx_respects_def io_respects_def io_modify_def io_return_def io_bind_def same_billing_def Let_def
      split: sum.splits option.splits if_splits)

lemma store_keeps: "io_respects same_billing (store_asset env sv e x t a c j u ty pu md mime bytes)"
proof -
  have mirror: "io_respects same_billing (case app of None \<Rightarrow> io_return ()
     | Some a \<Rightarrow> io_bind (mirror_generated_ai_asset env sv t a c row mime md) (\<lambda>ca.
         io_bind (create_work_for_generated_asset env sv t a c j ca ty md) (\<lambda>_. io_return ())))" for app row
    by (cases app) (auto intro!: billing_kept.respects mirror_keeps create_work_keeps)
  show ?thesis
    unfolding store_asset_def Let_def
    by (rule respects_own_state, intro billing_kept.respects insert_asset_keeps mirror)
qed


lemma cache_file_keeps: "cache_file env sv caller usage ty pu a db = (r, db') \<Longrightarrow> same_billing db db'"
proof -
  have "io_respects same_billing (cache_file env sv caller usage ty pu a)"
    unfolding cache_file_def store_ai_asset_def by (intro billing_kept.respects store_keeps)
  then show "cache_file env sv caller usage ty pu a db = (r, db') \<Longrightarrow> same_billing db db'"
    by (metis io_respects_def snd_conv)
qed

lemma cache_item_keeps:
  "cache_image_item env sv caller usage v db = (r, v', db') \<Longrightarrow> same_billing db db'"
  by (auto simp: cache_image_item_def dest: cache_file_keeps
      split: json.splits option.splits prod.splits sum.splits)

lemma cache_items_keep:
  "cache_image_items env sv caller usage n vs db = (r, vs', db') \<Longrightarrow> same_billing db db'"
proof (induction vs arbitrary: n r vs' db db')
  case (Cons v vs)
  then show ?case
    by (auto split: prod.splits sum.splits dest!: cache_item_keeps intro: same_billing_trans)
qed simp

lemma cache_images_keep:
  "cache_image_assets env sv caller usage body db = (r, body', db') \<Longrightarrow> same_billing db db'"
  by (auto simp: cache_image_assets_def dest: cache_items_keep
      split: json.splits option.splits prod.splits sum.splits)

lemma video_keys_keep:
  "cache_video_keys env sv caller usage ks n m db = (r, m', db') \<Longrightarrow> same_billing db db'"
proof (induction ks arbitrary: n m db)
  case (Cons k ks)
  then show ?case
    by (auto split: option.splits if_splits prod.splits sum.splits dest!: cache_file_keeps intro: same_billing_trans)
qed simp

lemma video_value_keeps:
  "cache_video_value env sv caller usage n v db = (r, v', db') \<Longrightarrow> same_billing db db'"
  "cache_video_fields env sv caller usage n m db = (r2, m', db2) \<Longrightarrow> same_billing db db2"
  "cache_video_items env sv caller usage n vs db = (r3, vs', db3) \<Longrightarrow> same_billing db db3"
proof (induction env sv caller usage n v db and env sv caller usage n m db and env sv caller usage n vs db
    arbitrary: r v' db' and r2 m' db2 and r3 vs' db3
    rule: cache_video_value_cache_video_fields_cache_video_items.induct)
qed (fastforce split: prod.splits sum.splits dest: video_keys_keep intro: same_billing_trans)+

lemma cache_videos_keep:
  "cache_video_assets env sv caller usage body db = (r, body', db') \<Longrightarrow> same_billing db db'"
  by (auto simp: cache_video_assets_def dest: video_value_keeps(1) split: prod.splits sum.splits)



section \<open>The guard of the downloads\<close>

lemma trim_end_matches_none: "s \<noteq> [] \<Longrightarrow> last s \<noteq> c \<Longrightarrow> trim_end_matches [c] s = s"
  by (cases "rev s"; cases "length s")
    (auto simp: trim_end_matches_def starts_with_def last_conv_nth hd_rev [symmetric])

lemma bracket_no_ip: "parse_ip (CHR ''['' # s) = None"
proof -
  have d: "digits_of r (CHR ''['' # s) = []" for r
    by (simp add: digits_of_def radix_digit_def hex_digit_def byte_def)
  have n: "read_number r k z b (CHR ''['' # s) = None" for r k z b
    by (simp add: read_number_def d Let_def)
  have v4: "read_ipv4 (CHR ''['' # s) = None"
    using read_octets.simps(2) [of 3 0 "CHR ''['' # s"] by (simp add: read_ipv4_def read_separator_def n)
  have "read_groups 8 0 (CHR ''['' # s) = ([], False, CHR ''['' # s)"
    using read_groups.simps(2) [of 7 0 "CHR ''['' # s"] by (simp add: read_separator_def n v4)
  then have "read_ipv6 (CHR ''['' # s) = None"
    by (simp add: read_ipv6_def read_char_def)
  with v4 show ?thesis by (simp add: parse_ip_def)
qed

text \<open>
  The guard of the downloads never refuses an IPv6 host: the URL parser gives such a host in
  square brackets, the guard parses it with the brackets, which is never an address, so that
  \<open>is_disallowed_asset_ip\<close> is not asked about it. It would refuse the loopback address.
\<close>

theorem bracketed_host_passes_guard:
  assumes "url_host u = Some (''['' @ address @ '']'')"
  shows "ensure_provider_asset_url_allowed u = Inr () \<and> is_disallowed_asset_ip (V6 [0, 0, 0, 0, 0, 0, 0, 1])"
proof -
  let ?h = "''['' @ address @ '']''"
  have trim: "trim_end_matches ''.'' ?h = ?h" by (rule trim_end_matches_none) simp_all
  have low: "to_ascii_lowercase ?h = CHR ''['' # to_ascii_lowercase address @ '']''"
    by (simp add: to_ascii_lowercase_def byte_def)
  have "\<not> ends_with ''.localhost'' (CHR ''['' # to_ascii_lowercase address @ '']'')"
    by (simp add: ends_with_def starts_with_def)
  then show ?thesis using assms
    unfolding ensure_provider_asset_url_allowed_def
    by (simp add: rs_bind_def ok_or_def trim low Let_def bracket_no_ip is_disallowed_asset_ip_def
        del: append.simps append_Cons)
qed

theorem bracketed_host_passes_guard_witness:
  "ensure_provider_asset_url_allowed \<lparr>url_scheme = ''http'', url_host = Some ''[::1]''\<rparr> = Inr ()"
  using bracketed_host_passes_guard [of "\<lparr>url_scheme = ''http'', url_host = Some ''[::1]''\<rparr>" "''::1''"] by simp

end
