(* ===== verification/Providers.thy ===== *)
theory Providers
  imports Assets
begin

text \<open>
  How a generation job is put to its provider and how the provider's answers are read
  (\<open>modules/ai/jobs.rs\<close>): the path and format of the request, the payload in the provider's
  field names, the state, the task and the files that an answer names.

  The text of a JSON float is \<open>serde_json\<close>'s and a parameter (\<open>float_text\<close>), as is the whole text
  of a value (\<open>ae_to_vec\<close>).
\<close>


section \<open>The request\<close>

definition config_str :: "json \<Rightarrow> string \<Rightarrow> string option" where
  "config_str config k = Option.bind (json_get k config) as_str"

definition configured_submit_path :: "gateway_model \<Rightarrow> string option" where
  "configured_submit_path m =
     (case config_str (gm_pricing_config m) ''submit_path'' of
        Some p \<Rightarrow> Some p
      | None \<Rightarrow>
     (case config_str (gm_provider_config m) ''submit_path'' of
        Some p \<Rightarrow> Some p
      | None \<Rightarrow>
     (case json_get ''submit_paths'' (gm_provider_config m) of
        Some paths \<Rightarrow>
          (case config_str paths (gm_code m) of
             Some p \<Rightarrow> Some p
           | None \<Rightarrow> Option.bind (gm_provider_model m) (config_str paths))
      | None \<Rightarrow> None)))"

text \<open>The first entry whose list has the name.\<close>

fun assoc_names :: "(string list \<times> 'a) list \<Rightarrow> string \<Rightarrow> 'a option" where
  "assoc_names [] name = None"
| "assoc_names ((names, x) # rest) name = (if name \<in> set names then Some x else assoc_names rest name)"

definition submit_paths :: "(string list \<times> string) list" where
  "submit_paths =
    [([''google_omni'', ''video_google_omni''], ''/api/async/video_google_omni''),
     ([''video_vidu'', ''vidu''], ''/api/async/video_vidu''),
     ([''video_omni''], ''/api/async/video_omni''),
     ([''video_seedance'', ''seedance''], ''/api/async/video_seedance''),
     ([''Digital_Humans'', ''digital_humans'', ''video_digital_humans''], ''/api/async/video_digital_humans''),
     ([''Package_1.0'', ''package_1.0'', ''video_package''], ''/api/async/video_package''),
     ([''grok_imagine'', ''video_grok_imagine''], ''/api/async/video_grok_imagine''),
     ([''Wan2.7'', ''wan2.7'', ''video_wan2.7'', ''video_wan2.6''], ''/api/async/video_wan2.6''),
     ([''image_gpt'', ''gpt_image_2'', ''gpt-image-2'', ''GPT-Image-2''], ''/api/async/image_gpt''),
     ([''image_nanoBanana2'', ''nanobanana2'', ''NanoBanana2''], ''/api/async/image_nanoBanana2''),
     ([''image_grok_imagine''], ''/api/async/image_grok_imagine''),
     ([''image_nanoBanana_pro'', ''NanoBanana_pro'', ''nanobanana_pro''], ''/api/async/image_nanoBanana_pro''),
     ([''image_nanoBanana'', ''NanoBanana'', ''nanobanana''], ''/api/async/image_nanoBanana''),
     ([''image_wan2.7'', ''image_wan2.6''], ''/api/async/image_wan2.6''),
     ([''image_split'', ''img_split'', ''smart_split''], ''/api/img/split''),
     ([''audio_tts''], ''/api/async/audio_tts''),
     ([''voice_composite'', ''audio_voice_composite''], ''/api/voice/composite''),
     ([''voice_clone'', ''audio_voice_clone''], ''/api/voice/clone'')]"

definition provider_submit_path :: "gateway_model \<Rightarrow> string \<Rightarrow> app_error + string" where
  "provider_submit_path m type =
     (case configured_submit_path m of
        Some p \<Rightarrow> Inr p
      | None \<Rightarrow>
     (case assoc_names submit_paths (case gm_provider_model m of Some n \<Rightarrow> n | None \<Rightarrow> gm_code m) of
        Some p \<Rightarrow> Inr p
      | None \<Rightarrow>
          if type = ''image'' then Inr ''/api/async/image_gpt''
          else if type = ''video'' then Inr ''/api/async/video_google_omni''
          else if type = ''audio'' then Inr ''/api/async/audio_tts''
          else Inl (ValidationFailed ''ai generation submit path is not configured'')))"

definition or_else :: "'a option \<Rightarrow> 'a option \<Rightarrow> 'a option" where
  "or_else a b = (case a of Some x \<Rightarrow> Some x | None \<Rightarrow> b)"

definition provider_request_format :: "gateway_model \<Rightarrow> string" where
  "provider_request_format m =
     (let p = gm_pricing_config m; c = gm_provider_config m in
      case Option.bind (or_else (json_get ''request_format'' p) (or_else (json_get ''content_type'' p)
             (or_else (json_get ''request_format'' c) (json_get ''content_type'' c)))) as_str of
        None \<Rightarrow> ''json''
      | Some s \<Rightarrow> if trim s = [] then ''json'' else to_ascii_lowercase (trim s))"

definition is_form_format :: "string \<Rightarrow> bool" where
  "is_form_format f \<longleftrightarrow> f = ''form'' \<or> f = ''form_urlencoded'' \<or> f = ''x-www-form-urlencoded''"

fun number_text :: "(rat \<Rightarrow> string) \<Rightarrow> json_number \<Rightarrow> string" where
  "number_text float_text (JInt n) = show_i64 n"
| "number_text float_text (JFloat q) = float_text q"

definition bool_text :: "bool \<Rightarrow> string" where
  "bool_text b = (if b then ''true'' else ''false'')"

fun form_item :: "(rat \<Rightarrow> string) \<Rightarrow> json \<Rightarrow> string option" where
  "form_item ft (JString s) = Some s"
| "form_item ft (JNumber n) = Some (number_text ft n)"
| "form_item ft (JBool b) = Some (bool_text b)"
| "form_item ft _ = None"

definition form_text :: "(rat \<Rightarrow> string) \<Rightarrow> (json \<Rightarrow> string + string) \<Rightarrow> json \<Rightarrow> app_error + string" where
  "form_text ft to_text v =
     (case v of
        JArray items \<Rightarrow> Inr (join_text '','' (List.map_filter (form_item ft) items))
      | JObject kvs \<Rightarrow>
          (case to_text v of
             Inl e \<Rightarrow> Inl (ValidationFailed (''ai provider form field is invalid: '' @ e))
           | Inr s \<Rightarrow> Inr s)
      | _ \<Rightarrow> Inr (case form_item ft v of None \<Rightarrow> [] | Some s \<Rightarrow> s))"

fun form_fields ::
    "(rat \<Rightarrow> string) \<Rightarrow> (json \<Rightarrow> string + string) \<Rightarrow> (string \<times> json) list
      \<Rightarrow> app_error + (string \<times> string) list" where
  "form_fields ft to_text [] = Inr []"
| "form_fields ft to_text ((k, v) # kvs) =
     (if v = JNull then form_fields ft to_text kvs
      else
        rs_bind (form_text ft to_text v) (\<lambda>text.
        rs_bind (form_fields ft to_text kvs) (\<lambda>form.
        Inr (if trim text \<noteq> [] then (k, text) # form else form))))"

definition value_to_string_form ::
    "(rat \<Rightarrow> string) \<Rightarrow> (json \<Rightarrow> string + string) \<Rightarrow> json \<Rightarrow> app_error + (string \<times> string) list" where
  "value_to_string_form ft to_text v =
     (case v of
        JObject kvs \<Rightarrow> form_fields ft to_text kvs
      | _ \<Rightarrow> Inl (ValidationFailed ''ai provider form body must be an object''))"


section \<open>The payload in the provider's names\<close>

type_synonym json_map = "(string \<times> json) list"

datatype url_field_format = ArrayFormat | CommaString

definition wuyin_model_key :: "gateway_model \<Rightarrow> string" where
  "wuyin_model_key m =
     to_ascii_lowercase (trim (case gm_provider_model m of Some n \<Rightarrow> n | None \<Rightarrow> gm_code m))"

text \<open>\<open>Map::remove\<close> with the removed value, and \<open>entry(..).or_insert(..)\<close>.\<close>

definition take_field :: "string \<Rightarrow> json_map \<Rightarrow> json option \<times> json_map" where
  "take_field k obj = (map_of obj k, map_remove k obj)"

definition or_insert :: "string \<Rightarrow> json \<Rightarrow> json_map \<Rightarrow> json_map" where
  "or_insert k v obj = (case map_of obj k of Some _ \<Rightarrow> obj | None \<Rightarrow> map_insert k v obj)"

definition or_insert_opt :: "string \<Rightarrow> json option \<Rightarrow> json_map \<Rightarrow> json_map" where
  "or_insert_opt k v obj = (case v of None \<Rightarrow> obj | Some x \<Rightarrow> or_insert k x obj)"

definition move_field :: "string \<Rightarrow> string \<Rightarrow> json_map \<Rightarrow> json_map" where
  "move_field source target obj =
     (case map_of obj target of
        Some _ \<Rightarrow> map_remove source obj
      | None \<Rightarrow>
          (case map_of obj source of
             None \<Rightarrow> obj
           | Some v \<Rightarrow> map_insert target v (map_remove source obj)))"

definition copy_field :: "string \<Rightarrow> string \<Rightarrow> json_map \<Rightarrow> json_map" where
  "copy_field source target obj =
     (case map_of obj target of
        Some _ \<Rightarrow> obj
      | None \<Rightarrow> (case map_of obj source of None \<Rightarrow> obj | Some v \<Rightarrow> map_insert target v obj))"

fun split_on :: "char \<Rightarrow> string \<Rightarrow> string list" where
  "split_on c [] = [[]]"
| "split_on c (x # s) =
     (if x = c then [] # split_on c s
      else (case split_on c s of [] \<Rightarrow> [[x]] | p # ps \<Rightarrow> (x # p) # ps))"

fun input_urls :: "json \<Rightarrow> string list" where
  "input_urls (JString s) = filter (\<lambda>u. u \<noteq> []) (map trim (split_on CHR '','' s))"
| "input_urls (JArray items) = concat (map input_urls items)"
| "input_urls _ = []"

definition collect_wuyin_input_urls :: "json option \<Rightarrow> string list" where
  "collect_wuyin_input_urls v = (case v of None \<Rightarrow> [] | Some x \<Rightarrow> input_urls x)"

definition insert_first_string :: "string \<Rightarrow> json option list \<Rightarrow> json_map \<Rightarrow> json_map" where
  "insert_first_string key values obj =
     (case map_of obj key of
        Some _ \<Rightarrow> obj
      | None \<Rightarrow>
          (case concat (map collect_wuyin_input_urls values) of
             [] \<Rightarrow> obj
           | u # _ \<Rightarrow> map_insert key (JString u) obj))"

text \<open>The first occurrence of each URL stays.\<close>

definition unique_urls :: "string list \<Rightarrow> string list" where
  "unique_urls urls = fold (\<lambda>u out. if u \<in> set out then out else out @ [u]) urls []"

definition merge_wuyin_urls ::
    "string \<Rightarrow> url_field_format \<Rightarrow> json option list \<Rightarrow> json_map \<Rightarrow> json_map" where
  "merge_wuyin_urls key format values obj =
     (let urls = unique_urls (concat (map collect_wuyin_input_urls values)) in
      if urls = [] then obj
      else map_insert key
             (case format of
                ArrayFormat \<Rightarrow> JArray (map JString urls)
              | CommaString \<Rightarrow> JString (join_text '','' urls)) obj)"

text \<open>The reference files of a request, taken out of the payload before the model is looked at.\<close>

record reference_fields =
  rf_urls :: "json option"
  rf_image_urls :: "json option"
  rf_video_urls :: "json option"
  rf_audio_urls :: "json option"
  rf_first_frame :: "json option"
  rf_last_frame :: "json option"

definition google_omni_payload :: "reference_fields \<Rightarrow> json_map \<Rightarrow> json_map" where
  "google_omni_payload rf obj =
     (let (images, obj) = take_field ''images'' obj in
      move_field ''resolution'' ''size''
        (merge_wuyin_urls ''images'' CommaString
           [images, rf_image_urls rf, rf_video_urls rf, rf_urls rf, rf_first_frame rf, rf_last_frame rf] obj))"

definition vidu_payload :: "reference_fields \<Rightarrow> json_map \<Rightarrow> json_map" where
  "vidu_payload rf obj =
     (let (image, obj) = take_field ''image_url'' (copy_field ''ratio'' ''aspectRatio'' obj);
          (video, obj) = take_field ''video_url'' obj;
          obj = merge_wuyin_urls ''image_url'' CommaString
                  [image, rf_image_urls rf, rf_first_frame rf, rf_last_frame rf] obj in
      merge_wuyin_urls ''video_url'' CommaString [video, rf_video_urls rf] obj)"

definition video_omni_payload :: "reference_fields \<Rightarrow> json_map \<Rightarrow> json_map" where
  "video_omni_payload rf obj =
     (let (image, obj) = take_field ''image_url'' (copy_field ''ratio'' ''aspectRatio'' obj);
          (video, obj) = take_field ''video_url'' obj;
          (first, obj) = take_field ''firstFrameUrl'' obj;
          (last, obj) = take_field ''lastFrameUrl'' obj;
          obj = merge_wuyin_urls ''image_url'' CommaString [image, rf_image_urls rf] obj;
          obj = merge_wuyin_urls ''video_url'' CommaString [video, rf_video_urls rf] obj;
          obj = insert_first_string ''firstFrameUrl'' [first, rf_first_frame rf] obj in
      insert_first_string ''lastFrameUrl'' [last, rf_last_frame rf] obj)"

definition seedance_payload :: "reference_fields \<Rightarrow> json_map \<Rightarrow> json_map" where
  "seedance_payload rf obj =
     (let (image, obj) = take_field ''image_url'' obj;
          (video, obj) = take_field ''video_url'' obj;
          (audio, obj) = take_field ''audio_url'' obj;
          (first, obj) = take_field ''firstFrameUrl'' obj;
          (last, obj) = take_field ''lastFrameUrl'' obj;
          obj = merge_wuyin_urls ''image_url'' CommaString [image, rf_image_urls rf] obj;
          obj = merge_wuyin_urls ''video_url'' CommaString [video, rf_video_urls rf] obj;
          obj = merge_wuyin_urls ''audio_url'' CommaString [audio, rf_audio_urls rf] obj;
          obj = insert_first_string ''firstFrameUrl'' [first, rf_first_frame rf] obj in
      insert_first_string ''lastFrameUrl'' [last, rf_last_frame rf] obj)"

definition grok_payload :: "reference_fields \<Rightarrow> json_map \<Rightarrow> json_map" where
  "grok_payload rf obj =
     (let (urls, obj) = take_field ''image_urls'' (copy_field ''ratio'' ''aspect_ratio'' obj) in
      merge_wuyin_urls ''image_urls'' ArrayFormat [urls, rf_image_urls rf, rf_urls rf] obj)"

definition wan_payload :: "reference_fields \<Rightarrow> json_map \<Rightarrow> json_map" where
  "wan_payload rf obj =
     (let (urls, obj) = take_field ''urls'' obj;
          (audio, obj) = take_field ''audio_url'' obj;
          (first, obj) = take_field ''firstFrameUrl'' obj;
          obj = merge_wuyin_urls ''urls'' CommaString [urls, rf_image_urls rf, rf_video_urls rf] obj;
          obj = merge_wuyin_urls ''audio_url'' CommaString [audio, rf_audio_urls rf] obj in
      insert_first_string ''firstFrameUrl'' [first, rf_first_frame rf] obj)"

definition default_video_name :: string where
  "default_video_name = utf8 [69, 110, 116, 105, 116, 108, 101, 72, 117, 98, 32, 230, 149, 176, 229,
     173, 151, 228, 186, 186, 232, 167, 134, 233, 162, 145]"

definition video_name :: "json_map \<Rightarrow> string" where
  "video_name obj =
     (case Option.bind (or_else (map_of obj ''name'') (or_else (map_of obj ''title'') (map_of obj ''prompt'')))
             as_str of
        None \<Rightarrow> default_video_name
      | Some s \<Rightarrow> if trim s = [] then default_video_name else trim s)"

definition digital_humans_payload :: "reference_fields \<Rightarrow> json_map \<Rightarrow> json_map" where
  "digital_humans_payload rf obj =
     (let (video_camel, obj) = take_field ''videoUrl'' obj;
          (video_snake, obj) = take_field ''video_url'' obj;
          (audio_camel, obj) = take_field ''audioUrl'' obj;
          (audio_snake, obj) = take_field ''audio_url'' obj;
          obj = insert_first_string ''videoUrl'' [video_camel, video_snake, rf_video_urls rf] obj;
          obj = insert_first_string ''audioUrl'' [audio_camel, audio_snake, rf_audio_urls rf] obj in
      or_insert ''videoName'' (JString (video_name obj)) obj)"

definition package_payload :: "reference_fields \<Rightarrow> json_map \<Rightarrow> json_map" where
  "package_payload rf obj =
     (let (video, obj) = take_field ''video'' obj;
          (video_url, obj) = take_field ''video_url'' obj in
      insert_first_string ''video'' [video, video_url, rf_video_urls rf] obj)"

definition image_urls_payload :: "url_field_format \<Rightarrow> reference_fields \<Rightarrow> json_map \<Rightarrow> json_map" where
  "image_urls_payload format rf obj =
     (let (urls, obj) = take_field ''urls'' obj in
      merge_wuyin_urls ''urls'' format [urls, rf_image_urls rf, rf_urls rf] obj)"

definition image_gpt_payload :: "reference_fields \<Rightarrow> json_map \<Rightarrow> json_map" where
  "image_gpt_payload rf obj = image_urls_payload ArrayFormat rf (move_field ''ratio'' ''size'' obj)"

definition nanobanana2_payload :: "reference_fields \<Rightarrow> json_map \<Rightarrow> json_map" where
  "nanobanana2_payload rf obj = image_urls_payload ArrayFormat rf (copy_field ''ratio'' ''aspectRatio'' obj)"

definition nanobanana_payload :: "reference_fields \<Rightarrow> json_map \<Rightarrow> json_map" where
  "nanobanana_payload rf obj =
     image_urls_payload ArrayFormat rf
       (move_field ''resolution'' ''imageSize'' (move_field ''size'' ''imageSize''
          (copy_field ''ratio'' ''aspectRatio'' obj)))"

definition image_split_payload :: "reference_fields \<Rightarrow> json_map \<Rightarrow> json_map" where
  "image_split_payload rf obj =
     (let (video, obj) = take_field ''video_url'' obj;
          (images, obj) = take_field ''images'' obj in
      merge_wuyin_urls ''video_url'' CommaString [video, images, rf_image_urls rf, rf_urls rf] obj)"

definition voice_clone_payload :: "reference_fields \<Rightarrow> json_map \<Rightarrow> json_map" where
  "voice_clone_payload rf obj =
     (let (audio, obj) = take_field ''audio_url'' obj in
      insert_first_string ''audio_url'' [audio, rf_audio_urls rf] obj)"

definition generic_payload :: "reference_fields \<Rightarrow> json_map \<Rightarrow> json_map" where
  "generic_payload rf obj =
     (let obj = or_insert_opt ''reference_urls'' (rf_urls rf) obj;
          obj = or_insert_opt ''reference_image_urls'' (rf_image_urls rf) obj;
          obj = or_insert_opt ''reference_video_urls'' (rf_video_urls rf) obj;
          obj = or_insert_opt ''reference_audio_urls'' (rf_audio_urls rf) obj;
          obj = or_insert_opt ''first_frame_url'' (rf_first_frame rf) obj;
          obj = or_insert_opt ''first_frame'' (rf_first_frame rf) obj;
          obj = or_insert_opt ''last_frame_url'' (rf_last_frame rf) obj in
      or_insert_opt ''last_frame'' (rf_last_frame rf) obj)"

definition wuyin_payloads :: "(string list \<times> (reference_fields \<Rightarrow> json_map \<Rightarrow> json_map)) list" where
  "wuyin_payloads =
    [([''google_omni'', ''video_google_omni''], google_omni_payload),
     ([''video_vidu'', ''vidu''], vidu_payload),
     ([''video_omni''], video_omni_payload),
     ([''video_seedance'', ''seedance''], seedance_payload),
     ([''grok_imagine'', ''video_grok_imagine'', ''image_grok_imagine''], grok_payload),
     ([''wan2.7'', ''video_wan2.7'', ''video_wan2.6''], wan_payload),
     ([''digital_humans'', ''video_digital_humans''], digital_humans_payload),
     ([''package_1.0'', ''video_package''], package_payload),
     ([''image_gpt'', ''gpt_image_2'', ''gpt-image-2''], image_gpt_payload),
     ([''image_nanobanana2'', ''nanobanana2'', ''image_nanobanana_pro'', ''nanobanana_pro''],
      nanobanana2_payload),
     ([''image_nanobanana'', ''nanobanana''], nanobanana_payload),
     ([''image_wan2.7'', ''image_wan2.6''], image_urls_payload CommaString),
     ([''image_split'', ''img_split'', ''smart_split''], image_split_payload),
     ([''voice_clone'', ''audio_voice_clone''], voice_clone_payload)]"

definition internal_fields :: "string list" where
  "internal_fields = [''model'', ''entitlehub_input'', ''referenceAssetIds'', ''reference_asset_ids'',
     ''firstFrameAssetId'', ''first_frame_asset_id'', ''lastFrameAssetId'', ''last_frame_asset_id'',
     ''aspectRatio'', ''durationSec'', ''inputMode'']"

definition wuyin_submit_payload :: "json \<Rightarrow> gateway_model \<Rightarrow> app_error + json" where
  "wuyin_submit_payload payload m =
     (case payload of
        JObject obj \<Rightarrow>
          (let obj = fold map_remove internal_fields obj;
               obj = or_insert_opt ''model'' (map_option JString (gm_provider_model m)) obj;
               (urls, obj) = take_field ''reference_urls'' obj;
               (image_urls, obj) = take_field ''reference_image_urls'' obj;
               (video_urls, obj) = take_field ''reference_video_urls'' obj;
               (audio_urls, obj) = take_field ''reference_audio_urls'' obj;
               (first, obj) = take_field ''first_frame_url'' obj;
               (last, obj) = take_field ''last_frame_url'' obj;
               rf = \<lparr>rf_urls = urls, rf_image_urls = image_urls, rf_video_urls = video_urls,
                     rf_audio_urls = audio_urls, rf_first_frame = first, rf_last_frame = last\<rparr>;
               shape = (case assoc_names wuyin_payloads (wuyin_model_key m) of
                 Some f \<Rightarrow> f | None \<Rightarrow> generic_payload) in
           Inr (JObject (shape rf obj)))
      | _ \<Rightarrow> Inl (ValidationFailed ''ai generation body must be an object''))"


section \<open>The answers\<close>

datatype provider_job_status = Pending | Running | Succeeded | Failed

fun first_pointer :: "string list list \<Rightarrow> json \<Rightarrow> json option" where
  "first_pointer [] body = None"
| "first_pointer (p # ps) body = or_else (json_pointer p body) (first_pointer ps body)"

definition status_pointers :: "string list list" where
  "status_pointers = [[''data'', ''status''], [''status''], [''data'', ''state''], [''state'']]"

definition status_of_text :: "string \<Rightarrow> provider_job_status" where
  "status_of_text s =
     (if s \<in> {''2'', ''success'', ''succeeded'', ''completed'', ''done''} then Succeeded
      else if s \<in> {''3'', ''failed'', ''failure'', ''error''} then Failed
      else if s \<in> {''0'', ''pending'', ''init'', ''initializing''} then Pending
      else Running)"

definition wuyin_status_from_body :: "json \<Rightarrow> provider_job_status" where
  "wuyin_status_from_body body =
     (case first_pointer status_pointers body of
        Some (JNumber n) \<Rightarrow>
          (let i = as_i64 (JNumber n) in
           if i = Some 2 then Succeeded else if i = Some 3 then Failed
           else if i = Some 0 then Pending else Running)
      | Some (JString s) \<Rightarrow> status_of_text (to_ascii_lowercase (trim s))
      | _ \<Rightarrow> Running)"

fun value_to_string :: "(rat \<Rightarrow> string) \<Rightarrow> json \<Rightarrow> string option" where
  "value_to_string ft (JString s) = Some s"
| "value_to_string ft (JNumber n) = Some (number_text ft n)"
| "value_to_string ft _ = None"

text \<open>The first pointer whose value is a text that is not blank.\<close>

fun first_text :: "(rat \<Rightarrow> string) \<Rightarrow> string list list \<Rightarrow> json \<Rightarrow> string option" where
  "first_text ft [] body = None"
| "first_text ft (p # ps) body =
     (case Option.bind (json_pointer p body) (value_to_string ft) of
        None \<Rightarrow> first_text ft ps body
      | Some s \<Rightarrow> if trim s = [] then first_text ft ps body else Some (trim s))"

definition job_id_pointers :: "string list list" where
  "job_id_pointers = [[''data'', ''id''], [''data'', ''task_id''], [''data'', ''job_id''],
     [''id''], [''task_id''], [''job_id'']]"

definition provider_job_id_from_body :: "(rat \<Rightarrow> string) \<Rightarrow> json \<Rightarrow> app_error + string" where
  "provider_job_id_from_body ft body =
     ok_or (first_text ft job_id_pointers body) (Dependency ''ai provider submit response missing task id'')"

definition provider_status_string :: "(rat \<Rightarrow> string) \<Rightarrow> json \<Rightarrow> string option" where
  "provider_status_string ft body = Option.bind (first_pointer status_pointers body) (value_to_string ft)"

text \<open>
  The first 2000 characters: a byte that does not continue a character (\<open>10xxxxxx\<close>) begins the
  next one.
\<close>

fun take_chars :: "nat \<Rightarrow> string \<Rightarrow> string" where
  "take_chars n [] = []"
| "take_chars n (c # s) =
     (if 128 \<le> byte c \<and> byte c < 192 then c # take_chars n s
      else (case n of 0 \<Rightarrow> [] | Suc n \<Rightarrow> c # take_chars n s))"

definition truncate_error :: "string \<Rightarrow> string" where
  "truncate_error e = (if length e \<le> 2000 then e else take_chars 2000 e)"

definition failure_pointers :: "string list list" where
  "failure_pointers = [[''data'', ''error''], [''data'', ''message''], [''error'', ''message''],
     [''message''], [''msg'']]"

definition provider_failure_reason :: "(rat \<Rightarrow> string) \<Rightarrow> json \<Rightarrow> string option" where
  "provider_failure_reason ft body = map_option truncate_error (first_text ft failure_pointers body)"


section \<open>The files an answer names\<close>

definition asset_url_keys :: "string list" where
  "asset_url_keys = [''url'', ''urls'', ''image_url'', ''image_urls'', ''video_url'', ''video_urls'',
     ''audio_url'', ''audio_urls'', ''audio'', ''demo_audio'', ''output_url'', ''download_url'']"

lemma map_of_nodes: "map_of m k = Some v \<Longrightarrow> json_nodes v < map_nodes m"
  by (induction m) (auto split: if_splits)

lemma in_list_nodes: "v \<in> set vs \<Longrightarrow> json_nodes v < list_nodes vs"
  by (induction vs) auto

lemma in_map_nodes: "(k, v) \<in> set m \<Longrightarrow> json_nodes v < map_nodes m"
  by (induction m) auto

text \<open>\<open>collect_asset_urls_in_value\<close> and \<open>collect_string_urls\<close>: what they push, in order.\<close>

function (sequential) urls_in_value :: "asset_services \<Rightarrow> json \<Rightarrow> string list"
  and string_urls :: "asset_services \<Rightarrow> json \<Rightarrow> string list" where
  "urls_in_value sv (JObject m) =
     concat (map (\<lambda>k. case map_of m k of None \<Rightarrow> [] | Some v \<Rightarrow> string_urls sv v) asset_url_keys)
     @ concat (map (\<lambda>(k, v). urls_in_value sv v) m)"
| "urls_in_value sv (JArray vs) = concat (map (urls_in_value sv) vs)"
| "urls_in_value sv v = []"
| "string_urls sv (JString s) = (if is_http_asset_url sv s then [s] else [])"
| "string_urls sv (JArray vs) = concat (map (string_urls sv) vs)"
| "string_urls sv (JObject m) = urls_in_value sv (JObject m)"
| "string_urls sv v = []"
  by pat_completeness auto
termination
  by (relation "measure (case_sum (\<lambda>(_, v). 2 * json_nodes v) (\<lambda>(_, v). 2 * json_nodes v + 1))")
    (auto dest: map_of_nodes in_list_nodes in_map_nodes)

fun insert_sorted :: "string \<Rightarrow> string list \<Rightarrow> string list" where
  "insert_sorted s [] = [s]"
| "insert_sorted s (t # ts) = (if text_less t s then t # insert_sorted s ts else s # t # ts)"

text \<open>\<open>sort\<close> and \<open>dedup\<close>.\<close>

definition collect_asset_urls :: "asset_services \<Rightarrow> json \<Rightarrow> string list" where
  "collect_asset_urls sv body = remdups_adj (foldr insert_sorted (urls_in_value sv body) [])"


section \<open>What an answer says of a file\<close>

fun value_contains_string :: "string \<Rightarrow> json \<Rightarrow> bool" where
  "value_contains_string s (JString t) \<longleftrightarrow> t = s"
| "value_contains_string s (JArray vs) \<longleftrightarrow> list_ex (value_contains_string s) vs"
| "value_contains_string s (JObject m) \<longleftrightarrow> list_ex (\<lambda>(k, v). value_contains_string s v) m"
| "value_contains_string s _ \<longleftrightarrow> False"

fun find_object_containing_url :: "string \<Rightarrow> json \<Rightarrow> json_map option"
  and find_object_in_fields :: "string \<Rightarrow> json_map \<Rightarrow> json_map option"
  and find_object_in_items :: "string \<Rightarrow> json list \<Rightarrow> json_map option" where
  "find_object_containing_url s (JObject m) =
     (case find_object_in_fields s m of
        Some x \<Rightarrow> Some x
      | None \<Rightarrow> if list_ex (\<lambda>(k, v). value_contains_string s v) m then Some m else None)"
| "find_object_containing_url s (JArray vs) = find_object_in_items s vs"
| "find_object_containing_url s JNull = None"
| "find_object_containing_url s (JBool _) = None"
| "find_object_containing_url s (JNumber _) = None"
| "find_object_containing_url s (JString _) = None"
| "find_object_in_fields s [] = None"
| "find_object_in_fields s ((k, v) # m) =
     or_else (find_object_containing_url s v) (find_object_in_fields s m)"
| "find_object_in_items s [] = None"
| "find_object_in_items s (v # vs) =
     or_else (find_object_containing_url s v) (find_object_in_items s vs)"

definition first_object_string :: "(rat \<Rightarrow> string) \<Rightarrow> json_map \<Rightarrow> string list \<Rightarrow> string option" where
  "first_object_string ft m keys =
     (case Option.bind (first_key (JObject m) keys) (value_to_string ft) of
        None \<Rightarrow> None
      | Some s \<Rightarrow> if trim s = [] then None else Some (trim s))"

definition first_object_positive_seconds :: "json_map \<Rightarrow> string list \<Rightarrow> i64 option" where
  "first_object_positive_seconds m keys = Option.bind (first_key (JObject m) keys) value_to_positive_seconds"

definition first_object_positive_i64 :: "json_map \<Rightarrow> string list \<Rightarrow> i64 option" where
  "first_object_positive_i64 m keys = Option.bind (first_key (JObject m) keys) value_to_positive_seconds"

definition insert_opt :: "string \<Rightarrow> json option \<Rightarrow> json_map \<Rightarrow> json_map" where
  "insert_opt k v m = (case v of None \<Rightarrow> m | Some x \<Rightarrow> map_insert k x m)"

definition provider_asset_metadata :: "(rat \<Rightarrow> string) \<Rightarrow> json \<Rightarrow> string \<Rightarrow> json" where
  "provider_asset_metadata ft body provider_url =
     (case find_object_containing_url provider_url body of
        None \<Rightarrow> JObject []
      | Some c \<Rightarrow>
          (let seconds = map_option num (first_object_positive_seconds c
                 [''duration'', ''durationSec'', ''duration_sec'', ''durationSeconds'', ''duration_seconds'',
                  ''seconds'']);
               m = insert_opt ''thumbnailUrl'' (map_option JString (first_object_string ft c
                 [''thumbnailUrl'', ''thumbnail_url'', ''thumbnail'', ''coverUrl'', ''cover_url'', ''cover'',
                  ''posterUrl'', ''poster_url'', ''poster''])) [];
               m = insert_opt ''duration'' seconds m;
               m = insert_opt ''duration_seconds'' seconds m;
               m = insert_opt ''width'' (map_option num (first_object_positive_i64 c [''width'', ''w''])) m in
           JObject (insert_opt ''height'' (map_option num (first_object_positive_i64 c [''height'', ''h''])) m)))"

definition merge_object_json :: "json \<Rightarrow> json \<Rightarrow> json" where
  "merge_object_json base overlay =
     (case overlay of
        JObject over \<Rightarrow>
          (case base of JObject b \<Rightarrow> JObject (fold (\<lambda>(k, v). map_insert k v) over b) | _ \<Rightarrow> base)
      | _ \<Rightarrow> base)"


section \<open>Sorted and distinct\<close>

lemma text_less_irrefl [simp]: "\<not> text_less s s"
  by (induction s) auto

lemma byte_inject [simp]: "byte a = byte b \<longleftrightarrow> a = b"
  by (simp add: byte_def)

lemma text_less_total: "s \<noteq> t \<Longrightarrow> \<not> text_less s t \<Longrightarrow> text_less t s"
proof (induction s t rule: text_less.induct)
  case (1 s)
  then show ?case by (cases s) auto
next
  case (3 b s c t)
  then show ?case by (cases "b = c") (auto simp: not_less le_less)
qed auto

lemma text_less_trans: "text_less s t \<Longrightarrow> text_less t u \<Longrightarrow> text_less s u"
proof (induction s t arbitrary: u rule: text_less.induct)
  case (3 b s c t)
  then show ?case by (cases u) (auto dest: less_trans)
next
  case (2 c t)
  then show ?case by (cases u) auto
qed auto

definition text_le :: "string \<Rightarrow> string \<Rightarrow> bool" where
  "text_le s t \<longleftrightarrow> \<not> text_less t s"

lemma text_le_trans: "text_le s t \<Longrightarrow> text_le t u \<Longrightarrow> text_le s u"
  unfolding text_le_def by (metis text_less_total text_less_trans)

lemma set_insert_sorted [simp]: "set (insert_sorted s ts) = insert s (set ts)"
  by (induction ts) auto

lemma sorted_insert: "sorted_wrt text_le ts \<Longrightarrow> sorted_wrt text_le (insert_sorted s ts)"
proof (induction ts)
  case (Cons t ts)
  show ?case
  proof (cases "text_less t s")
    case True
    then have "text_le t s" by (metis text_le_def text_less_irrefl text_less_trans)
    then show ?thesis using Cons True by auto
  next
    case False
    then have "text_le s t" by (simp add: text_le_def)
    then show ?thesis using Cons.prems False by (auto intro: text_le_trans)
  qed
qed simp

lemma sorted_sort: "sorted_wrt text_le (foldr insert_sorted us []) \<and> set (foldr insert_sorted us []) = set us"
  by (induction us) (simp_all add: sorted_insert)

lemma dedup_sorted: "sorted_wrt text_le us \<Longrightarrow> sorted_wrt text_less (remdups_adj us)"
proof (induction us rule: remdups_adj.induct)
  case (3 x y xs)
  show ?case
  proof (cases "x = y")
    case False
    have "text_less x z" if "z \<in> set (y # xs)" for z
    proof -
      have "text_le x y" "z = y \<or> text_le y z" using 3(3) that by auto
      moreover from this(1) have "text_less x y" using False text_less_total by (auto simp: text_le_def)
      ultimately show ?thesis by (metis text_le_def text_less_total text_less_trans)
    qed
    then show ?thesis using 3(2) [OF False] 3(3) False by simp
  qed (use 3 in simp)
qed simp_all

text \<open>What an answer names: the string, or the strings of an array, under one of the keys.\<close>

inductive names_file :: "json \<Rightarrow> string \<Rightarrow> bool" and lists_file :: "json \<Rightarrow> string \<Rightarrow> bool" where
  at_key: "k \<in> set asset_url_keys \<Longrightarrow> map_of m k = Some v \<Longrightarrow> lists_file v u \<Longrightarrow> names_file (JObject m) u"
| in_field: "(k, v) \<in> set m \<Longrightarrow> names_file v u \<Longrightarrow> names_file (JObject m) u"
| in_item: "v \<in> set vs \<Longrightarrow> names_file v u \<Longrightarrow> names_file (JArray vs) u"
| listed: "lists_file (JString u) u"
| listed_item: "v \<in> set vs \<Longrightarrow> lists_file v u \<Longrightarrow> lists_file (JArray vs) u"
| listed_object: "names_file (JObject m) u \<Longrightarrow> lists_file (JObject m) u"

lemma in_urls_of_object:
  "u \<in> set (urls_in_value sv (JObject m)) \<longleftrightarrow>
     (\<exists>k v. k \<in> set asset_url_keys \<and> map_of m k = Some v \<and> u \<in> set (string_urls sv v))
     \<or> (\<exists>k v. (k, v) \<in> set m \<and> u \<in> set (urls_in_value sv v))" (is "?l \<longleftrightarrow> ?a \<or> ?b")
proof -
  have "?l \<longleftrightarrow> (\<exists>k \<in> set asset_url_keys. u \<in> set (case map_of m k of None \<Rightarrow> [] | Some v \<Rightarrow> string_urls sv v))
      \<or> (\<exists>(k, v) \<in> set m. u \<in> set (urls_in_value sv v))"
    by (auto simp: case_prod_beta)
  then show ?thesis by (auto split: option.splits)
qed

lemma collected_is_named:
  "u \<in> set (urls_in_value sv v) \<Longrightarrow> names_file v u \<and> is_http_asset_url sv u"
  "u \<in> set (string_urls sv v) \<Longrightarrow> lists_file v u \<and> is_http_asset_url sv u"
proof (induction sv v and sv v rule: urls_in_value_string_urls.induct)
  case (1 sv m)
  from 1(3) consider k v where "k \<in> set asset_url_keys" "map_of m k = Some v" "u \<in> set (string_urls sv v)"
    | k v where "(k, v) \<in> set m" "u \<in> set (urls_in_value sv v)"
    unfolding in_urls_of_object by blast
  then show ?case
    by cases (use 1(1,2) in \<open>blast intro: at_key in_field\<close>)+
qed (auto intro: names_file_lists_file.intros split: if_splits)

lemma named_is_collected:
  "names_file v u \<Longrightarrow> is_http_asset_url sv u \<longrightarrow> u \<in> set (urls_in_value sv v)"
  "lists_file v u \<Longrightarrow> is_http_asset_url sv u \<longrightarrow> u \<in> set (string_urls sv v)"
  by (induction rule: names_file_lists_file.inducts) (force split: option.splits)+

text \<open>
  The files of a provider's answer are collected once each, in the order of their bytes: they
  are the addresses with a host and an \<open>http\<close> or \<open>https\<close> scheme that the answer names, directly or
  in nested values, under one of the keys for files, and no others.
\<close>

theorem asset_urls_are_named_files:
  "sorted_wrt text_less (collect_asset_urls sv body)
   \<and> set (collect_asset_urls sv body) = {u. names_file body u \<and> is_http_asset_url sv u}"
proof
  show "sorted_wrt text_less (collect_asset_urls sv body)"
    unfolding collect_asset_urls_def using sorted_sort by (intro dedup_sorted) blast
  have "set (collect_asset_urls sv body) = set (urls_in_value sv body)"
    by (simp add: collect_asset_urls_def sorted_sort)
  then show "set (collect_asset_urls sv body) = {u. names_file body u \<and> is_http_asset_url sv u}"
    using collected_is_named(1) named_is_collected(1) by blast
qed


section \<open>What leaves the server\<close>

lemma map_of_merge [simp]: "k \<noteq> key \<Longrightarrow> map_of (merge_wuyin_urls key format values obj) k = map_of obj k"
  by (simp add: merge_wuyin_urls_def Let_def)

lemma map_of_first_string [simp]: "k \<noteq> key \<Longrightarrow> map_of (insert_first_string key values obj) k = map_of obj k"
  by (simp add: insert_first_string_def split: option.splits list.splits)

lemma map_of_move_field [simp]:
  "k \<noteq> source \<Longrightarrow> k \<noteq> target \<Longrightarrow> map_of (move_field source target obj) k = map_of obj k"
  by (simp add: move_field_def split: option.splits)

lemma map_of_copy_field [simp]: "k \<noteq> target \<Longrightarrow> map_of (copy_field source target obj) k = map_of obj k"
  by (simp add: copy_field_def split: option.splits)

lemma map_of_or_insert [simp]: "k \<noteq> key \<Longrightarrow> map_of (or_insert key v obj) k = map_of obj k"
  by (simp add: or_insert_def split: option.splits)

lemma map_of_or_insert_opt [simp]: "k \<noteq> key \<Longrightarrow> map_of (or_insert_opt key v obj) k = map_of obj k"
  by (simp add: or_insert_opt_def split: option.splits)

lemma map_of_removed: "k \<in> set ks \<Longrightarrow> map_of (fold map_remove ks obj) k = None"
proof (induction ks arbitrary: obj)
  case (Cons j ks)
  have "map_of (fold map_remove ks obj) k = None" if "map_of obj k = None" for obj
    using that by (induction ks arbitrary: obj) auto
  then show ?case using Cons by auto
qed simp

lemma unique_urls_spec:
  "distinct (unique_urls urls) \<and> set (unique_urls urls) = set urls"
proof -
  have "distinct out \<Longrightarrow> distinct (fold (\<lambda>u out. if u \<in> set out then out else out @ [u]) urls out)
      \<and> set (fold (\<lambda>u out. if u \<in> set out then out else out @ [u]) urls out) = set out \<union> set urls" for out
    by (induction urls arbitrary: out) auto
  from this [of "[]"] show ?thesis by (simp add: unique_urls_def)
qed

definition hidden_fields :: "string list" where
  "hidden_fields = [''entitlehub_input'', ''referenceAssetIds'', ''reference_asset_ids'',
     ''firstFrameAssetId'', ''first_frame_asset_id'', ''lastFrameAssetId'', ''last_frame_asset_id'',
     ''durationSec'', ''inputMode'']"

definition keeps_field :: "string \<Rightarrow> (reference_fields \<Rightarrow> json_map \<Rightarrow> json_map) \<Rightarrow> bool" where
  "keeps_field k shape \<longleftrightarrow> (\<forall>rf obj. map_of obj k = None \<longrightarrow> map_of (shape rf obj) k = None)"

lemmas shape_defs =
  google_omni_payload_def vidu_payload_def video_omni_payload_def seedance_payload_def grok_payload_def
  wan_payload_def digital_humans_payload_def package_payload_def image_urls_payload_def
  image_gpt_payload_def nanobanana2_payload_def nanobanana_payload_def image_split_payload_def
  voice_clone_payload_def generic_payload_def

text \<open>The fields a shape writes.\<close>

definition shape_targets :: "string list" where
  "shape_targets = [''images'', ''size'', ''aspectRatio'', ''image_url'', ''video_url'', ''audio_url'',
     ''firstFrameUrl'', ''lastFrameUrl'', ''aspect_ratio'', ''image_urls'', ''urls'', ''videoUrl'',
     ''audioUrl'', ''videoName'', ''video'', ''imageSize'', ''reference_urls'', ''reference_image_urls'',
     ''reference_video_urls'', ''reference_audio_urls'', ''first_frame_url'', ''first_frame'',
     ''last_frame_url'', ''last_frame'']"

lemma keeps_move_field:
  "map_of obj k = None \<Longrightarrow> k \<noteq> target \<Longrightarrow> map_of (move_field source target obj) k = None"
  by (simp add: move_field_def split: option.splits)

lemma other_than_targets:
  assumes "k \<notin> set shape_targets"
  shows "list_all (\<lambda>j. k \<noteq> j) shape_targets"
  using assms by (auto simp: list_all_iff)

lemmas not_target = other_than_targets [unfolded shape_targets_def list.pred_inject]

lemma untouched_by_shapes:
  assumes "k \<notin> set shape_targets"
  shows "list_all (\<lambda>(_, shape). keeps_field k shape) wuyin_payloads \<and> keeps_field k generic_payload"
  using not_target [OF assms [unfolded shape_targets_def]]
  by (simp add: wuyin_payloads_def keeps_field_def shape_defs take_field_def Let_def keeps_move_field)

lemma hidden_untouched: "k \<in> set hidden_fields \<Longrightarrow> k \<notin> set shape_targets"
proof -
  have "list_all (\<lambda>k. k \<notin> set shape_targets) hidden_fields"
    by (simp add: hidden_fields_def shape_targets_def)
  then show "k \<in> set hidden_fields \<Longrightarrow> k \<notin> set shape_targets" by (simp add: list_all_iff)
qed

lemmas shapes_keep = untouched_by_shapes [OF hidden_untouched]

lemma assoc_names_all: "list_all (\<lambda>(_, x). P x) table \<Longrightarrow> assoc_names table name = Some x \<Longrightarrow> P x"
  by (induction table name rule: assoc_names.induct) (auto split: if_splits)

text \<open>
  C18. Whatever model a job is submitted for, the payload that leaves the server has none of the
  server's own fields: the identifiers of the customer's files, in all their spellings, and the
  bookkeeping of the request's input. This holds for all the providers' payload shapes.
\<close>

theorem submitted_payload_hides_assets:
  assumes "wuyin_submit_payload payload m = Inr out" and "k \<in> set hidden_fields"
  shows "json_get k out = None"
proof -
  have k: "k \<in> set internal_fields" "k \<noteq> ''model''"
    using assms(2) by (auto simp: hidden_fields_def internal_fields_def)
  define shape where "shape = (case assoc_names wuyin_payloads (wuyin_model_key m) of
    Some f \<Rightarrow> f | None \<Rightarrow> generic_payload)"
  have keeps: "keeps_field k shape"
    using shapes_keep [OF assms(2)] assoc_names_all [of "keeps_field k" wuyin_payloads]
    by (auto simp: shape_def split: option.splits)
  define rest where "rest = fold map_remove internal_fields"
  have "map_of (rest obj) k = None" for obj
    unfolding rest_def by (rule map_of_removed [OF k(1)])
  then show ?thesis
    using assms(1) keeps k(2) not_target [OF hidden_untouched [OF assms(2), unfolded shape_targets_def]]
    by (cases payload) (auto simp: wuyin_submit_payload_def take_field_def Let_def keeps_field_def
      shape_def [symmetric] rest_def [symmetric])
qed

definition sample_image_model :: gateway_model where
  "sample_image_model = sample_model\<lparr>gm_provider_kind := ''wuyin_keji'', gm_modality := ''image'',
     gm_provider_model := Some ''image_gpt'', gm_billing_mode := ''per_image''\<rparr>"

definition sample_image_payload :: json where
  "sample_image_payload = JObject [(''prompt'', JString ''cat''), (''ratio'', JString ''1:1''),
     (''reference_asset_ids'', JArray [JString ''u'']),
     (''reference_image_urls'', JArray [JString ''https://a'', JString ''https://b,https://a''])]"

definition sample_submitted :: json where
  "sample_submitted = JObject [(''model'', JString ''image_gpt''), (''prompt'', JString ''cat''),
     (''size'', JString ''1:1''), (''urls'', JArray [JString ''https://a'', JString ''https://b''])]"

theorem submitted_payload_hides_assets_witness:
  "wuyin_submit_payload sample_image_payload sample_image_model = Inr sample_submitted
   \<and> json_get ''reference_asset_ids'' sample_submitted = None"
proof -
  have *: "wuyin_submit_payload sample_image_payload sample_image_model = Inr sample_submitted" by code_simp
  moreover have "''reference_asset_ids'' \<in> set hidden_fields" by (simp add: hidden_fields_def)
  ultimately show ?thesis using submitted_payload_hides_assets [OF *] by blast
qed

end
