(* ===== verification/JobInputs.thy ===== *)
theory JobInputs
  imports Providers
begin

text \<open>
  The input of a generation job (\<open>modules/ai/jobs.rs\<close>): the customer's files a request refers to,
  the checks of these against the model's capabilities, and the payload in the server's own field
  names. Reading a uuid is the uuid crate's and a parameter.
\<close>


section \<open>Reading the request\<close>

datatype reference_asset_role = Reference | FirstFrame | LastFrame

record reference_asset_input =
  rai_asset_id :: uuid
  rai_kind :: "string option"
  rai_role :: reference_asset_role

definition filled_text :: "json option \<Rightarrow> string option" where
  "filled_text v =
     (case Option.bind v as_str of None \<Rightarrow> None | Some s \<Rightarrow> if trim s = [] then None else Some (trim s))"

definition optional_string :: "json \<Rightarrow> string list \<Rightarrow> string option" where
  "optional_string payload keys = filled_text (first_key payload keys)"

definition uuid_from_value :: "(string \<Rightarrow> uuid option) \<Rightarrow> json \<Rightarrow> app_error + uuid option" where
  "uuid_from_value parse v =
     (case filled_text (Some v) of
        None \<Rightarrow> Inr None
      | Some s \<Rightarrow> ok_or (map_option Some (parse s)) (ValidationFailed ''asset id is invalid''))"

definition optional_uuid :: "(string \<Rightarrow> uuid option) \<Rightarrow> json \<Rightarrow> string list \<Rightarrow> app_error + uuid option" where
  "optional_uuid parse payload keys =
     (case first_key payload keys of None \<Rightarrow> Inr None | Some v \<Rightarrow> uuid_from_value parse v)"

fun collect_uuids :: "(string \<Rightarrow> uuid option) \<Rightarrow> json list \<Rightarrow> uuid list \<Rightarrow> app_error + uuid list" where
  "collect_uuids parse [] out = Inr out"
| "collect_uuids parse (item # items) out =
     rs_bind (uuid_from_value parse item) (\<lambda>i.
     rs_bind (ok_or i (ValidationFailed ''referenceAssetIds must contain valid asset ids'')) (\<lambda>i.
     collect_uuids parse items (if i \<in> set out then out else out @ [i])))"

definition uuid_list :: "(string \<Rightarrow> uuid option) \<Rightarrow> json \<Rightarrow> string list \<Rightarrow> app_error + uuid list" where
  "uuid_list parse payload keys =
     (case first_key payload keys of
        None \<Rightarrow> Inr []
      | Some v \<Rightarrow>
          rs_bind (ok_or (as_array v) (ValidationFailed ''referenceAssetIds must be an array''))
            (\<lambda>items. collect_uuids parse items []))"

definition validate_reference_asset_kind :: "string \<Rightarrow> app_error + unit" where
  "validate_reference_asset_kind kind =
     (if kind \<in> {''image'', ''video'', ''audio''} then Inr ()
      else Inl (ValidationFailed
        ''reference_asset_kind_not_allowed: kind must be image, video, or audio''))"

definition reference_asset_role :: "string \<Rightarrow> app_error + reference_asset_role" where
  "reference_asset_role v =
     (let s = to_ascii_lowercase v in
      if s \<in> {''reference'', ''reference_image'', ''reference_video''} then Inr Reference
      else if s \<in> {''first_frame'', ''firstframe'', ''first-frame''} then Inr FirstFrame
      else if s \<in> {''last_frame'', ''lastframe'', ''last-frame''} then Inr LastFrame
      else Inl (ValidationFailed
        ''reference_asset_role_invalid: role must be reference, first_frame, or last_frame''))"

definition reference_asset_input_of ::
    "(string \<Rightarrow> uuid option) \<Rightarrow> json \<Rightarrow> app_error + reference_asset_input" where
  "reference_asset_input_of parse item =
     (if \<not> is_object item then Inl (ValidationFailed ''referenceAssets items must be objects'')
      else
        rs_bind (optional_uuid parse item [''assetId'', ''asset_id'']) (\<lambda>i.
        rs_bind (ok_or i (ValidationFailed ''referenceAssets assetId is required'')) (\<lambda>i.
        let kind = map_option to_ascii_lowercase (optional_string item [''kind'', ''asset_type'']) in
        rs_bind (case kind of None \<Rightarrow> Inr () | Some k \<Rightarrow> validate_reference_asset_kind k) (\<lambda>_.
        rs_bind (case optional_string item [''role''] of
                   None \<Rightarrow> Inr Reference | Some r \<Rightarrow> reference_asset_role r) (\<lambda>role.
        Inr \<lparr>rai_asset_id = i, rai_kind = kind, rai_role = role\<rparr>)))))"

fun reference_asset_items ::
    "(string \<Rightarrow> uuid option) \<Rightarrow> json list \<Rightarrow> app_error + reference_asset_input list" where
  "reference_asset_items parse [] = Inr []"
| "reference_asset_items parse (item # items) =
     rs_bind (reference_asset_input_of parse item) (\<lambda>x.
     rs_bind (reference_asset_items parse items) (\<lambda>xs. Inr (x # xs)))"

definition reference_asset_inputs ::
    "(string \<Rightarrow> uuid option) \<Rightarrow> json \<Rightarrow> app_error + reference_asset_input list" where
  "reference_asset_inputs parse payload =
     (case first_key payload [''referenceAssets'', ''reference_assets''] of
        None \<Rightarrow> Inr []
      | Some v \<Rightarrow>
          rs_bind (ok_or (as_array v) (ValidationFailed ''referenceAssets must be an array''))
            (reference_asset_items parse))"

text \<open>The references of a request: their ids, the kinds they are expected to have, the frames.\<close>

record request_assets =
  ra_ids :: "uuid list"
  ra_kinds :: "(uuid \<times> string option) list"
  ra_first :: "uuid option"
  ra_last :: "uuid option"

fun note_kind :: "uuid \<Rightarrow> string option \<Rightarrow> (uuid \<times> string option) list \<Rightarrow> (uuid \<times> string option) list" where
  "note_kind i kind [] = [(i, kind)]"
| "note_kind i kind ((j, k) # ks) =
     (if j = i then (j, case k of None \<Rightarrow> kind | Some _ \<Rightarrow> k) # ks else (j, k) # note_kind i kind ks)"

definition frame_asset ::
    "string \<Rightarrow> string \<Rightarrow> reference_asset_input \<Rightarrow> uuid option \<Rightarrow> app_error + uuid option" where
  "frame_asset kind_error conflict_error x existing =
     (if rai_kind x \<noteq> None \<and> rai_kind x \<noteq> Some ''image'' then Inl (ValidationFailed kind_error)
      else if existing \<noteq> None \<and> existing \<noteq> Some (rai_asset_id x) then Inl (ValidationFailed conflict_error)
      else Inr (Some (rai_asset_id x)))"

fun merge_reference_asset_inputs ::
    "reference_asset_input list \<Rightarrow> request_assets \<Rightarrow> app_error + request_assets" where
  "merge_reference_asset_inputs [] ra = Inr ra"
| "merge_reference_asset_inputs (x # xs) ra =
     (case rai_role x of
        Reference \<Rightarrow>
          merge_reference_asset_inputs xs
            (ra\<lparr>ra_ids := (if rai_asset_id x \<in> set (ra_ids ra) then ra_ids ra else ra_ids ra @ [rai_asset_id x]),
                ra_kinds := note_kind (rai_asset_id x) (rai_kind x) (ra_kinds ra)\<rparr>)
      | FirstFrame \<Rightarrow>
          rs_bind (frame_asset ''reference_asset_kind_not_allowed: first_frame must be image''
                     ''reference_asset_conflict: first frame asset is duplicated'' x (ra_first ra)) (\<lambda>f.
          merge_reference_asset_inputs xs (ra\<lparr>ra_first := f\<rparr>))
      | LastFrame \<Rightarrow>
          rs_bind (frame_asset ''reference_asset_kind_not_allowed: last_frame must be image''
                     ''reference_asset_conflict: last frame asset is duplicated'' x (ra_last ra)) (\<lambda>f.
          merge_reference_asset_inputs xs (ra\<lparr>ra_last := f\<rparr>)))"


section \<open>The customer's files\<close>

definition find_generation_asset ::
    "ai_db \<Rightarrow> uuid \<Rightarrow> uuid \<Rightarrow> uuid \<Rightarrow> uuid \<Rightarrow> app_error + customer_asset" where
  "find_generation_asset db tenant app customer i =
     rs_bind (ok_or (List.find (\<lambda>a. cas_tenant_id a = tenant \<and> cas_app_id a = app
                        \<and> cas_customer_id a = customer \<and> cas_id a = i \<and> cas_deleted_at a = None)
                      (ai_customer_assets db))
                (NotFound ''asset not found'')) (\<lambda>a.
     if cas_status a = ''ready'' then Inr a
     else Inl (ValidationFailed ''asset_not_ready: asset must be ready before generation''))"

definition validate_asset_mime_and_size ::
    "customer_asset \<Rightarrow> model_capabilities \<Rightarrow> string \<Rightarrow> string \<Rightarrow> app_error + unit" where
  "validate_asset_mime_and_size a c field mime =
     (if cap_accepted_mime_types c \<noteq> []
         \<and> \<not> list_ex (\<lambda>item. eq_ignore_ascii_case item mime) (cap_accepted_mime_types c)
        then Inl (ValidationFailed (''reference_asset_mime_not_allowed: '' @ field
          @ '' mime type must be one of '' @ join_text '', '' (cap_accepted_mime_types c)))
      else
        (case (cap_max_asset_size_mb c, cas_file_size a) of
           (Some max_mb, Some bytes) \<Rightarrow>
             if bytes > saturating_i64 (max_mb * 1048576)
               then Inl (ValidationFailed (''reference_asset_too_large: '' @ field
                 @ '' file size must be less than or equal to '' @ show_i64 max_mb @ '' MB''))
             else Inr ()
         | _ \<Rightarrow> Inr ()))"

definition validate_reference_asset ::
    "customer_asset \<Rightarrow> model_capabilities \<Rightarrow> string \<Rightarrow> app_error + unit" where
  "validate_reference_asset a c field =
     rs_bind (ok_or (cas_mime_type a) (ValidationFailed (field @ '' mime type is missing''))) (\<lambda>mime.
     if cas_asset_type a \<notin> {''image'', ''video'', ''audio''}
       then Inl (ValidationFailed (''reference_asset_kind_not_allowed: '' @ field
         @ '' must be an image, video, or audio asset''))
     else if cas_asset_type a = ''video'' \<and> \<not> cap_supports_reference_video c
       then Inl (ValidationFailed ''model_not_support_reference_video'')
     else if cas_asset_type a = ''audio'' \<and> \<not> cap_supports_reference_audio c
       then Inl (ValidationFailed ''model_not_support_reference_audio'')
     else validate_asset_mime_and_size a c field mime)"

definition validate_frame_asset ::
    "customer_asset \<Rightarrow> model_capabilities \<Rightarrow> string \<Rightarrow> app_error + unit" where
  "validate_frame_asset a c field =
     rs_bind (ok_or (cas_mime_type a) (ValidationFailed (field @ '' mime type is missing''))) (\<lambda>mime.
     if \<not> eq_ignore_ascii_case (cas_asset_type a) ''image''
       then Inl (ValidationFailed (''reference_asset_kind_not_allowed: '' @ field @ '' must be an image asset''))
     else validate_asset_mime_and_size a c field mime)"

definition expected_reference_asset_kind :: "(uuid \<times> string option) list \<Rightarrow> uuid \<Rightarrow> string option" where
  "expected_reference_asset_kind kinds i =
     Option.bind (List.find (\<lambda>(j, k). j = i \<and> k \<noteq> None) kinds) snd"

definition validate_asset_kind_matches :: "customer_asset \<Rightarrow> string \<Rightarrow> string \<Rightarrow> app_error + unit" where
  "validate_asset_kind_matches a kind field =
     (if eq_ignore_ascii_case (cas_asset_type a) kind then Inr ()
      else Inl (ValidationFailed (''reference_asset_kind_mismatch: '' @ field @ '' expected '' @ kind
        @ '' but got '' @ cas_asset_type a)))"

definition asset_url :: "customer_asset \<Rightarrow> string \<Rightarrow> app_error + string" where
  "asset_url a field =
     (case cas_public_url a of
        Some u \<Rightarrow> if trim u = [] then Inl (ValidationFailed (field @ '' url is missing'')) else Inr u
      | None \<Rightarrow> Inl (ValidationFailed (field @ '' url is missing'')))"


section \<open>The checked input\<close>

record generation_input_assets =
  gi_input_mode :: "string option"
  gi_source_mode :: "string option"
  gi_reference_asset_ids :: "uuid list"
  gi_reference_urls :: "string list"
  gi_reference_image_urls :: "string list"
  gi_reference_video_urls :: "string list"
  gi_reference_audio_urls :: "string list"
  gi_first_frame_asset_id :: "uuid option"
  gi_first_frame_url :: "string option"
  gi_last_frame_asset_id :: "uuid option"
  gi_last_frame_url :: "string option"
  gi_reference_count :: i64
  gi_has_first_frame :: bool
  gi_has_last_frame :: bool

text \<open>Who asks: the server key's tenant and application, and the customer.\<close>

record job_caller =
  jc_server_key_id :: uuid
  jc_tenant_id :: uuid
  jc_app_id :: uuid
  jc_customer_id :: uuid

definition callers_asset :: "ai_db \<Rightarrow> job_caller \<Rightarrow> uuid \<Rightarrow> app_error + customer_asset" where
  "callers_asset db c i = find_generation_asset db (jc_tenant_id c) (jc_app_id c) (jc_customer_id c) i"

text \<open>The addresses of the references, each with the type its file has.\<close>

definition load_reference ::
    "ai_db \<Rightarrow> job_caller \<Rightarrow> model_capabilities \<Rightarrow> (uuid \<times> string option) list \<Rightarrow> uuid
      \<Rightarrow> app_error + string \<times> string" where
  "load_reference db c caps kinds i =
     rs_bind (callers_asset db c i) (\<lambda>a.
     rs_bind (case expected_reference_asset_kind kinds i of
                None \<Rightarrow> Inr () | Some k \<Rightarrow> validate_asset_kind_matches a k ''referenceAssets'') (\<lambda>_.
     rs_bind (validate_reference_asset a caps ''referenceAssetIds'') (\<lambda>_.
     rs_bind (asset_url a ''referenceAssetIds'') (\<lambda>u.
     Inr (cas_asset_type a, u)))))"

fun load_references ::
    "ai_db \<Rightarrow> job_caller \<Rightarrow> model_capabilities \<Rightarrow> (uuid \<times> string option) list \<Rightarrow> uuid list
      \<Rightarrow> app_error + (string \<times> string) list" where
  "load_references db c caps kinds [] = Inr []"
| "load_references db c caps kinds (i # is) =
     rs_bind (load_reference db c caps kinds i) (\<lambda>x.
     rs_bind (load_references db c caps kinds is) (\<lambda>xs. Inr (x # xs)))"

definition is_video :: "string \<times> string \<Rightarrow> bool" where
  "is_video x \<longleftrightarrow> eq_ignore_ascii_case (fst x) ''video''"

definition is_audio :: "string \<times> string \<Rightarrow> bool" where
  "is_audio x \<longleftrightarrow> \<not> is_video x \<and> eq_ignore_ascii_case (fst x) ''audio''"

definition is_image :: "string \<times> string \<Rightarrow> bool" where
  "is_image x \<longleftrightarrow> \<not> is_video x \<and> \<not> is_audio x"

definition check_reference_count :: "string \<Rightarrow> string \<Rightarrow> i64 option \<Rightarrow> string list \<Rightarrow> app_error + unit" where
  "check_reference_count code what limit urls =
     (case limit of
        None \<Rightarrow> Inr ()
      | Some n \<Rightarrow>
          if int (length urls) > n
            then Inl (ValidationFailed (code @ '': reference '' @ what @ '' must contain no more than ''
              @ show_i64 n @ '' items''))
          else Inr ())"

definition load_frame ::
    "ai_db \<Rightarrow> job_caller \<Rightarrow> model_capabilities \<Rightarrow> string \<Rightarrow> uuid option \<Rightarrow> app_error + string option" where
  "load_frame db c caps field i =
     (case i of
        None \<Rightarrow> Inr None
      | Some i \<Rightarrow>
          rs_bind (callers_asset db c i) (\<lambda>a.
          rs_bind (validate_frame_asset a caps field) (\<lambda>_.
          rs_bind (asset_url a field) (\<lambda>u. Inr (Some u)))))"

definition requested_assets :: "(string \<Rightarrow> uuid option) \<Rightarrow> json \<Rightarrow> app_error + request_assets" where
  "requested_assets parse payload =
     rs_bind (reference_asset_inputs parse payload) (\<lambda>inputs.
     rs_bind (uuid_list parse payload [''referenceAssetIds'', ''reference_asset_ids'']) (\<lambda>ids.
     rs_bind (optional_uuid parse payload [''firstFrameAssetId'', ''first_frame_asset_id'']) (\<lambda>first.
     rs_bind (optional_uuid parse payload [''lastFrameAssetId'', ''last_frame_asset_id'']) (\<lambda>last.
     merge_reference_asset_inputs inputs
       \<lparr>ra_ids = ids, ra_kinds = map (\<lambda>i. (i, None)) ids, ra_first = first, ra_last = last\<rparr>))))"

definition check_frames_supported :: "request_assets \<Rightarrow> model_capabilities \<Rightarrow> app_error + unit" where
  "check_frames_supported ra caps =
     (if ra_first ra \<noteq> None \<and> \<not> cap_supports_first_frame caps
        then Inl (ValidationFailed ''model_not_support_first_frame: model does not support first frame input'')
      else if ra_last ra \<noteq> None \<and> \<not> cap_supports_last_frame caps
        then Inl (ValidationFailed ''model_not_support_last_frame: model does not support last frame input'')
      else Inr ())"

definition source_mode_of ::
    "string option \<Rightarrow> request_assets \<Rightarrow> string list \<Rightarrow> string list \<Rightarrow> string option" where
  "source_mode_of mode ra videos audios =
     (case mode of
        Some m \<Rightarrow> Some m
      | None \<Rightarrow>
          Some (if ra_first ra \<noteq> None \<or> ra_last ra \<noteq> None then ''frames''
                else if audios \<noteq> [] then ''audio''
                else if videos \<noteq> [] then ''video''
                else if ra_ids ra \<noteq> [] then ''image''
                else ''text''))"

definition load_and_validate_generation_input_assets ::
    "(string \<Rightarrow> uuid option) \<Rightarrow> ai_db \<Rightarrow> job_caller \<Rightarrow> json \<Rightarrow> gateway_model
      \<Rightarrow> app_error + generation_input_assets" where
  "load_and_validate_generation_input_assets parse db c payload m =
     rs_bind (from_config (gm_pricing_config m)) (\<lambda>caps.
     let mode = optional_string payload [''inputMode'', ''input_mode''] in
     rs_bind (case mode of None \<Rightarrow> Inr () | Some x \<Rightarrow> validate_input_mode x (gm_pricing_config m)) (\<lambda>_.
     rs_bind (requested_assets parse payload) (\<lambda>ra.
     rs_bind (check_frames_supported ra caps) (\<lambda>_.
     rs_bind (load_references db c caps (ra_kinds ra) (ra_ids ra)) (\<lambda>refs.
     let images = map snd (filter is_image refs);
         videos = map snd (filter is_video refs);
         audios = map snd (filter is_audio refs) in
     rs_bind (check_reference_count ''reference_image_too_many'' ''images''
                (cap_max_reference_images caps) images) (\<lambda>_.
     rs_bind (check_reference_count ''reference_video_too_many'' ''videos''
                (cap_max_reference_videos caps) videos) (\<lambda>_.
     rs_bind (check_reference_count ''reference_audio_too_many'' ''audios''
                (cap_max_reference_audios caps) audios) (\<lambda>_.
     rs_bind (load_frame db c caps ''firstFrameAssetId'' (ra_first ra)) (\<lambda>first.
     rs_bind (load_frame db c caps ''lastFrameAssetId'' (ra_last ra)) (\<lambda>last.
     Inr \<lparr>gi_input_mode = mode, gi_source_mode = source_mode_of mode ra videos audios,
          gi_reference_asset_ids = ra_ids ra, gi_reference_urls = map snd refs,
          gi_reference_image_urls = images, gi_reference_video_urls = videos,
          gi_reference_audio_urls = audios,
          gi_first_frame_asset_id = ra_first ra, gi_first_frame_url = first,
          gi_last_frame_asset_id = ra_last ra, gi_last_frame_url = last,
          gi_reference_count = int (length (ra_ids ra)),
          gi_has_first_frame = (ra_first ra \<noteq> None), gi_has_last_frame = (ra_last ra \<noteq> None)\<rparr>))))))))))"


section \<open>The normalized payload\<close>

fun copy_first_alias :: "json_map \<Rightarrow> string list \<Rightarrow> string \<Rightarrow> json_map" where
  "copy_first_alias obj [] target = obj"
| "copy_first_alias obj (k # ks) target =
     (case map_of obj k of
        None \<Rightarrow> copy_first_alias obj ks target
      | Some v \<Rightarrow>
          if (case as_str v of Some s \<Rightarrow> trim s = [] | None \<Rightarrow> False) \<or> v = JNull
            then copy_first_alias obj ks target
          else map_insert target v obj)"

definition copy_value_aliases :: "json_map \<Rightarrow> string list \<Rightarrow> string \<Rightarrow> json_map" where
  "copy_value_aliases obj sources target =
     (case map_of obj target of Some _ \<Rightarrow> obj | None \<Rightarrow> copy_first_alias obj sources target)"

definition insert_urls :: "string \<Rightarrow> string list \<Rightarrow> json_map \<Rightarrow> json_map" where
  "insert_urls k urls obj = (if urls = [] then obj else map_insert k (json_strings urls) obj)"

definition insert_references :: "(uuid \<Rightarrow> string) \<Rightarrow> generation_input_assets \<Rightarrow> json_map \<Rightarrow> json_map" where
  "insert_references uuid_text ia obj =
     (if gi_reference_asset_ids ia = [] then obj
      else
        insert_urls ''reference_audio_urls'' (gi_reference_audio_urls ia)
          (insert_urls ''reference_video_urls'' (gi_reference_video_urls ia)
            (insert_urls ''reference_image_urls'' (gi_reference_image_urls ia)
              (map_insert ''reference_urls'' (json_strings (gi_reference_urls ia))
                (map_insert ''reference_asset_ids''
                  (json_strings (map uuid_text (gi_reference_asset_ids ia))) obj)))))"

definition input_summary :: "generation_input_assets \<Rightarrow> json" where
  "input_summary ia = JObject
     [(''hasFirstFrame'', JBool (gi_has_first_frame ia)), (''hasLastFrame'', JBool (gi_has_last_frame ia)),
      (''referenceCount'', num (gi_reference_count ia)),
      (''sourceMode'', opt_text (gi_source_mode ia))]"

definition with_duration :: "string \<Rightarrow> gateway_model \<Rightarrow> json_map \<Rightarrow> app_error + json_map" where
  "with_duration type m obj =
     (if type = ''video'' \<and> map_of obj ''duration'' = None
      then rs_bind (requested_video_seconds (JObject obj) (gm_pricing_config m) max_video_seconds)
             (\<lambda>seconds. Inr (map_insert ''duration'' (num seconds) obj))
      else Inr obj)"

definition normalize_generation_request_payload ::
    "(uuid \<Rightarrow> string) \<Rightarrow> json \<Rightarrow> string \<Rightarrow> gateway_model \<Rightarrow> generation_input_assets \<Rightarrow> app_error + json" where
  "normalize_generation_request_payload uuid_text payload type m ia =
     (case payload of
        JObject obj \<Rightarrow>
          (let obj = copy_value_aliases obj [''aspectRatio''] ''ratio'';
               obj = copy_value_aliases obj [''durationSec'', ''durationSeconds'', ''duration_seconds'']
                       ''duration'';
               obj = copy_value_aliases obj [''inputMode''] ''input_mode'';
               obj = map_remove ''reference_assets'' (map_remove ''referenceAssets'' obj);
               obj = insert_opt ''input_mode'' (map_option JString (gi_input_mode ia)) obj;
               obj = insert_references uuid_text ia obj;
               obj = insert_opt ''first_frame_asset_id''
                       (map_option (\<lambda>i. JString (uuid_text i)) (gi_first_frame_asset_id ia)) obj;
               obj = insert_opt ''first_frame_url'' (map_option JString (gi_first_frame_url ia)) obj;
               obj = insert_opt ''last_frame_asset_id''
                       (map_option (\<lambda>i. JString (uuid_text i)) (gi_last_frame_asset_id ia)) obj;
               obj = insert_opt ''last_frame_url'' (map_option JString (gi_last_frame_url ia)) obj;
               obj = map_insert ''entitlehub_input'' (input_summary ia) obj in
           rs_bind (with_duration type m obj) (\<lambda>obj. Inr (JObject obj)))
      | _ \<Rightarrow> Inl (ValidationFailed ''ai generation body must be an object''))"


section \<open>Only the customer's files\<close>

definition usable_by :: "job_caller \<Rightarrow> model_capabilities \<Rightarrow> uuid \<Rightarrow> customer_asset \<Rightarrow> bool" where
  "usable_by c caps i a \<longleftrightarrow>
     cas_id a = i \<and> cas_tenant_id a = jc_tenant_id c \<and> cas_app_id a = jc_app_id c
     \<and> cas_customer_id a = jc_customer_id c \<and> cas_deleted_at a = None \<and> cas_status a = ''ready''
     \<and> (case cas_mime_type a of
          None \<Rightarrow> False
        | Some m \<Rightarrow> cap_accepted_mime_types caps = []
            \<or> list_ex (\<lambda>item. eq_ignore_ascii_case item m) (cap_accepted_mime_types caps))
     \<and> (case (cap_max_asset_size_mb caps, cas_file_size a) of
          (Some mb, Some bytes) \<Rightarrow> bytes \<le> saturating_i64 (mb * 1048576)
        | _ \<Rightarrow> True)"

text \<open>The kinds of files that a model with given capabilities takes as a reference.\<close>

definition reference_kind :: "model_capabilities \<Rightarrow> customer_asset \<Rightarrow> bool" where
  "reference_kind caps a \<longleftrightarrow>
     cas_asset_type a = ''image'' \<or> (cas_asset_type a = ''video'' \<and> cap_supports_reference_video caps)
     \<or> (cas_asset_type a = ''audio'' \<and> cap_supports_reference_audio caps)"

lemma callers_asset_usable:
  assumes "callers_asset db c i = Inr a" and "cas_mime_type a = Some mime"
    and "validate_asset_mime_and_size a caps field mime = Inr ()"
  shows "a \<in> set (ai_customer_assets db) \<and> usable_by c caps i a"
  using assms
  by (auto simp: callers_asset_def find_generation_asset_def usable_by_def validate_asset_mime_and_size_def
      find_Some_iff rs_bind_Inr ok_or_Inr split: if_splits option.splits)

lemma loaded_reference_usable:
  assumes "load_reference db c caps kinds i = Inr x"
  shows "\<exists>a \<in> set (ai_customer_assets db). usable_by c caps i a \<and> reference_kind caps a"
  using assms
  by (auto simp: load_reference_def validate_reference_asset_def reference_kind_def rs_bind_Inr ok_or_Inr
      dest: callers_asset_usable split: if_splits)

lemma loaded_references_usable:
  "load_references db c caps kinds is = Inr xs \<Longrightarrow> i \<in> set is
    \<Longrightarrow> \<exists>a \<in> set (ai_customer_assets db). usable_by c caps i a \<and> reference_kind caps a"
  by (induction "is" arbitrary: xs) (auto simp: rs_bind_Inr dest: loaded_reference_usable)

lemma loaded_frame_usable:
  assumes "load_frame db c caps field (Some i) = Inr u"
  shows "\<exists>a \<in> set (ai_customer_assets db). usable_by c caps i a \<and> eq_ignore_ascii_case (cas_asset_type a) ''image''"
  using assms
  by (auto simp: load_frame_def validate_frame_asset_def rs_bind_Inr ok_or_Inr
      dest: callers_asset_usable split: if_splits)

lemma counted_references:
  "check_reference_count code what limit urls = Inr () \<longleftrightarrow> (\<forall>n. limit = Some n \<longrightarrow> int (length urls) \<le> n)"
  by (auto simp: check_reference_count_def split: option.split)

text \<open>
  C17. A generation job takes only files of the customer it runs for: every reference and frame of
  an accepted request is a file of the customer in the server key's tenant and application, is
  ready and not deleted, has a media type the model accepts and is no larger than the model's
  limit, when its size is known; a reference is of a kind the model takes, a frame is an image, and
  there are no more references of a kind than the model allows.
\<close>

theorem generation_inputs_are_the_customers:
  assumes "load_and_validate_generation_input_assets parse db c payload m = Inr ia"
    and "from_config (gm_pricing_config m) = Inr caps"
  shows "(\<forall>i \<in> set (gi_reference_asset_ids ia).
        \<exists>a \<in> set (ai_customer_assets db). usable_by c caps i a \<and> reference_kind caps a)
    \<and> (\<forall>i. gi_first_frame_asset_id ia = Some i \<or> gi_last_frame_asset_id ia = Some i \<longrightarrow>
        (\<exists>a \<in> set (ai_customer_assets db). usable_by c caps i a \<and> eq_ignore_ascii_case (cas_asset_type a) ''image''))
    \<and> (\<forall>n. cap_max_reference_images caps = Some n \<longrightarrow> int (length (gi_reference_image_urls ia)) \<le> n)
    \<and> (\<forall>n. cap_max_reference_videos caps = Some n \<longrightarrow> int (length (gi_reference_video_urls ia)) \<le> n)
    \<and> (\<forall>n. cap_max_reference_audios caps = Some n \<longrightarrow> int (length (gi_reference_audio_urls ia)) \<le> n)"
  using assms
  by (auto simp: load_and_validate_generation_input_assets_def Let_def rs_bind_Inr counted_references
      dest: loaded_references_usable loaded_frame_usable)

definition sample_job_caller :: job_caller where
  "sample_job_caller = \<lparr>jc_server_key_id = 6, jc_tenant_id = 1, jc_app_id = 4, jc_customer_id = 2\<rparr>"

definition sample_reference :: customer_asset where
  "sample_reference = \<lparr>cas_id = 5, cas_tenant_id = 1, cas_app_id = 4, cas_customer_id = 2,
     cas_ai_asset_id = None, cas_name = ''cat'', cas_asset_type = ''image'', cas_asset_role = ''upload'',
     cas_source = ''user_upload'', cas_status = ''ready'', cas_storage_key = None,
     cas_public_url = Some ''/a'', cas_mime_type = Some ''image/png'', cas_file_size = Some 9,
     cas_checksum_sha256 = None, cas_metadata_json = JObject [], cas_deleted_at = None\<rparr>"

definition gallery_db :: ai_db where
  "gallery_db = empty_ai_db\<lparr>ai_customer_assets := [sample_reference]\<rparr>"

definition sample_request :: json where
  "sample_request = JObject [(''reference_asset_ids'', JArray [JString ''5''])]"

definition sample_inputs :: generation_input_assets where
  "sample_inputs = \<lparr>gi_input_mode = None, gi_source_mode = Some ''image'', gi_reference_asset_ids = [5],
     gi_reference_urls = [''/a''], gi_reference_image_urls = [''/a''], gi_reference_video_urls = [],
     gi_reference_audio_urls = [], gi_first_frame_asset_id = None, gi_first_frame_url = None,
     gi_last_frame_asset_id = None, gi_last_frame_url = None, gi_reference_count = 1,
     gi_has_first_frame = False, gi_has_last_frame = False\<rparr>"

definition no_capabilities :: model_capabilities where
  "no_capabilities = \<lparr>cap_ratios = [], cap_resolutions = [], cap_durations = [],
     cap_default_duration_seconds = None, cap_image_counts = [], cap_max_images = None,
     cap_input_modes = [], cap_max_reference_images = None, cap_max_reference_videos = None,
     cap_max_reference_audios = None, cap_supports_reference_video = False,
     cap_supports_reference_audio = False, cap_supports_first_frame = False,
     cap_supports_last_frame = False, cap_accepted_mime_types = [], cap_max_asset_size_mb = None\<rparr>"

theorem generation_inputs_are_the_customers_witness:
  "load_and_validate_generation_input_assets (\<lambda>s. Some 5) gallery_db sample_job_caller sample_request
     sample_image_model = Inr sample_inputs
   \<and> (\<exists>a \<in> set (ai_customer_assets gallery_db). usable_by sample_job_caller no_capabilities 5 a
     \<and> reference_kind no_capabilities a)"
proof -
  have *: "load_and_validate_generation_input_assets (\<lambda>s. Some 5) gallery_db sample_job_caller sample_request
     sample_image_model = Inr sample_inputs" by code_simp
  moreover have "from_config (gm_pricing_config sample_image_model) = Inr no_capabilities" by code_simp
  ultimately show ?thesis
    using generation_inputs_are_the_customers [OF *, of no_capabilities] by (simp add: sample_inputs_def)
qed

end
