(* ===== verification/JobPrices.thy ===== *)
theory JobPrices
  imports JobInputs
begin

text \<open>
  What a generation job costs (\<open>modules/ai/jobs.rs\<close>): the checks of its model, the quantity it is
  billed for and the amount held for it. A job is charged what was held.
\<close>

definition max_audio_seconds :: i64 where "max_audio_seconds = 3600"

definition check_type :: "string list \<Rightarrow> string \<Rightarrow> string list \<Rightarrow> string \<Rightarrow> gateway_model \<Rightarrow> app_error + unit" where
  "check_type modalities modality_error modes mode_error m =
     (if gm_modality m \<notin> set modalities then Inl (ValidationFailed modality_error)
      else if gm_billing_mode m \<notin> set modes then Inl (ValidationFailed mode_error)
      else Inr ())"

definition validate_generation_model :: "gateway_model \<Rightarrow> string \<Rightarrow> app_error + unit" where
  "validate_generation_model m type =
     (if gm_provider_kind m \<noteq> ''wuyin_keji''
        then Inl (ValidationFailed ''ai async generation model provider must be wuyin_keji'')
      else
        rs_bind
          (if type = ''image'' then
             check_type [''image'', ''multimodal''] ''ai model does not support image jobs''
               [''per_image''] ''ai image job billing mode must be per_image'' m
           else if type = ''video'' then
             check_type [''video'', ''multimodal''] ''ai model does not support video jobs''
               [''video_per_second'', ''video_per_request'']
               ''ai video job billing mode must be video_per_second or video_per_request'' m
           else if type = ''audio'' then
             check_type [''audio'', ''multimodal''] ''ai model does not support audio jobs''
               [''audio_per_second'', ''audio_per_minute'', ''audio_per_request'']
               ''ai audio job billing mode must be audio_per_second, audio_per_minute, or audio_per_request'' m
           else Inl (ValidationFailed ''ai generation job type invalid'')) (\<lambda>_.
        if gm_provider_secret_encrypted m = None
          then Inl (ValidationFailed ''ai provider api key is not configured'')
        else Inr ()))"

text \<open>\<open>payload.get(key)?\<close> leaves the loop at the first key that is missing.\<close>

fun optional_positive_i64 :: "json \<Rightarrow> string list \<Rightarrow> i64 option" where
  "optional_positive_i64 payload [] = None"
| "optional_positive_i64 payload (k # ks) =
     Option.bind (json_get k payload) (\<lambda>v.
     Option.bind (case v of
                    JNumber n \<Rightarrow> as_i64 (JNumber n)
                  | JString s \<Rightarrow> parse_i64 (trim s)
                  | _ \<Rightarrow> None) (\<lambda>n.
     if n > 0 then Some n else optional_positive_i64 payload ks))"

definition audio_seconds :: "json \<Rightarrow> gateway_model \<Rightarrow> i64" where
  "audio_seconds payload m =
     (case optional_positive_i64 payload
             [''duration'', ''durationSec'', ''durationSeconds'', ''duration_seconds'', ''seconds''] of
        Some s \<Rightarrow> max (min s max_audio_seconds) 1
      | None \<Rightarrow>
     (case optional_positive_i64 (gm_pricing_config m)
             [''default_duration_seconds'', ''duration_seconds'', ''seconds''] of
        Some s \<Rightarrow> max (min s max_audio_seconds) 1
      | None \<Rightarrow>
          (let text_len = max (case Option.bind (json_get ''text'' payload) as_str of
                 None \<Rightarrow> 1 | Some t \<Rightarrow> int (chars_count t)) 1 in
           clamp_int ((text_len + 3) div 4) 1 max_audio_seconds)))"

definition estimated_quantity :: "string \<Rightarrow> json \<Rightarrow> gateway_model \<Rightarrow> app_error + i64" where
  "estimated_quantity type payload m =
     (if type = ''image'' then image_count payload max_image_count
      else if type = ''video'' then
        (if gm_billing_mode m = ''video_per_second''
         then requested_video_seconds payload (gm_pricing_config m) max_video_seconds else Inr 1)
      else if type = ''audio'' then
        (if gm_billing_mode m = ''audio_per_second'' then Inr (audio_seconds payload m)
         else if gm_billing_mode m = ''audio_per_minute'' then Inr ((audio_seconds payload m + 59) div 60)
         else Inr 1)
      else Inl (ValidationFailed ''ai generation job type invalid''))"

definition price_of_quantity :: "gateway_model \<Rightarrow> string \<Rightarrow> i64 \<Rightarrow> i64 \<Rightarrow> app_error + i64" where
  "price_of_quantity m what price quantity =
     rs_bind (ok_or (checked_mul_i64 price quantity)
                (ValidationFailed (''ai estimated '' @ what @ '' charge is too large''))) (\<lambda>v.
     ok_or (checked_add_i64 (gm_request_price_minor m) v)
       (ValidationFailed ''ai estimated charge is too large''))"

definition estimate_generation_hold_minor :: "string \<Rightarrow> i64 \<Rightarrow> gateway_model \<Rightarrow> app_error + i64" where
  "estimate_generation_hold_minor type quantity m =
     (let mode = gm_billing_mode m in
      if type = ''image'' \<and> mode = ''per_image'' then
        price_of_quantity m ''image'' (gm_image_price_minor m) quantity
      else if type = ''video'' \<and> mode = ''video_per_second'' then
        price_of_quantity m ''video'' (gm_second_price_minor m) quantity
      else if type = ''video'' \<and> mode = ''video_per_request'' then Inr (gm_request_price_minor m)
      else if type = ''audio'' \<and> mode = ''audio_per_second'' then
        price_of_quantity m ''audio'' (gm_second_price_minor m) quantity
      else if type = ''audio'' \<and> mode = ''audio_per_minute'' then
        price_of_quantity m ''audio'' (gm_minute_price_minor m) quantity
      else if type = ''audio'' \<and> mode = ''audio_per_request'' then Inr (gm_request_price_minor m)
      else Inl (ValidationFailed ''ai generation billing mode is invalid''))"

definition validate_generation_payload :: "string \<Rightarrow> json \<Rightarrow> gateway_model \<Rightarrow> app_error + unit" where
  "validate_generation_payload type payload m =
     (if type = ''image'' then validate_image_payload payload (gm_pricing_config m) max_image_count
      else if type = ''video'' then validate_video_payload payload (gm_pricing_config m)
      else if type = ''audio'' then Inr ()
      else Inl (ValidationFailed ''ai generation job type invalid''))"

definition generation_endpoint :: "string \<Rightarrow> string" where
  "generation_endpoint type =
     (if type = ''image'' then ''/api/server/ai/v1/images/jobs''
      else if type = ''video'' then ''/api/server/ai/v1/videos/jobs''
      else if type = ''audio'' then ''/api/server/ai/v1/audio/jobs''
      else ''/api/server/ai/v1/jobs'')"

text \<open>Every charge mode is charged the amount held (\<open>charge_minor_from_job\<close>, \<open>.._admin_job\<close>).\<close>

definition charge_minor_from_job :: "string \<Rightarrow> i64 \<Rightarrow> i64" where
  "charge_minor_from_job charge_mode held =
     (if charge_mode \<in> {''per_image'', ''video_per_second'', ''video_per_request'', ''audio_per_second'',
        ''audio_per_minute'', ''audio_per_request''} then held else held)"


section \<open>Bounds\<close>

lemma job_image_count_bounds: "image_count payload n = Inr k \<Longrightarrow> 1 \<le> k \<and> k \<le> max n 1"
  by (auto simp: image_count_def rs_bind_Inr ok_or_Inr Let_def split: option.splits if_splits)

lemma video_seconds_bounds:
  assumes "requested_video_seconds payload config n = Inr k" and "1 \<le> n"
  shows "1 \<le> k \<and> k \<le> n"
proof -
  have "max n 1 = n" using assms(2) by simp
  with assms(1) show ?thesis
    unfolding requested_video_seconds_def by (auto simp only: rs_bind_Inr Let_def split: if_splits)
qed

lemma audio_seconds_bounds: "1 \<le> audio_seconds payload m \<and> audio_seconds payload m \<le> 3600"
  by (auto simp: audio_seconds_def max_audio_seconds_def clamp_int_def Let_def split: option.splits)

lemma quantity_bounds:
  assumes "estimated_quantity type payload m = Inr q"
  shows "1 \<le> q \<and> q \<le> 3600"
  using assms audio_seconds_bounds [of payload m] job_image_count_bounds [of payload max_image_count q]
    video_seconds_bounds [of payload "gm_pricing_config m" max_video_seconds q]
  by (auto simp: estimated_quantity_def max_image_count_def max_video_seconds_def split: if_splits)

text \<open>The price of one billed unit of the mode.\<close>

definition unit_price :: "gateway_model \<Rightarrow> i64" where
  "unit_price m =
     (if gm_billing_mode m = ''per_image'' then gm_image_price_minor m
      else if gm_billing_mode m \<in> {''video_per_second'', ''audio_per_second''} then gm_second_price_minor m
      else if gm_billing_mode m = ''audio_per_minute'' then gm_minute_price_minor m
      else 0)"

lemma price_of_quantity_Inr:
  assumes "0 \<le> price" and "1 \<le> q" and "0 \<le> gm_request_price_minor m"
  shows "price_of_quantity m what price q = Inr h \<longleftrightarrow> h = gm_request_price_minor m + price * q \<and> h \<le> i64_max"
proof -
  define v where "v = price * q"
  have "0 \<le> v" using assms by (simp add: v_def)
  then show ?thesis using assms(3) unfolding v_def [symmetric]
    by (auto simp: v_def [symmetric] price_of_quantity_def rs_bind_Inr ok_or_Inr checked_mul_i64_def checked_add_i64_def in_i64_def)
qed

text \<open>
  C13. A job of a checked model holds exactly the request's price and the price of its units, as
  long as that fits 64 bits, and fails otherwise: it never wraps and never holds less.
\<close>

theorem job_hold_is_its_price:
  assumes "prices_wf m" and "validate_generation_model m type = Inr ()"
    and "estimated_quantity type payload m = Inr q"
  shows "estimate_generation_hold_minor type q m = Inr h
    \<longleftrightarrow> h = gm_request_price_minor m + unit_price m * q \<and> h \<le> i64_max"
  using assms quantity_bounds [OF assms(3)]
  by (auto simp: estimate_generation_hold_minor_def unit_price_def validate_generation_model_def check_type_def
      prices_wf_def rs_bind_Inr price_of_quantity_Inr Let_def in_i64_def split: if_splits)

theorem job_hold_is_its_price_witness:
  "estimate_generation_hold_minor ''image'' 1 sample_image_model = Inr 12"
proof -
  have "prices_wf sample_image_model" by (simp add: prices_wf_def sample_image_model_def sample_model_def in_i64_def)
  moreover have "validate_generation_model sample_image_model ''image'' = Inr ()" by code_simp
  moreover have "estimated_quantity ''image'' sample_image_payload sample_image_model = Inr 1" by code_simp
  ultimately show ?thesis
    by (subst job_hold_is_its_price) (simp_all add: unit_price_def sample_image_model_def sample_model_def)
qed

end
