(* ===== verification/JobBilling.thy ===== *)
theory JobBilling
  imports JobPrices "HOL-Library.Product_Lexorder"
begin

text \<open>
  The bills and the rows of generation jobs (\<open>modules/ai/jobs.rs\<close>): holding an amount when a job is
  submitted, capturing or releasing it when its outcome is known, refunding it, and the statements
  that move a job from one status to the next. The statements on wallets are those of \<open>Wallets\<close>,
  with this module's error.
\<close>

definition job_db_error :: "ai_env \<Rightarrow> app_error" where
  "job_db_error env = Dependency (''ai generation job database error: '' @ ae_db_error env)"

definition reason_job_hold :: string where
  "reason_job_hold = utf8 [65, 73, 32, 231, 148, 159, 230, 136, 144, 228, 187, 187, 229, 138,
     161, 233, 162, 132, 230, 137, 163]"

definition reason_job_capture :: string where
  "reason_job_capture = utf8 [65, 73, 32, 231, 148, 159, 230, 136, 144, 228, 187, 187, 229, 138,
     161, 230, 136, 144, 229, 138, 159, 231, 187, 147, 231, 174, 151]"

definition reason_job_free :: string where
  "reason_job_free = utf8 [65, 73, 32, 231, 148, 159, 230, 136, 144, 228, 187, 187, 229, 138,
     161, 230, 136, 144, 229, 138, 159, 228, 189, 134, 230, 151, 160, 233, 156, 128, 230, 137,
     163, 232, 180, 185, 239, 188, 140, 233, 135, 138, 230, 148, 190, 233, 162, 132, 230, 137,
     163, 233, 135, 145, 233, 162, 157]"


section \<open>Holding\<close>

definition ensure_job_spend_limits ::
    "ai_env \<Rightarrow> job_caller \<Rightarrow> gateway_model \<Rightarrow> wallet \<Rightarrow> i64 \<Rightarrow> unit ai_tx" where
  "ensure_job_spend_limits env c m w hold =
     (let e = job_db_error env; t = jc_tenant_id c in
      if hold \<le> 0 then tx_return ()
      else
        tx_bind (check_daily_limit ''customer ai daily spend limit'' (wal_daily_spend_limit_minor w)
                   (daily_spend_minor env e t (Some (jc_customer_id c)) None None) hold) (\<lambda>_.
        check_daily_limit ''ai model daily spend limit'' (gm_daily_spend_limit_minor m)
          (daily_spend_minor env e t None None (Some (gm_id m))) hold))"

definition job_source :: "ai_env \<Rightarrow> job_caller \<Rightarrow> (string \<times> json) list" where
  "job_source env c =
     [(''source'', JString ''server_key''), (''server_key_id'', uuid_json env (Some (jc_server_key_id c)))]"

definition insert_job_usage ::
    "ai_env \<Rightarrow> uuid \<Rightarrow> job_caller \<Rightarrow> gateway_model \<Rightarrow> uuid \<Rightarrow> string \<Rightarrow> string \<Rightarrow> i64 \<Rightarrow> json
      \<Rightarrow> string option \<Rightarrow> unit ai_tx" where
  "insert_job_usage env usage c m wallet request_id endpoint held payload key =
     insert_usage (job_db_error env)
       \<lparr>usr_id = usage, usr_tenant_id = jc_tenant_id c, usr_wallet_id = Some wallet,
        usr_customer_id = Some (jc_customer_id c), usr_api_key_id = None,
        usr_provider_id = Some (gm_provider_id m), usr_model_id = Some (gm_id m),
        usr_request_id = Some request_id, usr_idempotency_key = key, usr_endpoint = endpoint,
        usr_status = ''running'', usr_provider_status = None, usr_provider_request_id = None,
        usr_prompt_tokens = None, usr_completion_tokens = None, usr_total_tokens = None,
        usr_charged_minor = 0, usr_refunded_minor = 0,
        usr_price_snapshot = price_snapshot m held (ae_time_text env (ae_now env)),
        usr_provider_raw_response = None,
        usr_metadata_json = JObject (job_source env c @
          [(''request_model'', JString (case requested_model_code payload of
             Inl _ \<Rightarrow> gm_code m | Inr code \<Rightarrow> code)),
           (''provider_name'', JString (gm_provider_name m))]),
        usr_created_at = ae_db_now env, usr_completed_at = None\<rparr>"

definition reserve_job_usage ::
    "ai_env \<Rightarrow> job_caller \<Rightarrow> gateway_model \<Rightarrow> string \<Rightarrow> string \<Rightarrow> i64 \<Rightarrow> json \<Rightarrow> string option
      \<Rightarrow> billing_reservation ai_io" where
  "reserve_job_usage env c m request_id endpoint hold payload key =
     commit (reserve_tx env (job_db_error env) (jc_tenant_id c) (jc_customer_id c) m hold
       (\<lambda>w. ensure_job_spend_limits env c m w hold)
       (\<lambda>wallet. insert_job_usage env (ae_usage_id env) c m wallet request_id endpoint hold payload key)
       reason_job_hold (JObject (job_source env c @ [(''model'', JString (gm_code m))])))"


section \<open>Settling\<close>

record usage_for_update =
  ufu_wallet_id :: uuid
  ufu_status :: string
  ufu_held_minor :: i64

text \<open>A usage without a wallet does not decode (\<open>wallet_id\<close> is a \<open>Uuid\<close>).\<close>

definition find_usage_for_update :: "app_error \<Rightarrow> uuid \<Rightarrow> usage_for_update ai_tx" where
  "find_usage_for_update e i =
     tx_read (\<lambda>db.
       rs_bind (ok_or (usage_by_id i (ai_usages db)) e) (\<lambda>u.
       rs_bind (ok_or (usr_wallet_id u) e) (\<lambda>w.
       Inr \<lparr>ufu_wallet_id = w, ufu_status = usr_status u, ufu_held_minor = usage_held u\<rparr>)))"

definition usage_settled :: "usage_for_update \<Rightarrow> bool" where
  "usage_settled u \<longleftrightarrow> ufu_status u = ''failed'' \<or> ufu_status u = ''succeeded''"

definition update_job_usage_succeeded ::
    "ai_env \<Rightarrow> uuid \<Rightarrow> string \<Rightarrow> i64 \<Rightarrow> json \<Rightarrow> json \<Rightarrow> unit ai_tx" where
  "update_job_usage_succeeded env i provider_job_id charged metadata body =
     update_usage (job_db_error env) i
       (\<lambda>u. u\<lparr>usr_status := ''succeeded'', usr_provider_status := Some ''2'',
              usr_provider_request_id := Some provider_job_id, usr_charged_minor := charged,
              usr_metadata_json := jsonb_concat (usr_metadata_json u) metadata,
              usr_provider_raw_response := Some body, usr_completed_at := Some (ae_db_now env)\<rparr>)"

definition job_capture_usage :: "ai_env \<Rightarrow> uuid option \<Rightarrow> i64 \<Rightarrow> json \<Rightarrow> string \<Rightarrow> unit ai_io" where
  "job_capture_usage env usage charge body provider_job_id =
     (let e = job_db_error env in
      io_bind (io_of (ok_or usage (Dependency ''ai usage id missing''))) (\<lambda>i.
      commit (
        tx_bind (find_usage_for_update e i) (\<lambda>u.
        if ufu_status u = ''succeeded'' then tx_return ()
        else
          capture_tx env e (ufu_wallet_id u) i (ufu_held_minor u) charge
            (reason_job_capture, settlement_metadata) (reason_job_free, JObject [])
            (\<lambda>s. update_job_usage_succeeded env i provider_job_id (cs_captured_minor s)
                   (settlement_metadata s) body)))))"

definition update_wallet_balance :: "ai_env \<Rightarrow> app_error \<Rightarrow> uuid \<Rightarrow> i64 \<Rightarrow> wallet ai_tx" where
  "update_wallet_balance env e i delta =
     update_wallet env e (\<lambda>w. wal_id w = i) (\<lambda>w. w\<lparr>wal_balance_minor := wal_balance_minor w + delta\<rparr>)"

definition update_usage_refunded :: "ai_env \<Rightarrow> uuid \<Rightarrow> i64 \<Rightarrow> string \<Rightarrow> unit ai_tx" where
  "update_usage_refunded env i refund reason =
     update_usage (job_db_error env) i
       (\<lambda>u. u\<lparr>usr_status := ''refunded'', usr_refunded_minor := usr_refunded_minor u + refund,
              usr_metadata_json := jsonb_concat (usr_metadata_json u)
                (JObject [(''manual_refund'', JObject [(''amount_minor'', num refund),
                   (''reason'', JString reason),
                   (''refunded_at'', JString (ae_time_text env (ae_now env)))])]),
              usr_completed_at := Some (ae_db_now env)\<rparr>)"

text \<open>\<open>parse::<i32>\<close> of the provider's status, 0 when it is none.\<close>

definition provider_status_number :: "string option \<Rightarrow> int" where
  "provider_status_number s =
     (case Option.bind s parse_i64 of
        None \<Rightarrow> 0
      | Some n \<Rightarrow> if -2147483648 \<le> n \<and> n \<le> 2147483647 then n else 0)"


section \<open>Statements on jobs\<close>

definition update_job :: "app_error \<Rightarrow> (generation_job \<Rightarrow> bool) \<Rightarrow> (generation_job \<Rightarrow> generation_job) \<Rightarrow> unit ai_tx"
  where
  "update_job e P f =
     (\<lambda>db. case update_returning job_check e P f (ai_jobs db) of
             Inl x \<Rightarrow> Inl x
           | Inr (_, js) \<Rightarrow> Inr ((), db\<lparr>ai_jobs := js\<rparr>))"

text \<open>An interval in seconds from the database's clock.\<close>

definition db_in :: "ai_env \<Rightarrow> int \<Rightarrow> time" where
  "db_in env s = ae_db_now env + seconds s"

definition mark_job_running :: "ai_env \<Rightarrow> uuid \<Rightarrow> string option \<Rightarrow> json \<Rightarrow> unit ai_io" where
  "mark_job_running env i provider_status body =
     commit (update_job (job_db_error env) (\<lambda>j. job_id j = i)
       (\<lambda>j. j\<lparr>job_status := ''running'', job_provider_status := provider_status,
              job_provider_result_response := Some body, job_next_poll_at := Some (db_in env 15)\<rparr>))"

definition mark_job_provider_succeeded :: "ai_env \<Rightarrow> uuid \<Rightarrow> string option \<Rightarrow> json \<Rightarrow> unit ai_io" where
  "mark_job_provider_succeeded env i provider_status body =
     commit (update_job (job_db_error env) (\<lambda>j. job_id j = i)
       (\<lambda>j. j\<lparr>job_status := ''caching'', job_provider_status := provider_status,
              job_provider_result_response := Some body, job_next_poll_at := Some (db_in env 30)\<rparr>))"

definition mark_job_succeeded ::
    "ai_env \<Rightarrow> uuid \<Rightarrow> i64 \<Rightarrow> string list \<Rightarrow> string option \<Rightarrow> json \<Rightarrow> unit ai_io" where
  "mark_job_succeeded env i charged urls provider_status body =
     commit (update_job (job_db_error env) (\<lambda>j. job_id j = i)
       (\<lambda>j. j\<lparr>job_status := ''succeeded'', job_provider_status := provider_status,
              job_provider_result_response := Some body,
              job_result_json := Some (JObject [(''asset_urls'', json_strings urls), (''provider'', body)]),
              job_asset_urls := json_strings urls, job_charged_minor := charged,
              job_next_poll_at := None, job_completed_at := Some (ae_db_now env)\<rparr>))"

definition mark_job_caching_failed :: "ai_env \<Rightarrow> uuid \<Rightarrow> string \<Rightarrow> json \<Rightarrow> unit ai_io" where
  "mark_job_caching_failed env i error body =
     commit (update_job (job_db_error env) (\<lambda>j. job_id j = i)
       (\<lambda>j. j\<lparr>job_status := ''caching'', job_provider_result_response := Some body,
              job_failure_reason := Some (truncate_error error),
              job_next_poll_at := Some (db_in env 60)\<rparr>))"

definition update_job_failed ::
    "ai_env \<Rightarrow> uuid \<Rightarrow> string \<Rightarrow> string option \<Rightarrow> string \<Rightarrow> json option \<Rightarrow> i64 \<Rightarrow> unit ai_tx" where
  "update_job_failed env i status provider_status reason body refunded =
     update_job (job_db_error env) (\<lambda>j. job_id j = i)
       (\<lambda>j. j\<lparr>job_status := status, job_provider_status := provider_status,
              job_provider_result_response := body, job_failure_reason := Some (truncate_error reason),
              job_refunded_minor := refunded, job_next_poll_at := None,
              job_completed_at := Some (ae_db_now env)\<rparr>)"

definition default_max_attempts :: int where "default_max_attempts = 240"

definition mark_job_poll_error :: "ai_env \<Rightarrow> uuid \<Rightarrow> int \<Rightarrow> string \<Rightarrow> unit ai_io" where
  "mark_job_poll_error env i tries error =
     (let timeout = tries \<ge> default_max_attempts in
      commit (update_job (job_db_error env) (\<lambda>j. job_id j = i)
        (\<lambda>j. j\<lparr>job_status := (if timeout then ''timeout_review'' else ''running''),
               job_failure_reason := Some (truncate_error error),
               job_next_poll_at := (if timeout then None else Some (db_in env 60))\<rparr>)))"

definition mark_job_for_poll_retry :: "ai_env \<Rightarrow> uuid \<Rightarrow> uuid \<Rightarrow> string \<Rightarrow> unit ai_io" where
  "mark_job_for_poll_retry env tenant i reason =
     commit (update_job (job_db_error env) (\<lambda>j. job_tenant_id j = tenant \<and> job_id j = i)
       (\<lambda>j. j\<lparr>job_status := ''running'', job_failure_reason := Some (truncate_error reason),
              job_next_poll_at := Some (ae_db_now env)\<rparr>))"

definition update_job_refunded :: "ai_env \<Rightarrow> uuid \<Rightarrow> i64 \<Rightarrow> string \<Rightarrow> unit ai_tx" where
  "update_job_refunded env i refund reason =
     update_job (job_db_error env) (\<lambda>j. job_id j = i)
       (\<lambda>j. j\<lparr>job_status := ''failed'', job_refunded_minor := job_refunded_minor j + refund,
              job_failure_reason := Some (truncate_error reason), job_next_poll_at := None,
              job_completed_at := Some (ae_db_now env)\<rparr>)"

definition mark_job_cancelled :: "ai_env \<Rightarrow> uuid \<Rightarrow> uuid \<Rightarrow> uuid \<Rightarrow> i64 \<Rightarrow> string \<Rightarrow> unit ai_tx" where
  "mark_job_cancelled env tenant customer i released reason =
     update_job (job_db_error env)
       (\<lambda>j. job_tenant_id j = tenant \<and> job_customer_id j = customer \<and> job_id j = i)
       (\<lambda>j. j\<lparr>job_status := ''cancelled'', job_refunded_minor := job_refunded_minor j + released,
              job_failure_reason := Some (truncate_error reason), job_next_poll_at := None,
              job_completed_at := Some (ae_db_now env)\<rparr>)"


section \<open>The outcomes of a job\<close>

definition job_release_usage :: "ai_env \<Rightarrow> billing_reservation \<Rightarrow> string \<Rightarrow> unit ai_io" where
  "job_release_usage env r reason = release_usage env (job_db_error env) r 0 None None reason"

definition fail_job_and_release_usage ::
    "ai_env \<Rightarrow> generation_job \<Rightarrow> string \<Rightarrow> string option \<Rightarrow> json option \<Rightarrow> unit ai_io" where
  "fail_job_and_release_usage env job reason provider_status body =
     (let e = job_db_error env in
      commit (
        tx_bind (tx_of (ok_or (job_usage_id job) (Dependency ''ai generation usage id missing''))) (\<lambda>i.
        tx_bind (find_usage_for_update e i) (\<lambda>u.
        tx_bind (if usage_settled u then tx_return ()
                 else
                   release_tx env e (ufu_wallet_id u) i (ufu_held_minor u)
                     (provider_status_number provider_status) (job_provider_job_id job) body reason
                     (JObject [])) (\<lambda>_.
        update_job_failed env (job_id job) ''provider_failed'' provider_status reason body
          (ufu_held_minor u))))))"

definition fail_admin_job_and_release_usage :: "ai_env \<Rightarrow> generation_job \<Rightarrow> string \<Rightarrow> unit ai_io" where
  "fail_admin_job_and_release_usage env job reason =
     (let e = job_db_error env in
      io_bind (io_of (ok_or (job_usage_id job) (Dependency ''ai generation usage id missing''))) (\<lambda>i.
      commit (
        tx_bind (find_usage_for_update e i) (\<lambda>u.
        tx_bind (if usage_settled u then tx_return (job_refunded_minor job)
                 else
                   tx_bind (release_tx env e (ufu_wallet_id u) i (ufu_held_minor u)
                              (provider_status_number (job_provider_status job)) (job_provider_job_id job)
                              (job_provider_result_response job) reason
                              (JObject [(''source'', JString ''admin_job_action''),
                                 (''job_id'', uuid_json env (Some (job_id job)))])) (\<lambda>_.
                   tx_return (ufu_held_minor u))) (\<lambda>refunded.
        update_job_failed env (job_id job) ''failed'' (job_provider_status job) reason
          (job_provider_result_response job) refunded)))))"

definition find_job :: "(generation_job \<Rightarrow> bool) \<Rightarrow> ai_db \<Rightarrow> app_error + generation_job" where
  "find_job P db = ok_or (List.find P (ai_jobs db)) (NotFound ''ai generation job not found'')"

definition load_customer_job :: "uuid \<Rightarrow> uuid \<Rightarrow> uuid \<Rightarrow> ai_db \<Rightarrow> app_error + generation_job" where
  "load_customer_job tenant customer i =
     find_job (\<lambda>j. job_tenant_id j = tenant \<and> job_customer_id j = customer \<and> job_id j = i)"

definition load_admin_job :: "uuid \<Rightarrow> uuid \<Rightarrow> ai_db \<Rightarrow> app_error + generation_job" where
  "load_admin_job tenant i = find_job (\<lambda>j. job_tenant_id j = tenant \<and> job_id j = i)"

definition ensure_job_can_cancel :: "generation_job \<Rightarrow> app_error + unit" where
  "ensure_job_can_cancel j =
     (if job_status j \<in> {''pending'', ''submitted'', ''running'', ''provider_succeeded'', ''caching'',
           ''timeout_review''} then Inr ()
      else if job_status j = ''cancelled'' then Inl (Conflict ''ai generation job already cancelled'')
      else Inl (BusinessRuleFailed ''ai generation job cannot be cancelled in this status''))"

definition release_cancelled ::
    "ai_env \<Rightarrow> uuid \<Rightarrow> generation_job \<Rightarrow> uuid \<Rightarrow> usage_for_update \<Rightarrow> string \<Rightarrow> i64 ai_tx" where
  "release_cancelled env i job usage u reason =
     (if \<not> usage_settled u \<and> ufu_held_minor u > 0
      then
        tx_bind (release_tx env (job_db_error env) (ufu_wallet_id u) usage (ufu_held_minor u) 0
                   (job_provider_job_id job) None reason
                   (JObject [(''source'', JString ''web_job_cancel''),
                      (''job_id'', uuid_json env (Some i))])) (\<lambda>_.
        tx_return (ufu_held_minor u))
      else tx_return 0)"

definition cancel_server_job_and_release_usage ::
    "ai_env \<Rightarrow> uuid \<Rightarrow> uuid \<Rightarrow> uuid \<Rightarrow> string \<Rightarrow> unit ai_io" where
  "cancel_server_job_and_release_usage env tenant customer i reason =
     (let e = job_db_error env in
      commit (
        tx_bind (tx_read (load_customer_job tenant customer i)) (\<lambda>job.
        tx_bind (tx_of (ensure_job_can_cancel job)) (\<lambda>_.
        tx_bind (tx_of (ok_or (job_usage_id job) (Dependency ''ai generation usage id missing''))) (\<lambda>usage.
        tx_bind (find_usage_for_update e usage) (\<lambda>u.
        tx_bind (release_cancelled env i job usage u reason) (\<lambda>released.
        mark_job_cancelled env tenant customer i released reason)))))))"

definition refund_admin_job :: "ai_env \<Rightarrow> generation_job \<Rightarrow> string \<Rightarrow> unit ai_io" where
  "refund_admin_job env job reason =
     (let e = job_db_error env in
      io_bind (io_of (ok_or (job_usage_id job) (Dependency ''ai generation usage id missing''))) (\<lambda>i.
      commit (
        tx_bind (find_usage_for_update e i) (\<lambda>u.
        if ufu_status u \<noteq> ''succeeded''
          then tx_fail (BusinessRuleFailed ''only succeeded usage can be refunded'')
        else
          (let refund = saturating_sub_i64 (job_charged_minor job) (job_refunded_minor job) in
           if refund \<le> 0 then tx_fail (BusinessRuleFailed ''ai generation job already refunded'')
           else
             tx_bind (find_wallet_by_id_for_update e (ufu_wallet_id u)) (\<lambda>w.
             tx_bind (update_wallet_balance env e (wal_id w) refund) (\<lambda>updated.
             tx_bind (insert_wallet_ledger_entry env e (wal_tenant_id w) updated ''refund'' refund reason i
                        (JObject [(''source'', JString ''admin_job_action''),
                           (''job_id'', uuid_json env (Some (job_id job)))])) (\<lambda>_.
             tx_bind (update_usage_refunded env i refund reason) (\<lambda>_.
             update_job_refunded env (job_id job) refund reason)))))))))"


section \<open>Claiming\<close>

record worker_job =
  wj_job :: generation_job
  wj_app_id :: "uuid option"

definition pollable :: "time \<Rightarrow> generation_job \<Rightarrow> bool" where
  "pollable now j \<longleftrightarrow>
     (job_status j = ''submitted'' \<or> job_status j = ''running'' \<or> job_status j = ''caching'')
     \<and> (case job_next_poll_at j of None \<Rightarrow> True | Some t \<Rightarrow> t \<le> now)"

text \<open>\<open>order by next_poll_at asc nulls first, created_at asc\<close>.\<close>

definition poll_order :: "generation_job \<Rightarrow> nat \<times> time \<times> time" where
  "poll_order j =
     (case job_next_poll_at j of
        None \<Rightarrow> (0, 0, job_created_at j) | Some t \<Rightarrow> (1, t, job_created_at j))"

definition claimed_ids :: "time \<Rightarrow> generation_job list \<Rightarrow> uuid list" where
  "claimed_ids now js = map job_id (take 20 (sort_key poll_order (filter (pollable now) js)))"

definition claim_job :: "ai_env \<Rightarrow> generation_job \<Rightarrow> generation_job" where
  "claim_job env j =
     j\<lparr>job_status := (if job_status j = ''submitted'' \<or> job_status j = ''pending'' then ''running''
                      else job_status j),
       job_attempts := job_attempts j + 1, job_next_poll_at := Some (db_in env 60)\<rparr>"

text \<open>\<open>key_app\<close> is the application of a server key, a row of another table.\<close>

definition claim_pollable_generation_jobs ::
    "ai_env \<Rightarrow> (uuid \<Rightarrow> uuid option) \<Rightarrow> worker_job list ai_io" where
  "claim_pollable_generation_jobs env key_app =
     commit (\<lambda>db.
       (let ids = set (claimed_ids (ae_db_now env) (ai_jobs db)) in
        case update_returning job_check (job_db_error env) (\<lambda>j. job_id j \<in> ids) (claim_job env) (ai_jobs db) of
          Inl e \<Rightarrow> Inl e
        | Inr (_, js) \<Rightarrow>
            Inr (map (\<lambda>j. \<lparr>wj_job = j, wj_app_id = Option.bind (job_server_key_id j) key_app\<rparr>)
                   (filter (\<lambda>j. job_id j \<in> ids) js), db\<lparr>ai_jobs := js\<rparr>)))"

end
