(* ===== verification/Billing.thy ===== *)
theory Billing
  imports Wallets
begin

text \<open>
  What the wallets promise: the amount a wallet holds is the sum of what its open usage records
  reserved. The abstract account of a wallet is its balance and the multiset of its holds; each
  billing transaction of the gateway is one step of that account. Requests interleave: each
  reserves once and settles its own reservation once, in between anything can happen.
\<close>

section \<open>The abstract account\<close>

record account =
  acc_balance :: int
  acc_holds :: "(uuid \<times> int) multiset"

definition acc_held :: "account \<Rightarrow> int" where
  "acc_held a = (\<Sum>x \<in># acc_holds a. snd x)"

definition acc_available :: "account \<Rightarrow> int" where
  "acc_available a = acc_balance a - acc_held a"

definition account_ok :: "account \<Rightarrow> bool" where
  "account_ok a \<longleftrightarrow> (\<forall>x \<in># acc_holds a. 0 \<le> snd x) \<and> acc_held a \<le> acc_balance a"

definition acct_reserve :: "uuid \<Rightarrow> int \<Rightarrow> account \<Rightarrow> account" where
  "acct_reserve u h a = a\<lparr>acc_holds := add_mset (u, h) (acc_holds a)\<rparr>"

definition acct_capture :: "uuid \<Rightarrow> int \<Rightarrow> int \<Rightarrow> account \<Rightarrow> account" where
  "acct_capture u h charge a =
     a\<lparr>acc_balance := acc_balance a - min (max charge 0) (h + acc_available a),
       acc_holds := acc_holds a - {#(u, h)#}\<rparr>"

definition acct_release :: "uuid \<Rightarrow> int \<Rightarrow> account \<Rightarrow> account" where
  "acct_release u h a = a\<lparr>acc_holds := acc_holds a - {#(u, h)#}\<rparr>"

definition acct_adjust :: "int \<Rightarrow> account \<Rightarrow> account" where
  "acct_adjust d a = a\<lparr>acc_balance := acc_balance a + d\<rparr>"

text \<open>The steps of all accounts: what may be done, and what it does to one account.\<close>

inductive acct_step :: "(uuid \<Rightarrow> account) \<Rightarrow> (uuid \<Rightarrow> account) \<Rightarrow> bool" where
  acct_reserve: "0 \<le> h \<Longrightarrow> h \<le> acc_available (A i) \<Longrightarrow> acct_step A (A(i := acct_reserve u h (A i)))"
| acct_capture: "(u, h) \<in># acc_holds (A i) \<Longrightarrow> acct_step A (A(i := acct_capture u h c (A i)))"
| acct_release: "(u, h) \<in># acc_holds (A i) \<Longrightarrow> acct_step A (A(i := acct_release u h (A i)))"
| acct_adjust: "0 \<le> d + acc_available (A i) \<Longrightarrow> acct_step A (A(i := acct_adjust d (A i)))"

inductive_cases acct_stepE: "acct_step A A'"

lemma held_split: "x \<in># H \<Longrightarrow> (\<Sum>y \<in># H. snd y) = snd x + (\<Sum>y \<in># H - {#x#}. snd y)"
  by (metis image_mset_add_mset insert_DiffM sum_mset.add_mset)

lemma held_nonneg: "(\<And>y. y \<in># H \<Longrightarrow> 0 \<le> snd y) \<Longrightarrow> (0::int) \<le> (\<Sum>y \<in># H. snd y)"
  by (induction H) auto

lemma hold_le_held:
  assumes "account_ok a" and "(u, h) \<in># acc_holds a"
  shows "0 \<le> h \<and> h \<le> acc_held a"
proof -
  have "0 \<le> (\<Sum>y \<in># acc_holds a - {#(u, h)#}. snd y)"
    using assms(1) by (intro held_nonneg) (auto simp: account_ok_def dest: in_diffD)
  with held_split [OF assms(2)] assms show ?thesis by (auto simp: account_ok_def acc_held_def)
qed

lemma acct_step_ok: "acct_step A A' \<Longrightarrow> (\<And>i. account_ok (A i)) \<Longrightarrow> account_ok (A' j)"
proof (induction rule: acct_step.induct)
  case (acct_reserve h A i u)
  then show ?case by (auto simp: account_ok_def acc_held_def acc_available_def acct_reserve_def)
next
  case (acct_capture u h A i c)
  from acct_capture have i: "account_ok (A i)" by blast
  from hold_le_held [OF i acct_capture(1)] held_split [OF acct_capture(1)] i
  have "account_ok (acct_capture u h c (A i))"
    by (auto simp: account_ok_def acc_held_def acc_available_def acct_capture_def dest: in_diffD)
  with acct_capture(2) show ?case by simp
next
  case (acct_release u h A i)
  from acct_release have i: "account_ok (A i)" by blast
  from hold_le_held [OF i acct_release(1)] held_split [OF acct_release(1)] i
  have "account_ok (acct_release u h (A i))"
    by (auto simp: account_ok_def acc_held_def acct_release_def dest: in_diffD)
  with acct_release(2) show ?case by simp
next
  case (acct_adjust d A i)
  then show ?case by (auto simp: account_ok_def acc_held_def acc_available_def acct_adjust_def)
qed


section \<open>The accounts of a database\<close>

definition open_usage :: "usage_record \<Rightarrow> bool" where
  "open_usage u \<longleftrightarrow> usr_status u = ''pending'' \<or> usr_status u = ''running''"

definition wallet_holds :: "uuid \<Rightarrow> usage_record list \<Rightarrow> (uuid \<times> int) multiset" where
  "wallet_holds i us =
     image_mset (\<lambda>u. (usr_id u, usage_held u))
       (filter_mset (\<lambda>u. usr_wallet_id u = Some i \<and> open_usage u) (mset us))"

definition wallet_balance :: "uuid \<Rightarrow> wallet list \<Rightarrow> int" where
  "wallet_balance i ws = (case wallet_by_id i ws of None \<Rightarrow> 0 | Some w \<Rightarrow> wal_balance_minor w)"

definition abs_account :: "ai_db \<Rightarrow> uuid \<Rightarrow> account" where
  "abs_account db i =
     \<lparr>acc_balance = wallet_balance i (ai_wallets db), acc_holds = wallet_holds i (ai_usages db)\<rparr>"

definition billing_inv :: "ai_db \<Rightarrow> bool" where
  "billing_inv db \<longleftrightarrow>
     distinct (map wal_id (ai_wallets db)) \<and> distinct (map usr_id (ai_usages db))
     \<and> list_all wallet_check (ai_wallets db) \<and> list_all usage_check (ai_usages db)
     \<and> list_all (\<lambda>w. wal_held_minor w = acc_held (abs_account db (wal_id w))) (ai_wallets db)
     \<and> list_all (\<lambda>u. open_usage u \<longrightarrow> 0 \<le> usage_held u \<and> usr_wallet_id u \<in> Some ` wal_id ` set (ai_wallets db))
         (ai_usages db)"

text \<open>A reservation is good for settling: its usage record is open and says the same.\<close>

definition reserved :: "ai_db \<Rightarrow> billing_reservation \<Rightarrow> bool" where
  "reserved db r \<longleftrightarrow> (br_usage_id r, br_held_minor r) \<in># wallet_holds (br_wallet_id r) (ai_usages db)"

lemma wallet_holds_in:
  "(k, h) \<in># wallet_holds i us \<longleftrightarrow>
     (\<exists>u \<in> set us. usr_id u = k \<and> usage_held u = h \<and> usr_wallet_id u = Some i \<and> open_usage u)"
  by (auto simp: wallet_holds_def)

lemma reserved_usage:
  assumes "distinct (map usr_id (ai_usages db))" and "reserved db r"
  obtains u where "usage_by_id (br_usage_id r) (ai_usages db) = Some u" "usage_held u = br_held_minor r"
    "usr_wallet_id u = Some (br_wallet_id r)" "open_usage u"
  using assms(2) ut.get_of_in [OF assms(1)] that unfolding reserved_def wallet_holds_in by fastforce

lemma close_usage_holds:
  assumes "distinct (map usr_id us)" and "usage_by_id k us = Some u" and "open_usage u"
    and "usr_wallet_id u = Some j" and "\<not> open_usage (f u)"
  shows "wallet_holds i (set_usage k f us) =
     (if i = j then wallet_holds i us - {#(k, usage_held u)#} else wallet_holds i us)"
proof -
  from ut.get_in [OF assms(2)] have u: "u \<in># mset us" "usr_id u = k" by auto
  have "filter_mset (\<lambda>u. usr_wallet_id u = Some i \<and> open_usage u) (mset (set_usage k f us))
      = filter_mset (\<lambda>u. usr_wallet_id u = Some i \<and> open_usage u) (mset us) - (if i = j then {#u#} else {#})"
    unfolding ut.mset_upd [OF assms(1,2)] using assms(3-5) by simp
  moreover have "{#u#} \<subseteq># filter_mset (\<lambda>u. usr_wallet_id u = Some j \<and> open_usage u) (mset us)"
    using u assms(3,4) by simp
  ultimately show ?thesis using u(2) by (simp add: wallet_holds_def image_mset_Diff)
qed

lemma other_usage_holds:
  assumes "distinct (map usr_id us)" and "usage_by_id k us = Some u"
    and "\<not> open_usage u" and "\<not> open_usage (f u)"
  shows "wallet_holds i (set_usage k f us) = wallet_holds i us"
proof -
  from ut.get_in [OF assms(2)] have u: "u \<in># mset us" by auto
  have "filter_mset (\<lambda>u. usr_wallet_id u = Some i \<and> open_usage u) (mset (set_usage k f us))
      = filter_mset (\<lambda>u. usr_wallet_id u = Some i \<and> open_usage u) (mset us)"
    unfolding ut.mset_upd [OF assms(1,2)] using assms(3,4) by simp
  then show ?thesis by (simp add: wallet_holds_def)
qed

lemma no_wallet_no_holds:
  assumes "billing_inv db" and "i \<notin> wal_id ` set (ai_wallets db)"
  shows "wallet_holds i (ai_usages db) = {#}"
proof (rule ccontr)
  assume "wallet_holds i (ai_usages db) \<noteq> {#}"
  then obtain k h where "(k, h) \<in># wallet_holds i (ai_usages db)" by (metis multiset_nonemptyE surj_pair)
  then obtain u where "u \<in> set (ai_usages db)" "open_usage u" "usr_wallet_id u = Some i"
    unfolding wallet_holds_in by blast
  then have "Some i \<in> Some ` wal_id ` set (ai_wallets db)"
    using assms(1) unfolding billing_inv_def list_all_iff by metis
  with assms(2) show False by blast
qed

lemma account_of_wallet:
  assumes "billing_inv db" and "wallet_by_id i (ai_wallets db) = Some w"
  shows "wallet_check w" and "wal_held_minor w = acc_held (abs_account db i)"
    and "acc_balance (abs_account db i) = wal_balance_minor w" and "account_ok (abs_account db i)"
proof -
  from wt.get_in [OF assms(2)] have w: "w \<in> set (ai_wallets db)" "wal_id w = i" by auto
  with assms(1) show c: "wallet_check w" "wal_held_minor w = acc_held (abs_account db i)"
    by (auto simp: billing_inv_def list_all_iff)
  show b: "acc_balance (abs_account db i) = wal_balance_minor w"
    using assms(2) by (simp add: abs_account_def wallet_balance_def)
  have "\<forall>x \<in># acc_holds (abs_account db i). 0 \<le> snd x"
    using assms(1) by (auto simp: abs_account_def wallet_holds_in billing_inv_def list_all_iff)
  with b c show "account_ok (abs_account db i)" by (simp add: account_ok_def wallet_check_def)
qed

lemma reserved_wallet:
  assumes "billing_inv db" and "reserved db r"
  obtains w where "wallet_by_id (br_wallet_id r) (ai_wallets db) = Some w"
    "0 \<le> br_held_minor r" "br_held_minor r \<le> wal_held_minor w"
proof -
  from assms have d: "distinct (map usr_id (ai_usages db))" by (simp add: billing_inv_def)
  from reserved_usage [OF d assms(2)] obtain u where
    u: "usage_by_id (br_usage_id r) (ai_usages db) = Some u" "usr_wallet_id u = Some (br_wallet_id r)" "open_usage u"
    by blast
  then have "u \<in> set (ai_usages db)" using ut.get_in by blast
  with assms(1) u have "Some (br_wallet_id r) \<in> Some ` wal_id ` set (ai_wallets db)"
    unfolding billing_inv_def list_all_iff by metis
  then have "br_wallet_id r \<in> wal_id ` set (ai_wallets db)" by blast
  then obtain w where w: "wallet_by_id (br_wallet_id r) (ai_wallets db) = Some w"
    using wt.get_None [of "br_wallet_id r" "ai_wallets db"] by (cases "wallet_by_id (br_wallet_id r) (ai_wallets db)") auto
  have "(br_usage_id r, br_held_minor r) \<in># acc_holds (abs_account db (br_wallet_id r))"
    using assms(2) by (simp add: reserved_def abs_account_def)
  from hold_le_held [OF account_of_wallet(4) [OF assms(1) w] this] account_of_wallet(2) [OF assms(1) w] w
  show ?thesis using that by simp
qed


section \<open>Settling a reservation\<close>

text \<open>
  The database after a settlement that takes \<open>c\<close> out of the wallet and closes the usage record;
  \<open>f\<close> is the update of the wallet.
\<close>

definition takes :: "int \<Rightarrow> int \<Rightarrow> (wallet \<Rightarrow> wallet) \<Rightarrow> bool" where
  "takes c h f \<longleftrightarrow>
     (\<forall>w. wal_id (f w) = wal_id w \<and> wal_balance_minor (f w) = wal_balance_minor w - c
        \<and> wal_held_minor (f w) = wal_held_minor w - h \<and> wal_currency (f w) = wal_currency w
        \<and> wal_daily_spend_limit_minor (f w) = wal_daily_spend_limit_minor w)"

definition settled :: "ai_db \<Rightarrow> billing_reservation \<Rightarrow> (wallet \<Rightarrow> wallet) \<Rightarrow> (usage_record \<Rightarrow> usage_record)
    \<Rightarrow> ledger_entry list \<Rightarrow> ai_db" where
  "settled db r f g l = db\<lparr>
     ai_wallets := set_wallet (br_wallet_id r) f (ai_wallets db),
     ai_ledger := ai_ledger db @ l,
     ai_usages := set_usage (br_usage_id r) g (ai_usages db)\<rparr>"

definition closes :: "(usage_record \<Rightarrow> usage_record) \<Rightarrow> bool" where
  "closes g \<longleftrightarrow> (\<forall>u. usr_id (g u) = usr_id u \<and> \<not> open_usage (g u))"

lemma settled_account:
  assumes "billing_inv db" and "reserved db r" and "closes g" and "takes c (br_held_minor r) f"
  shows "abs_account (settled db r f g l) = (abs_account db)(br_wallet_id r :=
     \<lparr>acc_balance = acc_balance (abs_account db (br_wallet_id r)) - c,
      acc_holds = acc_holds (abs_account db (br_wallet_id r)) - {#(br_usage_id r, br_held_minor r)#}\<rparr>)"
proof
  fix i
  from assms(1) have d: "distinct (map usr_id (ai_usages db))" by (simp add: billing_inv_def)
  from reserved_usage [OF d assms(2)] obtain u where u: "usage_by_id (br_usage_id r) (ai_usages db) = Some u"
    "usage_held u = br_held_minor r" "usr_wallet_id u = Some (br_wallet_id r)" "open_usage u" by blast
  obtain w where w: "wallet_by_id (br_wallet_id r) (ai_wallets db) = Some w"
    using reserved_wallet [OF assms(1,2)] by blast
  have "wallet_balance i (set_wallet (br_wallet_id r) f (ai_wallets db))
      = wallet_balance i (ai_wallets db) - (if i = br_wallet_id r then c else 0)"
    using w assms(4) by (simp add: wallet_balance_def wt.get_upd takes_def)
  moreover have "wallet_holds i (set_usage (br_usage_id r) g (ai_usages db))
      = (if i = br_wallet_id r then wallet_holds i (ai_usages db) - {#(br_usage_id r, br_held_minor r)#}
         else wallet_holds i (ai_usages db))"
    using close_usage_holds [OF d u(1,4,3)] u(2) assms(3) by (simp add: closes_def)
  ultimately show "abs_account (settled db r f g l) i = ((abs_account db)(br_wallet_id r :=
     \<lparr>acc_balance = acc_balance (abs_account db (br_wallet_id r)) - c,
      acc_holds = acc_holds (abs_account db (br_wallet_id r)) - {#(br_usage_id r, br_held_minor r)#}\<rparr>)) i"
    by (simp add: settled_def abs_account_def)
qed

lemma settled_inv:
  assumes "billing_inv db" and "reserved db r" and "closes g" and "takes c (br_held_minor r) f"
    and "0 \<le> c" and "c \<le> br_held_minor r + acc_available (abs_account db (br_wallet_id r))"
    and "\<And>u. usage_by_id (br_usage_id r) (ai_usages db) = Some u \<Longrightarrow> usage_check (g u)"
  shows "billing_inv (settled db r f g l)"
proof -
  let ?i = "br_wallet_id r" and ?db = "settled db r f g l"
  from assms(1) have inv: "distinct (map wal_id (ai_wallets db))" "distinct (map usr_id (ai_usages db))"
    "list_all wallet_check (ai_wallets db)" "list_all usage_check (ai_usages db)"
    by (simp_all add: billing_inv_def)
  obtain w where w: "wallet_by_id ?i (ai_wallets db) = Some w" "0 \<le> br_held_minor r"
    "br_held_minor r \<le> wal_held_minor w" using reserved_wallet [OF assms(1,2)] by blast
  note acc = account_of_wallet [OF assms(1) w(1)]
  have ws: "ai_wallets ?db = set_wallet ?i f (ai_wallets db)" "ai_usages ?db = set_usage (br_usage_id r) g (ai_usages db)"
    by (simp_all add: settled_def)
  have "wallet_check (f w)"
    using acc w assms(4-6) by (auto simp: wallet_check_def acc_available_def in_i64_def takes_def split: option.splits)
  then have checks: "list_all wallet_check (ai_wallets ?db)"
    unfolding ws by (rule wt.list_all_upd [OF inv(1) w(1) inv(3)])
  have usages: "list_all usage_check (ai_usages ?db)"
    unfolding ws using ut.list_all_upd [OF inv(2) _ inv(4)] reserved_usage [OF inv(2) assms(2)] assms(7) by metis
  have m: "(br_usage_id r, br_held_minor r) \<in># acc_holds (abs_account db ?i)"
    using assms(2) by (simp add: reserved_def abs_account_def)
  have held: "acc_held (abs_account ?db i) = acc_held (abs_account db i) - (if i = ?i then br_held_minor r else 0)" for i
    using held_split [OF m] by (simp add: settled_account [OF assms(1-4)] acc_held_def)
  have "list_all (\<lambda>w. wal_held_minor w = acc_held (abs_account ?db (wal_id w))) (ai_wallets ?db)"
    using assms(1,4) by (auto simp: ws set_wallet_def set_update_where held billing_inv_def list_all_iff takes_def)
  moreover have "list_all (\<lambda>u. open_usage u \<longrightarrow> 0 \<le> usage_held u
      \<and> usr_wallet_id u \<in> Some ` wal_id ` set (ai_wallets ?db)) (ai_usages ?db)"
  proof -
    have "wal_id ` set (ai_wallets ?db) = wal_id ` set (ai_wallets db)"
      unfolding ws using assms(4) by (intro wt.key_set_upd) (simp add: takes_def)
    then show ?thesis
      using assms(1,3) by (auto simp: ws set_usage_def set_update_where billing_inv_def list_all_iff closes_def)
  qed
  moreover have "distinct (map wal_id (ai_wallets ?db))" "distinct (map usr_id (ai_usages ?db))"
    using inv(1,2) assms(3,4) by (simp_all add: ws wt.keys_upd ut.keys_upd closes_def takes_def)
  ultimately show ?thesis using checks usages by (simp add: billing_inv_def)
qed

lemma settled_others:
  assumes "billing_inv db" and "reserved db r" and "closes g" and "takes c (br_held_minor r) f"
    and "reserved db r'"
    and "br_usage_id r' \<noteq> br_usage_id r"
  shows "reserved (settled db r f g l) r'"
proof -
  have "wallet_holds i (ai_usages x) = acc_holds (abs_account x i)" for x i by (simp add: abs_account_def)
  then show ?thesis using assms(5,6)
    by (auto simp: reserved_def settled_account [OF assms(1-4)] in_diff_count)
qed


section \<open>The gateway's transactions\<close>

lemma settle_entry:
  assumes "wallet_check w" and "in_i64 c" and "in_i64 h" and "is_object md" and "is_object md'"
  shows "\<exists>l. (if c > 0 then insert_wallet_ledger_entry env e t w ''capture'' (i64_neg c) reason u md
      else if h > 0 then insert_wallet_ledger_entry env e t w ''release'' (i64_neg h) reason' u md'
      else tx_return ()) db = Inr ((), db\<lparr>ai_ledger := ai_ledger db @ l\<rparr>)"
proof -
  have "\<exists>l. insert_wallet_ledger_entry env e t w ''capture'' (i64_neg c) reason u md db
      = Inr ((), db\<lparr>ai_ledger := ai_ledger db @ l\<rparr>)" if "c > 0"
    using ledger_entry_of_wallet [OF assms(1), of "i64_neg c" md "''capture''"] that assms(2,4)
    by (simp add: i64_neg_amount) blast
  moreover have "\<exists>l. insert_wallet_ledger_entry env e t w ''release'' (i64_neg h) reason' u md' db
      = Inr ((), db\<lparr>ai_ledger := ai_ledger db @ l\<rparr>)" if "h > 0"
    using ledger_entry_of_wallet [OF assms(1), of "i64_neg h" md' "''release''"] that assms(3,5)
    by (simp add: i64_neg_amount) blast
  moreover have "tx_return () db = Inr ((), db\<lparr>ai_ledger := ai_ledger db @ []\<rparr>)" by (simp add: tx_return_def)
  ultimately show ?thesis by (cases "c > 0"; cases "h > 0"; simp only: if_True if_False; blast)
qed

text \<open>
  A capture whose last statement is the update \<open>g\<close> of the usage record. It runs whenever the wallet
  has the hold, whatever the status of the record.
\<close>

lemma capture_tx_runs:
  assumes "billing_inv db" and w: "wallet_by_id (br_wallet_id r) (ai_wallets db) = Some w" "0 \<le> br_held_minor r"
      "br_held_minor r \<le> wal_held_minor w"
    and u: "usage_by_id (br_usage_id r) (ai_usages db) = Some u"
    and close: "\<And>s. close s = update_usage e (br_usage_id r) (g s)"
    and g: "\<And>s u. 0 \<le> cs_captured_minor s \<Longrightarrow> usage_check u \<Longrightarrow> usage_check (g s u)"
    and md: "\<And>s. is_object (snd captured s)" "is_object (snd free)"
  shows "\<exists>f s l. capture_tx env e (br_wallet_id r) (br_usage_id r) (br_held_minor r) charge captured free close db
       = Inr ((), settled db r f (g s) l)
     \<and> (\<forall>u. usage_check u \<longrightarrow> usage_check (g s u))
     \<and> takes (min (max charge 0) (br_held_minor r + acc_available (abs_account db (br_wallet_id r))))
          (br_held_minor r) f"
proof -
  from assms(1) have d: "distinct (map wal_id (ai_wallets db))" "distinct (map usr_id (ai_usages db))"
    and uc: "list_all usage_check (ai_usages db)" by (simp_all add: billing_inv_def)
  note acc = account_of_wallet [OF assms(1) w(1)]
  let ?s = "settle_charge charge (br_held_minor r) (wal_balance_minor w) (wal_held_minor w)"
  let ?c = "cs_captured_minor ?s"
  have c: "?c = min (max charge 0) (br_held_minor r + acc_available (abs_account db (br_wallet_id r)))"
    using settled_amount [OF acc(1) w(2,3)] acc by (simp add: acc_available_def)
  let ?f = "touched env (\<lambda>w. w\<lparr>wal_balance_minor := wal_balance_minor w - ?c,
      wal_held_minor := wal_held_minor w - br_held_minor r\<rparr>)"
  have c_range: "0 \<le> ?c" "?c \<le> br_held_minor r + (wal_balance_minor w - wal_held_minor w)"
    using c acc w by (auto simp: acc_available_def wallet_check_def)
  have fw: "wallet_check (?f w)" unfolding touched_simps(6)
    using acc(1) w c_range by (auto simp: wallet_check_def in_i64_def split: option.splits)
  let ?db1 = "db\<lparr>ai_wallets := set_wallet (br_wallet_id r) ?f (ai_wallets db)\<rparr>"
  have "in_i64 ?c" "in_i64 (br_held_minor r)"
    using c_range w acc(1) by (auto simp: wallet_check_def in_i64_def)
  from settle_entry [OF fw this md(1) md(2), of env e "wal_tenant_id w" "fst captured" "br_usage_id r" ?s "fst free" ?db1]
  obtain l where l: "(if ?c > 0
      then insert_wallet_ledger_entry env e (wal_tenant_id w) (?f w) ''capture'' (i64_neg ?c) (fst captured)
        (br_usage_id r) (snd captured ?s)
      else if br_held_minor r > 0
      then insert_wallet_ledger_entry env e (wal_tenant_id w) (?f w) ''release'' (i64_neg (br_held_minor r))
        (fst free) (br_usage_id r) (snd free)
      else tx_return ()) ?db1 = Inr ((), ?db1\<lparr>ai_ledger := ai_ledger db @ l\<rparr>)" by auto
  have "usage_check (g ?s u)" using g c_range(1) uc ut.get_in [OF u] by (auto simp: list_all_iff)
  then have up: "close ?s (?db1\<lparr>ai_ledger := ai_ledger db @ l\<rparr>) = Inr ((), settled db r ?f (g ?s) l)"
    unfolding close by (subst update_usage_one [where u = u]) (use d(2) u in \<open>simp_all add: settled_def\<close>)
  have wid: "wal_id w = br_wallet_id r" using wt.get_in [OF w(1)] by blast
  have cap: "update_wallet_capture env e (wal_id w) (br_held_minor r) ?c db = Inr (?f w, ?db1)"
    unfolding wid update_wallet_capture_one [OF d(1) w(1)] Let_def using fw by (rule if_P)
  have find: "find_wallet_by_id_for_update e (br_wallet_id r) db = Inr (w, db)"
    using w(1) by (simp add: find_wallet_by_id_for_update_def tx_read_def ok_or_def)
  have "capture_tx env e (br_wallet_id r) (br_usage_id r) (br_held_minor r) charge captured free close db
      = Inr ((), settled db r ?f (g ?s) l)"
    unfolding capture_tx_def Let_def
    by (rule tx_bindI, rule find, rule tx_bindI, rule cap, rule tx_bindI, rule l, rule up)
  moreover have "takes ?c (br_held_minor r) ?f" by (simp add: takes_def touched_def)
  ultimately show ?thesis using g c_range(1) unfolding c [symmetric] by (intro exI conjI allI impI)
qed

lemma capture_tx_settles:
  assumes "billing_inv db" and "reserved db r"
    and close: "\<And>s. close s = update_usage e (br_usage_id r) (g s)"
    and g: "\<And>s u. 0 \<le> cs_captured_minor s \<Longrightarrow> usage_check u \<Longrightarrow> usage_check (g s u)"
    and cl: "\<And>s. closes (g s)"
    and md: "\<And>s. is_object (snd captured s)" "is_object (snd free)"
  shows "\<exists>f s l. capture_tx env e (br_wallet_id r) (br_usage_id r) (br_held_minor r) charge captured free close db
       = Inr ((), settled db r f (g s) l)
     \<and> closes (g s) \<and> (\<forall>u. usage_check u \<longrightarrow> usage_check (g s u))
     \<and> takes (min (max charge 0) (br_held_minor r + acc_available (abs_account db (br_wallet_id r))))
          (br_held_minor r) f"
proof -
  from assms(1) have d: "distinct (map usr_id (ai_usages db))" by (simp add: billing_inv_def)
  obtain w where w: "wallet_by_id (br_wallet_id r) (ai_wallets db) = Some w" "0 \<le> br_held_minor r"
    "br_held_minor r \<le> wal_held_minor w" using reserved_wallet [OF assms(1,2)] by blast
  obtain u where u: "usage_by_id (br_usage_id r) (ai_usages db) = Some u"
    using reserved_usage [OF d assms(2)] by blast
  from capture_tx_runs [where env = env and charge = charge and close = close and g = g and e = e
      and captured = captured and free = free, OF assms(1) w u close g md] cl
  show ?thesis by blast
qed

lemma capture_settles:
  assumes "billing_inv db" and "reserved db r"
  shows "\<exists>f g l. capture_usage env r m st rid us charge body db = (Inr (), settled db r f g l)
     \<and> closes g \<and> (\<forall>u. usage_check u \<longrightarrow> usage_check (g u))
     \<and> takes (min (max charge 0) (br_held_minor r + acc_available (abs_account db (br_wallet_id r))))
          (br_held_minor r) f"
proof -
  let ?g = "\<lambda>s u. u\<lparr>usr_status := ''succeeded'', usr_provider_status := Some (show_i64 st),
     usr_provider_request_id := rid, usr_prompt_tokens := tu_prompt_tokens us,
     usr_completion_tokens := tu_completion_tokens us, usr_total_tokens := tu_total_tokens us,
     usr_charged_minor := cs_captured_minor s,
     usr_metadata_json := jsonb_concat (usr_metadata_json u) (settlement_metadata s),
     usr_provider_raw_response := Some body, usr_completed_at := Some (ae_db_now env)\<rparr>"
  show ?thesis unfolding capture_usage_def commit_Inr
    using capture_tx_settles [OF assms, where g = ?g and e = "gateway_db_error env"
        and close = "\<lambda>s. update_usage_succeeded env (br_usage_id r) st rid us (cs_captured_minor s)
          (settlement_metadata s) body" and env = env and charge = charge
        and captured = "(reason_capture, \<lambda>s. JObject ([(''model'', JString (gm_code m)),
          (''held_minor'', num (br_held_minor r))] @ settlement_fields s))"
        and free = "(reason_free, JObject [(''model'', JString (gm_code m))])"]
    by (fastforce simp: update_usage_succeeded_def usage_check_def is_object_concat closes_def open_usage_def)
qed

lemma set_wallet_id: "set_wallet i (\<lambda>w. w) ws = ws"
  by (simp add: set_wallet_def update_where_def)

lemma release_reservation_effect:
  assumes "distinct (map wal_id (ai_wallets db))" and w: "wallet_by_id i (ai_wallets db) = Some w"
    and "wallet_check w" and "0 \<le> held" and "held \<le> wal_held_minor w" and "is_object md"
  shows "\<exists>f l. release_reservation env e i held usage reason md db
     = Inr ((), db\<lparr>ai_wallets := set_wallet i f (ai_wallets db), ai_ledger := ai_ledger db @ l\<rparr>)
     \<and> takes 0 held f"
proof (cases "held > 0")
  case False
  then have "release_reservation env e i held usage reason md db
      = Inr ((), db\<lparr>ai_wallets := set_wallet i (\<lambda>w. w) (ai_wallets db), ai_ledger := ai_ledger db @ []\<rparr>)"
    using w by (simp add: release_reservation_def find_wallet_by_id_for_update_def tx_bind_def tx_read_def
        ok_or_def tx_return_def set_wallet_id)
  moreover have "takes 0 held (\<lambda>w. w)" using False assms(4) by (simp add: takes_def)
  ultimately show ?thesis by blast
next
  case True
  let ?f = "touched env (\<lambda>w. w\<lparr>wal_held_minor := wal_held_minor w + i64_neg held\<rparr>)"
  let ?db1 = "db\<lparr>ai_wallets := set_wallet i ?f (ai_wallets db)\<rparr>"
  have wid: "wal_id w = i" using wt.get_in [OF w] by blast
  have neg: "i64_neg held = - held"
    using True assms(3,5) by (intro i64_neg_amount) (auto simp: wallet_check_def in_i64_def)
  have fw: "wallet_check (?f w)" unfolding touched_simps(6) neg
    using assms(3-5) by (auto simp: wallet_check_def split: option.splits)
  have hold: "update_wallet_hold env e (wal_tenant_id w) (wal_id w) (i64_neg held) db = Inr (?f w, ?db1)"
    unfolding wid update_wallet_hold_one [OF assms(1) w refl] Let_def using fw by (rule if_P)
  have "i64_neg held \<noteq> 0" using True neg by simp
  from ledger_entry_of_wallet [OF fw this assms(6), of "''release''" env e "wal_tenant_id w" reason usage ?db1]
  obtain row where "insert_wallet_ledger_entry env e (wal_tenant_id w) (?f w) ''release'' (i64_neg held) reason
      usage md ?db1 = Inr ((), ?db1\<lparr>ai_ledger := ai_ledger ?db1 @ [row]\<rparr>)" by blast
  moreover have "find_wallet_by_id_for_update e i db = Inr (w, db)"
    using w by (simp add: find_wallet_by_id_for_update_def tx_read_def ok_or_def)
  ultimately have "release_reservation env e i held usage reason md db
      = Inr ((), db\<lparr>ai_wallets := set_wallet i ?f (ai_wallets db), ai_ledger := ai_ledger db @ [row]\<rparr>)"
    unfolding release_reservation_def using hold True by (simp add: tx_bind_def)
  moreover have "takes 0 held ?f" using neg by (simp add: takes_def touched_def)
  ultimately show ?thesis by blast
qed

text \<open>The usage record of a released reservation.\<close>

definition failed_usage :: "ai_env \<Rightarrow> int \<Rightarrow> string option \<Rightarrow> i64 \<Rightarrow> json option \<Rightarrow> usage_record \<Rightarrow> usage_record"
  where
  "failed_usage env st rid refunded body u =
     u\<lparr>usr_status := ''failed'', usr_provider_status := Some (show_i64 st), usr_provider_request_id := rid,
       usr_refunded_minor := refunded, usr_provider_raw_response := body,
       usr_completed_at := Some (ae_db_now env)\<rparr>"

lemma release_tx_settles:
  assumes "billing_inv db" and "reserved db r" and "is_object md"
  shows "\<exists>f l. release_tx env e (br_wallet_id r) (br_usage_id r) (br_held_minor r) st rid body reason md db
       = Inr ((), settled db r f (failed_usage env st rid (br_held_minor r) body) l)
     \<and> (\<forall>u. usage_check u \<longrightarrow> usage_check (failed_usage env st rid (br_held_minor r) body u))
     \<and> takes 0 (br_held_minor r) f"
proof -
  from assms(1) have d: "distinct (map wal_id (ai_wallets db))" "distinct (map usr_id (ai_usages db))"
    and uc: "list_all usage_check (ai_usages db)" by (simp_all add: billing_inv_def)
  obtain w where w: "wallet_by_id (br_wallet_id r) (ai_wallets db) = Some w" "0 \<le> br_held_minor r"
    "br_held_minor r \<le> wal_held_minor w" using reserved_wallet [OF assms(1,2)] by blast
  obtain u where u: "usage_by_id (br_usage_id r) (ai_usages db) = Some u"
    using reserved_usage [OF d(2) assms(2)] by blast
  note check = account_of_wallet(1) [OF assms(1) w(1)]
  obtain f l where rel: "release_reservation env e (br_wallet_id r) (br_held_minor r) (br_usage_id r) reason
      md db = Inr ((), db\<lparr>ai_wallets := set_wallet (br_wallet_id r) f (ai_wallets db),
        ai_ledger := ai_ledger db @ l\<rparr>)" (is "_ = Inr ((), ?db1)") and f: "takes 0 (br_held_minor r) f"
    using release_reservation_effect [OF d(1) w(1) check w(2,3) assms(3), of env e "br_usage_id r" reason]
    by blast
  let ?g = "failed_usage env st rid (br_held_minor r) body"
  have g: "usage_check (?g u)" if "usage_check u" for u
    using that w check by (auto simp: failed_usage_def usage_check_def wallet_check_def in_i64_def)
  have "usage_check (?g u)" using g uc ut.get_in [OF u] by (auto simp: list_all_iff)
  then have upd: "update_usage_failed env e (br_usage_id r) st rid (br_held_minor r) body ?db1
      = Inr ((), settled db r f ?g l)"
    unfolding update_usage_failed_def failed_usage_def [abs_def]
    by (subst update_usage_one [where u = u]) (use d(2) u in \<open>simp_all add: settled_def\<close>)
  have "release_tx env e (br_wallet_id r) (br_usage_id r) (br_held_minor r) st rid body reason md db
      = Inr ((), settled db r f ?g l)"
    unfolding release_tx_def by (rule tx_bindI, rule rel, rule upd)
  then show ?thesis using g f by blast
qed

lemma release_settles_as:
  assumes "billing_inv db" and "reserved db r"
  shows "\<exists>f l. release_usage env e r st rid body reason db
       = (Inr (), settled db r f (failed_usage env st rid (br_held_minor r) body) l)
     \<and> (\<forall>u. usage_check u \<longrightarrow> usage_check (failed_usage env st rid (br_held_minor r) body u))
     \<and> takes 0 (br_held_minor r) f"
  unfolding release_usage_def commit_Inr by (rule release_tx_settles [OF assms]) simp

lemma release_settles:
  assumes "billing_inv db" and "reserved db r"
  shows "\<exists>f g l. release_usage env e r st rid body reason db = (Inr (), settled db r f g l)
     \<and> closes g \<and> (\<forall>u. usage_check u \<longrightarrow> usage_check (g u)) \<and> takes 0 (br_held_minor r) f"
proof -
  have "closes (failed_usage env st rid (br_held_minor r) body)"
    by (simp add: closes_def open_usage_def failed_usage_def)
  with release_settles_as [OF assms, of env e st rid body reason] show ?thesis by blast
qed


text \<open>The database after a reservation.\<close>

definition added :: "ai_db \<Rightarrow> (wallet \<Rightarrow> wallet) \<Rightarrow> usage_record \<Rightarrow> ledger_entry list \<Rightarrow> ai_db" where
  "added db f row l = db\<lparr>
     ai_wallets := set_wallet (the (usr_wallet_id row)) f (ai_wallets db),
     ai_ledger := ai_ledger db @ l, ai_usages := ai_usages db @ [row]\<rparr>"

lemma added_account:
  assumes "wallet_by_id i (ai_wallets db) = Some w" and "usr_wallet_id row = Some i" and "open_usage row"
    and "takes 0 (- usage_held row) f"
  shows "abs_account (added db f row l)
    = (abs_account db)(i := acct_reserve (usr_id row) (usage_held row) (abs_account db i))"
proof
  fix j
  have "wallet_balance j (set_wallet i f (ai_wallets db)) = wallet_balance j (ai_wallets db)"
    using assms(1,4) by (simp add: wallet_balance_def wt.get_upd takes_def)
  then show "abs_account (added db f row l) j
      = ((abs_account db)(i := acct_reserve (usr_id row) (usage_held row) (abs_account db i))) j"
    using assms(2,3) by (simp add: abs_account_def added_def acct_reserve_def wallet_holds_def)
qed

lemma added_inv:
  assumes "billing_inv db" and "wallet_by_id i (ai_wallets db) = Some w" and "usr_wallet_id row = Some i"
    and "open_usage row" and "takes 0 (- usage_held row) f" and "0 \<le> usage_held row"
    and "usage_held row \<le> acc_available (abs_account db i)"
    and "usage_check row" and "usr_id row \<notin> usr_id ` set (ai_usages db)"
  shows "billing_inv (added db f row l)"
proof -
  let ?db = "added db f row l"
  from assms(1) have inv: "distinct (map wal_id (ai_wallets db))" "distinct (map usr_id (ai_usages db))"
    "list_all wallet_check (ai_wallets db)" "list_all usage_check (ai_usages db)"
    by (simp_all add: billing_inv_def)
  have ws: "ai_wallets ?db = set_wallet i f (ai_wallets db)" "ai_usages ?db = ai_usages db @ [row]"
    using assms(3) by (simp_all add: added_def)
  have "wallet_check (f w)"
    using account_of_wallet [OF assms(1,2)] assms(5-7)
    by (auto simp: wallet_check_def acc_available_def takes_def split: option.splits)
  then have checks: "list_all wallet_check (ai_wallets ?db)"
    unfolding ws by (rule wt.list_all_upd [OF inv(1) assms(2) inv(3)])
  have held: "acc_held (abs_account ?db j) = acc_held (abs_account db j) + (if j = i then usage_held row else 0)" for j
    by (simp add: added_account [OF assms(2-5)] acc_held_def acct_reserve_def)
  have "list_all (\<lambda>w. wal_held_minor w = acc_held (abs_account ?db (wal_id w))) (ai_wallets ?db)"
    using assms(1,5) by (auto simp: ws set_wallet_def set_update_where held billing_inv_def list_all_iff takes_def)
  moreover have "wal_id ` set (ai_wallets ?db) = wal_id ` set (ai_wallets db)"
    unfolding ws using assms(5) by (intro wt.key_set_upd) (simp add: takes_def)
  moreover have "i \<in> wal_id ` set (ai_wallets db)" using wt.get_in [OF assms(2)] by auto
  moreover have "distinct (map wal_id (ai_wallets ?db))" "distinct (map usr_id (ai_usages ?db))"
    using inv(1,2) assms(5,9) by (simp_all add: ws wt.keys_upd takes_def)
  ultimately show ?thesis using checks inv(4) assms(1,3,6,8)
    by (simp add: billing_inv_def ws)
qed

lemma ensure_wallet_effect:
  assumes "billing_inv db" and "ensure_wallet_exists env e t c db = Inr (x, db1)"
  shows "billing_inv db1" and "abs_account db1 = abs_account db" and "ai_usages db1 = ai_usages db"
    and "ai_wallets db1 = ai_wallets db \<or> (\<exists>w. ai_wallets db1 = ai_wallets db @ [w])"
proof -
  have "db1 = db \<or> (\<exists>w. db1 = db\<lparr>ai_wallets := ai_wallets db @ [w]\<rparr> \<and> wallet_check w
      \<and> wal_id w \<notin> wal_id ` set (ai_wallets db) \<and> wal_held_minor w = 0 \<and> wal_balance_minor w = 0)"
    using assms(2) unfolding ensure_wallet_exists_def insert_row_def
    by (auto simp: wallet_clash_def list_all_iff split: if_splits sum.splits)
  moreover have "billing_inv db1 \<and> abs_account db1 = abs_account db \<and> ai_usages db1 = ai_usages db
      \<and> (ai_wallets db1 = ai_wallets db \<or> (\<exists>w. ai_wallets db1 = ai_wallets db @ [w]))"
    if w: "db1 = db\<lparr>ai_wallets := ai_wallets db @ [w]\<rparr>" "wallet_check w"
      "wal_id w \<notin> wal_id ` set (ai_wallets db)" "wal_held_minor w = 0" "wal_balance_minor w = 0" for w
  proof -
    have "wallet_by_id i (ai_wallets db @ [w]) = (if i = wal_id w then Some w else wallet_by_id i (ai_wallets db))" for i
      using w(3) wt.get_None [of "wal_id w" "ai_wallets db"]
      by (auto simp: wallet_by_id_def find_snoc split: option.splits)
    then have bal: "wallet_balance i (ai_wallets db @ [w]) = wallet_balance i (ai_wallets db)" for i
      using w(3,5) wt.get_None [of "wal_id w" "ai_wallets db"] by (simp add: wallet_balance_def)
    have acc: "abs_account db1 = abs_account db" by (rule ext) (simp add: abs_account_def w(1) bal)
    have "wallet_holds (wal_id w) (ai_usages db) = {#}" by (rule no_wallet_no_holds [OF assms(1) w(3)])
    then have "acc_held (abs_account db (wal_id w)) = 0" by (simp add: acc_held_def abs_account_def)
    then have "billing_inv db1"
      using assms(1) w acc unfolding billing_inv_def
      by (auto simp: list_all_iff)
    with acc w(1) show ?thesis by simp
  qed
  ultimately show "billing_inv db1" "abs_account db1 = abs_account db" "ai_usages db1 = ai_usages db"
    "ai_wallets db1 = ai_wallets db \<or> (\<exists>w. ai_wallets db1 = ai_wallets db @ [w])"
    using assms(1) by auto
qed

text \<open>What the insert of a usage record for a new hold adds.\<close>

definition inserts_usage :: "uuid \<Rightarrow> i64 \<Rightarrow> (uuid \<Rightarrow> unit ai_tx) \<Rightarrow> bool" where
  "inserts_usage k hold ins \<longleftrightarrow>
     (\<forall>i db x db'. ins i db = Inr (x, db') \<longrightarrow>
        (\<exists>row. usage_check row \<and> usr_id row = k \<and> usr_wallet_id row = Some i \<and> usage_held row = hold
           \<and> open_usage row \<and> list_all (\<lambda>u. \<not> usage_clash row u) (ai_usages db)
           \<and> db' = db\<lparr>ai_usages := ai_usages db @ [row]\<rparr>))"

text \<open>A database with one more reservation.\<close>

definition reserves :: "ai_db \<Rightarrow> billing_reservation \<Rightarrow> i64 \<Rightarrow> ai_db \<Rightarrow> bool" where
  "reserves db r hold db' \<longleftrightarrow>
     billing_inv db' \<and> br_usage_id r \<notin> usr_id ` set (ai_usages db) \<and> reserved db' r
     \<and> br_held_minor r = hold \<and> hold \<le> acc_available (abs_account db (br_wallet_id r))
     \<and> abs_account db' = (abs_account db)(br_wallet_id r :=
          acct_reserve (br_usage_id r) hold (abs_account db (br_wallet_id r)))
     \<and> (\<exists>row. ai_usages db' = ai_usages db @ [row])"

lemma held_wallet:
  assumes "distinct (map wal_id (ai_wallets db))" and "wallet_by_id (wal_id w) (ai_wallets db) = Some w"
    and "wal_tenant_id w = t" and "0 \<le> hold"
    and "(if hold > 0 then update_wallet_hold env e t (wal_id w) hold else tx_return w) db = Inr (upd, db')"
  shows "\<exists>f. db' = db\<lparr>ai_wallets := set_wallet (wal_id w) f (ai_wallets db)\<rparr> \<and> takes 0 (- hold) f"
proof (cases "hold > 0")
  case True
  then have "db' = db\<lparr>ai_wallets := set_wallet (wal_id w)
      (touched env (\<lambda>w. w\<lparr>wal_held_minor := wal_held_minor w + hold\<rparr>)) (ai_wallets db)\<rparr>"
    using assms(5) by (simp add: update_wallet_hold_one [OF assms(1-3)] Let_def split: if_splits)
  then show ?thesis by (intro exI conjI) (auto simp: takes_def touched_def)
next
  case False
  then have "db' = db\<lparr>ai_wallets := set_wallet (wal_id w) (\<lambda>w. w) (ai_wallets db)\<rparr>" "takes 0 (- hold) (\<lambda>w. w)"
    using assms(4,5) by (simp_all add: set_wallet_id takes_def tx_return_Inr)
  then show ?thesis by blast
qed

lemma reserve_tx_effect:
  assumes "billing_inv db" and "0 \<le> hold"
    and limits: "\<And>w s x s'. limits w s = Inr (x, s') \<Longrightarrow> s' = s"
    and ins: "inserts_usage (ae_usage_id env) hold ins"
    and run: "reserve_tx env e t c m hold limits ins reason md db = Inr (r, db')"
  shows "reserves db r hold db' \<and> ai_jobs db' = ai_jobs db"
proof -
  let ?k = "ae_usage_id env"
  from run obtain db1 w x y db2 upd db3 z db4 where
    en: "ensure_wallet_exists env e t c db = Inr (x, db1)"
    and fw: "List.find (\<lambda>w. wal_tenant_id w = t \<and> wal_customer_id w = c) (ai_wallets db1) = Some w"
    and ch: "reserve_checks w m hold = Inr ()"
    and lim: "limits w db1 = Inr (y, db2)"
    and up: "(if hold > 0 then update_wallet_hold env e t (wal_id w) hold else tx_return w) db2 = Inr (upd, db3)"
    and us: "ins (wal_id w) db3 = Inr (z, db4)"
    and le: "(if hold > 0 then insert_wallet_ledger_entry env e t upd ''hold'' hold reason ?k md
        else tx_return ()) db4 = Inr ((), db')"
    and r: "r = \<lparr>br_usage_id = ?k, br_wallet_id = wal_id w, br_held_minor = hold\<rparr>"
    unfolding reserve_tx_def Let_def by (auto simp: tx_success find_wallet_for_update_def)
  note en' = ensure_wallet_effect [OF assms(1) en]
  have jobs1: "ai_jobs db1 = ai_jobs db" using en
    by (auto simp: ensure_wallet_exists_def split: if_splits sum.splits)
  have db2: "db2 = db1" using limits [OF lim] .
  from find_some [OF fw] have w: "w \<in> set (ai_wallets db1)" "wal_tenant_id w = t" by auto
  have d1: "distinct (map wal_id (ai_wallets db1))" using en'(1) by (simp add: billing_inv_def)
  have wi: "wallet_by_id (wal_id w) (ai_wallets db1) = Some w" by (rule wt.get_of_in [OF d1 w(1)])
  note acc = account_of_wallet [OF en'(1) wi]
  have "i64_sub (wal_balance_minor w) (wal_held_minor w) = wal_balance_minor w - wal_held_minor w"
    using acc(1) by (simp add: i64_sub_def wallet_check_def in_i64_def)
  then have avail: "hold \<le> acc_available (abs_account db1 (wal_id w))" using ch acc
    by (auto simp: reserve_checks_def rs_bind_Inr acc_available_def split: if_splits)
  obtain f where f: "db3 = db1\<lparr>ai_wallets := set_wallet (wal_id w) f (ai_wallets db1)\<rparr>" "takes 0 (- hold) f"
    using held_wallet [OF d1 wi w(2) assms(2)] up unfolding db2 by blast
  from ins us obtain row where row: "usage_check row" "usr_id row = ?k" "usr_wallet_id row = Some (wal_id w)"
      "usage_held row = hold" "open_usage row" "list_all (\<lambda>x. \<not> usage_clash row x) (ai_usages db3)"
      "db4 = db3\<lparr>ai_usages := ai_usages db3 @ [row]\<rparr>"
    unfolding inserts_usage_def by blast
  obtain l where "db' = db4\<lparr>ai_ledger := ai_ledger db4 @ l\<rparr>"
  proof (cases "hold > 0")
    case True
    then show ?thesis using le that
      by (auto simp: insert_wallet_ledger_entry_def Let_def split: if_splits)
  next
    case False
    then show ?thesis using le that [of "[]"] by (simp add: tx_return_Inr)
  qed
  then have db': "db' = added db1 f row l" using f(1) row(3,7) by (simp add: added_def)
  have fresh: "usr_id row \<notin> usr_id ` set (ai_usages db1)"
    using row(6) f(1) by (auto simp: list_all_iff usage_clash_def)
  have acc': "abs_account db' = (abs_account db1)(wal_id w := acct_reserve ?k hold (abs_account db1 (wal_id w)))"
    unfolding db' using added_account [OF wi row(3,5)] f(2) row(2,4) by simp
  have "billing_inv db'" unfolding db'
    using added_inv [OF en'(1) wi row(3,5)] f(2) row(1,4) assms(2) avail fresh by simp
  moreover have "reserved db' r"
    using row by (auto simp: reserved_def r db' added_def wallet_holds_in)
  moreover have "ai_usages db' = ai_usages db @ [row]" "ai_jobs db' = ai_jobs db"
    using en'(3) jobs1 by (simp_all add: db' added_def)
  ultimately show ?thesis unfolding reserves_def
    using acc' avail fresh row(2) en'(2,3) by (auto simp: r)
qed

lemma reserve_effect:
  assumes "billing_inv db" and "0 \<le> hold"
    and "reserve_wallet_and_create_usage env caller m rid endpoint hold payload key db = (Inr r, db')"
  shows "billing_inv db' \<and> br_usage_id r \<notin> usr_id ` set (ai_usages db) \<and> reserved db' r
     \<and> br_held_minor r = hold \<and> hold \<le> acc_available (abs_account db (br_wallet_id r))
     \<and> abs_account db' = (abs_account db)(br_wallet_id r :=
          acct_reserve (br_usage_id r) hold (abs_account db (br_wallet_id r)))
     \<and> (\<exists>row. ai_usages db' = ai_usages db @ [row])"
proof -
  let ?ins = "\<lambda>wallet. insert_usage_record env (ae_usage_id env) caller m wallet rid endpoint hold payload key"
  let ?limits = "\<lambda>wallet. ensure_daily_spend_limits env caller m wallet hold"
  have ins: "inserts_usage (ae_usage_id env) hold ?ins"
    by (auto simp: inserts_usage_def insert_usage_record_def insert_usage_def insert_row_Inr open_usage_def
        usage_held_def price_snapshot_def split: sum.splits)
  have limits: "s' = s" if "?limits w s = Inr (x, s')" for w s x s'
    using that by (auto simp: ensure_daily_spend_limits_def Let_def check_daily_limit_def daily_spend_minor_def
        tx_success split: if_splits option.splits)
  note run = assms(3) [unfolded reserve_wallet_and_create_usage_def commit_Inr]
  show ?thesis
    using reserve_tx_effect [where limits = ?limits and ins = ?ins, OF assms(1,2) limits ins run]
    unfolding reserves_def by simp
qed

end
