(* ===== verification/WalletAdmin.thy ===== *)
theory WalletAdmin
  imports Wallets AccessModel
begin

text \<open>
  Administration of wallets (\<open>modules/ai/admin.rs\<close>): crediting and debiting a customer's wallet,
  its daily limit and freezing it, each with its audit entry, and the normalization of the
  inputs of the module.
\<close>

definition max_config_bytes :: nat where "max_config_bytes = 32768"
definition max_reason_len :: nat where "max_reason_len = 500"
definition max_manual_adjustment_minor :: i64 where "max_manual_adjustment_minor = 100000000000"

definition ai_admin_db_error :: "ai_env \<Rightarrow> app_error" where
  "ai_admin_db_error env = Dependency (''ai admin database error: '' @ ae_db_error env)"


section \<open>Normalizing inputs\<close>

definition normalize_name :: "string \<Rightarrow> string \<Rightarrow> nat \<Rightarrow> app_error + string" where
  "normalize_name value label max_len =
     (let v = trim value in
      if v = [] \<or> length v > max_len \<or> CHR 0x00 \<in> set v
      then Inl (ValidationFailed (label @ '' is invalid'')) else Inr v)"

definition replace_char :: "char \<Rightarrow> char \<Rightarrow> string \<Rightarrow> string" where
  "replace_char a b s = map (\<lambda>c. if c = a then b else c) s"

definition normalize_provider_kind :: "string \<Rightarrow> app_error + string" where
  "normalize_provider_kind kind =
     (let k = replace_char (CHR ''-'') (CHR ''_'') (to_ascii_lowercase (trim kind)) in
      if k \<in> {''openai_compatible'', ''custom_http'', ''claude'', ''gemini'', ''deepseek'', ''image'',
              ''video'', ''wuyin_keji''}
      then Inr k else Inl (ValidationFailed ''ai provider kind is invalid''))"

definition model_code_char :: "char \<Rightarrow> bool" where
  "model_code_char c \<longleftrightarrow>
     (48 \<le> byte c \<and> byte c \<le> 57) \<or> (65 \<le> byte c \<and> byte c \<le> 90) \<or> (97 \<le> byte c \<and> byte c \<le> 122)
     \<or> c \<in> {CHR ''_'', CHR ''-'', CHR ''.'', CHR '':'', CHR ''/''}"

definition normalize_model_code :: "string \<Rightarrow> app_error + string" where
  "normalize_model_code value =
     (let v = to_ascii_lowercase (trim value) in
      if v = [] \<or> length v > 128 \<or> \<not> list_all model_code_char v
      then Inl (ValidationFailed ''ai model code is invalid'') else Inr v)"

definition normalize_modality :: "string \<Rightarrow> app_error + string" where
  "normalize_modality value =
     (let v = to_ascii_lowercase (trim value) in
      if v \<in> {''text'', ''image'', ''video'', ''audio'', ''embedding'', ''multimodal''} then Inr v
      else Inl (ValidationFailed ''ai model modality is invalid''))"

definition normalize_billing_mode :: "string \<Rightarrow> string \<Rightarrow> app_error + string" where
  "normalize_billing_mode value modality =
     (let v = to_ascii_lowercase (trim value);
          valid =
            (if modality = ''text'' \<or> modality = ''embedding'' then v = ''token''
             else if modality = ''image'' then v = ''per_image''
             else if modality = ''video'' then v \<in> {''video_per_second'', ''video_per_request''}
             else if modality = ''audio''
               then v \<in> {''audio_per_second'', ''audio_per_minute'', ''audio_per_request''}
             else if modality = ''multimodal'' then v \<in> {''token'', ''per_image''}
             else False)
      in if valid then Inr v
         else Inl (ValidationFailed ''ai model billing mode is invalid for modality''))"

definition default_billing_mode :: "string \<Rightarrow> i64 \<Rightarrow> i64 \<Rightarrow> string" where
  "default_billing_mode modality request_price second_price =
     (if modality = ''image'' then ''per_image''
      else if modality = ''video''
        then (if request_price > 0 \<and> second_price = 0 then ''video_per_request'' else ''video_per_second'')
      else if modality = ''audio''
        then (if request_price > 0 \<and> second_price = 0 then ''audio_per_request'' else ''audio_per_second'')
      else ''token'')"

definition normalize_currency :: "string \<Rightarrow> app_error + string" where
  "normalize_currency value =
     (let v = to_ascii_uppercase (trim value) in
      if length v = 3 \<and> list_all (\<lambda>c. 65 \<le> byte c \<and> byte c \<le> 90) v then Inr v
      else Inl (ValidationFailed ''ai billing currency is invalid''))"

definition normalize_nonnegative_price :: "i64 \<Rightarrow> app_error + i64" where
  "normalize_nonnegative_price value =
     (if value < 0 then Inl (ValidationFailed ''ai model price cannot be negative'') else Inr value)"

definition validate_optional_limit :: "i64 option \<Rightarrow> string \<Rightarrow> app_error + unit" where
  "validate_optional_limit value label =
     (case value of
        None \<Rightarrow> Inr ()
      | Some v \<Rightarrow>
          if v < 0 then Inl (ValidationFailed (label @ '' must be greater than or equal to 0'')) else Inr ())"

text \<open>\<open>i64::abs\<close> wraps for the smallest value.\<close>

definition normalize_adjustment_amount :: "i64 \<Rightarrow> app_error + i64" where
  "normalize_adjustment_amount amount =
     (if amount = 0 \<or> (if amount < 0 then i64_neg amount else amount) > max_manual_adjustment_minor
      then Inl (ValidationFailed ''ai wallet adjustment amount is invalid'') else Inr amount)"

definition normalize_reason :: "string \<Rightarrow> app_error + string" where
  "normalize_reason value = normalize_name value ''ai wallet adjustment reason'' max_reason_len"

definition normalize_ledger_entry_type :: "string \<Rightarrow> app_error + string" where
  "normalize_ledger_entry_type value =
     (let v = to_ascii_lowercase (trim value) in
      if v \<in> {''credit'', ''debit'', ''hold'', ''capture'', ''release'', ''refund'', ''adjustment''}
      then Inr v else Inl (ValidationFailed ''ai wallet ledger entry type is invalid''))"

definition clean_optional_text :: "string option \<Rightarrow> string option" where
  "clean_optional_text value =
     (case value of None \<Rightarrow> None | Some s \<Rightarrow> (let t = trim s in if t = [] then None else Some t))"

definition ensure_json_object :: "string \<Rightarrow> json \<Rightarrow> app_error + unit" where
  "ensure_json_object label v =
     (if is_object v then Inr () else Inl (ValidationFailed (label @ '' must be an object'')))"

definition ensure_json_size ::
    "(json \<Rightarrow> string + string) \<Rightarrow> string \<Rightarrow> json \<Rightarrow> nat \<Rightarrow> app_error + unit" where
  "ensure_json_size to_vec label v max_bytes =
     (case to_vec v of
        Inl e \<Rightarrow> Inl (ValidationFailed (label @ '' invalid: '' @ e))
      | Inr bytes \<Rightarrow>
          if length bytes > max_bytes then Inl (ValidationFailed (label @ '' is too large'')) else Inr ())"

fun str_contains :: "string \<Rightarrow> string \<Rightarrow> bool" where
  "str_contains [] part \<longleftrightarrow> part = []"
| "str_contains (c # s) part \<longleftrightarrow> starts_with part (c # s) \<or> str_contains s part"

definition sensitive_parts :: "string list" where
  "sensitive_parts = [''secret'', ''password'', ''token'', ''api_key'', ''apikey'', ''authorization'',
     ''credential'', ''credentials'', ''private'']"

fun visit_sensitive :: "json \<Rightarrow> bool"
  and visit_members :: "(string \<times> json) list \<Rightarrow> bool"
  and visit_items :: "json list \<Rightarrow> bool" where
  "visit_sensitive (JObject kvs) = visit_members kvs"
| "visit_sensitive (JArray items) = visit_items items"
| "visit_sensitive JNull = False"
| "visit_sensitive (JBool _) = False"
| "visit_sensitive (JNumber _) = False"
| "visit_sensitive (JString _) = False"
| "visit_members [] = False"
| "visit_members ((k, v) # kvs) =
     (list_ex (str_contains (to_ascii_lowercase k)) sensitive_parts \<or> visit_sensitive v \<or> visit_members kvs)"
| "visit_items [] = False"
| "visit_items (v # vs) = (visit_sensitive v \<or> visit_items vs)"

definition reject_sensitive_public_keys :: "json \<Rightarrow> app_error + unit" where
  "reject_sensitive_public_keys v =
     (if visit_sensitive v
      then Inl (ValidationFailed ''sensitive ai provider values must be stored as secret'') else Inr ())"

definition normalize_public_json ::
    "(json \<Rightarrow> string + string) \<Rightarrow> json \<Rightarrow> string \<Rightarrow> nat \<Rightarrow> app_error + json" where
  "normalize_public_json to_vec value label max_bytes =
     (let v = (if value = JNull then JObject [] else value) in
      rs_bind (ensure_json_object label v) (\<lambda>_.
      rs_bind (reject_sensitive_public_keys v) (\<lambda>_.
      rs_bind (ensure_json_size to_vec label v max_bytes) (\<lambda>_. Inr v))))"

definition normalize_metadata :: "(json \<Rightarrow> string + string) \<Rightarrow> json \<Rightarrow> app_error + json" where
  "normalize_metadata to_vec value = normalize_public_json to_vec value ''ai wallet metadata'' max_config_bytes"

definition normalize_model_pricing_config ::
    "(json \<Rightarrow> string + string) \<Rightarrow> json \<Rightarrow> app_error + json" where
  "normalize_model_pricing_config to_vec value =
     rs_bind (normalize_public_json to_vec value ''ai model pricing config'' max_config_bytes) (\<lambda>v.
     rs_bind (validate_capabilities_config v) (\<lambda>_. Inr v))"


section \<open>Statements\<close>

definition ensure_customer_exists_in_transaction :: "uuid \<Rightarrow> uuid \<Rightarrow> unit ai_tx" where
  "ensure_customer_exists_in_transaction tenant customer =
     tx_read (\<lambda>db.
       if list_ex (\<lambda>c. aic_tenant_id c = tenant \<and> aic_id c = customer \<and> aic_deleted_at c = None)
            (ai_customers db)
       then Inr () else Inl (NotFound ''customer not found''))"

definition find_admin_wallet_for_update :: "uuid \<Rightarrow> uuid \<Rightarrow> wallet ai_tx" where
  "find_admin_wallet_for_update tenant customer =
     tx_read (\<lambda>db. ok_or (List.find (\<lambda>w. wal_tenant_id w = tenant \<and> wal_customer_id w = customer)
                           (ai_wallets db)) (NotFound ''ai wallet not found''))"

definition update_wallet_balance_in_transaction :: "ai_env \<Rightarrow> uuid \<Rightarrow> uuid \<Rightarrow> i64 \<Rightarrow> wallet ai_tx" where
  "update_wallet_balance_in_transaction env tenant i amount =
     (let e = ai_admin_db_error env; P = (\<lambda>w. wal_tenant_id w = tenant \<and> wal_id w = i) in
      tx_bind (tx_read (\<lambda>db. ok_or (List.find P (ai_wallets db)) e)) (\<lambda>w.
      tx_bind (tx_of (ok_or (checked_add_i64 (wal_balance_minor w) amount)
                 (ValidationFailed ''wallet balance adjustment overflow''))) (\<lambda>new_balance.
      if new_balance < wal_held_minor w
        then tx_fail (BusinessRuleFailed ''wallet balance cannot be lower than held amount'')
      else update_wallet env e P (\<lambda>w. w\<lparr>wal_balance_minor := new_balance\<rparr>))))"

definition update_wallet_quota_in_transaction ::
    "ai_env \<Rightarrow> uuid \<Rightarrow> uuid \<Rightarrow> i64 option \<Rightarrow> wallet ai_tx" where
  "update_wallet_quota_in_transaction env tenant i limit =
     update_wallet env (ai_admin_db_error env) (\<lambda>w. wal_tenant_id w = tenant \<and> wal_id w = i)
       (\<lambda>w. w\<lparr>wal_daily_spend_limit_minor := limit\<rparr>)"

definition update_wallet_access_in_transaction :: "ai_env \<Rightarrow> uuid \<Rightarrow> uuid \<Rightarrow> bool \<Rightarrow> wallet ai_tx" where
  "update_wallet_access_in_transaction env tenant i enabled =
     update_wallet env (ai_admin_db_error env) (\<lambda>w. wal_tenant_id w = tenant \<and> wal_id w = i)
       (\<lambda>w. w\<lparr>wal_ai_enabled := enabled\<rparr>)"

definition insert_admin_ledger_entry ::
    "ai_env \<Rightarrow> uuid \<Rightarrow> wallet \<Rightarrow> string \<Rightarrow> i64 \<Rightarrow> string \<Rightarrow> json \<Rightarrow> uuid \<Rightarrow> ledger_entry ai_tx" where
  "insert_admin_ledger_entry env tenant w entry_type amount reason metadata created_by =
     (let row = \<lparr>le_tenant_id = tenant, le_wallet_id = wal_id w, le_customer_id = wal_customer_id w,
           le_entry_type = entry_type, le_amount_minor = amount,
           le_balance_after_minor = wal_balance_minor w, le_held_after_minor = wal_held_minor w,
           le_reason = reason, le_reference_type = None, le_reference_id = None,
           le_metadata_json = metadata, le_created_by = Some created_by\<rparr> in
      (\<lambda>db. if ledger_check row then Inr (row, db\<lparr>ai_ledger := ai_ledger db @ [row]\<rparr>)
            else Inl (ai_admin_db_error env)))"

record wallet_summary =
  ws_customer_id :: uuid
  ws_customer_email :: "string option"
  ws_customer_name :: "string option"
  ws_wallet_id :: "uuid option"
  ws_currency :: string
  ws_balance_minor :: i64
  ws_held_minor :: i64
  ws_available_minor :: i64
  ws_ai_enabled :: bool
  ws_daily_spend_limit_minor :: "i64 option"
  ws_updated_at :: "time option"

definition wallet_summary_by_customer :: "uuid \<Rightarrow> uuid \<Rightarrow> ai_db \<Rightarrow> app_error + wallet_summary" where
  "wallet_summary_by_customer tenant customer db =
     (case List.find (\<lambda>c. aic_tenant_id c = tenant \<and> aic_id c = customer \<and> aic_deleted_at c = None)
             (ai_customers db) of
        None \<Rightarrow> Inl (NotFound ''customer not found'')
      | Some c \<Rightarrow>
          (let w = List.find (\<lambda>w. wal_tenant_id w = aic_tenant_id c \<and> wal_customer_id w = aic_id c)
                     (ai_wallets db);
               balance = (case w of None \<Rightarrow> 0 | Some x \<Rightarrow> wal_balance_minor x);
               held = (case w of None \<Rightarrow> 0 | Some x \<Rightarrow> wal_held_minor x)
           in Inr \<lparr>ws_customer_id = aic_id c, ws_customer_email = aic_email c, ws_customer_name = aic_name c,
                ws_wallet_id = map_option wal_id w,
                ws_currency = (case w of None \<Rightarrow> ''CNY'' | Some x \<Rightarrow> wal_currency x),
                ws_balance_minor = balance, ws_held_minor = held, ws_available_minor = balance - held,
                ws_ai_enabled = (case w of None \<Rightarrow> True | Some x \<Rightarrow> wal_ai_enabled x),
                ws_daily_spend_limit_minor =
                  (case w of None \<Rightarrow> None | Some x \<Rightarrow> wal_daily_spend_limit_minor x),
                ws_updated_at = map_option wal_updated_at w\<rparr>))"


section \<open>Handlers\<close>

definition wallet_audit_json :: "ai_env \<Rightarrow> wallet \<Rightarrow> json" where
  "wallet_audit_json env w = JObject
     [(''id'', uuid_json env (Some (wal_id w))), (''customer_id'', uuid_json env (Some (wal_customer_id w))),
      (''currency'', JString (wal_currency w)), (''balance_minor'', num (wal_balance_minor w)),
      (''held_minor'', num (wal_held_minor w)), (''ai_enabled'', JBool (wal_ai_enabled w)),
      (''daily_spend_limit_minor'', json_number_opt (wal_daily_spend_limit_minor w)),
      (''updated_at'', JString (ae_time_text env (wal_updated_at w)))]"

text \<open>The audit entry every admin handler of the module writes in its transaction.\<close>

definition ai_audit ::
    "ai_env \<Rightarrow> admin_context \<Rightarrow> string \<Rightarrow> string \<Rightarrow> uuid \<Rightarrow> json \<Rightarrow> json \<Rightarrow> json \<Rightarrow> unit ai_tx" where
  "ai_audit env admin action resource i before_json after_json metadata =
     tx_bind (tx_of (audit_log_row (ae_inet env) (ae_db_error env) (ae_audit_id env) (ae_db_now env)
         \<lparr>ai_tenant_id = Some (adm_tenant_id admin), ai_actor_type = ''team_member'',
          ai_actor_id = Some (adm_team_member_id admin), ai_action = action,
          ai_resource_type = resource, ai_resource_id = Some i, ai_ip = None, ai_user_agent = None,
          ai_request_id = Some (ae_request_id env), ai_before_json = Some before_json,
          ai_after_json = Some after_json, ai_metadata_json = metadata\<rparr>)) (\<lambda>row.
     tx_modify (\<lambda>db. db\<lparr>ai_audit_logs := ai_audit_logs db @ [row]\<rparr>))"

text \<open>The transaction the three handlers share: \<open>change\<close> is what they do to the wallet.\<close>

definition wallet_transaction ::
    "ai_env \<Rightarrow> admin_context \<Rightarrow> uuid \<Rightarrow> (wallet \<Rightarrow> (wallet \<times> 'a) ai_tx) \<Rightarrow> string \<Rightarrow> json \<Rightarrow> 'a ai_io" where
  "wallet_transaction env admin customer change action metadata =
     (let t = adm_tenant_id admin in
      commit (
        tx_bind (ensure_customer_exists_in_transaction t customer) (\<lambda>_.
        tx_bind (ensure_wallet_exists env (ai_admin_db_error env) t customer) (\<lambda>_.
        tx_bind (find_admin_wallet_for_update t customer) (\<lambda>old.
        tx_bind (change old) (\<lambda>(new, x).
        tx_bind (ai_audit env admin action ''ai_wallet'' (wal_id new)
                   (wallet_audit_json env old) (wallet_audit_json env new) metadata) (\<lambda>_.
        tx_return x)))))))"

definition adjust_ai_wallet ::
    "ai_env \<Rightarrow> admin_context \<Rightarrow> uuid \<Rightarrow> i64 \<Rightarrow> string \<Rightarrow> json \<Rightarrow> (wallet_summary \<times> ledger_entry) ai_io" where
  "adjust_ai_wallet env admin customer amount reason metadata =
     (let t = adm_tenant_id admin in
      io_bind (io_of (ensure_admin_permission admin ''ai:wallet:update'')) (\<lambda>_.
      io_bind (io_of (normalize_adjustment_amount amount)) (\<lambda>amount.
      io_bind (io_of (normalize_reason reason)) (\<lambda>reason.
      io_bind (io_of (normalize_metadata (ae_to_vec env) metadata)) (\<lambda>metadata.
      io_bind (wallet_transaction env admin customer
                 (\<lambda>old.
                    tx_bind (update_wallet_balance_in_transaction env t (wal_id old) amount) (\<lambda>updated.
                    tx_bind (insert_admin_ledger_entry env t updated
                               (if amount > 0 then ''credit'' else ''debit'') amount reason metadata
                               (adm_team_member_id admin)) (\<lambda>entry.
                    tx_return (updated, entry))))
                 ''ai_wallet.adjust''
                 (JObject [(''customer_id'', uuid_json env (Some customer)), (''amount_minor'', num amount),
                    (''reason'', JString reason)])) (\<lambda>entry.
      io_bind (io_read (wallet_summary_by_customer t customer)) (\<lambda>summary.
      io_return (summary, entry))))))))"

definition update_ai_wallet_quota ::
    "ai_env \<Rightarrow> admin_context \<Rightarrow> uuid \<Rightarrow> i64 option \<Rightarrow> wallet_summary ai_io" where
  "update_ai_wallet_quota env admin customer limit =
     (let t = adm_tenant_id admin in
      io_bind (io_of (ensure_admin_permission admin ''ai:wallet:update'')) (\<lambda>_.
      io_bind (io_of (validate_optional_limit limit ''ai wallet daily spend limit'')) (\<lambda>_.
      io_bind (wallet_transaction env admin customer
                 (\<lambda>old. tx_bind (update_wallet_quota_in_transaction env t (wal_id old) limit)
                          (\<lambda>updated. tx_return (updated, ())))
                 ''ai_wallet.quota_update''
                 (JObject [(''customer_id'', uuid_json env (Some customer)),
                    (''daily_spend_limit_minor'', json_number_opt limit)])) (\<lambda>_.
      io_read (wallet_summary_by_customer t customer)))))"

definition update_ai_wallet_access ::
    "ai_env \<Rightarrow> admin_context \<Rightarrow> uuid \<Rightarrow> bool \<Rightarrow> wallet_summary ai_io" where
  "update_ai_wallet_access env admin customer enabled =
     (let t = adm_tenant_id admin in
      io_bind (io_of (ensure_admin_permission admin ''ai:wallet:update'')) (\<lambda>_.
      io_bind (wallet_transaction env admin customer
                 (\<lambda>old. tx_bind (update_wallet_access_in_transaction env t (wal_id old) enabled)
                          (\<lambda>updated. tx_return (updated, ())))
                 (if enabled then ''ai_wallet.access_enable'' else ''ai_wallet.access_freeze'')
                 (JObject [(''customer_id'', uuid_json env (Some customer)), (''ai_enabled'', JBool enabled)]))
        (\<lambda>_. io_read (wallet_summary_by_customer t customer))))"

end
