(* ===== verification/BillingRuns.thy ===== *)
theory BillingRuns
  imports Billing WalletAdmin
begin

text \<open>
  Interleaved billing: a state is the database and the reservations of the requests that wait
  for their provider. Requests reserve and settle, administrators change the wallets, in any
  order and each with inputs of its own.
\<close>

section \<open>Changing a wallet\<close>

lemma billing_inv_cong:
  assumes "ai_wallets a = ai_wallets b" and "ai_usages a = ai_usages b"
  shows "billing_inv a = billing_inv b" and "abs_account a = abs_account b" and "reserved a = reserved b"
proof -
  show acc: "abs_account a = abs_account b" using assms by (simp add: abs_account_def fun_eq_iff)
  show "billing_inv a = billing_inv b" using assms by (simp add: billing_inv_def acc)
  show "reserved a = reserved b" using assms by (simp add: reserved_def fun_eq_iff)
qed

text \<open>The update of one wallet: \<open>f\<close> keeps its key and its holds and adds \<open>d\<close> to its balance.\<close>

lemma rebalanced:
  assumes "billing_inv db" and "wallet_by_id i (ai_wallets db) = Some w"
    and "\<And>x. wal_id (f x) = wal_id x" and "\<And>x. wal_held_minor (f x) = wal_held_minor x"
    and "wal_balance_minor (f w) = wal_balance_minor w + d" and "wallet_check (f w)"
    and "ai_wallets db' = set_wallet i f (ai_wallets db)" and "ai_usages db' = ai_usages db"
  shows "billing_inv db'" and "abs_account db' = (abs_account db)(i := acct_adjust d (abs_account db i))"
proof -
  from assms(1) have inv: "distinct (map wal_id (ai_wallets db))" "list_all wallet_check (ai_wallets db)"
    by (simp_all add: billing_inv_def)
  have "wallet_balance j (ai_wallets db') = wallet_balance j (ai_wallets db) + (if j = i then d else 0)" for j
    using assms(2,3,5,7) by (simp add: wallet_balance_def wt.get_upd)
  then show acc: "abs_account db' = (abs_account db)(i := acct_adjust d (abs_account db i))"
    using assms(8) by (auto simp: abs_account_def acct_adjust_def fun_eq_iff)
  have held: "acc_held (abs_account db' j) = acc_held (abs_account db j)" for j
    by (simp add: acc acc_held_def acct_adjust_def)
  have "list_all wallet_check (ai_wallets db')"
    unfolding assms(7) by (rule wt.list_all_upd [OF inv(1) assms(2) inv(2)]) (rule assms(6))
  moreover have "wal_id ` set (ai_wallets db') = wal_id ` set (ai_wallets db)"
    unfolding assms(7) by (rule wt.key_set_upd) (rule assms(3))
  moreover have "list_all (\<lambda>w. wal_held_minor w = acc_held (abs_account db' (wal_id w))) (ai_wallets db')"
    using assms(1,3,4) unfolding held
    by (auto simp: assms(7) set_wallet_def set_update_where billing_inv_def list_all_iff)
  moreover have "distinct (map wal_id (ai_wallets db'))"
    using inv(1) assms(3) by (simp add: assms(7) wt.keys_upd)
  ultimately show "billing_inv db'" using assms(1,8) by (simp add: billing_inv_def)
qed

text \<open>One account may change its balance, down to what it holds.\<close>

definition rebalances :: "ai_db \<Rightarrow> ai_db \<Rightarrow> bool" where
  "rebalances db db' \<longleftrightarrow> billing_inv db' \<and> ai_usages db' = ai_usages db
     \<and> (abs_account db' = abs_account db
        \<or> (\<exists>i d. 0 \<le> d + acc_available (abs_account db i)
             \<and> abs_account db' = (abs_account db)(i := acct_adjust d (abs_account db i))))"

lemma rebalances_refl: "billing_inv db \<Longrightarrow> rebalances db db"
  by (simp add: rebalances_def)

lemma update_wallet_rebalances:
  assumes "billing_inv db" and "wallet_by_id i (ai_wallets db) = Some w" and "wal_tenant_id w = t"
    and "update_wallet env e (\<lambda>w. wal_tenant_id w = t \<and> wal_id w = i) f db = Inr (v, db')"
    and "\<And>x. wal_id (f x) = wal_id x" and "\<And>x. wal_held_minor (f x) = wal_held_minor x"
  shows "rebalances db db'"
proof -
  from assms(1) have d: "distinct (map wal_id (ai_wallets db))" by (simp add: billing_inv_def)
  have one: "(wal_tenant_id x = t \<and> wal_id x = i) = (wal_id x = i)" if "x \<in> set (ai_wallets db)" for x
    using wt.get_of_in [OF d that] assms(2,3) by fastforce
  have "update_wallet env e (\<lambda>w. wal_tenant_id w = t \<and> wal_id w = i) f db =
     (if wallet_check (f w)
      then Inr (touched env f w, db\<lparr>ai_wallets := set_wallet i (touched env f) (ai_wallets db)\<rparr>) else Inl e)"
    by (rule update_wallet_one [OF d assms(2)]) (rule one)
  with assms(4) have ok: "wallet_check (f w)"
    and db': "db' = db\<lparr>ai_wallets := set_wallet i (touched env f) (ai_wallets db)\<rparr>"
    by (auto split: if_splits)
  let ?d = "wal_balance_minor (f w) - wal_balance_minor w"
  have w: "wal_held_minor w \<le> wal_balance_minor (f w)" using ok assms(6) by (simp add: wallet_check_def)
  have "0 \<le> ?d + acc_available (abs_account db i)"
    using account_of_wallet [OF assms(1,2)] w by (simp add: acc_available_def)
  moreover have "billing_inv db' \<and> abs_account db' = (abs_account db)(i := acct_adjust ?d (abs_account db i))"
    using rebalanced [OF assms(1,2), of "touched env f" ?d db'] assms(5,6) ok db' by auto
  ultimately show ?thesis using db' by (auto simp: rebalances_def)
qed


lemma ai_audit_Inr:
  "ai_audit env admin action resource i b a m db = Inr (x, db')
     \<Longrightarrow> ai_wallets db' = ai_wallets db \<and> ai_usages db' = ai_usages db"
  by (auto simp: ai_audit_def tx_success)

lemma wallet_transaction_rebalances:
  assumes "billing_inv db"
    and "\<And>old db1 new x db2. billing_inv db1 \<Longrightarrow> wallet_by_id (wal_id old) (ai_wallets db1) = Some old
      \<Longrightarrow> wal_tenant_id old = adm_tenant_id admin \<Longrightarrow> change old db1 = Inr ((new, x), db2) \<Longrightarrow> rebalances db1 db2"
  shows "rebalances db (snd (wallet_transaction env admin customer change action metadata db))"
proof (cases "fst (wallet_transaction env admin customer change action metadata db)")
  case (Inl e)
  then have "snd (wallet_transaction env admin customer change action metadata db) = db"
    by (auto simp: wallet_transaction_def Let_def commit_def split: sum.splits)
  with assms(1) show ?thesis by (simp add: rebalances_refl)
next
  case (Inr r)
  then obtain db' where run: "wallet_transaction env admin customer change action metadata db = (Inr r, db')"
    by (metis prod.collapse)
  then have snd: "snd (wallet_transaction env admin customer change action metadata db) = db'" by simp
  from run obtain u db1 old new x db2 v where
    en: "ensure_wallet_exists env (ai_admin_db_error env) (adm_tenant_id admin) customer db = Inr (u, db1)"
    and old: "List.find (\<lambda>w. wal_tenant_id w = adm_tenant_id admin \<and> wal_customer_id w = customer)
        (ai_wallets db1) = Some old"
    and ch: "change old db1 = Inr ((new, x), db2)"
    and au: "ai_audit env admin action ''ai_wallet'' (wal_id new) (wallet_audit_json env old)
        (wallet_audit_json env new) metadata db2 = Inr (v, db')"
    unfolding wallet_transaction_def Let_def commit_Inr
    by (auto simp: tx_success ensure_customer_exists_in_transaction_def find_admin_wallet_for_update_def)
  note en' = ensure_wallet_effect [OF assms(1) en]
  from en'(1) have d1: "distinct (map wal_id (ai_wallets db1))" by (simp add: billing_inv_def)
  from find_some [OF old] have "old \<in> set (ai_wallets db1)" "wal_tenant_id old = adm_tenant_id admin" by auto
  with assms(2) [OF en'(1) wt.get_of_in [OF d1] _ ch] have "rebalances db1 db2" by blast
  moreover from ai_audit_Inr [OF au] billing_inv_cong [of db' db2]
  have "billing_inv db' = billing_inv db2" "abs_account db' = abs_account db2" "ai_usages db' = ai_usages db2" by auto
  ultimately show ?thesis unfolding snd using en'(2,3) by (simp add: rebalances_def)
qed


text \<open>Checks before a transaction and reads after it do not change the state.\<close>

lemma snd_check: "snd (io_bind (io_of r) k s) = (case r of Inl e \<Rightarrow> s | Inr a \<Rightarrow> snd (k a s))"
  by (cases r) (simp_all add: io_bind_def io_of_def)

lemma snd_then_read: "(\<And>a s'. snd (k a s') = s') \<Longrightarrow> snd (io_bind m k s) = snd (m s)"
  by (auto simp: io_bind_def split: sum.splits prod.splits)

lemma snd_read: "snd (io_read f s) = s" "snd (io_return a s) = s"
  by (simp_all add: io_read_def io_return_def)

lemma adjustment_rebalances:
  assumes "billing_inv db"
  shows "rebalances db (snd (wallet_transaction env admin customer
     (\<lambda>old. tx_bind (update_wallet_balance_in_transaction env (adm_tenant_id admin) (wal_id old) amount)
       (\<lambda>updated. tx_bind (insert_admin_ledger_entry env (adm_tenant_id admin) updated
             entry_type amount reason md (adm_team_member_id admin))
         (\<lambda>entry. tx_return (updated, entry)))) action metadata db))"
proof (rule wallet_transaction_rebalances [OF assms])
  fix old db1 new x db2
  assume inv: "billing_inv db1" "wallet_by_id (wal_id old) (ai_wallets db1) = Some old"
    "wal_tenant_id old = adm_tenant_id admin"
    "tx_bind (update_wallet_balance_in_transaction env (adm_tenant_id admin) (wal_id old) amount)
       (\<lambda>updated. tx_bind (insert_admin_ledger_entry env (adm_tenant_id admin) updated
           entry_type amount reason md (adm_team_member_id admin))
         (\<lambda>entry. tx_return (updated, entry))) db1 = Inr ((new, x), db2)"
  then obtain b db1' where up: "update_wallet env (ai_admin_db_error env)
      (\<lambda>w. wal_tenant_id w = adm_tenant_id admin \<and> wal_id w = wal_id old)
      (\<lambda>w. w\<lparr>wal_balance_minor := b\<rparr>) db1 = Inr (new, db1')"
    and le: "insert_admin_ledger_entry env (adm_tenant_id admin) new
      entry_type amount reason md (adm_team_member_id admin) db1' = Inr (x, db2)"
    by (auto simp: tx_success update_wallet_balance_in_transaction_def Let_def split: if_splits)
  have "rebalances db1 db1'" by (rule update_wallet_rebalances [OF inv(1-3) up]) simp_all
  moreover have "ai_wallets db2 = ai_wallets db1'" "ai_usages db2 = ai_usages db1'"
    using le by (auto simp: insert_admin_ledger_entry_def Let_def split: if_splits)
  ultimately show "rebalances db1 db2" using billing_inv_cong [of db2 db1'] by (simp add: rebalances_def)
qed

lemma change_rebalances:
  assumes "billing_inv db" and "\<And>x. wal_id (f x) = wal_id x" and "\<And>x. wal_held_minor (f x) = wal_held_minor x"
  shows "rebalances db (snd (wallet_transaction env admin customer
     (\<lambda>old. tx_bind (update_wallet env e (\<lambda>w. wal_tenant_id w = adm_tenant_id admin \<and> wal_id w = wal_id old) f)
       (\<lambda>updated. tx_return (updated, ()))) action metadata db))"
proof (rule wallet_transaction_rebalances [OF assms(1)])
  fix old db1 new x db2
  assume inv: "billing_inv db1" "wallet_by_id (wal_id old) (ai_wallets db1) = Some old"
    "wal_tenant_id old = adm_tenant_id admin"
    "tx_bind (update_wallet env e (\<lambda>w. wal_tenant_id w = adm_tenant_id admin \<and> wal_id w = wal_id old) f)
       (\<lambda>updated. tx_return (updated, ())) db1 = Inr ((new, x), db2)"
  then have "update_wallet env e (\<lambda>w. wal_tenant_id w = adm_tenant_id admin \<and> wal_id w = wal_id old) f db1
      = Inr (new, db2)" by (auto simp: tx_success)
  from update_wallet_rebalances [OF inv(1-3) this assms(2,3)] show "rebalances db1 db2" .
qed

lemma admin_rebalances:
  assumes "billing_inv db"
  shows "rebalances db (snd (adjust_ai_wallet env admin customer amount reason md db))"
    and "rebalances db (snd (update_ai_wallet_quota env admin customer limit db))"
    and "rebalances db (snd (update_ai_wallet_access env admin customer enabled db))"
  using adjustment_rebalances [OF assms] change_rebalances [OF assms]
  by (auto simp: adjust_ai_wallet_def update_ai_wallet_quota_def update_ai_wallet_access_def Let_def
      snd_check snd_then_read snd_read rebalances_refl [OF assms] update_wallet_quota_in_transaction_def
      update_wallet_access_in_transaction_def split: sum.splits)


section \<open>Runs\<close>

inductive billing :: "ai_db \<times> billing_reservation list \<Rightarrow> ai_db \<times> billing_reservation list \<Rightarrow> bool" where
  reserves: "reserve_wallet_and_create_usage env caller m rid endpoint hold payload key db = (Inr r, db')
     \<Longrightarrow> 0 \<le> hold \<Longrightarrow> billing (db, R) (db', r # R)"
| refuses: "reserve_wallet_and_create_usage env caller m rid endpoint hold payload key db = (Inl e, db')
     \<Longrightarrow> billing (db, R) (db', R)"
| captures: "r \<in> set R \<Longrightarrow> capture_usage env r m st prid us charge body db = (x, db')
     \<Longrightarrow> billing (db, R) (db', remove1 r R)"
| releases: "r \<in> set R \<Longrightarrow> release_usage env e r st prid body' reason db = (x, db')
     \<Longrightarrow> billing (db, R) (db', remove1 r R)"
| adjusts: "adjust_ai_wallet env admin customer amount why md db = (y, db') \<Longrightarrow> billing (db, R) (db', R)"
| quota: "update_ai_wallet_quota env admin customer limit db = (z, db') \<Longrightarrow> billing (db, R) (db', R)"
| access: "update_ai_wallet_access env admin customer enabled db = (z, db') \<Longrightarrow> billing (db, R) (db', R)"

definition billing_state_inv :: "ai_db \<times> billing_reservation list \<Rightarrow> bool" where
  "billing_state_inv s \<longleftrightarrow>
     billing_inv (fst s) \<and> list_all (reserved (fst s)) (snd s) \<and> distinct (map br_usage_id (snd s))"

lemma reserved_cong: "ai_usages a = ai_usages b \<Longrightarrow> reserved a = reserved b"
  by (simp add: reserved_def fun_eq_iff)

lemma reserved_known: "reserved db r \<Longrightarrow> br_usage_id r \<in> usr_id ` set (ai_usages db)"
  by (auto simp: reserved_def wallet_holds_in intro: rev_image_eqI)

lemma rebalances_step:
  assumes "billing_state_inv (db, R)" and "rebalances db db'"
  shows "billing_state_inv (db', R) \<and> acct_step\<^sup>*\<^sup>* (abs_account db) (abs_account db')"
  using assms reserved_cong [of db' db] acct_step.acct_adjust
  by (auto simp: billing_state_inv_def rebalances_def)

lemma settle_step:
  assumes "billing_state_inv (db, R)" and "r \<in> set R" and "closes g" and "takes c (br_held_minor r) f"
    and "\<And>u. usage_check u \<Longrightarrow> usage_check (g u)"
    and "0 \<le> c" and "c \<le> br_held_minor r + acc_available (abs_account db (br_wallet_id r))"
  shows "billing_state_inv (settled db r f g l, remove1 r R)"
proof -
  from assms(1,2) have i: "billing_inv db" "reserved db r" "list_all (reserved db) R"
    "distinct (map br_usage_id R)" by (auto simp: billing_state_inv_def list_all_iff)
  have check: "usage_check (g u)" if "usage_by_id (br_usage_id r) (ai_usages db) = Some u" for u
    using ut.get_in [OF that] i(1) assms(5) by (auto simp: billing_inv_def list_all_iff)
  have "r' \<in> set R \<and> br_usage_id r' \<noteq> br_usage_id r" if "r' \<in> set (remove1 r R)" for r'
    using i(4) that assms(2) by (auto simp: distinct_map set_remove1_eq inj_on_def)
  then have "list_all (reserved (settled db r f g l)) (remove1 r R)"
    using i(3) settled_others [OF i(1,2) assms(3,4)] unfolding list_all_iff by blast
  moreover have "distinct (map br_usage_id (remove1 r R))"
    using i(4) by (auto simp: distinct_map intro: inj_on_subset [OF _ set_remove1_subset] simp del: set_remove1_eq)
  ultimately show ?thesis
    using settled_inv [OF i(1,2) assms(3,4,6,7)] check by (simp add: billing_state_inv_def)
qed


lemma acct_capture_fields: "acct_capture u h c a =
   \<lparr>acc_balance = acc_balance a - min (max c 0) (h + acc_available a), acc_holds = acc_holds a - {#(u, h)#}\<rparr>"
  by (cases a) (simp add: acct_capture_def)

lemma acct_release_fields: "acct_release u h a =
   \<lparr>acc_balance = acc_balance a - 0, acc_holds = acc_holds a - {#(u, h)#}\<rparr>"
  by (cases a) (simp add: acct_release_def)

lemma capture_step:
  assumes "billing_state_inv (db, R)" and "r \<in> set R" and "closes g"
    and "takes (min (max charge 0) (br_held_minor r + acc_available (abs_account db (br_wallet_id r))))
      (br_held_minor r) f"
    and "\<And>u. usage_check u \<Longrightarrow> usage_check (g u)"
  shows "billing_state_inv (settled db r f g l, remove1 r R)
     \<and> acct_step\<^sup>*\<^sup>* (abs_account db) (abs_account (settled db r f g l))"
proof -
  from assms(1,2) have i: "billing_inv db" "reserved db r" by (auto simp: billing_state_inv_def list_all_iff)
  have hold: "(br_usage_id r, br_held_minor r) \<in># acc_holds (abs_account db (br_wallet_id r))"
    using i(2) by (simp add: reserved_def abs_account_def)
  obtain w where "wallet_by_id (br_wallet_id r) (ai_wallets db) = Some w" using reserved_wallet [OF i] by blast
  from account_of_wallet(4) [OF i(1) this] hold_le_held [OF _ hold]
  have "0 \<le> min (max charge 0) (br_held_minor r + acc_available (abs_account db (br_wallet_id r)))"
    by (auto simp: account_ok_def acc_available_def)
  then have "billing_state_inv (settled db r f g l, remove1 r R)"
    using settle_step [OF assms(1-5)] by simp
  moreover have "abs_account (settled db r f g l) = (abs_account db)(br_wallet_id r :=
      acct_capture (br_usage_id r) (br_held_minor r) charge (abs_account db (br_wallet_id r)))"
    unfolding settled_account [OF i assms(3,4)] acct_capture_fields ..
  ultimately show ?thesis using acct_step.acct_capture [of _ _ "abs_account db" "br_wallet_id r", OF hold, of charge]
    by (simp only: r_into_rtranclp simp_thms)
qed

lemma release_step:
  assumes "billing_state_inv (db, R)" and "r \<in> set R" and "closes g" and "takes 0 (br_held_minor r) f"
    and "\<And>u. usage_check u \<Longrightarrow> usage_check (g u)"
  shows "billing_state_inv (settled db r f g l, remove1 r R)
     \<and> acct_step\<^sup>*\<^sup>* (abs_account db) (abs_account (settled db r f g l))"
proof -
  from assms(1,2) have i: "billing_inv db" "reserved db r" by (auto simp: billing_state_inv_def list_all_iff)
  have hold: "(br_usage_id r, br_held_minor r) \<in># acc_holds (abs_account db (br_wallet_id r))"
    using i(2) by (simp add: reserved_def abs_account_def)
  obtain w where "wallet_by_id (br_wallet_id r) (ai_wallets db) = Some w" using reserved_wallet [OF i] by blast
  from account_of_wallet(4) [OF i(1) this] hold_le_held [OF _ hold]
  have "0 \<le> br_held_minor r + acc_available (abs_account db (br_wallet_id r))"
    by (auto simp: account_ok_def acc_available_def)
  then have "billing_state_inv (settled db r f g l, remove1 r R)"
    using settle_step [OF assms(1-5)] by simp
  moreover have "abs_account (settled db r f g l) = (abs_account db)(br_wallet_id r :=
      acct_release (br_usage_id r) (br_held_minor r) (abs_account db (br_wallet_id r)))"
    unfolding settled_account [OF i assms(3,4)] acct_release_fields ..
  ultimately show ?thesis using acct_step.acct_release [of _ _ "abs_account db" "br_wallet_id r", OF hold]
    by (simp only: r_into_rtranclp simp_thms)
qed

lemma reserve_step:
  assumes "billing_state_inv (db, R)" and "reserves db r hold db'" and "0 \<le> hold"
  shows "billing_state_inv (db', r # R) \<and> acct_step\<^sup>*\<^sup>* (abs_account db) (abs_account db')"
proof -
  from assms(1) have inv: "list_all (reserved db) R" "distinct (map br_usage_id R)"
    by (simp_all add: billing_state_inv_def)
  note eff = assms(2) [unfolded reserves_def]
  have "reserved db' x" if "x \<in> set R" for x
    using that inv(1) eff by (auto simp: list_all_iff reserved_def wallet_holds_in)
  moreover have "br_usage_id r \<notin> br_usage_id ` set R"
    using inv(1) eff reserved_known unfolding list_all_iff by (metis imageE)
  ultimately have "billing_state_inv (db', r # R)"
    using eff inv(2) by (auto simp: billing_state_inv_def list_all_iff)
  moreover have "acct_step (abs_account db) (abs_account db')"
    using eff assms(3) acct_step.acct_reserve [of hold "abs_account db" "br_wallet_id r" "br_usage_id r"]
    by metis
  ultimately show ?thesis by auto
qed

lemma billing_step_simulates:
  assumes "billing s s'" and "billing_state_inv s"
  shows "billing_state_inv s' \<and> acct_step\<^sup>*\<^sup>* (abs_account (fst s)) (abs_account (fst s'))"
  using assms
proof (induction rule: billing.induct)
  case (reserves env caller m rid endpoint hold payload key db r db' R)
  then have "billing_inv db" by (simp add: billing_state_inv_def)
  from reserve_effect [OF this reserves(2,1)] have "reserves db r hold db'" by (simp add: reserves_def)
  with reserve_step [OF reserves(3)] reserves(2) show ?case by simp
next
  case (refuses env caller m rid endpoint hold payload key db e db' R)
  then have "db' = db"
    by (auto simp: reserve_wallet_and_create_usage_def Let_def commit_def split: sum.splits)
  with refuses show ?case by simp
next
  case (captures r R env m st prid us charge body db x db')
  then have i: "billing_inv db" "reserved db r" by (auto simp: billing_state_inv_def list_all_iff)
  from capture_settles [OF i, of env m st prid us charge body] captures(2)
    capture_step [OF captures(3,1), of _ charge]
  show ?case by force
next
  case (releases r R env e st prid body' reason db x db')
  then have i: "billing_inv db" "reserved db r" by (auto simp: billing_state_inv_def list_all_iff)
  from release_settles [OF i, of env e st prid body' reason] releases(2) release_step [OF releases(3,1)]
  show ?case by force
next
  case (adjusts env admin customer amount why md db y db' R)
  with admin_rebalances(1) [of db env admin customer amount why md] rebalances_step [of db R db']
  show ?case by (simp add: billing_state_inv_def)
next
  case (quota env admin customer limit db z db' R)
  with admin_rebalances(2) [of db env admin customer limit] rebalances_step [of db R db']
  show ?case by (simp add: billing_state_inv_def)
next
  case (access env admin customer enabled db z db' R)
  with admin_rebalances(3) [of db env admin customer enabled] rebalances_step [of db R db']
  show ?case by (simp add: billing_state_inv_def)
qed

lemma billing_simulates:
  assumes "billing\<^sup>*\<^sup>* s s'" and "billing_state_inv s"
  shows "billing_state_inv s' \<and> acct_step\<^sup>*\<^sup>* (abs_account (fst s)) (abs_account (fst s'))"
  using assms
proof (induction rule: rtranclp_induct)
  case (step y z)
  then show ?case using billing_step_simulates [OF step(2)] by (meson rtranclp_trans)
qed simp

lemma accounts_ok: "billing_inv db \<Longrightarrow> account_ok (abs_account db i)"
proof (cases "wallet_by_id i (ai_wallets db)")
  case None
  assume "billing_inv db"
  moreover have "i \<notin> wal_id ` set (ai_wallets db)" using None wt.get_None by blast
  ultimately have "wallet_holds i (ai_usages db) = {#}" by (rule no_wallet_no_holds)
  with None show ?thesis by (simp add: abs_account_def wallet_balance_def account_ok_def acc_held_def)
qed (rule account_of_wallet(4))


text \<open>A customer with a funded wallet, its caller, and its request for a chat.\<close>

definition sample_caller :: gateway_caller where
  "sample_caller = \<lparr>gc_tenant_id = 1, gc_app_id = None, gc_customer_id = 7, gc_api_key_id = None,
     gc_rate_limit_key = ''k'', gc_api_key_daily_spend_limit_minor = None, gc_source = ''client''\<rparr>"

definition funded_wallet :: "i64 \<Rightarrow> wallet" where
  "funded_wallet held = \<lparr>wal_id = 11, wal_tenant_id = 1, wal_customer_id = 7, wal_currency = ''CNY'',
     wal_balance_minor = 1000, wal_held_minor = held, wal_ai_enabled = True,
     wal_daily_spend_limit_minor = None, wal_updated_at = 50\<rparr>"

definition funded_db :: ai_db where
  "funded_db = empty_ai_db\<lparr>
     ai_customers := [\<lparr>aic_tenant_id = 1, aic_id = 7, aic_email = None, aic_name = None, aic_deleted_at = None\<rparr>],
     ai_wallets := [funded_wallet 0]\<rparr>"

definition sample_reservation :: billing_reservation where
  "sample_reservation = \<lparr>br_usage_id = 21, br_wallet_id = 11, br_held_minor = 104\<rparr>"

lemma funded_inv: "billing_inv funded_db"
  by (simp add: billing_inv_def funded_db_def empty_ai_db_def wallet_check_def funded_wallet_def in_i64_def
      currency_check_def byte_def acc_held_def abs_account_def wallet_holds_def)

lemma sample_reserve:
  "\<exists>db'. reserve_wallet_and_create_usage sample_ai_env sample_caller sample_model ''req''
     ''chat'' 104 sample_payload None funded_db = (Inr sample_reservation, db')"
proof -
  let ?db = "funded_db\<lparr>ai_wallets := [funded_wallet 104]\<rparr>"
  have ensure: "ensure_wallet_exists sample_ai_env (gateway_db_error sample_ai_env) 1 7 funded_db = Inr ((), funded_db)"
    by (simp add: ensure_wallet_exists_def funded_db_def funded_wallet_def)
  have find: "find_wallet_for_update (gateway_db_error sample_ai_env) 1 7 funded_db = Inr (funded_wallet 0, funded_db)"
    by (simp add: find_wallet_for_update_def funded_db_def funded_wallet_def tx_read_def ok_or_def)
  have checks: "reserve_checks (funded_wallet 0) sample_model 104 = Inr ()"
    by (simp add: reserve_checks_def ensure_wallet_ai_enabled_def funded_wallet_def sample_model_def
        rs_bind_def i64_sub_def in_i64_def)
  have limits: "ensure_daily_spend_limits sample_ai_env sample_caller sample_model (funded_wallet 0) 104 funded_db
      = Inr ((), funded_db)"
    by (simp add: ensure_daily_spend_limits_def Let_def check_daily_limit_def funded_wallet_def sample_caller_def
        sample_model_def tx_bind_def tx_return_def)
  have hold: "update_wallet_hold sample_ai_env (gateway_db_error sample_ai_env) 1 11 104 funded_db
      = Inr (funded_wallet 104, ?db)"
    by (simp add: update_wallet_hold_def update_wallet_def update_returning_def funded_db_def funded_wallet_def
        wallet_check_def in_i64_def currency_check_def byte_def sample_ai_env_def update_where_def)
  have usage: "\<exists>us. insert_usage_record sample_ai_env 21 sample_caller sample_model 11 ''req'' ''chat'' 104
      sample_payload None ?db = Inr ((), ?db\<lparr>ai_usages := us\<rparr>)"
    by (simp add: insert_usage_record_def insert_usage_def insert_row_def usage_check_def in_i64_def
        price_snapshot_def funded_db_def empty_ai_db_def)
  then obtain us where us: "insert_usage_record sample_ai_env 21 sample_caller sample_model 11 ''req'' ''chat'' 104
      sample_payload None ?db = Inr ((), ?db\<lparr>ai_usages := us\<rparr>)" ..
  have w: "wallet_check (funded_wallet 104)"
    by (simp add: funded_wallet_def wallet_check_def in_i64_def currency_check_def byte_def)
  let ?md = "JObject [(''source'', JString (gc_source sample_caller)),
     (''api_key_id'', uuid_json sample_ai_env (gc_api_key_id sample_caller)), (''model'', JString (gm_code sample_model))]"
  have "\<exists>db'. insert_wallet_ledger_entry sample_ai_env (gateway_db_error sample_ai_env) 1
      (funded_wallet 104) ''hold'' 104 reason_hold 21 ?md (?db\<lparr>ai_usages := us\<rparr>) = Inr ((), db')"
    using ledger_entry_of_wallet [OF w, of 104 ?md "''hold''" sample_ai_env "gateway_db_error sample_ai_env" 1
        reason_hold 21 "?db\<lparr>ai_usages := us\<rparr>"] by auto
  then obtain db' where ledger: "insert_wallet_ledger_entry sample_ai_env (gateway_db_error sample_ai_env) 1
      (funded_wallet 104) ''hold'' 104 reason_hold 21 ?md (?db\<lparr>ai_usages := us\<rparr>) = Inr ((), db')" ..
  have caller: "gc_tenant_id sample_caller = 1" "gc_customer_id sample_caller = 7"
    "ae_usage_id sample_ai_env = 21" "wal_id (funded_wallet 0) = 11" "0 < (104::int)"
    by (simp_all add: sample_caller_def sample_ai_env_def funded_wallet_def)
  have "reserve_wallet_and_create_usage sample_ai_env sample_caller sample_model ''req''
     ''chat'' 104 sample_payload None funded_db = (Inr sample_reservation, db')"
    unfolding reserve_wallet_and_create_usage_def reserve_tx_def Let_def commit_Inr caller if_P [OF caller(5)]
    by (rule tx_bindI, rule ensure, rule tx_bindI, rule find, rule tx_bindI, simp add: checks tx_of_def,
        rule tx_bindI, rule limits, rule tx_bindI, simp only: caller, rule hold, rule tx_bindI, simp only: caller,
        rule us, rule tx_bindI, rule ledger, simp add: tx_return_def sample_reservation_def caller)
  then show ?thesis by blast
qed


section \<open>Properties\<close>

text \<open>
  C7. Interleaved reservations, captures, releases and administrative changes of the wallets
  are steps of the abstract accounts: from a consistent database every run is a run of the
  accounts, the amount held in a wallet stays the sum of its open reservations, each waiting
  request keeps exactly one open usage record with the amount it reserved, and no account ever
  holds more than its balance.
\<close>

theorem billing_refines_accounts:
  assumes "billing\<^sup>*\<^sup>* (db, []) (db', R)" and "billing_inv db"
  shows "acct_step\<^sup>*\<^sup>* (abs_account db) (abs_account db') \<and> (\<forall>i. account_ok (abs_account db' i))
     \<and> list_all (\<lambda>w. wal_held_minor w = acc_held (abs_account db' (wal_id w))) (ai_wallets db')
     \<and> list_all (reserved db') R \<and> distinct (map br_usage_id R)"
  using billing_simulates [OF assms(1)] assms(2) accounts_ok
  by (auto simp: billing_state_inv_def billing_inv_def)

text \<open>
  C8. No request gets stuck with its reservation: in every state a run can reach, each waiting
  reservation can be captured, whatever the charge and the response, and can be released,
  whatever the error.
\<close>

theorem reservations_settle:
  assumes "billing\<^sup>*\<^sup>* (db, []) (db', R)" and "billing_inv db" and "r \<in> set R"
  shows "fst (capture_usage env r m status prid usage charge body db') = Inr ()
     \<and> fst (release_usage env e r status prid response reason db') = Inr ()"
proof -
  from billing_simulates [OF assms(1)] assms(2,3) have "billing_inv db'" "reserved db' r"
    by (auto simp: billing_state_inv_def list_all_iff)
  from capture_settles [OF this] release_settles [OF this] show ?thesis by (metis fst_conv)
qed


theorem billing_refines_accounts_witness:
  "\<exists>db' R. R \<noteq> [] \<and> acct_step\<^sup>*\<^sup>* (abs_account funded_db) (abs_account db')
     \<and> list_all (reserved db') R \<and> account_ok (abs_account db' 11)"
proof -
  obtain db' where "billing (funded_db, []) (db', [sample_reservation])"
    using billing.reserves sample_reserve by fastforce
  from billing_refines_accounts [OF r_into_rtranclp [where r = billing, OF this] funded_inv] show ?thesis by blast
qed

theorem reservations_settle_witness:
  "\<exists>db'. fst (capture_usage sample_ai_env sample_reservation sample_model 200 None
       \<lparr>tu_prompt_tokens = None, tu_completion_tokens = None, tu_total_tokens = None\<rparr> 5000 JNull db') = Inr ()
     \<and> ai_usages db' \<noteq> []"
proof -
  obtain db' where r: "reserve_wallet_and_create_usage sample_ai_env sample_caller sample_model ''req''
     ''chat'' 104 sample_payload None funded_db = (Inr sample_reservation, db')" using sample_reserve by blast
  then have "billing (funded_db, []) (db', [sample_reservation])" by (rule billing.reserves) simp
  from reservations_settle [OF r_into_rtranclp [where r = billing, OF this] funded_inv]
  have "fst (capture_usage sample_ai_env sample_reservation sample_model 200 None
       \<lparr>tu_prompt_tokens = None, tu_completion_tokens = None, tu_total_tokens = None\<rparr> 5000 JNull db') = Inr ()"
    by simp
  moreover have "ai_usages db' \<noteq> []" using reserve_effect [OF funded_inv _ r] by auto
  ultimately show ?thesis by blast
qed

end
