(* ===== verification/Gateway.thy ===== *)
theory Gateway
  imports BillingRuns Assets Sessions
begin

text \<open>
  The handlers of the AI gateway (\<open>modules/ai/gateway.rs\<close>): limit the rate, look for the
  response of an earlier request with the same idempotency key, check the model and the
  request, hold the estimate, forward the request to the provider, and capture or release the
  hold with its response.

  \<open>provider_services\<close> is what lies outside: the parsers of \<open>serde_json\<close>, \<open>http\<close>'s header names
  and values, and the provider behind \<open>reqwest\<close>. Counters and durations of \<open>metrics\<close> are not
  part of the state.
\<close>

record http_reply =
  hr_status :: nat
  hr_request_id :: "string option option"
  hr_provider_request_id :: "string option option"
  hr_text :: "string + string"

record provider_services =
  ps_crypto :: crypto_lib
  ps_master_key :: string
  ps_parse_envelope :: "string \<Rightarrow> string + private_key_envelope"
  ps_parse_json :: "string \<Rightarrow> string + json"
  ps_header_name :: "string \<Rightarrow> string option"
  ps_header_value :: "string \<Rightarrow> bool"
  ps_client :: "int \<Rightarrow> string + unit"
  ps_post :: "string \<Rightarrow> (string \<times> string) list \<Rightarrow> json \<Rightarrow> string + http_reply"

record provider_response =
  pr_status :: nat
  pr_request_id :: "string option"
  pr_body :: json

record gateway_response =
  gr_status :: nat
  gr_body :: json
  gr_usage_id :: uuid


section \<open>The caller\<close>

record ai_api_key_context =
  akc_api_key_id :: uuid
  akc_tenant_id :: uuid
  akc_customer_id :: uuid
  akc_daily_spend_limit_minor :: "i64 option"

record server_api_key_context =
  skc_server_key_id :: uuid
  skc_tenant_id :: uuid
  skc_app_id :: uuid

definition from_api_key :: "ai_env \<Rightarrow> ai_api_key_context \<Rightarrow> gateway_caller" where
  "from_api_key env k =
     \<lparr>gc_tenant_id = akc_tenant_id k, gc_app_id = None, gc_customer_id = akc_customer_id k,
      gc_api_key_id = Some (akc_api_key_id k),
      gc_rate_limit_key = ''api_key:'' @ ae_uuid_text env (akc_api_key_id k),
      gc_api_key_daily_spend_limit_minor = akc_daily_spend_limit_minor k, gc_source = ''api_key''\<rparr>"

definition from_client_context :: "ai_env \<Rightarrow> client_context \<Rightarrow> app_error + gateway_caller" where
  "from_client_context env c =
     rs_bind (ok_or (ctx_customer_id c)
                (BusinessRuleFailed ''client session is not linked to a customer'')) (\<lambda>customer.
     Inr \<lparr>gc_tenant_id = ctx_tenant_id c, gc_app_id = None, gc_customer_id = customer,
       gc_api_key_id = None,
       gc_rate_limit_key = ''client:'' @ ae_uuid_text env customer @ '':'' @ ae_uuid_text env (ctx_device_id c),
       gc_api_key_daily_spend_limit_minor = None, gc_source = ''client_session''\<rparr>)"

definition from_server_key :: "ai_env \<Rightarrow> server_api_key_context \<Rightarrow> uuid \<Rightarrow> gateway_caller" where
  "from_server_key env k customer =
     \<lparr>gc_tenant_id = skc_tenant_id k, gc_app_id = Some (skc_app_id k), gc_customer_id = customer,
      gc_api_key_id = None,
      gc_rate_limit_key = ''server_key:'' @ ae_uuid_text env (skc_server_key_id k) @ '':customer:''
        @ ae_uuid_text env customer,
      gc_api_key_daily_spend_limit_minor = None, gc_source = ''server_key''\<rparr>"

definition gateway_endpoint :: "gateway_caller \<Rightarrow> string \<Rightarrow> string" where
  "gateway_endpoint caller e = (if gc_source caller = ''server_key'' then ''/api/server/ai'' @ e else e)"

definition check_gateway_rate_limit :: "ai_env \<Rightarrow> gateway_caller \<Rightarrow> unit ai_io" where
  "check_gateway_rate_limit env caller db =
     (case check_fixed_window (ae_fault env) (ae_now env) (ai_gateway_key (gc_rate_limit_key caller))
             (ae_rate_limit_max env) (ae_rate_limit_window_seconds env) rate_limited (ai_redis db) of
        (r, rd) \<Rightarrow> (r, db\<lparr>ai_redis := rd\<rparr>))"


section \<open>Replaying a response\<close>

text \<open>\<open>StatusCode::from_u16\<close> takes three digits.\<close>

definition parse_u16 :: "string \<Rightarrow> nat option" where
  "parse_u16 s =
     (if s \<noteq> [] \<and> hd s = CHR ''-'' then None
      else
        (case parse_i64 s of
           Some n \<Rightarrow> if n < 65536 then Some (nat n) else None
         | None \<Rightarrow> None))"

definition status_code :: "nat \<Rightarrow> nat option" where
  "status_code n = (if 100 \<le> n \<and> n \<le> 999 then Some n else None)"

definition same_request :: "gateway_caller \<Rightarrow> string \<Rightarrow> string \<Rightarrow> usage_record \<Rightarrow> bool" where
  "same_request caller endpoint key u \<longleftrightarrow>
     usr_tenant_id u = gc_tenant_id caller \<and> usr_customer_id u = Some (gc_customer_id caller)
     \<and> usr_api_key_id u = gc_api_key_id caller \<and> usr_endpoint u = endpoint
     \<and> usr_idempotency_key u = Some key"

definition replay :: "usage_record \<Rightarrow> app_error + gateway_response option" where
  "replay u =
     (if usr_status u = ''pending'' \<or> usr_status u = ''running''
        then Inl (Conflict ''ai idempotent request is still running'')
      else
        (case usr_provider_raw_response u of
           None \<Rightarrow> Inl (Conflict ''ai idempotent request completed without reusable provider response'')
         | Some body \<Rightarrow>
             Inr (Some \<lparr>gr_status = (case Option.bind (Option.bind (usr_provider_status u) parse_u16) status_code of
                            None \<Rightarrow> 502 | Some s \<Rightarrow> s),
                        gr_body = body, gr_usage_id = usr_id u\<rparr>)))"

definition find_idempotent_response ::
    "gateway_caller \<Rightarrow> string \<Rightarrow> string option \<Rightarrow> gateway_response option ai_io" where
  "find_idempotent_response caller endpoint key =
     io_read (\<lambda>db.
       case key of
         None \<Rightarrow> Inr None
       | Some k \<Rightarrow>
           (case first_by (\<lambda>u v. usr_created_at u > usr_created_at v)
                   (filter (same_request caller endpoint k) (ai_usages db)) of
              None \<Rightarrow> Inr None
            | Some u \<Rightarrow> replay u))"

definition load_gateway_model :: "ai_env \<Rightarrow> uuid \<Rightarrow> string \<Rightarrow> gateway_model ai_io" where
  "load_gateway_model env tenant code =
     io_read (\<lambda>db.
       ok_or (map_option mr_model
                (List.find (\<lambda>m. mr_tenant_id m = tenant \<and> ae_lower env (gm_code (mr_model m)) = ae_lower env code
                              \<and> mr_model_enabled m \<and> mr_provider_enabled m) (ai_models db)))
         (NotFound ''ai model not found or disabled''))"


section \<open>Forwarding to the provider\<close>

definition decrypt_provider_secret :: "provider_services \<Rightarrow> string option \<Rightarrow> app_error + json" where
  "decrypt_provider_secret ps encrypted =
     (case encrypted of
        None \<Rightarrow> Inr (JObject [])
      | Some s \<Rightarrow>
          (case ps_parse_envelope ps s of
             Inl e \<Rightarrow> Inl (Crypto (''ai provider secret envelope invalid: '' @ e))
           | Inr envelope \<Rightarrow>
               rs_bind (decrypt_bytes (ps_crypto ps) (ps_master_key ps) envelope) (\<lambda>plaintext.
               case ps_parse_json ps plaintext of
                 Inl e \<Rightarrow> Inl (Crypto (''ai provider secret plaintext invalid: '' @ e))
               | Inr v \<Rightarrow> Inr v)))"

definition reqwest_header_value :: "provider_services \<Rightarrow> string \<Rightarrow> app_error + string" where
  "reqwest_header_value ps v =
     (if ps_header_value ps v then Inr v
      else Inl (ValidationFailed ''ai provider header value is invalid''))"

fun append_headers ::
    "provider_services \<Rightarrow> (string \<times> string) list \<Rightarrow> (string \<times> json) list
      \<Rightarrow> app_error + (string \<times> string) list" where
  "append_headers ps headers [] = Inr headers"
| "append_headers ps headers ((k, v) # m) =
     rs_bind (ok_or (as_str v) (ValidationFailed ''ai provider header values must be strings'')) (\<lambda>s.
     rs_bind (ok_or (ps_header_name ps k) (ValidationFailed ''ai provider header name is invalid'')) (\<lambda>name.
     if name \<in> {''host'', ''content-length'', ''connection'', ''transfer-encoding''}
       then Inl (ValidationFailed ''ai provider header is not allowed'')
     else
       rs_bind (reqwest_header_value ps s) (\<lambda>value.
       append_headers ps (AList.update name value headers) m)))"

definition append_configured_headers ::
    "provider_services \<Rightarrow> (string \<times> string) list \<Rightarrow> json option \<Rightarrow> app_error + (string \<times> string) list"
  where
  "append_configured_headers ps headers value =
     (case value of Some (JObject m) \<Rightarrow> append_headers ps headers m | _ \<Rightarrow> Inr headers)"

definition provider_headers ::
    "provider_services \<Rightarrow> json \<Rightarrow> json \<Rightarrow> app_error + (string \<times> string) list" where
  "provider_headers ps secret config =
     rs_bind
       (case Option.bind (json_get ''api_key'' secret) as_str of
          Some k \<Rightarrow> reqwest_header_value ps (''Bearer '' @ trim k)
        | None \<Rightarrow>
            (case Option.bind (json_get ''authorization'' secret) as_str of
               Some a \<Rightarrow> reqwest_header_value ps (trim a)
             | None \<Rightarrow> Inl (ValidationFailed ''ai provider secret must include api_key or authorization'')))
       (\<lambda>authorization.
     rs_bind (append_configured_headers ps
        [(''content-type'', ''application/json''), (''authorization'', authorization)]
        (json_get ''headers'' config)) (\<lambda>headers.
     append_configured_headers ps headers (json_get ''headers'' secret)))"

definition non_json_response :: "nat \<Rightarrow> json" where
  "non_json_response status =
     JObject [(''error'', JObject [(''message'', JString ''provider returned non-json response''),
       (''type'', JString ''provider_error''), (''status'', num (int status))])]"

definition forward_openai_compatible_json ::
    "provider_services \<Rightarrow> gateway_model \<Rightarrow> json \<Rightarrow> string \<Rightarrow> app_error + provider_response" where
  "forward_openai_compatible_json ps m payload path =
     rs_bind (decrypt_provider_secret ps (gm_provider_secret_encrypted m)) (\<lambda>secret.
     rs_bind (provider_headers ps secret (gm_provider_config m)) (\<lambda>headers.
     rs_bind (provider_timeout (gm_provider_config m)) (\<lambda>timeout.
     let url = trim_end_matches ''/'' (gm_provider_base_url m) @ ''/'' @ trim_start_matches ''/'' path in
     rs_bind (provider_payload payload m) (\<lambda>outbound.
     case ps_client ps timeout of
       Inl e \<Rightarrow> Inl (Dependency (''ai provider client failed: '' @ e))
     | Inr _ \<Rightarrow>
         (case ps_post ps url headers outbound of
            Inl e \<Rightarrow> Inl (Dependency (''ai provider request failed: '' @ e))
          | Inr reply \<Rightarrow>
              (case hr_text reply of
                 Inl e \<Rightarrow> Inl (Dependency (''ai provider response failed: '' @ e))
               | Inr text \<Rightarrow>
                   Inr \<lparr>pr_status = hr_status reply,
                     pr_request_id = (case hr_request_id reply of
                        Some v \<Rightarrow> v
                      | None \<Rightarrow> (case hr_provider_request_id reply of Some v \<Rightarrow> v | None \<Rightarrow> None)),
                     pr_body = (case ps_parse_json ps text of
                        Inl _ \<Rightarrow> non_json_response (hr_status reply) | Inr v \<Rightarrow> v)\<rparr>))))))"

definition is_success :: "nat \<Rightarrow> bool" where
  "is_success status \<longleftrightarrow> 200 \<le> status \<and> status < 300"

definition provider_json_response :: "nat \<Rightarrow> json \<Rightarrow> uuid \<Rightarrow> gateway_response" where
  "provider_json_response status body usage =
     \<lparr>gr_status = (case status_code status of None \<Rightarrow> 502 | Some s \<Rightarrow> s), gr_body = body, gr_usage_id = usage\<rparr>"


section \<open>The handlers\<close>

text \<open>
  The four handlers have one shape. What they differ in: the paths, the check of the payload
  before and of the model after the model is loaded, the estimate, what is done with the files
  of the response, the tokens and the charge read from it, and the reasons in the ledger.
\<close>

record gateway_route =
  rt_endpoint :: string
  rt_precheck :: "json \<Rightarrow> app_error + unit"
  rt_validate :: "json \<Rightarrow> gateway_model \<Rightarrow> app_error + unit"
  rt_estimate :: "ai_env \<Rightarrow> json \<Rightarrow> gateway_model \<Rightarrow> app_error + i64"
  rt_provider_path :: string
  rt_cache :: "ai_env \<Rightarrow> asset_services \<Rightarrow> gateway_caller \<Rightarrow> uuid \<Rightarrow> json \<Rightarrow> ai_db
     \<Rightarrow> (app_error + unit) \<times> json \<times> ai_db"
  rt_usage :: "json \<Rightarrow> token_usage"
  rt_charge :: "gateway_model \<Rightarrow> json \<Rightarrow> i64 option"
  rt_cache_reason :: string
  rt_failed_reason :: string
  rt_error_reason :: string

text \<open>After the hold: the response of the provider settles it.\<close>

definition finish_request ::
    "ai_env \<Rightarrow> asset_services \<Rightarrow> gateway_route \<Rightarrow> gateway_caller \<Rightarrow> gateway_model \<Rightarrow> billing_reservation
      \<Rightarrow> app_error + provider_response \<Rightarrow> gateway_response ai_io" where
  "finish_request env sv rt caller m r result =
     (let e = gateway_db_error env in
      case result of
        Inl error \<Rightarrow>
          io_bind (release_usage env e r 0 None None (rt_error_reason rt)) (\<lambda>_. io_fail error)
      | Inr p \<Rightarrow>
          (if is_success (pr_status p) then
             (\<lambda>db.
                case rt_cache rt env sv caller (br_usage_id r) (pr_body p) db of
                  (Inl error, body, db) \<Rightarrow>
                    io_bind (release_usage env e r (int (pr_status p)) (pr_request_id p) (Some body)
                               (rt_cache_reason rt)) (\<lambda>_. io_fail error) db
                | (Inr _, body, db) \<Rightarrow>
                    (let charge = (case rt_charge rt m body of None \<Rightarrow> br_held_minor r | Some c \<Rightarrow> c) in
                     io_bind (capture_usage env r m (int (pr_status p)) (pr_request_id p) (rt_usage rt body)
                                charge body) (\<lambda>_.
                     io_return (provider_json_response (pr_status p) body (br_usage_id r))) db))
           else
             io_bind (release_usage env e r (int (pr_status p)) (pr_request_id p) (Some (pr_body p))
                        (rt_failed_reason rt)) (\<lambda>_.
             io_return (provider_json_response (pr_status p) (pr_body p) (br_usage_id r)))))"

definition open_request ::
    "ai_env \<Rightarrow> gateway_route \<Rightarrow> gateway_caller \<Rightarrow> string option \<Rightarrow> json
      \<Rightarrow> (gateway_model \<times> billing_reservation) ai_io" where
  "open_request env rt caller key payload =
     io_bind (io_of (rt_precheck rt payload)) (\<lambda>_.
     io_bind (io_of (requested_model_code payload)) (\<lambda>code.
     io_bind (load_gateway_model env (gc_tenant_id caller) code) (\<lambda>m.
     io_bind (io_of (rt_validate rt payload m)) (\<lambda>_.
     io_bind (io_of (rt_estimate rt env payload m)) (\<lambda>hold.
     io_bind (reserve_wallet_and_create_usage env caller m (ae_request_id env)
                (gateway_endpoint caller (rt_endpoint rt)) hold payload key) (\<lambda>r.
     io_return (m, r)))))))"

definition gateway_request ::
    "ai_env \<Rightarrow> asset_services \<Rightarrow> provider_services \<Rightarrow> gateway_route \<Rightarrow> gateway_caller
      \<Rightarrow> string option option \<Rightarrow> json \<Rightarrow> gateway_response ai_io" where
  "gateway_request env sv ps rt caller header payload =
     io_bind (check_gateway_rate_limit env caller) (\<lambda>_.
     io_bind (io_of (idempotency_key header)) (\<lambda>key.
     io_bind (find_idempotent_response caller (gateway_endpoint caller (rt_endpoint rt)) key) (\<lambda>response.
     case response of
       Some response \<Rightarrow> io_return response
     | None \<Rightarrow>
         io_bind (open_request env rt caller key payload) (\<lambda>(m, r).
         finish_request env sv rt caller m r
           (forward_openai_compatible_json ps m payload (rt_provider_path rt))))))"

definition no_cache ::
    "ai_env \<Rightarrow> asset_services \<Rightarrow> gateway_caller \<Rightarrow> uuid \<Rightarrow> json \<Rightarrow> ai_db \<Rightarrow> (app_error + unit) \<times> json \<times> ai_db"
  where
  "no_cache env sv caller usage body db = (Inr (), body, db)"

text \<open>The reasons are Chinese text: what failed, and that the hold is released.\<close>

definition reason_request_failed :: string where
  "reason_request_failed =
    utf8 [65, 73, 32, 232, 175, 183, 230, 177, 130, 229, 164, 177, 232, 180, 165, 239, 188,
     140, 233, 135, 138, 230, 148, 190, 233, 162, 132, 230, 137, 163, 233, 135, 145,
     233, 162, 157]"

definition reason_request_error :: string where
  "reason_request_error =
    utf8 [65, 73, 32, 232, 175, 183, 230, 177, 130, 229, 188, 130, 229, 184, 184, 239, 188,
     140, 233, 135, 138, 230, 148, 190, 233, 162, 132, 230, 137, 163, 233, 135, 145,
     233, 162, 157]"

definition reason_image_cache :: string where
  "reason_image_cache =
    utf8 [65, 73, 32, 229, 155, 190, 231, 137, 135, 231, 188, 147, 229, 173, 152, 229, 164,
     177, 232, 180, 165, 239, 188, 140, 233, 135, 138, 230, 148, 190, 233, 162, 132,
     230, 137, 163, 233, 135, 145, 233, 162, 157]"

definition reason_image_failed :: string where
  "reason_image_failed =
    utf8 [65, 73, 32, 229, 155, 190, 231, 137, 135, 232, 175, 183, 230, 177, 130, 229, 164,
     177, 232, 180, 165, 239, 188, 140, 233, 135, 138, 230, 148, 190, 233, 162, 132,
     230, 137, 163, 233, 135, 145, 233, 162, 157]"

definition reason_image_error :: string where
  "reason_image_error =
    utf8 [65, 73, 32, 229, 155, 190, 231, 137, 135, 232, 175, 183, 230, 177, 130, 229, 188,
     130, 229, 184, 184, 239, 188, 140, 233, 135, 138, 230, 148, 190, 233, 162, 132,
     230, 137, 163, 233, 135, 145, 233, 162, 157]"

definition reason_video_cache :: string where
  "reason_video_cache =
    utf8 [65, 73, 32, 232, 167, 134, 233, 162, 145, 231, 188, 147, 229, 173, 152, 229, 164,
     177, 232, 180, 165, 239, 188, 140, 233, 135, 138, 230, 148, 190, 233, 162, 132,
     230, 137, 163, 233, 135, 145, 233, 162, 157]"

definition reason_video_failed :: string where
  "reason_video_failed =
    utf8 [65, 73, 32, 232, 167, 134, 233, 162, 145, 232, 175, 183, 230, 177, 130, 229, 164,
     177, 232, 180, 165, 239, 188, 140, 233, 135, 138, 230, 148, 190, 233, 162, 132,
     230, 137, 163, 233, 135, 145, 233, 162, 157]"

definition reason_video_error :: string where
  "reason_video_error =
    utf8 [65, 73, 32, 232, 167, 134, 233, 162, 145, 232, 175, 183, 230, 177, 130, 229, 188,
     130, 229, 184, 184, 239, 188, 140, 233, 135, 138, 230, 148, 190, 233, 162, 132,
     230, 137, 163, 233, 135, 145, 233, 162, 157]"

definition reason_embedding_failed :: string where
  "reason_embedding_failed =
    utf8 [65, 73, 32, 69, 109, 98, 101, 100, 100, 105, 110, 103, 115, 32, 232, 175, 183, 230,
     177, 130, 229, 164, 177, 232, 180, 165, 239, 188, 140, 233, 135, 138, 230, 148,
     190, 233, 162, 132, 230, 137, 163, 233, 135, 145, 233, 162, 157]"

definition reason_embedding_error :: string where
  "reason_embedding_error =
    utf8 [65, 73, 32, 69, 109, 98, 101, 100, 100, 105, 110, 103, 115, 32, 232, 175, 183, 230,
     177, 130, 229, 188, 130, 229, 184, 184, 239, 188, 140, 233, 135, 138, 230, 148,
     190, 233, 162, 132, 230, 137, 163, 233, 135, 145, 233, 162, 157]"

definition chat_route :: gateway_route where
  "chat_route = \<lparr>rt_endpoint = ''/v1/chat/completions'', rt_precheck = reject_streaming_request,
     rt_validate = (\<lambda>payload m. validate_model_for_chat m),
     rt_estimate = (\<lambda>env. estimate_hold_minor (ae_to_vec env)),
     rt_provider_path = ''chat/completions'', rt_cache = no_cache, rt_usage = token_usage_from_response,
     rt_charge = (\<lambda>m body. calculate_actual_charge_minor m (token_usage_from_response body)),
     rt_cache_reason = [], rt_failed_reason = reason_request_failed,
     rt_error_reason = reason_request_error\<rparr>"

definition image_route :: gateway_route where
  "image_route = \<lparr>rt_endpoint = ''/v1/images/generations'', rt_precheck = (\<lambda>payload. Inr ()),
     rt_validate = (\<lambda>payload m. rs_bind (validate_model_for_images m) (\<lambda>_.
       validate_image_payload payload (gm_pricing_config m) max_image_count)),
     rt_estimate = (\<lambda>env. estimate_image_hold_minor),
     rt_provider_path = ''images/generations'', rt_cache = cache_image_assets,
     rt_usage = (\<lambda>body. no_token_usage), rt_charge = calculate_image_charge_minor,
     rt_cache_reason = reason_image_cache, rt_failed_reason = reason_image_failed,
     rt_error_reason = reason_image_error\<rparr>"

definition video_route :: gateway_route where
  "video_route = \<lparr>rt_endpoint = ''/v1/videos/generations'', rt_precheck = (\<lambda>payload. Inr ()),
     rt_validate = (\<lambda>payload m. rs_bind (validate_model_for_videos m) (\<lambda>_.
       validate_video_payload payload (gm_pricing_config m))),
     rt_estimate = (\<lambda>env. estimate_video_hold_minor),
     rt_provider_path = ''videos/generations'', rt_cache = cache_video_assets,
     rt_usage = (\<lambda>body. no_token_usage), rt_charge = calculate_video_charge_minor,
     rt_cache_reason = reason_video_cache, rt_failed_reason = reason_video_failed,
     rt_error_reason = reason_video_error\<rparr>"

definition embedding_route :: gateway_route where
  "embedding_route = \<lparr>rt_endpoint = ''/v1/embeddings'', rt_precheck = (\<lambda>payload. Inr ()),
     rt_validate = (\<lambda>payload m. validate_model_for_embeddings m),
     rt_estimate = (\<lambda>env. estimate_embedding_hold_minor (ae_to_vec env)),
     rt_provider_path = ''embeddings'', rt_cache = no_cache, rt_usage = token_usage_from_response,
     rt_charge = (\<lambda>m body. calculate_embedding_charge_minor m (token_usage_from_response body)),
     rt_cache_reason = [], rt_failed_reason = reason_embedding_failed,
     rt_error_reason = reason_embedding_error\<rparr>"

type_synonym gateway_handler =
  "ai_env \<Rightarrow> asset_services \<Rightarrow> provider_services \<Rightarrow> gateway_caller \<Rightarrow> string option option \<Rightarrow> json
     \<Rightarrow> gateway_response ai_io"

definition chat_completions_for_caller :: gateway_handler where
  "chat_completions_for_caller env sv ps = gateway_request env sv ps chat_route"

definition image_generations_for_caller :: gateway_handler where
  "image_generations_for_caller env sv ps = gateway_request env sv ps image_route"

definition video_generations_for_caller :: gateway_handler where
  "video_generations_for_caller env sv ps = gateway_request env sv ps video_route"

definition embeddings_for_caller :: gateway_handler where
  "embeddings_for_caller env sv ps = gateway_request env sv ps embedding_route"

text \<open>The handlers for a client session: they need an active subscription and a customer.\<close>

definition for_client ::
    "gateway_handler \<Rightarrow> ai_env \<Rightarrow> asset_services \<Rightarrow> provider_services \<Rightarrow> client_context
      \<Rightarrow> string option option \<Rightarrow> json \<Rightarrow> gateway_response ai_io" where
  "for_client handler env sv ps client header payload =
     io_bind (io_of (ensure_active_subscription client)) (\<lambda>_.
     io_bind (io_of (from_client_context env client)) (\<lambda>caller.
     handler env sv ps caller header payload))"

definition client_chat_completions where
  "client_chat_completions = for_client chat_completions_for_caller"

definition client_image_generations where
  "client_image_generations = for_client image_generations_for_caller"

definition client_video_generations where
  "client_video_generations = for_client video_generations_for_caller"

definition client_embeddings where
  "client_embeddings = for_client embeddings_for_caller"

end
