(* ===== verification/Jobs.thy ===== *)
theory Jobs
  imports JobBilling Gateway
begin

text \<open>
  Generation jobs (\<open>modules/ai/jobs.rs\<close>): a server submits a job for a customer to the provider, a
  worker polls the provider until the job has an outcome, customers and administrators act on it in
  between. The callers are authenticated before; what a handler answers with is the job's row with
  the progress and results computed from it (the columns of the joined tables are left out).

  \<open>job_services\<close> is what lies outside: the provider behind \<open>reqwest\<close>, the services of \<open>Gateway\<close> and
  \<open>Assets\<close>, the text of floats and of HTTP statuses, and the application of a server key.
\<close>

datatype submit_body = JsonBody json | FormBody "(string \<times> string) list"

record job_services =
  js_provider :: provider_services
  js_assets :: asset_services
  js_float_text :: "rat \<Rightarrow> string"
  js_status_text :: "nat \<Rightarrow> string"
  js_parse_uuid :: "string \<Rightarrow> uuid option"
  js_key_app :: "uuid \<Rightarrow> uuid option"
  js_submit :: "string \<Rightarrow> (string \<times> string) list \<Rightarrow> submit_body \<Rightarrow> string + http_reply"
  js_detail_get :: "string \<Rightarrow> (string \<times> string) list \<Rightarrow> string \<times> string \<Rightarrow> string + http_reply"
  js_detail_post :: "string \<Rightarrow> (string \<times> string) list \<Rightarrow> json \<Rightarrow> string + http_reply"

definition reason_job_submit_failed :: string where
  "reason_job_submit_failed = utf8 [65, 73, 32, 231, 148, 159, 230, 136, 144, 228, 187, 187, 229,
     138, 161, 230, 143, 144, 228, 186, 164, 229, 164, 177, 232, 180, 165, 239, 188, 140, 233,
     135, 138, 230, 148, 190, 233, 162, 132, 230, 137, 163, 233, 135, 145, 233, 162, 157]"

definition reason_no_provider_job :: string where
  "reason_no_provider_job = utf8 [65, 73, 32, 231, 148, 159, 230, 136, 144, 228, 187, 187, 229,
     138, 161, 231, 188, 186, 229, 176, 145, 231, 172, 172, 228, 184, 137, 230, 150, 185, 228,
     187, 187, 229, 138, 161, 32, 73, 68]"

definition reason_provider_failed :: string where
  "reason_provider_failed = utf8 [65, 73, 32, 231, 148, 159, 230, 136, 144, 228, 187, 187, 229,
     138, 161, 231, 172, 172, 228, 184, 137, 230, 150, 185, 232, 191, 148, 229, 155, 158, 229,
     164, 177, 232, 180, 165]"

definition default_cancel_reason :: string where
  "default_cancel_reason = utf8 [87, 101, 98, 32, 229, 144, 142, 231, 171, 175, 229, 143, 150,
     230, 182, 136, 32, 65, 73, 32, 231, 148, 159, 230, 136, 144, 228, 187, 187, 229, 138, 161]"

definition default_web_retry_reason :: string where
  "default_web_retry_reason = utf8 [87, 101, 98, 32, 229, 144, 142, 231, 171, 175, 233, 135, 141,
     230, 150, 176, 230, 159, 165, 232, 175, 162, 32, 65, 73, 32, 231, 148, 159, 230, 136, 144,
     228, 187, 187, 229, 138, 161]"

definition default_retry_poll_reason :: string where
  "default_retry_poll_reason = utf8 [229, 144, 142, 229, 143, 176, 233, 135, 141, 230, 150, 176,
     230, 159, 165, 232, 175, 162, 231, 172, 172, 228, 184, 137, 230, 150, 185, 228, 187, 187,
     229, 138, 161]"

definition default_retry_cache_reason :: string where
  "default_retry_cache_reason = utf8 [229, 144, 142, 229, 143, 176, 233, 135, 141, 230, 150, 176,
     231, 188, 147, 229, 173, 152, 231, 148, 159, 230, 136, 144, 231, 180, 160, 230, 157, 144]"

definition default_fail_reason :: string where
  "default_fail_reason = utf8 [229, 144, 142, 229, 143, 176, 230, 160, 135, 232, 174, 176, 229,
     164, 177, 232, 180, 165, 229, 185, 182, 233, 135, 138, 230, 148, 190, 233, 162, 132, 230,
     137, 163]"

definition default_refund_reason :: string where
  "default_refund_reason = utf8 [229, 144, 142, 229, 143, 176, 228, 186, 186, 229, 183, 165, 233,
     128, 128, 230, 172, 190]"


section \<open>Calling the provider\<close>

definition reqwest_header_name :: "provider_services \<Rightarrow> string \<Rightarrow> app_error + string" where
  "reqwest_header_name ps v =
     rs_bind (ok_or (ps_header_name ps v) (ValidationFailed ''ai provider header name is invalid'')) (\<lambda>name.
     if name \<in> {''host'', ''content-length'', ''connection'', ''transfer-encoding''}
       then Inl (ValidationFailed ''ai provider header is not allowed'')
     else Inr name)"

definition secret_or_config :: "string \<Rightarrow> json \<Rightarrow> json \<Rightarrow> string \<Rightarrow> string" where
  "secret_or_config k config secret fallback =
     (case Option.bind (or_else (json_get k config) (json_get k secret)) as_str of
        None \<Rightarrow> fallback | Some s \<Rightarrow> s)"

definition job_provider_headers ::
    "provider_services \<Rightarrow> json \<Rightarrow> json \<Rightarrow> app_error + (string \<times> string) list" where
  "job_provider_headers ps secret config =
     (let base = [(''content-type'', ''application/json'')] in
      rs_bind
        (case config_str secret ''api_key'' of
           Some k \<Rightarrow>
             (let scheme = trim (secret_or_config ''auth_scheme'' config secret []);
                  value = (if scheme = [] then trim k else scheme @ '' '' @ trim k) in
              rs_bind (reqwest_header_name ps
                         (secret_or_config ''api_key_header'' config secret ''authorization'')) (\<lambda>name.
              rs_bind (reqwest_header_value ps value) (\<lambda>v. Inr (AList.update name v base))))
         | None \<Rightarrow>
             (case config_str secret ''authorization'' of
                Some a \<Rightarrow>
                  rs_bind (reqwest_header_value ps (trim a)) (\<lambda>v. Inr (AList.update ''authorization'' v base))
              | None \<Rightarrow>
                  Inl (ValidationFailed ''ai provider secret must include api_key or authorization'')))
        (\<lambda>headers.
      rs_bind (append_configured_headers ps headers (json_get ''headers'' config)) (\<lambda>headers.
      append_configured_headers ps headers (json_get ''headers'' secret))))"

definition provider_url :: "string \<Rightarrow> string \<Rightarrow> string" where
  "provider_url base path = trim_end_matches ''/'' base @ ''/'' @ trim_start_matches ''/'' path"

definition response_json :: "provider_services \<Rightarrow> http_reply \<Rightarrow> app_error + json" where
  "response_json ps reply =
     (case hr_text reply of
        Inl e \<Rightarrow> Inl (Dependency (''ai provider response failed: '' @ e))
      | Inr text \<Rightarrow>
          Inr (case ps_parse_json ps text of
                 Inl _ \<Rightarrow> non_json_response (hr_status reply) | Inr v \<Rightarrow> v))"

definition provider_request_id_from_headers :: "http_reply \<Rightarrow> string option" where
  "provider_request_id_from_headers reply =
     (case hr_request_id reply of
        Some v \<Rightarrow> v
      | None \<Rightarrow> (case hr_provider_request_id reply of Some v \<Rightarrow> v | None \<Rightarrow> None))"

text \<open>The secret, the headers and the client, before the request is sent.\<close>

definition open_provider ::
    "job_services \<Rightarrow> string option \<Rightarrow> json \<Rightarrow> app_error + (string \<times> string) list \<times> int" where
  "open_provider js secret config =
     rs_bind (decrypt_provider_secret (js_provider js) secret) (\<lambda>secret.
     rs_bind (job_provider_headers (js_provider js) secret config) (\<lambda>headers.
     rs_bind (provider_timeout config) (\<lambda>timeout. Inr (headers, timeout))))"

definition provider_client :: "job_services \<Rightarrow> int \<Rightarrow> app_error + unit" where
  "provider_client js timeout =
     (case ps_client (js_provider js) timeout of
        Inl e \<Rightarrow> Inl (Dependency (''ai provider client failed: '' @ e))
      | Inr _ \<Rightarrow> Inr ())"

definition provider_answer ::
    "job_services \<Rightarrow> string \<Rightarrow> string + http_reply \<Rightarrow> app_error + http_reply \<times> json" where
  "provider_answer js what result =
     (case result of
        Inl e \<Rightarrow> Inl (Dependency (''ai provider request failed: '' @ e))
      | Inr reply \<Rightarrow>
          rs_bind (response_json (js_provider js) reply) (\<lambda>body.
          if \<not> is_success (hr_status reply)
            then Inl (Dependency (''ai provider '' @ what @ '' failed: status '' @ js_status_text js (hr_status reply)))
          else Inr (reply, body)))"

record provider_submit_result =
  sub_provider_job_id :: string
  sub_provider_request_id :: "string option"
  sub_status :: "string option"
  sub_body :: json

definition submit_wuyin_generation_job ::
    "ai_env \<Rightarrow> job_services \<Rightarrow> gateway_model \<Rightarrow> string \<Rightarrow> json \<Rightarrow> app_error + provider_submit_result" where
  "submit_wuyin_generation_job env js m type payload =
     rs_bind (open_provider js (gm_provider_secret_encrypted m) (gm_provider_config m)) (\<lambda>(headers, timeout).
     rs_bind (provider_submit_path m type) (\<lambda>path.
     rs_bind (wuyin_submit_payload payload m) (\<lambda>outbound.
     let form = is_form_format (provider_request_format m);
         headers = (if form then AList.update ''content-type'' ''application/x-www-form-urlencoded'' headers
                    else headers);
         url = provider_url (gm_provider_base_url m) path in
     rs_bind (provider_client js timeout) (\<lambda>_.
     rs_bind (if form
              then rs_bind (value_to_string_form (js_float_text js) (ae_to_vec env) outbound) (\<lambda>f. Inr (FormBody f))
              else Inr (JsonBody outbound)) (\<lambda>body.
     rs_bind (provider_answer js ''submit'' (js_submit js url headers body)) (\<lambda>(reply, answer).
     rs_bind (provider_job_id_from_body (js_float_text js) answer) (\<lambda>i.
     Inr \<lparr>sub_provider_job_id = i, sub_provider_request_id = provider_request_id_from_headers reply,
          sub_status = provider_status_string (js_float_text js) answer, sub_body = answer\<rparr>)))))))"

definition unsupported_provider :: app_error where
  "unsupported_provider = ValidationFailed ''ai async generation provider is not supported''"

definition submit_provider_generation_job ::
    "ai_env \<Rightarrow> job_services \<Rightarrow> gateway_model \<Rightarrow> string \<Rightarrow> json \<Rightarrow> app_error + provider_submit_result" where
  "submit_provider_generation_job env js m type payload =
     (if gm_provider_kind m = ''wuyin_keji'' then submit_wuyin_generation_job env js m type payload
      else Inl unsupported_provider)"

record provider_poll_result =
  poll_status :: provider_job_status
  poll_provider_status :: "string option"
  poll_body :: json
  poll_asset_urls :: "string list"
  poll_failure_reason :: "string option"

definition config_text :: "json \<Rightarrow> string list \<Rightarrow> string \<Rightarrow> string" where
  "config_text config keys fallback =
     (case Option.bind (first_key config keys) as_str of None \<Rightarrow> fallback | Some s \<Rightarrow> s)"

definition poll_wuyin_generation_job ::
    "job_services \<Rightarrow> provider_row \<Rightarrow> string \<Rightarrow> app_error + provider_poll_result" where
  "poll_wuyin_generation_job js p provider_job_id =
     (let config = prv_config p; ft = js_float_text js in
      rs_bind (open_provider js (prv_secret_encrypted p) config) (\<lambda>(headers, timeout).
      let path = config_text config [''detail_path'', ''query_path''] ''/api/async/detail'';
          id_field = config_text config [''detail_id_field'', ''query_id_field''] ''id'';
          detail_method = to_ascii_uppercase (trim (config_text config [''detail_method'', ''query_method''] ''GET''));
          url = provider_url (prv_base_url p) path in
      rs_bind (provider_client js timeout) (\<lambda>_.
      rs_bind (if detail_method = ''GET'' then Inr (js_detail_get js url headers (id_field, provider_job_id))
               else if detail_method = ''POST''
                 then Inr (js_detail_post js url headers (JObject [(id_field, JString provider_job_id)]))
               else Inl (ValidationFailed ''ai provider detail method must be GET or POST'')) (\<lambda>result.
      rs_bind (provider_answer js ''detail'' result) (\<lambda>(reply, body).
      let status = wuyin_status_from_body body in
      Inr \<lparr>poll_status = status, poll_provider_status = provider_status_string ft body, poll_body = body,
           poll_asset_urls = (if status = Succeeded then collect_asset_urls (js_assets js) body else []),
           poll_failure_reason = provider_failure_reason ft body\<rparr>)))))"

definition poll_provider_generation_job ::
    "job_services \<Rightarrow> provider_row \<Rightarrow> string \<Rightarrow> app_error + provider_poll_result" where
  "poll_provider_generation_job js p i =
     (if prv_kind p = ''wuyin_keji'' then poll_wuyin_generation_job js p i else Inl unsupported_provider)"


section \<open>The files of a job\<close>

definition max_audio_asset_bytes :: nat where "max_audio_asset_bytes = 104857600"

definition job_extension_for_mime :: "string \<Rightarrow> string" where
  "job_extension_for_mime m = (if m = ''audio/ogg'' then ''ogg'' else web_extension_for_mime m)"

definition field_or :: "string \<Rightarrow> json \<Rightarrow> json \<Rightarrow> json" where
  "field_or k v fallback = (case json_get k v of Some x \<Rightarrow> x | None \<Rightarrow> fallback)"

definition job_asset_metadata :: "ai_env \<Rightarrow> generation_job \<Rightarrow> uuid \<Rightarrow> string option \<Rightarrow> json \<Rightarrow> json" where
  "job_asset_metadata env job usage source_url asset_metadata =
     (let input = field_or ''entitlehub_input'' (job_request_payload job) (JObject []) in
      merge_object_json
        (JObject [(''hasFirstFrame'', field_or ''hasFirstFrame'' input (JBool False)),
           (''hasLastFrame'', field_or ''hasLastFrame'' input (JBool False)), (''input'', input),
           (''job_id'', uuid_json env (Some (job_id job))), (''provider_url'', opt_text source_url),
           (''referenceCount'', field_or ''referenceCount'' input (num 0)),
           (''source'', JString ''ai_generation_job''),
           (''sourceMode'', field_or ''sourceMode'' input (JString (job_type job))),
           (''usage_id'', uuid_json env (Some usage))]) asset_metadata)"

definition store_job_asset ::
    "ai_env \<Rightarrow> job_services \<Rightarrow> worker_job \<Rightarrow> uuid \<Rightarrow> string \<Rightarrow> string option \<Rightarrow> json \<Rightarrow> string \<Rightarrow> string
      \<Rightarrow> string ai_io" where
  "store_job_asset env js wj usage type source_url asset_metadata mime bytes =
     (let job = wj_job wj in
      store_asset env (js_assets js) (job_db_error env) job_extension_for_mime (job_tenant_id job)
        (wj_app_id wj) (job_customer_id job) (Some (job_id job)) usage type source_url
        (job_asset_metadata env job usage source_url asset_metadata) mime bytes)"

fun cache_generation_urls ::
    "ai_env \<Rightarrow> job_services \<Rightarrow> worker_job \<Rightarrow> uuid \<Rightarrow> string \<Rightarrow> nat \<Rightarrow> json \<Rightarrow> string list \<Rightarrow> string list ai_io"
  where
  "cache_generation_urls env js wj usage type max_bytes body [] = io_return []"
| "cache_generation_urls env js wj usage type max_bytes body (url # urls) =
     (let metadata = provider_asset_metadata (js_float_text js) body url in
      io_bind (io_of (download_provider_asset (js_assets js) url max_bytes)) (\<lambda>a.
      io_bind (store_job_asset env js wj usage type (Some url) metadata (da_mime_type a) (da_bytes a)) (\<lambda>u.
      io_bind (cache_generation_urls env js wj usage type max_bytes body urls) (\<lambda>us.
      io_return (u # us)))))"

definition cache_generation_assets ::
    "ai_env \<Rightarrow> job_services \<Rightarrow> worker_job \<Rightarrow> string \<Rightarrow> string list \<Rightarrow> json \<Rightarrow> string list ai_io" where
  "cache_generation_assets env js wj type urls body =
     io_bind (io_of (ok_or (job_usage_id (wj_job wj)) (Dependency ''ai generation usage id missing''))) (\<lambda>usage.
     if urls = []
       then io_fail (Dependency ''ai generation response did not include cacheable asset urls'')
     else
       cache_generation_urls env js wj usage type
         (if type = ''video'' then max_video_asset_bytes
          else if type = ''audio'' then max_audio_asset_bytes
          else max_image_asset_bytes) body urls)"


section \<open>What a handler answers with\<close>

definition job_progress :: "string \<Rightarrow> i64" where
  "job_progress status =
     (if status \<in> {''succeeded'', ''failed'', ''cancelled'', ''refunded''} then 100
      else if status = ''caching'' then 90
      else if status = ''timeout_review'' then 95
      else if status = ''running'' then 50
      else if status \<in> {''submitted'', ''pending''} then 10
      else 0)"

definition job_results :: "json option \<Rightarrow> json" where
  "job_results v =
     (case v of None \<Rightarrow> JArray [] | Some (JArray xs) \<Rightarrow> JArray xs | Some x \<Rightarrow> JArray [x])"

record job_view =
  jv_job :: generation_job
  jv_progress :: i64
  jv_results :: json

definition view_job :: "generation_job \<Rightarrow> job_view" where
  "view_job j = \<lparr>jv_job = j, jv_progress = job_progress (job_status j), jv_results = job_results (job_result_json j)\<rparr>"

definition find_generation_job :: "uuid \<Rightarrow> uuid \<Rightarrow> uuid \<Rightarrow> job_view ai_io" where
  "find_generation_job tenant customer i =
     io_read (\<lambda>db. rs_bind (load_customer_job tenant customer i db) (\<lambda>j. Inr (view_job j)))"

definition find_generation_job_by_id :: "uuid \<Rightarrow> uuid \<Rightarrow> job_view ai_io" where
  "find_generation_job_by_id tenant i =
     io_read (\<lambda>db. rs_bind (load_admin_job tenant i db) (\<lambda>j. Inr (view_job j)))"

definition find_idempotent_job :: "job_caller \<Rightarrow> string \<Rightarrow> string option \<Rightarrow> job_view option ai_io" where
  "find_idempotent_job c type key =
     io_read (\<lambda>db.
       case key of
         None \<Rightarrow> Inr None
       | Some k \<Rightarrow>
           Inr (map_option view_job (List.find (\<lambda>j. job_tenant_id j = jc_tenant_id c
             \<and> job_customer_id j = jc_customer_id c \<and> job_server_key_id j = Some (jc_server_key_id c)
             \<and> job_type j = type \<and> job_idempotency_key j = Some k) (ai_jobs db))))"

definition normalize_status :: "string \<Rightarrow> app_error + string" where
  "normalize_status value =
     (let v = to_ascii_lowercase (trim value) in
      if v \<in> {''pending'', ''submitted'', ''running'', ''provider_succeeded'', ''caching'', ''succeeded'',
           ''provider_failed'', ''failed'', ''timeout_review'', ''cancelled''} then Inr v
      else Inl (ValidationFailed ''ai generation job status is invalid''))"

definition normalize_job_type :: "string \<Rightarrow> app_error + string" where
  "normalize_job_type value =
     (let v = to_ascii_lowercase (trim value) in
      if v \<in> {''image'', ''video'', ''audio''} then Inr v
      else Inl (ValidationFailed ''ai generation job type is invalid''))"

definition normalize_page :: "i64 option \<Rightarrow> i64 option \<Rightarrow> i64 \<times> i64" where
  "normalize_page page page_size =
     (max (case page of None \<Rightarrow> 1 | Some p \<Rightarrow> p) 1,
      clamp_int (case page_size of None \<Rightarrow> 20 | Some n \<Rightarrow> n) 1 100)"

definition normalize_action_reason :: "string option \<Rightarrow> string \<Rightarrow> app_error + string" where
  "normalize_action_reason value default_reason =
     (let r = trim (case value of None \<Rightarrow> default_reason | Some v \<Rightarrow> v) in
      if r = [] \<or> length r > 500 \<or> char_of (0::nat) \<in> set r
        then Inl (ValidationFailed ''ai generation job action reason is invalid'')
      else Inr r)"

record job_page =
  jp_jobs :: "job_view list"
  jp_page :: i64
  jp_page_size :: i64
  jp_has_more :: bool

definition job_newer :: "generation_job \<Rightarrow> time \<times> uuid" where
  "job_newer j = (job_created_at j, job_id j)"

text \<open>
  \<open>order by created_at desc, id desc limit .. offset ..\<close>; the offset is \<open>i64\<close> arithmetic that
  wraps, and Postgres refuses a negative one.
\<close>

definition matching_jobs ::
    "uuid \<Rightarrow> string option \<Rightarrow> string option \<Rightarrow> uuid option \<Rightarrow> ai_db \<Rightarrow> generation_job list" where
  "matching_jobs tenant status type customer db =
     rev (sort_key job_newer (filter (\<lambda>j. job_tenant_id j = tenant
       \<and> (status = None \<or> Some (job_status j) = status) \<and> (type = None \<or> Some (job_type j) = type)
       \<and> (customer = None \<or> Some (job_customer_id j) = customer)) (ai_jobs db)))"

definition list_generation_jobs ::
    "ai_env \<Rightarrow> uuid \<Rightarrow> string option \<Rightarrow> string option \<Rightarrow> uuid option \<Rightarrow> i64 \<Rightarrow> i64 \<Rightarrow> job_view list ai_io" where
  "list_generation_jobs env tenant status type customer page page_size =
     (let offset = wrap_i64 ((page - 1) * page_size) in
      io_read (\<lambda>db.
        if offset < 0 then Inl (job_db_error env)
        else Inr (map view_job (take (nat page_size) (drop (nat offset)
          (matching_jobs tenant status type customer db))))))"

text \<open>One row more than the page tells whether there is a next one.\<close>

definition job_list ::
    "ai_env \<Rightarrow> uuid \<Rightarrow> string option \<Rightarrow> string option \<Rightarrow> uuid option \<Rightarrow> i64 option \<Rightarrow> i64 option
      \<Rightarrow> job_page ai_io" where
  "job_list env tenant status type customer page page_size =
     io_bind (io_of (case status of None \<Rightarrow> Inr None
                     | Some s \<Rightarrow> rs_bind (normalize_status s) (\<lambda>s. Inr (Some s)))) (\<lambda>status.
     io_bind (io_of (case type of None \<Rightarrow> Inr None
                     | Some t \<Rightarrow> rs_bind (normalize_job_type t) (\<lambda>t. Inr (Some t)))) (\<lambda>type.
     let (page, page_size) = normalize_page page page_size in
     io_bind (list_generation_jobs env tenant status type customer page (page_size + 1)) (\<lambda>items.
     io_return \<lparr>jp_jobs = take (nat page_size) items, jp_page = page, jp_page_size = page_size,
                jp_has_more = (int (length items) > page_size)\<rparr>)))"


section \<open>Submitting\<close>

definition check_generation_rate_limit :: "ai_env \<Rightarrow> job_caller \<Rightarrow> unit ai_io" where
  "check_generation_rate_limit env c db =
     (case check_fixed_window (ae_fault env) (ae_now env)
             (ai_gateway_key (''server_job:'' @ ae_uuid_text env (jc_server_key_id c) @ '':''
                @ ae_uuid_text env (jc_customer_id c)))
             (ae_rate_limit_max env) (ae_rate_limit_window_seconds env) rate_limited (ai_redis db) of
        (r, rd) \<Rightarrow> (r, db\<lparr>ai_redis := rd\<rparr>))"

definition submitted_job ::
    "ai_env \<Rightarrow> job_caller \<Rightarrow> gateway_model \<Rightarrow> billing_reservation \<Rightarrow> provider_submit_result \<Rightarrow> string option
      \<Rightarrow> string \<Rightarrow> json \<Rightarrow> i64 \<Rightarrow> i64 \<Rightarrow> generation_job" where
  "submitted_job env c m r sub key type payload quantity hold =
     \<lparr>job_id = ae_job_id env, job_tenant_id = jc_tenant_id c, job_wallet_id = Some (br_wallet_id r),
      job_customer_id = jc_customer_id c, job_provider_id = Some (gm_provider_id m),
      job_model_id = Some (gm_id m), job_usage_id = Some (br_usage_id r),
      job_server_key_id = Some (jc_server_key_id c), job_request_id = Some (ae_request_id env),
      job_idempotency_key = key, job_type = type, job_status = ''submitted'',
      job_provider_status = sub_status sub, job_provider_job_id = Some (sub_provider_job_id sub),
      job_provider_request_id = sub_provider_request_id sub,
      job_provider_submit_response = Some (sub_body sub), job_provider_result_response = None,
      job_request_payload = payload, job_result_json = None, job_asset_urls = JArray [],
      job_charge_mode = gm_billing_mode m, job_quantity = quantity, job_held_minor = hold,
      job_charged_minor = 0, job_refunded_minor = 0, job_currency = gm_currency m,
      job_failure_reason = None, job_attempts = 0, job_next_poll_at = Some (db_in env 5),
      job_submitted_at = Some (ae_db_now env), job_completed_at = None, job_created_at = ae_db_now env\<rparr>"

definition insert_submitted_job :: "ai_env \<Rightarrow> generation_job \<Rightarrow> job_view ai_io" where
  "insert_submitted_job env row =
     io_bind (commit (\<lambda>db. case insert_row job_check job_clash (job_db_error env) row (ai_jobs db) of
                Inl e \<Rightarrow> Inl e | Inr js \<Rightarrow> Inr ((), db\<lparr>ai_jobs := js\<rparr>))) (\<lambda>_.
     find_generation_job_by_id (job_tenant_id row) (job_id row))"

text \<open>What is known of a request before it is billed.\<close>

record job_request =
  jr_model :: gateway_model
  jr_payload :: json
  jr_quantity :: i64
  jr_hold :: i64

definition prepare_job ::
    "ai_env \<Rightarrow> job_services \<Rightarrow> job_caller \<Rightarrow> json \<Rightarrow> string \<Rightarrow> job_request ai_io" where
  "prepare_job env js c payload type =
     io_bind (io_of (requested_model_code payload)) (\<lambda>code.
     io_bind (load_gateway_model env (jc_tenant_id c) code) (\<lambda>m.
     io_bind (io_of (validate_generation_model m type)) (\<lambda>_.
     io_bind (io_read (\<lambda>db. load_and_validate_generation_input_assets (js_parse_uuid js) db c payload m)) (\<lambda>ia.
     io_of (
       rs_bind (normalize_generation_request_payload (ae_uuid_text env) payload type m ia) (\<lambda>normalized.
       rs_bind (validate_generation_payload type normalized m) (\<lambda>_.
       rs_bind (estimated_quantity type normalized m) (\<lambda>quantity.
       rs_bind (estimate_generation_hold_minor type quantity m) (\<lambda>hold.
       Inr \<lparr>jr_model = m, jr_payload = normalized, jr_quantity = quantity, jr_hold = hold\<rparr>)))))))))"

definition submit_job ::
    "ai_env \<Rightarrow> job_services \<Rightarrow> job_caller \<Rightarrow> job_request \<Rightarrow> string \<Rightarrow> string option \<Rightarrow> job_view ai_io" where
  "submit_job env js c q type key =
     (let m = jr_model q in
      io_bind (reserve_job_usage env c m (ae_request_id env) (generation_endpoint type) (jr_hold q)
                 (jr_payload q) key) (\<lambda>r.
      case submit_provider_generation_job env js m type (jr_payload q) of
        Inr sub \<Rightarrow>
          insert_submitted_job env
            (submitted_job env c m r sub key type (jr_payload q) (jr_quantity q) (jr_hold q))
      | Inl e \<Rightarrow> io_bind (job_release_usage env r reason_job_submit_failed) (\<lambda>_. io_fail e)))"

definition create_server_generation_job ::
    "ai_env \<Rightarrow> job_services \<Rightarrow> job_caller \<Rightarrow> string option option \<Rightarrow> json \<Rightarrow> string \<Rightarrow> job_view ai_io" where
  "create_server_generation_job env js c key_header payload type =
     io_bind (check_generation_rate_limit env c) (\<lambda>_.
     io_bind (io_of (idempotency_key key_header)) (\<lambda>key.
     io_bind (find_idempotent_job c type key) (\<lambda>existing.
     case existing of
       Some j \<Rightarrow> io_return j
     | None \<Rightarrow> io_bind (prepare_job env js c payload type) (\<lambda>q. submit_job env js c q type key))))"


section \<open>The worker\<close>

definition load_job_provider :: "uuid option \<Rightarrow> provider_row ai_io" where
  "load_job_provider i =
     io_bind (io_of (ok_or i (Dependency ''ai generation provider id missing''))) (\<lambda>i.
     io_read (\<lambda>db. ok_or (List.find (\<lambda>p. prv_id p = i \<and> prv_enabled p) (ai_providers db))
       (NotFound ''ai provider not found or disabled'')))"

definition finish_succeeded_job ::
    "ai_env \<Rightarrow> job_services \<Rightarrow> worker_job \<Rightarrow> provider_poll_result \<Rightarrow> string \<Rightarrow> unit ai_io" where
  "finish_succeeded_job env js wj poll provider_job_id =
     (let job = wj_job wj in
      io_bind (mark_job_provider_succeeded env (job_id job) (poll_provider_status poll) (poll_body poll)) (\<lambda>_ db.
      case cache_generation_assets env js wj (job_type job) (poll_asset_urls poll) (poll_body poll) db of
        (Inl e, db') \<Rightarrow> mark_job_caching_failed env (job_id job) (error_text e) (poll_body poll) db'
      | (Inr urls, db') \<Rightarrow>
          (let charged = charge_minor_from_job (job_charge_mode job) (job_held_minor job) in
           io_bind (job_capture_usage env (job_usage_id job) charged (poll_body poll) provider_job_id) (\<lambda>_.
           mark_job_succeeded env (job_id job) charged urls (poll_provider_status poll) (poll_body poll)) db')))"

definition process_generation_job :: "ai_env \<Rightarrow> job_services \<Rightarrow> worker_job \<Rightarrow> unit ai_io" where
  "process_generation_job env js wj =
     (let job = wj_job wj in
      io_bind (load_job_provider (job_provider_id job)) (\<lambda>p.
      case job_provider_job_id job of
        None \<Rightarrow> fail_job_and_release_usage env job reason_no_provider_job None None
      | Some i \<Rightarrow>
          io_bind (io_of (poll_provider_generation_job js p i)) (\<lambda>poll.
          case poll_status poll of
            Succeeded \<Rightarrow> finish_succeeded_job env js wj poll i
          | Failed \<Rightarrow>
              fail_job_and_release_usage env job
                (case poll_failure_reason poll of None \<Rightarrow> reason_provider_failed | Some r \<Rightarrow> r)
                (poll_provider_status poll) (Some (poll_body poll))
          | _ \<Rightarrow> mark_job_running env (job_id job) (poll_provider_status poll) (poll_body poll))))"

text \<open>One claimed job; an error is noted on the job, and an error of that is only logged.\<close>

definition work_on_job :: "ai_env \<Rightarrow> job_services \<Rightarrow> worker_job \<Rightarrow> ai_db \<Rightarrow> ai_db" where
  "work_on_job env js wj db =
     (case process_generation_job env js wj db of
        (Inr _, db') \<Rightarrow> db'
      | (Inl e, db') \<Rightarrow>
          snd (mark_job_poll_error env (job_id (wj_job wj)) (job_attempts (wj_job wj)) (error_text e) db'))"

definition process_generation_job_batch :: "ai_env \<Rightarrow> job_services \<Rightarrow> unit ai_io" where
  "process_generation_job_batch env js =
     io_bind (claim_pollable_generation_jobs env (js_key_app js)) (\<lambda>jobs.
     io_modify (fold (work_on_job env js) jobs))"


section \<open>Actions of customers and administrators\<close>

definition ensure_job_can_retry_poll :: "generation_job \<Rightarrow> app_error + unit" where
  "ensure_job_can_retry_poll j =
     (if job_provider_job_id j = None \<or> job_provider_job_id j = Some []
        then Inl (BusinessRuleFailed ''ai generation job has no provider job id'')
      else if job_status j \<in> {''submitted'', ''running'', ''caching'', ''timeout_review''} then Inr ()
      else Inl (BusinessRuleFailed ''ai generation job cannot be queried again in this status''))"

definition ensure_job_can_retry_cache :: "generation_job \<Rightarrow> app_error + unit" where
  "ensure_job_can_retry_cache j =
     (if job_charged_minor j > 0
        then Inl (BusinessRuleFailed ''ai generation job has already been charged'')
      else if job_status j \<in> {''caching'', ''timeout_review'', ''failed'', ''provider_failed''} then Inr ()
      else Inl (BusinessRuleFailed ''ai generation job cannot be cached again in this status''))"

definition ensure_job_can_fail_release :: "generation_job \<Rightarrow> app_error + unit" where
  "ensure_job_can_fail_release j =
     (if job_charged_minor j > 0
        then Inl (BusinessRuleFailed ''charged ai generation job must be refunded instead'')
      else if job_status j \<in> {''submitted'', ''running'', ''caching'', ''timeout_review'', ''provider_failed'',
           ''failed''} then Inr ()
      else Inl (BusinessRuleFailed ''ai generation job cannot be marked failed in this status''))"

definition ensure_job_can_refund :: "generation_job \<Rightarrow> app_error + unit" where
  "ensure_job_can_refund j =
     (if job_status j \<noteq> ''succeeded''
        then Inl (BusinessRuleFailed ''only succeeded ai generation jobs can be refunded'')
      else if job_charged_minor j \<le> job_refunded_minor j
        then Inl (BusinessRuleFailed ''ai generation job has no refundable charge'')
      else Inr ())"

definition admin_job_audit_fields :: "ai_env \<Rightarrow> generation_job \<Rightarrow> (string \<times> json) list" where
  "admin_job_audit_fields env j =
     [(''id'', uuid_json env (Some (job_id j))), (''customer_id'', uuid_json env (Some (job_customer_id j))),
      (''usage_id'', uuid_json env (job_usage_id j)), (''job_type'', JString (job_type j)),
      (''status'', JString (job_status j)), (''provider_status'', opt_text (job_provider_status j)),
      (''provider_job_id'', opt_text (job_provider_job_id j)), (''held_minor'', num (job_held_minor j)),
      (''charged_minor'', num (job_charged_minor j)), (''refunded_minor'', num (job_refunded_minor j)),
      (''charge_mode'', JString (job_charge_mode j))]"

definition admin_job_audit_json :: "ai_env \<Rightarrow> generation_job \<Rightarrow> json" where
  "admin_job_audit_json env j =
     JObject (admin_job_audit_fields env j @ [(''provider_id'', uuid_json env (job_provider_id j))])"

definition generation_job_audit_json :: "ai_env \<Rightarrow> generation_job \<Rightarrow> json" where
  "generation_job_audit_json env j =
     JObject (admin_job_audit_fields env j @ [(''failure_reason'', opt_text (job_failure_reason j))])"

definition audit_admin_job_action ::
    "ai_env \<Rightarrow> admin_context \<Rightarrow> string \<Rightarrow> generation_job \<Rightarrow> generation_job \<Rightarrow> string \<Rightarrow> unit ai_io" where
  "audit_admin_job_action env admin action before after reason =
     commit (ai_audit env admin action ''ai_generation_job'' (job_id before) (admin_job_audit_json env before)
       (generation_job_audit_json env after) (JObject [(''reason'', JString reason)]))"

text \<open>
  The four administrator's actions: the permission, the reason, the job as it is now, the check of
  its status, the action on the row read, and the audit entry in a transaction of its own.
\<close>

definition admin_job_action ::
    "ai_env \<Rightarrow> admin_context \<Rightarrow> uuid \<Rightarrow> string option \<Rightarrow> string \<Rightarrow> string
      \<Rightarrow> (generation_job \<Rightarrow> app_error + unit) \<Rightarrow> (generation_job \<Rightarrow> string \<Rightarrow> unit ai_io) \<Rightarrow> job_view ai_io" where
  "admin_job_action env admin i reason default_reason action check act =
     (let t = adm_tenant_id admin in
      io_bind (io_of (ensure_admin_permission admin ''ai:job:update'')) (\<lambda>_.
      io_bind (io_of (normalize_action_reason reason default_reason)) (\<lambda>reason.
      io_bind (io_read (load_admin_job t i)) (\<lambda>job.
      io_bind (io_of (check job)) (\<lambda>_.
      io_bind (act job reason) (\<lambda>_.
      io_bind (find_generation_job_by_id t i) (\<lambda>updated.
      io_bind (audit_admin_job_action env admin action job (jv_job updated) reason) (\<lambda>_.
      io_return updated))))))))"

definition retry_ai_generation_job_poll ::
    "ai_env \<Rightarrow> admin_context \<Rightarrow> uuid \<Rightarrow> string option \<Rightarrow> job_view ai_io" where
  "retry_ai_generation_job_poll env admin i reason =
     admin_job_action env admin i reason default_retry_poll_reason ''ai_generation_job.retry_poll''
       ensure_job_can_retry_poll (\<lambda>job reason. mark_job_for_poll_retry env (adm_tenant_id admin) i reason)"

text \<open>The worker's record of an administrator's job: without its payload, the key's application looked up.\<close>

definition retry_cache_admin_job :: "ai_env \<Rightarrow> job_services \<Rightarrow> generation_job \<Rightarrow> string \<Rightarrow> unit ai_io" where
  "retry_cache_admin_job env js job reason =
     io_bind (io_of (ok_or (job_provider_result_response job)
                (BusinessRuleFailed ''ai generation job has no provider result''))) (\<lambda>body.
     let urls = collect_asset_urls (js_assets js) body in
     if urls = []
       then io_fail (BusinessRuleFailed ''ai generation job provider result has no asset urls'')
     else
       io_bind (mark_job_provider_succeeded env (job_id job) (job_provider_status job) body) (\<lambda>_.
       io_bind (cache_generation_assets env js
                  \<lparr>wj_job = job\<lparr>job_attempts := 0, job_request_payload := JObject []\<rparr>,
                   wj_app_id = Option.bind (job_server_key_id job) (js_key_app js)\<rparr>
                  (job_type job) urls body) (\<lambda>cached.
       let charged = charge_minor_from_job (job_charge_mode job) (job_held_minor job) in
       io_bind (job_capture_usage env (job_usage_id job) charged
                  (JObject [(''manual_retry_cache'', JBool True), (''provider'', body),
                     (''reason'', JString reason)])
                  (case job_provider_job_id job of None \<Rightarrow> ''manual-cache'' | Some p \<Rightarrow> p)) (\<lambda>_.
       mark_job_succeeded env (job_id job) charged cached (job_provider_status job) body))))"

definition retry_ai_generation_job_cache ::
    "ai_env \<Rightarrow> job_services \<Rightarrow> admin_context \<Rightarrow> uuid \<Rightarrow> string option \<Rightarrow> job_view ai_io" where
  "retry_ai_generation_job_cache env js admin i reason =
     admin_job_action env admin i reason default_retry_cache_reason ''ai_generation_job.retry_cache''
       ensure_job_can_retry_cache (retry_cache_admin_job env js)"

definition fail_ai_generation_job_release ::
    "ai_env \<Rightarrow> admin_context \<Rightarrow> uuid \<Rightarrow> string option \<Rightarrow> job_view ai_io" where
  "fail_ai_generation_job_release env admin i reason =
     admin_job_action env admin i reason default_fail_reason ''ai_generation_job.fail_release''
       ensure_job_can_fail_release (fail_admin_job_and_release_usage env)"

definition refund_ai_generation_job ::
    "ai_env \<Rightarrow> admin_context \<Rightarrow> uuid \<Rightarrow> string option \<Rightarrow> job_view ai_io" where
  "refund_ai_generation_job env admin i reason =
     admin_job_action env admin i reason default_refund_reason ''ai_generation_job.refund''
       ensure_job_can_refund (refund_admin_job env)"

definition list_ai_generation_jobs ::
    "ai_env \<Rightarrow> admin_context \<Rightarrow> string option \<Rightarrow> string option \<Rightarrow> uuid option \<Rightarrow> i64 option \<Rightarrow> i64 option
      \<Rightarrow> job_page ai_io" where
  "list_ai_generation_jobs env admin status type customer page page_size =
     io_bind (io_of (ensure_admin_permission admin ''ai:job:read'')) (\<lambda>_.
     job_list env (adm_tenant_id admin) status type customer page page_size)"

text \<open>The handlers for servers, after the key and the customer's subscription are checked.\<close>

definition web_cancel_job :: "ai_env \<Rightarrow> job_caller \<Rightarrow> uuid \<Rightarrow> string option \<Rightarrow> job_view ai_io" where
  "web_cancel_job env c i reason =
     io_bind (io_of (normalize_action_reason reason default_cancel_reason)) (\<lambda>reason.
     io_bind (cancel_server_job_and_release_usage env (jc_tenant_id c) (jc_customer_id c) i reason) (\<lambda>_.
     find_generation_job (jc_tenant_id c) (jc_customer_id c) i))"

definition web_retry_job :: "ai_env \<Rightarrow> job_caller \<Rightarrow> uuid \<Rightarrow> string option \<Rightarrow> job_view ai_io" where
  "web_retry_job env c i reason =
     io_bind (io_of (normalize_action_reason reason default_web_retry_reason)) (\<lambda>reason.
     io_bind (io_read (load_customer_job (jc_tenant_id c) (jc_customer_id c) i)) (\<lambda>job.
     io_bind (io_of (ensure_job_can_retry_poll job)) (\<lambda>_.
     io_bind (mark_job_for_poll_retry env (jc_tenant_id c) i reason) (\<lambda>_.
     find_generation_job (jc_tenant_id c) (jc_customer_id c) i))))"

definition web_get_job :: "job_caller \<Rightarrow> uuid \<Rightarrow> job_view ai_io" where
  "web_get_job c i = find_generation_job (jc_tenant_id c) (jc_customer_id c) i"

definition web_list_jobs ::
    "ai_env \<Rightarrow> job_caller \<Rightarrow> string option \<Rightarrow> string option \<Rightarrow> i64 option \<Rightarrow> i64 option \<Rightarrow> job_page ai_io" where
  "web_list_jobs env c status type page page_size =
     job_list env (jc_tenant_id c) status type (Some (jc_customer_id c)) page page_size"

end
