(* ===== verification/JobSteps.thy ===== *)
theory JobSteps
  imports Jobs BillingRuns
begin

text \<open>
  The invariant of generation jobs, and that every operation on one job keeps it: the worker's steps,
  the customer's and the administrator's actions. A job has a usage record of its own; while the
  job's outcome is open, the record can still be billed. Each operation is a run of the abstract
  accounts of \<open>Billing\<close>.
\<close>

section \<open>Jobs and their usage records\<close>

text \<open>A job that still has an outcome to come.\<close>

definition live :: "generation_job \<Rightarrow> bool" where
  "live j \<longleftrightarrow> job_status j \<in> {''pending'', ''submitted'', ''running'', ''provider_succeeded'', ''caching'',
     ''timeout_review''}"

definition billable :: "usage_record \<Rightarrow> bool" where
  "billable u \<longleftrightarrow> open_usage u \<or> usr_status u = ''succeeded''"

definition usage_of :: "usage_record list \<Rightarrow> generation_job \<Rightarrow> usage_record option" where
  "usage_of us j = Option.bind (job_usage_id j) (\<lambda>k. usage_by_id k us)"

definition fits :: "generation_job \<Rightarrow> usage_record \<Rightarrow> bool" where
  "fits j u \<longleftrightarrow> (live j \<longrightarrow> billable u) \<and> (usr_status u = ''refunded'' \<longrightarrow> 0 < job_charged_minor j)"

text \<open>
  The invariant, with the jobs of \<open>X\<close> in the middle of a transaction: a job has a usage record of its
  own, which no waiting request of the gateway reserved, and one with an outcome to come can still be
  billed.
\<close>

definition job_ok :: "uuid set \<Rightarrow> usage_record list \<Rightarrow> generation_job \<Rightarrow> bool" where
  "job_ok X us j \<longleftrightarrow> (case usage_of us j of None \<Rightarrow> False | Some u \<Rightarrow> job_id j \<in> X \<or> fits j u)"

definition jobs_inv_but :: "uuid set \<Rightarrow> ai_db \<times> billing_reservation list \<Rightarrow> bool" where
  "jobs_inv_but X s \<longleftrightarrow>
     (let js = ai_jobs (fst s); us = ai_usages (fst s) in
      billing_state_inv s \<and> list_all job_check js
      \<and> distinct (map job_id js) \<and> distinct (map job_usage_id js)
      \<and> list_all (\<lambda>r. Some (br_usage_id r) \<notin> job_usage_id ` set js) (snd s)
      \<and> list_all (job_ok X us) js)"

abbreviation jobs_inv :: "ai_db \<times> billing_reservation list \<Rightarrow> bool" where
  "jobs_inv \<equiv> jobs_inv_but {}"

lemma jobs_inv_cong:
  assumes "ai_wallets a = ai_wallets b" and "ai_usages a = ai_usages b" and "ai_jobs a = ai_jobs b"
  shows "jobs_inv_but X (a, R) = jobs_inv_but X (b, R)" and "abs_account a = abs_account b"
  using billing_inv_cong [OF assms(1,2)] assms by (simp_all add: jobs_inv_but_def billing_state_inv_def)

lemma inv_billing: "jobs_inv_but X (db, R) \<Longrightarrow> billing_inv db"
  by (simp add: jobs_inv_but_def Let_def billing_state_inv_def)

lemma inv_usage:
  assumes "jobs_inv_but X (db, R)" and "j \<in> set (ai_jobs db)"
  obtains k u where "job_usage_id j = Some k" "usage_by_id k (ai_usages db) = Some u" "job_id j \<in> X \<or> fits j u"
proof -
  from assms have "job_ok X (ai_usages db) j" by (auto simp: jobs_inv_but_def Let_def list_all_iff)
  then show ?thesis using that
    by (auto simp: job_ok_def usage_of_def bind_eq_Some_conv split: option.splits)
qed

lemma one_job:
  assumes "jobs_inv_but X (db, R)" and "i \<in> set (ai_jobs db)" and "j \<in> set (ai_jobs db)"
  shows "job_id i = job_id j \<longleftrightarrow> i = j" and "job_usage_id i = job_usage_id j \<longleftrightarrow> i = j"
  using assms by (auto simp: jobs_inv_but_def Let_def distinct_map inj_on_def)

lemma update_job_Inr:
  "update_job e P f db = Inr (x, db') \<longleftrightarrow> list_all (\<lambda>j. P j \<longrightarrow> job_check (f j)) (ai_jobs db)
     \<and> db' = db\<lparr>ai_jobs := update_where P f (ai_jobs db)\<rparr>"
  by (auto simp: update_job_def update_returning_def)

text \<open>What a step on the job \<open>i\<close> may do, and when the next one on it may follow.\<close>

definition moves :: "billing_reservation list \<Rightarrow> uuid \<Rightarrow> ai_db \<Rightarrow> ai_db \<Rightarrow> bool" where
  "moves R i db db' \<longleftrightarrow> jobs_inv (db', R) \<and> acct_step\<^sup>*\<^sup>* (abs_account db) (abs_account db')
     \<and> (\<forall>j. job_id j \<noteq> i \<longrightarrow> (j \<in> set (ai_jobs db') \<longleftrightarrow> j \<in> set (ai_jobs db)))"

definition known :: "uuid \<Rightarrow> uuid \<Rightarrow> ai_db \<Rightarrow> bool" where
  "known i k db \<longleftrightarrow> (\<exists>j \<in> set (ai_jobs db). job_id j = i \<and> job_usage_id j = Some k)"

definition usage_billable :: "uuid \<Rightarrow> ai_db \<Rightarrow> bool" where
  "usage_billable k db \<longleftrightarrow> (\<exists>u. usage_by_id k (ai_usages db) = Some u \<and> billable u)"

lemma moves_refl: "jobs_inv (db, R) \<Longrightarrow> moves R i db db"
  by (simp add: moves_def)

lemma moves_trans: "moves R i a b \<Longrightarrow> moves R i b c \<Longrightarrow> moves R i a c"
  by (auto simp: moves_def)

text \<open>An update of one job.\<close>

lemma update_job_moves:
  assumes "jobs_inv_but X (db, R)" and "update_job e P f db = Inr (x, db')" and "known i k db" and "X \<subseteq> {i}"
    and P: "\<And>j. j \<in> set (ai_jobs db) \<Longrightarrow> P j \<longleftrightarrow> job_id j = i"
    and f: "\<And>j. job_id (f j) = job_id j \<and> job_usage_id (f j) = job_usage_id j"
    and fit: "\<And>j u. j \<in> set (ai_jobs db) \<Longrightarrow> job_id j = i \<Longrightarrow> usage_by_id k (ai_usages db) = Some u \<Longrightarrow> fits (f j) u"
  shows "jobs_inv (db', R)" and "moves R i db db'" and "known i k db'"
    and "abs_account db' = abs_account db" and "ai_usages db' = ai_usages db"
proof -
  from assms(2) have ck: "list_all (\<lambda>j. P j \<longrightarrow> job_check (f j)) (ai_jobs db)"
    and db': "db' = db\<lparr>ai_jobs := update_where P f (ai_jobs db)\<rparr>" by (auto simp: update_job_Inr)
  from assms(3) obtain j0 where j0: "j0 \<in> set (ai_jobs db)" "job_id j0 = i" "job_usage_id j0 = Some k"
    by (auto simp: known_def)
  have only: "j = j0" if "j \<in> set (ai_jobs db)" "P j" for j
    using P [OF that(1)] that one_job(1) [OF assms(1) that(1) j0(1)] j0(2) by simp
  show acc: "abs_account db' = abs_account db" using billing_inv_cong(2) [of db' db] db' by simp
  have st: "billing_state_inv (db', R)"
    using billing_inv_cong [of db' db] db' assms(1) by (simp add: jobs_inv_but_def Let_def billing_state_inv_def)
  have ok: "job_ok {} (ai_usages db) (if P j then f j else j)" if j: "j \<in> set (ai_jobs db)" for j
  proof (cases "P j")
    case True
    have "\<exists>u. usage_by_id k (ai_usages db) = Some u" using inv_usage [OF assms(1) j0(1)] j0(3) by auto
    then obtain u where u: "usage_by_id k (ai_usages db) = Some u" ..
    have "job_usage_id (f j) = Some k" using only [OF j True] f [of j] j0(3) by simp
    moreover have "fits (f j) u" using only [OF j True] fit [OF j0(1,2) u] by simp
    ultimately show ?thesis using True u by (simp add: job_ok_def usage_of_def)
  next
    case False
    then have "job_id j \<notin> X" using P [OF j] assms(4) by auto
    moreover have "job_ok X (ai_usages db) j" using assms(1) j by (simp add: jobs_inv_but_def Let_def list_all_iff)
    ultimately show ?thesis using False by (simp add: job_ok_def split: option.splits)
  qed
  let ?js = "update_where P f (ai_jobs db)"
  have keys: "map job_id ?js = map job_id (ai_jobs db)" "map job_usage_id ?js = map job_usage_id (ai_jobs db)"
    using f by (simp_all add: map_update_where_same)
  then have ids: "job_usage_id ` set ?js = job_usage_id ` set (ai_jobs db)" by (metis list.set_map)
  have "list_all job_check ?js"
    using ck assms(1) by (auto simp: list_all_iff set_update_where jobs_inv_but_def Let_def)
  moreover have "list_all (job_ok {} (ai_usages db)) ?js"
    unfolding list_all_iff set_update_where by (blast intro: ok)
  ultimately show inv: "jobs_inv (db', R)" using assms(1) st
    by (simp add: jobs_inv_but_def Let_def db' keys ids)
  show "ai_usages db' = ai_usages db" by (simp add: db')
  have "j \<in> set (ai_jobs db') \<longleftrightarrow> j \<in> set (ai_jobs db)" if "job_id j \<noteq> i" for j
    using that P f by (auto simp: db' set_update_where image_iff)
  with inv acc show "moves R i db db'" by (simp add: moves_def)
  have "f j0 \<in> set (ai_jobs db')" using j0 P by (auto simp: db' set_update_where image_iff)
  with f j0 show "known i k db'" unfolding known_def by metis
qed


section \<open>Settling the usage of a job\<close>

lemma usage_moves:
  assumes "jobs_inv (db, R)" and "known i k db" and "ai_jobs db1 = ai_jobs db"
    and "ai_usages db1 = set_usage k g (ai_usages db)" and g: "\<And>u. usr_id (g u) = usr_id u"
    and "billing_state_inv (db1, R)" and "usage_by_id k (ai_usages db) = Some u"
  shows "jobs_inv_but {i} (db1, R)" and "known i k db1" and "usage_by_id k (ai_usages db1) = Some (g u)"
    and "usr_status (g u) = ''succeeded'' \<Longrightarrow> jobs_inv (db1, R)"
proof -
  show k: "known i k db1" using assms(2,3) by (simp add: known_def)
  show u': "usage_by_id k (ai_usages db1) = Some (g u)"
    using assms(7) by (simp add: assms(4) ut.get_upd [OF g])
  obtain j0 where j0: "j0 \<in> set (ai_jobs db)" "job_id j0 = i" "job_usage_id j0 = Some k"
    using assms(2) by (auto simp: known_def)
  have same: "usage_of (ai_usages db1) j = usage_of (ai_usages db) j" if "j \<in> set (ai_jobs db)" "job_id j \<noteq> i" for j
  proof -
    have "job_usage_id j \<noteq> Some k" using one_job [OF assms(1) that(1) j0(1)] j0 that(2) by auto
    then show ?thesis by (auto simp: usage_of_def assms(4) ut.get_upd [OF g] bind_eq_None_conv
        intro: option.exhaust [of "job_usage_id j"] split: Option.bind_split)
  qed
  have mine: "usage_of (ai_usages db1) j = Some (g u)" if "j \<in> set (ai_jobs db)" "job_id j = i" for j
    using one_job(1) [OF assms(1) that(1) j0(1)] that j0 u' by (simp add: usage_of_def)
  have fit: "job_ok {i} (ai_usages db1) j" if j: "j \<in> set (ai_jobs db)" for j
  proof (cases "job_id j = i")
    case False
    have "job_ok {} (ai_usages db) j" using assms(1) j by (simp add: jobs_inv_but_def Let_def list_all_iff)
    with same [OF j False] show ?thesis by (simp add: job_ok_def split: option.splits)
  qed (simp add: job_ok_def mine [OF j])
  show but: "jobs_inv_but {i} (db1, R)"
    using assms(1,3,6) fit by (simp add: jobs_inv_but_def Let_def list_all_iff)
  show "jobs_inv (db1, R)" if s: "usr_status (g u) = ''succeeded''"
  proof -
    have "fits j (g u)" for j using s by (simp add: fits_def billable_def)
    then have "job_ok {} (ai_usages db1) j" if "j \<in> set (ai_jobs db)" for j
      using mine [OF that] fit [OF that] by (auto simp: job_ok_def split: option.splits)
    with but assms(3) show ?thesis by (simp add: jobs_inv_but_def Let_def list_all_iff)
  qed
qed

abbreviation held_by :: "uuid \<Rightarrow> uuid \<Rightarrow> usage_record \<Rightarrow> billing_reservation" where
  "held_by k w u \<equiv> \<lparr>br_usage_id = k, br_wallet_id = w, br_held_minor = usage_held u\<rparr>"

lemma open_reserved:
  assumes "jobs_inv (db, R)" and "known i k db" and "usage_by_id k (ai_usages db) = Some u" and "open_usage u"
    and "usr_wallet_id u = Some w"
  shows "reserved db (held_by k w u)" and "billing_state_inv (db, held_by k w u # R)"
proof -
  from ut.get_in [OF assms(3)] have u: "u \<in> set (ai_usages db)" "usr_id u = k" by auto
  with assms(4,5) show r: "reserved db (held_by k w u)" by (auto simp: reserved_def wallet_holds_in)
  from assms(2) have "Some k \<in> job_usage_id ` set (ai_jobs db)" by (force simp: known_def)
  then have "k \<notin> br_usage_id ` set R"
    using assms(1) by (auto simp: jobs_inv_but_def Let_def list_all_iff)
  with r assms(1) show "billing_state_inv (db, held_by k w u # R)"
    by (simp add: jobs_inv_but_def Let_def billing_state_inv_def)
qed

lemma release_moves:
  assumes "jobs_inv (db, R)" and "known i k db" and "usage_by_id k (ai_usages db) = Some u" and "open_usage u"
    and "usr_wallet_id u = Some w" and "is_object md"
    and "release_tx env e w k (usage_held u) st rid body reason md db = Inr (x, db1)"
  shows "jobs_inv_but {i} (db1, R)" and "known i k db1" and "acct_step\<^sup>*\<^sup>* (abs_account db) (abs_account db1)"
    and "ai_jobs db1 = ai_jobs db"
    and "\<exists>v. usage_by_id k (ai_usages db1) = Some v \<and> usr_status v = ''failed''"
proof -
  note r = open_reserved [OF assms(1-5)]
  let ?r = "held_by k w u" and ?g = "failed_usage env st rid (usage_held u) body"
  from release_tx_settles [OF inv_billing [OF assms(1)] r(1) assms(6), of env e st rid body reason] assms(7)
  obtain f l where db1: "db1 = settled db ?r f ?g l" and g: "\<And>v. usage_check v \<Longrightarrow> usage_check (?g v)"
    and f: "takes 0 (br_held_minor ?r) f" by auto
  have "closes ?g" by (simp add: closes_def open_usage_def failed_usage_def)
  from release_step [OF r(2) _ this f g]
  have st: "billing_state_inv (db1, R)" and ac: "acct_step\<^sup>*\<^sup>* (abs_account db) (abs_account db1)"
    by (simp_all add: db1)
  show "acct_step\<^sup>*\<^sup>* (abs_account db) (abs_account db1)" by (rule ac)
  show jobs: "ai_jobs db1 = ai_jobs db" by (simp add: db1 settled_def)
  have "ai_usages db1 = set_usage k ?g (ai_usages db)" by (simp add: db1 settled_def)
  note m = usage_moves [OF assms(1,2) jobs this _ st assms(3)]
  show "jobs_inv_but {i} (db1, R)" "known i k db1"
    "\<exists>v. usage_by_id k (ai_usages db1) = Some v \<and> usr_status v = ''failed''"
    using m by (simp_all add: failed_usage_def)
qed

lemma find_usage_Inr:
  "find_usage_for_update e k db = Inr (v, db') \<longleftrightarrow> db' = db \<and>
     (\<exists>u w. usage_by_id k (ai_usages db) = Some u \<and> usr_wallet_id u = Some w
        \<and> v = \<lparr>ufu_wallet_id = w, ufu_status = usr_status u, ufu_held_minor = usage_held u\<rparr>)"
  by (auto simp: find_usage_for_update_def tx_success)

lemma capture_moves:
  assumes "jobs_inv (db, R)" and "known i k db" and "usage_billable k db"
    and "job_capture_usage env (Some k) charge body provider_job_id db = (x, db')"
  shows "jobs_inv (db', R) \<and> known i k db' \<and> usage_billable k db' \<and> ai_jobs db' = ai_jobs db
     \<and> acct_step\<^sup>*\<^sup>* (abs_account db) (abs_account db')"
proof (cases "db' = db")
  case False
  let ?close = "\<lambda>s. update_job_usage_succeeded env k provider_job_id (cs_captured_minor s) (settlement_metadata s) body"
  let ?captured = "(reason_job_capture, settlement_metadata)" and ?free = "(reason_job_free, JObject [])"
  obtain u w where u: "usage_by_id k (ai_usages db) = Some u" "usr_wallet_id u = Some w"
    "usr_status u \<noteq> ''succeeded''"
    and run: "capture_tx env (job_db_error env) w k (usage_held u) charge ?captured ?free ?close db = Inr ((), db')"
    using assms(4) False
    by (cases x) (auto simp: job_capture_usage_def Let_def io_success tx_success find_usage_Inr commit_def
        io_bind_def io_of_def ok_or_def split: sum.splits if_splits)
  have op: "open_usage u" using assms(3) u by (simp add: usage_billable_def billable_def)
  note r = open_reserved [OF assms(1,2) u(1) op u(2)]
  let ?r = "held_by k w u"
  let ?g = "\<lambda>s u. u\<lparr>usr_status := ''succeeded'', usr_provider_status := Some ''2'',
     usr_provider_request_id := Some provider_job_id, usr_charged_minor := cs_captured_minor s,
     usr_metadata_json := jsonb_concat (usr_metadata_json u) (settlement_metadata s),
     usr_provider_raw_response := Some body, usr_completed_at := Some (ae_db_now env)\<rparr>"
  have "\<exists>f s l. capture_tx env (job_db_error env) (br_wallet_id ?r) (br_usage_id ?r) (br_held_minor ?r) charge
       ?captured ?free ?close db = Inr ((), settled db ?r f (?g s) l)
     \<and> closes (?g s) \<and> (\<forall>u. usage_check u \<longrightarrow> usage_check (?g s u))
     \<and> takes (min (max charge 0) (br_held_minor ?r + acc_available (abs_account db (br_wallet_id ?r))))
          (br_held_minor ?r) f"
    by (rule capture_tx_settles [OF inv_billing [OF assms(1)] r(1)])
      (simp_all add: update_job_usage_succeeded_def usage_check_def is_object_concat closes_def open_usage_def)
  then obtain f s l where db': "db' = settled db ?r f (?g s) l" and g: "closes (?g s)"
      "\<And>u. usage_check u \<Longrightarrow> usage_check (?g s u)"
    and f: "takes (min (max charge 0) (br_held_minor ?r + acc_available (abs_account db (br_wallet_id ?r))))
          (br_held_minor ?r) f" using run by auto
  from capture_step [OF r(2) _ g(1) f g(2)]
  have st: "billing_state_inv (db', R)" "acct_step\<^sup>*\<^sup>* (abs_account db) (abs_account db')"
    by (simp_all add: db')
  have jobs: "ai_jobs db' = ai_jobs db" and us: "ai_usages db' = set_usage k (?g s) (ai_usages db)"
    by (simp_all add: db' settled_def)
  note m = usage_moves [OF assms(1,2) jobs us _ st(1) u(1)]
  show ?thesis using m st(2) jobs by (simp add: usage_billable_def billable_def)
qed (use assms in simp)


section \<open>Steps on one job\<close>

text \<open>Between the steps on the job \<open>i\<close>, its usage record \<open>k\<close> can still be billed or is billed.\<close>

definition ready :: "billing_reservation list \<Rightarrow> uuid \<Rightarrow> uuid \<Rightarrow> ai_db \<Rightarrow> bool" where
  "ready R i k db \<longleftrightarrow> jobs_inv (db, R) \<and> known i k db \<and> usage_billable k db"

definition advance :: "billing_reservation list \<Rightarrow> uuid \<Rightarrow> uuid \<Rightarrow> ai_db \<Rightarrow> ai_db \<Rightarrow> bool" where
  "advance R i k db db' \<longleftrightarrow> (ready R i k db \<longrightarrow> ready R i k db' \<and> moves R i db db')"

interpretation advancing: evolution "advance R i k" for R i k
  by unfold_locales (auto simp: advance_def ready_def moves_refl intro: moves_trans)

lemma advance_cases:
  assumes "io_respects (advance R i k) m" and "\<And>e. io_respects (advance R i k) (h e)"
    and "\<And>a. io_respects (advance R i k) (g a)"
  shows "io_respects (advance R i k) (\<lambda>db. case m db of (Inl e, db') \<Rightarrow> h e db' | (Inr a, db') \<Rightarrow> g a db')"
  unfolding io_respects_def
proof
  fix db
  obtain x db' where m: "m db = (x, db')" by fastforce
  with assms(1) have "advance R i k db db'" by (metis io_respects_def snd_conv)
  then show "advance R i k db (snd (case m db of (Inl e, db') \<Rightarrow> h e db' | (Inr a, db') \<Rightarrow> g a db'))"
    using assms(2,3) m advancing.trans by (cases x) (auto simp: io_respects_def)
qed

lemma billable_fits: "billable u \<Longrightarrow> fits j u"
  by (auto simp: fits_def billable_def open_usage_def)

lemma mark_advances:
  assumes "\<And>j. job_id (f j) = job_id j \<and> job_usage_id (f j) = job_usage_id j"
  shows "io_respects (advance R i k) (commit (update_job e (\<lambda>j. job_id j = i) f))"
proof (rule advancing.commit, unfold tx_respects_def advance_def, intro allI impI)
  fix db x db'
  assume run: "update_job e (\<lambda>j. job_id j = i) f db = Inr (x, db')" and at: "ready R i k db"
  from at have u: "fits j u" if "usage_by_id k (ai_usages db) = Some u" for j u
    using that billable_fits by (auto simp: ready_def usage_billable_def)
  from at have "jobs_inv (db, R)" "known i k db" by (simp_all add: ready_def)
  from update_job_moves [OF this(1) run this(2) _ _ assms u] at
  show "ready R i k db' \<and> moves R i db db'" by (simp add: ready_def usage_billable_def)
qed

lemma marks_advance:
  "io_respects (advance R i k) (mark_job_running env i ps body)"
  "io_respects (advance R i k) (mark_job_provider_succeeded env i ps body)"
  "io_respects (advance R i k) (mark_job_succeeded env i charged urls ps body)"
  "io_respects (advance R i k) (mark_job_caching_failed env i err body)"
  "io_respects (advance R i k) (mark_job_poll_error env i tries err)"
  by (simp_all add: mark_job_running_def mark_job_provider_succeeded_def mark_job_succeeded_def
      mark_job_caching_failed_def mark_job_poll_error_def Let_def mark_advances)

lemma same_billing_advances:
  assumes "io_respects same_billing m"
  shows "io_respects (advance R i k) m"
  unfolding io_respects_def advance_def
proof (intro allI impI)
  fix db
  assume at: "ready R i k db"
  have "same_billing db (snd (m db))" using assms by (simp add: io_respects_def)
  then have same: "ai_wallets (snd (m db)) = ai_wallets db" "ai_usages (snd (m db)) = ai_usages db"
    "ai_jobs (snd (m db)) = ai_jobs db" by (simp_all add: same_billing_def)
  from jobs_inv_cong [OF this] at same show "ready R i k (snd (m db)) \<and> moves R i db (snd (m db))"
    by (simp add: ready_def known_def usage_billable_def moves_def)
qed

lemma cache_urls_keep: "io_respects same_billing (cache_generation_urls env js wj usage type n body urls)"
proof (induction urls)
  case (Cons url urls)
  then show ?case
    by (auto simp: Let_def store_job_asset_def intro!: billing_kept.respects store_keeps)
qed (simp add: billing_kept.respects)

lemma respects_if:
  "(c \<Longrightarrow> io_respects P m) \<Longrightarrow> (\<not> c \<Longrightarrow> io_respects P n) \<Longrightarrow> io_respects P (if c then m else n)"
  by simp

lemma cache_advances: "io_respects (advance R i k) (cache_generation_assets env js wj type urls body)"
  by (rule same_billing_advances, unfold cache_generation_assets_def)
    (intro billing_kept.respects respects_if cache_urls_keep)

lemma capture_advances:
  "io_respects (advance R i k) (job_capture_usage env (Some k) charge body provider_job_id)"
  unfolding io_respects_def advance_def
proof (intro allI impI)
  fix db
  assume at: "ready R i k db"
  obtain x db' where run: "job_capture_usage env (Some k) charge body provider_job_id db = (x, db')" by fastforce
  from at have "jobs_inv (db, R)" "known i k db" "usage_billable k db" by (simp_all add: ready_def)
  from capture_moves [OF this run] run
  show "ready R i k (snd (job_capture_usage env (Some k) charge body provider_job_id db))
      \<and> moves R i db (snd (job_capture_usage env (Some k) charge body provider_job_id db))"
    by (simp add: ready_def moves_def)
qed

lemma finish_advances:
  assumes "job_id (wj_job wj) = i" and "job_usage_id (wj_job wj) = Some k"
  shows "io_respects (advance R i k) (finish_succeeded_job env js wj poll provider_job_id)"
  unfolding finish_succeeded_job_def Let_def assms
  by (intro advancing.io_bind marks_advance advance_cases cache_advances capture_advances)

text \<open>The end of a job whose open usage is released first.\<close>

lemma ended_moves:
  assumes "jobs_inv (db, R)" and "known i k db" and "usage_by_id k (ai_usages db) = Some u"
    and "usr_wallet_id u = Some w" and "is_object md"
    and rel: "db1 = db \<and> usr_status u \<noteq> ''refunded''
      \<or> open_usage u \<and> release_tx env e w k (usage_held u) st rid body reason md db = Inr (x, db1)"
    and upd: "update_job e' P f db1 = Inr (y, db')"
    and P: "\<And>j. j \<in> set (ai_jobs db) \<Longrightarrow> P j \<longleftrightarrow> job_id j = i"
    and f: "\<And>j. job_id (f j) = job_id j \<and> job_usage_id (f j) = job_usage_id j \<and> \<not> live (f j)"
  shows "moves R i db db'"
proof -
  obtain X v where m: "jobs_inv_but X (db1, R)" "X \<subseteq> {i}" "known i k db1"
    "acct_step\<^sup>*\<^sup>* (abs_account db) (abs_account db1)" "ai_jobs db1 = ai_jobs db"
    "usage_by_id k (ai_usages db1) = Some v" "usr_status v \<noteq> ''refunded''"
  proof (cases "db1 = db \<and> usr_status u \<noteq> ''refunded''")
    case True
    then show ?thesis using that [of "{}" u] assms(1-3) by simp
  next
    case False
    with rel have "open_usage u" "release_tx env e w k (usage_held u) st rid body reason md db = Inr (x, db1)" by auto
    from release_moves [OF assms(1-3) this(1) assms(4,5) this(2)] show ?thesis using that [of "{i}"] by auto
  qed
  have "moves R i db1 db'"
    by (rule update_job_moves(2) [OF m(1) upd m(3,2)]) (use m(5,6,7) P f in \<open>auto simp: fits_def\<close>)
  with m(4,5) show ?thesis by (auto simp: moves_def)
qed

lemma fail_moves:
  assumes "ready R i k db" and "job_id job = i" and "job_usage_id job = Some k"
    and "fail_job_and_release_usage env job reason ps body db = (x, db')"
  shows "moves R i db db' \<and> (\<forall>e. x = Inl e \<longrightarrow> db' = db)"
proof (cases x)
  case (Inl e)
  then have "db' = db" using assms(4) by (auto simp: fail_job_and_release_usage_def Let_def commit_def split: sum.splits)
  with assms(1) show ?thesis by (simp add: ready_def moves_refl)
next
  case (Inr y)
  from assms(1) have inv: "jobs_inv (db, R)" and k: "known i k db" by (simp_all add: ready_def)
  obtain u w z db1 where u: "usage_by_id k (ai_usages db) = Some u" "usr_wallet_id u = Some w"
    and rel: "(if usr_status u = ''failed'' \<or> usr_status u = ''succeeded'' then tx_return ()
       else release_tx env (job_db_error env) w k (usage_held u) (provider_status_number ps)
              (job_provider_job_id job) body reason (JObject [])) db = Inr (z, db1)"
    and upd: "update_job_failed env i ''provider_failed'' ps reason body (usage_held u) db1 = Inr (y, db')"
    using assms(4) [unfolded Inr]
    by (auto simp: fail_job_and_release_usage_def Let_def commit_Inr tx_success find_usage_Inr usage_settled_def
        assms(2,3) cong: if_cong)
  have st: "usr_status u = ''succeeded'' \<or> open_usage u" using assms(1) u(1)
    by (auto simp: ready_def usage_billable_def billable_def)
  have "moves R i db db'"
    by (rule ended_moves [OF inv k u _ _ upd [unfolded update_job_failed_def],
          where md = "JObject []" and e = "job_db_error env" and env = env
          and st = "provider_status_number ps" and rid = "job_provider_job_id job" and body = body and reason = reason
          and x = z])
      (use rel st in \<open>auto simp: live_def open_usage_def tx_return_Inr split: if_splits\<close>)
  with Inr show ?thesis by simp
qed

lemma process_moves:
  assumes "ready R (job_id (wj_job wj)) k db" and "job_usage_id (wj_job wj) = Some k"
    and "process_generation_job env js wj db = (x, db')"
  shows "moves R (job_id (wj_job wj)) db db' \<and> (\<forall>e. x = Inl e \<longrightarrow> ready R (job_id (wj_job wj)) k db')"
proof -
  let ?i = "job_id (wj_job wj)"
  have adv: "?thesis" if "io_respects (advance R ?i k) m" "m db = (x, db')" for m :: "unit ai_io"
    using that assms(1) unfolding io_respects_def advance_def by (metis snd_conv)
  have same: "?thesis" if "db' = db" using that assms(1) by (simp add: ready_def moves_refl)
  have fail: "?thesis" if "fail_job_and_release_usage env (wj_job wj) reason ps body db = (x, db')" for reason ps body
    using fail_moves [OF assms(1) refl assms(2) that] assms(1) by auto
  have read: "snd (load_job_provider p db) = db" for p
    by (cases p) (simp_all add: load_job_provider_def io_bind_def io_of_def ok_or_def io_read_def)
  show ?thesis
  proof (cases "fst (load_job_provider (job_provider_id (wj_job wj)) db)")
    case (Inl e)
    then show ?thesis using assms(3) read [of "job_provider_id (wj_job wj)"]
      by (intro same) (auto simp: process_generation_job_def Let_def io_bind_def split: sum.splits prod.splits)
  next
    case (Inr p)
    then have p: "load_job_provider (job_provider_id (wj_job wj)) db = (Inr p, db)"
      using read by (metis prod.collapse)
    show ?thesis
    proof (cases "job_provider_job_id (wj_job wj)")
      case None
      then show ?thesis using assms(3) p fail by (simp add: process_generation_job_def Let_def io_bind_def)
    next
      case (Some i)
      show ?thesis
      proof (cases "poll_provider_generation_job js p i")
        case (Inl e)
        then show ?thesis using assms(3) p Some
          by (intro same) (simp add: process_generation_job_def Let_def io_bind_def io_of_def)
      next
        case (Inr poll)
        then show ?thesis using assms(3) p Some fail adv [OF marks_advance(1)]
            adv [OF finish_advances [OF refl assms(2)]]
          by (cases "poll_status poll") (simp_all add: process_generation_job_def Let_def io_bind_def io_of_def)
      qed
    qed
  qed
qed

lemma work_moves:
  assumes "ready R (job_id (wj_job wj)) k db" and "job_usage_id (wj_job wj) = Some k"
  shows "moves R (job_id (wj_job wj)) db (work_on_job env js wj db)"
proof -
  obtain x db' where run: "process_generation_job env js wj db = (x, db')" by fastforce
  note m = process_moves [OF assms run]
  show ?thesis
  proof (cases x)
    case (Inl e)
    with m marks_advance(5) [of R "job_id (wj_job wj)" k env "job_attempts (wj_job wj)" "error_text e"]
    have "moves R (job_id (wj_job wj)) db' (work_on_job env js wj db)"
      by (simp add: work_on_job_def run io_respects_def advance_def)
    with m show ?thesis using moves_trans by blast
  next
    case (Inr y)
    with m show ?thesis by (simp add: work_on_job_def run)
  qed
qed


section \<open>A batch of the worker\<close>

lemma update_rows_inv:
  assumes "jobs_inv (db, R)" and "list_all (\<lambda>j. P j \<longrightarrow> job_check (f j)) (ai_jobs db)"
    and f: "\<And>j. job_id (f j) = job_id j \<and> job_usage_id (f j) = job_usage_id j"
    and fit: "\<And>j u. j \<in> set (ai_jobs db) \<Longrightarrow> P j \<Longrightarrow> fits j u \<Longrightarrow> fits (f j) u"
  shows "jobs_inv (db\<lparr>ai_jobs := update_where P f (ai_jobs db)\<rparr>, R)"
proof -
  let ?js = "update_where P f (ai_jobs db)"
  have keys: "map job_id ?js = map job_id (ai_jobs db)" "map job_usage_id ?js = map job_usage_id (ai_jobs db)"
    using f by (simp_all add: map_update_where_same)
  then have ids: "job_usage_id ` set ?js = job_usage_id ` set (ai_jobs db)" by (metis list.set_map)
  have ok: "job_ok {} (ai_usages db) (if P j then f j else j)" if j: "j \<in> set (ai_jobs db)" for j
  proof -
    have "job_ok {} (ai_usages db) j" using assms(1) j by (simp add: jobs_inv_but_def Let_def list_all_iff)
    with fit [OF j] f [of j] show ?thesis by (simp add: job_ok_def usage_of_def split: option.splits)
  qed
  have "list_all job_check ?js"
    using assms(1,2) by (auto simp: list_all_iff set_update_where jobs_inv_but_def Let_def)
  moreover have "list_all (job_ok {} (ai_usages db)) ?js"
    unfolding list_all_iff set_update_where by (blast intro: ok)
  moreover have "billing_state_inv (db\<lparr>ai_jobs := ?js\<rparr>, R)"
    using billing_inv_cong [of "db\<lparr>ai_jobs := ?js\<rparr>" db] assms(1)
    by (simp add: jobs_inv_but_def Let_def billing_state_inv_def)
  ultimately show ?thesis using assms(1) by (simp add: jobs_inv_but_def Let_def keys ids)
qed

definition workable :: "ai_db \<Rightarrow> worker_job \<Rightarrow> bool" where
  "workable db wj \<longleftrightarrow> (\<exists>j \<in> set (ai_jobs db). job_id j = job_id (wj_job wj)
     \<and> job_usage_id j = job_usage_id (wj_job wj) \<and> live j)"

lemma claimed_pollable:
  assumes "distinct (map job_id js)" and "j \<in> set js" and "job_id j \<in> set (claimed_ids now js)"
  shows "pollable now j"
proof -
  obtain j' where j': "j' \<in> set (take 20 (sort_key poll_order (filter (pollable now) js)))" "job_id j' = job_id j"
    using assms(3) unfolding claimed_ids_def by auto
  then have "j' \<in> set js" "pollable now j'" by (auto dest: in_set_takeD)
  with assms(1,2) j'(2) show ?thesis by (auto simp: distinct_map inj_on_def)
qed

lemma claim_moves:
  assumes "jobs_inv (db, R)" and "claim_pollable_generation_jobs env key_app db = (x, db')"
  shows "jobs_inv (db', R)" and "abs_account db' = abs_account db"
    and "x = Inr wjs \<Longrightarrow> list_all (workable db') wjs \<and> distinct (map (\<lambda>w. job_id (wj_job w)) wjs)"
proof -
  let ?ids = "set (claimed_ids (ae_db_now env) (ai_jobs db))"
  let ?js = "update_where (\<lambda>j. job_id j \<in> ?ids) (claim_job env) (ai_jobs db)"
  let ?wjs = "map (\<lambda>j. \<lparr>wj_job = j, wj_app_id = Option.bind (job_server_key_id j) key_app\<rparr>)
     (filter (\<lambda>j. job_id j \<in> ?ids) ?js)"
  consider e where "x = Inl e" "db' = db"
    | "x = Inr ?wjs" "db' = db\<lparr>ai_jobs := ?js\<rparr>" "list_all (\<lambda>j. job_id j \<in> ?ids \<longrightarrow> job_check (claim_job env j)) (ai_jobs db)"
    using assms(2) by (auto simp: claim_pollable_generation_jobs_def commit_def Let_def update_returning_def
        split: if_splits)
  then have "jobs_inv (db', R) \<and> abs_account db' = abs_account db
     \<and> (x = Inr wjs \<longrightarrow> list_all (workable db') wjs \<and> distinct (map (\<lambda>w. job_id (wj_job w)) wjs))"
  proof cases
    case 2
    from assms(1) have d: "distinct (map job_id (ai_jobs db))" by (simp add: jobs_inv_but_def Let_def)
    have ids: "job_id (claim_job env j) = job_id j \<and> job_usage_id (claim_job env j) = job_usage_id j" for j
      by (simp add: claim_job_def)
    have lv: "live j" if "j \<in> set (ai_jobs db)" "job_id j \<in> ?ids" for j
      using claimed_pollable [OF d that] by (auto simp: pollable_def live_def)
    have lv': "live (claim_job env j)" if "live j" for j
      using that by (auto simp: live_def claim_job_def)
    have inv: "jobs_inv (db', R)" unfolding 2(2)
      by (rule update_rows_inv [OF assms(1) 2(3) ids]) (use lv in \<open>auto simp: fits_def claim_job_def\<close>)
    have "workable db' w" if w: "w \<in> set ?wjs" for w
    proof -
      obtain j where j: "j \<in> set ?js" "job_id j \<in> ?ids" "wj_job w = j" using w by auto
      then obtain j' where j': "j' \<in> set (ai_jobs db)" "j = (if job_id j' \<in> ?ids then claim_job env j' else j')"
        by (auto simp: set_update_where)
      then have "job_id j' \<in> ?ids" using j(2) ids by (auto split: if_splits)
      then have "live j" using j' lv lv' by simp
      with j show ?thesis unfolding workable_def 2(2) by auto
    qed
    moreover have "distinct (map (\<lambda>w. job_id (wj_job w)) ?wjs)"
    proof -
      have "distinct (map job_id ?js)" using d ids by (simp add: map_update_where_same)
      then have "distinct (map job_id (filter (\<lambda>j. job_id j \<in> ?ids) ?js))" by (rule distinct_map_filter)
      then show ?thesis by (simp add: comp_def)
    qed
    ultimately show ?thesis using inv 2(1) billing_inv_cong(2) [of db' db] 2(2) by (auto simp: list_all_iff)
  qed (use assms(1) in simp)
  then show "jobs_inv (db', R)" "abs_account db' = abs_account db"
    "x = Inr wjs \<Longrightarrow> list_all (workable db') wjs \<and> distinct (map (\<lambda>w. job_id (wj_job w)) wjs)" by blast+
qed

lemma live_ready:
  assumes "jobs_inv (db, R)" and "workable db wj"
  obtains k where "ready R (job_id (wj_job wj)) k db" "job_usage_id (wj_job wj) = Some k"
proof -
  from assms(2) obtain j where j: "j \<in> set (ai_jobs db)" "job_id j = job_id (wj_job wj)"
    "job_usage_id j = job_usage_id (wj_job wj)" "live j" by (auto simp: workable_def)
  obtain k u where u: "job_usage_id j = Some k" "usage_by_id k (ai_usages db) = Some u" "fits j u"
    using inv_usage [OF assms(1) j(1)] by auto
  then have "ready R (job_id (wj_job wj)) k db" using assms(1) j
    by (auto simp: ready_def known_def usage_billable_def fits_def)
  then show ?thesis using that u(1) j(3) by simp
qed

lemma batch_moves:
  assumes "jobs_inv (db, R)" and "list_all (workable db) wjs" and "distinct (map (\<lambda>w. job_id (wj_job w)) wjs)"
  shows "jobs_inv (fold (work_on_job env js) wjs db, R)
     \<and> acct_step\<^sup>*\<^sup>* (abs_account db) (abs_account (fold (work_on_job env js) wjs db))
     \<and> (\<forall>j. job_id j \<notin> (\<lambda>w. job_id (wj_job w)) ` set wjs
          \<longrightarrow> (j \<in> set (ai_jobs (fold (work_on_job env js) wjs db)) \<longleftrightarrow> j \<in> set (ai_jobs db)))"
  using assms
proof (induction wjs arbitrary: db)
  case (Cons wj wjs)
  obtain k where k: "ready R (job_id (wj_job wj)) k db" "job_usage_id (wj_job wj) = Some k"
    using live_ready [OF Cons.prems(1)] Cons.prems(2) by auto
  let ?db = "work_on_job env js wj db"
  note m = work_moves [OF k, of env js, unfolded moves_def]
  have "workable ?db w" if "w \<in> set wjs" for w
  proof -
    have "job_id (wj_job w) \<noteq> job_id (wj_job wj)" using Cons.prems(3) that by (force simp: image_iff)
    moreover have "workable db w" using Cons.prems(2) that by (auto simp: list_all_iff)
    ultimately show ?thesis using m unfolding workable_def by metis
  qed
  then have "list_all (workable ?db) wjs" by (simp add: list_all_iff)
  note ih = Cons.IH [of ?db, OF conjunct1 [OF m] this]
  show ?case using ih Cons.prems(3) m by (auto intro: rtranclp_trans)
qed simp

lemma worker_moves:
  assumes "jobs_inv (db, R)" and "process_generation_job_batch env js db = (x, db')"
  shows "jobs_inv (db', R) \<and> acct_step\<^sup>*\<^sup>* (abs_account db) (abs_account db')"
proof -
  obtain y db1 where cl: "claim_pollable_generation_jobs env (js_key_app js) db = (y, db1)" by fastforce
  note c = claim_moves [OF assms(1) cl]
  show ?thesis
  proof (cases y)
    case (Inl e)
    with assms(2) cl c show ?thesis by (simp add: process_generation_job_batch_def io_bind_def)
  next
    case (Inr wjs)
    with assms(2) cl have "db' = fold (work_on_job env js) wjs db1"
      by (simp add: process_generation_job_batch_def io_bind_def io_modify_def)
    with batch_moves [OF c(1), of wjs env js] c(3) [OF Inr] c(2) show ?thesis by simp
  qed
qed


section \<open>Actions on a job\<close>

lemma find_job_Inr: "find_job P db = Inr job \<Longrightarrow> job \<in> set (ai_jobs db) \<and> P job"
  unfolding find_job_def ok_or_Inr by (rule find_some)

lemma found_job:
  assumes "jobs_inv (db, R)" and "find_job P db = Inr job"
  obtains k u where "job \<in> set (ai_jobs db)" "job_usage_id job = Some k" "known (job_id job) k db"
    "usage_by_id k (ai_usages db) = Some u" "fits job u"
proof -
  have job: "job \<in> set (ai_jobs db)" using find_job_Inr [OF assms(2)] by blast
  obtain k u where "job_usage_id job = Some k" "usage_by_id k (ai_usages db) = Some u" "fits job u"
    using inv_usage [OF assms(1) job] by auto
  with job that show ?thesis by (auto simp: known_def)
qed

lemma retry_poll_moves:
  assumes "jobs_inv (db, R)" and "ensure_job_can_retry_poll job = Inr ()" and "job \<in> set (ai_jobs db)"
  shows "moves R (job_id job) db (snd (mark_job_for_poll_retry env t (job_id job) reason db))"
proof -
  let ?P = "\<lambda>j. job_tenant_id j = t \<and> job_id j = job_id job"
  let ?f = "\<lambda>j. j\<lparr>job_status := ''running'', job_failure_reason := Some (truncate_error reason),
     job_next_poll_at := Some (ae_db_now env)\<rparr>"
  have "job_status job \<in> {''submitted'', ''running'', ''caching'', ''timeout_review''}"
    using assms(2) unfolding ensure_job_can_retry_poll_def by (metis sum.distinct(1))
  then have lv: "live job" by (auto simp: live_def)
  obtain x db' where run: "mark_job_for_poll_retry env t (job_id job) reason db = (x, db')" by fastforce
  show ?thesis
  proof (cases x)
    case (Inl e)
    with run have "db' = db" by (auto simp: mark_job_for_poll_retry_def commit_def split: sum.splits)
    with run assms(1) show ?thesis by (simp add: moves_refl)
  next
    case (Inr y)
    with run have "update_job (job_db_error env) ?P ?f db = Inr ((), db')"
      by (auto simp: mark_job_for_poll_retry_def commit_Inr)
    then have db': "list_all (\<lambda>j. ?P j \<longrightarrow> job_check (?f j)) (ai_jobs db)"
      "db' = db\<lparr>ai_jobs := update_where ?P ?f (ai_jobs db)\<rparr>" by (simp_all only: update_job_Inr)
    have "jobs_inv (db', R)" unfolding db'(2)
      by (rule update_rows_inv [OF assms(1) db'(1)])
        (use lv one_job(1) [OF assms(1) _ assms(3)] in \<open>auto simp: fits_def\<close>)
    moreover have "abs_account db' = abs_account db" using billing_inv_cong(2) [of db' db] db'(2) by simp
    moreover have "j \<in> set (ai_jobs db') \<longleftrightarrow> j \<in> set (ai_jobs db)" if "job_id j \<noteq> job_id job" for j
      using that by (auto simp: db'(2) set_update_where image_iff)
    ultimately show ?thesis using run by (simp add: moves_def)
  qed
qed

lemma cancel_moves:
  assumes "jobs_inv (db, R)"
  shows "moves R i db (snd (cancel_server_job_and_release_usage env t c i reason db))"
proof -
  let ?P = "\<lambda>j. job_tenant_id j = t \<and> job_customer_id j = c \<and> job_id j = i"
  obtain x db' where run: "cancel_server_job_and_release_usage env t c i reason db = (x, db')" by fastforce
  show ?thesis
  proof (cases x)
    case (Inl e)
    with run have "db' = db" by (auto simp: cancel_server_job_and_release_usage_def Let_def commit_def split: sum.splits)
    with run assms show ?thesis by (simp add: moves_refl)
  next
    case (Inr y)
    let ?md = "JObject [(''source'', JString ''web_job_cancel''), (''job_id'', uuid_json env (Some i))]"
    obtain job k u w released db1 where j: "find_job ?P db = Inr job" "ensure_job_can_cancel job = Inr ()"
      and u: "job_usage_id job = Some k" "usage_by_id k (ai_usages db) = Some u" "usr_wallet_id u = Some w"
      and rel: "release_cancelled env i job k \<lparr>ufu_wallet_id = w, ufu_status = usr_status u,
         ufu_held_minor = usage_held u\<rparr> reason db = Inr (released, db1)"
      and upd: "mark_job_cancelled env t c i released reason db1 = Inr (y, db')"
      using run [unfolded Inr]
      by (auto simp: cancel_server_job_and_release_usage_def Let_def commit_Inr tx_success find_usage_Inr
          load_customer_job_def)
    have P: "?P job" by (rule find_job_Inr [OF j(1), THEN conjunct2])
    obtain k' u' where "job \<in> set (ai_jobs db)" "job_usage_id job = Some k'" "known (job_id job) k' db"
      "usage_by_id k' (ai_usages db) = Some u'" "fits job u'" by (rule found_job [OF assms j(1)])
    then have job: "job \<in> set (ai_jobs db)" "known i k db" "fits job u" using u P by simp_all
    have "live job" using j(2) unfolding ensure_job_can_cancel_def live_def by (metis sum.distinct(1))
    then have "billable u" using job(3) by (simp add: fits_def)
    have "moves R i db db'"
    proof (rule ended_moves [OF assms job(2) u(2,3) _ _ upd [unfolded mark_job_cancelled_def]])
      show "is_object ?md" by simp
      show "db1 = db \<and> usr_status u \<noteq> ''refunded'' \<or> open_usage u \<and> release_tx env (job_db_error env) w k
          (usage_held u) 0 (job_provider_job_id job) None reason ?md db = Inr ((), db1)"
        using rel \<open>billable u\<close>
        by (auto simp: release_cancelled_def usage_settled_def billable_def open_usage_def tx_success split: if_splits)
      show "?P j \<longleftrightarrow> job_id j = i" if "j \<in> set (ai_jobs db)" for j
        using one_job(1) [OF assms that job(1)] P by auto
    qed (simp add: live_def)
    then show ?thesis by (simp add: run)
  qed
qed

lemma admin_fail_moves:
  assumes "jobs_inv (db, R)" and "job \<in> set (ai_jobs db)" and "ensure_job_can_fail_release job = Inr ()"
  shows "moves R (job_id job) db (snd (fail_admin_job_and_release_usage env job reason db))"
proof -
  obtain x db' where run: "fail_admin_job_and_release_usage env job reason db = (x, db')" by fastforce
  obtain k u where u: "job_usage_id job = Some k" "usage_by_id k (ai_usages db) = Some u" "fits job u"
    using inv_usage [OF assms(1,2)] by auto
  have k: "known (job_id job) k db" using assms(2) u(1) by (auto simp: known_def)
  show ?thesis
  proof (cases x)
    case (Inl e)
    with run u have "db' = db"
      by (auto simp: fail_admin_job_and_release_usage_def Let_def commit_def io_bind_def io_of_def ok_or_def
          split: sum.splits)
    with run assms show ?thesis by (simp add: moves_refl)
  next
    case (Inr y)
    let ?md = "JObject [(''source'', JString ''admin_job_action''), (''job_id'', uuid_json env (Some (job_id job)))]"
    obtain w refunded db1 where w: "usr_wallet_id u = Some w"
      and rel: "(if usr_status u = ''failed'' \<or> usr_status u = ''succeeded'' then tx_return (job_refunded_minor job)
         else tx_bind (release_tx env (job_db_error env) w k (usage_held u)
                (provider_status_number (job_provider_status job)) (job_provider_job_id job)
                (job_provider_result_response job) reason ?md) (\<lambda>_. tx_return (usage_held u))) db
         = Inr (refunded, db1)"
      and upd: "update_job_failed env (job_id job) ''failed'' (job_provider_status job) reason
          (job_provider_result_response job) refunded db1 = Inr (y, db')"
      using run [unfolded Inr] u(1,2)
      by (auto simp: fail_admin_job_and_release_usage_def Let_def io_success tx_success find_usage_Inr
          usage_settled_def cong: if_cong)
    have "usr_status u \<noteq> ''refunded''" using assms(3) u(3)
      by (auto simp: ensure_job_can_fail_release_def fits_def split: if_splits)
    moreover have "usage_check u" using ut.get_in [OF u(2)] inv_billing [OF assms(1)]
      by (auto simp: billing_inv_def list_all_iff)
    ultimately have st: "usr_status u = ''failed'' \<or> usr_status u = ''succeeded'' \<or> open_usage u"
      by (auto simp: usage_check_def open_usage_def)
    have "moves R (job_id job) db db'"
      by (rule ended_moves [OF assms(1) k u(2) w _ _ upd [unfolded update_job_failed_def],
            where md = ?md and e = "job_db_error env" and env = env and x = "()"
            and st = "provider_status_number (job_provider_status job)" and rid = "job_provider_job_id job"
            and body = "job_provider_result_response job" and reason = reason])
        (use rel st in \<open>auto simp: live_def open_usage_def tx_success split: if_splits\<close>)
    then show ?thesis by (simp add: run)
  qed
qed

text \<open>A refund gives back from the account of a usage that is settled.\<close>

lemma closed_usage_update:
  assumes "billing_inv db" and "usage_by_id k (ai_usages db) = Some u" and "\<not> open_usage u"
    and "\<not> open_usage (g u)" and g: "\<And>v. usr_id (g v) = usr_id v" and "usage_check (g u)"
    and "ai_wallets db' = ai_wallets db" and us: "ai_usages db' = set_usage k g (ai_usages db)"
  shows "billing_inv db'" and "abs_account db' = abs_account db" and "reserved db' = reserved db"
proof -
  from assms(1) have inv: "distinct (map usr_id (ai_usages db))" "list_all usage_check (ai_usages db)"
    "list_all (\<lambda>u. open_usage u \<longrightarrow> 0 \<le> usage_held u \<and> usr_wallet_id u \<in> Some ` wal_id ` set (ai_wallets db))
       (ai_usages db)" by (simp_all add: billing_inv_def)
  have holds: "wallet_holds i (ai_usages db') = wallet_holds i (ai_usages db)" for i
    unfolding us by (rule other_usage_holds [where f = g, OF inv(1) assms(2-4)])
  then show acc: "abs_account db' = abs_account db" using assms(7) by (simp add: abs_account_def fun_eq_iff)
  show "reserved db' = reserved db" using holds by (simp add: reserved_def fun_eq_iff)
  have "list_all usage_check (ai_usages db')"
    unfolding us by (rule ut.list_all_upd [where f = g, OF inv(1) assms(2) inv(2) assms(6)])
  moreover have "list_all (\<lambda>u. open_usage u \<longrightarrow> 0 \<le> usage_held u
      \<and> usr_wallet_id u \<in> Some ` wal_id ` set (ai_wallets db)) (ai_usages db')"
    unfolding us by (rule ut.list_all_upd [where f = g, OF inv(1) assms(2) inv(3)]) (use assms(4) in simp)
  moreover have "distinct (map usr_id (ai_usages db'))" using inv(1) g by (simp add: us ut.keys_upd)
  ultimately show "billing_inv db'" using assms(1,7) acc by (simp add: billing_inv_def)
qed

lemma refund_moves:
  assumes "jobs_inv (db, R)" and "job \<in> set (ai_jobs db)" and "ensure_job_can_refund job = Inr ()"
  shows "moves R (job_id job) db (snd (refund_admin_job env job reason db))"
proof -
  obtain x db' where run: "refund_admin_job env job reason db = (x, db')" by fastforce
  obtain k u where u: "job_usage_id job = Some k" "usage_by_id k (ai_usages db) = Some u" "fits job u"
    using inv_usage [OF assms(1,2)] by auto
  have k: "known (job_id job) k db" using assms(2) u(1) by (auto simp: known_def)
  show ?thesis
  proof (cases x)
    case (Inl e)
    with run u have "db' = db"
      by (auto simp: refund_admin_job_def Let_def commit_def io_bind_def io_of_def ok_or_def split: sum.splits)
    with run assms show ?thesis by (simp add: moves_refl)
  next
    case (Inr y)
    let ?e = "job_db_error env" and ?r = "saturating_sub_i64 (job_charged_minor job) (job_refunded_minor job)"
    obtain w' w v db1 z db2 z' db3 where w: "wallet_by_id w' (ai_wallets db) = Some w" and st: "usr_status u = ''succeeded''"
      and pos: "0 < ?r" and bal: "update_wallet_balance env ?e (wal_id w) ?r db = Inr (v, db1)"
      and led: "insert_wallet_ledger_entry env ?e (wal_tenant_id w) v ''refund'' ?r reason k
          (JObject [(''source'', JString ''admin_job_action''), (''job_id'', uuid_json env (Some (job_id job)))]) db1
          = Inr (z, db2)"
      and us: "update_usage_refunded env k ?r reason db2 = Inr (z', db3)"
      and jb: "update_job_refunded env (job_id job) ?r reason db3 = Inr (y, db')"
      using run [unfolded Inr] u(1,2)
      by (auto simp: refund_admin_job_def Let_def io_success tx_success find_usage_Inr
          find_wallet_by_id_for_update_def split: if_splits)
    note b = inv_billing [OF assms(1)]
    from b have d: "distinct (map wal_id (ai_wallets db))" "distinct (map usr_id (ai_usages db))"
      by (simp_all add: billing_inv_def)
    let ?f = "touched env (\<lambda>w. w\<lparr>wal_balance_minor := wal_balance_minor w + ?r\<rparr>)"
    have w2: "wallet_by_id (wal_id w) (ai_wallets db) = Some w" using w wt.get_in [OF w] by simp
    from bal update_wallet_one [OF d(1) w2, where P = "\<lambda>x. wal_id x = wal_id w"]
    have db1: "db1 = db\<lparr>ai_wallets := set_wallet (wal_id w) ?f (ai_wallets db)\<rparr>" "wallet_check (?f w)"
      by (auto simp: update_wallet_balance_def split: if_splits)
    have r1: "billing_inv db1" "abs_account db1 = (abs_account db)(wal_id w := acct_adjust ?r (abs_account db (wal_id w)))"
      using rebalanced [OF b w2, of ?f ?r db1] db1 by (simp_all add: touched_def)
    obtain l where db2: "db2 = db1\<lparr>ai_ledger := ai_ledger db1 @ l\<rparr>"
      using led by (auto simp: insert_wallet_ledger_entry_def Let_def split: if_splits)
    let ?g = "\<lambda>u. u\<lparr>usr_status := ''refunded'', usr_refunded_minor := usr_refunded_minor u + ?r,
       usr_metadata_json := jsonb_concat (usr_metadata_json u)
         (JObject [(''manual_refund'', JObject [(''amount_minor'', num ?r), (''reason'', JString reason),
            (''refunded_at'', JString (ae_time_text env (ae_now env)))])]),
       usr_completed_at := Some (ae_db_now env)\<rparr>"
    have same: "ai_wallets db2 = ai_wallets db1" "ai_usages db2 = ai_usages db" "ai_jobs db2 = ai_jobs db"
      by (simp_all add: db2 db1)
    from us update_usage_one [of db2 k u] d(2) u(2)
    have db3: "db3 = db2\<lparr>ai_usages := set_usage k ?g (ai_usages db)\<rparr>" "usage_check (?g u)"
      by (auto simp: update_usage_refunded_def same split: if_splits)
    have b2: "billing_inv db2" "abs_account db2 = abs_account db1"
      using r1(1) billing_inv_cong [of db2 db1] by (simp_all add: db2)
    have r3: "billing_inv db3" "abs_account db3 = abs_account db1" "reserved db3 = reserved db"
      using closed_usage_update [OF b2(1), of k u ?g db3] u(2) st db3 b2(2) reserved_cong [OF same(2)]
      by (simp_all add: same open_usage_def)
    have st3: "billing_state_inv (db3, R)" using assms(1) r3(1,3)
      by (simp add: jobs_inv_but_def Let_def billing_state_inv_def)
    have three: "ai_jobs db3 = ai_jobs db" "ai_usages db3 = set_usage k ?g (ai_usages db)"
      by (simp_all add: db3 same)
    note m = usage_moves [OF assms(1) k three _ st3 u(2)]
    have "0 \<le> job_refunded_minor job" using assms(1,2)
      by (auto simp: jobs_inv_but_def Let_def list_all_iff job_check_def)
    then have "0 < job_charged_minor job" using assms(3)
      by (auto simp: ensure_job_can_refund_def split: if_splits)
    then have "moves R (job_id job) db3 db'"
      by (intro update_job_moves(2) [OF m(1) jb [unfolded update_job_refunded_def] m(2)])
        (use one_job(1) [OF assms(1) _ assms(2)] three(1) in \<open>auto simp: fits_def live_def\<close>)
    moreover have "acct_step (abs_account db) (abs_account db3)"
      unfolding r3(2) r1(2) using pos account_of_wallet(4) [OF b w2]
      by (intro acct_step.acct_adjust) (simp add: account_ok_def acc_available_def)
    ultimately show ?thesis using three(1) run by (auto simp: moves_def intro: converse_rtranclp_into_rtranclp)
  qed
qed

text \<open>An action within the checks, the reads and the audit entry around it.\<close>

lemma moves_cong:
  assumes "moves R i db a" and "ai_wallets b = ai_wallets a" and "ai_usages b = ai_usages a" and "ai_jobs b = ai_jobs a"
  shows "moves R i db b"
  using assms jobs_inv_cong [OF assms(2-4)] by (simp add: moves_def)

lemma snd_reading: "snd (io_bind (io_read f) k s) = (case f s of Inl e \<Rightarrow> s | Inr a \<Rightarrow> snd (k a s))"
  by (simp add: io_bind_def io_read_def split: sum.splits)

lemma admin_action_moves:
  assumes "jobs_inv (db, R)"
    and act: "\<And>job reason. load_admin_job (adm_tenant_id admin) i db = Inr job \<Longrightarrow> check job = Inr () \<Longrightarrow>
      moves R i db (snd (act job reason db))"
  shows "moves R i db (snd (admin_job_action env admin i reason dflt action check act db))"
proof -
  have audit: "moves R i db (snd (audit_admin_job_action env admin a j j' r s))" if "moves R i db s" for a j j' r s
    unfolding audit_admin_job_action_def
    by (rule commit_keeps) (use that in \<open>auto simp: ai_audit_def tx_success intro: moves_cong\<close>)
  have "moves R i db (snd (io_bind (act job r) (\<lambda>_. io_bind (find_generation_job_by_id (adm_tenant_id admin) i)
      (\<lambda>updated. io_bind (audit_admin_job_action env admin action job (jv_job updated) r) (\<lambda>_. io_return updated))) db))"
    if "load_admin_job (adm_tenant_id admin) i db = Inr job" "check job = Inr ()" for job r
  proof (rule io_bind_keeps)
    show "moves R i db (snd (act job r db))" using act [OF that] .
    fix z s'
    assume "act job r db = (Inr z, s')"
    with act [OF that, of r] have s': "moves R i db s'" by simp
    show "moves R i db (snd (io_bind (find_generation_job_by_id (adm_tenant_id admin) i)
      (\<lambda>updated. io_bind (audit_admin_job_action env admin action job (jv_job updated) r) (\<lambda>_. io_return updated)) s'))"
    proof (rule io_bind_keeps)
      fix v s''
      assume "find_generation_job_by_id (adm_tenant_id admin) i s' = (Inr v, s'')"
      then have "s'' = s'" by (simp add: find_generation_job_by_id_def io_read_Inr)
      with audit [OF s'] show "moves R i db (snd (io_bind (audit_admin_job_action env admin action job (jv_job v) r)
          (\<lambda>_. io_return v) s''))" by (simp add: snd_then_read snd_read)
    qed (simp add: find_generation_job_by_id_def snd_read s')
  qed
  then show ?thesis using moves_refl [OF assms(1)]
    by (auto simp: admin_job_action_def Let_def snd_check snd_reading split: sum.splits)
qed

lemma retry_cache_moves:
  assumes "jobs_inv (db, R)" and "job \<in> set (ai_jobs db)" and "live job"
  shows "moves R (job_id job) db (snd (retry_cache_admin_job env js job reason db))"
proof -
  obtain k u where u: "job_usage_id job = Some k" "usage_by_id k (ai_usages db) = Some u" "fits job u"
    using inv_usage [OF assms(1,2)] by auto
  have "ready R (job_id job) k db" using assms u by (auto simp: ready_def known_def usage_billable_def fits_def)
  moreover have "io_respects (advance R (job_id job) k) (retry_cache_admin_job env js job reason)"
    unfolding retry_cache_admin_job_def Let_def u(1)
    by (intro advancing.respects respects_if marks_advance cache_advances capture_advances)
  ultimately show ?thesis by (simp add: io_respects_def advance_def)
qed

end
