(* ===== verification/GatewayRuns.thy ===== *)
theory GatewayRuns
  imports Gateway
begin

text \<open>
  What one request of the gateway does to the accounts: whatever it answers, it leaves no hold
  behind, and it takes money only when it answers with the provider's response.
\<close>

section \<open>Estimates are not negative\<close>

definition prices_bounded :: "gateway_model \<Rightarrow> bool" where
  "prices_bounded m \<longleftrightarrow>
     prices_wf m \<and> gm_input_1k_price_minor m \<le> 10 ^ 15 \<and> gm_output_1k_price_minor m \<le> 10 ^ 15"

lemma fee_bounded:
  assumes "t \<le> 512000" and "p \<le> 10 ^ 15"
  shows "token_fee t p \<le> i64_max"
proof (cases "t \<le> 0 \<or> p \<le> 0")
  case False
  then have "t * p \<le> 512000 * 10 ^ 15" using assms by (intro mult_mono) auto
  then have "(t * p + 999) div 1000 \<le> (512000 * 10 ^ 15 + 999) div 1000" by (intro zdiv_mono1) auto
  then show ?thesis using False by (simp add: token_fee_def)
qed (simp add: token_fee_def)

lemma price_nonneg:
  assumes "token_price_minor t p = Inr n" and "in_i64 t" and "in_i64 p" and "t \<le> 512000" and "p \<le> 10 ^ 15"
  shows "0 \<le> n"
  using token_price_fee [OF assms(2,3) fee_bounded [OF assms(4,5)]] assms(1) token_fee_nonneg by auto

lemma embedding_tokens_bounds:
  "estimate_embedding_input_tokens to_vec payload = Inr n \<Longrightarrow> in_i64 n \<and> n \<le> 512000"
proof -
  assume "estimate_embedding_input_tokens to_vec payload = Inr n"
  then obtain v where "(case to_vec v of Inl e \<Rightarrow> Inl (ValidationFailed (''embedding input invalid: '' @ e))
     | Inr bytes \<Rightarrow> Inr (clamp_int (int (length bytes) div 4 + 1) 1 max_prompt_token_estimate)) = Inr n"
    unfolding estimate_embedding_input_tokens_def rs_bind_Inr by blast
  then obtain bytes :: string where "n = clamp_int (int (length bytes) div 4 + 1) 1 max_prompt_token_estimate"
    by (auto split: sum.splits)
  then show ?thesis
    using clamp_int_bounds [of 1 max_prompt_token_estimate] clamp_i64 by (simp add: max_prompt_token_estimate_def)
qed

lemma budget_bounds: "in_i64 (completion_token_budget payload) \<and> completion_token_budget payload \<le> 512000"
proof -
  have "clamp_int x 0 max_completion_token_budget \<le> 512000" for x
    using clamp_int_bounds [of 0 max_completion_token_budget x] by (auto simp: max_completion_token_budget_def)
  then show ?thesis using clamp_i64 by (auto simp: completion_token_budget_def Let_def)
qed

lemma chat_estimate_nonneg:
  assumes "estimate_hold_minor to_vec payload m = Inr h" and "prices_bounded m"
  shows "0 \<le> h"
proof -
  from assms(1) obtain p i out where t: "estimate_prompt_tokens to_vec payload = Inr p"
      "token_price_minor p (gm_input_1k_price_minor m) = Inr i"
      "token_price_minor (completion_token_budget payload) (gm_output_1k_price_minor m) = Inr out"
    and h: "h = gm_request_price_minor m + i + out"
    by (auto simp: estimate_hold_minor_def rs_bind_Inr ok_or_Inr checked_add_Some bind_eq_Some_conv)
  have "in_i64 p" "p \<le> 512000"
    using estimate_prompt_tokens_bounds [OF t(1)] by (auto simp: max_prompt_token_estimate_def)
  then have "0 \<le> i" using price_nonneg [OF t(2)] assms(2) by (simp add: prices_bounded_def prices_wf_def)
  moreover have "0 \<le> out"
    using price_nonneg [OF t(3)] budget_bounds assms(2) by (simp add: prices_bounded_def prices_wf_def)
  ultimately show ?thesis using h assms(2) by (simp add: prices_bounded_def prices_wf_def)
qed

lemma embedding_estimate_nonneg:
  assumes "estimate_embedding_hold_minor to_vec payload m = Inr h" and "prices_bounded m"
  shows "0 \<le> h"
proof -
  from assms(1) obtain p i where t: "estimate_embedding_input_tokens to_vec payload = Inr p"
      "token_price_minor p (gm_input_1k_price_minor m) = Inr i" and h: "h = gm_request_price_minor m + i"
    by (auto simp: estimate_embedding_hold_minor_def rs_bind_Inr ok_or_Inr checked_add_Some)
  then show ?thesis
    using price_nonneg [OF t(2)] embedding_tokens_bounds [OF t(1)] assms(2)
    by (simp add: prices_bounded_def prices_wf_def)
qed

lemma image_estimate_nonneg:
  "estimate_image_hold_minor payload m = Inr h \<Longrightarrow> prices_bounded m \<Longrightarrow> 0 \<le> h"
  by (auto simp: estimate_image_hold_minor_def rs_bind_Inr ok_or_Inr checked_add_Some checked_mul_Some
      prices_bounded_def prices_wf_def dest: image_count_bounds)

lemma video_estimate_nonneg:
  "estimate_video_hold_minor payload m = Inr h \<Longrightarrow> prices_bounded m \<Longrightarrow> 0 \<le> h"
  by (auto simp: estimate_video_hold_minor_def rs_bind_Inr ok_or_Inr checked_add_Some checked_mul_Some
      prices_bounded_def prices_wf_def dest: requested_video_seconds_bounds split: if_splits)

definition gateway_routes :: "gateway_route list" where
  "gateway_routes = [chat_route, image_route, video_route, embedding_route]"

lemmas route_defs = gateway_routes_def chat_route_def image_route_def video_route_def embedding_route_def

lemma route_estimate_nonneg:
  assumes "rt \<in> set gateway_routes" and "rt_estimate rt env payload m = Inr h" and "prices_bounded m"
  shows "0 \<le> h"
  using assms chat_estimate_nonneg image_estimate_nonneg video_estimate_nonneg embedding_estimate_nonneg
  by (auto simp: route_defs)

lemma route_cache_keeps:
  assumes "rt \<in> set gateway_routes" and "rt_cache rt env sv caller usage body db = (r, body', db')"
  shows "same_billing db db'"
  using assms by (auto simp: route_defs no_cache_def dest: cache_images_keep cache_videos_keep)


section \<open>Settling\<close>

lemma settled_keeps_open:
  assumes "billing_inv db" and "reserved db r" and "same_billing db db1"
  shows "billing_inv db1 \<and> reserved db1 r \<and> abs_account db1 = abs_account db"
  using assms billing_inv_cong [of db1 db] by (simp add: same_billing_def)

text \<open>The reservation \<open>r\<close> is settled, and \<open>c\<close> leaves the wallet.\<close>

definition settles :: "ai_db \<Rightarrow> billing_reservation \<Rightarrow> int \<Rightarrow> ai_db \<Rightarrow> bool" where
  "settles db r c db' \<longleftrightarrow>
     (\<exists>f g l. db' = settled db r f g l \<and> closes g \<and> (\<forall>u. usage_check u \<longrightarrow> usage_check (g u))
        \<and> takes c (br_held_minor r) f)"

lemma release_does:
  assumes "billing_inv db" and "reserved db r"
  obtains db' where "release_usage env e r st rid body reason db = (Inr (), db')" "settles db r 0 db'"
  using release_settles [OF assms, of env e st rid body reason] that unfolding settles_def by blast

lemma capture_does:
  assumes "billing_inv db" and "reserved db r"
  obtains db' where "capture_usage env r m st rid us charge body db = (Inr (), db')"
    "settles db r (min (max charge 0) (br_held_minor r + acc_available (abs_account db (br_wallet_id r)))) db'"
  using capture_settles [OF assms, of env m st rid us charge body] that unfolding settles_def by blast

lemma settles_effect:
  assumes "billing_inv db" and "reserved db r" and "settles db r c db'"
    and "0 \<le> c" and "c \<le> br_held_minor r + acc_available (abs_account db (br_wallet_id r))"
  shows "billing_inv db'" and "abs_account db' = (abs_account db)(br_wallet_id r :=
     \<lparr>acc_balance = acc_balance (abs_account db (br_wallet_id r)) - c,
      acc_holds = acc_holds (abs_account db (br_wallet_id r)) - {#(br_usage_id r, br_held_minor r)#}\<rparr>)"
proof -
  from assms(3) obtain f g l where s: "db' = settled db r f g l" "closes g"
    "\<And>u. usage_check u \<Longrightarrow> usage_check (g u)" "takes c (br_held_minor r) f" by (auto simp: settles_def)
  have check: "usage_check (g u)" if "usage_by_id (br_usage_id r) (ai_usages db) = Some u" for u
    using ut.get_in [OF that] assms(1) s(3) by (auto simp: billing_inv_def list_all_iff)
  show "billing_inv db'" unfolding s(1) by (rule settled_inv [OF assms(1,2) s(2,4) assms(4,5) check])
  show "abs_account db' = (abs_account db)(br_wallet_id r :=
     \<lparr>acc_balance = acc_balance (abs_account db (br_wallet_id r)) - c,
      acc_holds = acc_holds (abs_account db (br_wallet_id r)) - {#(br_usage_id r, br_held_minor r)#}\<rparr>)"
    unfolding s(1) by (rule settled_account [OF assms(1,2) s(2,4)])
qed

lemma hold_available:
  assumes "billing_inv db" and "reserved db r"
  shows "0 \<le> br_held_minor r + acc_available (abs_account db (br_wallet_id r))"
proof -
  obtain w where w: "wallet_by_id (br_wallet_id r) (ai_wallets db) = Some w" "0 \<le> br_held_minor r"
    using reserved_wallet [OF assms] by blast
  then show ?thesis using account_of_wallet(4) [OF assms(1) w(1)] by (simp add: account_ok_def acc_available_def)
qed

lemma finish_settles:
  assumes "rt \<in> set gateway_routes" and "billing_inv db" and "reserved db r"
    and "finish_request env sv rt caller m r result db = (res, db')"
  shows "\<exists>db1 c. same_billing db db1 \<and> settles db1 r c db' \<and> 0 \<le> c
     \<and> c \<le> br_held_minor r + acc_available (abs_account db (br_wallet_id r)) \<and> (\<forall>e. res = Inl e \<longrightarrow> c = 0)"
proof (cases result)
  case (Inl e)
  obtain db2 where "release_usage env (gateway_db_error env) r 0 None None (rt_error_reason rt) db = (Inr (), db2)"
    "settles db r 0 db2" by (rule release_does [OF assms(2,3)])
  with Inl assms(4) hold_available [OF assms(2,3)] show ?thesis
    by (intro exI [of _ db] exI [of _ 0]) (auto simp: finish_request_def Let_def io_bind_def io_fail_def)
next
  case (Inr p)
  show ?thesis
  proof (cases "is_success (pr_status p)")
    case False
    obtain db2 where "release_usage env (gateway_db_error env) r (int (pr_status p)) (pr_request_id p)
        (Some (pr_body p)) (rt_failed_reason rt) db = (Inr (), db2)" "settles db r 0 db2"
      by (rule release_does [OF assms(2,3)])
    with Inr False assms(4) hold_available [OF assms(2,3)] show ?thesis
      by (intro exI [of _ db] exI [of _ 0]) (auto simp: finish_request_def Let_def io_bind_def io_return_def)
  next
    case True
    obtain cr body db1 where cache: "rt_cache rt env sv caller (br_usage_id r) (pr_body p) db = (cr, body, db1)"
      by (metis prod_cases3)
    note same = route_cache_keeps [OF assms(1) cache]
    note open1 = settled_keeps_open [OF assms(2,3) same]
    show ?thesis
    proof (cases cr)
      case (Inl e)
      obtain db2 where "release_usage env (gateway_db_error env) r (int (pr_status p)) (pr_request_id p)
          (Some body) (rt_cache_reason rt) db1 = (Inr (), db2)" "settles db1 r 0 db2"
        using release_does open1 by blast
      with Inl Inr True cache same assms(4) hold_available [OF assms(2,3)] show ?thesis
        by (intro exI [of _ db1] exI [of _ 0]) (auto simp: finish_request_def Let_def io_bind_def io_fail_def)
    next
      case (Inr x)
      let ?charge = "case rt_charge rt m body of None \<Rightarrow> br_held_minor r | Some c \<Rightarrow> c"
      let ?c = "min (max ?charge 0) (br_held_minor r + acc_available (abs_account db1 (br_wallet_id r)))"
      obtain db2 where "capture_usage env r m (int (pr_status p)) (pr_request_id p) (rt_usage rt body)
          ?charge body db1 = (Inr (), db2)" "settles db1 r ?c db2"
        using capture_does open1 by blast
      with Inr \<open>result = Inr p\<close> True cache same assms(4) open1 hold_available [OF assms(2,3)] show ?thesis
        by (intro exI [of _ db1] exI [of _ ?c]) (auto simp: finish_request_def Let_def io_bind_def io_return_def)
    qed
  qed
qed


section \<open>One request\<close>

definition same_accounts :: "ai_db \<Rightarrow> ai_db \<Rightarrow> bool" where
  "same_accounts a b \<longleftrightarrow>
     ai_wallets b = ai_wallets a \<and> ai_usages b = ai_usages a \<and> ai_models b = ai_models a"

lemma rate_limit_same: "check_gateway_rate_limit env caller db = (r, db') \<Longrightarrow> same_accounts db db'"
  by (auto simp: check_gateway_rate_limit_def same_accounts_def split: prod.splits)

lemma replay_same: "find_idempotent_response caller endpoint key db = (r, db') \<Longrightarrow> db' = db"
  by (simp add: find_idempotent_response_def io_read_def)

lemma load_model_known:
  "load_gateway_model env t code db = (Inr m, db') \<Longrightarrow> m \<in> mr_model ` set (ai_models db)"
  by (auto simp: load_gateway_model_def io_read_def ok_or_Inr dest: find_some)

lemma io_bind_cases:
  "io_bind m k s = (r, s') \<Longrightarrow>
     (\<exists>e. m s = (Inl e, s') \<and> r = Inl e) \<or> (\<exists>a t. m s = (Inr a, t) \<and> k a t = (r, s'))"
  by (auto simp: io_bind_def split: sum.splits prod.splits)

lemma reserve_error_keeps:
  "reserve_wallet_and_create_usage env caller m rid endpoint hold payload key db = (Inl e, db') \<Longrightarrow> db' = db"
  by (auto simp: reserve_wallet_and_create_usage_def Let_def commit_def split: sum.splits)

lemma open_request_error: "open_request env rt caller key payload db = (Inl e, db') \<Longrightarrow> db' = db"
  unfolding open_request_def
  by (auto simp: io_of_def io_return_def load_gateway_model_def io_read_def dest!: io_bind_cases reserve_error_keeps)

lemma open_request_Inr:
  "open_request env rt caller key payload db = (Inr (m, r), db') \<Longrightarrow>
     \<exists>hold. m \<in> mr_model ` set (ai_models db) \<and> rt_estimate rt env payload m = Inr hold
       \<and> reserve_wallet_and_create_usage env caller m (ae_request_id env)
           (gateway_endpoint caller (rt_endpoint rt)) hold payload key db = (Inr r, db')"
  unfolding open_request_def
  by (auto simp: io_success load_gateway_model_def ok_or_Inr dest!: find_some)

text \<open>A request either stops before it holds anything, or it holds the estimate and settles it.\<close>

lemma gateway_request_cases:
  assumes "gateway_request env sv ps rt caller header payload db = (res, db')"
  shows "same_accounts db db' \<or>
     (\<exists>m hold key db1 r db2. same_accounts db db1 \<and> m \<in> mr_model ` set (ai_models db)
        \<and> rt_estimate rt env payload m = Inr hold
        \<and> reserve_wallet_and_create_usage env caller m (ae_request_id env)
            (gateway_endpoint caller (rt_endpoint rt)) hold payload key db1 = (Inr r, db2)
        \<and> finish_request env sv rt caller m r
            (forward_openai_compatible_json ps m payload (rt_provider_path rt)) db2 = (res, db'))"
proof -
  from io_bind_cases [OF assms [unfolded gateway_request_def]] obtain db1 where same: "same_accounts db db1"
    and start: "db' = db1 \<or> io_bind (io_of (idempotency_key header)) (\<lambda>key.
     io_bind (find_idempotent_response caller (gateway_endpoint caller (rt_endpoint rt)) key) (\<lambda>response.
     case response of
       Some response \<Rightarrow> io_return response
     | None \<Rightarrow>
         io_bind (open_request env rt caller key payload) (\<lambda>(m, r).
         finish_request env sv rt caller m r
           (forward_openai_compatible_json ps m payload (rt_provider_path rt))))) db1 = (res, db')"
    using rate_limit_same by blast
  from start have "db' = db1 \<or> (\<exists>key. io_bind (open_request env rt caller key payload) (\<lambda>(m, r).
      finish_request env sv rt caller m r
        (forward_openai_compatible_json ps m payload (rt_provider_path rt))) db1 = (res, db'))"
    by (auto simp: io_of_def io_return_def dest!: io_bind_cases replay_same split: option.splits)
  then consider "db' = db1" | key m r db2 where "open_request env rt caller key payload db1 = (Inr (m, r), db2)"
      "finish_request env sv rt caller m r
         (forward_openai_compatible_json ps m payload (rt_provider_path rt)) db2 = (res, db')"
    by (auto dest!: io_bind_cases open_request_error)
  then show ?thesis
  proof cases
    case 2
    from open_request_Inr [OF 2(1)] 2(2) same show ?thesis by (auto simp: same_accounts_def)
  qed (use same in simp)
qed

text \<open>
  C9. A request of the gateway, on any of its four routes and whatever the provider answers,
  leaves no hold in any wallet that was not there before and takes no wallet below what others
  hold of it; no balance grows, and when it answers with an error every account is as it was.
  It is assumed that no token price of a model is above \<open>10 ^ 15\<close> minor units per thousand
  (\<open>prices_bounded\<close>): a higher one can wrap the estimate to a negative amount.
\<close>

theorem gateway_request_settles:
  assumes "rt \<in> set gateway_routes" and "billing_inv db"
    and "\<And>m. m \<in> mr_model ` set (ai_models db) \<Longrightarrow> prices_bounded m"
    and "gateway_request env sv ps rt caller header payload db = (res, db')"
  shows "billing_inv db'
     \<and> (\<forall>i. acc_holds (abs_account db' i) = acc_holds (abs_account db i)
          \<and> acc_balance (abs_account db' i) \<le> acc_balance (abs_account db i))
     \<and> (\<forall>e. res = Inl e \<longrightarrow> abs_account db' = abs_account db)"
proof -
  from gateway_request_cases [OF assms(4)] consider "same_accounts db db'"
    | m hold key db1 r db2 where "same_accounts db db1" "m \<in> mr_model ` set (ai_models db)"
      "rt_estimate rt env payload m = Inr hold"
      "reserve_wallet_and_create_usage env caller m (ae_request_id env)
         (gateway_endpoint caller (rt_endpoint rt)) hold payload key db1 = (Inr r, db2)"
      "finish_request env sv rt caller m r
         (forward_openai_compatible_json ps m payload (rt_provider_path rt)) db2 = (res, db')"
    by blast
  then show ?thesis
  proof cases
    case 1
    then show ?thesis using assms(2) billing_inv_cong [of db' db] by (simp add: same_accounts_def)
  next
    case 2
    have db1: "billing_inv db1" "abs_account db1 = abs_account db"
      using 2(1) assms(2) billing_inv_cong [of db1 db] by (simp_all add: same_accounts_def)
    from route_estimate_nonneg [OF assms(1) 2(3)] assms(3) 2(2) have "0 \<le> hold" by blast
    note res = reserve_effect [OF db1(1) this 2(4)]
    then obtain db3 c where fin: "same_billing db2 db3" "settles db3 r c db'" "0 \<le> c"
      "c \<le> br_held_minor r + acc_available (abs_account db2 (br_wallet_id r))" "\<forall>e. res = Inl e \<longrightarrow> c = 0"
      using finish_settles [OF assms(1) _ _ 2(5)] by blast
    from settled_keeps_open [OF _ _ fin(1)] res have open3: "billing_inv db3" "reserved db3 r"
      "abs_account db3 = abs_account db2" by auto
    note eff = settles_effect [OF open3(1,2) fin(2,3)]
    show ?thesis using eff open3(3) fin(3,4,5) res db1(2) by (auto simp: acct_reserve_def fun_eq_iff)
  qed
qed


section \<open>Failed caching\<close>

lemma parse_u16_show: "n < 65536 \<Longrightarrow> parse_u16 (show_i64 (int n)) = Some n"
proof -
  assume n: "n < 65536"
  then have "in_i64 (int n)" by (simp add: in_i64_def)
  moreover have "hd (show_i64 (int n)) \<noteq> CHR ''-''"
    using show_nat_digits [of n] digit_not_sign by (cases "show_nat n") (auto simp: show_i64_def)
  ultimately show ?thesis using n by (simp add: parse_u16_def parse_show_i64)
qed

lemma replay_of_only:
  assumes "usage_by_id k us = Some u" and "same_request caller endpoint key u"
    and "list_all (\<lambda>v. same_request caller endpoint key v \<longrightarrow> usr_id v = k) us"
    and "distinct (map usr_id us)" and "ai_usages db = us"
  shows "find_idempotent_response caller endpoint (Some key) db = (replay u, db)"
proof -
  have u: "u \<in> set us" using ut.get_in [OF assms(1)] by blast
  let ?P = "same_request caller endpoint key"
  have only: "v = u" if "v \<in> set us" "?P v" for v
    using that assms(1,3) ut.get_of_in [OF assms(4) that(1)] by (auto simp: list_all_iff)
  obtain v where v: "first_by (\<lambda>u v. usr_created_at u > usr_created_at v) (filter ?P us) = Some v"
    using first_by_None [of "\<lambda>u v. usr_created_at u > usr_created_at v" "filter ?P us"] u assms(2)
    by (cases "first_by (\<lambda>u v. usr_created_at u > usr_created_at v) (filter ?P us)")
      (auto simp: filter_empty_conv)
  with only first_by_in [OF v] have "v = u" by auto
  with v assms(5) show ?thesis by (simp add: find_idempotent_response_def io_read_def)
qed


text \<open>
  C10. When the files of an image response cannot be cached, the hold is released, nothing is
  charged and the request fails; but the response is kept with the provider's success status, so
  that repeating the request with its idempotency key answers with that response, for nothing.
\<close>

theorem failed_caching_is_replayed_free:
  assumes "billing_inv db" and "reserved db r"
    and "usage_by_id (br_usage_id r) (ai_usages db) = Some u" and "same_request caller endpoint key u"
    and "list_all (\<lambda>v. same_request caller endpoint key v \<longrightarrow> usr_id v = br_usage_id r) (ai_usages db)"
    and "is_success (pr_status p)"
    and "cache_image_assets env sv caller (br_usage_id r) (pr_body p) db = (Inl e, body, db1)"
  shows "\<exists>db'. finish_request env sv image_route caller m r (Inr p) db = (Inl e, db')
     \<and> (\<forall>i. acc_balance (abs_account db' i) = acc_balance (abs_account db i))
     \<and> find_idempotent_response caller endpoint (Some key) db'
         = (Inr (Some \<lparr>gr_status = pr_status p, gr_body = body, gr_usage_id = br_usage_id r\<rparr>), db')"
proof -
  note same = cache_images_keep [OF assms(7)]
  note open1 = settled_keeps_open [OF assms(1,2) same]
  let ?g = "failed_usage env (int (pr_status p)) (pr_request_id p) (br_held_minor r) (Some body)"
  obtain f l where rel: "release_usage env (gateway_db_error env) r (int (pr_status p)) (pr_request_id p)
      (Some body) reason_image_cache db1 = (Inr (), settled db1 r f ?g l)" "takes 0 (br_held_minor r) f"
    using release_settles_as open1 by blast
  let ?db = "settled db1 r f ?g l"
  have run: "finish_request env sv image_route caller m r (Inr p) db = (Inl e, ?db)"
    using assms(6,7) rel(1)
    by (simp add: finish_request_def image_route_def Let_def io_bind_def io_fail_def)
  have closes: "closes ?g" by (simp add: closes_def failed_usage_def open_usage_def)
  have acc: "acc_balance (abs_account ?db i) = acc_balance (abs_account db i)" for i
    using settled_account [OF _ _ closes rel(2)] open1 by simp
  have us: "ai_usages ?db = set_usage (br_usage_id r) ?g (ai_usages db)"
    using same by (simp add: settled_def same_billing_def)
  have d: "distinct (map usr_id (ai_usages db))" using assms(1) by (simp add: billing_inv_def)
  have "usage_by_id (br_usage_id r) (ai_usages ?db) = Some (?g u)"
    using assms(3) unfolding us by (simp add: ut.get_upd failed_usage_def)
  moreover have "same_request caller endpoint key (?g v) = same_request caller endpoint key v" for v
    by (simp add: same_request_def failed_usage_def)
  then have "list_all (\<lambda>v. same_request caller endpoint key v \<longrightarrow> usr_id v = br_usage_id r) (ai_usages ?db)"
    and "same_request caller endpoint key (?g u)"
    using assms(4,5) unfolding us
    by (auto simp: set_usage_def set_update_where list_all_iff failed_usage_def)
  moreover have "distinct (map usr_id (ai_usages ?db))"
    using d unfolding us by (simp add: ut.keys_upd failed_usage_def)
  ultimately have "find_idempotent_response caller endpoint (Some key) ?db = (replay (?g u), ?db)"
    using replay_of_only by blast
  moreover have "replay (?g u) = Inr (Some \<lparr>gr_status = pr_status p, gr_body = body, gr_usage_id = br_usage_id r\<rparr>)"
    using assms(6) ut.get_in [OF assms(3)]
    by (simp add: replay_def failed_usage_def is_success_def parse_u16_show status_code_def)
  ultimately show ?thesis using run acc by (intro exI [of _ ?db]) simp
qed



section \<open>Witnesses\<close>

text \<open>A request that waits for its provider, and services that have nothing to answer.\<close>

definition sample_usage :: usage_record where
  "sample_usage = \<lparr>usr_id = 21, usr_tenant_id = 1, usr_wallet_id = Some 11, usr_customer_id = Some 7,
     usr_api_key_id = None, usr_provider_id = Some 2, usr_model_id = Some 3, usr_request_id = Some ''req'',
     usr_idempotency_key = Some ''key'', usr_endpoint = ''/v1/images/generations'', usr_status = ''running'',
     usr_provider_status = None, usr_provider_request_id = None, usr_prompt_tokens = None,
     usr_completion_tokens = None, usr_total_tokens = None, usr_charged_minor = 0, usr_refunded_minor = 0,
     usr_price_snapshot = JObject [(''held_minor'', num 104)], usr_provider_raw_response = None,
     usr_metadata_json = JObject [], usr_created_at = 50, usr_completed_at = None\<rparr>"

definition waiting_db :: ai_db where
  "waiting_db = funded_db\<lparr>ai_wallets := [funded_wallet 104], ai_usages := [sample_usage]\<rparr>"

definition sample_services :: asset_services where
  "sample_services = \<lparr>sv_url = (\<lambda>_. None), sv_client = Inr (), sv_get = (\<lambda>_. Inl ''down''),
     sv_base64 = (\<lambda>_. None), sv_sha256_hex = id, sv_put = (\<lambda>_ _. Inr ()), sv_asset_id = id,
     sv_customer_asset_id = id, sv_work_id = id, sv_base_url = None\<rparr>"

definition sample_provider :: provider_services where
  "sample_provider = \<lparr>ps_crypto = sample_crypto, ps_master_key = ''k'', ps_parse_envelope = (\<lambda>_. Inl ''no''),
     ps_parse_json = (\<lambda>_. Inl ''no''), ps_header_name = Some, ps_header_value = (\<lambda>_. True),
     ps_client = (\<lambda>_. Inr ()), ps_post = (\<lambda>_ _ _. Inl ''down'')\<rparr>"

definition shop_db :: ai_db where
  "shop_db = funded_db\<lparr>ai_models := [\<lparr>mr_tenant_id = 1, mr_model_enabled = True, mr_provider_enabled = True,
     mr_model = sample_model\<rparr>]\<rparr>"

lemma shop_inv: "billing_inv shop_db"
  using funded_inv billing_inv_cong(1) [of shop_db funded_db] by (simp add: shop_db_def)

lemma waiting_inv: "billing_inv waiting_db"
  by (simp add: billing_inv_def waiting_db_def funded_db_def empty_ai_db_def wallet_check_def funded_wallet_def
      in_i64_def currency_check_def byte_def acc_held_def abs_account_def wallet_holds_def usage_check_def
      sample_usage_def open_usage_def usage_held_def num_def chars_count_def btrim_def)

theorem gateway_request_settles_witness:
  "billing_inv (snd (gateway_request sample_ai_env sample_services sample_provider chat_route sample_caller None
     sample_payload shop_db))
   \<and> acc_holds (abs_account (snd (gateway_request sample_ai_env sample_services sample_provider chat_route
       sample_caller None sample_payload shop_db)) 11) = {#}"
proof -
  have m: "prices_bounded m" if "m \<in> mr_model ` set (ai_models shop_db)" for m
    using that by (simp add: shop_db_def prices_bounded_def prices_wf_def sample_model_def in_i64_def)
  have "acc_holds (abs_account shop_db 11) = {#}"
    by (simp add: abs_account_def wallet_holds_def shop_db_def funded_db_def empty_ai_db_def)
  with gateway_request_settles [of chat_route shop_db sample_ai_env sample_services sample_provider
      sample_caller None sample_payload, OF _ shop_inv m prod.collapse [symmetric]]
  show ?thesis by (simp add: gateway_routes_def)
qed

theorem failed_caching_is_replayed_free_witness:
  "\<exists>db'. fst (finish_request sample_ai_env sample_services image_route sample_caller sample_model sample_reservation
       (Inr \<lparr>pr_status = 200, pr_request_id = None, pr_body = JObject [(''data'', JArray [])]\<rparr>) waiting_db)
     = Inl (Dependency ''ai image response did not include cacheable image data'')
     \<and> acc_balance (abs_account db' 11) = 1000
     \<and> fst (find_idempotent_response sample_caller ''/v1/images/generations'' (Some ''key'') db')
         = Inr (Some \<lparr>gr_status = 200, gr_body = JObject [(''data'', JArray [])], gr_usage_id = 21\<rparr>)"
proof -
  have r: "reserved waiting_db sample_reservation"
    by (simp add: reserved_def wallet_holds_in waiting_db_def sample_reservation_def sample_usage_def
        usage_held_def num_def open_usage_def)
  have u: "usage_by_id (br_usage_id sample_reservation) (ai_usages waiting_db) = Some sample_usage"
    by (simp add: usage_by_id_def waiting_db_def sample_reservation_def sample_usage_def)
  have same: "same_request sample_caller ''/v1/images/generations'' ''key'' sample_usage"
    by (simp add: same_request_def sample_caller_def sample_usage_def)
  have only: "list_all (\<lambda>v. same_request sample_caller ''/v1/images/generations'' ''key'' v
      \<longrightarrow> usr_id v = br_usage_id sample_reservation) (ai_usages waiting_db)"
    by (simp add: waiting_db_def sample_reservation_def sample_usage_def)
  have cache: "cache_image_assets sample_ai_env sample_services sample_caller (br_usage_id sample_reservation)
      (pr_body \<lparr>pr_status = 200, pr_request_id = None, pr_body = JObject [(''data'', JArray [])]\<rparr>) waiting_db
    = (Inl (Dependency ''ai image response did not include cacheable image data''),
       JObject [(''data'', JArray [])], waiting_db)"
    by (simp add: cache_image_assets_def)
  have "acc_balance (abs_account waiting_db 11) = 1000"
    by (simp add: abs_account_def wallet_balance_def wallet_by_id_def waiting_db_def funded_wallet_def)
  moreover obtain db' where
    "finish_request sample_ai_env sample_services image_route sample_caller sample_model sample_reservation
       (Inr \<lparr>pr_status = 200, pr_request_id = None, pr_body = JObject [(''data'', JArray [])]\<rparr>) waiting_db
     = (Inl (Dependency ''ai image response did not include cacheable image data''), db')"
    "\<forall>i. acc_balance (abs_account db' i) = acc_balance (abs_account waiting_db i)"
    "find_idempotent_response sample_caller ''/v1/images/generations'' (Some ''key'') db'
     = (Inr (Some \<lparr>gr_status = 200, gr_body = JObject [(''data'', JArray [])], gr_usage_id = 21\<rparr>), db')"
    using failed_caching_is_replayed_free [OF waiting_inv r u same only _ cache, of sample_model]
    by (auto simp: is_success_def sample_reservation_def)
  ultimately show ?thesis by (intro exI [of _ db']) simp
qed

end
