(* ===== verification/JobRuns.thy ===== *)
theory JobRuns
  imports JobSteps GatewayRuns
begin

text \<open>
  Runs of generation jobs: servers submit and cancel, the worker polls, administrators intervene,
  requests of the gateway reserve and settle in between. Every step keeps the bills of the jobs in
  order and is a run of the abstract accounts of \<open>Billing\<close>. A job that is still processed after its
  usage was released is the exception, shown in \<open>JobFailures\<close>.
\<close>

section \<open>Submitting a job\<close>

text \<open>Steps that leave the jobs and their usage records alone.\<close>

lemma others_keep_jobs:
  assumes "jobs_inv (db, R)" and "billing_state_inv (db', R')" and "ai_jobs db' = ai_jobs db"
    and "\<And>k. Some k \<in> job_usage_id ` set (ai_jobs db) \<Longrightarrow> usage_by_id k (ai_usages db') = usage_by_id k (ai_usages db)"
    and "\<And>r. r \<in> set R' \<Longrightarrow> Some (br_usage_id r) \<notin> job_usage_id ` set (ai_jobs db)"
  shows "jobs_inv (db', R')"
proof -
  have "usage_of (ai_usages db') j = usage_of (ai_usages db) j" if "j \<in> set (ai_jobs db)" for j
    using assms(4) that by (cases "job_usage_id j") (force simp: usage_of_def)+
  then have "job_ok {} (ai_usages db') j" if "j \<in> set (ai_jobs db)" for j
    using assms(1) that by (simp add: jobs_inv_but_def Let_def list_all_iff job_ok_def)
  with assms show ?thesis by (simp add: jobs_inv_but_def Let_def list_all_iff)
qed

lemma job_usages_known:
  assumes "jobs_inv (db, R)" and "Some k \<in> job_usage_id ` set (ai_jobs db)"
  shows "\<exists>u. usage_by_id k (ai_usages db) = Some u"
  using inv_usage [OF assms(1)] assms(2) by (metis imageE option.inject)

lemma reserve_keeps_jobs:
  assumes "jobs_inv (db, R)" and "reserves db r hold db'" and "0 \<le> hold" and "ai_jobs db' = ai_jobs db"
  shows "jobs_inv (db', r # R)" and "acct_step\<^sup>*\<^sup>* (abs_account db) (abs_account db')"
proof -
  have inv: "billing_state_inv (db, R)" using assms(1) by (simp add: jobs_inv_but_def Let_def)
  note st = reserve_step [OF inv assms(2,3)]
  then show "acct_step\<^sup>*\<^sup>* (abs_account db) (abs_account db')" by blast
  obtain row where row: "ai_usages db' = ai_usages db @ [row]" "br_usage_id r \<notin> usr_id ` set (ai_usages db)"
    using assms(2) by (auto simp: reserves_def)
  show "jobs_inv (db', r # R)"
  proof (rule others_keep_jobs [OF assms(1) conjunct1 [OF st] assms(4)])
    fix k
    assume "Some k \<in> job_usage_id ` set (ai_jobs db)"
    with job_usages_known [OF assms(1)] obtain u where "usage_by_id k (ai_usages db) = Some u" by blast
    then show "usage_by_id k (ai_usages db') = usage_by_id k (ai_usages db)"
      by (simp add: row(1) usage_by_id_def find_snoc)
  next
    fix r'
    assume r': "r' \<in> set (r # R)"
    have "Some (br_usage_id r) \<notin> job_usage_id ` set (ai_jobs db)"
      using ut.get_None [of "br_usage_id r" "ai_usages db"] row(2) job_usages_known [OF assms(1)] by fastforce
    with r' assms(1) show "Some (br_usage_id r') \<notin> job_usage_id ` set (ai_jobs db)"
      by (auto simp: jobs_inv_but_def Let_def list_all_iff)
  qed
qed

lemma settle_keeps_jobs:
  assumes "jobs_inv (db, R)" and "r \<in> set R" and "closes g" and "billing_state_inv (settled db r f g l, remove1 r R)"
  shows "jobs_inv (settled db r f g l, remove1 r R)"
proof (rule others_keep_jobs [OF assms(1,4)])
  have r: "Some (br_usage_id r) \<notin> job_usage_id ` set (ai_jobs db)"
    using assms(1,2) by (simp add: jobs_inv_but_def Let_def list_all_iff)
  fix k
  assume "Some k \<in> job_usage_id ` set (ai_jobs db)"
  with r have "k \<noteq> br_usage_id r" by auto
  then show "usage_by_id k (ai_usages (settled db r f g l)) = usage_by_id k (ai_usages db)"
    using assms(3) by (simp add: settled_def closes_def ut.get_upd)
next
  fix r'
  assume "r' \<in> set (remove1 r R)"
  then have "r' \<in> set R" using notin_set_remove1 by fastforce
  then show "Some (br_usage_id r') \<notin> job_usage_id ` set (ai_jobs db)"
    using assms(1) by (simp add: jobs_inv_but_def Let_def list_all_iff)
qed (simp add: settled_def)

lemma reserve_job_effect:
  assumes "billing_inv db" and "0 \<le> hold"
    and "reserve_job_usage env c m rid endpoint hold payload key db = (Inr r, db')"
  shows "reserves db r hold db' \<and> ai_jobs db' = ai_jobs db"
proof -
  let ?ins = "\<lambda>wallet. insert_job_usage env (ae_usage_id env) c m wallet rid endpoint hold payload key"
  let ?limits = "\<lambda>wallet. ensure_job_spend_limits env c m wallet hold"
  have ins: "inserts_usage (ae_usage_id env) hold ?ins"
    by (auto simp: inserts_usage_def insert_job_usage_def insert_usage_def insert_row_Inr open_usage_def
        usage_held_def price_snapshot_def split: sum.splits)
  have limits: "s' = s" if "?limits w s = Inr (x, s')" for w s x s'
    using that by (auto simp: ensure_job_spend_limits_def Let_def check_daily_limit_def daily_spend_minor_def
        tx_success split: if_splits option.splits)
  note run = assms(3) [unfolded reserve_job_usage_def commit_Inr]
  show ?thesis by (rule reserve_tx_effect [where limits = ?limits and ins = ?ins, OF assms(1,2) limits ins run])
qed

lemma forget_reservation:
  assumes "jobs_inv (db, r # R)"
  shows "jobs_inv (db, R)"
  using assms by (simp add: jobs_inv_but_def Let_def billing_state_inv_def)

text \<open>A reservation that becomes a job.\<close>

lemma insert_job_inv:
  assumes "jobs_inv (db, r # R)" and "job_check row" and "list_all (\<lambda>j. \<not> job_clash row j) (ai_jobs db)"
    and "job_usage_id row = Some (br_usage_id r)"
  shows "jobs_inv (db\<lparr>ai_jobs := ai_jobs db @ [row]\<rparr>, R)"
proof -
  let ?db = "db\<lparr>ai_jobs := ai_jobs db @ [row]\<rparr>"
  from assms(1) have st: "billing_state_inv (db, r # R)" and
    fresh: "Some (br_usage_id r) \<notin> job_usage_id ` set (ai_jobs db)" by (simp_all add: jobs_inv_but_def Let_def)
  then have "billing_inv db" "reserved db r" "br_usage_id r \<notin> br_usage_id ` set R"
    by (auto simp: billing_state_inv_def)
  moreover from this(1) have "distinct (map usr_id (ai_usages db))" by (simp add: billing_inv_def)
  ultimately obtain u where "usage_by_id (br_usage_id r) (ai_usages db) = Some u" "open_usage u"
    using reserved_usage by metis
  then have "job_ok {} (ai_usages db) row"
    using assms(4) billable_fits [of u row] by (simp add: job_ok_def usage_of_def billable_def)
  moreover have "billing_state_inv (?db, R)"
    using st billing_inv_cong [of ?db db] by (simp add: billing_state_inv_def)
  moreover have "job_id row \<notin> job_id ` set (ai_jobs db)"
    using assms(3) by (auto simp: list_all_iff job_clash_def)
  moreover have "Some (br_usage_id r') \<notin> job_usage_id ` set (ai_jobs ?db)" if r': "r' \<in> set R" for r'
  proof -
    have "br_usage_id r' \<noteq> br_usage_id r" using \<open>br_usage_id r \<notin> br_usage_id ` set R\<close> r' by (metis imageI)
    moreover have "Some (br_usage_id r') \<notin> job_usage_id ` set (ai_jobs db)"
      using assms(1) r' by (simp add: jobs_inv_but_def Let_def list_all_iff)
    ultimately show ?thesis using assms(4) by simp
  qed
  ultimately show ?thesis using assms(1,2,4) fresh by (simp add: jobs_inv_but_def Let_def list_all_iff)
qed

lemma submit_moves:
  assumes "jobs_inv (db, R)" and "0 \<le> jr_hold q" and "submit_job env js c q type key db = (x, db')"
  shows "jobs_inv (db', R) \<and> acct_step\<^sup>*\<^sup>* (abs_account db) (abs_account db')"
proof -
  obtain y db1 where res: "reserve_job_usage env c (jr_model q) (ae_request_id env) (generation_endpoint type)
      (jr_hold q) (jr_payload q) key db = (y, db1)" by fastforce
  show ?thesis
  proof (cases y)
    case (Inl e)
    with res have "db1 = db" by (auto simp: reserve_job_usage_def commit_def split: sum.splits)
    with assms res Inl show ?thesis by (simp add: submit_job_def Let_def io_bind_def)
  next
    case (Inr r)
    from reserve_job_effect [OF inv_billing [OF assms(1)] assms(2)] res Inr
    have "reserves db r (jr_hold q) db1" "ai_jobs db1 = ai_jobs db" by blast+
    note one = reserve_keeps_jobs [OF assms(1) this(1) assms(2) this(2)]
    show ?thesis
    proof (cases "submit_provider_generation_job env js (jr_model q) type (jr_payload q)")
      case (Inl e)
      from one(1) have st: "billing_state_inv (db1, r # R)" by (simp add: jobs_inv_but_def Let_def)
      then have "billing_inv db1" "reserved db1 r" by (simp_all add: billing_state_inv_def)
      from release_settles [OF this, of env "job_db_error env" 0 None None reason_job_submit_failed]
      obtain f g l where rel: "job_release_usage env r reason_job_submit_failed db1 = (Inr (), settled db1 r f g l)"
        and s: "closes g" "\<And>u. usage_check u \<Longrightarrow> usage_check (g u)" "takes 0 (br_held_minor r) f"
        by (auto simp: job_release_usage_def)
      have "db' = settled db1 r f g l"
        using assms(3) res Inr Inl rel by (simp add: submit_job_def Let_def io_bind_def io_fail_def)
      moreover from release_step [OF st _ s(1,3,2)]
      have "billing_state_inv (settled db1 r f g l, remove1 r (r # R))"
        "acct_step\<^sup>*\<^sup>* (abs_account db1) (abs_account (settled db1 r f g l))" by simp_all
      ultimately show ?thesis using settle_keeps_jobs [where r = r and f = f and l = l, OF one(1) _ s(1)] one(2) by (auto intro: rtranclp_trans)
    next
      case (Inr sub)
      let ?row = "submitted_job env c (jr_model q) r sub key type (jr_payload q) (jr_quantity q) (jr_hold q)"
      have ins: "insert_submitted_job env ?row db1 = (x, db')"
        using assms(3) res \<open>y = Inr r\<close> Inr by (simp add: submit_job_def Let_def io_bind_def)
      then consider "db' = db1" | "db' = db1\<lparr>ai_jobs := ai_jobs db1 @ [?row]\<rparr>" "job_check ?row"
          "list_all (\<lambda>j. \<not> job_clash ?row j) (ai_jobs db1)"
        by (auto simp: insert_submitted_job_def io_bind_def commit_def insert_row_def find_generation_job_by_id_def
            io_read_def split: sum.splits prod.splits if_splits)
      then show ?thesis
      proof cases
        case 1
        then show ?thesis using one forget_reservation by simp
      next
        case 2
        from insert_job_inv [OF one(1) 2(2,3)] have "jobs_inv (db', R)" by (simp add: 2(1) submitted_job_def)
        then show ?thesis using one(2) billing_inv_cong(2) [of db' db1] 2(1) by simp
      qed
    qed
  qed
qed

lemma prepared_hold:
  assumes "prepare_job env js c payload type db = (Inr q, db')"
    and "\<And>m. m \<in> mr_model ` set (ai_models db) \<Longrightarrow> prices_wf m"
  shows "db' = db" and "0 \<le> jr_hold q"
proof -
  obtain m p n h where q: "q = \<lparr>jr_model = m, jr_payload = p, jr_quantity = n, jr_hold = h\<rparr>"
    and m: "m \<in> mr_model ` set (ai_models db)" and v: "validate_generation_model m type = Inr ()"
    and n: "estimated_quantity type p m = Inr n" and h: "estimate_generation_hold_minor type n m = Inr h"
    and db': "db' = db"
    using assms(1) unfolding prepare_job_def
    by (auto simp: io_success rs_bind_Inr load_gateway_model_def dest!: find_some)
  show "db' = db" by (rule db')
  from assms(2) [OF m] v n h quantity_bounds [OF n] show "0 \<le> jr_hold q"
    by (auto simp: q estimate_generation_hold_minor_def validate_generation_model_def check_type_def
        prices_wf_def rs_bind_Inr price_of_quantity_Inr Let_def in_i64_def split: if_splits)
qed

lemma snd_of: "snd (io_of r s) = s"
  by (simp add: io_of_def)

lemma find_reads: "snd (find_idempotent_job c type key s) = s"
  by (simp add: find_idempotent_job_def snd_read)

lemma prepare_reads: "snd (prepare_job env js c payload type s) = s"
  by (simp add: prepare_job_def snd_check snd_reading snd_of load_gateway_model_def split: sum.splits)

lemma create_cases:
  assumes "create_server_generation_job env js c header payload type db = (x, db')"
    and "check_generation_rate_limit env c db = (y, db1)"
  obtains (stops) "db' = db1"
  | (goes) key q where "idempotency_key header = Inr key" "find_idempotent_job c type key db1 = (Inr None, db1)"
      "prepare_job env js c payload type db1 = (Inr q, db1)" "submit_job env js c q type key db1 = (x, db')"
proof -
  define F where "F key = fst (find_idempotent_job c type key db1)" for key
  have F: "find_idempotent_job c type key db1 = (F key, db1)" for key
    using find_reads by (simp add: F_def prod_eq_iff)
  obtain v where v: "prepare_job env js c payload type db1 = (v, db1)" using prepare_reads by (metis prod.collapse)
  show ?thesis using assms that
    by (auto simp: create_server_generation_job_def io_bind_def io_of_def io_return_def F v
        split: sum.splits prod.splits option.splits)
qed

lemma limit_keeps:
  assumes "check_generation_rate_limit env c db = (y, db1)"
  shows "ai_wallets db1 = ai_wallets db" "ai_usages db1 = ai_usages db" "ai_jobs db1 = ai_jobs db"
    "ai_models db1 = ai_models db"
  using assms by (auto simp: check_generation_rate_limit_def split: prod.splits)

lemma create_moves:
  assumes "jobs_inv (db, R)" and "\<And>m. m \<in> mr_model ` set (ai_models db) \<Longrightarrow> prices_wf m"
    and "create_server_generation_job env js c header payload type db = (x, db')"
  shows "jobs_inv (db', R) \<and> acct_step\<^sup>*\<^sup>* (abs_account db) (abs_account db')"
proof -
  obtain y db1 where lim: "check_generation_rate_limit env c db = (y, db1)" by fastforce
  note same = limit_keeps [OF lim]
  from jobs_inv_cong [OF same(1-3)] assms(1)
  have one: "jobs_inv (db1, R)" "abs_account db1 = abs_account db" by simp_all
  from assms(3) lim show ?thesis
  proof (cases rule: create_cases)
    case (goes key q)
    have "0 \<le> jr_hold q" by (rule prepared_hold(2) [OF goes(3)]) (use assms(2) same(4) in simp)
    from submit_moves [OF one(1) this goes(4)] one(2) show ?thesis by simp
  qed (use one in simp)
qed


section \<open>Requests of the gateway and changes of the wallets\<close>

text \<open>They never touch the jobs.\<close>

definition same_jobs :: "ai_db \<Rightarrow> ai_db \<Rightarrow> bool" where
  "same_jobs a b \<longleftrightarrow> ai_jobs b = ai_jobs a"

interpretation jobs_kept: evolution same_jobs
  by unfold_locales (simp_all add: same_jobs_def)

lemma tx_respects_if: "tx_respects P m \<Longrightarrow> tx_respects P n \<Longrightarrow> tx_respects P (if c then m else n)"
  by simp

lemma tx_respects_prod: "(\<And>a b. tx_respects P (f a b)) \<Longrightarrow> tx_respects P (case_prod f p)"
  by (cases p) simp

lemma statements_keep_jobs:
  "tx_respects same_jobs (ensure_wallet_exists env e t c)" "tx_respects same_jobs (find_wallet_for_update e t c)"
  "tx_respects same_jobs (update_wallet env e P f)" "tx_respects same_jobs (insert_usage e row)"
  "tx_respects same_jobs (insert_wallet_ledger_entry env e t w ty n r u md)"
  "tx_respects same_jobs (insert_admin_ledger_entry env t w ty n r md i)"
  "tx_respects same_jobs (ai_audit env admin action res i b a md)"
  by (auto simp: tx_respects_def same_jobs_def ensure_wallet_exists_def find_wallet_for_update_def tx_read_def
      update_wallet_def insert_usage_def insert_wallet_ledger_entry_def insert_admin_ledger_entry_def
      ai_audit_def tx_success Let_def split: if_splits sum.splits option.splits)

lemma limits_keep_jobs: "tx_respects same_jobs (ensure_daily_spend_limits env c m w hold)"
  by (auto simp: tx_respects_def same_jobs_def ensure_daily_spend_limits_def Let_def check_daily_limit_def
      daily_spend_minor_def tx_success split: if_splits option.splits)

lemmas keep_jobs = jobs_kept.respects statements_keep_jobs limits_keep_jobs tx_respects_if tx_respects_prod

lemma reserve_keeps_job_rows:
  "io_respects same_jobs (reserve_wallet_and_create_usage env caller m rid endpoint hold payload key)"
  unfolding reserve_wallet_and_create_usage_def reserve_tx_def Let_def update_wallet_hold_def insert_usage_record_def
  by (intro keep_jobs)

lemma wallet_transaction_keeps_jobs:
  assumes "\<And>old. tx_respects same_jobs (change old)"
  shows "io_respects same_jobs (wallet_transaction env admin customer change action md)"
  unfolding wallet_transaction_def Let_def ensure_customer_exists_in_transaction_def find_admin_wallet_for_update_def
  by (intro keep_jobs assms)

lemma administration_keeps_jobs:
  "io_respects same_jobs (adjust_ai_wallet env admin customer amount reason md)"
  "io_respects same_jobs (update_ai_wallet_quota env admin customer limit)"
  "io_respects same_jobs (update_ai_wallet_access env admin customer enabled)"
  unfolding adjust_ai_wallet_def update_ai_wallet_quota_def update_ai_wallet_access_def Let_def
    update_wallet_balance_in_transaction_def update_wallet_quota_in_transaction_def
    update_wallet_access_in_transaction_def
  by (intro keep_jobs wallet_transaction_keeps_jobs)+

lemma kept_rows: "io_respects same_jobs m \<Longrightarrow> m db = (x, db') \<Longrightarrow> ai_jobs db' = ai_jobs db"
  by (metis io_respects_def same_jobs_def snd_conv)

text \<open>A change of a wallet leaves the usage records as well.\<close>

lemma rebalance_keeps_jobs:
  assumes "jobs_inv (db, R)" and "rebalances db db'" and "ai_jobs db' = ai_jobs db"
  shows "jobs_inv (db', R)"
proof (rule others_keep_jobs [OF assms(1) _ assms(3)])
  have "billing_state_inv (db, R)" using assms(1) by (simp add: jobs_inv_but_def Let_def)
  with rebalances_step [OF _ assms(2)] show "billing_state_inv (db', R)" by blast
qed (use assms(1,2) in \<open>auto simp: rebalances_def jobs_inv_but_def Let_def list_all_iff\<close>)

lemma gateway_step_keeps_jobs:
  assumes "billing s s'" and "jobs_inv s"
  shows "jobs_inv s'"
  using assms
proof (induction rule: billing.induct)
  case (reserves env caller m rid endpoint hold payload key db r db' R)
  have "reserves db r hold db'"
    using reserve_effect [OF inv_billing [OF reserves(3)] reserves(2,1)] by (simp add: reserves_def)
  from reserve_keeps_jobs(1) [OF reserves(3) this reserves(2) kept_rows [OF reserve_keeps_job_rows reserves(1)]]
  show ?case .
next
  case (refuses env caller m rid endpoint hold payload key db e db' R)
  then have "db' = db"
    by (auto simp: reserve_wallet_and_create_usage_def Let_def commit_def split: sum.splits)
  with refuses show ?case by simp
next
  case (captures r R env m st prid us charge body db x db')
  then have st: "billing_state_inv (db, R)" by (simp add: jobs_inv_but_def Let_def)
  with captures(1) have "billing_inv db" "reserved db r" by (auto simp: billing_state_inv_def list_all_iff)
  from capture_settles [OF this, of env m st prid us charge body] captures(2) obtain f g l where
    eff: "db' = settled db r f g l" "closes g" "\<And>u. usage_check u \<Longrightarrow> usage_check (g u)"
    "takes (min (max charge 0) (br_held_minor r + acc_available (abs_account db (br_wallet_id r)))) (br_held_minor r) f"
    by auto
  from capture_step [OF st captures(1) eff(2,4,3)] settle_keeps_jobs [OF captures(3,1) eff(2)]
  show ?case by (simp add: eff(1))
next
  case (releases r R env e st prid body' reason db x db')
  then have st: "billing_state_inv (db, R)" by (simp add: jobs_inv_but_def Let_def)
  with releases(1) have "billing_inv db" "reserved db r" by (auto simp: billing_state_inv_def list_all_iff)
  from release_settles [OF this, of env e st prid body' reason] releases(2) obtain f g l where
    eff: "db' = settled db r f g l" "closes g" "\<And>u. usage_check u \<Longrightarrow> usage_check (g u)"
    "takes 0 (br_held_minor r) f" by auto
  from release_step [OF st releases(1) eff(2,4,3)] settle_keeps_jobs [OF releases(3,1) eff(2)]
  show ?case by (simp add: eff(1))
next
  case (adjusts env admin customer amount why md db y db' R)
  with admin_rebalances(1) [OF inv_billing [OF adjusts(2)], of env admin customer amount why md]
  show ?case using rebalance_keeps_jobs kept_rows [OF administration_keeps_jobs(1)] by simp
next
  case (quota env admin customer limit db z db' R)
  with admin_rebalances(2) [OF inv_billing [OF quota(2)], of env admin customer limit]
  show ?case using rebalance_keeps_jobs kept_rows [OF administration_keeps_jobs(2)] by simp
next
  case (access env admin customer enabled db z db' R)
  with admin_rebalances(3) [OF inv_billing [OF access(2)], of env admin customer enabled]
  show ?case using rebalance_keeps_jobs kept_rows [OF administration_keeps_jobs(3)] by simp
qed


section \<open>Runs\<close>

text \<open>
  A state is the database and the reservations of the gateway's requests that wait for their
  provider. Caching again is limited to jobs that have not failed: what it does to the others is
  \<open>failed_job_is_captured_again\<close> of \<open>JobFailures\<close>.
\<close>

inductive job_work :: "ai_db \<times> billing_reservation list \<Rightarrow> ai_db \<times> billing_reservation list \<Rightarrow> bool" where
  gateway: "billing s s' \<Longrightarrow> job_work s s'"
| submits: "create_server_generation_job env js c header payload type db = (x, db')
     \<Longrightarrow> list_all (\<lambda>m. prices_wf (mr_model m)) (ai_models db) \<Longrightarrow> job_work (db, R) (db', R)"
| polls: "process_generation_job_batch env js db = (y, db') \<Longrightarrow> job_work (db, R) (db', R)"
| cancels: "web_cancel_job env c i reason db = (x, db') \<Longrightarrow> job_work (db, R) (db', R)"
| retries: "web_retry_job env c i reason db = (x, db') \<Longrightarrow> job_work (db, R) (db', R)"
| retries_poll: "retry_ai_generation_job_poll env admin i reason db = (x, db') \<Longrightarrow> job_work (db, R) (db', R)"
| retries_cache: "retry_ai_generation_job_cache env js admin i reason db = (x, db')
     \<Longrightarrow> list_all (\<lambda>j. job_id j = i \<longrightarrow> job_status j \<noteq> ''failed'' \<and> job_status j \<noteq> ''provider_failed'') (ai_jobs db)
     \<Longrightarrow> job_work (db, R) (db', R)"
| fails: "fail_ai_generation_job_release env admin i reason db = (x, db') \<Longrightarrow> job_work (db, R) (db', R)"
| refunds: "refund_ai_generation_job env admin i reason db = (x, db') \<Longrightarrow> job_work (db, R) (db', R)"

lemma admin_job_found:
  "load_admin_job t i db = Inr job \<Longrightarrow> job \<in> set (ai_jobs db) \<and> job_id job = i"
  unfolding load_admin_job_def by (drule find_job_Inr) simp

lemma cacheable_live:
  assumes "ensure_job_can_retry_cache j = Inr u" and "job_status j \<noteq> ''failed''" and "job_status j \<noteq> ''provider_failed''"
  shows "live j"
proof -
  have "job_status j \<in> {''caching'', ''timeout_review'', ''failed'', ''provider_failed''}"
    using assms(1) unfolding ensure_job_can_retry_cache_def by (metis sum.distinct(1))
  then show ?thesis using assms(2,3) by (auto simp: live_def)
qed

lemma admin_moves:
  assumes "jobs_inv (db, R)"
  shows "moves R i db (snd (retry_ai_generation_job_poll env admin i reason db))"
    and "moves R i db (snd (fail_ai_generation_job_release env admin i reason db))"
    and "moves R i db (snd (refund_ai_generation_job env admin i reason db))"
  unfolding retry_ai_generation_job_poll_def fail_ai_generation_job_release_def refund_ai_generation_job_def
  using retry_poll_moves [OF assms] admin_fail_moves [OF assms] refund_moves [OF assms]
  by (auto intro!: admin_action_moves [OF assms] dest!: admin_job_found)

lemma admin_cache_moves:
  assumes "jobs_inv (db, R)"
    and "list_all (\<lambda>j. job_id j = i \<longrightarrow> job_status j \<noteq> ''failed'' \<and> job_status j \<noteq> ''provider_failed'') (ai_jobs db)"
  shows "moves R i db (snd (retry_ai_generation_job_cache env js admin i reason db))"
  unfolding retry_ai_generation_job_cache_def
proof (rule admin_action_moves [OF assms(1)])
  fix job reason
  assume l: "load_admin_job (adm_tenant_id admin) i db = Inr job" and c: "ensure_job_can_retry_cache job = Inr ()"
  from admin_job_found [OF l] have job: "job \<in> set (ai_jobs db)" "job_id job = i" by auto
  then have "live job" using cacheable_live [OF c] assms(2) by (simp add: list_all_iff)
  from retry_cache_moves [OF assms(1) job(1) this] job(2)
  show "moves R i db (snd (retry_cache_admin_job env js job reason db))" by simp
qed

lemma server_moves:
  assumes "jobs_inv (db, R)"
  shows "moves R i db (snd (web_cancel_job env c i reason db))"
    and "moves R i db (snd (web_retry_job env c i reason db))"
proof -
  have "snd (find_generation_job t u i s) = s" for t u s by (simp add: find_generation_job_def snd_read)
  note read = snd_then_read [where k = "\<lambda>_. find_generation_job (jc_tenant_id c) (jc_customer_id c) i", OF this]
  show "moves R i db (snd (web_cancel_job env c i reason db))"
    using cancel_moves [OF assms] moves_refl [OF assms]
    by (simp add: web_cancel_job_def snd_check read split: sum.splits)
  have "moves R i db (snd (mark_job_for_poll_retry env t i r db))"
    if "load_customer_job t u i db = Inr job" "ensure_job_can_retry_poll job = Inr ()" for t u job r
    using retry_poll_moves [OF assms that(2)] find_job_Inr [OF that(1) [unfolded load_customer_job_def]] by auto
  then show "moves R i db (snd (web_retry_job env c i reason db))"
    using moves_refl [OF assms]
    by (auto simp: web_retry_job_def snd_check snd_reading read split: sum.splits)
qed

lemma job_step_simulates:
  assumes "job_work s s'" and "jobs_inv s"
  shows "jobs_inv s' \<and> acct_step\<^sup>*\<^sup>* (abs_account (fst s)) (abs_account (fst s'))"
  using assms
proof (induction rule: job_work.induct)
  case (gateway s s')
  then have "billing_state_inv s" by (simp add: jobs_inv_but_def Let_def)
  with billing_step_simulates [OF gateway(1)] gateway_step_keeps_jobs [OF gateway] show ?case by simp
next
  case (submits env js c header payload type db x db' R)
  then show ?case using create_moves [OF submits(3) _ submits(1)] by (auto simp: list_all_iff)
next
  case (polls env js db y db' R)
  then show ?case using worker_moves [OF polls(2,1)] by simp
next
  case (cancels env c i reason db x db' R)
  then show ?case using server_moves(1) [OF cancels(2), of i env c reason] by (simp add: moves_def)
next
  case (retries env c i reason db x db' R)
  then show ?case using server_moves(2) [OF retries(2), of i env c reason] by (simp add: moves_def)
next
  case (retries_poll env admin i reason db x db' R)
  then show ?case using admin_moves(1) [OF retries_poll(2), of i env admin reason] by (simp add: moves_def)
next
  case (retries_cache env js admin i reason db x db' R)
  then show ?case using admin_cache_moves [OF retries_cache(3,2), of env js admin reason] by (simp add: moves_def)
next
  case (fails env admin i reason db x db' R)
  then show ?case using admin_moves(2) [OF fails(2), of i env admin reason] by (simp add: moves_def)
next
  case (refunds env admin i reason db x db' R)
  then show ?case using admin_moves(3) [OF refunds(2), of i env admin reason] by (simp add: moves_def)
qed

lemma jobs_simulate:
  assumes "job_work\<^sup>*\<^sup>* s s'" and "jobs_inv s"
  shows "jobs_inv s' \<and> acct_step\<^sup>*\<^sup>* (abs_account (fst s)) (abs_account (fst s'))"
  using assms
proof (induction rule: rtranclp_induct)
  case (step y z)
  then show ?case using job_step_simulates [OF step(2)] by (meson rtranclp_trans)
qed simp


section \<open>Polling while the provider is out of reach\<close>

text \<open>
  Batches of the worker that claim the job \<open>i\<close> while its provider cannot be reached for the
  provider's job \<open>pid\<close>, with any other steps between them that leave the row of the job alone.
\<close>

definition unreachable :: "job_services \<Rightarrow> string \<Rightarrow> bool" where
  "unreachable js pid \<longleftrightarrow> (\<forall>p. \<exists>e. poll_provider_generation_job js p pid = Inl e)"

definition job_rows :: "uuid \<Rightarrow> ai_db \<Rightarrow> generation_job list" where
  "job_rows i db = filter (\<lambda>j. job_id j = i) (ai_jobs db)"

inductive failed_polls :: "uuid \<Rightarrow> string \<Rightarrow> ai_db \<times> billing_reservation list \<Rightarrow> nat
    \<Rightarrow> ai_db \<times> billing_reservation list \<Rightarrow> bool" for i pid s where
  none: "failed_polls i pid s 0 s"
| elsewhere: "failed_polls i pid s n t \<Longrightarrow> job_work t t' \<Longrightarrow> job_rows i (fst t') = job_rows i (fst t)
     \<Longrightarrow> failed_polls i pid s n t'"
| one_more: "failed_polls i pid s n (db1, R) \<Longrightarrow> i \<in> set (claimed_ids (ae_db_now env) (ai_jobs db1))
     \<Longrightarrow> unreachable js pid \<Longrightarrow> process_generation_job_batch env js db1 = (Inr (), db2)
     \<Longrightarrow> failed_polls i pid s (Suc n) (db2, R)"

lemma job_rows_same: "job_rows i a = job_rows i b \<Longrightarrow> job_id j = i \<Longrightarrow> j \<in> set (ai_jobs a) \<longleftrightarrow> j \<in> set (ai_jobs b)"
  unfolding job_rows_def by (drule arg_cong [of _ _ set]) auto

lemma failed_poll:
  assumes "ready R (job_id (wj_job wj)) k db" and "job_usage_id (wj_job wj) = Some k"
    and "job_provider_job_id (wj_job wj) = Some p" and "unreachable js p" and "wj_job wj \<in> set (ai_jobs db)"
  shows "\<exists>j \<in> set (ai_jobs (work_on_job env js wj db)). job_id j = job_id (wj_job wj)
     \<and> job_attempts j = job_attempts (wj_job wj) \<and> job_provider_job_id j = job_provider_job_id (wj_job wj)
     \<and> (job_attempts (wj_job wj) \<ge> 240 \<longrightarrow> job_status j = ''timeout_review'')"
proof -
  let ?j = "wj_job wj" and ?P = "\<lambda>j. job_id j = job_id (wj_job wj)"
  have same: "snd (load_job_provider q db) = db" for q
    by (cases q) (simp_all add: load_job_provider_def io_bind_def io_of_def ok_or_def io_read_def)
  have "\<exists>e. process_generation_job env js wj db = (Inl e, db)"
  proof (cases "fst (load_job_provider (job_provider_id ?j) db)")
    case (Inl e)
    then have "load_job_provider (job_provider_id ?j) db = (Inl e, db)" using same by (metis prod.collapse)
    then show ?thesis by (simp add: process_generation_job_def Let_def io_bind_def)
  next
    case (Inr q)
    then have "load_job_provider (job_provider_id ?j) db = (Inr q, db)" using same by (metis prod.collapse)
    moreover obtain e where "poll_provider_generation_job js q p = Inl e" using assms(4) by (auto simp: unreachable_def)
    ultimately show ?thesis using assms(3) by (simp add: process_generation_job_def Let_def io_bind_def io_of_def)
  qed
  then obtain e where e: "process_generation_job env js wj db = (Inl e, db)" ..
  let ?f = "\<lambda>j. j\<lparr>job_status := (if job_attempts ?j \<ge> default_max_attempts then ''timeout_review'' else ''running''),
     job_failure_reason := Some (truncate_error (error_text e)),
     job_next_poll_at := (if job_attempts ?j \<ge> default_max_attempts then None else Some (db_in env 60))\<rparr>"
  from assms(1) have "list_all job_check (ai_jobs db)" by (simp add: ready_def jobs_inv_but_def Let_def)
  then have "list_all (\<lambda>j. ?P j \<longrightarrow> job_check (?f j)) (ai_jobs db)"
    by (auto simp: list_all_iff job_check_def)
  then have "work_on_job env js wj db = db\<lparr>ai_jobs := update_where ?P ?f (ai_jobs db)\<rparr>"
    by (simp add: work_on_job_def e mark_job_poll_error_def Let_def commit_def update_job_def update_returning_def)
  moreover have "?f ?j \<in> set (update_where ?P ?f (ai_jobs db))"
    using assms(5) by (auto simp: set_update_where image_iff intro: bexI [of _ ?j])
  ultimately show ?thesis
    by (intro bexI [of _ "?f ?j"]) (simp_all add: default_max_attempts_def)
qed

lemma workable_kept:
  assumes "workable db w" and "job_id (wj_job w) \<notin> I"
    and "\<forall>j. job_id j \<notin> I \<longrightarrow> (j \<in> set (ai_jobs db') \<longleftrightarrow> j \<in> set (ai_jobs db))"
  shows "workable db' w"
  using assms unfolding workable_def by metis

lemma failed_round:
  assumes "jobs_inv (db, R)" and "j \<in> set (ai_jobs db)"
    and "job_id j \<in> set (claimed_ids (ae_db_now env) (ai_jobs db))" and "unreachable js pid"
    and "job_provider_job_id j = Some pid" and "process_generation_job_batch env js db = (Inr (), db')"
  shows "\<exists>j' \<in> set (ai_jobs db'). job_id j' = job_id j \<and> job_attempts j' = job_attempts j + 1
     \<and> job_provider_job_id j' = Some pid \<and> (job_attempts j + 1 \<ge> 240 \<longrightarrow> job_status j' = ''timeout_review'')"
proof -
  obtain wjs db1 where cl: "claim_pollable_generation_jobs env (js_key_app js) db = (Inr wjs, db1)"
    and db': "db' = fold (work_on_job env js) wjs db1"
    using assms(6) by (auto simp: process_generation_job_batch_def io_success)
  note c = claim_moves [OF assms(1) cl]
  note w = c(3) [OF refl]
  let ?j = "claim_job env j"
  let ?ids = "set (claimed_ids (ae_db_now env) (ai_jobs db))"
  let ?js = "update_where (\<lambda>j. job_id j \<in> ?ids) (claim_job env) (ai_jobs db)"
  have db1: "ai_jobs db1 = ?js" and wjs: "wjs = map (\<lambda>j. \<lparr>wj_job = j,
      wj_app_id = Option.bind (job_server_key_id j) (js_key_app js)\<rparr>) (filter (\<lambda>j. job_id j \<in> ?ids) ?js)"
    using cl by (auto simp: claim_pollable_generation_jobs_def commit_Inr Let_def update_returning_def split: if_splits)
  have "?j \<in> set ?js" using assms(2,3) unfolding set_update_where by (intro image_eqI [of _ _ j]) simp_all
  moreover have "job_id ?j \<in> ?ids" using assms(3) by (simp add: claim_job_def)
  ultimately have j: "?j \<in> set (ai_jobs db1)" "\<exists>wj \<in> set wjs. wj_job wj = ?j"
    unfolding db1 wjs by (simp_all add: bex_simps)
  then obtain wj pre post where wj: "wj_job wj = ?j" "wjs = pre @ wj # post" by (meson split_list)
  have id: "job_id ?j = job_id j" "job_attempts ?j = job_attempts j + 1"
    "job_provider_job_id ?j = job_provider_job_id j" by (simp_all add: claim_job_def)
  define I where "I = (\<lambda>w. job_id (wj_job w)) ` set pre"
  have w': "list_all (workable db1) pre" "workable db1 wj" "list_all (workable db1) post"
    "distinct (map (\<lambda>w. job_id (wj_job w)) pre)" "distinct (map (\<lambda>w. job_id (wj_job w)) post)"
    "job_id j \<notin> I" "job_id j \<notin> (\<lambda>w. job_id (wj_job w)) ` set post"
    "(\<lambda>w. job_id (wj_job w)) ` set post \<inter> I = {}"
    using w wj id(1) by (auto simp: I_def)
  let ?db2 = "fold (work_on_job env js) pre db1"
  note b = batch_moves [OF c(1) w'(1,4), of env js, folded I_def]
  note frame = conjunct2 [OF conjunct2 [OF b]]
  have two: "?j \<in> set (ai_jobs ?db2)" "workable ?db2 wj"
    using frame j(1) w'(6) id(1) workable_kept [OF w'(2) _ frame] wj(1) by simp_all
  obtain k where k: "ready R (job_id (wj_job wj)) k ?db2" "job_usage_id (wj_job wj) = Some k"
    using live_ready [OF conjunct1 [OF b] two(2)] .
  let ?db3 = "work_on_job env js wj ?db2"
  obtain j' where j': "j' \<in> set (ai_jobs ?db3)" "job_id j' = job_id j" "job_attempts j' = job_attempts j + 1"
    "job_provider_job_id j' = Some pid" "job_attempts j + 1 \<ge> 240 \<longrightarrow> job_status j' = ''timeout_review''"
    using failed_poll [OF k _ assms(4), of env] two(1) wj(1) id assms(5) by auto
  note m = work_moves [OF k, of env js, unfolded moves_def]
  have "workable ?db3 v" if v: "v \<in> set post" for v
  proof -
    have "workable db1 v" using w'(3) v by (simp add: list_all_iff)
    moreover have "job_id (wj_job v) \<notin> I" using w'(8) v by auto
    ultimately have "workable ?db2 v" by (rule workable_kept [OF _ _ frame])
    moreover have "job_id (wj_job v) \<notin> {job_id (wj_job wj)}"
      using w'(7) v wj(1) id(1) by (metis image_eqI singletonD)
    ultimately show ?thesis by (rule workable_kept) (use m in simp)
  qed
  with batch_moves [OF conjunct1 [OF m], of post env js] w'(5,7) j'(1,2)
  have "j' \<in> set (ai_jobs (fold (work_on_job env js) post ?db3))" by (simp add: list_all_iff)
  then show ?thesis using j' by (auto simp: db' wj(2))
qed

lemma failed_polls_count:
  assumes "failed_polls i pid s n t" and "jobs_inv s" and "j \<in> set (ai_jobs (fst s))" and "job_id j = i"
    and "job_provider_job_id j = Some pid"
  shows "jobs_inv t \<and> int n \<le> max 1 (240 - job_attempts j)
     \<and> (\<exists>j' \<in> set (ai_jobs (fst t)). job_id j' = i \<and> job_attempts j' = job_attempts j + int n
          \<and> job_provider_job_id j' = Some pid
          \<and> (0 < n \<longrightarrow> job_attempts j + int n \<ge> 240 \<longrightarrow> job_status j' = ''timeout_review''))"
  using assms(1)
proof (induction rule: failed_polls.induct)
  case none
  show ?case using assms(2-5) by auto
next
  case (elsewhere n t t')
  then obtain j1 where j1: "j1 \<in> set (ai_jobs (fst t))" "job_id j1 = i" "job_attempts j1 = job_attempts j + int n"
    "job_provider_job_id j1 = Some pid" "0 < n \<longrightarrow> job_attempts j + int n \<ge> 240 \<longrightarrow> job_status j1 = ''timeout_review''"
    by blast
  have "j1 \<in> set (ai_jobs (fst t'))" using job_rows_same [OF elsewhere(3) j1(2)] j1(1) by simp
  moreover have "jobs_inv t'" using job_step_simulates [OF elsewhere(2)] elsewhere.IH by blast
  ultimately show ?case using elsewhere.IH j1(2-5) by blast
next
  case (one_more n db1 R env js db2)
  then obtain j1 where j1: "j1 \<in> set (ai_jobs db1)" "job_id j1 = i" "job_attempts j1 = job_attempts j + int n"
    "job_provider_job_id j1 = Some pid" "0 < n \<longrightarrow> job_attempts j + int n \<ge> 240 \<longrightarrow> job_status j1 = ''timeout_review''"
    and inv: "jobs_inv (db1, R)" "int n \<le> max 1 (240 - job_attempts j)" by auto
  have "distinct (map job_id (ai_jobs db1))" using inv(1) by (simp add: jobs_inv_but_def Let_def)
  from claimed_pollable [OF this j1(1)] one_more.hyps(2) j1(2) have "pollable (ae_db_now env) j1" by simp
  then have "\<not> (0 < n \<and> job_attempts j + int n \<ge> 240)" using j1(5) by (auto simp: pollable_def)
  then have "int (Suc n) \<le> max 1 (240 - job_attempts j)" by auto
  moreover have "\<exists>j' \<in> set (ai_jobs db2). job_id j' = job_id j1 \<and> job_attempts j' = job_attempts j1 + 1
     \<and> job_provider_job_id j' = Some pid \<and> (job_attempts j1 + 1 \<ge> 240 \<longrightarrow> job_status j' = ''timeout_review'')"
    by (rule failed_round [OF inv(1) j1(1) _ one_more.hyps(3) j1(4) one_more.hyps(4)])
      (use one_more.hyps(2) j1(2) in simp)
  moreover have "jobs_inv (db2, R)" using worker_moves [OF inv(1) one_more.hyps(4)] by blast
  ultimately show ?case using j1(2,3) by (auto simp: algebra_simps)
qed


section \<open>Listing\<close>

text \<open>
  What a listing is filtered by. The handlers ask for one row more than the page has, and count the
  pages in that size.
\<close>

definition asked_status :: "string option \<Rightarrow> app_error + string option" where
  "asked_status status = (case status of None \<Rightarrow> Inr None | Some s \<Rightarrow> rs_bind (normalize_status s) (\<lambda>s. Inr (Some s)))"

definition asked_type :: "string option \<Rightarrow> app_error + string option" where
  "asked_type type = (case type of None \<Rightarrow> Inr None | Some t \<Rightarrow> rs_bind (normalize_job_type t) (\<lambda>t. Inr (Some t)))"

lemma page_bounds:
  assumes "normalize_page page rows = (k, n)"
  shows "1 \<le> k" and "1 \<le> n" and "n \<le> 100"
  using assms by (auto simp: normalize_page_def clamp_int_def)

lemma listed_page:
  assumes "job_list env t status type customer page rows db = (Inr p, db')"
    and "asked_status status = Inr st" and "asked_type type = Inr ty"
    and "normalize_page page rows = (k, n)" and "k \<le> 2 ^ 56"
  shows "jp_jobs p = map view_job (take (nat n) (drop (nat (k - 1) * nat (n + 1)) (matching_jobs t st ty customer db)))"
proof -
  note b = page_bounds [OF assms(4)]
  have "(k - 1) * (n + 1) \<le> 2 ^ 56 * 101" using b assms(5) by (intro mult_mono) simp_all
  moreover have "0 \<le> (k - 1) * (n + 1)" using b by simp
  ultimately have off: "wrap_i64 ((k - 1) * (n + 1)) = (k - 1) * (n + 1)" "0 \<le> (k - 1) * (n + 1)"
    by (simp_all add: in_i64_def)
  have "nat ((k - 1) * (n + 1)) = nat (k - 1) * nat (n + 1)" using b by (simp add: nat_mult_distrib)
  then show ?thesis
    using assms(1-4) b off by (auto simp: job_list_def asked_status_def asked_type_def list_generation_jobs_def Let_def
        io_success take_map [symmetric] min_def split: if_splits)
qed

text \<open>A job at the end of a block of \<open>n + 1\<close> is in none of the first \<open>n\<close> of a block.\<close>

lemma block_end_apart:
  fixes n :: nat
  assumes "a * (n + 1) + i = m * (n + 1) + n" and "i < n"
  shows False
proof -
  have "(i + a * (n + 1)) mod (n + 1) = (n + m * (n + 1)) mod (n + 1)" using assms(1) by (simp only: add.commute)
  then show False using assms(2) unfolding mod_mult_self1 by simp
qed


section \<open>Properties\<close>

text \<open>
  C11. Jobs and the gateway share the wallets without harm: whatever servers, the worker,
  administrators and requests of the gateway do, and in whatever order, every run is a run of the
  abstract accounts, no account ever holds more than its balance, each wallet holds the sum of its
  open usage records, and a job whose outcome is open can still be billed. One request is limited:
  an administrator caches the files of a job again only while the job has not failed. On a failed
  job that request breaks the books, which is C14.
\<close>

theorem jobs_refine_accounts:
  assumes "job_work\<^sup>*\<^sup>* (db, []) (db', R)" and "jobs_inv (db, [])"
  shows "acct_step\<^sup>*\<^sup>* (abs_account db) (abs_account db') \<and> (\<forall>i. account_ok (abs_account db' i))
     \<and> list_all (\<lambda>w. wal_held_minor w = acc_held (abs_account db' (wal_id w))) (ai_wallets db')
     \<and> list_all (\<lambda>j. \<not> live j \<or> (\<exists>u. usage_of (ai_usages db') j = Some u \<and> billable u)) (ai_jobs db')"
proof -
  from jobs_simulate [OF assms] have run: "jobs_inv (db', R)" "acct_step\<^sup>*\<^sup>* (abs_account db) (abs_account db')" by auto
  have "\<not> live j \<or> (\<exists>u. usage_of (ai_usages db') j = Some u \<and> billable u)" if j: "j \<in> set (ai_jobs db')" for j
  proof -
    obtain k u where "job_usage_id j = Some k" "usage_by_id k (ai_usages db') = Some u" "job_id j \<in> {} \<or> fits j u"
      by (rule inv_usage [OF run(1) j])
    then show ?thesis by (simp add: usage_of_def fits_def)
  qed
  then have "list_all (\<lambda>j. \<not> live j \<or> (\<exists>u. usage_of (ai_usages db') j = Some u \<and> billable u)) (ai_jobs db')"
    by (simp add: list_all_iff)
  moreover note b = inv_billing [OF run(1)]
  moreover have "list_all (\<lambda>w. wal_held_minor w = acc_held (abs_account db' (wal_id w))) (ai_wallets db')"
    using b by (simp add: billing_inv_def)
  ultimately show ?thesis using run(2) accounts_ok by blast
qed

text \<open>
  C12. The worker gives up on a job whose provider it cannot reach: however the batches that claim it
  mix with steps that leave the job alone, it polls such a job at most until its 240th attempt (once
  when it is past that), and then the job waits for an administrator.
\<close>

theorem unreachable_provider_ends_polling:
  assumes "failed_polls i pid (db, R) n (db', R')" and "jobs_inv (db, R)" and "j \<in> set (ai_jobs db)" and "job_id j = i"
    and "job_provider_job_id j = Some pid"
  shows "int n \<le> max 1 (240 - job_attempts j)
     \<and> (n = nat (max 1 (240 - job_attempts j)) \<longrightarrow>
          (\<exists>j' \<in> set (ai_jobs db'). job_id j' = i \<and> job_status j' = ''timeout_review''))"
proof -
  obtain j' where j': "j' \<in> set (ai_jobs db')" "job_id j' = i"
    "0 < n \<longrightarrow> job_attempts j + int n \<ge> 240 \<longrightarrow> job_status j' = ''timeout_review''"
    and n: "int n \<le> max 1 (240 - job_attempts j)" using failed_polls_count [OF assms(1,2)] assms(3-5) by auto
  have "job_status j' = ''timeout_review''" if "n = nat (max 1 (240 - job_attempts j))"
  proof -
    have "int n = max 1 (240 - job_attempts j)" using that by simp
    then have "1 \<le> int n" "240 - job_attempts j \<le> int n" by simp_all
    then show ?thesis using j'(3) by simp
  qed
  then show ?thesis using n j'(1,2) by (intro conjI impI bexI [of _ j']) simp_all
qed

text \<open>
  Listing jobs skips one after each page, whatever the listing is filtered by: with pages of \<open>n\<close>
  jobs, the jobs at the positions \<open>n\<close>, \<open>2 * n + 1\<close>, \<open>3 * n + 2\<close> and so on of the listing are on no page,
  at least up to page \<open>2 ^ 56\<close>.
\<close>

theorem job_between_pages_is_on_none:
  assumes "distinct (map job_id (ai_jobs db))"
    and "job_list env t status type customer page rows db = (Inr p, db')"
    and "asked_status status = Inr st" and "asked_type type = Inr ty"
    and "normalize_page page rows = (k, n)" and "k \<le> 2 ^ 56"
    and "m * (nat n + 1) + nat n < length (matching_jobs t st ty customer db)"
  shows "view_job (matching_jobs t st ty customer db ! (m * (nat n + 1) + nat n)) \<notin> set (jp_jobs p)"
proof
  let ?xs = "matching_jobs t st ty customer db"
  let ?m = "nat (k - 1) * nat (n + 1)" and ?g = "m * (nat n + 1) + nat n"
  assume "view_job (?xs ! ?g) \<in> set (jp_jobs p)"
  then have "?xs ! ?g \<in> set (take (nat n) (drop ?m ?xs))"
    unfolding listed_page [OF assms(2-6)] by (auto simp: view_job_def)
  then obtain i where i: "i < nat n" "?m + i < length ?xs" "?xs ! (?m + i) = ?xs ! ?g"
    by (auto simp: in_set_conv_nth)
  have "distinct ?xs" using assms(1) by (auto simp: matching_jobs_def distinct_map)
  with i assms(7) have "?m + i = ?g" by (simp add: nth_eq_iff_index_eq)
  moreover have "nat (n + 1) = nat n + 1" using page_bounds [OF assms(5)] by simp
  ultimately show False using block_end_apart [of "nat (k - 1)" "nat n" i m] i(1) by simp
qed


section \<open>Witnesses\<close>

text \<open>A job of the customer of \<open>waiting_db\<close>, which holds what that customer's wallet holds.\<close>

definition working_job :: "uuid \<Rightarrow> string \<Rightarrow> int \<Rightarrow> generation_job" where
  "working_job i status tries = \<lparr>job_id = i, job_tenant_id = 1, job_wallet_id = Some 11, job_customer_id = 7,
     job_provider_id = Some 2, job_model_id = Some 3, job_usage_id = Some 21, job_server_key_id = Some 6,
     job_request_id = Some ''req'', job_idempotency_key = None, job_type = ''image'', job_status = status,
     job_provider_status = None, job_provider_job_id = Some ''p'', job_provider_request_id = None,
     job_provider_submit_response = None, job_provider_result_response = None,
     job_request_payload = JObject [], job_result_json = None, job_asset_urls = JArray [],
     job_charge_mode = ''per_image'', job_quantity = 1, job_held_minor = 104, job_charged_minor = 0,
     job_refunded_minor = 0, job_currency = ''CNY'', job_failure_reason = None, job_attempts = tries,
     job_next_poll_at = None, job_submitted_at = Some 40, job_completed_at = None, job_created_at = 40\<rparr>"

definition working_db :: "int \<Rightarrow> ai_db" where
  "working_db tries = waiting_db\<lparr>ai_jobs := [working_job 31 ''running'' tries]\<rparr>"

definition working_caller :: job_caller where
  "working_caller = \<lparr>jc_server_key_id = 6, jc_tenant_id = 1, jc_app_id = 4, jc_customer_id = 7\<rparr>"

definition working_services :: job_services where
  "working_services = \<lparr>js_provider = sample_provider, js_assets = sample_services, js_float_text = (\<lambda>_. []),
     js_status_text = (\<lambda>_. []), js_parse_uuid = (\<lambda>_. None), js_key_app = (\<lambda>_. None),
     js_submit = (\<lambda>_ _ _. Inl ''down''), js_detail_get = (\<lambda>_ _ _. Inl ''down''),
     js_detail_post = (\<lambda>_ _ _. Inl ''down'')\<rparr>"

lemma working_inv: "tries \<le> 2147483647 \<Longrightarrow> jobs_inv (working_db tries, [])"
proof -
  assume "tries \<le> 2147483647"
  moreover have "billing_inv (working_db tries)"
    using waiting_inv billing_inv_cong(1) [of "working_db tries" waiting_db] by (simp add: working_db_def)
  moreover have "usage_by_id 21 (ai_usages (working_db tries)) = Some sample_usage"
    by (simp add: working_db_def waiting_db_def usage_by_id_def sample_usage_def)
  ultimately show ?thesis
    by (simp add: jobs_inv_but_def Let_def billing_state_inv_def working_db_def working_job_def job_check_def
        currency_check_def byte_def job_ok_def usage_of_def fits_def billable_def open_usage_def sample_usage_def
        in_i64_def)
qed

lemma working_outage: "unreachable working_services pid"
proof -
  have "\<exists>e. poll_wuyin_generation_job working_services p i = Inl e" for p i
    by (cases "poll_wuyin_generation_job working_services p i")
      (auto simp: poll_wuyin_generation_job_def Let_def rs_bind_Inr provider_answer_def working_services_def
        split: if_splits prod.splits)
  then show ?thesis by (auto simp: unreachable_def poll_provider_generation_job_def unsupported_provider_def)
qed

theorem jobs_refine_accounts_witness:
  "\<exists>v db'. web_cancel_job sample_ai_env working_caller 31 (Some ''stop'') (working_db 3) = (Inr v, db')
     \<and> job_status (jv_job v) = ''cancelled''
     \<and> acct_step\<^sup>*\<^sup>* (abs_account (working_db 3)) (abs_account db') \<and> account_ok (abs_account db' 11)"
proof -
  have "succeeds_with (fst (web_cancel_job sample_ai_env working_caller 31 (Some ''stop'') (working_db 3)))
      (\<lambda>v. job_status (jv_job v) = ''cancelled'')" by code_simp
  then obtain v db' where run: "web_cancel_job sample_ai_env working_caller 31 (Some ''stop'') (working_db 3) = (Inr v, db')"
    "job_status (jv_job v) = ''cancelled''" by (rule io_succeedsE)
  from jobs_refine_accounts [OF r_into_rtranclp [where r = job_work, OF job_work.cancels [OF run(1)]] working_inv]
  show ?thesis using run by auto
qed

theorem unreachable_provider_ends_polling_witness:
  "\<exists>db'. failed_polls 31 ''p'' (working_db 239, []) 1 (db', [])
     \<and> (\<exists>j \<in> set (ai_jobs db'). job_status j = ''timeout_review'')"
proof -
  have "fst (process_generation_job_batch sample_ai_env working_services (working_db 239)) = Inr ()" by code_simp
  then obtain db' where run: "process_generation_job_batch sample_ai_env working_services (working_db 239) = (Inr (), db')"
    by (metis prod.collapse)
  have "31 \<in> set (claimed_ids (ae_db_now sample_ai_env) (ai_jobs (working_db 239)))" by code_simp
  from failed_polls.one_more [OF failed_polls.none this working_outage run]
  have p: "failed_polls 31 ''p'' (working_db 239, []) 1 (db', [])" by simp
  have "working_job 31 ''running'' 239 \<in> set (ai_jobs (working_db 239))" by (simp add: working_db_def)
  from unreachable_provider_ends_polling [OF p working_inv this] p
  show ?thesis by (auto simp: working_job_def)
qed

theorem job_between_pages_is_on_none_witness:
  "\<exists>p db'. job_list sample_ai_env 1 (Some '' RUNNING'') None None (Some 3) (Some 1)
       (working_db 3\<lparr>ai_jobs := map (\<lambda>i. working_job i ''running'' 3) [31, 32, 33, 34, 35]\<rparr>) = (Inr p, db')
     \<and> view_job (working_job 32 ''running'' 3) \<notin> set (jp_jobs p)"
proof -
  let ?db = "working_db 3\<lparr>ai_jobs := map (\<lambda>i. working_job i ''running'' 3) [31, 32, 33, 34, 35]\<rparr>"
  have xs: "matching_jobs 1 (Some ''running'') None None ?db = map (\<lambda>i. working_job i ''running'' 3) [35, 34, 33, 32, 31]"
    and st: "asked_status (Some '' RUNNING'') = Inr (Some ''running'')" and ty: "asked_type None = Inr None"
    and pg: "normalize_page (Some 3) (Some 1) = (3, 1)" by code_simp+
  have "succeeds_with (fst (job_list sample_ai_env 1 (Some '' RUNNING'') None None (Some 3) (Some 1) ?db)) (\<lambda>_. True)"
    by code_simp
  then obtain p db' where run: "job_list sample_ai_env 1 (Some '' RUNNING'') None None (Some 3) (Some 1) ?db = (Inr p, db')"
    by (rule io_succeedsE)
  have "distinct (map job_id (ai_jobs ?db))" by (simp add: working_job_def)
  from job_between_pages_is_on_none [OF this run st ty pg, of 1, unfolded xs]
  have "view_job (working_job 32 ''running'' 3) \<notin> set (jp_jobs p)" by simp
  with run show ?thesis by blast
qed

end
