(* ===== verification/JobFailures.thy ===== *)
theory JobFailures
  imports JobRuns
begin

text \<open>
  What failed jobs leave behind. An administrator can have the files of a failed job cached again,
  which captures its usage record once more although its hold was released; and a submission that
  fails after its reservation has used its idempotency key up, in every later state.
\<close>

section \<open>A job whose usage was released\<close>

text \<open>Capturing a usage record that is closed, though not as succeeded, settles its hold once more.\<close>

lemma capture_closed:
  assumes inv: "billing_inv db" and u: "usage_by_id k (ai_usages db) = Some u" "usr_status u = ''failed''"
    and w: "usr_wallet_id u = Some i" "wallet_by_id i (ai_wallets db) = Some w"
    and held: "0 \<le> usage_held u" "usage_held u \<le> wal_held_minor w"
  shows "\<exists>db' w'. job_capture_usage env (Some k) charge body p db = (Inr (), db')
     \<and> wallet_by_id i (ai_wallets db') = Some w' \<and> wal_held_minor w' = wal_held_minor w - usage_held u
     \<and> acc_held (abs_account db' i) = acc_held (abs_account db i)"
proof -
  let ?r = "held_by k i u"
  let ?g = "\<lambda>s u. u\<lparr>usr_status := ''succeeded'', usr_provider_status := Some ''2'',
     usr_provider_request_id := Some p, usr_charged_minor := cs_captured_minor s,
     usr_metadata_json := jsonb_concat (usr_metadata_json u) (settlement_metadata s),
     usr_provider_raw_response := Some body, usr_completed_at := Some (ae_db_now env)\<rparr>"
  let ?close = "\<lambda>s. update_job_usage_succeeded env k p (cs_captured_minor s) (settlement_metadata s) body"
  from inv have d: "distinct (map usr_id (ai_usages db))" by (simp add: billing_inv_def)
  have "\<exists>f s l. capture_tx env (job_db_error env) (br_wallet_id ?r) (br_usage_id ?r) (br_held_minor ?r) charge
       (reason_job_capture, settlement_metadata) (reason_job_free, JObject []) ?close db
       = Inr ((), settled db ?r f (?g s) l)
     \<and> (\<forall>u. usage_check u \<longrightarrow> usage_check (?g s u))
     \<and> takes (min (max charge 0) (br_held_minor ?r + acc_available (abs_account db (br_wallet_id ?r))))
          (br_held_minor ?r) f"
    by (rule capture_tx_runs [OF inv _ _ _ _, where w = w and u = u])
      (use u w held in \<open>simp_all add: update_job_usage_succeeded_def usage_check_def is_object_concat\<close>)
  then obtain f s l where run: "capture_tx env (job_db_error env) i k (usage_held u) charge
       (reason_job_capture, settlement_metadata) (reason_job_free, JObject []) ?close db
       = Inr ((), settled db ?r f (?g s) l)" and f: "takes (min (max charge 0)
          (br_held_minor ?r + acc_available (abs_account db (br_wallet_id ?r)))) (br_held_minor ?r) f" by auto
  have "find_usage_for_update (job_db_error env) k db
      = Inr (\<lparr>ufu_wallet_id = i, ufu_status = ''failed'', ufu_held_minor = usage_held u\<rparr>, db)"
    using u w by (simp add: find_usage_Inr)
  then have "job_capture_usage env (Some k) charge body p db = (Inr (), settled db ?r f (?g s) l)"
    using run by (simp add: job_capture_usage_def Let_def io_bind_def io_of_def ok_or_def commit_Inr tx_bind_def)
  moreover have "wallet_by_id i (ai_wallets (settled db ?r f (?g s) l)) = Some (f w)"
    using f w(2) by (simp add: settled_def wt.get_upd takes_def)
  moreover have "wal_held_minor (f w) = wal_held_minor w - usage_held u" using f by (simp add: takes_def)
  moreover have "wallet_holds i (ai_usages (settled db ?r f (?g s) l)) = wallet_holds i (ai_usages db)"
    unfolding settled_def using other_usage_holds [where f = "?g s", OF d u(1)] u(2) by (simp add: open_usage_def)
  ultimately show ?thesis by (auto simp: acc_held_def abs_account_def)
qed

text \<open>A capture that succeeds took the hold of the record out of the wallet's held amount.\<close>

lemma capture_within:
  assumes inv: "billing_inv db" and u: "usage_by_id k (ai_usages db) = Some u" "usr_status u \<noteq> ''succeeded''"
    and w: "usr_wallet_id u = Some i" "wallet_by_id i (ai_wallets db) = Some w"
    and run: "job_capture_usage env (Some k) charge body p db = (Inr (), db')"
  shows "usage_held u \<le> wal_held_minor w"
proof -
  from inv have d: "distinct (map wal_id (ai_wallets db))" by (simp add: billing_inv_def)
  have wid: "wal_id w = i" using wt.get_in [OF w(2)] by blast
  have find: "find_wallet_by_id_for_update e i db = Inr (v, db1) \<longleftrightarrow> v = w \<and> db1 = db" for e v db1
    using w(2) by (auto simp: find_wallet_by_id_for_update_def tx_success ok_or_def)
  obtain c v db1 where "update_wallet_capture env (job_db_error env) i (usage_held u) c db = Inr (v, db1)"
    using run u w(1)
    by (auto simp: job_capture_usage_def Let_def io_success commit_Inr tx_success find_usage_Inr capture_tx_def
        find wid ok_or_def split: if_splits)
  then have "0 \<le> wal_held_minor w - usage_held u"
    unfolding update_wallet_capture_one [OF d w(2)] Let_def
    by (simp add: wallet_check_def touched_def split: if_splits)
  then show ?thesis by simp
qed

text \<open>The other steps of the administrator's request leave the wallets and the usage records.\<close>

definition same_books :: "ai_db \<Rightarrow> ai_db \<Rightarrow> bool" where
  "same_books a b \<longleftrightarrow> ai_wallets b = ai_wallets a \<and> ai_usages b = ai_usages a"

interpretation books_kept: evolution same_books
  by unfold_locales (simp_all add: same_books_def)

lemma statements_keep_books:
  "tx_respects same_books (update_job e P f)" "tx_respects same_books (ai_audit env admin action res i b a md)"
  by (auto simp: tx_respects_def same_books_def update_job_def ai_audit_def tx_success split: sum.splits)

lemma caching_keeps_books: "io_respects same_books (cache_generation_assets env js wj type urls body)"
proof -
  have "io_respects same_billing (cache_generation_assets env js wj type urls body)"
    unfolding cache_generation_assets_def by (intro billing_kept.respects respects_if cache_urls_keep)
  then show ?thesis by (simp add: io_respects_def same_billing_def same_books_def)
qed

lemma kept_books: "io_respects same_books m \<Longrightarrow> m db = (x, db') \<Longrightarrow> same_books db db'"
  by (metis io_respects_def snd_conv)

lemma recached:
  assumes "retry_cache_admin_job env js job reason db = (Inr (), db')"
  obtains db1 db2 charge body p where "same_books db db1" and "same_books db2 db'"
    and "job_capture_usage env (job_usage_id job) charge body p db1 = (Inr (), db2)"
proof -
  obtain body cached da db1 db2 x p where
    a: "mark_job_provider_succeeded env (job_id job) (job_provider_status job) body db = (Inr (), da)"
    and b: "cache_generation_assets env js
       \<lparr>wj_job = job\<lparr>job_attempts := 0, job_request_payload := JObject []\<rparr>,
        wj_app_id = Option.bind (job_server_key_id job) (js_key_app js)\<rparr>
       (job_type job) (collect_asset_urls (js_assets js) body) body da = (Inr cached, db1)"
    and c: "job_capture_usage env (job_usage_id job) (charge_minor_from_job (job_charge_mode job) (job_held_minor job))
       x p db1 = (Inr (), db2)"
    and e: "mark_job_succeeded env (job_id job) (charge_minor_from_job (job_charge_mode job) (job_held_minor job))
       cached (job_provider_status job) body db2 = (Inr (), db')"
    using assms unfolding retry_cache_admin_job_def Let_def by (auto simp: io_success split: if_splits)
  have "same_books db da" using a
    by (rule kept_books [rotated]) (simp add: mark_job_provider_succeeded_def books_kept.commit statements_keep_books)
  moreover have "same_books da db1" by (rule kept_books [OF caching_keeps_books b])
  moreover have "same_books db2 db'" using e
    by (rule kept_books [rotated]) (simp add: mark_job_succeeded_def books_kept.commit statements_keep_books)
  ultimately show ?thesis using that c books_kept.trans by blast
qed

lemma cached_again:
  assumes "retry_ai_generation_job_cache env js admin i reason db = (Inr v, db')"
    and "load_admin_job (adm_tenant_id admin) i db = Inr job"
  obtains db1 reason' where "retry_cache_admin_job env js job reason' db = (Inr (), db1)" and "same_books db1 db'"
proof -
  obtain reason' db1 and w :: job_view where a: "retry_cache_admin_job env js job reason' db = (Inr (), db1)"
    and b: "audit_admin_job_action env admin ''ai_generation_job.retry_cache'' job (jv_job w) reason' db1 = (Inr (), db')"
    using assms unfolding retry_ai_generation_job_cache_def admin_job_action_def Let_def find_generation_job_by_id_def
    by (auto simp: io_success)
  have "same_books db1 db'" using b
    by (rule kept_books [rotated]) (simp add: audit_admin_job_action_def books_kept.commit statements_keep_books)
  with a that show ?thesis by blast
qed


section \<open>A submission that failed\<close>

text \<open>
  What the unique index of the usage records and the look-up of an earlier job go by. Every step
  keeps the keys of the usage records; the steps other than a submission add no job, and a
  submission at most one of its own key.
\<close>

definition usage_key :: "usage_record \<Rightarrow> uuid \<times> uuid option \<times> uuid option \<times> string \<times> string option" where
  "usage_key u = (usr_tenant_id u, usr_customer_id u, usr_api_key_id u, usr_endpoint u, usr_idempotency_key u)"

type_synonym job_key = "uuid \<times> uuid \<times> uuid option \<times> string \<times> string option"

definition job_key :: "generation_job \<Rightarrow> job_key" where
  "job_key j = (job_tenant_id j, job_customer_id j, job_server_key_id j, job_type j, job_idempotency_key j)"

definition keeps_keys :: "job_key set \<Rightarrow> ai_db \<Rightarrow> ai_db \<Rightarrow> bool" where
  "keeps_keys X a b \<longleftrightarrow> usage_key ` set (ai_usages a) \<subseteq> usage_key ` set (ai_usages b)
     \<and> job_key ` set (ai_jobs b) \<subseteq> X \<union> job_key ` set (ai_jobs a)"

lemma within_trans: "C \<subseteq> X \<union> B \<Longrightarrow> B \<subseteq> X \<union> A \<Longrightarrow> C \<subseteq> X \<union> A"
  by blast

lemma keeps_keys_trans:
  assumes "keeps_keys X s t" and "keeps_keys X t u"
  shows "keeps_keys X s u"
  unfolding keeps_keys_def
proof
  show "usage_key ` set (ai_usages s) \<subseteq> usage_key ` set (ai_usages u)"
    by (rule subset_trans [of _ "usage_key ` set (ai_usages t)"]) (use assms in \<open>simp_all add: keeps_keys_def\<close>)
  show "job_key ` set (ai_jobs u) \<subseteq> X \<union> job_key ` set (ai_jobs s)"
    by (rule within_trans [of _ _ "job_key ` set (ai_jobs t)"]) (use assms in \<open>simp_all add: keeps_keys_def\<close>)
qed

interpretation keys_kept: evolution "keeps_keys X" for X
  by unfold_locales (simp add: keeps_keys_def, rule keeps_keys_trans)

lemma same_rows_keep_keys: "ai_usages b = ai_usages a \<Longrightarrow> ai_jobs b = ai_jobs a \<Longrightarrow> keeps_keys X a b"
  by (simp add: keeps_keys_def)

lemma image_update_where: "(\<And>x. k (f x) = k x) \<Longrightarrow> k ` set (update_where P f t) = k ` set t"
  by (metis map_update_where_same set_map)

lemma usage_statements_keep_keys:
  "(\<And>u. usage_key (f u) = usage_key u) \<Longrightarrow> tx_respects (keeps_keys X) (update_usage e i f)"
  "tx_respects (keeps_keys X) (insert_usage e row)"
  by (auto simp: tx_respects_def keeps_keys_def update_usage_def update_returning_def insert_usage_def insert_row_def
      image_update_where split: if_splits sum.splits)

lemma update_job_keeps_keys:
  "(\<And>j. job_key (f j) = job_key j) \<Longrightarrow> tx_respects (keeps_keys X) (update_job e P f)"
  by (auto simp: tx_respects_def keeps_keys_def update_job_def update_returning_def image_update_where split: if_splits)

lemma wallet_statements_keep_keys:
  "tx_respects (keeps_keys X) (ensure_wallet_exists env e t c)" "tx_respects (keeps_keys X) (find_wallet_for_update e t c)"
  "tx_respects (keeps_keys X) (update_wallet env e P f)"
  "tx_respects (keeps_keys X) (insert_wallet_ledger_entry env e t w ty n r u md)"
  "tx_respects (keeps_keys X) (insert_admin_ledger_entry env t w ty n r md i)"
  "tx_respects (keeps_keys X) (ai_audit env admin action res i b a md)"
  by (auto simp: tx_respects_def keeps_keys_def ensure_wallet_exists_def find_wallet_for_update_def tx_read_def
      update_wallet_def insert_wallet_ledger_entry_def insert_admin_ledger_entry_def
      ai_audit_def tx_success Let_def split: if_splits sum.splits option.splits)

lemma limits_keep_keys:
  "tx_respects (keeps_keys X) (ensure_daily_spend_limits env c m w hold)"
  "tx_respects (keeps_keys X) (ensure_job_spend_limits env jc m w hold)"
  by (auto simp: tx_respects_def keeps_keys_def ensure_daily_spend_limits_def ensure_job_spend_limits_def Let_def
      check_daily_limit_def daily_spend_minor_def tx_success split: if_splits option.splits)

lemmas keep_keys = keys_kept.respects usage_statements_keep_keys update_job_keeps_keys wallet_statements_keep_keys
  limits_keep_keys tx_respects_if tx_respects_prod respects_if

text \<open>Bills.\<close>

lemma bills_keep_keys:
  "io_respects (keeps_keys X) (reserve_wallet_and_create_usage env caller m rid endpoint hold payload key)"
  "io_respects (keeps_keys X) (reserve_job_usage env c m rid endpoint hold payload key)"
  "io_respects (keeps_keys X) (capture_usage env r m st prid us charge body)"
  "io_respects (keeps_keys X) (release_usage env e r st' prid body' why)"
  "io_respects (keeps_keys X) (job_capture_usage env k charge body p)"
  unfolding reserve_wallet_and_create_usage_def reserve_job_usage_def reserve_tx_def Let_def update_wallet_hold_def
    insert_usage_record_def insert_job_usage_def capture_usage_def capture_tx_def update_wallet_capture_def
    update_usage_succeeded_def release_usage_def release_tx_def release_reservation_def update_usage_failed_def
    find_wallet_by_id_for_update_def job_capture_usage_def update_job_usage_succeeded_def find_usage_for_update_def
  by (intro keep_keys; simp add: usage_key_def)+

lemma release_keeps_keys: "tx_respects (keeps_keys X) (release_tx env e w k held st prid body reason md)"
  unfolding release_tx_def release_reservation_def update_usage_failed_def update_wallet_hold_def
    find_wallet_by_id_for_update_def Let_def
  by (intro keep_keys; simp add: usage_key_def)

lemma wallet_admin_keeps_keys:
  "io_respects (keeps_keys X) (adjust_ai_wallet env admin customer amount reason md)"
  "io_respects (keeps_keys X) (update_ai_wallet_quota env admin customer limit)"
  "io_respects (keeps_keys X) (update_ai_wallet_access env admin customer enabled)"
  unfolding adjust_ai_wallet_def update_ai_wallet_quota_def update_ai_wallet_access_def Let_def wallet_transaction_def
    update_wallet_balance_in_transaction_def update_wallet_quota_in_transaction_def
    update_wallet_access_in_transaction_def ensure_customer_exists_in_transaction_def find_admin_wallet_for_update_def
  by (intro keep_keys)+

lemma kept_keys: "io_respects (keeps_keys X) m \<Longrightarrow> m db = (x, db') \<Longrightarrow> keeps_keys X db db'"
  by (metis io_respects_def snd_conv)

lemma gateway_keeps_keys: "billing s s' \<Longrightarrow> keeps_keys X (fst s) (fst s')"
  by (induction rule: billing.induct) (auto intro: kept_keys bills_keep_keys wallet_admin_keeps_keys)

text \<open>Jobs.\<close>

lemma marks_keep_keys:
  "io_respects (keeps_keys X) (mark_job_running env i ps body)"
  "io_respects (keeps_keys X) (mark_job_provider_succeeded env i ps body)"
  "io_respects (keeps_keys X) (mark_job_succeeded env i charged urls ps body)"
  "io_respects (keeps_keys X) (mark_job_caching_failed env i err body)"
  "io_respects (keeps_keys X) (mark_job_poll_error env i tries err)"
  "io_respects (keeps_keys X) (mark_job_for_poll_retry env t i reason)"
  unfolding mark_job_running_def mark_job_provider_succeeded_def mark_job_succeeded_def
    mark_job_caching_failed_def mark_job_poll_error_def mark_job_for_poll_retry_def Let_def
  by (intro keep_keys; simp add: job_key_def)+

lemma endings_keep_keys:
  "io_respects (keeps_keys X) (fail_job_and_release_usage env job reason ps body)"
  "io_respects (keeps_keys X) (fail_admin_job_and_release_usage env job reason)"
  "io_respects (keeps_keys X) (refund_admin_job env job reason)"
  "io_respects (keeps_keys X) (cancel_server_job_and_release_usage env t c i reason)"
  unfolding fail_job_and_release_usage_def fail_admin_job_and_release_usage_def refund_admin_job_def
    cancel_server_job_and_release_usage_def release_cancelled_def mark_job_cancelled_def update_job_failed_def
    update_job_refunded_def update_usage_refunded_def update_wallet_balance_def find_usage_for_update_def
    find_wallet_by_id_for_update_def Let_def
  by (intro keep_keys release_keeps_keys; simp add: job_key_def usage_key_def)+

lemma caching_keeps_keys: "io_respects (keeps_keys X) (cache_generation_assets env js wj type urls body)"
proof -
  have "io_respects same_billing (cache_generation_assets env js wj type urls body)"
    unfolding cache_generation_assets_def by (intro billing_kept.respects respects_if cache_urls_keep)
  then show ?thesis by (simp add: io_respects_def same_billing_def same_rows_keep_keys)
qed

lemma keys_of_cases:
  assumes "io_respects (keeps_keys X) m" and "\<And>e. io_respects (keeps_keys X) (h e)"
    and "\<And>a. io_respects (keeps_keys X) (g a)"
  shows "io_respects (keeps_keys X) (\<lambda>db. case m db of (Inl e, db') \<Rightarrow> h e db' | (Inr a, db') \<Rightarrow> g a db')"
  unfolding io_respects_def
proof
  fix db
  obtain x db' where m: "m db = (x, db')" by fastforce
  have "keeps_keys X db db'" by (rule kept_keys [OF assms(1) m])
  moreover have "keeps_keys X db' (snd (h e db'))" "keeps_keys X db' (snd (g a db'))" for e a
    using assms(2,3) by (simp_all add: io_respects_def)
  ultimately show "keeps_keys X db (snd (case m db of (Inl e, db') \<Rightarrow> h e db' | (Inr a, db') \<Rightarrow> g a db'))"
    unfolding m by (cases x) (auto intro: keys_kept.trans)
qed

lemma process_keeps_keys: "io_respects (keeps_keys X) (process_generation_job env js wj)"
proof -
  have finish: "io_respects (keeps_keys X) (finish_succeeded_job env js wj poll i)" for poll i
    unfolding finish_succeeded_job_def Let_def
    by (intro keys_kept.io_bind marks_keep_keys keys_of_cases caching_keeps_keys bills_keep_keys)
  have load: "io_respects (keeps_keys X) (load_job_provider p)" for p
    unfolding load_job_provider_def by (intro keep_keys)
  show ?thesis
    unfolding process_generation_job_def Let_def
    by (intro keys_kept.io_bind load)
      (auto intro!: keys_kept.io_bind keys_kept.io_of finish marks_keep_keys endings_keep_keys
        split: option.splits provider_job_status.splits)
qed

lemma batch_keeps_keys: "io_respects (keeps_keys X) (process_generation_job_batch env js)"
proof -
  have work: "keeps_keys X db (work_on_job env js wj db)" for wj db
  proof -
    obtain x db1 where p: "process_generation_job env js wj db = (x, db1)" by fastforce
    have "keeps_keys X db db1" by (rule kept_keys [OF process_keeps_keys p])
    moreover have "keeps_keys X db1 (snd (mark_job_poll_error env i tries err db1))" for i tries err
      using marks_keep_keys(5) by (simp add: io_respects_def)
    ultimately show ?thesis by (auto simp: work_on_job_def p intro: keys_kept.trans split: sum.splits)
  qed
  have works: "keeps_keys X db (fold (work_on_job env js) wjs db)" for wjs db
    by (induction wjs arbitrary: db) (auto intro: keys_kept.refl keys_kept.trans work)
  have "io_respects (keeps_keys X) (claim_pollable_generation_jobs env key_app)" for key_app
  proof -
    have "job_key (claim_job env j) = job_key j" for j by (simp add: claim_job_def job_key_def)
    then show ?thesis
      unfolding claim_pollable_generation_jobs_def
      by (intro keys_kept.commit)
        (auto simp: tx_respects_def keeps_keys_def Let_def update_returning_def image_update_where split: if_splits)
  qed
  moreover have "io_respects (keeps_keys X) (io_modify (fold (work_on_job env js) wjs))" for wjs
    using works by (simp add: io_respects_def io_modify_def)
  ultimately show ?thesis unfolding process_generation_job_batch_def by (intro keys_kept.io_bind)
qed

lemma job_actions_keep_keys:
  "io_respects (keeps_keys X) (web_cancel_job env c i reason)"
  "io_respects (keeps_keys X) (web_retry_job env c i reason)"
  "io_respects (keeps_keys X) (retry_ai_generation_job_poll env admin i reason)"
  "io_respects (keeps_keys X) (retry_ai_generation_job_cache env js admin i reason)"
  "io_respects (keeps_keys X) (fail_ai_generation_job_release env admin i reason)"
  "io_respects (keeps_keys X) (refund_ai_generation_job env admin i reason)"
  unfolding web_cancel_job_def web_retry_job_def retry_ai_generation_job_poll_def retry_ai_generation_job_cache_def
    fail_ai_generation_job_release_def refund_ai_generation_job_def admin_job_action_def retry_cache_admin_job_def
    find_generation_job_def find_generation_job_by_id_def audit_admin_job_action_def Let_def
  by (intro keep_keys marks_keep_keys endings_keep_keys caching_keeps_keys bills_keep_keys)+

text \<open>A reservation adds one usage record, which no other with its key may precede.\<close>

lemma reserved_row:
  assumes "reserve_job_usage env c m rid endpoint hold payload key db = (Inr r, db1)"
  obtains row where "ai_usages db1 = ai_usages db @ [row]" "ai_jobs db1 = ai_jobs db"
    "usage_key row = (jc_tenant_id c, Some (jc_customer_id c), None, endpoint, key)"
    "list_all (\<lambda>u. \<not> usage_clash row u) (ai_usages db)"
proof -
  let ?e = "job_db_error env" and ?t = "jc_tenant_id c"
  let ?md = "JObject (job_source env c @ [(''model'', JString (gm_code m))])"
  obtain w x y db2 db3 upd db4 z db5 where
    en: "ensure_wallet_exists env ?e ?t (jc_customer_id c) db = Inr (x, db2)"
    and lim: "ensure_job_spend_limits env c m w hold db2 = Inr (y, db3)"
    and up: "(if hold > 0 then update_wallet_hold env ?e ?t (wal_id w) hold else tx_return w) db3 = Inr (upd, db4)"
    and us: "insert_job_usage env (ae_usage_id env) c m (wal_id w) rid endpoint hold payload key db4 = Inr (z, db5)"
    and le: "(if hold > 0 then insert_wallet_ledger_entry env ?e ?t upd ''hold'' hold reason_job_hold (ae_usage_id env) ?md
        else tx_return ()) db5 = Inr ((), db1)"
    using assms unfolding reserve_job_usage_def commit_Inr reserve_tx_def Let_def
    by (auto simp: tx_success find_wallet_for_update_def)
  have "ai_usages db2 = ai_usages db \<and> ai_jobs db2 = ai_jobs db" using en
    by (auto simp: ensure_wallet_exists_def split: if_splits sum.splits)
  moreover have "db3 = db2" using lim
    by (auto simp: ensure_job_spend_limits_def Let_def check_daily_limit_def daily_spend_minor_def
        tx_success split: if_splits option.splits)
  moreover have "ai_usages db4 = ai_usages db3 \<and> ai_jobs db4 = ai_jobs db3" using up
    by (auto simp: update_wallet_hold_def update_wallet_def tx_return_Inr split: if_splits sum.splits option.splits)
  moreover have "ai_usages db1 = ai_usages db5 \<and> ai_jobs db1 = ai_jobs db5" using le
    by (auto simp: insert_wallet_ledger_entry_def Let_def tx_return_Inr split: if_splits)
  moreover obtain row where "ai_usages db5 = ai_usages db4 @ [row]" "ai_jobs db5 = ai_jobs db4"
    "usage_key row = (jc_tenant_id c, Some (jc_customer_id c), None, endpoint, key)"
    "list_all (\<lambda>u. \<not> usage_clash row u) (ai_usages db4)"
    using us by (auto simp: insert_job_usage_def insert_usage_def insert_row_Inr usage_key_def split: sum.splits)
  ultimately show ?thesis using that by simp
qed

lemma key_taken:
  assumes "u \<in> set (ai_usages db)"
    and "usage_key u = (jc_tenant_id c, Some (jc_customer_id c), None, endpoint, Some key)"
  shows "\<exists>e. reserve_job_usage env c m rid endpoint hold payload (Some key) db = (Inl e, db)"
proof (cases "reserve_job_usage env c m rid endpoint hold payload (Some key) db")
  case (Pair x db1)
  show ?thesis
  proof (cases x)
    case (Inl e)
    with Pair show ?thesis by (auto simp: reserve_job_usage_def commit_def split: sum.splits)
  next
    case (Inr r)
    with Pair obtain row where
      "usage_key row = (jc_tenant_id c, Some (jc_customer_id c), None, endpoint, Some key)"
      "list_all (\<lambda>u. \<not> usage_clash row u) (ai_usages db)" by (metis reserved_row)
    with assms show ?thesis by (auto simp: list_all_iff usage_clash_def usage_key_def)
  qed
qed

text \<open>Submissions.\<close>

lemma submit_keeps_keys:
  "io_respects (keeps_keys {(jc_tenant_id c, jc_customer_id c, Some (jc_server_key_id c), type, key)})
     (submit_job env js c q type key)"
proof -
  have "io_respects (keeps_keys {job_key row}) (insert_submitted_job env row)" for row
    unfolding insert_submitted_job_def find_generation_job_by_id_def
    by (intro keys_kept.io_bind keys_kept.io_read keys_kept.commit)
      (auto simp: tx_respects_def keeps_keys_def insert_row_def split: if_splits)
  moreover have "job_key (submitted_job env c m r sub key type p n h)
      = (jc_tenant_id c, jc_customer_id c, Some (jc_server_key_id c), type, key)" for m r sub p n h
    by (simp add: job_key_def submitted_job_def)
  ultimately have "io_respects (keeps_keys {(jc_tenant_id c, jc_customer_id c, Some (jc_server_key_id c), type, key)})
      (insert_submitted_job env (submitted_job env c m r sub key type p n h))" for m r sub p n h by metis
  then show ?thesis
    unfolding submit_job_def Let_def job_release_usage_def
    by (intro keys_kept.io_bind bills_keep_keys)
      (auto intro!: keys_kept.io_bind keys_kept.io_fail bills_keep_keys split: sum.splits)
qed

definition key_used :: "job_caller \<Rightarrow> string \<Rightarrow> string \<Rightarrow> ai_db \<Rightarrow> bool" where
  "key_used c type key db \<longleftrightarrow>
     (jc_tenant_id c, Some (jc_customer_id c), None, generation_endpoint type, Some key)
       \<in> usage_key ` set (ai_usages db)
     \<and> (jc_tenant_id c, jc_customer_id c, Some (jc_server_key_id c), type, Some key) \<notin> job_key ` set (ai_jobs db)"

lemma used_kept:
  assumes "key_used c type key db" and "keeps_keys X db db'"
    and "(jc_tenant_id c, jc_customer_id c, Some (jc_server_key_id c), type, Some key) \<notin> X"
  shows "key_used c type key db'"
  using assms unfolding key_used_def keeps_keys_def by blast

lemma no_job_found:
  "find_idempotent_job c type (Some key) db = (Inr None, db) \<longleftrightarrow>
     (jc_tenant_id c, jc_customer_id c, Some (jc_server_key_id c), type, Some key) \<notin> job_key ` set (ai_jobs db)"
  by (auto simp: find_idempotent_job_def io_read_def find_None_iff job_key_def image_iff)

lemma used_key_reserves_nothing:
  assumes "key_used c type key db"
  shows "\<exists>e. submit_job env js c q type (Some key) db = (Inl e, db)"
proof -
  obtain u where u: "u \<in> set (ai_usages db)"
    "usage_key u = (jc_tenant_id c, Some (jc_customer_id c), None, generation_endpoint type, Some key)"
    using assms by (auto simp: key_used_def)
  from key_taken [OF this] obtain e where "reserve_job_usage env c (jr_model q) (ae_request_id env)
      (generation_endpoint type) (jr_hold q) (jr_payload q) (Some key) db = (Inl e, db)" by blast
  then show ?thesis by (simp add: submit_job_def Let_def io_bind_def)
qed

lemma submission_keeps_used:
  assumes "key_used c type key db"
    and "create_server_generation_job env js c' header payload type' db = (x, db')"
  shows "key_used c type key db'"
proof -
  obtain y db1 where lim: "check_generation_rate_limit env c' db = (y, db1)" by fastforce
  from limit_keeps [OF lim] have "keeps_keys {} db db1" by (simp add: same_rows_keep_keys)
  with assms(1) have used: "key_used c type key db1" by (rule used_kept) simp
  from assms(2) lim show ?thesis
  proof (cases rule: create_cases)
    case stops
    with used show ?thesis by simp
  next
    case (goes key' q)
    show ?thesis
    proof (cases "(jc_tenant_id c', jc_customer_id c', Some (jc_server_key_id c'), type', key')
        = (jc_tenant_id c, jc_customer_id c, Some (jc_server_key_id c), type, Some key)")
      case True
      then have "key_used c' type' key db1" using used by (simp add: key_used_def)
      from used_key_reserves_nothing [OF this, of env js q] goes(4) True used show ?thesis by auto
    next
      case False
      from kept_keys [OF submit_keeps_keys goes(4)] show ?thesis by (rule used_kept [OF used]) (use False in auto)
    qed
  qed
qed

lemma used_key_refuses:
  assumes "key_used c type key db" and "idempotency_key header = Inr (Some key)"
  shows "\<exists>e. fst (create_server_generation_job env js c header payload type db) = Inl e"
proof -
  obtain y db1 where lim: "check_generation_rate_limit env c db = (y, db1)" by fastforce
  from limit_keeps [OF lim] have "keeps_keys {} db db1" by (simp add: same_rows_keep_keys)
  with assms(1) have used: "key_used c type key db1" by (rule used_kept) simp
  then have none: "find_idempotent_job c type (Some key) db1 = (Inr None, db1)"
    unfolding no_job_found by (simp add: key_used_def)
  obtain v where v: "prepare_job env js c payload type db1 = (v, db1)" using prepare_reads by (metis prod.collapse)
  have "\<exists>e. fst (submit_job env js c q type (Some key) db1) = Inl e" for q
    using used_key_reserves_nothing [OF used, of env js q] by auto
  then show ?thesis
    by (auto simp: create_server_generation_job_def io_bind_def io_of_def lim assms(2) none v
        split: sum.splits prod.splits option.splits)
qed

text \<open>A submission that fails after its reservation leaves the key on the usage record and on no job.\<close>

lemma submit_failed:
  assumes "submit_job env js c q type (Some key) db = (Inl e, db')" and "ai_usages db' \<noteq> ai_usages db"
    and none: "find_idempotent_job c type (Some key) db = (Inr None, db)"
  shows "key_used c type key db'"
proof -
  obtain x db1 where res: "reserve_job_usage env c (jr_model q) (ae_request_id env) (generation_endpoint type)
      (jr_hold q) (jr_payload q) (Some key) db = (x, db1)" by fastforce
  show ?thesis
  proof (cases x)
    case (Inl e')
    with res have "db1 = db" by (auto simp: reserve_job_usage_def commit_def split: sum.splits)
    with assms res Inl show ?thesis by (simp add: submit_job_def Let_def io_bind_def)
  next
    case (Inr r)
    with res obtain row where row: "ai_usages db1 = ai_usages db @ [row]" "ai_jobs db1 = ai_jobs db"
      "usage_key row = (jc_tenant_id c, Some (jc_customer_id c), None, generation_endpoint type, Some key)"
      by (metis reserved_row)
    have used: "key_used c type key db1" using none row unfolding no_job_found by (auto simp: key_used_def image_iff)
    have "keeps_keys {} db1 db'"
    proof (cases "submit_provider_generation_job env js (jr_model q) type (jr_payload q)")
      case (Inl e')
      then have "db' = snd (job_release_usage env r reason_job_submit_failed db1)"
        using assms(1) res Inr
        by (auto simp: submit_job_def Let_def io_bind_def io_fail_def split: sum.splits prod.splits)
      then show ?thesis using bills_keep_keys(4) by (simp add: io_respects_def job_release_usage_def)
    next
      case (Inr sub)
      have none: "find_generation_job_by_id t i (s\<lparr>ai_jobs := ai_jobs s @ [v]\<rparr>) \<noteq> (Inl e', s')"
        if "job_tenant_id v = t" "job_id v = i" for t i s v e' s'
        using that by (auto simp: find_generation_job_by_id_def io_read_def load_admin_job_def find_job_def ok_or_def
            rs_bind_def find_None_iff split: option.splits)
      from Inr have "db' = db1"
        using assms(1) res \<open>x = Inr r\<close> none
        by (auto simp: submit_job_def Let_def io_bind_def insert_submitted_job_def commit_def insert_row_def
            split: sum.splits prod.splits if_splits)
      then show ?thesis by (simp add: keys_kept.refl)
    qed
    from used_kept [OF used this] show ?thesis by simp
  qed
qed

text \<open>
  Any requests: those of the runs of \<open>job_work\<close>, and the two that these exclude, a submission whatever
  the prices and the caching again of a job that has failed.
\<close>

inductive any_work :: "ai_db \<times> billing_reservation list \<Rightarrow> ai_db \<times> billing_reservation list \<Rightarrow> bool" where
  works: "job_work s s' \<Longrightarrow> any_work s s'"
| submits: "create_server_generation_job env js c header payload type db = (x, db') \<Longrightarrow> any_work (db, R) (db', R)"
| caches_again: "retry_ai_generation_job_cache env js admin i reason db = (x, db') \<Longrightarrow> any_work (db, R) (db', R)"

lemma job_work_keeps_used: "job_work s s' \<Longrightarrow> key_used c type key (fst s) \<Longrightarrow> key_used c type key (fst s')"
proof (induction rule: job_work.induct)
  case (gateway s s')
  then show ?case using used_kept [OF _ gateway_keeps_keys [where X = "{}"]] by blast
next
  case (submits env js c' header payload type' db x db' R)
  then show ?case using submission_keeps_used by simp
qed (simp_all only: fst_conv, (erule used_kept [where X = "{}"],
    erule kept_keys [rotated], rule job_actions_keep_keys batch_keeps_keys, simp)+)

lemma any_work_keeps_used: "any_work s s' \<Longrightarrow> key_used c type key (fst s) \<Longrightarrow> key_used c type key (fst s')"
proof (induction rule: any_work.induct)
  case (works s s')
  then show ?case by (rule job_work_keeps_used)
next
  case (submits env js c' header payload type' db x db' R)
  then show ?case using submission_keeps_used by simp
next
  case (caches_again env js admin i reason db x db' R)
  then show ?case using used_kept [OF _ kept_keys [OF job_actions_keep_keys(4) [where X = "{}"] caches_again(1)]] by simp
qed


section \<open>Properties\<close>

text \<open>
  C14. A job that has failed can be charged after all, at others' expense: whenever the
  administrator's request that caches a job's files again succeeds on a job whose usage record was
  closed as failed, with a positive hold that was released then, it takes that hold out of the
  wallet's held amount once more. The wallet then holds less than its open usage records.
\<close>

theorem failed_job_is_captured_again:
  assumes "billing_inv db" and "retry_ai_generation_job_cache env js admin j reason db = (Inr v, db')"
    and "load_admin_job (adm_tenant_id admin) j db = Inr job"
    and "job_usage_id job = Some k" and "usage_by_id k (ai_usages db) = Some u" and "usr_status u = ''failed''"
    and "usr_wallet_id u = Some i" and "wallet_by_id i (ai_wallets db) = Some w" and "0 < usage_held u"
  shows "\<exists>w'. wallet_by_id i (ai_wallets db') = Some w' \<and> wal_held_minor w' = wal_held_minor w - usage_held u
     \<and> acc_held (abs_account db' i) = wal_held_minor w \<and> wal_held_minor w' < acc_held (abs_account db' i)"
  using assms(2,3)
proof (rule cached_again)
  fix db3 reason'
  assume run: "retry_cache_admin_job env js job reason' db = (Inr (), db3)" and s3: "same_books db3 db'"
  from run show ?thesis
  proof (rule recached)
    fix db1 db2 charge body p
    assume s1: "same_books db db1" and s2: "same_books db2 db3"
      and cap: "job_capture_usage env (job_usage_id job) charge body p db1 = (Inr (), db2)"
    have rows: "ai_wallets db1 = ai_wallets db" "ai_usages db1 = ai_usages db" "ai_wallets db' = ai_wallets db2"
      "ai_usages db' = ai_usages db2" using s1 s2 s3 by (simp_all add: same_books_def)
    have inv: "billing_inv db1" and held: "acc_held (abs_account db1 i) = wal_held_minor w"
      using billing_inv_cong [OF rows(1,2)] assms(1) account_of_wallet [OF assms(1,8)] by simp_all
    have u: "usage_by_id k (ai_usages db1) = Some u" and w: "wallet_by_id i (ai_wallets db1) = Some w"
      using assms(5,8) rows by simp_all
    have le: "usage_held u \<le> wal_held_minor w"
      by (rule capture_within [OF inv u _ assms(7) w]) (use cap assms(4,6) in auto)
    from capture_closed [OF inv u assms(6,7) w _ le, of env charge body p] assms(9) cap assms(4)
    obtain w' where "wallet_by_id i (ai_wallets db2) = Some w'" "wal_held_minor w' = wal_held_minor w - usage_held u"
      "acc_held (abs_account db2 i) = acc_held (abs_account db1 i)" by auto
    then show ?thesis using rows held assms(9) billing_inv_cong(2) [OF rows(3,4)] by simp
  qed
qed


text \<open>
  C15. A submission that fails after its reservation uses its idempotency key up for good: whatever
  requests of servers, administrators and the gateway and batches of the worker follow, every
  submission of the same caller, of the same kind and with the same key is an error, although there
  is no job.
\<close>

theorem failed_submission_blocks_its_key:
  assumes "idempotency_key header = Inr (Some key)"
    and "create_server_generation_job env js c header payload type db = (Inl e, db1)"
    and "ai_usages db1 \<noteq> ai_usages db"
    and "any_work\<^sup>*\<^sup>* (db1, R) (db2, R')"
  shows "\<exists>e'. fst (create_server_generation_job env' js' c header payload' type db2) = Inl e'"
proof -
  obtain x s where lim: "check_generation_rate_limit env c db = (x, s)" by fastforce
  note s = limit_keeps [OF lim]
  from assms(2) lim have "key_used c type key db1"
  proof (cases rule: create_cases)
    case stops
    with assms(3) s(2) show ?thesis by simp
  next
    case (goes key' q)
    with assms(1,3) s(2) show ?thesis using submit_failed by auto
  qed
  moreover from assms(4) have "key_used c type key db1 \<Longrightarrow> key_used c type key db2"
    by (induction rule: rtranclp_induct2) (use any_work_keeps_used in fastforce)+
  ultimately show ?thesis using used_key_refuses [OF _ assms(1)] by blast
qed


section \<open>Witnesses\<close>

text \<open>A failed job, its released usage record, another open one, and a provider whose files can be read.\<close>

definition job_body :: json where
  "job_body = JObject [(''url'', JString ''http://f'')]"

definition released_job :: generation_job where
  "released_job = (working_job 31 ''provider_failed'' 3)\<lparr>job_usage_id := Some 22,
     job_provider_result_response := Some job_body\<rparr>"

definition released_db :: ai_db where
  "released_db = waiting_db\<lparr>ai_usages := [sample_usage, sample_usage\<lparr>usr_id := 22, usr_status := ''failed''\<rparr>],
     ai_jobs := [released_job]\<rparr>"

definition storing_services :: job_services where
  "storing_services = working_services\<lparr>js_assets := sample_services
     \<lparr>sv_url := (\<lambda>_. Some \<lparr>url_scheme = ''http'', url_host = Some ''x''\<rparr>),
      sv_get := (\<lambda>_. Inr \<lparr>dl_success = True, dl_status_text = ''200'', dl_content_length = None,
        dl_content_type = Some ''image/png'', dl_chunks = []\<rparr>)\<rparr>\<rparr>"

definition job_admin :: admin_context where
  "job_admin = \<lparr>adm_tenant_id = 1, adm_team_member_id = 9, adm_permissions = [''ai:job:update'']\<rparr>"

lemma released_inv: "billing_inv released_db"
  by (simp add: billing_inv_def released_db_def waiting_db_def funded_db_def empty_ai_db_def wallet_check_def
      funded_wallet_def in_i64_def currency_check_def byte_def acc_held_def abs_account_def wallet_holds_def
      usage_check_def sample_usage_def open_usage_def usage_held_def num_def chars_count_def btrim_def)

text \<open>The database once the file is stored.\<close>

definition stored_asset :: ai_asset where
  "stored_asset = \<lparr>ast_id = 0, ast_tenant_id = 1, ast_usage_id = Some 22, ast_asset_type = ''image'',
     ast_status = ''ready'', ast_provider_url = Some ''http://f'',
     ast_storage_key = asset_storage_key sample_ai_env 1 0 ''png'', ast_public_url = ''/api/ai/assets/u'',
     ast_mime_type = Some ''image/png'', ast_file_size = Some 0, ast_checksum_sha256 = []\<rparr>"

definition marked_db :: ai_db where
  "marked_db = released_db\<lparr>ai_jobs :=
     [released_job\<lparr>job_status := ''caching'', job_next_poll_at := Some (db_in sample_ai_env 30)\<rparr>]\<rparr>"

abbreviation stored_db :: ai_db where
  "stored_db \<equiv> marked_db\<lparr>ai_assets := [stored_asset]\<rparr>"

lemma storing_simps: "sv_put (js_assets storing_services) = (\<lambda>_ _. Inr ())" "sv_asset_id (js_assets storing_services) = id"
  "sv_base_url (js_assets storing_services) = None" "sv_sha256_hex (js_assets storing_services) = id"
  "ae_uuid_text sample_ai_env = (\<lambda>_. ''u'')" "js_key_app storing_services = (\<lambda>_. None)" "ai_assets marked_db = []"
  by (simp_all add: storing_services_def working_services_def sample_services_def sample_ai_env_def marked_db_def released_db_def
      waiting_db_def funded_db_def empty_ai_db_def)

text \<open>The host \<open>x\<close> is no address.\<close>

lemma host_facts:
  "read_number 16 4 z b ''x'' = None" "read_number 10 3 z b ''x'' = None" "read_octets 4 0 ''x'' = None"
proof -
  show "read_number 16 4 z b ''x'' = None" and d: "read_number 10 3 z b ''x'' = None" for z b
    by (simp_all add: read_number_def digits_of_def radix_digit_def hex_digit_def byte_def Let_def)
  show "read_octets 4 0 ''x'' = None"
    using read_octets.simps(2) [of 3 0 "''x''"] by (simp add: d read_separator_def)
qed

lemma host_is_name: "parse_ip ''x'' = None"
proof -
  have "read_groups 8 0 ''x'' = ([], False, ''x'')"
    using read_groups.simps(2) [of 7 0 "''x''"] by (simp add: host_facts read_ipv4_def read_separator_def)
  then show ?thesis by (simp add: parse_ip_def read_ipv4_def read_ipv6_def host_facts read_char_def Let_def)
qed

lemma sample_download: "download_provider_asset (js_assets storing_services) ''http://f'' n
    = Inr \<lparr>da_bytes = [], da_mime_type = ''image/png''\<rparr>"
proof -
  have "normalize_mime_type ''image/png'' = Some ''image/png''"
    "to_ascii_lowercase (trim_end_matches ''.'' ''x'') = ''x''" "\<not> ends_with ''.localhost'' ''x''" by code_simp+
  then show ?thesis
    by (simp add: host_is_name download_provider_asset_def storing_services_def sample_services_def rs_bind_def ok_or_def is_http_url_def
        ensure_provider_asset_url_allowed_def Let_def)
qed

lemma stores: "cache_generation_assets sample_ai_env storing_services
    \<lparr>wj_job = released_job\<lparr>job_attempts := 0, job_request_payload := JObject []\<rparr>, wj_app_id = None\<rparr>
    ''image'' [''http://f''] job_body marked_db = (Inr [''/api/ai/assets/u''], stored_db)"
proof -
  have "job_extension_for_mime ''image/png'' = ''png''" by code_simp
  then show ?thesis
    by (simp add: cache_generation_assets_def released_job_def working_job_def io_bind_def io_of_def io_return_def ok_or_def
        sample_download store_job_asset_def store_asset_def Let_def insert_ai_asset_def commit_def insert_row_def
        asset_check_def asset_public_url_def storing_simps stored_asset_def)
qed

lemma marks: "mark_job_provider_succeeded sample_ai_env 31 None job_body released_db = (Inr (), marked_db)"
  by (simp add: mark_job_provider_succeeded_def commit_def update_job_def update_returning_def update_where_def
      released_db_def marked_db_def released_job_def working_job_def job_check_def currency_check_def byte_def in_i64_def)

lemma capture_keeps_jobs: "io_respects same_jobs (job_capture_usage env k charge body p)"
proof -
  have "tx_respects same_jobs (update_usage e i f)" for e i f
    by (auto simp: tx_respects_def same_jobs_def update_usage_def split: sum.splits)
  then show ?thesis
    unfolding job_capture_usage_def capture_tx_def Let_def update_wallet_capture_def update_job_usage_succeeded_def
      find_usage_for_update_def find_wallet_by_id_for_update_def
    by (intro keep_jobs)
qed

lemma sample_recache: "\<exists>v db'. retry_ai_generation_job_cache sample_ai_env storing_services job_admin 31 (Some ''again'')
    released_db = (Inr v, db')"
proof -
  let ?body = "JObject [(''manual_retry_cache'', JBool True), (''provider'', job_body), (''reason'', JString ''again'')]"
  have texts: "normalize_action_reason (Some ''again'') default_retry_cache_reason = Inr ''again''"
    "collect_asset_urls (js_assets storing_services) job_body = [''http://f'']" by code_simp+
  let ?u = "sample_usage\<lparr>usr_id := 22, usr_status := ''failed''\<rparr>"
  have "billing_inv stored_db"
    using released_inv billing_inv_cong(1) [of stored_db released_db] by (simp add: marked_db_def)
  then obtain db2 where cap: "job_capture_usage sample_ai_env (Some 22) 104 ?body ''p'' stored_db = (Inr (), db2)"
    using capture_closed [of stored_db 22 ?u 11 "funded_wallet 104" sample_ai_env 104 ?body "''p''"]
    by (auto simp: marked_db_def released_db_def waiting_db_def usage_by_id_def wallet_by_id_def sample_usage_def
        funded_wallet_def usage_held_def num_def)
  have js: "ai_jobs db2 = ai_jobs stored_db" by (rule kept_rows [OF capture_keeps_jobs cap])
  obtain db3 j where mk: "mark_job_succeeded sample_ai_env 31 104 [''/api/ai/assets/u''] None job_body db2 = (Inr (), db3)"
    and j: "ai_jobs db3 = [j]" "job_id j = 31" "job_tenant_id j = 1"
    by (simp add: mark_job_succeeded_def commit_def update_job_def update_returning_def update_where_def js marked_db_def
        released_job_def working_job_def job_check_def currency_check_def byte_def in_i64_def json_strings_def)
  obtain db4 where audit: "audit_admin_job_action sample_ai_env job_admin ''ai_generation_job.retry_cache'' released_job j
      ''again'' db3 = (Inr (), db4)"
    by (auto simp: audit_admin_job_action_def commit_Inr ai_audit_def tx_success audit_log_row_def Let_def)
  have load: "load_admin_job 1 31 released_db = Inr released_job" "load_admin_job 1 31 db3 = Inr j"
    using j by (simp_all add: load_admin_job_def find_job_def ok_or_def released_db_def released_job_def working_job_def)
  have "retry_cache_admin_job sample_ai_env storing_services released_job ''again'' released_db = (Inr (), db3)"
    using marks stores cap mk texts(2)
    by (simp add: retry_cache_admin_job_def Let_def io_bind_def io_of_def ok_or_def released_job_def working_job_def
        charge_minor_from_job_def storing_simps)
  then show ?thesis using texts(1) load audit
    by (simp add: retry_ai_generation_job_cache_def admin_job_action_def Let_def io_bind_def io_of_def io_read_def
        io_return_def job_admin_def ensure_admin_permission_def ensure_job_can_retry_cache_def released_job_def
        working_job_def find_generation_job_by_id_def rs_bind_def view_job_def)
qed

theorem failed_job_is_captured_again_witness:
  "\<exists>v db' w'. retry_ai_generation_job_cache sample_ai_env storing_services job_admin 31 (Some ''again'') released_db
       = (Inr v, db')
     \<and> wallet_by_id 11 (ai_wallets db') = Some w' \<and> wal_held_minor w' < acc_held (abs_account db' 11)"
proof -
  obtain v db' where run: "retry_ai_generation_job_cache sample_ai_env storing_services job_admin 31 (Some ''again'')
      released_db = (Inr v, db')" using sample_recache by blast
  let ?u = "sample_usage\<lparr>usr_id := 22, usr_status := ''failed''\<rparr>"
  have "load_admin_job (adm_tenant_id job_admin) 31 released_db = Inr released_job"
    by (simp add: load_admin_job_def find_job_def ok_or_def released_db_def released_job_def working_job_def job_admin_def)
  from failed_job_is_captured_again [OF released_inv run this, of 22 ?u 11 "funded_wallet 104"] run
  show ?thesis by (auto simp: working_job_def released_job_def released_db_def waiting_db_def usage_by_id_def wallet_by_id_def
      sample_usage_def funded_wallet_def usage_held_def num_def)
qed

text \<open>A submission to a provider that is out of reach.\<close>

definition shop_jobs_db :: ai_db where
  "shop_jobs_db = funded_db\<lparr>ai_models := [\<lparr>mr_tenant_id = 1, mr_model_enabled = True, mr_provider_enabled = True,
     mr_model = sample_image_model\<rparr>]\<rparr>"

definition keyed_submission :: "ai_db \<Rightarrow> (app_error + job_view) \<times> ai_db" where
  "keyed_submission = create_server_generation_job sample_ai_env working_services working_caller (Some (Some ''key''))
     (JObject [(''model'', JString ''m''), (''prompt'', JString ''cat'')]) ''image''"

theorem failed_submission_blocks_its_key_witness:
  "ai_jobs (snd (keyed_submission shop_jobs_db)) = []
     \<and> (\<exists>e. fst (keyed_submission (snd (keyed_submission (snd (keyed_submission shop_jobs_db))))) = Inl e)"
proof -
  have k: "idempotency_key (Some (Some ''key'')) = Inr (Some ''key'')" by code_simp
  obtain x db where x: "keyed_submission shop_jobs_db = (x, db)" by fastforce
  have "case keyed_submission shop_jobs_db of (x, db) \<Rightarrow>
      \<not> succeeds_with x (\<lambda>_. True) \<and> length (ai_usages db) = 1 \<and> ai_jobs db = []" by code_simp
  then obtain e where run: "keyed_submission shop_jobs_db = (Inl e, db)"
    and db: "length (ai_usages db) = 1" "ai_jobs db = []"
    unfolding x by (cases x) (simp_all add: succeeds_with_def)
  have "ai_usages shop_jobs_db = []" by (simp add: shop_jobs_db_def funded_db_def empty_ai_db_def)
  then have "ai_usages db \<noteq> ai_usages shop_jobs_db" using db(1) by auto
  note blocked = failed_submission_blocks_its_key [OF k run [unfolded keyed_submission_def] this]
  obtain y db2 where y: "keyed_submission db = (y, db2)" by fastforce
  have "any_work\<^sup>*\<^sup>* (db, []) (db2, [])"
    by (rule r_into_rtranclp) (rule any_work.submits [OF y [unfolded keyed_submission_def]])
  from blocked [OF this] run y db(2) show ?thesis unfolding keyed_submission_def by simp
qed

end
