(* ===== verification/AdminCodes.thy ===== *)
theory AdminCodes
  imports Crypto RateLimit Text "HOL-Library.Word" "HOL-Library.Signed_Division"
begin

text \<open>
  The codes of a second factor (\<open>modules/auth/mfa.rs\<close>): the base32 text of a secret, the
  time-based codes of an authenticator, recovery codes, and the address an authenticator reads.
  A secret and a digest are strings of bytes, \<open>hmac_sha1\<close> is the \<open>ring\<close> crate's. The
  facts are that a secret survives its text, that an authenticator's code of the current step or
  one beside it is accepted, and that a recovery code is read back as it was shown.
\<close>

unbundle bit_operations_syntax


section \<open>Base32\<close>

definition base32_alphabet :: string where
  "base32_alphabet = ''ABCDEFGHIJKLMNOPQRSTUVWXYZ234567''"

definition octet :: "char \<Rightarrow> 8 word" where
  "octet c = word_of_nat (byte c)"

definition char_of_octet :: "8 word \<Rightarrow> char" where
  "char_of_octet w = char_of (unat w)"

definition base32_symbol :: "16 word \<Rightarrow> char" where
  "base32_symbol w = base32_alphabet ! unat (w AND 31)"

text \<open>The inner loop of \<open>base32_encode\<close>, and the outer one from a buffer with \<open>bits\<close> bits left.\<close>

fun base32_emit :: "16 word \<Rightarrow> nat \<Rightarrow> string \<times> nat" where
  "base32_emit buffer bits =
     (if bits \<ge> 5
      then (case base32_emit buffer (bits - 5) of (out, b) \<Rightarrow>
              (base32_symbol (drop_bit (bits - 5) buffer) # out, b))
      else ([], bits))"

fun base32_encode_from :: "16 word \<Rightarrow> nat \<Rightarrow> string \<Rightarrow> string" where
  "base32_encode_from buffer bits [] =
     (if bits > 0 then [base32_symbol (push_bit (5 - bits) buffer)] else [])"
| "base32_encode_from buffer bits (c # cs) =
     (let buffer = push_bit 8 buffer OR ucast (octet c)
      in case base32_emit buffer (bits + 8) of (out, b) \<Rightarrow> out @ base32_encode_from buffer b cs)"

definition base32_encode :: "string \<Rightarrow> string" where
  "base32_encode bytes = base32_encode_from 0 0 bytes"

definition base32_value :: "char \<Rightarrow> nat option" where
  "base32_value c =
     (let n = byte c; u = (if 97 \<le> n \<and> n \<le> 122 then n - 32 else n)
      in if 65 \<le> u \<and> u \<le> 90 then Some (u - 65)
         else if 50 \<le> n \<and> n \<le> 55 then Some (n - 50 + 26)
         else None)"

fun base32_decode_from :: "32 word \<Rightarrow> nat \<Rightarrow> string \<Rightarrow> app_error + string" where
  "base32_decode_from buffer bits [] = Inr []"
| "base32_decode_from buffer bits (c # cs) =
     (case base32_value c of
        None \<Rightarrow> Inl (ValidationFailed ''mfa secret is invalid'')
      | Some v \<Rightarrow>
          (let buffer = push_bit 5 buffer OR word_of_nat v; bits = bits + 5
           in if bits \<ge> 8
              then rs_bind (base32_decode_from (buffer AND (push_bit (bits - 8) 1 - 1)) (bits - 8) cs)
                     (\<lambda>out. Inr (char_of_octet (ucast (drop_bit (bits - 8) buffer)) # out))
              else base32_decode_from buffer bits cs))"

definition base32_decode :: "string \<Rightarrow> app_error + string" where
  "base32_decode value = base32_decode_from 0 0 (filter (\<lambda>c. c \<noteq> CHR ''='') value)"

lemma symbol_table: "map base32_value base32_alphabet = map Some [0..<32]"
  unfolding base32_alphabet_def by (simp add: base32_value_def byte_def Let_def upt_rec)

lemma alphabet_not_pad: "CHR ''='' \<notin> set base32_alphabet"
  unfolding base32_alphabet_def by simp

lemma alphabet_length: "length base32_alphabet = 32"
  unfolding base32_alphabet_def by simp

lemma symbol_bits: "w AND 31 = take_bit 5 w" for w :: "16 word"
  using take_bit_eq_mask [of 5 w] by (simp add: mask_eq_exp_minus_1)

lemma symbol_index: "unat (w AND 31) < 32" for w :: "16 word"
  unfolding symbol_bits by (simp add: unsigned_take_bit_eq take_bit_nat_less_exp [of 5, simplified])

lemma symbol_value [simp]: "base32_value (base32_symbol w) = Some (unat (w AND 31))"
  using arg_cong [OF symbol_table, of "\<lambda>xs. xs ! unat (w AND 31)"] symbol_index [of w]
  by (simp add: base32_symbol_def alphabet_length)

lemma symbol_not_pad [simp]: "base32_symbol w \<noteq> CHR ''=''"
  using alphabet_not_pad symbol_index [of w] alphabet_length
  unfolding base32_symbol_def by (metis nth_mem)

lemma octet_inverse [simp]: "char_of_octet (octet c) = c"
proof -
  have "byte c < 256" using nat_of_char_less_256 by (simp add: byte_def)
  then have "unat (octet c) = byte c" by (simp add: octet_def unsigned_of_nat take_bit_nat_eq_self)
  then show ?thesis by (simp add: char_of_octet_def byte_def)
qed

text \<open>
  Between two bytes the encoder owes the \<open>b\<close> low bits of the last byte and the decoder holds
  its \<open>8 - b\<close> high bits; the four values of \<open>b\<close> and no rest follow each other in a cycle.
\<close>

definition owes :: "nat \<Rightarrow> 16 word \<Rightarrow> 8 word \<Rightarrow> bool" where
  "owes b buf a \<longleftrightarrow> (\<forall>n < b. bit buf n = bit a n)"

definition holds :: "nat \<Rightarrow> 8 word \<Rightarrow> 32 word" where
  "holds b a = drop_bit b (ucast a)"

definition next_buffer :: "16 word \<Rightarrow> 8 word \<Rightarrow> 16 word" where
  "next_buffer buf c = push_bit 8 buf OR ucast c"

lemma owes_next: "b \<le> 8 \<Longrightarrow> owes b (next_buffer buf c) c"
  by (auto simp: owes_def next_buffer_def bit_simps)

definition pushed :: "32 word \<Rightarrow> 16 word \<Rightarrow> 32 word" where
  "pushed buffer w = push_bit 5 buffer OR word_of_nat (unat (w AND 31))"

lemma bit_pushed:
  "bit (pushed buffer w) n \<longleftrightarrow> n < 32 \<and> (if n < 5 then bit w n else bit buffer (n - 5))"
  unfolding pushed_def symbol_bits
  by (auto simp: bit_simps)

lemma bit_next: "bit (next_buffer buf c) n \<longleftrightarrow> n < 16 \<and> (if n < 8 then bit c n else bit buf (n - 8))"
  by (auto simp: next_buffer_def bit_simps dest: bit_imp_le_length)

lemma bit_holds: "bit (holds b a) n \<longleftrightarrow> bit a (n + b)"
  by (auto simp: holds_def bit_simps ac_simps dest: bit_imp_le_length)

lemma decode_symbol:
  "base32_decode_from buffer bits (base32_symbol w # cs) =
     (if bits \<ge> 3
      then rs_bind (base32_decode_from (take_bit (bits - 3) (pushed buffer w)) (bits - 3) cs)
             (\<lambda>out. Inr (char_of_octet (ucast (drop_bit (bits - 3) (pushed buffer w))) # out))
      else base32_decode_from (pushed buffer w) (bits + 5) cs)"
  by (simp add: pushed_def Let_def take_bit_eq_mask mask_eq_exp_minus_1 flip: push_bit_of_1)

text \<open>The symbol that completes a byte, and one that does not.\<close>

lemma completes_byte:
  assumes "owes b buf a" and "1 \<le> b" and "b \<le> 4"
  shows "ucast (drop_bit (5 - b) (pushed (holds b a) (drop_bit (b + 3) (next_buffer buf c)))) = a"
    and "take_bit (5 - b) (pushed (holds b a) (drop_bit (b + 3) (next_buffer buf c))) = holds (b + 3) c"
    and "ucast (drop_bit (5 - b) (pushed (holds b a) (push_bit (5 - b) buf))) = a"
proof -
  have a: "bit buf n = bit a n" if "n < b" for n using assms(1) that by (simp add: owes_def)
  have shift: "(n + (5 - b) < 5) = (n < b)" "n + (5 - b) + (b + 3) = n + 8"
    "\<not> n < b \<Longrightarrow> n + (5 - b) - 5 + b = n" for n
    using assms(2,3) by auto
  show "ucast (drop_bit (5 - b) (pushed (holds b a) (drop_bit (b + 3) (next_buffer buf c)))) = a"
    by (rule bit_word_eqI)
      (use assms(3) a shift in \<open>auto simp: bit_simps bit_pushed bit_holds bit_next ac_simps\<close>)
  show "take_bit (5 - b) (pushed (holds b a) (drop_bit (b + 3) (next_buffer buf c))) = holds (b + 3) c"
    using assms(2,3) by (intro bit_word_eqI)
      (auto simp: bit_simps bit_pushed bit_holds bit_next ac_simps dest: bit_imp_le_length split: if_splits)
  show "ucast (drop_bit (5 - b) (pushed (holds b a) (push_bit (5 - b) buf))) = a"
  proof (rule bit_word_eqI)
    fix n assume "n < LENGTH(8)"
    then have n: "n < 8" by simp
    have "bit (pushed (holds b a) (push_bit (5 - b) buf)) (n + (5 - b)) = bit a n"
      using n a assms(2,3) unfolding bit_pushed bit_holds by (cases "n < b") (auto simp: bit_push_bit_iff)
    with n show "bit (ucast (drop_bit (5 - b) (pushed (holds b a) (push_bit (5 - b) buf))) :: 8 word) n = bit a n"
      by (simp add: bit_ucast_iff bit_drop_bit_eq ac_simps)
  qed
qed

lemma starts_byte:
  "d \<le> 3 \<Longrightarrow> pushed (holds (d + 5) c) (drop_bit d (next_buffer buf c)) = holds d c"
  by (auto intro!: bit_word_eqI simp: bit_simps bit_pushed bit_holds bit_next ac_simps
      dest: bit_imp_le_length split: if_splits)

declare base32_emit.simps [simp del] base32_decode_from.simps(2) [simp del]

lemma emit:
  "base32_emit B 8 = ([base32_symbol (drop_bit 3 B)], 3)"
  "base32_emit B 9 = ([base32_symbol (drop_bit 4 B)], 4)"
  "base32_emit B 10 = ([base32_symbol (drop_bit 5 B), base32_symbol (drop_bit 0 B)], 0)"
  "base32_emit B 11 = ([base32_symbol (drop_bit 6 B), base32_symbol (drop_bit 1 B)], 1)"
  "base32_emit B 12 = ([base32_symbol (drop_bit 7 B), base32_symbol (drop_bit 2 B)], 2)"
  by (simp_all add: base32_emit.simps)

lemma holds_none: "holds 8 c = 0"
  by (rule bit_word_eqI) (auto simp: bit_holds dest: bit_imp_le_length)

lemma holds_all: "ucast (holds 0 c) = c"
  by (rule bit_word_eqI) (simp add: bit_ucast_iff bit_holds)

lemma base32_rest:
  "base32_decode_from 0 0 (base32_encode_from buf 0 cs) = Inr cs"
  "1 \<le> b \<Longrightarrow> b \<le> 4 \<Longrightarrow> owes b buf a \<Longrightarrow>
     base32_decode_from (holds b a) (8 - b) (base32_encode_from buf b cs) = Inr (char_of_octet a # cs)"
proof (induction cs arbitrary: buf b a)
  case Nil
  { case 1 show ?case by simp }
  { case 2 then show ?case using completes_byte(3) [of b buf a] by (simp add: decode_symbol rs_bind_def) }
next
  case (Cons c cs)
  have enc: "base32_encode_from buf b (c # cs)
      = (case base32_emit (next_buffer buf (octet c)) (b + 8) of
           (out, b) \<Rightarrow> out @ base32_encode_from (next_buffer buf (octet c)) b cs)" for buf b
    by (simp add: next_buffer_def Let_def)
  have owe: "b \<le> 4 \<Longrightarrow> owes b (next_buffer buf (octet c)) (octet c)" for buf b
    by (rule owes_next) simp
  note start = starts_byte [of _ "octet c"]
  {
    case 1
    show ?case using start [of 3 buf] Cons.IH(2) [OF _ _ owe, of 3]
      by (simp add: enc emit decode_symbol holds_none del: base32_encode_from.simps)
  next
    case 2
    then consider "b = 1" | "b = 2" | "b = 3" | "b = 4" by linarith
    then show ?case
    proof cases
      case 1
      with 2 completes_byte(1,2) [of 1 buf a "octet c"] Cons.IH(2) [OF _ _ owe, of 4]
      show ?thesis by (simp add: enc emit decode_symbol rs_bind_def del: base32_encode_from.simps)
    next
      case b: 2
      with 2 completes_byte(1,2) [of 2 buf a "octet c"] start [of 0 buf] Cons.IH(1) holds_all [of "octet c"]
      show ?thesis by (simp add: enc emit decode_symbol rs_bind_def del: base32_encode_from.simps)
    next
      case 3
      with 2 completes_byte(1,2) [of 3 buf a "octet c"] start [of 1 buf] Cons.IH(2) [OF _ _ owe, of 1]
      show ?thesis by (simp add: enc emit decode_symbol rs_bind_def del: base32_encode_from.simps)
    next
      case 4
      with 2 completes_byte(1,2) [of 4 buf a "octet c"] start [of 2 buf] Cons.IH(2) [OF _ _ owe, of 2]
      show ?thesis by (simp add: enc emit decode_symbol rs_bind_def del: base32_encode_from.simps)
    qed
  }
qed

lemma emit_no_pad: "CHR ''='' \<notin> set (fst (base32_emit B n))"
proof (induction n rule: less_induct)
  case (less n)
  show ?case
  proof (cases "5 \<le> n")
    case True
    then have "fst (base32_emit B n) = base32_symbol (drop_bit (n - 5) B) # fst (base32_emit B (n - 5))"
      by (subst base32_emit.simps) (simp split: prod.splits)
    with less [of "n - 5"] True show ?thesis by (simp add: symbol_not_pad [symmetric])
  next
    case False
    then show ?thesis by (subst base32_emit.simps) simp
  qed
qed

lemma encode_no_pad: "CHR ''='' \<notin> set (base32_encode_from buf b cs)"
proof (induction cs arbitrary: buf b)
  case Nil
  show ?case by (simp add: symbol_not_pad [symmetric])
next
  case (Cons c cs)
  show ?case
  proof (cases "base32_emit (push_bit 8 buf OR ucast (octet c)) (b + 8)")
    case (Pair out b')
    with emit_no_pad [of "push_bit 8 buf OR ucast (octet c)" "b + 8"] Cons
    show ?thesis by (simp add: Let_def)
  qed
qed

lemma base32_roundtrip: "base32_decode (base32_encode bytes) = Inr bytes"
proof -
  have "filter (\<lambda>c. c \<noteq> CHR ''='') (base32_encode bytes) = base32_encode bytes"
    using encode_no_pad [of 0 0 bytes] unfolding base32_encode_def by (intro filter_True ballI notI) simp
  then show ?thesis using base32_rest(1) by (simp add: base32_decode_def base32_encode_def)
qed


section \<open>Time-based codes\<close>

text \<open>
  \<open>step.to_be_bytes()\<close> of a \<open>u64\<close>; \<open>{:0width$}\<close>. A digest of SHA-1 has twenty bytes, so the
  four bytes at the offset exist.
\<close>

definition to_be_bytes :: "int \<Rightarrow> string" where
  "to_be_bytes n = map (\<lambda>k. char_of (nat (n div 256 ^ k mod 256))) (rev [0..<8])"

definition pad_zeros :: "nat \<Rightarrow> string \<Rightarrow> string" where
  "pad_zeros width s = replicate (width - length s) (CHR ''0'') @ s"

definition totp_binary :: "string \<Rightarrow> 32 word" where
  "totp_binary digest =
     (let offset = unat (octet (digest ! (length digest - 1)) AND 0x0f)
      in push_bit 24 (ucast (octet (digest ! offset) AND 0x7f))
         OR push_bit 16 (ucast (octet (digest ! (offset + 1))))
         OR push_bit 8 (ucast (octet (digest ! (offset + 2))))
         OR ucast (octet (digest ! (offset + 3))))"

definition totp_code_at_step :: "(string \<Rightarrow> string \<Rightarrow> string) \<Rightarrow> string \<Rightarrow> int \<Rightarrow> nat \<Rightarrow> string" where
  "totp_code_at_step hmac_sha1 secret step digits =
     pad_zeros digits (show_nat (unat (totp_binary (hmac_sha1 secret (to_be_bytes step))) mod 10 ^ digits))"

definition totp_digits :: nat where "totp_digits = 6"

definition normalize_totp_code :: "string \<Rightarrow> string option" where
  "normalize_totp_code code =
     (let code = trim code
      in if length code = totp_digits \<and> list_all is_digit code then Some code else None)"

definition totp_period_seconds :: int where "totp_period_seconds = 30"

definition totp_window :: "int list" where "totp_window = [- 1, 0, 1]"

definition verify_totp_code ::
    "(string \<Rightarrow> string \<Rightarrow> string) \<Rightarrow> time \<Rightarrow> string \<Rightarrow> string \<Rightarrow> app_error + bool" where
  "verify_totp_code hmac_sha1 now secret code =
     (case normalize_totp_code code of
        None \<Rightarrow> Inr False
      | Some code \<Rightarrow>
          rs_bind (base32_decode secret) (\<lambda>bytes.
          let current = timestamp now sdiv totp_period_seconds
          in Inr (list_ex (\<lambda>offset. 0 \<le> current + offset
               \<and> totp_code_at_step hmac_sha1 bytes (current + offset) totp_digits = code) totp_window)))"

lemma show_nat_length: "n < 10 ^ d \<Longrightarrow> 0 < d \<Longrightarrow> length (show_nat n) \<le> d"
proof (induction n arbitrary: d rule: show_nat.induct)
  case (1 n)
  show ?case
  proof (cases "n < 10")
    case True
    with 1 show ?thesis by (subst show_nat.simps) simp
  next
    case False
    with 1(2) obtain e where d: "d = Suc e" by (cases d) auto
    with 1(2) False have e: "0 < e" by (cases e) auto
    from 1(2) d have "n div 10 < 10 ^ e" by (simp add: less_mult_imp_div_less)
    with 1(1) False e have "length (show_nat (n div 10)) \<le> e" by blast
    with False d show ?thesis by (subst show_nat.simps) simp
  qed
qed

lemma totp_code_shape:
  assumes "0 < digits"
  shows "length (totp_code_at_step h secret step digits) = digits
    \<and> list_all is_digit (totp_code_at_step h secret step digits)"
proof -
  let ?n = "unat (totp_binary (h secret (to_be_bytes step))) mod 10 ^ digits"
  have "length (show_nat ?n) \<le> digits" using assms by (intro show_nat_length) auto
  moreover have "is_digit (CHR ''0'')" by (simp add: is_digit_def byte_def)
  ultimately show ?thesis using show_nat_digits [of ?n]
    by (auto simp: totp_code_at_step_def pad_zeros_def list_all_iff)
qed

lemma digits_graphic: "list_all is_digit s \<Longrightarrow> list_all graphic s"
  by (auto simp: list_all_iff is_digit_def graphic_def)

lemma normalize_shown_code:
  "normalize_totp_code (totp_code_at_step h secret step totp_digits)
     = Some (totp_code_at_step h secret step totp_digits)"
  using totp_code_shape [of totp_digits h secret step] trim_all_graphic digits_graphic
  by (simp add: normalize_totp_code_def totp_digits_def)

text \<open>
  C39. The code an authenticator shows is accepted: with the secret as \<open>setup\<close> hands it out, in
  base32, the code of the current half minute, of the one before and of the one after passes,
  whatever the bytes of the secret and whatever HMAC-SHA1 is.
\<close>

theorem authenticator_code_passes:
  assumes "step \<in> {current - 1, current, current + 1}" and "0 \<le> step"
    and "current = timestamp now sdiv totp_period_seconds"
  shows "verify_totp_code hmac_sha1 now (base32_encode secret)
    (totp_code_at_step hmac_sha1 secret step totp_digits) = Inr True"
  using assms
  by (auto simp: verify_totp_code_def normalize_shown_code base32_roundtrip rs_bind_def totp_window_def Let_def)

theorem authenticator_code_passes_witness:
  "verify_totp_code (\<lambda>k m. k @ m) (seconds 100) (base32_encode ''secret-of-a-member!!'')
     (totp_code_at_step (\<lambda>k m. k @ m) ''secret-of-a-member!!'' 4 totp_digits) = Inr True"
  by (rule authenticator_code_passes [of 4 3]) (simp_all add: timestamp_def totp_period_seconds_def signed_divide_int_def)


section \<open>Recovery codes\<close>

definition is_ascii_whitespace :: "char \<Rightarrow> bool" where
  "is_ascii_whitespace c \<longleftrightarrow> byte c \<in> {32, 9, 10, 12, 13}"

definition recovery_char :: "char \<Rightarrow> bool" where
  "recovery_char c \<longleftrightarrow> (65 \<le> byte c \<and> byte c \<le> 90) \<or> (50 \<le> byte c \<and> byte c \<le> 57)"

definition recovery_groups :: "string \<Rightarrow> string" where
  "recovery_groups s = take 4 s @ ''-'' @ take 4 (drop 4 s) @ ''-'' @ take 4 (drop 8 s) @ ''-''
     @ take 4 (drop 12 s)"

definition normalize_recovery_code :: "string \<Rightarrow> string option" where
  "normalize_recovery_code code =
     (let compact = to_ascii_uppercase (filter (\<lambda>c. \<not> is_ascii_whitespace c \<and> c \<noteq> CHR ''-'') (trim code))
      in if length compact \<noteq> 16 \<or> \<not> list_all recovery_char compact then None
         else Some (recovery_groups compact))"

definition recovery_letter :: "nat \<Rightarrow> char" where
  "recovery_letter draw = recovery_charset ! (draw mod length recovery_charset)"

lemma charset_chars:
  "list_all (\<lambda>c. recovery_char c \<and> \<not> is_ascii_whitespace c \<and> c \<noteq> CHR ''-'' \<and> graphic c
     \<and> to_ascii_uppercase [c] = [c]) recovery_charset"
  unfolding recovery_charset_def
  by (simp add: recovery_char_def is_ascii_whitespace_def graphic_def byte_def to_ascii_uppercase_def)

lemma letter_facts:
  "recovery_char (recovery_letter d)" "\<not> is_ascii_whitespace (recovery_letter d)"
  "recovery_letter d \<noteq> CHR ''-''" "graphic (recovery_letter d)"
  "to_ascii_uppercase [recovery_letter d] = [recovery_letter d]"
proof -
  have "recovery_letter d \<in> set recovery_charset"
    unfolding recovery_letter_def by (rule nth_mem) (simp add: recovery_charset_def)
  with charset_chars show "recovery_char (recovery_letter d)" "\<not> is_ascii_whitespace (recovery_letter d)"
    "recovery_letter d \<noteq> CHR ''-''" "graphic (recovery_letter d)"
    "to_ascii_uppercase [recovery_letter d] = [recovery_letter d]"
    unfolding list_all_iff by blast+
qed

lemma upper_letters: "to_ascii_uppercase (map recovery_letter ds) = map recovery_letter ds"
  using letter_facts(5) unfolding to_ascii_uppercase_def by (induction ds) auto

lemma recovery_chars_letters:
  "recovery_chars i (d # ds) = (if i > 0 \<and> i mod 4 = 0 then [CHR ''-''] else [])
     @ recovery_letter d # recovery_chars (Suc i) ds"
  by (simp add: recovery_letter_def)

lemma next_group:
  assumes "i mod 4 = 0" and "4 \<le> length ds"
  shows "recovery_chars i ds = (if i > 0 then ''-'' else []) @ map recovery_letter (take 4 ds)
    @ recovery_chars (i + 4) (drop 4 ds)"
proof -
  from assms(2) obtain a t where a: "ds = a # t" "3 \<le> length t" by (cases ds) auto
  from a(2) obtain b u where b: "t = b # u" "2 \<le> length u" by (cases t) auto
  from b(2) obtain c v where c: "u = c # v" "1 \<le> length v" by (cases u) auto
  from c(2) obtain d rest where d: "v = d # rest" by (cases v) auto
  have "ds = a # b # c # d # rest" unfolding a(1) b(1) c(1) d ..
  moreover have "Suc i mod 4 \<noteq> 0" "Suc (Suc i) mod 4 \<noteq> 0" "Suc (Suc (Suc i)) mod 4 \<noteq> 0"
    using assms(1) by presburger+
  moreover have "i + 4 = Suc (Suc (Suc (Suc i)))" by simp
  ultimately show ?thesis using assms(1) by (simp only: recovery_chars_letters) simp
qed

lemma generated_groups:
  assumes "length ds = 16"
  shows "recovery_chars 0 ds = recovery_groups (map recovery_letter ds)"
  using assms next_group [of 0 ds] next_group [of 4 "drop 4 ds"] next_group [of 8 "drop 8 ds"]
    next_group [of 12 "drop 12 ds"]
  by (simp add: recovery_groups_def take_map drop_map)

lemma regroup:
  assumes "length s = 16"
  shows "take 4 s @ take 4 (drop 4 s) @ take 4 (drop 8 s) @ take 4 (drop 12 s) = s"
  using assms append_take_drop_id [of 4 s] append_take_drop_id [of 4 "drop 4 s"]
    append_take_drop_id [of 4 "drop 8 s"] by simp

lemma groups_compact:
  assumes "length s = 16" and "list_all P s" and "\<not> P (CHR ''-'')"
  shows "filter P (recovery_groups s) = s"
proof -
  have "filter P t = t" if "set t \<subseteq> set s" for t
    using assms(2) that by (intro filter_True) (auto simp: list_all_iff)
  then have "filter P (take n (drop m s)) = take n (drop m s)" for n m
    by (meson set_drop_subset set_take_subset subset_trans)
  from this [of 4 0] this [of 4 4] this [of 4 8] this [of 4 12] show ?thesis
    using assms(3) regroup [OF assms(1)] by (simp add: recovery_groups_def)
qed

lemma strip_front_filter:
  "(\<And>p. p \<in> set ps \<Longrightarrow> set p \<subseteq> set s \<Longrightarrow> filter Q p = []) \<Longrightarrow>
    filter Q (strip_front_n ps n s) = filter Q s"
proof (induction n arbitrary: s)
  case (Suc n)
  show ?case
  proof (cases "List.find (\<lambda>p. starts_with p s) ps")
    case (Some p)
    then have p: "p \<in> set ps" "take (length p) s = p" by (auto simp: starts_with_def dest: find_some)
    have split: "s = p @ drop (length p) s" using p(2) append_take_drop_id [of "length p" s] by simp
    then have sub: "set p \<subseteq> set s" "set (drop (length p) s) \<subseteq> set s" by (metis Un_upper1 set_append) (rule set_drop_subset)
    have "filter Q (strip_front_n ps n (drop (length p) s)) = filter Q (drop (length p) s)"
      using Suc.prems sub(2) by (intro Suc.IH) (meson subset_trans)
    also have "\<dots> = filter Q s" using Suc.prems [OF p(1) sub(1)] split by (metis append_Nil filter_append)
    finally show ?thesis using Some by simp
  qed simp
qed simp

definition code_symbol :: "char \<Rightarrow> bool" where
  "code_symbol c \<longleftrightarrow> \<not> is_ascii_whitespace c \<and> c \<noteq> CHR ''-''"

lemma compact_trimmed:
  assumes "list_all (\<lambda>c. byte c < 128 \<and> byte c \<noteq> 11) s"
  shows "filter code_symbol (trim s) = filter code_symbol s"
proof -
  have blank: "filter code_symbol p = []" if "p \<in> set white_space" "list_all (\<lambda>c. byte c < 128 \<and> byte c \<noteq> 11) p" for p
    using that by (auto simp: white_space_def byte_def code_symbol_def is_ascii_whitespace_def)
  have sub: "list_all (\<lambda>c. byte c < 128 \<and> byte c \<noteq> 11) p" if "set p \<subseteq> set t"
    "list_all (\<lambda>c. byte c < 128 \<and> byte c \<noteq> 11) t" for p t
    using that by (auto simp: list_all_iff)
  have start: "filter code_symbol (trim_start s) = filter code_symbol s"
    unfolding trim_start_def using blank sub [OF _ assms] by (intro strip_front_filter) blast
  obtain d where "s = d @ trim_start s" unfolding trim_start_def using strip_front_n_suffix by blast
  then have trimmed: "list_all (\<lambda>c. byte c < 128 \<and> byte c \<noteq> 11) (trim_start s)"
    using assms by (metis list_all_append)
  have "filter code_symbol (strip_front_n (map rev white_space) (length (trim_start s)) (rev (trim_start s)))
      = filter code_symbol (rev (trim_start s))"
  proof (rule strip_front_filter)
    fix p
    assume "p \<in> set (map rev white_space)" and "set p \<subseteq> set (rev (trim_start s))"
    then have "rev p \<in> set white_space" "set (rev p) \<subseteq> set (trim_start s)" by auto
    from blank [OF this(1) sub [OF this(2) trimmed]] show "filter code_symbol p = []"
      by (simp add: rev_filter [symmetric])
  qed
  then have "filter code_symbol (trim_end (trim_start s)) = filter code_symbol (trim_start s)"
    by (simp add: trim_end_def rev_filter [symmetric])
  with start show ?thesis by (simp add: trim_def)
qed

lemma typed_symbol:
  assumes "to_ascii_uppercase [c] = [d]" and "recovery_char d"
  shows "byte c < 128 \<and> byte c \<noteq> 11"
  using assms by (auto simp: to_ascii_uppercase_def recovery_char_def split: if_splits)

lemma uppercase_member:
  assumes "c \<in> set t" and "to_ascii_uppercase [c] = [d]"
  shows "d \<in> set (to_ascii_uppercase t)"
proof -
  obtain f where f: "to_ascii_uppercase = map f" unfolding to_ascii_uppercase_def [abs_def] by blast
  from assms show ?thesis unfolding f by auto
qed

text \<open>
  C40. A recovery code is read back as it was generated, however it is typed: a text in upper or
  lower case, with blanks and hyphens anywhere or nowhere, that has the letters and digits of the
  code that was shown normalizes to that code, whose hash was stored.
\<close>

theorem recovery_code_reads_back:
  assumes "16 \<le> length draws"
    and "to_ascii_uppercase (filter (\<lambda>c. \<not> is_ascii_whitespace c \<and> c \<noteq> CHR ''-'') typed)
      = filter (\<lambda>c. c \<noteq> CHR ''-'') (generate_recovery_code draws)"
  shows "normalize_recovery_code typed = Some (generate_recovery_code draws)"
proof -
  define s where "s = map recovery_letter (take 16 draws)"
  have len: "length s = 16" using assms(1) by (simp add: s_def)
  have shown: "generate_recovery_code draws = recovery_groups s"
    unfolding generate_recovery_code_def s_def using assms(1) by (intro generated_groups) simp
  have "filter (\<lambda>c. c \<noteq> CHR ''-'') (recovery_groups s) = s"
    using len by (rule groups_compact) (auto simp: s_def list_all_iff letter_facts)
  with assms(2) have typed: "to_ascii_uppercase (filter code_symbol typed) = s"
    by (simp add: shown code_symbol_def [abs_def])
  have chars: "list_all recovery_char s" by (simp add: s_def list_all_iff letter_facts)
  have "byte c < 128 \<and> byte c \<noteq> 11" if "c \<in> set typed" for c
  proof (cases "code_symbol c")
    case True
    obtain d where d: "to_ascii_uppercase [c] = [d]" by (simp add: to_ascii_uppercase_def)
    have "d \<in> set (to_ascii_uppercase (filter code_symbol typed))"
      by (rule uppercase_member [OF _ d]) (use that True in simp)
    with typed chars typed_symbol [OF d] show ?thesis by (simp add: list_all_iff)
  next
    case False
    then show ?thesis by (auto simp: code_symbol_def is_ascii_whitespace_def byte_def)
  qed
  then have "filter code_symbol (trim typed) = filter code_symbol typed"
    by (intro compact_trimmed) (simp add: list_all_iff)
  with typed len chars show ?thesis
    by (simp add: normalize_recovery_code_def shown code_symbol_def [abs_def])
qed

theorem recovery_code_reads_back_witness:
  "normalize_recovery_code '' ffff-ffFFF FFF-ffff '' = Some (generate_recovery_code (replicate 16 37))"
proof -
  have "to_ascii_uppercase (filter (\<lambda>c. \<not> is_ascii_whitespace c \<and> c \<noteq> CHR ''-'') '' ffff-ffFFF FFF-ffff '')
      = filter (\<lambda>c. c \<noteq> CHR ''-'') (generate_recovery_code (replicate 16 37))" by code_simp
  then show ?thesis by (intro recovery_code_reads_back) simp_all
qed


section \<open>The address an authenticator reads\<close>

definition upper_hex :: "nat \<Rightarrow> char" where
  "upper_hex n = ''0123456789ABCDEF'' ! n"

definition unreserved_byte :: "char \<Rightarrow> bool" where
  "unreserved_byte c \<longleftrightarrow> (65 \<le> byte c \<and> byte c \<le> 90) \<or> (97 \<le> byte c \<and> byte c \<le> 122)
     \<or> is_digit c \<or> c \<in> {CHR ''-'', CHR ''_'', CHR ''.'', CHR ''~''}"

definition percent_encode :: "string \<Rightarrow> string" where
  "percent_encode s = concat (map (\<lambda>c. if unreserved_byte c then [c]
     else [CHR ''%'', upper_hex (byte c div 16), upper_hex (byte c mod 16)]) s)"

definition build_otpauth_url :: "string \<Rightarrow> string \<Rightarrow> string \<Rightarrow> string" where
  "build_otpauth_url issuer email secret =
     (let issuer = trim issuer
      in ''otpauth://totp/'' @ percent_encode (issuer @ '':'' @ email) @ ''?secret='' @ secret
         @ ''&issuer='' @ percent_encode issuer @ ''&algorithm=SHA1&digits='' @ show_nat totp_digits
         @ ''&period='' @ show_i64 totp_period_seconds)"

end
