(* ===== verification/AdminModel.thy ===== *)
theory AdminModel
  imports ClientAuth AdminCodes Providers
begin

text \<open>
  The tables of administrators and the statements on them: \<open>team_members\<close>
  (\<open>modules/team/model.rs\<close>, \<open>repository.rs\<close>), \<open>admin_sessions\<close> and
  \<open>admin_refresh_tokens\<close> (\<open>modules/auth/admin_session.rs\<close>),
  \<open>admin_mfa_recovery_codes\<close>, \<open>one_time_tokens\<close>, the roles with their permissions
  (\<open>modules/iam/role.rs\<close>, \<open>permission.rs\<close>) and the outbox (\<open>modules/outbox/mod.rs\<close>).

  \<open>admin_world\<close> is what one request gets from outside: the clocks, the fresh ids and random
  texts it draws, the configuration, the crypto crates and the text forms serde prints.
\<close>

record tenant_row =
  tn_id :: uuid
  tn_name :: string
  tn_slug :: string
  tn_status :: string
  tn_deleted_at :: "time option"

record team_member =
  tm_id :: uuid
  tm_tenant_id :: uuid
  tm_email :: string
  tm_password_hash :: string
  tm_name :: string
  tm_phone :: "string option"
  tm_avatar :: "string option"
  tm_status :: string
  tm_email_verified :: bool
  tm_mfa_enabled :: bool
  tm_mfa_secret_encrypted :: "string option"
  tm_last_login_at :: "time option"
  tm_last_login_ip :: "string option"
  tm_created_at :: time
  tm_updated_at :: time
  tm_deleted_at :: "time option"

record admin_session =
  asn_id :: uuid
  asn_tenant_id :: uuid
  asn_team_member_id :: uuid
  asn_user_agent :: "string option"
  asn_ip :: "string option"
  asn_created_at :: time
  asn_last_seen_at :: "time option"
  asn_expires_at :: time
  asn_revoked_at :: "time option"

record admin_refresh_token =
  art_id :: uuid
  art_session_id :: uuid
  art_token_hash :: string
  art_created_at :: time
  art_expires_at :: time
  art_used_at :: "time option"
  art_revoked_at :: "time option"

record mfa_recovery_code =
  rc_id :: uuid
  rc_tenant_id :: uuid
  rc_team_member_id :: uuid
  rc_code_hash :: string
  rc_used_at :: "time option"
  rc_revoked_at :: "time option"
  rc_created_at :: time

record one_time_token =
  ott_id :: uuid
  ott_tenant_id :: "uuid option"
  ott_purpose :: string
  ott_subject_type :: string
  ott_subject_id :: "uuid option"
  ott_email :: "string option"
  ott_token_hash :: string
  ott_created_by :: "uuid option"
  ott_expires_at :: time
  ott_consumed_at :: "time option"
  ott_revoked_at :: "time option"
  ott_metadata :: json
  ott_created_at :: time

record role_row =
  rl_id :: uuid
  rl_tenant_id :: uuid
  rl_code :: string
  rl_name :: string
  rl_description :: "string option"
  rl_builtin :: bool
  rl_created_at :: time
  rl_updated_at :: time
  rl_deleted_at :: "time option"

record permission_row =
  pm_id :: uuid
  pm_code :: string
  pm_name :: string
  pm_resource :: string
  pm_action :: string

record outbox_event =
  oe_id :: uuid
  oe_tenant_id :: "uuid option"
  oe_event_type :: string
  oe_payload :: json
  oe_status :: string
  oe_attempts :: int
  oe_next_run_at :: time
  oe_last_error :: "string option"
  oe_created_at :: time
  oe_processed_at :: "time option"

text \<open>\<open>role_permissions\<close> and \<open>team_member_roles\<close> are their pairs of keys.\<close>

record admin_db =
  ad_tenants :: "tenant_row list"
  ad_members :: "team_member list"
  ad_sessions :: "admin_session list"
  ad_refresh_tokens :: "admin_refresh_token list"
  ad_recovery_codes :: "mfa_recovery_code list"
  ad_one_time_tokens :: "one_time_token list"
  ad_roles :: "role_row list"
  ad_permissions :: "permission_row list"
  ad_role_permissions :: "(uuid \<times> uuid) list"
  ad_member_roles :: "(uuid \<times> uuid) list"
  ad_outbox :: "outbox_event list"
  ad_audit_logs :: "audit_log list"
  ad_redis :: redis

record admin_config =
  ac_app_name :: string
  ac_base_url :: "string option"
  ac_master_key :: string
  ac_token_hash_pepper :: string
  ac_refresh_token_pepper :: string
  ac_session_secret :: string
  ac_csrf_secret :: string
  ac_cookie_secure :: bool
  ac_admin_session_ttl_seconds :: i64
  ac_login_rate_limit_max :: nat
  ac_login_rate_limit_window_seconds :: nat
  ac_refresh_rate_limit_max :: nat
  ac_refresh_rate_limit_window_seconds :: nat

text \<open>
  \<open>aw_token\<close> is the token a request hands out, \<open>aw_csrf_nonce\<close> and \<open>aw_placeholder\<close> the
  tokens inside a CSRF token and an invited member's password; \<open>aw_secret_bytes\<close> and
  \<open>aw_recovery_draws\<close> the randomness of a second factor, \<open>aw_recovery_ids\<close> the ids of its
  rows. \<open>aw_hash_password\<close> is argon2 with the salt of this request; \<open>aw_envelope_text\<close> and
  \<open>aw_envelope_of_text\<close> are serde's printing and reading of an envelope,
  \<open>aw_time_text\<close> is serde's text of a time and \<open>aw_rfc3339\<close> \<open>to_rfc3339\<close>'s.
\<close>

record admin_world =
  aw_now :: time
  aw_db_now :: time
  aw_session_id :: uuid
  aw_refresh_token_id :: uuid
  aw_member_id :: uuid
  aw_one_time_token_id :: uuid
  aw_role_id :: uuid
  aw_outbox_id :: uuid
  aw_audit_id :: uuid
  aw_recovery_ids :: "uuid list"
  aw_token :: string
  aw_csrf_nonce :: string
  aw_placeholder :: string
  aw_secret_bytes :: string
  aw_recovery_draws :: "nat list list"
  aw_nonce :: "string option"
  aw_cfg :: admin_config
  aw_crypto :: crypto_lib
  aw_hmac_sha1 :: "string \<Rightarrow> string \<Rightarrow> string"
  aw_hash_password :: "string \<Rightarrow> string + string"
  aw_parse_hash :: "string \<Rightarrow> string + (string \<Rightarrow> bool)"
  aw_envelope_text :: "private_key_envelope \<Rightarrow> string + string"
  aw_envelope_of_text :: "string \<Rightarrow> string + private_key_envelope"
  aw_envelope_to_value :: "private_key_envelope \<Rightarrow> string + json"
  aw_fault :: redis_fault
  aw_ip_header :: "string option"
  aw_user_agent :: "string option"
  aw_cookie :: "string option"
  aw_csrf_header :: "string option"
  aw_request_id :: string
  aw_db_error :: string
  aw_uuid_text :: "uuid \<Rightarrow> string"
  aw_parse_uuid :: "string \<Rightarrow> uuid option"
  aw_time_text :: "time \<Rightarrow> string"
  aw_rfc3339 :: "time \<Rightarrow> string"
  aw_inet :: "string \<Rightarrow> string option"
  aw_lower :: "string \<Rightarrow> string"
  aw_db_lower :: "string \<Rightarrow> string"

type_synonym 'a admin_tx = "(admin_db, app_error, 'a) tx"
type_synonym 'a admin_io = "(admin_db, app_error, 'a) io"

definition admin_db_error :: "admin_world \<Rightarrow> string \<Rightarrow> app_error" where
  "admin_db_error w name = Dependency (name @ '' database error: '' @ aw_db_error w)"

definition on_admin_redis :: "(redis, app_error, 'a) io \<Rightarrow> 'a admin_io" where
  "on_admin_redis m = (\<lambda>db. case m (ad_redis db) of (x, r) \<Rightarrow> (x, db\<lparr>ad_redis := r\<rparr>))"

definition admin_hash_token :: "admin_world \<Rightarrow> string \<Rightarrow> app_error + string" where
  "admin_hash_token w token = hash_token (aw_crypto w) (ac_token_hash_pepper (aw_cfg w)) token"

definition hash_password :: "admin_world \<Rightarrow> string \<Rightarrow> app_error + string" where
  "hash_password w password =
     (case aw_hash_password w password of
        Inl err \<Rightarrow> Inl (Crypto (''password hash failed: '' @ err))
      | Inr h \<Rightarrow> Inr h)"

definition record_admin_audit :: "admin_world \<Rightarrow> audit_log_input \<Rightarrow> unit admin_tx" where
  "record_admin_audit w i =
     tx_bind (tx_of (audit_log_row (aw_inet w) (aw_db_error w) (aw_audit_id w) (aw_db_now w) i))
       (\<lambda>row. tx_modify (\<lambda>db. db\<lparr>ad_audit_logs := ad_audit_logs db @ [row]\<rparr>))"

definition aw_uuid_json :: "admin_world \<Rightarrow> uuid \<Rightarrow> json" where
  "aw_uuid_json w u = JString (aw_uuid_text w u)"

definition count_json :: "int \<Rightarrow> json" where
  "count_json n = JNumber (JInt n)"


section \<open>Sessions and refresh tokens\<close>

abbreviation session_repository_error :: "admin_world \<Rightarrow> app_error" where
  "session_repository_error w \<equiv> admin_db_error w ''admin session repository''"

definition find_admin_session :: "uuid \<Rightarrow> admin_db \<Rightarrow> admin_session option" where
  "find_admin_session i db = List.find (\<lambda>s. asn_id s = i) (ad_sessions db)"

definition find_admin_refresh_token :: "string \<Rightarrow> admin_db \<Rightarrow> admin_refresh_token option" where
  "find_admin_refresh_token h db = List.find (\<lambda>t. art_token_hash t = h) (ad_refresh_tokens db)"

definition live_admin_token :: "admin_refresh_token \<Rightarrow> bool" where
  "live_admin_token t \<longleftrightarrow> art_used_at t = None \<and> art_revoked_at t = None"

definition revoke_sessions_where ::
    "admin_world \<Rightarrow> (admin_session \<Rightarrow> bool) \<Rightarrow> admin_db \<Rightarrow> int \<times> admin_db" where
  "revoke_sessions_where w P db =
     (let Q = (\<lambda>s. P s \<and> asn_revoked_at s = None)
      in (count_where Q (ad_sessions db),
          db\<lparr>ad_sessions := update_where Q (\<lambda>s. s\<lparr>asn_revoked_at := Some (aw_db_now w)\<rparr>) (ad_sessions db)\<rparr>))"

definition revoke_tokens_where ::
    "admin_world \<Rightarrow> (uuid \<Rightarrow> bool) \<Rightarrow> admin_db \<Rightarrow> int \<times> admin_db" where
  "revoke_tokens_where w P db =
     (let Q = (\<lambda>t. P (art_session_id t) \<and> live_admin_token t)
      in (count_where Q (ad_refresh_tokens db),
          db\<lparr>ad_refresh_tokens :=
               update_where Q (\<lambda>t. t\<lparr>art_revoked_at := Some (aw_db_now w)\<rparr>) (ad_refresh_tokens db)\<rparr>))"

text \<open>A statement that returns the number of its rows, in a transaction and on its own.\<close>

definition tx_count :: "(admin_db \<Rightarrow> int \<times> admin_db) \<Rightarrow> int admin_tx" where
  "tx_count f = (\<lambda>db. Inr (f db))"

definition io_count :: "(admin_db \<Rightarrow> int \<times> admin_db) \<Rightarrow> int admin_io" where
  "io_count f = (\<lambda>db. case f db of (n, db') \<Rightarrow> (Inr n, db'))"

definition revoke_admin_session :: "admin_world \<Rightarrow> uuid \<Rightarrow> bool admin_io" where
  "revoke_admin_session w i =
     io_bind (io_count (revoke_sessions_where w (\<lambda>s. asn_id s = i))) (\<lambda>n. io_return (n > 0))"

definition revoke_refresh_tokens_for_session :: "admin_world \<Rightarrow> uuid \<Rightarrow> int admin_io" where
  "revoke_refresh_tokens_for_session w i = io_count (revoke_tokens_where w (\<lambda>s. s = i))"

definition revoke_admin_session_in_transaction :: "admin_world \<Rightarrow> uuid \<Rightarrow> bool admin_tx" where
  "revoke_admin_session_in_transaction w i =
     tx_bind (tx_count (revoke_sessions_where w (\<lambda>s. asn_id s = i))) (\<lambda>n. tx_return (n > 0))"

definition revoke_admin_refresh_tokens_for_session_in_transaction :: "admin_world \<Rightarrow> uuid \<Rightarrow> int admin_tx" where
  "revoke_admin_refresh_tokens_for_session_in_transaction w i =
     tx_count (revoke_tokens_where w (\<lambda>s. s = i))"

text \<open>
  The two statements of \<open>auth/password.rs\<close> on all sessions of a member but \<open>except\<close>; those of
  \<open>team/admin.rs\<close> are the same without an exception.
\<close>

definition sessions_of_member :: "uuid \<Rightarrow> uuid \<Rightarrow> uuid option \<Rightarrow> admin_session \<Rightarrow> bool" where
  "sessions_of_member tenant m except s \<longleftrightarrow>
     asn_tenant_id s = tenant \<and> asn_team_member_id s = m
     \<and> (case except of None \<Rightarrow> True | Some i \<Rightarrow> asn_id s \<noteq> i)"

definition revoke_admin_sessions_in_transaction ::
    "admin_world \<Rightarrow> uuid \<Rightarrow> uuid \<Rightarrow> uuid option \<Rightarrow> int admin_tx" where
  "revoke_admin_sessions_in_transaction w tenant m except =
     tx_count (revoke_sessions_where w (sessions_of_member tenant m except))"

definition revoke_admin_refresh_tokens_in_transaction ::
    "admin_world \<Rightarrow> uuid \<Rightarrow> uuid \<Rightarrow> uuid option \<Rightarrow> int admin_tx" where
  "revoke_admin_refresh_tokens_in_transaction w tenant m except =
     tx_count (\<lambda>db. revoke_tokens_where w
       (\<lambda>i. list_ex (\<lambda>s. asn_id s = i \<and> sessions_of_member tenant m except s) (ad_sessions db)) db)"

definition new_admin_session ::
    "admin_world \<Rightarrow> uuid \<Rightarrow> uuid \<Rightarrow> string option \<Rightarrow> time \<Rightarrow> admin_session" where
  "new_admin_session w tenant m ip expires =
     \<lparr>asn_id = aw_session_id w, asn_tenant_id = tenant, asn_team_member_id = m,
      asn_user_agent = aw_user_agent w, asn_ip = ip, asn_created_at = aw_db_now w,
      asn_last_seen_at = None, asn_expires_at = expires, asn_revoked_at = None\<rparr>"

definition create_admin_session_in_transaction ::
    "admin_world \<Rightarrow> uuid \<Rightarrow> uuid \<Rightarrow> string \<Rightarrow> time \<Rightarrow> admin_session admin_tx" where
  "create_admin_session_in_transaction w tenant m ip expires =
     tx_bind (tx_of (ok_or (aw_inet w ip) (session_repository_error w))) (\<lambda>ip.
     let row = new_admin_session w tenant m (Some ip) expires in
     tx_bind (tx_read (\<lambda>db. insert_row (\<lambda>_. True) (\<lambda>s t. asn_id s = asn_id t)
                (session_repository_error w) row (ad_sessions db))) (\<lambda>t.
     tx_bind (tx_modify (\<lambda>db. db\<lparr>ad_sessions := t\<rparr>)) (\<lambda>_. tx_return row)))"

definition admin_token_clash :: "admin_refresh_token \<Rightarrow> admin_refresh_token \<Rightarrow> bool" where
  "admin_token_clash s t \<longleftrightarrow> art_id s = art_id t \<or> art_token_hash s = art_token_hash t"

definition create_admin_refresh_token_in_transaction ::
    "admin_world \<Rightarrow> uuid \<Rightarrow> string \<Rightarrow> time \<Rightarrow> admin_refresh_token admin_tx" where
  "create_admin_refresh_token_in_transaction w session h expires =
     (let row = \<lparr>art_id = aw_refresh_token_id w, art_session_id = session, art_token_hash = h,
            art_created_at = aw_db_now w, art_expires_at = expires, art_used_at = None,
            art_revoked_at = None\<rparr>
      in tx_bind (tx_read (\<lambda>db. insert_row (\<lambda>_. True) admin_token_clash
                    (session_repository_error w) row (ad_refresh_tokens db))) (\<lambda>t.
         tx_bind (tx_modify (\<lambda>db. db\<lparr>ad_refresh_tokens := t\<rparr>)) (\<lambda>_. tx_return row)))"

definition mark_admin_refresh_token_used_in_transaction :: "admin_world \<Rightarrow> uuid \<Rightarrow> unit admin_tx" where
  "mark_admin_refresh_token_used_in_transaction w i =
     tx_bind (tx_count (\<lambda>db. let Q = (\<lambda>t. art_id t = i \<and> live_admin_token t)
       in (count_where Q (ad_refresh_tokens db), db\<lparr>ad_refresh_tokens :=
             update_where Q (\<lambda>t. t\<lparr>art_used_at := Some (aw_db_now w)\<rparr>) (ad_refresh_tokens db)\<rparr>)))
       (\<lambda>n. if n = 0 then tx_fail refresh_reuse_detected else tx_return ())"

definition extend_admin_session_in_transaction :: "admin_world \<Rightarrow> uuid \<Rightarrow> time \<Rightarrow> admin_session admin_tx" where
  "extend_admin_session_in_transaction w i expires =
     tx_bind (tx_read (\<lambda>db. update_returning (\<lambda>_. True) (session_repository_error w)
                (\<lambda>s. asn_id s = i \<and> asn_revoked_at s = None)
                (\<lambda>s. s\<lparr>asn_expires_at := expires, asn_last_seen_at := Some (aw_db_now w)\<rparr>)
                (ad_sessions db))) (\<lambda>(row, t).
     tx_bind (tx_modify (\<lambda>db. db\<lparr>ad_sessions := t\<rparr>)) (\<lambda>_.
     tx_of (ok_or row (session_repository_error w))))"


section \<open>Team members\<close>

abbreviation member_at :: "uuid \<Rightarrow> uuid \<Rightarrow> team_member \<Rightarrow> bool" where
  "member_at tenant i m \<equiv> tm_tenant_id m = tenant \<and> tm_id m = i \<and> tm_deleted_at m = None"

definition member_find_by_id :: "uuid \<Rightarrow> uuid \<Rightarrow> admin_db \<Rightarrow> team_member option" where
  "member_find_by_id tenant i db = List.find (member_at tenant i) (ad_members db)"

definition member_find_by_email :: "admin_world \<Rightarrow> uuid \<Rightarrow> string \<Rightarrow> admin_db \<Rightarrow> team_member option" where
  "member_find_by_email w tenant email db =
     List.find (\<lambda>m. tm_tenant_id m = tenant \<and> aw_db_lower w (tm_email m) = aw_db_lower w email
       \<and> tm_deleted_at m = None) (ad_members db)"

definition find_member_for_update :: "uuid \<Rightarrow> uuid \<Rightarrow> team_member option admin_tx" where
  "find_member_for_update tenant i = tx_read (\<lambda>db. Inr (member_find_by_id tenant i db))"

definition member_check :: "team_member \<Rightarrow> bool" where
  "member_check m \<longleftrightarrow> tm_status m \<in> {''active'', ''disabled'', ''invited''}"

definition member_clash :: "admin_world \<Rightarrow> team_member \<Rightarrow> team_member \<Rightarrow> bool" where
  "member_clash w m n \<longleftrightarrow>
     tm_id m = tm_id n
     \<or> (tm_tenant_id m = tm_tenant_id n \<and> aw_db_lower w (tm_email m) = aw_db_lower w (tm_email n)
        \<and> tm_deleted_at m = None \<and> tm_deleted_at n = None)"

text \<open>
  \<open>update team_members set .., updated_at = now() where .. returning\<close>: the rows that satisfy
  \<open>P\<close> are updated, and the first of them is returned when there is one.
\<close>

definition update_member ::
    "admin_world \<Rightarrow> app_error \<Rightarrow> (team_member \<Rightarrow> bool) \<Rightarrow> (team_member \<Rightarrow> team_member) \<Rightarrow> team_member option admin_tx"
  where
  "update_member w e P f =
     tx_bind (tx_read (\<lambda>db. update_returning member_check e P
                (\<lambda>m. (f m)\<lparr>tm_updated_at := aw_db_now w\<rparr>) (ad_members db))) (\<lambda>(row, t).
     tx_bind (tx_modify (\<lambda>db. db\<lparr>ad_members := t\<rparr>)) (\<lambda>_. tx_return row))"

definition update_member_password_in_transaction :: "admin_world \<Rightarrow> uuid \<Rightarrow> uuid \<Rightarrow> string \<Rightarrow> unit admin_tx" where
  "update_member_password_in_transaction w tenant i h =
     tx_bind (update_member w (admin_db_error w ''auth password'') (member_at tenant i)
                (\<lambda>m. m\<lparr>tm_password_hash := h\<rparr>)) (\<lambda>row.
     if row = None then tx_fail user_not_found else tx_return ())"

definition update_member_mfa_secret_in_transaction ::
    "admin_world \<Rightarrow> uuid \<Rightarrow> uuid \<Rightarrow> string option \<Rightarrow> unit admin_tx" where
  "update_member_mfa_secret_in_transaction w tenant i secret =
     tx_bind (update_member w (admin_db_error w ''auth mfa'') (member_at tenant i)
                (\<lambda>m. m\<lparr>tm_mfa_enabled := False, tm_mfa_secret_encrypted := secret\<rparr>)) (\<lambda>_.
     tx_return ())"

definition set_member_mfa_enabled_in_transaction ::
    "admin_world \<Rightarrow> uuid \<Rightarrow> uuid \<Rightarrow> bool \<Rightarrow> team_member admin_tx" where
  "set_member_mfa_enabled_in_transaction w tenant i enabled =
     tx_bind (update_member w (admin_db_error w ''auth mfa'') (member_at tenant i)
                (\<lambda>m. m\<lparr>tm_mfa_enabled := enabled\<rparr>)) (\<lambda>row.
     tx_of (ok_or row (admin_db_error w ''auth mfa'')))"

definition disable_member_mfa_in_transaction :: "admin_world \<Rightarrow> uuid \<Rightarrow> uuid \<Rightarrow> team_member admin_tx" where
  "disable_member_mfa_in_transaction w tenant i =
     tx_bind (update_member w (admin_db_error w ''auth mfa'') (member_at tenant i)
                (\<lambda>m. m\<lparr>tm_mfa_enabled := False, tm_mfa_secret_encrypted := None\<rparr>)) (\<lambda>row.
     tx_of (ok_or row (admin_db_error w ''auth mfa'')))"

definition mark_member_email_verified :: "admin_world \<Rightarrow> uuid \<Rightarrow> uuid \<Rightarrow> team_member admin_tx" where
  "mark_member_email_verified w tenant i =
     tx_bind (update_member w (admin_db_error w ''auth email verify'') (member_at tenant i)
                (\<lambda>m. m\<lparr>tm_email_verified := True\<rparr>)) (\<lambda>row.
     tx_of (ok_or row (admin_db_error w ''auth email verify'')))"

definition disable_member_in_transaction :: "admin_world \<Rightarrow> uuid \<Rightarrow> uuid \<Rightarrow> team_member option admin_tx" where
  "disable_member_in_transaction w tenant i =
     update_member w (admin_db_error w ''team admin'')
       (\<lambda>m. member_at tenant i m \<and> tm_status m \<noteq> ''disabled'') (\<lambda>m. m\<lparr>tm_status := ''disabled''\<rparr>)"

definition find_invited_member_for_update :: "uuid \<Rightarrow> uuid \<Rightarrow> team_member option admin_tx" where
  "find_invited_member_for_update tenant i =
     tx_read (\<lambda>db. Inr (List.find (\<lambda>m. member_at tenant i m \<and> tm_status m = ''invited'') (ad_members db)))"

definition activate_invited_member ::
    "admin_world \<Rightarrow> uuid \<Rightarrow> uuid \<Rightarrow> string \<Rightarrow> string \<Rightarrow> team_member admin_tx" where
  "activate_invited_member w tenant i name h =
     tx_bind (update_member w (admin_db_error w ''team invitation'')
                (\<lambda>m. member_at tenant i m \<and> tm_status m = ''invited'')
                (\<lambda>m. m\<lparr>tm_name := name, tm_password_hash := h, tm_status := ''active'',
                       tm_email_verified := True\<rparr>)) (\<lambda>row.
     tx_of (ok_or row (admin_db_error w ''team invitation'')))"

definition create_invited_member :: "admin_world \<Rightarrow> uuid \<Rightarrow> string \<Rightarrow> string \<Rightarrow> team_member admin_tx" where
  "create_invited_member w tenant email h =
     (let row = \<lparr>tm_id = aw_member_id w, tm_tenant_id = tenant, tm_email = aw_db_lower w email,
            tm_password_hash = h, tm_name = email, tm_phone = None, tm_avatar = None,
            tm_status = ''invited'', tm_email_verified = False, tm_mfa_enabled = False,
            tm_mfa_secret_encrypted = None, tm_last_login_at = None, tm_last_login_ip = None,
            tm_created_at = aw_db_now w, tm_updated_at = aw_db_now w, tm_deleted_at = None\<rparr>
      in tx_bind (tx_read (\<lambda>db. insert_row member_check (member_clash w)
                    (admin_db_error w ''team admin'') row (ad_members db))) (\<lambda>t.
         tx_bind (tx_modify (\<lambda>db. db\<lparr>ad_members := t\<rparr>)) (\<lambda>_. tx_return row)))"


section \<open>Recovery codes\<close>

definition live_code :: "uuid \<Rightarrow> uuid \<Rightarrow> mfa_recovery_code \<Rightarrow> bool" where
  "live_code tenant m c \<longleftrightarrow> rc_tenant_id c = tenant \<and> rc_team_member_id c = m
     \<and> rc_used_at c = None \<and> rc_revoked_at c = None"

definition use_codes :: "admin_world \<Rightarrow> uuid \<Rightarrow> uuid \<Rightarrow> string \<Rightarrow> admin_db \<Rightarrow> int \<times> admin_db" where
  "use_codes w tenant m h db =
     (let Q = (\<lambda>c. live_code tenant m c \<and> rc_code_hash c = h)
      in (count_where Q (ad_recovery_codes db),
          db\<lparr>ad_recovery_codes :=
               update_where Q (\<lambda>c. c\<lparr>rc_used_at := Some (aw_db_now w)\<rparr>) (ad_recovery_codes db)\<rparr>))"

definition consume_recovery_code_in_transaction ::
    "admin_world \<Rightarrow> uuid \<Rightarrow> uuid \<Rightarrow> string \<Rightarrow> bool admin_tx" where
  "consume_recovery_code_in_transaction w tenant m h =
     tx_bind (tx_count (use_codes w tenant m h)) (\<lambda>n. tx_return (n > 0))"

definition revoke_recovery_codes_in_transaction :: "admin_world \<Rightarrow> uuid \<Rightarrow> uuid \<Rightarrow> int admin_tx" where
  "revoke_recovery_codes_in_transaction w tenant m =
     tx_count (\<lambda>db. (count_where (live_code tenant m) (ad_recovery_codes db),
       db\<lparr>ad_recovery_codes := update_where (live_code tenant m)
            (\<lambda>c. c\<lparr>rc_revoked_at := Some (aw_db_now w)\<rparr>) (ad_recovery_codes db)\<rparr>))"

fun insert_recovery_codes :: "admin_world \<Rightarrow> uuid \<Rightarrow> uuid \<Rightarrow> (uuid \<times> string) list \<Rightarrow> unit admin_tx" where
  "insert_recovery_codes w tenant m [] = tx_return ()"
| "insert_recovery_codes w tenant m ((i, h) # rest) =
     tx_bind (tx_read (\<lambda>db. insert_row (\<lambda>_. True) (\<lambda>c d. rc_id c = rc_id d) (admin_db_error w ''auth mfa'')
                \<lparr>rc_id = i, rc_tenant_id = tenant, rc_team_member_id = m, rc_code_hash = h,
                 rc_used_at = None, rc_revoked_at = None, rc_created_at = aw_db_now w\<rparr>
                (ad_recovery_codes db))) (\<lambda>t.
     tx_bind (tx_modify (\<lambda>db. db\<lparr>ad_recovery_codes := t\<rparr>)) (\<lambda>_.
     insert_recovery_codes w tenant m rest))"

definition replace_recovery_codes_in_transaction ::
    "admin_world \<Rightarrow> uuid \<Rightarrow> uuid \<Rightarrow> string list \<Rightarrow> unit admin_tx" where
  "replace_recovery_codes_in_transaction w tenant m hashes =
     tx_bind (revoke_recovery_codes_in_transaction w tenant m) (\<lambda>_.
     insert_recovery_codes w tenant m (zip (aw_recovery_ids w) hashes))"


section \<open>One-time tokens\<close>

definition live_one_time_token :: "time \<Rightarrow> one_time_token \<Rightarrow> bool" where
  "live_one_time_token now t \<longleftrightarrow>
     ott_expires_at t > now \<and> ott_consumed_at t = None \<and> ott_revoked_at t = None"

definition one_time_token_clash :: "one_time_token \<Rightarrow> one_time_token \<Rightarrow> bool" where
  "one_time_token_clash s t \<longleftrightarrow> ott_id s = ott_id t \<or> ott_token_hash s = ott_token_hash t"

definition insert_one_time_token ::
    "admin_world \<Rightarrow> app_error \<Rightarrow> uuid \<Rightarrow> string \<Rightarrow> uuid \<Rightarrow> string \<Rightarrow> string \<Rightarrow> uuid option \<Rightarrow> time \<Rightarrow> uuid admin_tx"
  where
  "insert_one_time_token w e tenant purpose subject email h created_by expires =
     tx_bind (tx_read (\<lambda>db. insert_row (\<lambda>_. True) one_time_token_clash e
                \<lparr>ott_id = aw_one_time_token_id w, ott_tenant_id = Some tenant, ott_purpose = purpose,
                 ott_subject_type = ''team_member'', ott_subject_id = Some subject,
                 ott_email = Some (aw_db_lower w email), ott_token_hash = h, ott_created_by = created_by,
                 ott_expires_at = expires, ott_consumed_at = None, ott_revoked_at = None,
                 ott_metadata = JObject [], ott_created_at = aw_db_now w\<rparr>
                (ad_one_time_tokens db))) (\<lambda>t.
     tx_bind (tx_modify (\<lambda>db. db\<lparr>ad_one_time_tokens := t\<rparr>)) (\<lambda>_. tx_return (aw_one_time_token_id w)))"

text \<open>
  The subject of a live token of a purpose, as each of \<open>auth/password.rs\<close>,
  \<open>auth/email_verify.rs\<close> and \<open>team/invitation.rs\<close> selects it: its id, tenant, member and
  address.
\<close>

definition find_token_subject ::
    "admin_world \<Rightarrow> app_error \<Rightarrow> string \<Rightarrow> string \<Rightarrow> (uuid \<times> uuid \<times> uuid \<times> string) admin_tx" where
  "find_token_subject w e purpose h =
     tx_read (\<lambda>db.
       case List.find (\<lambda>t. ott_purpose t = purpose \<and> ott_subject_type t = ''team_member''
              \<and> ott_token_hash t = h \<and> ott_tenant_id t \<noteq> None \<and> ott_subject_id t \<noteq> None
              \<and> ott_email t \<noteq> None \<and> live_one_time_token (aw_db_now w) t) (ad_one_time_tokens db) of
         Some t \<Rightarrow> Inr (ott_id t, the (ott_tenant_id t), the (ott_subject_id t), the (ott_email t))
       | None \<Rightarrow> Inl e)"

definition consume_one_time_token :: "admin_world \<Rightarrow> app_error \<Rightarrow> uuid \<Rightarrow> unit admin_tx" where
  "consume_one_time_token w e i =
     tx_bind (tx_count (\<lambda>db. let Q = (\<lambda>t. ott_id t = i \<and> live_one_time_token (aw_db_now w) t)
       in (count_where Q (ad_one_time_tokens db), db\<lparr>ad_one_time_tokens :=
             update_where Q (\<lambda>t. t\<lparr>ott_consumed_at := Some (aw_db_now w)\<rparr>) (ad_one_time_tokens db)\<rparr>)))
       (\<lambda>n. if n = 0 then tx_fail e else tx_return ())"


section \<open>Roles and permissions\<close>

text \<open>\<open>order by\<close> a code, in the order of its bytes; \<open>distinct\<close> drops the doubles.\<close>

definition ordered_codes :: "string list \<Rightarrow> string list" where
  "ordered_codes codes = foldr insert_sorted (remdups codes) []"

definition list_permissions_for_member :: "uuid \<Rightarrow> uuid \<Rightarrow> admin_db \<Rightarrow> string list" where
  "list_permissions_for_member tenant i db =
     ordered_codes [pm_code p. m \<leftarrow> ad_members db, member_at tenant i m \<and> tm_status m = ''active'',
       (mi, ri) \<leftarrow> ad_member_roles db, mi = tm_id m,
       r \<leftarrow> ad_roles db, rl_id r = ri \<and> rl_tenant_id r = tm_tenant_id m \<and> rl_deleted_at r = None,
       (ri', perm) \<leftarrow> ad_role_permissions db, ri' = rl_id r,
       p \<leftarrow> ad_permissions db, pm_id p = perm]"

definition list_role_codes_for_member :: "uuid \<Rightarrow> uuid \<Rightarrow> admin_db \<Rightarrow> string list" where
  "list_role_codes_for_member tenant i db =
     foldr insert_sorted (map snd (remdups [(rl_id r, rl_code r). (mi, ri) \<leftarrow> ad_member_roles db,
       r \<leftarrow> ad_roles db, rl_id r = ri \<and> rl_deleted_at r = None,
       m \<leftarrow> ad_members db, tm_id m = mi \<and> member_at (rl_tenant_id r) mi m \<and> tm_tenant_id m = tenant
         \<and> tm_id m = i])) []"

definition role_find_by_codes :: "uuid \<Rightarrow> string list \<Rightarrow> admin_db \<Rightarrow> role_row list" where
  "role_find_by_codes tenant codes db =
     filter (\<lambda>r. rl_tenant_id r = tenant \<and> rl_code r \<in> set codes \<and> rl_deleted_at r = None) (ad_roles db)"

definition holds_role :: "admin_db \<Rightarrow> string \<Rightarrow> team_member \<Rightarrow> bool" where
  "holds_role db code m \<longleftrightarrow>
     list_ex (\<lambda>(mi, ri). mi = tm_id m \<and> list_ex (\<lambda>r. rl_id r = ri \<and> rl_tenant_id r = tm_tenant_id m
       \<and> rl_code r = code \<and> rl_deleted_at r = None) (ad_roles db)) (ad_member_roles db)"

definition active_owner_count :: "uuid \<Rightarrow> admin_db \<Rightarrow> int" where
  "active_owner_count tenant db =
     int (length (remdups (map tm_id (filter (\<lambda>m. tm_tenant_id m = tenant \<and> tm_status m = ''active''
       \<and> tm_deleted_at m = None \<and> holds_role db ''owner'' m) (ad_members db)))))"


section \<open>The outbox\<close>

text \<open>
  An e-mail is queued with its body sealed in an envelope; the Chinese texts are written as
  their code points.
\<close>

definition trim_end_slashes :: "string \<Rightarrow> string" where
  "trim_end_slashes s = rev (dropWhile (\<lambda>c. c = CHR ''/'') (rev s))"

definition token_action_url :: "string option \<Rightarrow> string \<Rightarrow> string \<Rightarrow> string option" where
  "token_action_url base path token =
     (case base of
        None \<Rightarrow> None
      | Some b \<Rightarrow>
          (let b = trim_end_slashes (trim b)
           in if b = [] then None
              else Some (b @ ''/'' @ dropWhile (\<lambda>c. c = CHR ''/'') path @ ''?token='' @ token)))"

definition token_email_body :: "string \<Rightarrow> string option \<Rightarrow> string \<Rightarrow> string \<Rightarrow> string \<Rightarrow> string" where
  "token_email_body intro base path token expires =
     join_text [CHR 10] ([intro, [], utf8 [20196, 29260, 65306] @ token, utf8 [36807, 26399, 26102, 38388, 65306] @ expires]
       @ (case token_action_url base path token of None \<Rightarrow> [] | Some url \<Rightarrow> [[], utf8 [38142, 25509, 65306] @ url])
       @ [[], utf8 [22914, 26524, 36825, 19981, 26159, 20320, 26412, 20154, 25805, 20316, 65292,
      35831, 24573, 30053, 27492, 37038, 20214, 12290]])"

definition build_encrypted_email_payload ::
    "admin_world \<Rightarrow> string \<Rightarrow> string \<Rightarrow> string \<Rightarrow> app_error + json" where
  "build_encrypted_email_payload w receiver subject body =
     rs_bind (encrypt_bytes (aw_crypto w) (ac_master_key (aw_cfg w)) (aw_nonce w) body) (\<lambda>envelope.
     case aw_envelope_to_value w envelope of
       Inl err \<Rightarrow> Inl (Crypto (''email envelope serialization failed: '' @ err))
     | Inr v \<Rightarrow> Inr (JObject [(''schema_version'', count_json 1), (''kind'', JString ''email''),
         (''to'', JString receiver), (''subject'', JString subject),
         (''body_format'', JString ''text/plain''), (''body_envelope'', v)]))"

definition enqueue_event_in_transaction ::
    "admin_world \<Rightarrow> uuid option \<Rightarrow> string \<Rightarrow> json \<Rightarrow> uuid admin_tx" where
  "enqueue_event_in_transaction w tenant event_type payload =
     tx_bind (tx_read (\<lambda>db. insert_row (\<lambda>_. True) (\<lambda>a b. oe_id a = oe_id b) (admin_db_error w ''outbox'')
                \<lparr>oe_id = aw_outbox_id w, oe_tenant_id = tenant, oe_event_type = event_type,
                 oe_payload = payload, oe_status = ''pending'', oe_attempts = 0,
                 oe_next_run_at = aw_db_now w, oe_last_error = None, oe_created_at = aw_db_now w,
                 oe_processed_at = None\<rparr> (ad_outbox db))) (\<lambda>t.
     tx_bind (tx_modify (\<lambda>db. db\<lparr>ad_outbox := t\<rparr>)) (\<lambda>_. tx_return (aw_outbox_id w)))"

definition enqueue_token_email ::
    "admin_world \<Rightarrow> uuid option \<Rightarrow> string \<Rightarrow> string \<Rightarrow> string \<Rightarrow> string \<Rightarrow> string \<Rightarrow> string \<Rightarrow> time \<Rightarrow> uuid admin_tx"
  where
  "enqueue_token_email w tenant event_type receiver subject intro path token expires =
     tx_bind (tx_of (build_encrypted_email_payload w receiver subject
                (token_email_body intro (ac_base_url (aw_cfg w)) path token (aw_rfc3339 w expires)))) (\<lambda>payload.
     enqueue_event_in_transaction w tenant event_type payload)"

definition enqueue_admin_password_reset_email ::
    "admin_world \<Rightarrow> uuid \<Rightarrow> string \<Rightarrow> string \<Rightarrow> time \<Rightarrow> uuid admin_tx" where
  "enqueue_admin_password_reset_email w tenant receiver token expires =
     enqueue_token_email w (Some tenant) ''email.admin_password_reset'' receiver
       (utf8 [37325, 32622, 31649, 29702, 21592, 23494, 30721]) (utf8 [35831, 20351, 29992, 20197, 19979, 20196, 29260, 37325, 32622, 31649, 29702,
      21592, 23494, 30721, 12290]) ''admin/password-reset'' token expires"

definition enqueue_team_member_email_verify_email ::
    "admin_world \<Rightarrow> uuid \<Rightarrow> string \<Rightarrow> string \<Rightarrow> time \<Rightarrow> uuid admin_tx" where
  "enqueue_team_member_email_verify_email w tenant receiver token expires =
     enqueue_token_email w (Some tenant) ''email.team_member_email_verify'' receiver
       (utf8 [39564, 35777, 31649, 29702, 21592, 37038, 31665]) (utf8 [35831, 20351, 29992, 20197, 19979, 20196, 29260, 39564, 35777, 31649, 29702,
      21592, 37038, 31665, 22320, 22336, 12290]) ''admin/email-verify'' token expires"

definition enqueue_team_invite_email ::
    "admin_world \<Rightarrow> uuid \<Rightarrow> string \<Rightarrow> string \<Rightarrow> time \<Rightarrow> uuid admin_tx" where
  "enqueue_team_invite_email w tenant receiver token expires =
     enqueue_token_email w (Some tenant) ''email.team_invite'' receiver
       (utf8 [25509, 21463, 22242, 38431, 36992, 35831]) (utf8 [35831, 20351, 29992, 20197, 19979, 20196, 29260, 25509, 21463, 22242, 38431,
      36992, 35831, 12290]) ''team/invitations/accept'' token expires"

end
