(* ===== verification/AdminAccess.thy ===== *)
theory AdminAccess
  imports AdminModel "HOL-Library.Product_Lexorder"
begin

text \<open>
  How an administrator gets in and stays in (\<open>modules/auth\<close>): the signed session cookie and the
  middleware (\<open>session.rs\<close>), the CSRF token (\<open>csrf.rs\<close>), the second factor at a login
  (\<open>mfa.rs\<close>), \<open>login.rs\<close>, \<open>refresh.rs\<close>, \<open>logout.rs\<close>, the management of one's own sessions
  (\<open>admin_sessions.rs\<close>) and the clean-up of old ones (\<open>session_cleanup.rs\<close>).
\<close>


section \<open>Cookies\<close>

definition rsplit_once :: "char \<Rightarrow> string \<Rightarrow> (string \<times> string) option" where
  "rsplit_once d s = map_option (\<lambda>(a, b). (rev b, rev a)) (split_once d (rev s))"

definition read_cookie :: "string option \<Rightarrow> string \<Rightarrow> string option" where
  "read_cookie header name =
     (case header of
        None \<Rightarrow> None
      | Some h \<Rightarrow> map_option snd (List.find (\<lambda>(k, v). k = name)
          (List.map_filter (\<lambda>part. split_once (CHR ''='') (trim part)) (split_char (CHR '';'') h))))"

text \<open>\<open>HeaderValue::from_str\<close> takes visible ASCII and the tabulator.\<close>

definition header_byte :: "char \<Rightarrow> bool" where
  "header_byte c \<longleftrightarrow> (32 \<le> byte c \<and> byte c < 127) \<or> byte c = 9"

definition cookie_header :: "string \<Rightarrow> app_error + string" where
  "cookie_header value =
     (if list_all header_byte value then Inr value
      else Inl (Config ''invalid session cookie: failed to parse header value''))"

definition secure_attr :: "bool \<Rightarrow> string" where
  "secure_attr secure = (if secure then ''; Secure'' else [])"

definition sign_cookie_value :: "crypto_lib \<Rightarrow> string \<Rightarrow> string \<Rightarrow> app_error + string" where
  "sign_cookie_value c secret value =
     rs_bind (hash_token c secret value) (\<lambda>signature. Inr (value @ ''.'' @ signature))"

definition verify_cookie_value :: "crypto_lib \<Rightarrow> string \<Rightarrow> string \<Rightarrow> app_error + string option" where
  "verify_cookie_value c secret cookie =
     (case rsplit_once (CHR ''.'') cookie of
        None \<Rightarrow> Inr None
      | Some (value, signature) \<Rightarrow>
          if value = [] \<or> signature = [] then Inr None
          else rs_bind (verify_token_hash c secret value signature) (\<lambda>ok.
            Inr (if ok then Some value else None)))"

definition build_session_cookie :: "admin_world \<Rightarrow> uuid \<Rightarrow> i64 \<Rightarrow> app_error + string" where
  "build_session_cookie w session ttl =
     rs_bind (sign_cookie_value (aw_crypto w) (ac_session_secret (aw_cfg w)) (aw_uuid_text w session)) (\<lambda>value.
     cookie_header (''admin_session='' @ value @ ''; HttpOnly; SameSite=Lax; Path=/; Max-Age=''
       @ show_i64 ttl @ secure_attr (ac_cookie_secure (aw_cfg w))))"

definition build_refresh_cookie :: "admin_world \<Rightarrow> string \<Rightarrow> i64 \<Rightarrow> app_error + string" where
  "build_refresh_cookie w token ttl =
     cookie_header (''admin_refresh='' @ token
       @ ''; HttpOnly; SameSite=Lax; Path=/api/auth/refresh; Max-Age='' @ show_i64 ttl
       @ secure_attr (ac_cookie_secure (aw_cfg w)))"

definition build_clear_session_cookie :: "admin_world \<Rightarrow> app_error + string" where
  "build_clear_session_cookie w =
     cookie_header (''admin_session=; HttpOnly; SameSite=Lax; Path=/; Max-Age=0''
       @ secure_attr (ac_cookie_secure (aw_cfg w)))"

definition build_clear_refresh_cookie :: "admin_world \<Rightarrow> app_error + string" where
  "build_clear_refresh_cookie w =
     cookie_header (''admin_refresh=; HttpOnly; SameSite=Lax; Path=/api/auth/refresh; Max-Age=0''
       @ secure_attr (ac_cookie_secure (aw_cfg w)))"


section \<open>CSRF tokens\<close>

definition sign_nonce :: "crypto_lib \<Rightarrow> string \<Rightarrow> string \<Rightarrow> app_error + string" where
  "sign_nonce c secret nonce =
     (case hmac_sha256 c secret nonce of
        Inl err \<Rightarrow> Inl (Crypto (''csrf secret invalid: '' @ err))
      | Inr mac \<Rightarrow> Inr (b64_url c mac))"

definition issue_csrf_token :: "admin_world \<Rightarrow> app_error + string" where
  "issue_csrf_token w =
     rs_bind (sign_nonce (aw_crypto w) (ac_csrf_secret (aw_cfg w)) (aw_csrf_nonce w)) (\<lambda>signature.
     Inr (aw_csrf_nonce w @ ''.'' @ signature))"

definition csrf_cookie_header :: "string \<Rightarrow> app_error + string" where
  "csrf_cookie_header value =
     (if list_all header_byte value then Inr value
      else Inl (Config ''invalid csrf cookie: failed to parse header value''))"

definition build_csrf_cookie :: "admin_world \<Rightarrow> string \<Rightarrow> i64 \<Rightarrow> app_error + string" where
  "build_csrf_cookie w token ttl =
     csrf_cookie_header (''admin_csrf='' @ token @ ''; SameSite=Lax; Path=/; Max-Age='' @ show_i64 ttl
       @ secure_attr (ac_cookie_secure (aw_cfg w)))"

definition build_clear_csrf_cookie :: "admin_world \<Rightarrow> app_error + string" where
  "build_clear_csrf_cookie w =
     csrf_cookie_header (''admin_csrf=; SameSite=Lax; Path=/; Max-Age=0''
       @ secure_attr (ac_cookie_secure (aw_cfg w)))"

definition verify_csrf_token :: "crypto_lib \<Rightarrow> string \<Rightarrow> string \<Rightarrow> app_error + bool" where
  "verify_csrf_token c secret token =
     (case split_once (CHR ''.'') token of
        None \<Rightarrow> Inr False
      | Some (nonce, signature) \<Rightarrow>
          if nonce = [] \<or> signature = [] then Inr False
          else rs_bind (sign_nonce c secret nonce) (\<lambda>expected. Inr (signature = expected)))"

definition csrf_tokens_are_valid :: "crypto_lib \<Rightarrow> string \<Rightarrow> string \<Rightarrow> string \<Rightarrow> app_error + bool" where
  "csrf_tokens_are_valid c secret cookie_token header_token =
     (if cookie_token \<noteq> header_token then Inr False else verify_csrf_token c secret header_token)"

definition requires_csrf :: "string \<Rightarrow> bool" where
  "requires_csrf http_method \<longleftrightarrow> http_method \<notin> {''GET'', ''HEAD'', ''OPTIONS''}"

text \<open>A header's or cookie's text, trimmed, when it is not empty.\<close>

definition trimmed :: "string option \<Rightarrow> string option" where
  "trimmed v = (case v of None \<Rightarrow> None | Some s \<Rightarrow> if trim s = [] then None else Some (trim s))"

definition require_csrf :: "admin_world \<Rightarrow> string \<Rightarrow> app_error + unit" where
  "require_csrf w http_method =
     (if \<not> requires_csrf http_method then Inr ()
      else
        rs_bind (ok_or (trimmed (read_cookie (aw_cookie w) ''admin_csrf'')) csrf_failed) (\<lambda>cookie_token.
        rs_bind (ok_or (trimmed (aw_csrf_header w)) csrf_failed) (\<lambda>header_token.
        rs_bind (csrf_tokens_are_valid (aw_crypto w) (ac_csrf_secret (aw_cfg w)) cookie_token header_token) (\<lambda>ok.
        if ok then Inr () else Inl csrf_failed))))"


section \<open>The middleware\<close>

record admin_principal =
  ap_session_id :: uuid
  ap_tenant_id :: uuid
  ap_team_member_id :: uuid
  ap_email :: string
  ap_name :: string
  ap_email_verified :: bool
  ap_mfa_enabled :: bool
  ap_tenant_name :: string
  ap_roles :: "string list"
  ap_permissions :: "string list"

text \<open>What the handlers of the other modules read of it.\<close>

definition admin_context_of :: "admin_principal \<Rightarrow> admin_context" where
  "admin_context_of p = \<lparr>adm_tenant_id = ap_tenant_id p, adm_team_member_id = ap_team_member_id p,
     adm_permissions = ap_permissions p\<rparr>"

text \<open>The join of a session with its member and tenant.\<close>

definition session_principal :: "admin_session \<Rightarrow> admin_db \<Rightarrow> (team_member \<times> tenant_row) option" where
  "session_principal s db =
     (case [(m, t). m \<leftarrow> ad_members db, tm_id m = asn_team_member_id s \<and> tm_tenant_id m = asn_tenant_id s
              \<and> tm_deleted_at m = None,
            t \<leftarrow> ad_tenants db, tn_id t = asn_tenant_id s \<and> tn_deleted_at t = None] of
        [] \<Rightarrow> None
      | p # _ \<Rightarrow> Some p)"

definition load_session ::
    "admin_world \<Rightarrow> uuid \<Rightarrow> admin_db \<Rightarrow> (admin_session \<times> team_member \<times> tenant_row) option" where
  "load_session w i db =
     (case List.find (\<lambda>s. asn_id s = i \<and> asn_revoked_at s = None \<and> asn_expires_at s > aw_db_now w)
             (ad_sessions db) of
        None \<Rightarrow> None
      | Some s \<Rightarrow> map_option (Pair s) (session_principal s db))"

definition read_signed_session_cookie :: "admin_world \<Rightarrow> app_error + string option" where
  "read_signed_session_cookie w =
     (case read_cookie (aw_cookie w) ''admin_session'' of
        None \<Rightarrow> Inr None
      | Some v \<Rightarrow> verify_cookie_value (aw_crypto w) (ac_session_secret (aw_cfg w)) v)"

definition principal_usable :: "team_member \<Rightarrow> tenant_row \<Rightarrow> app_error + unit" where
  "principal_usable m t =
     (if tm_status m \<noteq> ''active'' then Inl account_disabled
      else if tn_status t \<noteq> ''active'' then Inl tenant_forbidden else Inr ())"

definition require_admin_session :: "admin_world \<Rightarrow> admin_db \<Rightarrow> app_error + admin_principal" where
  "require_admin_session w db =
     rs_bind (read_signed_session_cookie w) (\<lambda>cookie.
     rs_bind (ok_or (case cookie of None \<Rightarrow> None | Some v \<Rightarrow> aw_parse_uuid w v) unauthenticated) (\<lambda>i.
     rs_bind (ok_or (load_session w i db) session_expired) (\<lambda>(s, m, t).
     rs_bind (principal_usable m t) (\<lambda>_.
     Inr \<lparr>ap_session_id = asn_id s, ap_tenant_id = asn_tenant_id s,
       ap_team_member_id = asn_team_member_id s, ap_email = tm_email m, ap_name = tm_name m,
       ap_email_verified = tm_email_verified m, ap_mfa_enabled = tm_mfa_enabled m,
       ap_tenant_name = tn_name t,
       ap_roles = list_role_codes_for_member (asn_tenant_id s) (asn_team_member_id s) db,
       ap_permissions = list_permissions_for_member (asn_tenant_id s) (asn_team_member_id s) db\<rparr>))))"


section \<open>The second factor at a login\<close>

text \<open>
  \<open>String::from_utf8\<close> of the bytes of a decrypted secret. The two texts of its error and of
  serde's are left to \<open>Crypto\<close>'s message, which the client never sees.
\<close>

definition continuation :: "char \<Rightarrow> bool" where
  "continuation c \<longleftrightarrow> 128 \<le> byte c \<and> byte c < 192"

fun valid_utf8 :: "string \<Rightarrow> bool" where
  "valid_utf8 [] = True"
| "valid_utf8 [a] = (byte a < 128)"
| "valid_utf8 (a # b # s) =
     (if byte a < 128 then valid_utf8 (b # s)
      else if 194 \<le> byte a \<and> byte a < 224 then continuation b \<and> valid_utf8 s
      else (case s of
          [] \<Rightarrow> False
        | c # t \<Rightarrow>
            if 224 \<le> byte a \<and> byte a < 240
            then continuation b \<and> continuation c \<and> (byte a = 224 \<longrightarrow> 160 \<le> byte b)
              \<and> (byte a = 237 \<longrightarrow> byte b < 160) \<and> valid_utf8 t
            else if 240 \<le> byte a \<and> byte a < 245
            then (case t of
                [] \<Rightarrow> False
              | d # u \<Rightarrow> continuation b \<and> continuation c \<and> continuation d
                  \<and> (byte a = 240 \<longrightarrow> 144 \<le> byte b) \<and> (byte a = 244 \<longrightarrow> byte b < 144) \<and> valid_utf8 u)
            else False))"

definition decrypt_secret_text :: "admin_world \<Rightarrow> string \<Rightarrow> app_error + string" where
  "decrypt_secret_text w encrypted =
     (case aw_envelope_of_text w encrypted of
        Inl err \<Rightarrow> Inl (Crypto (''mfa secret envelope invalid: '' @ err))
      | Inr envelope \<Rightarrow>
          rs_bind (decrypt_bytes (aw_crypto w) (ac_master_key (aw_cfg w)) envelope) (\<lambda>plaintext.
          if valid_utf8 plaintext then Inr plaintext
          else Inl (Crypto ''mfa secret plaintext invalid: '')))"

definition encrypt_secret_to_text :: "admin_world \<Rightarrow> string \<Rightarrow> app_error + string" where
  "encrypt_secret_to_text w secret =
     rs_bind (encrypt_bytes (aw_crypto w) (ac_master_key (aw_cfg w)) (aw_nonce w) secret) (\<lambda>envelope.
     case aw_envelope_text w envelope of
       Inl err \<Rightarrow> Inl (Crypto (''mfa secret serialization failed: '' @ err))
     | Inr text \<Rightarrow> Inr text)"

definition mfa_secret_missing :: app_error where
  "mfa_secret_missing = Config ''mfa secret is not configured''"

definition verify_member_mfa_code ::
    "admin_world \<Rightarrow> uuid \<Rightarrow> uuid \<Rightarrow> string option \<Rightarrow> string \<Rightarrow> bool admin_io" where
  "verify_member_mfa_code w tenant m encrypted code =
     io_bind (io_of (rs_bind (ok_or encrypted mfa_secret_missing) (decrypt_secret_text w))) (\<lambda>secret.
     io_bind (io_of (verify_totp_code (aw_hmac_sha1 w) (aw_now w) secret code)) (\<lambda>ok.
     if ok then io_return True
     else (case normalize_recovery_code code of
         None \<Rightarrow> io_return False
       | Some recovery \<Rightarrow>
           io_bind (io_of (admin_hash_token w recovery)) (\<lambda>h.
           io_bind (io_count (use_codes w tenant m h)) (\<lambda>n. io_return (n > 0))))))"


section \<open>Login\<close>

record admin_login_request =
  lgr_email :: string
  lgr_password :: string
  lgr_mfa_code :: "string option"

record admin_login_response =
  lgn_id :: uuid
  lgn_email :: string
  lgn_name :: string
  lgn_email_verified :: bool
  lgn_mfa_enabled :: bool
  lgn_tenant_id :: uuid
  lgn_tenant_name :: string
  lgn_roles :: "string list"
  lgn_permissions :: "string list"
  lgn_session_cookie :: string
  lgn_refresh_cookie :: string
  lgn_csrf_cookie :: string

definition find_login_candidates ::
    "admin_world \<Rightarrow> string \<Rightarrow> admin_db \<Rightarrow> (team_member \<times> tenant_row) list" where
  "find_login_candidates w email db =
     take 2 [(m, t). m \<leftarrow> ad_members db, aw_db_lower w (tm_email m) = aw_db_lower w email \<and> tm_deleted_at m = None,
       t \<leftarrow> ad_tenants db, tn_id t = tm_tenant_id m \<and> tn_deleted_at t = None]"

text \<open>A failure to record is only logged.\<close>

definition record_login_failure ::
    "admin_world \<Rightarrow> uuid option \<Rightarrow> uuid option \<Rightarrow> string \<Rightarrow> string \<Rightarrow> unit admin_io" where
  "record_login_failure w tenant actor email reason =
     (\<lambda>db. (Inr (), snd (commit (record_admin_audit w
       \<lparr>ai_tenant_id = tenant, ai_actor_type = ''team_member'', ai_actor_id = actor,
        ai_action = ''auth.login.failed'', ai_resource_type = ''auth'', ai_resource_id = actor,
        ai_ip = Some (client_ip (aw_ip_header w)), ai_user_agent = aw_user_agent w,
        ai_request_id = Some (aw_request_id w), ai_before_json = None, ai_after_json = None,
        ai_metadata_json = JObject [(''email'', JString (aw_lower w (trim email))),
          (''reason'', JString reason)]\<rparr>) db)))"

definition refuse_login ::
    "admin_world \<Rightarrow> (team_member \<times> tenant_row) option \<Rightarrow> string \<Rightarrow> string \<Rightarrow> app_error \<Rightarrow> 'a admin_io" where
  "refuse_login w who email reason e =
     io_bind (record_login_failure w (map_option (tm_tenant_id \<circ> fst) who)
                (map_option (tm_id \<circ> fst) who) email reason) (\<lambda>_.
     io_fail e)"

definition login_rate_limit :: "admin_world \<Rightarrow> string \<Rightarrow> unit admin_io" where
  "login_rate_limit w key =
     on_admin_redis (check_fixed_window (aw_fault w) (aw_now w) key (ac_login_rate_limit_max (aw_cfg w))
       (ac_login_rate_limit_window_seconds (aw_cfg w)) login_rate_limited)"

definition login_second_factor ::
    "admin_world \<Rightarrow> team_member \<times> tenant_row \<Rightarrow> string option \<Rightarrow> unit admin_io" where
  "login_second_factor w who mfa_code =
     (let m = fst who in
      if \<not> tm_mfa_enabled m then io_return ()
      else (case trimmed mfa_code of
          None \<Rightarrow> io_fail mfa_required
        | Some code \<Rightarrow>
            io_bind (login_rate_limit w (mfa_key (aw_uuid_text w (tm_id m)) (client_ip (aw_ip_header w)))) (\<lambda>_.
            io_bind (verify_member_mfa_code w (tm_tenant_id m) (tm_id m) (tm_mfa_secret_encrypted m) code) (\<lambda>ok.
            if ok then io_return ()
            else refuse_login w (Some who) (tm_email m) ''mfa_failed'' mfa_failed))))"

definition login_audit :: "admin_world \<Rightarrow> team_member \<Rightarrow> uuid \<Rightarrow> audit_log_input" where
  "login_audit w m session =
     \<lparr>ai_tenant_id = Some (tm_tenant_id m), ai_actor_type = ''team_member'', ai_actor_id = Some (tm_id m),
      ai_action = ''auth.login.success'', ai_resource_type = ''team_member'',
      ai_resource_id = Some (tm_id m), ai_ip = Some (client_ip (aw_ip_header w)),
      ai_user_agent = aw_user_agent w, ai_request_id = Some (aw_request_id w),
      ai_before_json = None, ai_after_json = None,
      ai_metadata_json = JObject [(''session_id'', aw_uuid_json w session),
        (''mfa_enabled'', JBool (tm_mfa_enabled m))]\<rparr>"

definition refresh_token_hash :: "admin_world \<Rightarrow> string \<Rightarrow> app_error + string" where
  "refresh_token_hash w token = hash_token (aw_crypto w) (ac_refresh_token_pepper (aw_cfg w)) token"

definition admin_login_transaction :: "admin_world \<Rightarrow> team_member \<Rightarrow> string \<Rightarrow> time \<Rightarrow> admin_session admin_tx" where
  "admin_login_transaction w m h expires =
     tx_bind (create_admin_session_in_transaction w (tm_tenant_id m) (tm_id m)
                (client_ip (aw_ip_header w)) expires) (\<lambda>session.
     tx_bind (create_admin_refresh_token_in_transaction w (asn_id session) h expires) (\<lambda>_.
     tx_bind (record_admin_audit w (login_audit w m (asn_id session))) (\<lambda>_.
     tx_return session)))"

text \<open>The answer of a login and of a refresh: the account and the three cookies.\<close>

definition session_answer ::
    "admin_world \<Rightarrow> team_member \<times> tenant_row \<Rightarrow> uuid \<Rightarrow> admin_login_response admin_io" where
  "session_answer w who session =
     (let m = fst who; t = snd who; ttl = ac_admin_session_ttl_seconds (aw_cfg w) in
      io_bind (io_read (\<lambda>db. Inr (list_permissions_for_member (tm_tenant_id m) (tm_id m) db))) (\<lambda>permissions.
      io_bind (io_read (\<lambda>db. Inr (list_role_codes_for_member (tm_tenant_id m) (tm_id m) db))) (\<lambda>roles.
      io_bind (io_of (build_session_cookie w session ttl)) (\<lambda>session_cookie.
      io_bind (io_of (build_refresh_cookie w (aw_token w) ttl)) (\<lambda>refresh_cookie.
      io_bind (io_of (issue_csrf_token w)) (\<lambda>csrf.
      io_bind (io_of (build_csrf_cookie w csrf ttl)) (\<lambda>csrf_cookie.
      io_return \<lparr>lgn_id = tm_id m, lgn_email = tm_email m, lgn_name = tm_name m,
        lgn_email_verified = tm_email_verified m, lgn_mfa_enabled = tm_mfa_enabled m,
        lgn_tenant_id = tn_id t, lgn_tenant_name = tn_name t, lgn_roles = roles,
        lgn_permissions = permissions, lgn_session_cookie = session_cookie,
        lgn_refresh_cookie = refresh_cookie, lgn_csrf_cookie = csrf_cookie\<rparr>)))))))"

definition login_session :: "admin_world \<Rightarrow> team_member \<times> tenant_row \<Rightarrow> admin_login_response admin_io" where
  "login_session w who =
     (let expires = aw_now w + seconds (ac_admin_session_ttl_seconds (aw_cfg w)) in
      io_bind (io_of (refresh_token_hash w (aw_token w))) (\<lambda>h.
      io_bind (commit (admin_login_transaction w (fst who) h expires)) (\<lambda>session.
      session_answer w who (asn_id session))))"

definition admin_login :: "admin_world \<Rightarrow> admin_login_request \<Rightarrow> admin_login_response admin_io" where
  "admin_login w p =
     io_bind (login_rate_limit w (login_key (aw_lower w) (lgr_email p) (client_ip (aw_ip_header w)))) (\<lambda>_.
     io_bind (io_read (\<lambda>db. Inr (find_login_candidates w (lgr_email p) db))) (\<lambda>candidates.
     case candidates of
       [(m, t)] \<Rightarrow>
         if tm_status m \<noteq> ''active'' \<or> tn_status t \<noteq> ''active''
         then refuse_login w (Some (m, t)) (tm_email m) ''inactive_principal'' invalid_credentials
         else
           io_bind (io_of (verify_password (aw_parse_hash w) (lgr_password p) (tm_password_hash m))) (\<lambda>ok.
           if \<not> ok then refuse_login w (Some (m, t)) (tm_email m) ''invalid_password'' invalid_credentials
           else
             io_bind (login_second_factor w (m, t) (lgr_mfa_code p)) (\<lambda>_.
             login_session w (m, t)))
     | _ \<Rightarrow> refuse_login w None (lgr_email p) ''candidate_not_found'' invalid_credentials))"


section \<open>Refresh\<close>

text \<open>
  \<open>refresh\<close> in its two parts: what it checks before its transaction, and the transaction with
  what follows. Other requests can come between the two.
\<close>

definition refresh_rate_limit :: "admin_world \<Rightarrow> string \<Rightarrow> unit admin_io" where
  "refresh_rate_limit w subject =
     on_admin_redis (check_fixed_window (aw_fault w) (aw_now w)
       (refresh_key subject (client_ip (aw_ip_header w))) (ac_refresh_rate_limit_max (aw_cfg w))
       (ac_refresh_rate_limit_window_seconds (aw_cfg w)) refresh_rate_limited)"

definition end_session :: "admin_world \<Rightarrow> uuid \<Rightarrow> unit admin_io" where
  "end_session w i =
     io_bind (revoke_admin_session w i) (\<lambda>_.
     io_bind (revoke_refresh_tokens_for_session w i) (\<lambda>_. io_return ()))"

definition load_refresh_principal ::
    "admin_world \<Rightarrow> admin_session \<Rightarrow> admin_db \<Rightarrow> app_error + (team_member \<times> tenant_row)" where
  "load_refresh_principal w s db = ok_or (session_principal s db) session_expired"

definition admin_refresh_check ::
    "admin_world \<Rightarrow> (admin_refresh_token \<times> admin_session \<times> team_member \<times> tenant_row) admin_io" where
  "admin_refresh_check w =
     io_bind (io_of (ok_or (trimmed (read_cookie (aw_cookie w) ''admin_refresh'')) unauthenticated)) (\<lambda>token.
     io_bind (io_of (refresh_token_hash w token)) (\<lambda>h.
     io_bind (io_read (\<lambda>db. Inr (find_admin_refresh_token h db))) (\<lambda>stored.
     case stored of
       None \<Rightarrow> io_bind (refresh_rate_limit w ''invalid-admin-token'') (\<lambda>_. io_fail unauthenticated)
     | Some t \<Rightarrow>
         io_bind (refresh_rate_limit w (aw_uuid_text w (art_session_id t))) (\<lambda>_.
         if \<not> live_admin_token t
         then io_bind (end_session w (art_session_id t)) (\<lambda>_. io_fail refresh_reuse_detected)
         else if art_expires_at t \<le> aw_now w then io_fail session_expired
         else
           io_bind (io_read (\<lambda>db. ok_or (find_admin_session (art_session_id t) db) session_expired)) (\<lambda>s.
           if asn_revoked_at s \<noteq> None then io_fail session_expired
           else
             io_bind (io_read (load_refresh_principal w s)) (\<lambda>(m, tn).
             io_bind (io_of (principal_usable m tn)) (\<lambda>_.
             io_return (t, s, m, tn))))))))"

definition update_session_user_agent_in_transaction :: "admin_world \<Rightarrow> uuid \<Rightarrow> unit admin_tx" where
  "update_session_user_agent_in_transaction w i =
     tx_modify (\<lambda>db. db\<lparr>ad_sessions := update_where (\<lambda>s. asn_id s = i)
       (\<lambda>s. s\<lparr>asn_user_agent := (case aw_user_agent w of None \<Rightarrow> asn_user_agent s | Some a \<Rightarrow> Some a)\<rparr>)
       (ad_sessions db)\<rparr>)"

definition admin_refresh_transaction ::
    "admin_world \<Rightarrow> uuid \<Rightarrow> uuid \<Rightarrow> string \<Rightarrow> time \<Rightarrow> admin_session admin_tx" where
  "admin_refresh_transaction w token session h expires =
     tx_bind (mark_admin_refresh_token_used_in_transaction w token) (\<lambda>_.
     tx_bind (create_admin_refresh_token_in_transaction w session h expires) (\<lambda>_.
     tx_bind (extend_admin_session_in_transaction w session expires) (\<lambda>s.
     tx_bind (update_session_user_agent_in_transaction w (asn_id s)) (\<lambda>_.
     tx_return s))))"

text \<open>Only the first statement can find a reuse; the rolled back session is then ended.\<close>

definition admin_refresh_rotate ::
    "admin_world \<Rightarrow> admin_refresh_token \<times> admin_session \<times> team_member \<times> tenant_row
      \<Rightarrow> admin_login_response admin_io" where
  "admin_refresh_rotate w checked =
     (case checked of (t, s, m, tn) \<Rightarrow>
      io_bind (io_of (refresh_token_hash w (aw_token w))) (\<lambda>h.
      let expires = aw_now w + seconds (ac_admin_session_ttl_seconds (aw_cfg w)) in
      (\<lambda>db. case commit (admin_refresh_transaction w (art_id t) (asn_id s) h expires) db of
         (Inl e, db') \<Rightarrow>
           if e = refresh_reuse_detected
           then io_bind (end_session w (art_session_id t)) (\<lambda>_. io_fail e) db'
           else (Inl e, db')
       | (Inr s', db') \<Rightarrow> session_answer w (m, tn) (asn_id s') db')))"

definition admin_refresh :: "admin_world \<Rightarrow> admin_login_response admin_io" where
  "admin_refresh w = io_bind (admin_refresh_check w) (admin_refresh_rotate w)"


section \<open>Logout and one's own sessions\<close>

definition admin_logout :: "admin_world \<Rightarrow> admin_principal \<Rightarrow> (string \<times> string \<times> string) admin_io" where
  "admin_logout w p =
     io_bind (end_session w (ap_session_id p)) (\<lambda>_.
     io_of (rs_bind (build_clear_session_cookie w) (\<lambda>a.
       rs_bind (build_clear_refresh_cookie w) (\<lambda>b.
       rs_bind (build_clear_csrf_cookie w) (\<lambda>c. Inr (a, b, c))))))"

record admin_session_view =
  asv_session :: admin_session
  asv_current :: bool
  asv_status :: string

definition own_session_response :: "admin_world \<Rightarrow> uuid \<Rightarrow> admin_session \<Rightarrow> admin_session_view" where
  "own_session_response w current s =
     \<lparr>asv_session = s, asv_current = (asn_id s = current),
      asv_status = (if asn_revoked_at s \<noteq> None then ''revoked''
        else if asn_expires_at s \<le> aw_now w then ''expired'' else ''active'')\<rparr>"

definition session_rank :: "time \<Rightarrow> admin_session \<Rightarrow> bool \<times> time \<times> uuid" where
  "session_rank now s =
     (asn_revoked_at s = None \<and> asn_expires_at s > now,
      case asn_last_seen_at s of Some t \<Rightarrow> t | None \<Rightarrow> asn_created_at s, asn_id s)"

definition list_sessions_for_member :: "admin_world \<Rightarrow> uuid \<Rightarrow> uuid \<Rightarrow> admin_db \<Rightarrow> admin_session list" where
  "list_sessions_for_member w tenant m db =
     take 50 (rev (sort_key (session_rank (aw_db_now w))
       (filter (\<lambda>s. asn_tenant_id s = tenant \<and> asn_team_member_id s = m) (ad_sessions db))))"

definition list_own_sessions :: "admin_world \<Rightarrow> admin_principal \<Rightarrow> admin_db \<Rightarrow> admin_session_view list" where
  "list_own_sessions w p db =
     map (own_session_response w (ap_session_id p))
       (list_sessions_for_member w (ap_tenant_id p) (ap_team_member_id p) db)"

definition admin_session_not_found :: app_error where
  "admin_session_not_found = NotFound ''admin session not found''"

definition session_revoke_audit ::
    "admin_world \<Rightarrow> admin_principal \<Rightarrow> admin_session \<Rightarrow> bool \<Rightarrow> int \<Rightarrow> audit_log_input" where
  "session_revoke_audit w p target revoked tokens =
     \<lparr>ai_tenant_id = Some (ap_tenant_id p), ai_actor_type = ''team_member'',
      ai_actor_id = Some (ap_team_member_id p), ai_action = ''admin_session.revoke'',
      ai_resource_type = ''admin_session'', ai_resource_id = Some (asn_id target),
      ai_ip = Some (client_ip (aw_ip_header w)), ai_user_agent = aw_user_agent w,
      ai_request_id = Some (aw_request_id w),
      ai_before_json = Some (JObject [(''id'', aw_uuid_json w (asn_id target)),
        (''created_at'', JString (aw_time_text w (asn_created_at target))),
        (''last_seen_at'', json_opt (JString \<circ> aw_time_text w) (asn_last_seen_at target)),
        (''expires_at'', JString (aw_time_text w (asn_expires_at target))),
        (''revoked_at'', json_opt (JString \<circ> aw_time_text w) (asn_revoked_at target))]),
      ai_after_json = Some (JObject [(''id'', aw_uuid_json w (asn_id target)), (''revoked'', JBool revoked)]),
      ai_metadata_json = JObject [(''revoked_refresh_tokens'', count_json tokens)]\<rparr>"

definition revoke_own_session :: "admin_world \<Rightarrow> admin_principal \<Rightarrow> uuid \<Rightarrow> (bool \<times> int) admin_io" where
  "revoke_own_session w p i =
     (if i = ap_session_id p
      then io_fail (BusinessRuleFailed ''current session cannot be revoked from session management'')
      else commit (
        tx_bind (tx_read (\<lambda>db. ok_or (find_admin_session i db) admin_session_not_found)) (\<lambda>target.
        if asn_tenant_id target \<noteq> ap_tenant_id p \<or> asn_team_member_id target \<noteq> ap_team_member_id p
        then tx_fail admin_session_not_found
        else if asn_revoked_at target \<noteq> None
        then tx_fail (AlreadyRevoked ''admin session already revoked'')
        else
          tx_bind (revoke_admin_session_in_transaction w i) (\<lambda>revoked.
          tx_bind (revoke_admin_refresh_tokens_for_session_in_transaction w i) (\<lambda>tokens.
          tx_bind (record_admin_audit w (session_revoke_audit w p target revoked tokens)) (\<lambda>_.
          tx_return (revoked, tokens)))))))"


section \<open>Clean-up\<close>

definition retention_seconds :: int where
  "retention_seconds = 30 * 24 * 60 * 60"

definition outdated_session :: "admin_world \<Rightarrow> admin_session \<Rightarrow> bool" where
  "outdated_session w s \<longleftrightarrow>
     asn_expires_at s < aw_db_now w - seconds retention_seconds
     \<or> (case asn_revoked_at s of None \<Rightarrow> False | Some t \<Rightarrow> t < aw_db_now w - seconds retention_seconds)"

definition delete_outdated_tokens :: "admin_world \<Rightarrow> admin_db \<Rightarrow> int \<times> admin_db" where
  "delete_outdated_tokens w db =
     (let Q = (\<lambda>t. list_ex (\<lambda>s. asn_id s = art_session_id t \<and> outdated_session w s) (ad_sessions db))
      in (count_where Q (ad_refresh_tokens db),
          db\<lparr>ad_refresh_tokens := filter (\<lambda>t. \<not> Q t) (ad_refresh_tokens db)\<rparr>))"

definition delete_outdated_sessions :: "admin_world \<Rightarrow> admin_db \<Rightarrow> int \<times> admin_db" where
  "delete_outdated_sessions w db =
     (count_where (outdated_session w) (ad_sessions db),
      db\<lparr>ad_sessions := filter (\<lambda>s. \<not> outdated_session w s) (ad_sessions db)\<rparr>)"

definition cleanup_admin_sessions :: "admin_world \<Rightarrow> (int \<times> int) admin_io" where
  "cleanup_admin_sessions w =
     commit (tx_bind (tx_count (delete_outdated_tokens w)) (\<lambda>tokens.
       tx_bind (tx_count (delete_outdated_sessions w)) (\<lambda>sessions.
       tx_return (tokens, sessions))))"

end
