(* ===== verification/AdminAccounts.thy ===== *)
theory AdminAccounts
  imports AdminAccess
begin

text \<open>
  How an administrator's account changes: the second factor (\<open>auth/mfa.rs\<close>), the password
  (\<open>auth/password.rs\<close>), the address (\<open>auth/email_verify.rs\<close>), invitations
  (\<open>team/invitation.rs\<close>), the members of a team and their roles (\<open>team/admin.rs\<close>) and the
  roles with their permissions (\<open>iam/admin.rs\<close>). Where a handler checks something before its
  transaction, the two parts are definitions of their own.
\<close>


section \<open>The second factor\<close>

definition check_mfa_rate_limit :: "admin_world \<Rightarrow> admin_principal \<Rightarrow> unit admin_io" where
  "check_mfa_rate_limit w p =
     login_rate_limit w (mfa_key (aw_uuid_text w (ap_team_member_id p)) (client_ip (aw_ip_header w)))"

definition load_own_member :: "admin_principal \<Rightarrow> team_member admin_io" where
  "load_own_member p =
     io_read (\<lambda>db. ok_or (member_find_by_id (ap_tenant_id p) (ap_team_member_id p) db) user_not_found)"

definition decrypt_member_mfa_secret :: "admin_world \<Rightarrow> team_member \<Rightarrow> app_error + string" where
  "decrypt_member_mfa_secret w m =
     rs_bind (ok_or (tm_mfa_secret_encrypted m) mfa_secret_missing) (decrypt_secret_text w)"

definition team_member_mfa_audit_json :: "admin_world \<Rightarrow> team_member \<Rightarrow> json" where
  "team_member_mfa_audit_json w m =
     JObject [(''id'', aw_uuid_json w (tm_id m)), (''email'', JString (tm_email m)),
       (''mfa_enabled'', JBool (tm_mfa_enabled m)),
       (''mfa_secret_configured'', JBool (tm_mfa_secret_encrypted m \<noteq> None))]"

definition own_audit ::
    "admin_world \<Rightarrow> admin_principal \<Rightarrow> string \<Rightarrow> json option \<Rightarrow> json option \<Rightarrow> json \<Rightarrow> audit_log_input" where
  "own_audit w p action before_json after_json metadata =
     \<lparr>ai_tenant_id = Some (ap_tenant_id p), ai_actor_type = ''team_member'',
      ai_actor_id = Some (ap_team_member_id p), ai_action = action, ai_resource_type = ''team_member'',
      ai_resource_id = Some (ap_team_member_id p), ai_ip = None, ai_user_agent = None,
      ai_request_id = Some (aw_request_id w), ai_before_json = before_json, ai_after_json = after_json,
      ai_metadata_json = metadata\<rparr>"

definition recovery_code_count :: nat where "recovery_code_count = 10"

definition generate_recovery_codes :: "admin_world \<Rightarrow> string list" where
  "generate_recovery_codes w = map generate_recovery_code (take recovery_code_count (aw_recovery_draws w))"

fun hash_recovery_codes :: "admin_world \<Rightarrow> string list \<Rightarrow> app_error + string list" where
  "hash_recovery_codes w [] = Inr []"
| "hash_recovery_codes w (c # cs) =
     rs_bind (admin_hash_token w c) (\<lambda>h. rs_bind (hash_recovery_codes w cs) (\<lambda>hs. Inr (h # hs)))"

definition generate_base32_secret :: "admin_world \<Rightarrow> string" where
  "generate_base32_secret w = base32_encode (aw_secret_bytes w)"

text \<open>The answer of \<open>setup\<close>: the secret, the address for the authenticator, the recovery codes.\<close>

definition mfa_setup_transaction ::
    "admin_world \<Rightarrow> admin_principal \<Rightarrow> team_member \<Rightarrow> string \<Rightarrow> string list \<Rightarrow> unit admin_tx" where
  "mfa_setup_transaction w p m encrypted hashes =
     tx_bind (update_member_mfa_secret_in_transaction w (ap_tenant_id p) (ap_team_member_id p) (Some encrypted)) (\<lambda>_.
     tx_bind (replace_recovery_codes_in_transaction w (ap_tenant_id p) (ap_team_member_id p) hashes) (\<lambda>_.
     record_admin_audit w (own_audit w p ''team_member.mfa.setup'' (Some (team_member_mfa_audit_json w m))
       (Some (JObject [(''id'', aw_uuid_json w (ap_team_member_id p)), (''mfa_enabled'', JBool False),
          (''mfa_secret_configured'', JBool True), (''recovery_code_count'', count_json (int (length hashes)))]))
       (JObject []))))"

definition mfa_setup :: "admin_world \<Rightarrow> admin_principal \<Rightarrow> (string \<times> string \<times> string list) admin_io" where
  "mfa_setup w p =
     io_bind (load_own_member p) (\<lambda>m.
     if tm_mfa_enabled m then io_fail mfa_already_enabled
     else
       (let secret = generate_base32_secret w; codes = generate_recovery_codes w in
        io_bind (io_of (encrypt_secret_to_text w secret)) (\<lambda>encrypted.
        io_bind (io_of (hash_recovery_codes w codes)) (\<lambda>hashes.
        io_bind (commit (mfa_setup_transaction w p m encrypted hashes)) (\<lambda>_.
        io_return (secret, build_otpauth_url (ac_app_name (aw_cfg w)) (tm_email m) secret, codes))))))"

definition mfa_enable_transaction :: "admin_world \<Rightarrow> admin_principal \<Rightarrow> team_member \<Rightarrow> unit admin_tx" where
  "mfa_enable_transaction w p m =
     tx_bind (set_member_mfa_enabled_in_transaction w (ap_tenant_id p) (ap_team_member_id p) True) (\<lambda>updated.
     record_admin_audit w (own_audit w p ''team_member.mfa.enable'' (Some (team_member_mfa_audit_json w m))
       (Some (team_member_mfa_audit_json w updated)) (JObject [])))"

definition mfa_enable :: "admin_world \<Rightarrow> admin_principal \<Rightarrow> string \<Rightarrow> unit admin_io" where
  "mfa_enable w p code =
     io_bind (check_mfa_rate_limit w p) (\<lambda>_.
     io_bind (load_own_member p) (\<lambda>m.
     if tm_mfa_enabled m then io_fail mfa_already_enabled
     else
       io_bind (io_of (decrypt_member_mfa_secret w m)) (\<lambda>secret.
       io_bind (io_of (verify_totp_code (aw_hmac_sha1 w) (aw_now w) secret code)) (\<lambda>ok.
       if \<not> ok then io_fail mfa_failed else commit (mfa_enable_transaction w p m)))))"

definition verify_mfa_code_in_transaction ::
    "admin_world \<Rightarrow> uuid \<Rightarrow> uuid \<Rightarrow> string \<Rightarrow> string \<Rightarrow> unit admin_tx" where
  "verify_mfa_code_in_transaction w tenant m secret code =
     tx_bind (tx_of (verify_totp_code (aw_hmac_sha1 w) (aw_now w) secret code)) (\<lambda>ok.
     if ok then tx_return ()
     else (case normalize_recovery_code code of
         None \<Rightarrow> tx_fail mfa_failed
       | Some recovery \<Rightarrow>
           tx_bind (tx_of (admin_hash_token w recovery)) (\<lambda>h.
           tx_bind (consume_recovery_code_in_transaction w tenant m h) (\<lambda>used.
           if used then tx_return () else tx_fail mfa_failed))))"

text \<open>What \<open>disable\<close> and \<open>regenerate_recovery_codes\<close> ask for first.\<close>

definition confirm_second_factor :: "admin_world \<Rightarrow> admin_principal \<Rightarrow> string \<Rightarrow> (team_member \<times> string) admin_io" where
  "confirm_second_factor w p password =
     io_bind (check_mfa_rate_limit w p) (\<lambda>_.
     io_bind (load_own_member p) (\<lambda>m.
     if \<not> tm_mfa_enabled m then io_fail mfa_not_enabled
     else
       io_bind (io_of (verify_password (aw_parse_hash w) password (tm_password_hash m))) (\<lambda>ok.
       if \<not> ok then io_fail invalid_credentials
       else io_bind (io_of (decrypt_member_mfa_secret w m)) (\<lambda>secret. io_return (m, secret)))))"

definition mfa_disable :: "admin_world \<Rightarrow> admin_principal \<Rightarrow> string \<Rightarrow> string \<Rightarrow> unit admin_io" where
  "mfa_disable w p password code =
     io_bind (confirm_second_factor w p password) (\<lambda>(m, secret).
     commit (
       tx_bind (verify_mfa_code_in_transaction w (ap_tenant_id p) (ap_team_member_id p) secret code) (\<lambda>_.
       tx_bind (disable_member_mfa_in_transaction w (ap_tenant_id p) (ap_team_member_id p)) (\<lambda>updated.
       tx_bind (revoke_recovery_codes_in_transaction w (ap_tenant_id p) (ap_team_member_id p)) (\<lambda>_.
       record_admin_audit w (own_audit w p ''team_member.mfa.disable'' (Some (team_member_mfa_audit_json w m))
         (Some (team_member_mfa_audit_json w updated)) (JObject [])))))))"

definition regenerate_recovery_codes ::
    "admin_world \<Rightarrow> admin_principal \<Rightarrow> string \<Rightarrow> string \<Rightarrow> string list admin_io" where
  "regenerate_recovery_codes w p password code =
     io_bind (confirm_second_factor w p password) (\<lambda>(m, secret).
     let codes = generate_recovery_codes w in
     io_bind (io_of (hash_recovery_codes w codes)) (\<lambda>hashes.
     io_bind (commit (
       tx_bind (verify_mfa_code_in_transaction w (ap_tenant_id p) (ap_team_member_id p) secret code) (\<lambda>_.
       tx_bind (replace_recovery_codes_in_transaction w (ap_tenant_id p) (ap_team_member_id p) hashes) (\<lambda>_.
       record_admin_audit w (own_audit w p ''team_member.mfa.recovery_codes.regenerate''
         (Some (team_member_mfa_audit_json w m))
         (Some (JObject [(''id'', aw_uuid_json w (ap_team_member_id p)), (''mfa_enabled'', JBool True),
            (''recovery_code_count'', count_json (int (length codes)))])) (JObject [])))))) (\<lambda>_.
     io_return codes)))"


section \<open>Passwords\<close>

text \<open>The two character classes are ASCII's, so a byte of a longer character is special.\<close>

definition ascii_letter :: "char \<Rightarrow> bool" where
  "ascii_letter c \<longleftrightarrow> (65 \<le> byte c \<and> byte c \<le> 90) \<or> (97 \<le> byte c \<and> byte c \<le> 122)"

definition weak_passwords :: "string list" where
  "weak_passwords = [''password'', ''password123'', ''password@123'', ''1234567890'', ''qwerty12345'',
     ''admin12345'']"

definition validate_new_password :: "string \<Rightarrow> app_error + unit" where
  "validate_new_password password =
     (if length password < 10 then Inl (ValidationFailed ''password must be at least 10 characters'')
      else if \<not> (list_ex ascii_letter password \<and> list_ex is_digit password
           \<and> list_ex (\<lambda>c. \<not> ascii_letter c \<and> \<not> is_digit c) password)
      then Inl (ValidationFailed ''password must include letters, digits, and special characters'')
      else if to_ascii_lowercase password \<in> set weak_passwords then Inl weak_password else Inr ())"

definition change_password :: "admin_world \<Rightarrow> admin_principal \<Rightarrow> string \<Rightarrow> string \<Rightarrow> int admin_io" where
  "change_password w p old new =
     io_bind (io_of (validate_new_password new)) (\<lambda>_.
     io_bind (load_own_member p) (\<lambda>m.
     io_bind (io_of (verify_password (aw_parse_hash w) old (tm_password_hash m))) (\<lambda>ok.
     if \<not> ok then io_fail invalid_credentials
     else
       io_bind (io_of (verify_password (aw_parse_hash w) new (tm_password_hash m))) (\<lambda>same.
       if same then io_fail (ValidationFailed ''new_password must be different from old_password'')
       else
         io_bind (io_of (hash_password w new)) (\<lambda>h.
         commit (
           tx_bind (update_member_password_in_transaction w (ap_tenant_id p) (ap_team_member_id p) h) (\<lambda>_.
           tx_bind (revoke_admin_sessions_in_transaction w (ap_tenant_id p) (ap_team_member_id p)
                      (Some (ap_session_id p))) (\<lambda>sessions.
           tx_bind (revoke_admin_refresh_tokens_in_transaction w (ap_tenant_id p) (ap_team_member_id p)
                      (Some (ap_session_id p))) (\<lambda>tokens.
           tx_bind (record_admin_audit w (own_audit w p ''team_member.password.change'' None
             (Some (JObject [(''id'', aw_uuid_json w (ap_team_member_id p)), (''email'', JString (ap_email p)),
                (''password_changed'', JBool True)]))
             (JObject [(''revoked_sessions'', count_json sessions),
                (''revoked_refresh_tokens'', count_json tokens)]))) (\<lambda>_.
           tx_return sessions))))))))))"

definition normalize_reset_email :: "admin_world \<Rightarrow> string \<Rightarrow> string option" where
  "normalize_reset_email w email =
     (let email = aw_lower w (trim email)
      in if CHR ''@'' \<in> set email \<and> length email \<le> 254 then Some email else None)"

definition admin_password_reset_purpose :: string where
  "admin_password_reset_purpose = ''admin_password_reset''"

text \<open>An entry with an anonymous actor on a team member.\<close>

definition anonymous_audit ::
    "admin_world \<Rightarrow> uuid \<Rightarrow> uuid \<Rightarrow> string \<Rightarrow> json option \<Rightarrow> json option \<Rightarrow> json \<Rightarrow> audit_log_input" where
  "anonymous_audit w tenant m action before_json after_json metadata =
     \<lparr>ai_tenant_id = Some tenant, ai_actor_type = ''anonymous'', ai_actor_id = None, ai_action = action,
      ai_resource_type = ''team_member'', ai_resource_id = Some m, ai_ip = None, ai_user_agent = None,
      ai_request_id = Some (aw_request_id w), ai_before_json = before_json, ai_after_json = after_json,
      ai_metadata_json = metadata\<rparr>"

definition hours :: "int \<Rightarrow> int" where
  "hours n = seconds (n * 3600)"

definition create_password_reset_for_candidate :: "admin_world \<Rightarrow> team_member \<Rightarrow> unit admin_io" where
  "create_password_reset_for_candidate w m =
     (let expires = aw_now w + hours 2 in
      io_bind (io_of (admin_hash_token w (aw_token w))) (\<lambda>h.
      commit (
        tx_bind (insert_one_time_token w (admin_db_error w ''auth password'') (tm_tenant_id m)
                   admin_password_reset_purpose (tm_id m) (tm_email m) h None expires) (\<lambda>token_id.
        tx_bind (enqueue_admin_password_reset_email w (tm_tenant_id m) (tm_email m) (aw_token w) expires) (\<lambda>event_id.
        record_admin_audit w (anonymous_audit w (tm_tenant_id m) (tm_id m) ''team_member.password_reset.request''
          None None (JObject [(''one_time_token_id'', aw_uuid_json w token_id),
            (''outbox_event_id'', aw_uuid_json w event_id)])))))))"

definition request_password_reset :: "admin_world \<Rightarrow> string \<Rightarrow> unit admin_io" where
  "request_password_reset w email =
     (let normalized = normalize_reset_email w email in
      io_bind (on_admin_redis (check_fixed_window (aw_fault w) (aw_now w)
          (login_key (aw_lower w) (case normalized of None \<Rightarrow> ''invalid-email'' | Some e \<Rightarrow> e)
             (client_ip (aw_ip_header w)))
          (ac_login_rate_limit_max (aw_cfg w)) (ac_login_rate_limit_window_seconds (aw_cfg w))
          password_reset_rate_limited)) (\<lambda>_.
      case normalized of
        None \<Rightarrow> io_return ()
      | Some e \<Rightarrow>
          io_bind (io_read (\<lambda>db. Inr (find_login_candidates w e db))) (\<lambda>candidates.
          case candidates of
            [(m, t)] \<Rightarrow> if tm_status m = ''active'' \<and> tn_status t = ''active''
              then create_password_reset_for_candidate w m else io_return ()
          | _ \<Rightarrow> io_return ())))"

definition normalize_one_time_token :: "string \<Rightarrow> app_error + string" where
  "normalize_one_time_token token =
     (if trim token = [] then Inl (InvalidRequest ''token is required'') else Inr (trim token))"

definition team_member_audit_json :: "admin_world \<Rightarrow> team_member \<Rightarrow> json" where
  "team_member_audit_json w m =
     JObject [(''id'', aw_uuid_json w (tm_id m)), (''email'', JString (tm_email m)),
       (''status'', JString (tm_status m)), (''email_verified'', JBool (tm_email_verified m)),
       (''mfa_enabled'', JBool (tm_mfa_enabled m))]"

definition confirm_password_reset_transaction :: "admin_world \<Rightarrow> string \<Rightarrow> string \<Rightarrow> int admin_tx" where
  "confirm_password_reset_transaction w token_hash password_hash =
     tx_bind (find_token_subject w password_reset_token_invalid admin_password_reset_purpose token_hash)
       (\<lambda>(token_id, tenant, m, email).
     tx_bind (find_member_for_update tenant m) (\<lambda>found.
     tx_bind (tx_of (ok_or found user_not_found)) (\<lambda>before_row.
     tx_bind (update_member_password_in_transaction w tenant m password_hash) (\<lambda>_.
     tx_bind (consume_one_time_token w password_reset_token_invalid token_id) (\<lambda>_.
     tx_bind (revoke_admin_sessions_in_transaction w tenant m None) (\<lambda>sessions.
     tx_bind (revoke_admin_refresh_tokens_in_transaction w tenant m None) (\<lambda>tokens.
     tx_bind (record_admin_audit w (anonymous_audit w tenant m ''team_member.password_reset.confirm''
       (Some (team_member_audit_json w before_row))
       (Some (JObject [(''id'', aw_uuid_json w m), (''email'', JString email), (''password_changed'', JBool True)]))
       (JObject [(''one_time_token_id'', aw_uuid_json w token_id), (''revoked_sessions'', count_json sessions),
         (''revoked_refresh_tokens'', count_json tokens)]))) (\<lambda>_.
     tx_return sessions))))))))"

definition confirm_password_reset :: "admin_world \<Rightarrow> string \<Rightarrow> string \<Rightarrow> int admin_io" where
  "confirm_password_reset w token new =
     io_bind (io_of (normalize_one_time_token token)) (\<lambda>token.
     io_bind (io_of (validate_new_password new)) (\<lambda>_.
     io_bind (io_of (admin_hash_token w token)) (\<lambda>token_hash.
     io_bind (io_of (hash_password w new)) (\<lambda>password_hash.
     commit (confirm_password_reset_transaction w token_hash password_hash)))))"

text \<open>The command line's reset; its input comes from the environment.\<close>

record cli_reset_input =
  cli_email :: string
  cli_tenant_slug :: "string option"
  cli_new_password :: "string option"
  cli_disable_mfa :: bool

record cli_reset_result =
  clr_tenant_id :: uuid
  clr_team_member_id :: uuid
  clr_generated_password :: "string option"
  clr_revoked_sessions :: int
  clr_revoked_refresh_tokens :: int
  clr_mfa_disabled :: bool

definition cli_candidates ::
    "admin_world \<Rightarrow> string \<Rightarrow> string option \<Rightarrow> admin_db \<Rightarrow> (team_member \<times> tenant_row) list" where
  "cli_candidates w email slug db =
     [(m, t). m \<leftarrow> ad_members db, aw_db_lower w (tm_email m) = aw_db_lower w email \<and> tm_status m = ''active''
        \<and> tm_deleted_at m = None,
      t \<leftarrow> ad_tenants db, tn_id t = tm_tenant_id m \<and> tn_status t = ''active'' \<and> tn_deleted_at t = None
        \<and> (case slug of None \<Rightarrow> True | Some s \<Rightarrow> tn_slug t = s)]"

definition cli_disable_member_mfa :: "admin_world \<Rightarrow> uuid \<Rightarrow> uuid \<Rightarrow> bool admin_tx" where
  "cli_disable_member_mfa w tenant i =
     tx_bind (update_member w (admin_db_error w ''auth password'')
                (\<lambda>m. member_at tenant i m \<and> tm_mfa_enabled m)
                (\<lambda>m. m\<lparr>tm_mfa_enabled := False, tm_mfa_secret_encrypted := None\<rparr>)) (\<lambda>row.
     tx_return (row \<noteq> None))"

definition generate_cli_password :: "admin_world \<Rightarrow> string" where
  "generate_cli_password w = ''EntitleHub1!'' @ aw_token w"

definition cli_reset_transaction ::
    "admin_world \<Rightarrow> cli_reset_input \<Rightarrow> team_member \<times> tenant_row \<Rightarrow> string \<Rightarrow> string option \<Rightarrow> cli_reset_result admin_tx" where
  "cli_reset_transaction w input candidate password_hash generated =
     (let tenant = tn_id (snd candidate); m = tm_id (fst candidate) in
      tx_bind (find_member_for_update tenant m) (\<lambda>found.
      tx_bind (tx_of (ok_or found user_not_found)) (\<lambda>before_row.
      tx_bind (update_member_password_in_transaction w tenant m password_hash) (\<lambda>_.
      tx_bind (if cli_disable_mfa input then cli_disable_member_mfa w tenant m else tx_return False) (\<lambda>mfa_disabled.
      tx_bind (revoke_admin_sessions_in_transaction w tenant m None) (\<lambda>sessions.
      tx_bind (revoke_admin_refresh_tokens_in_transaction w tenant m None) (\<lambda>tokens.
      tx_bind (record_admin_audit w
        \<lparr>ai_tenant_id = Some tenant, ai_actor_type = ''system'', ai_actor_id = None,
         ai_action = ''team_member.password_reset.cli'', ai_resource_type = ''team_member'',
         ai_resource_id = Some m, ai_ip = None, ai_user_agent = None, ai_request_id = None,
         ai_before_json = Some (team_member_audit_json w before_row),
         ai_after_json = Some (JObject [(''id'', aw_uuid_json w m),
           (''email'', JString (tm_email (fst candidate))), (''password_changed'', JBool True),
           (''mfa_disabled'', JBool mfa_disabled)]),
         ai_metadata_json = JObject [(''tenant_slug'', JString (tn_slug (snd candidate))),
           (''revoked_sessions'', count_json sessions), (''revoked_refresh_tokens'', count_json tokens)]\<rparr>) (\<lambda>_.
      tx_return \<lparr>clr_tenant_id = tenant, clr_team_member_id = m, clr_generated_password = generated,
        clr_revoked_sessions = sessions, clr_revoked_refresh_tokens = tokens,
        clr_mfa_disabled = mfa_disabled\<rparr>))))))))"

definition reset_admin_password_cli :: "admin_world \<Rightarrow> cli_reset_input \<Rightarrow> cli_reset_result admin_io" where
  "reset_admin_password_cli w input =
     io_bind (io_of (ok_or (normalize_reset_email w (cli_email input)) (ValidationFailed ''email is invalid''))) (\<lambda>email.
     io_bind (io_of (case cli_new_password input of
         Some password \<Rightarrow> rs_bind (validate_new_password password) (\<lambda>_. Inr (password, None))
       | None \<Rightarrow> Inr (generate_cli_password w, Some (generate_cli_password w)))) (\<lambda>(password, generated).
     io_bind (io_of (hash_password w password)) (\<lambda>h.
     io_bind (io_read (\<lambda>db. Inr (cli_candidates w email (cli_tenant_slug input) db))) (\<lambda>candidates.
     case candidates of
       [] \<Rightarrow> io_fail user_not_found
     | [candidate] \<Rightarrow> commit (cli_reset_transaction w input candidate h generated)
     | _ \<Rightarrow> io_fail (Config
         ''multiple active admins match RESET_ADMIN_EMAIL; set RESET_ADMIN_TENANT_SLUG'')))))"


section \<open>The address\<close>

definition admin_email_verify_purpose :: string where
  "admin_email_verify_purpose = ''email_verify''"

definition email_verify_token_invalid :: app_error where
  "email_verify_token_invalid = TokenInvalid ''email verify token invalid''"

definition request_admin_email_verify :: "admin_world \<Rightarrow> admin_principal \<Rightarrow> time admin_io" where
  "request_admin_email_verify w p =
     io_bind (login_rate_limit w (email_verify_key (aw_uuid_text w (ap_team_member_id p))
                (client_ip (aw_ip_header w)))) (\<lambda>_.
     io_bind (load_own_member p) (\<lambda>m.
     if tm_email_verified m then io_fail (Conflict ''team member email already verified'')
     else
       io_bind (io_of (admin_hash_token w (aw_token w))) (\<lambda>h.
       let expires = aw_now w + hours 24 in
       io_bind (commit (
         tx_bind (insert_one_time_token w (admin_db_error w ''auth email verify'') (ap_tenant_id p)
                    admin_email_verify_purpose (ap_team_member_id p) (tm_email m) h
                    (Some (ap_team_member_id p)) expires) (\<lambda>token_id.
         tx_bind (enqueue_team_member_email_verify_email w (ap_tenant_id p) (tm_email m) (aw_token w) expires) (\<lambda>event_id.
         record_admin_audit w (own_audit w p ''team_member.email_verify.request'' None None
           (JObject [(''one_time_token_id'', aw_uuid_json w token_id),
             (''outbox_event_id'', aw_uuid_json w event_id)])))))) (\<lambda>_.
       io_return expires))))"

definition confirm_admin_email_verify :: "admin_world \<Rightarrow> string \<Rightarrow> team_member admin_io" where
  "confirm_admin_email_verify w token =
     io_bind (io_of (normalize_one_time_token token)) (\<lambda>token.
     io_bind (io_of (admin_hash_token w token)) (\<lambda>h.
     commit (
       tx_bind (find_token_subject w email_verify_token_invalid admin_email_verify_purpose h)
         (\<lambda>(token_id, tenant, i, email).
       tx_bind (find_member_for_update tenant i) (\<lambda>found.
       tx_bind (tx_of (ok_or found user_not_found)) (\<lambda>before_row.
       tx_bind (mark_member_email_verified w tenant i) (\<lambda>m.
       tx_bind (consume_one_time_token w email_verify_token_invalid token_id) (\<lambda>_.
       tx_bind (record_admin_audit w
         \<lparr>ai_tenant_id = Some tenant, ai_actor_type = ''team_member'', ai_actor_id = Some i,
          ai_action = ''team_member.email_verify.confirm'', ai_resource_type = ''team_member'',
          ai_resource_id = Some i, ai_ip = None, ai_user_agent = None,
          ai_request_id = Some (aw_request_id w),
          ai_before_json = Some (team_member_audit_json w before_row),
          ai_after_json = Some (team_member_audit_json w m),
          ai_metadata_json = JObject [(''one_time_token_id'', aw_uuid_json w token_id),
            (''email'', JString email)]\<rparr>) (\<lambda>_.
       tx_return m)))))))))"


section \<open>Invitations\<close>

definition team_invite_purpose :: string where "team_invite_purpose = ''team_invite''"

definition normalize_member_name :: "string \<Rightarrow> app_error + string" where
  "normalize_member_name name =
     (if trim name = [] \<or> length (trim name) > 100 then Inl (ValidationFailed ''name is invalid'')
      else Inr (trim name))"

definition invited_member_audit_json :: "admin_world \<Rightarrow> team_member \<Rightarrow> json" where
  "invited_member_audit_json w m =
     JObject [(''id'', aw_uuid_json w (tm_id m)), (''email'', JString (tm_email m)),
       (''name'', JString (tm_name m)), (''status'', JString (tm_status m)),
       (''email_verified'', JBool (tm_email_verified m))]"

definition accept_invitation_transaction ::
    "admin_world \<Rightarrow> string \<Rightarrow> string \<Rightarrow> string \<Rightarrow> team_member admin_tx" where
  "accept_invitation_transaction w token_hash name password_hash =
     tx_bind (find_token_subject w invite_token_invalid team_invite_purpose token_hash)
       (\<lambda>(token_id, tenant, i, email).
     tx_bind (find_invited_member_for_update tenant i) (\<lambda>found.
     tx_bind (tx_of (ok_or found invite_token_invalid)) (\<lambda>before_row.
     if \<not> eq_ignore_ascii_case (tm_email before_row) email then tx_fail invite_token_invalid
     else
       tx_bind (activate_invited_member w tenant i name password_hash) (\<lambda>m.
       tx_bind (consume_one_time_token w invite_token_invalid token_id) (\<lambda>_.
       tx_bind (record_admin_audit w (anonymous_audit w tenant i ''team_member.invite.accept''
         (Some (invited_member_audit_json w before_row)) (Some (invited_member_audit_json w m))
         (JObject [(''one_time_token_id'', aw_uuid_json w token_id)]))) (\<lambda>_.
       tx_return m))))))"

definition accept_invitation :: "admin_world \<Rightarrow> string \<Rightarrow> string \<Rightarrow> string \<Rightarrow> team_member admin_io" where
  "accept_invitation w token name password =
     io_bind (io_of (normalize_one_time_token token)) (\<lambda>token.
     io_bind (io_of (normalize_member_name name)) (\<lambda>name.
     io_bind (io_of (validate_new_password password)) (\<lambda>_.
     io_bind (io_of (admin_hash_token w token)) (\<lambda>token_hash.
     io_bind (io_of (hash_password w password)) (\<lambda>password_hash.
     commit (accept_invitation_transaction w token_hash name password_hash))))))"


section \<open>Team members and their roles\<close>

definition normalize_invite_email :: "admin_world \<Rightarrow> string \<Rightarrow> app_error + string" where
  "normalize_invite_email w email =
     (let email = aw_lower w (trim email)
      in if email = [] \<or> CHR ''@'' \<notin> set email then Inl (ValidationFailed ''email is invalid'') else Inr email)"

definition normalize_role_codes :: "admin_world \<Rightarrow> string list \<Rightarrow> app_error + string list" where
  "normalize_role_codes w codes =
     (let normalized = ordered_codes (filter (\<lambda>c. c \<noteq> []) (map (\<lambda>c. aw_lower w (trim c)) codes))
      in if normalized = [] then Inl (ValidationFailed ''at least one role is required'') else Inr normalized)"

definition resolve_roles :: "uuid \<Rightarrow> string list \<Rightarrow> admin_db \<Rightarrow> app_error + role_row list" where
  "resolve_roles tenant codes db =
     (let roles = role_find_by_codes tenant codes db
      in if length roles \<noteq> length codes then Inl (ValidationFailed ''role code is invalid'') else Inr roles)"

text \<open>\<open>delete\<close> and \<open>insert .. select\<close> on \<open>team_member_roles\<close>, whose key is the pair.\<close>

fun insert_member_roles :: "admin_world \<Rightarrow> uuid \<Rightarrow> uuid \<Rightarrow> role_row list \<Rightarrow> unit admin_tx" where
  "insert_member_roles w tenant i [] = tx_return ()"
| "insert_member_roles w tenant i (role # rest) =
     tx_bind (tx_read (\<lambda>db.
       let rows = [(tm_id m, rl_id r). m \<leftarrow> ad_members db, member_at tenant i m,
             r \<leftarrow> ad_roles db, rl_tenant_id r = tm_tenant_id m \<and> rl_id r = rl_id role \<and> rl_deleted_at r = None]
       in if distinct rows \<and> list_all (\<lambda>x. x \<notin> set (ad_member_roles db)) rows
          then Inr (ad_member_roles db @ rows) else Inl (admin_db_error w ''team admin''))) (\<lambda>t.
     tx_bind (tx_modify (\<lambda>db. db\<lparr>ad_member_roles := t\<rparr>)) (\<lambda>_.
     insert_member_roles w tenant i rest))"

definition replace_member_roles :: "admin_world \<Rightarrow> uuid \<Rightarrow> uuid \<Rightarrow> role_row list \<Rightarrow> unit admin_tx" where
  "replace_member_roles w tenant i roles =
     tx_bind (tx_modify (\<lambda>db. db\<lparr>ad_member_roles :=
       filter (\<lambda>(mi, _). \<not> list_ex (\<lambda>m. tm_id m = mi \<and> member_at tenant i m) (ad_members db))
         (ad_member_roles db)\<rparr>)) (\<lambda>_.
     insert_member_roles w tenant i roles)"

definition admin_has_owner_role :: "admin_principal \<Rightarrow> bool" where
  "admin_has_owner_role p \<longleftrightarrow> ''owner'' \<in> set (ap_roles p)"

definition owner_refused :: app_error where
  "owner_refused = Forbidden ''owner cannot be changed by non-owner''"

definition ensure_owner_target_allowed :: "admin_principal \<Rightarrow> string list \<Rightarrow> app_error + unit" where
  "ensure_owner_target_allowed p target =
     (if ''owner'' \<notin> set target \<or> admin_has_owner_role p then Inr () else Inl owner_refused)"

definition ensure_owner_role_change_allowed ::
    "admin_principal \<Rightarrow> string list \<Rightarrow> string list \<Rightarrow> app_error + unit" where
  "ensure_owner_role_change_allowed p current next_codes =
     (if \<not> (''owner'' \<in> set current \<or> ''owner'' \<in> set next_codes) \<or> admin_has_owner_role p then Inr ()
      else Inl owner_refused)"

definition ensure_owner_count_above_one :: "uuid \<Rightarrow> admin_db \<Rightarrow> app_error + unit" where
  "ensure_owner_count_above_one tenant db =
     (if active_owner_count tenant db \<le> 1
      then Inl (BusinessRuleFailed ''cannot remove or disable the last owner'') else Inr ())"

definition ensure_not_removing_last_owner ::
    "uuid \<Rightarrow> string list \<Rightarrow> string list \<Rightarrow> admin_db \<Rightarrow> app_error + unit" where
  "ensure_not_removing_last_owner tenant current next_codes db =
     (if ''owner'' \<in> set current \<and> ''owner'' \<notin> set next_codes
      then ensure_owner_count_above_one tenant db else Inr ())"

definition ensure_not_disabling_last_owner ::
    "uuid \<Rightarrow> team_member \<Rightarrow> string list \<Rightarrow> admin_db \<Rightarrow> app_error + unit" where
  "ensure_not_disabling_last_owner tenant m codes db =
     (if tm_status m \<noteq> ''active'' \<or> ''owner'' \<notin> set codes then Inr ()
      else ensure_owner_count_above_one tenant db)"

definition ensure_permission :: "admin_principal \<Rightarrow> string \<Rightarrow> app_error + unit" where
  "ensure_permission p code = ensure_admin_permission (admin_context_of p) code"

definition invite_transaction ::
    "admin_world \<Rightarrow> admin_principal \<Rightarrow> string \<Rightarrow> string list \<Rightarrow> role_row list \<Rightarrow> string \<Rightarrow> string \<Rightarrow> time
      \<Rightarrow> team_member admin_tx" where
  "invite_transaction w p email codes roles placeholder_hash token_hash expires =
     tx_bind (create_invited_member w (ap_tenant_id p) email placeholder_hash) (\<lambda>m.
     tx_bind (replace_member_roles w (ap_tenant_id p) (tm_id m) roles) (\<lambda>_.
     tx_bind (insert_one_time_token w (admin_db_error w ''team admin'') (ap_tenant_id p) team_invite_purpose
                (tm_id m) email token_hash (Some (ap_team_member_id p)) expires) (\<lambda>invitation_id.
     tx_bind (enqueue_team_invite_email w (ap_tenant_id p) email (aw_token w) expires) (\<lambda>event_id.
     tx_bind (record_admin_audit w ((own_audit w p ''team_member.invite'' None
       (Some (JObject [(''id'', aw_uuid_json w (tm_id m)), (''email'', JString (tm_email m)),
          (''status'', JString (tm_status m)), (''role_codes'', JArray (map JString codes))]))
       (JObject [(''invitation_id'', aw_uuid_json w invitation_id),
          (''outbox_event_id'', aw_uuid_json w event_id)]))\<lparr>ai_resource_id := Some (tm_id m)\<rparr>)) (\<lambda>_.
     tx_return m)))))"

text \<open>The answer is the new member and the token of the invitation.\<close>

definition invite_member ::
    "admin_world \<Rightarrow> admin_principal \<Rightarrow> string \<Rightarrow> string list \<Rightarrow> (team_member \<times> string \<times> time) admin_io" where
  "invite_member w p email role_codes =
     io_bind (io_of (ensure_permission p ''member:invite'')) (\<lambda>_.
     io_bind (io_of (normalize_invite_email w email)) (\<lambda>email.
     io_bind (io_of (normalize_role_codes w role_codes)) (\<lambda>codes.
     io_bind (io_read (resolve_roles (ap_tenant_id p) codes)) (\<lambda>roles.
     io_bind (io_read (\<lambda>db. Inr (member_find_by_email w (ap_tenant_id p) email db))) (\<lambda>existing.
     if existing \<noteq> None then io_fail duplicate_email
     else
       io_bind (io_of (hash_password w (aw_placeholder w))) (\<lambda>placeholder_hash.
       io_bind (io_of (admin_hash_token w (aw_token w))) (\<lambda>token_hash.
       let expires = aw_now w + hours 72 in
       io_bind (commit (invite_transaction w p email codes roles placeholder_hash token_hash expires)) (\<lambda>m.
       io_return (m, aw_token w, expires)))))))))"

text \<open>
  The checks of \<open>update_member_roles\<close> and \<open>disable_member\<close> read the database before the
  transaction begins; other requests can come in between.
\<close>

definition update_member_roles_check ::
    "admin_world \<Rightarrow> admin_principal \<Rightarrow> uuid \<Rightarrow> string list \<Rightarrow> (string list \<times> role_row list \<times> string list) admin_io" where
  "update_member_roles_check w p i role_codes =
     io_bind (io_of (ensure_permission p ''member:update'')) (\<lambda>_.
     io_bind (io_of (normalize_role_codes w role_codes)) (\<lambda>codes.
     io_bind (io_read (resolve_roles (ap_tenant_id p) codes)) (\<lambda>roles.
     io_bind (io_read (\<lambda>db. ok_or (member_find_by_id (ap_tenant_id p) i db) user_not_found)) (\<lambda>_.
     io_bind (io_read (\<lambda>db. Inr (list_role_codes_for_member (ap_tenant_id p) i db))) (\<lambda>current.
     io_bind (io_of (ensure_owner_role_change_allowed p current codes)) (\<lambda>_.
     io_bind (io_read (ensure_not_removing_last_owner (ap_tenant_id p) current codes)) (\<lambda>_.
     io_return (codes, roles, current))))))))"

definition update_member_roles_commit ::
    "admin_world \<Rightarrow> admin_principal \<Rightarrow> uuid \<Rightarrow> string list \<times> role_row list \<times> string list \<Rightarrow> unit admin_io" where
  "update_member_roles_commit w p i checked =
     (case checked of (codes, roles, current) \<Rightarrow>
      commit (
        tx_bind (replace_member_roles w (ap_tenant_id p) i roles) (\<lambda>_.
        record_admin_audit w ((own_audit w p ''team_member.roles.update''
          (Some (JObject [(''role_codes'', JArray (map JString current))]))
          (Some (JObject [(''role_codes'', JArray (map JString codes))])) (JObject []))
          \<lparr>ai_resource_id := Some i\<rparr>))))"

definition update_member_roles :: "admin_world \<Rightarrow> admin_principal \<Rightarrow> uuid \<Rightarrow> string list \<Rightarrow> unit admin_io" where
  "update_member_roles w p i role_codes =
     io_bind (update_member_roles_check w p i role_codes) (update_member_roles_commit w p i)"

definition disable_member_check :: "admin_principal \<Rightarrow> uuid \<Rightarrow> team_member admin_io" where
  "disable_member_check p i =
     io_bind (io_of (ensure_permission p ''member:disable'')) (\<lambda>_.
     io_bind (io_read (\<lambda>db. ok_or (member_find_by_id (ap_tenant_id p) i db) user_not_found)) (\<lambda>m.
     io_bind (io_read (\<lambda>db. Inr (list_role_codes_for_member (ap_tenant_id p) i db))) (\<lambda>current.
     io_bind (io_of (ensure_owner_target_allowed p current)) (\<lambda>_.
     io_bind (io_read (ensure_not_disabling_last_owner (ap_tenant_id p) m current)) (\<lambda>_.
     io_return m)))))"

definition disable_member_commit :: "admin_world \<Rightarrow> admin_principal \<Rightarrow> uuid \<Rightarrow> team_member \<Rightarrow> (team_member \<times> int) admin_io" where
  "disable_member_commit w p i m =
     commit (
       tx_bind (disable_member_in_transaction w (ap_tenant_id p) i) (\<lambda>found.
       tx_bind (tx_of (ok_or found (Conflict ''team member already disabled''))) (\<lambda>disabled.
       tx_bind (revoke_admin_sessions_in_transaction w (ap_tenant_id p) i None) (\<lambda>sessions.
       tx_bind (revoke_admin_refresh_tokens_in_transaction w (ap_tenant_id p) i None) (\<lambda>tokens.
       tx_bind (record_admin_audit w ((own_audit w p ''team_member.disable''
         (Some (JObject [(''status'', JString (tm_status m))]))
         (Some (JObject [(''status'', JString (tm_status disabled))]))
         (JObject [(''revoked_sessions'', count_json sessions), (''revoked_refresh_tokens'', count_json tokens)]))
         \<lparr>ai_resource_id := Some i\<rparr>)) (\<lambda>_.
       tx_return (disabled, sessions)))))))"

definition disable_member :: "admin_world \<Rightarrow> admin_principal \<Rightarrow> uuid \<Rightarrow> (team_member \<times> int) admin_io" where
  "disable_member w p i = io_bind (disable_member_check p i) (disable_member_commit w p i)"


section \<open>Roles and their permissions\<close>

record role_detail =
  rd_role :: role_row
  rd_permission_codes :: "string list"

definition iam_error :: "admin_world \<Rightarrow> app_error" where
  "iam_error w = admin_db_error w ''iam admin''"

definition role_name_char :: "char \<Rightarrow> bool" where
  "role_name_char c \<longleftrightarrow> ascii_letter c \<or> is_digit c \<or> c \<in> {CHR ''_'', CHR ''-''}"

definition normalize_role_code :: "string \<Rightarrow> app_error + string" where
  "normalize_role_code code =
     (let code = to_ascii_lowercase (trim code)
      in if code = [] \<or> length code > 64 \<or> \<not> list_all role_name_char code
         then Inl (ValidationFailed ''role code is invalid'') else Inr code)"

definition normalize_role_name :: "string \<Rightarrow> app_error + string" where
  "normalize_role_name name =
     (if trim name = [] \<or> length (trim name) > 100 then Inl (ValidationFailed ''role name is invalid'')
      else Inr (trim name))"

definition permission_char :: "char \<Rightarrow> bool" where
  "permission_char c \<longleftrightarrow> ascii_letter c \<or> is_digit c \<or> c \<in> {CHR ''_'', CHR ''-'', CHR '':'', CHR ''.''}"

definition normalize_permission_codes :: "string list \<Rightarrow> app_error + string list" where
  "normalize_permission_codes codes =
     (let codes = ordered_codes (filter (\<lambda>c. c \<noteq> []) (map trim codes))
      in if list_all (list_all permission_char) codes then Inr codes
         else Inl (ValidationFailed ''permission code is invalid''))"

abbreviation role_at :: "uuid \<Rightarrow> uuid \<Rightarrow> role_row \<Rightarrow> bool" where
  "role_at tenant i r \<equiv> rl_tenant_id r = tenant \<and> rl_id r = i \<and> rl_deleted_at r = None"

definition find_role_for_update :: "uuid \<Rightarrow> uuid \<Rightarrow> role_row admin_tx" where
  "find_role_for_update tenant i =
     tx_read (\<lambda>db. ok_or (List.find (role_at tenant i) (ad_roles db)) (NotFound ''role not found''))"

definition ensure_custom_role :: "role_row \<Rightarrow> app_error + unit" where
  "ensure_custom_role r =
     (if rl_builtin r then Inl (Conflict ''builtin role cannot be changed'') else Inr ())"

definition ensure_role_code_available :: "uuid \<Rightarrow> string \<Rightarrow> unit admin_tx" where
  "ensure_role_code_available tenant code =
     tx_read (\<lambda>db. if list_ex (\<lambda>r. rl_tenant_id r = tenant \<and> rl_code r = code \<and> rl_deleted_at r = None) (ad_roles db)
                   then Inl (Conflict ''role code already exists'') else Inr ())"

definition role_clash :: "role_row \<Rightarrow> role_row \<Rightarrow> bool" where
  "role_clash r q \<longleftrightarrow> rl_id r = rl_id q
     \<or> (rl_tenant_id r = rl_tenant_id q \<and> rl_code r = rl_code q \<and> rl_deleted_at r = None \<and> rl_deleted_at q = None)"

definition insert_role :: "admin_world \<Rightarrow> uuid \<Rightarrow> string \<Rightarrow> string \<Rightarrow> string option \<Rightarrow> role_row admin_tx" where
  "insert_role w tenant code name description =
     (let row = \<lparr>rl_id = aw_role_id w, rl_tenant_id = tenant, rl_code = code, rl_name = name,
            rl_description = description, rl_builtin = False, rl_created_at = aw_db_now w,
            rl_updated_at = aw_db_now w, rl_deleted_at = None\<rparr>
      in tx_bind (tx_read (\<lambda>db. insert_row (\<lambda>_. True) role_clash (iam_error w) row (ad_roles db))) (\<lambda>t.
         tx_bind (tx_modify (\<lambda>db. db\<lparr>ad_roles := t\<rparr>)) (\<lambda>_. tx_return row)))"

definition update_role_row :: "admin_world \<Rightarrow> uuid \<Rightarrow> uuid \<Rightarrow> string \<Rightarrow> string option \<Rightarrow> role_row admin_tx" where
  "update_role_row w tenant i name description =
     tx_bind (tx_read (\<lambda>db. update_returning (\<lambda>_. True) (iam_error w) (role_at tenant i)
                (\<lambda>r. r\<lparr>rl_name := name, rl_description := description, rl_updated_at := aw_db_now w\<rparr>)
                (ad_roles db))) (\<lambda>(row, t).
     tx_bind (tx_modify (\<lambda>db. db\<lparr>ad_roles := t\<rparr>)) (\<lambda>_. tx_of (ok_or row (iam_error w))))"

definition soft_delete_role :: "admin_world \<Rightarrow> uuid \<Rightarrow> uuid \<Rightarrow> unit admin_tx" where
  "soft_delete_role w tenant i =
     tx_modify (\<lambda>db. db\<lparr>ad_roles := update_where (role_at tenant i)
       (\<lambda>r. r\<lparr>rl_deleted_at := Some (aw_db_now w), rl_updated_at := aw_db_now w\<rparr>) (ad_roles db)\<rparr>)"

definition resolve_permission_ids :: "string list \<Rightarrow> admin_db \<Rightarrow> app_error + uuid list" where
  "resolve_permission_ids codes db =
     (let rows = filter (\<lambda>p. pm_code p \<in> set codes) (ad_permissions db)
      in if length rows \<noteq> length codes
         then Inl (ValidationFailed ''permission_codes contain unknown code'') else Inr (map pm_id rows))"

fun insert_role_permissions :: "admin_world \<Rightarrow> uuid \<Rightarrow> uuid \<Rightarrow> uuid list \<Rightarrow> unit admin_tx" where
  "insert_role_permissions w tenant i [] = tx_return ()"
| "insert_role_permissions w tenant i (p # rest) =
     tx_bind (tx_read (\<lambda>db.
       let rows = map (\<lambda>r. (rl_id r, p)) (filter (role_at tenant i) (ad_roles db))
       in if distinct rows \<and> list_all (\<lambda>x. x \<notin> set (ad_role_permissions db)) rows
          then Inr (ad_role_permissions db @ rows) else Inl (iam_error w))) (\<lambda>t.
     tx_bind (tx_modify (\<lambda>db. db\<lparr>ad_role_permissions := t\<rparr>)) (\<lambda>_.
     insert_role_permissions w tenant i rest))"

definition replace_role_permissions :: "admin_world \<Rightarrow> uuid \<Rightarrow> uuid \<Rightarrow> string list \<Rightarrow> unit admin_tx" where
  "replace_role_permissions w tenant i codes =
     tx_bind (tx_read (resolve_permission_ids codes)) (\<lambda>ids.
     tx_bind (tx_modify (\<lambda>db. db\<lparr>ad_role_permissions :=
       filter (\<lambda>(ri, _). \<not> list_ex (\<lambda>r. rl_id r = ri \<and> role_at tenant i r) (ad_roles db))
         (ad_role_permissions db)\<rparr>)) (\<lambda>_.
     insert_role_permissions w tenant i ids))"

definition list_permission_codes_for_role :: "uuid \<Rightarrow> uuid \<Rightarrow> admin_db \<Rightarrow> string list" where
  "list_permission_codes_for_role tenant i db =
     foldr insert_sorted [pm_code p. r \<leftarrow> ad_roles db, role_at tenant i r,
       (ri, perm) \<leftarrow> ad_role_permissions db, ri = rl_id r, p \<leftarrow> ad_permissions db, pm_id p = perm] []"

definition hydrate_role :: "uuid \<Rightarrow> role_row \<Rightarrow> role_detail admin_tx" where
  "hydrate_role tenant r =
     tx_read (\<lambda>db. Inr \<lparr>rd_role = r, rd_permission_codes = list_permission_codes_for_role tenant (rl_id r) db\<rparr>)"

definition ensure_role_unassigned :: "uuid \<Rightarrow> uuid \<Rightarrow> unit admin_tx" where
  "ensure_role_unassigned tenant i =
     tx_read (\<lambda>db. if [() . (mi, ri) \<leftarrow> ad_member_roles db, ri = i,
          r \<leftarrow> ad_roles db, rl_id r = ri \<and> rl_tenant_id r = tenant,
          m \<leftarrow> ad_members db, tm_id m = mi \<and> tm_tenant_id m = rl_tenant_id r] \<noteq> []
        then Inl (Conflict ''assigned role cannot be deleted'') else Inr ())"

definition role_audit_json :: "admin_world \<Rightarrow> role_detail \<Rightarrow> json" where
  "role_audit_json w d =
     (let r = rd_role d in
      JObject [(''id'', aw_uuid_json w (rl_id r)), (''code'', JString (rl_code r)),
        (''name'', JString (rl_name r)), (''description'', json_opt JString (rl_description r)),
        (''builtin'', JBool (rl_builtin r)),
        (''permission_codes'', JArray (map JString (rd_permission_codes d)))])"

definition audit_role_change ::
    "admin_world \<Rightarrow> admin_principal \<Rightarrow> string \<Rightarrow> role_detail option \<Rightarrow> role_detail option \<Rightarrow> unit admin_tx" where
  "audit_role_change w p action before_role after_role =
     record_admin_audit w
       \<lparr>ai_tenant_id = Some (ap_tenant_id p), ai_actor_type = ''team_member'',
        ai_actor_id = Some (ap_team_member_id p), ai_action = action, ai_resource_type = ''role'',
        ai_resource_id = map_option (rl_id \<circ> rd_role) (case before_role of Some d \<Rightarrow> Some d | None \<Rightarrow> after_role),
        ai_ip = None, ai_user_agent = None, ai_request_id = Some (aw_request_id w),
        ai_before_json = map_option (role_audit_json w) before_role,
        ai_after_json = map_option (role_audit_json w) after_role, ai_metadata_json = JObject []\<rparr>"

definition create_role ::
    "admin_world \<Rightarrow> admin_principal \<Rightarrow> string \<Rightarrow> string \<Rightarrow> string option \<Rightarrow> string list \<Rightarrow> role_detail admin_io" where
  "create_role w p code name description permissions =
     io_bind (io_of (ensure_permission p ''role:create'')) (\<lambda>_.
     io_bind (io_of (normalize_role_code code)) (\<lambda>code.
     io_bind (io_of (normalize_role_name name)) (\<lambda>name.
     io_bind (io_of (normalize_permission_codes permissions)) (\<lambda>codes.
     commit (
       tx_bind (ensure_role_code_available (ap_tenant_id p) code) (\<lambda>_.
       tx_bind (insert_role w (ap_tenant_id p) code name (trimmed description)) (\<lambda>r.
       tx_bind (replace_role_permissions w (ap_tenant_id p) (rl_id r) codes) (\<lambda>_.
       tx_bind (hydrate_role (ap_tenant_id p) r) (\<lambda>d.
       tx_bind (audit_role_change w p ''role.create'' None (Some d)) (\<lambda>_.
       tx_return d))))))))))"

definition update_role ::
    "admin_world \<Rightarrow> admin_principal \<Rightarrow> uuid \<Rightarrow> string \<Rightarrow> string option \<Rightarrow> string list \<Rightarrow> role_detail admin_io" where
  "update_role w p i name description permissions =
     io_bind (io_of (ensure_permission p ''role:update'')) (\<lambda>_.
     io_bind (io_of (normalize_role_name name)) (\<lambda>name.
     io_bind (io_of (normalize_permission_codes permissions)) (\<lambda>codes.
     commit (
       tx_bind (find_role_for_update (ap_tenant_id p) i) (\<lambda>row.
       tx_bind (tx_of (ensure_custom_role row)) (\<lambda>_.
       tx_bind (hydrate_role (ap_tenant_id p) row) (\<lambda>before_role.
       tx_bind (update_role_row w (ap_tenant_id p) i name (trimmed description)) (\<lambda>r.
       tx_bind (replace_role_permissions w (ap_tenant_id p) (rl_id r) codes) (\<lambda>_.
       tx_bind (hydrate_role (ap_tenant_id p) r) (\<lambda>d.
       tx_bind (audit_role_change w p ''role.update'' (Some before_role) (Some d)) (\<lambda>_.
       tx_return d)))))))))))"

definition delete_role :: "admin_world \<Rightarrow> admin_principal \<Rightarrow> uuid \<Rightarrow> unit admin_io" where
  "delete_role w p i =
     io_bind (io_of (ensure_permission p ''role:delete'')) (\<lambda>_.
     commit (
       tx_bind (find_role_for_update (ap_tenant_id p) i) (\<lambda>row.
       tx_bind (tx_of (ensure_custom_role row)) (\<lambda>_.
       tx_bind (ensure_role_unassigned (ap_tenant_id p) i) (\<lambda>_.
       tx_bind (hydrate_role (ap_tenant_id p) row) (\<lambda>before_role.
       tx_bind (soft_delete_role w (ap_tenant_id p) i) (\<lambda>_.
       audit_role_change w p ''role.delete'' (Some before_role) None)))))))"

end
