(* ===== verification/AdminRuns.thy ===== *)
theory AdminRuns
  imports AdminAccounts
begin

text \<open>
  Administrators over whole runs of the server: the requests of \<open>AdminAccess\<close> and
  \<open>AdminAccounts\<close> in any order, by anybody, with those handlers that check before their
  transaction also in two parts. What has ended stays ended: a revoked session, a used recovery
  code, a consumed token. A tenant keeps an active owner as long as the changes of roles and
  the disabling of members are not interleaved, and can lose its last one when they are.
\<close>


section \<open>Requests\<close>

datatype admin_request =
    Log_in admin_login_request
  | Refresh_check
  | Refresh_rotate "admin_refresh_token \<times> admin_session \<times> team_member \<times> tenant_row"
  | Log_out admin_principal
  | Revoke_own_session admin_principal uuid
  | Clean_up
  | Set_up_mfa admin_principal
  | Enable_mfa admin_principal string
  | Disable_mfa admin_principal string string
  | Regenerate_codes admin_principal string string
  | Change_password admin_principal string string
  | Request_reset string
  | Confirm_reset string string
  | Reset_from_cli cli_reset_input
  | Request_verify admin_principal
  | Confirm_verify string
  | Accept_invitation string string string
  | Invite admin_principal string "string list"
  | Change_roles admin_principal uuid "string list"
  | Disable admin_principal uuid
  | Create_role admin_principal string string "string option" "string list"
  | Update_role admin_principal uuid string "string option" "string list"
  | Delete_role admin_principal uuid
  | Commit_roles admin_principal uuid "string list \<times> role_row list \<times> string list"
  | Commit_disable admin_principal uuid team_member

text \<open>
  The last two are the transactions of \<open>update_member_roles\<close> and \<open>disable_member\<close> alone,
  with whatever their checks may have found at an earlier time.
\<close>

fun interleaved :: "admin_request \<Rightarrow> bool" where
  "interleaved (Commit_roles p i c) = True"
| "interleaved (Commit_disable p i m) = True"
| "interleaved r = False"

fun perform :: "admin_world \<Rightarrow> admin_request \<Rightarrow> admin_db \<Rightarrow> admin_db" where
  "perform w (Log_in p) db = snd (admin_login w p db)"
| "perform w Refresh_check db = snd (admin_refresh_check w db)"
| "perform w (Refresh_rotate c) db = snd (admin_refresh_rotate w c db)"
| "perform w (Log_out p) db = snd (admin_logout w p db)"
| "perform w (Revoke_own_session p i) db = snd (revoke_own_session w p i db)"
| "perform w Clean_up db = snd (cleanup_admin_sessions w db)"
| "perform w (Set_up_mfa p) db = snd (mfa_setup w p db)"
| "perform w (Enable_mfa p code) db = snd (mfa_enable w p code db)"
| "perform w (Disable_mfa p password code) db = snd (mfa_disable w p password code db)"
| "perform w (Regenerate_codes p password code) db = snd (regenerate_recovery_codes w p password code db)"
| "perform w (Change_password p old new) db = snd (change_password w p old new db)"
| "perform w (Request_reset email) db = snd (request_password_reset w email db)"
| "perform w (Confirm_reset token new) db = snd (confirm_password_reset w token new db)"
| "perform w (Reset_from_cli input) db = snd (reset_admin_password_cli w input db)"
| "perform w (Request_verify p) db = snd (request_admin_email_verify w p db)"
| "perform w (Confirm_verify token) db = snd (confirm_admin_email_verify w token db)"
| "perform w (Accept_invitation token name password) db = snd (accept_invitation w token name password db)"
| "perform w (Invite p email codes) db = snd (invite_member w p email codes db)"
| "perform w (Change_roles p i codes) db = snd (update_member_roles w p i codes db)"
| "perform w (Disable p i) db = snd (disable_member w p i db)"
| "perform w (Create_role p code name d codes) db = snd (create_role w p code name d codes db)"
| "perform w (Update_role p i name d codes) db = snd (update_role w p i name d codes db)"
| "perform w (Delete_role p i) db = snd (delete_role w p i db)"
| "perform w (Commit_roles p i checked) db = snd (update_member_roles_commit w p i checked db)"
| "perform w (Commit_disable p i m) db = snd (disable_member_commit w p i m db)"

fun admin_run :: "(admin_world \<times> admin_request) list \<Rightarrow> admin_db \<Rightarrow> admin_db" where
  "admin_run [] db = db"
| "admin_run ((w, r) # run) db = admin_run run (perform w r db)"


section \<open>What the statements keep, the requests keep\<close>

definition keeps_member :: "(team_member \<Rightarrow> team_member) \<Rightarrow> bool" where
  "keeps_member f \<longleftrightarrow> (\<forall>m. tm_id (f m) = tm_id m \<and> tm_tenant_id (f m) = tm_tenant_id m
     \<and> tm_deleted_at (f m) = tm_deleted_at m \<and> (tm_status m = ''active'' \<longrightarrow> tm_status (f m) = ''active''))"

text \<open>
  The statements of the handlers, for a relation that does not look at refresh tokens, role
  permissions, the outbox, audit rows or redis. \<open>allowed\<close> says which worlds a run may take
  its ids and codes from.
\<close>

locale admin_statements = evolution R for R :: "admin_db \<Rightarrow> admin_db \<Rightarrow> bool" +
  fixes allowed :: "admin_world \<Rightarrow> bool"
  assumes frame: "ad_sessions t = ad_sessions s \<Longrightarrow> ad_recovery_codes t = ad_recovery_codes s \<Longrightarrow>
      ad_one_time_tokens t = ad_one_time_tokens s \<Longrightarrow> ad_members t = ad_members s \<Longrightarrow>
      ad_roles t = ad_roles s \<Longrightarrow> ad_member_roles t = ad_member_roles s \<Longrightarrow> R s t"
    and revoke_sessions: "R s (snd (revoke_sessions_where w P s))"
    and open_session: "allowed w \<Longrightarrow> tx_respects R (create_admin_session_in_transaction w tenant m ip e)"
    and extend_session: "tx_respects R (extend_admin_session_in_transaction w i e)"
    and user_agent: "tx_respects R (update_session_user_agent_in_transaction w i)"
    and delete_sessions: "R s (snd (delete_outdated_sessions w s))"
    and use_codes: "R s (snd (use_codes w tenant m h s))"
    and revoke_codes: "tx_respects R (revoke_recovery_codes_in_transaction w tenant m)"
    and insert_codes: "allowed w \<Longrightarrow> hash_recovery_codes w (generate_recovery_codes w) = Inr hs \<Longrightarrow>
      tx_respects R (insert_recovery_codes w tenant m (zip ids hs))"
    and insert_token: "tx_respects R (insert_one_time_token w err tenant purpose subject email h author expires)"
    and consume_token: "tx_respects R (consume_one_time_token w err i)"
    and edit_member: "keeps_member f \<Longrightarrow> tx_respects R (update_member w err C f)"
    and insert_role: "tx_respects R (insert_role w tenant code name d)"
    and edit_role: "tx_respects R (update_role_row w tenant i name d)"
begin

lemma count: "(\<And>s. R s (snd (f s))) \<Longrightarrow> tx_respects R (tx_count f)"
  by (auto simp: tx_respects_def tx_count_def) (metis snd_conv)

lemma io_counts: "(\<And>s. R s (snd (f s))) \<Longrightarrow> io_respects R (io_count f)"
  by (auto simp: io_respects_def io_count_def split: prod.split) (metis snd_conv)

lemma framed:
  assumes "\<And>s a t. m s = Inr (a, t) \<Longrightarrow> ad_sessions t = ad_sessions s \<and> ad_recovery_codes t = ad_recovery_codes s
    \<and> ad_one_time_tokens t = ad_one_time_tokens s \<and> ad_members t = ad_members s
    \<and> ad_roles t = ad_roles s \<and> ad_member_roles t = ad_member_roles s"
  shows "tx_respects R m"
  unfolding tx_respects_def using assms frame by blast

lemma audit: "tx_respects R (record_admin_audit w i)"
  by (rule framed) (auto simp: record_admin_audit_def tx_success)

lemma redis: "io_respects R (on_admin_redis m)"
  unfolding io_respects_def on_admin_redis_def by (auto intro!: frame split: prod.split)

lemma revoke_tokens: "R s (snd (revoke_tokens_where w P s))"
  by (rule frame) (simp_all add: revoke_tokens_where_def Let_def)

lemma new_token: "tx_respects R (create_admin_refresh_token_in_transaction w i h e)"
  by (rule framed) (auto simp: create_admin_refresh_token_in_transaction_def tx_success Let_def)

lemma token_used: "tx_respects R (mark_admin_refresh_token_used_in_transaction w i)"
  by (rule framed)
    (auto simp: mark_admin_refresh_token_used_in_transaction_def tx_success tx_count_def Let_def split: if_splits)

lemma delete_tokens: "R s (snd (delete_outdated_tokens w s))"
  by (rule frame) (simp_all add: delete_outdated_tokens_def Let_def)

lemma enqueue: "tx_respects R (enqueue_event_in_transaction w tenant ty payload)"
  by (rule framed) (auto simp: enqueue_event_in_transaction_def tx_success)

lemma insert_permissions: "tx_respects R (insert_role_permissions w tenant i ids)"
proof (induction ids)
  case (Cons a ids)
  have "tx_respects R (tx_modify (\<lambda>db. db\<lparr>ad_role_permissions := t\<rparr>))" for t
    by (rule framed) (auto simp: tx_success)
  with Cons show ?case by (auto intro!: respects)
qed (simp add: respects)

lemma replace_permissions: "tx_respects R (replace_role_permissions w tenant i codes)"
proof -
  have "tx_respects R (tx_modify (\<lambda>db. db\<lparr>ad_role_permissions := F db\<rparr>))" for F
    by (rule framed) (auto simp: tx_success)
  then show ?thesis unfolding replace_role_permissions_def by (auto intro!: respects insert_permissions)
qed

lemmas statements = respects respects_branches audit redis new_token token_used enqueue replace_permissions
  open_session extend_session user_agent revoke_codes insert_codes insert_token consume_token
  edit_member insert_role edit_role count io_counts revoke_sessions revoke_tokens delete_sessions
  delete_tokens use_codes

lemma members:
  "tx_respects R (update_member_password_in_transaction w tenant i h)"
  "tx_respects R (update_member_mfa_secret_in_transaction w tenant i secret)"
  "tx_respects R (set_member_mfa_enabled_in_transaction w tenant i enabled)"
  "tx_respects R (disable_member_mfa_in_transaction w tenant i)"
  "tx_respects R (cli_disable_member_mfa w tenant i)"
  "tx_respects R (mark_member_email_verified w tenant i)"
  "tx_respects R (activate_invited_member w tenant i name h)"
  unfolding update_member_password_in_transaction_def update_member_mfa_secret_in_transaction_def
    set_member_mfa_enabled_in_transaction_def disable_member_mfa_in_transaction_def
    cli_disable_member_mfa_def mark_member_email_verified_def activate_invited_member_def
  by (intro statements; simp add: keeps_member_def)+

lemma ends:
  "tx_respects R (revoke_admin_sessions_in_transaction w tenant m except)"
  "tx_respects R (revoke_admin_refresh_tokens_in_transaction w tenant m except)"
  "io_respects R (end_session w i)"
  unfolding revoke_admin_sessions_in_transaction_def revoke_admin_refresh_tokens_in_transaction_def
    end_session_def revoke_admin_session_def revoke_refresh_tokens_for_session_def
  by (intro statements)+

lemma emails:
  "tx_respects R (enqueue_admin_password_reset_email w tenant r t e)"
  "tx_respects R (enqueue_team_member_email_verify_email w tenant r t e)"
  "tx_respects R (enqueue_team_invite_email w tenant r t e)"
  unfolding enqueue_admin_password_reset_email_def enqueue_team_member_email_verify_email_def
    enqueue_team_invite_email_def enqueue_token_email_def
  by (intro statements)+

lemma reads:
  "tx_respects R (find_member_for_update tenant i)"
  "tx_respects R (find_invited_member_for_update tenant i)"
  "tx_respects R (find_token_subject w err purpose h)"
  "tx_respects R (find_role_for_update tenant i)"
  "tx_respects R (ensure_role_code_available tenant code)"
  "tx_respects R (hydrate_role tenant r)"
  "tx_respects R (ensure_role_unassigned tenant i)"
  "io_respects R (load_own_member p)"
  unfolding find_member_for_update_def find_invited_member_for_update_def find_token_subject_def
    find_role_for_update_def ensure_role_code_available_def hydrate_role_def ensure_role_unassigned_def
    load_own_member_def
  by (intro statements)+

lemma limits:
  "io_respects R (login_rate_limit w key)"
  "io_respects R (refresh_rate_limit w subject)"
  "io_respects R (check_mfa_rate_limit w p)"
  unfolding login_rate_limit_def refresh_rate_limit_def check_mfa_rate_limit_def by (intro statements)+

lemma refused: "io_respects R (refuse_login w who email reason e)"
proof -
  have "io_respects R (record_login_failure w tenant actor email reason)" for tenant actor
    using commit [OF audit] unfolding record_login_failure_def io_respects_def by simp
  then show ?thesis unfolding refuse_login_def by (intro statements)
qed

end


context admin_statements
begin

lemma io_pair: "(\<And>x y. io_respects R (f x y)) \<Longrightarrow> io_respects R (case z of (x, y) \<Rightarrow> f x y)"
  by (cases z) simp

lemma some_candidate:
  "io_respects R q \<Longrightarrow> (\<And>m t. io_respects R (f m t)) \<Longrightarrow>
    io_respects R (case candidates of [] \<Rightarrow> q | [(m, t)] \<Rightarrow> f m t | (m, t) # _ # _ \<Rightarrow> q)"
  by (auto split: list.split prod.split)

lemmas parts = io_pair statements members ends emails reads limits refused

lemma second_factor:
  "io_respects R (verify_member_mfa_code w tenant m encrypted code)"
  "tx_respects R (verify_mfa_code_in_transaction w tenant m secret code)"
  "io_respects R (login_second_factor w who given)"
  "io_respects R (confirm_second_factor w p password)"
proof -
  show v: "io_respects R (verify_member_mfa_code w tenant m encrypted code)" for tenant m encrypted code
    unfolding verify_member_mfa_code_def by (intro parts)
  show "tx_respects R (verify_mfa_code_in_transaction w tenant m secret code)"
    unfolding verify_mfa_code_in_transaction_def consume_recovery_code_in_transaction_def
    by (auto split: option.split intro!: parts)
  show "io_respects R (login_second_factor w who given)"
    unfolding login_second_factor_def Let_def by (intro parts v)
  show "io_respects R (confirm_second_factor w p password)"
    unfolding confirm_second_factor_def by (intro parts)
qed

lemma answer: "io_respects R (session_answer w who i)"
  unfolding session_answer_def Let_def by (intro parts)

lemma log_in:
  assumes "allowed w"
  shows "io_respects R (admin_login w p)"
proof -
  have "tx_respects R (admin_login_transaction w m h e)" for m h e
    unfolding admin_login_transaction_def by (intro parts assms)
  then show ?thesis
    unfolding admin_login_def login_session_def Let_def
    by (auto split: list.split intro!: parts second_factor answer)
qed

lemma refresh:
  "io_respects R (admin_refresh_check w)"
  "io_respects R (admin_refresh_rotate w checked)"
proof -
  show "io_respects R (admin_refresh_check w)"
    unfolding admin_refresh_check_def by (auto split: option.split intro!: parts)
  have tx: "tx_respects R (admin_refresh_transaction w t i h e)" for t i h e
    unfolding admin_refresh_transaction_def by (intro parts)
  have rotated: "R db (snd (case commit (admin_refresh_transaction w t i h e) db of
      (Inl err, db') \<Rightarrow> if err = refresh_reuse_detected
        then io_bind (end_session w j) (\<lambda>_. io_fail err) db' else (Inl err, db')
    | (Inr s, db') \<Rightarrow> session_answer w who (asn_id s) db'))" for db t i h e j who
  proof (cases "admin_refresh_transaction w t i h e db")
    case (Inl err)
    have "io_respects R (io_bind (end_session w j) (\<lambda>_. io_fail err))" by (intro parts)
    with Inl refl show ?thesis by (auto simp: commit_def io_respects_def)
  next
    case (Inr x)
    then obtain s db' where x: "x = (s, db')" by (cases x)
    with Inr tx have "R db db'" unfolding tx_respects_def by blast
    with trans answer [of w who "asn_id s"] Inr x show ?thesis
      unfolding io_respects_def by (auto simp: commit_def)
  qed
  show "io_respects R (admin_refresh_rotate w checked)"
    unfolding admin_refresh_rotate_def Let_def
    by (auto split: prod.split intro!: io_bind parts) (use rotated in \<open>simp add: io_respects_def\<close>)
qed

lemma own_sessions:
  "io_respects R (admin_logout w p)"
  "io_respects R (revoke_own_session w p i)"
  "io_respects R (cleanup_admin_sessions w)"
  unfolding admin_logout_def revoke_own_session_def cleanup_admin_sessions_def
    revoke_admin_session_in_transaction_def revoke_admin_refresh_tokens_for_session_in_transaction_def
  by (intro parts)+

lemma codes:
  assumes "allowed w"
  shows "io_respects R (mfa_setup w p)" and "io_respects R (mfa_enable w p code)"
    and "io_respects R (mfa_disable w p password code)"
    and "io_respects R (regenerate_recovery_codes w p password code)"
  unfolding mfa_setup_def mfa_setup_transaction_def mfa_enable_def mfa_enable_transaction_def
    mfa_disable_def regenerate_recovery_codes_def replace_recovery_codes_in_transaction_def Let_def
  by (intro io_bind_of parts second_factor assms; assumption)+

lemma accounts:
  "io_respects R (change_password w p old new)"
  "io_respects R (request_password_reset w email)"
  "io_respects R (confirm_password_reset w token new)"
  "io_respects R (reset_admin_password_cli w input)"
  "io_respects R (request_admin_email_verify w p)"
  "io_respects R (confirm_admin_email_verify w token)"
  "io_respects R (accept_invitation w token name password)"
  unfolding change_password_def request_password_reset_def create_password_reset_for_candidate_def
    confirm_password_reset_def confirm_password_reset_transaction_def reset_admin_password_cli_def
    cli_reset_transaction_def request_admin_email_verify_def confirm_admin_email_verify_def
    accept_invitation_def accept_invitation_transaction_def Let_def
  by (auto split: option.split list.split prod.split intro!: parts)

lemma roles:
  "io_respects R (create_role w p code name d codes)"
  "io_respects R (update_role w p i name d codes)"
  unfolding create_role_def update_role_def audit_role_change_def by (intro parts)+

end


text \<open>
  With the requests that look at the owners of a tenant first, every request of a run that is
  not interleaved respects the relation.
\<close>

locale admin_requests = admin_statements R allowed
  for R :: "admin_db \<Rightarrow> admin_db \<Rightarrow> bool" and allowed :: "admin_world \<Rightarrow> bool" +
  assumes invite: "io_respects R (invite_member w p email codes)"
    and change_roles: "io_respects R (update_member_roles w p i codes)"
    and disable: "io_respects R (disable_member w p i)"
    and delete_role: "io_respects R (delete_role w p i)"
begin

lemma performed:
  assumes "allowed w" and "\<not> interleaved r"
  shows "R db (perform w r db)"
  using assms log_in [of w] refresh [of w] own_sessions [of w] codes [of w] accounts [of w] roles [of w]
    invite [of w] change_roles [of w] disable [of w] delete_role [of w]
  by (cases r) (simp_all add: io_respects_def)

lemma run:
  assumes "list_all (\<lambda>(w, r). allowed w \<and> \<not> interleaved r) rs"
  shows "R db (admin_run rs db)"
  using assms
proof (induction rs arbitrary: db)
  case (Cons x rs)
  obtain w r where "x = (w, r)" by (cases x)
  with Cons performed [of w r db] show ?case by simp (blast intro: trans)
qed (simp add: refl)

end

text \<open>
  A relation that looks at sessions, codes and tokens only is also respected by the
  transactions that have lost sight of their checks.
\<close>

locale admin_watch = admin_statements R allowed
  for R :: "admin_db \<Rightarrow> admin_db \<Rightarrow> bool" and allowed :: "admin_world \<Rightarrow> bool" +
  assumes elsewhere: "ad_sessions t = ad_sessions s \<Longrightarrow> ad_recovery_codes t = ad_recovery_codes s \<Longrightarrow>
    ad_one_time_tokens t = ad_one_time_tokens s \<Longrightarrow> R s t"
begin

lemma writes_elsewhere:
  assumes "\<And>s a t. m s = Inr (a, t) \<Longrightarrow> ad_sessions t = ad_sessions s
    \<and> ad_recovery_codes t = ad_recovery_codes s \<and> ad_one_time_tokens t = ad_one_time_tokens s"
  shows "tx_respects R m"
  unfolding tx_respects_def using assms elsewhere by blast

lemma insert_roles: "tx_respects R (insert_member_roles w tenant i rs)"
proof (induction rs)
  case (Cons a rs)
  have "tx_respects R (tx_modify (\<lambda>db. db\<lparr>ad_member_roles := t\<rparr>))" for t
    by (rule writes_elsewhere) (auto simp: tx_success)
  with Cons show ?case by (auto intro!: parts)
qed (simp add: parts)

lemma team:
  "tx_respects R (replace_member_roles w tenant i rs)"
  "tx_respects R (create_invited_member w tenant email h)"
  "tx_respects R (disable_member_in_transaction w tenant i)"
  "tx_respects R (soft_delete_role w tenant i)"
proof -
  have "tx_respects R (tx_modify (\<lambda>db. db\<lparr>ad_member_roles := F db\<rparr>))" for F
    by (rule writes_elsewhere) (auto simp: tx_success)
  then show "tx_respects R (replace_member_roles w tenant i rs)"
    unfolding replace_member_roles_def by (auto intro!: parts insert_roles)
qed (auto intro!: writes_elsewhere simp: create_invited_member_def disable_member_in_transaction_def
    update_member_def soft_delete_role_def tx_success Let_def)

lemma commits:
  "io_respects R (invite_member w p email codes)"
  "io_respects R (update_member_roles_commit w p i checked)"
  "io_respects R (disable_member_commit w p i m)"
  "io_respects R (delete_role w p i)"
  unfolding invite_member_def invite_transaction_def update_member_roles_commit_def
    disable_member_commit_def delete_role_def audit_role_change_def Let_def
  by (intro parts team)+

lemma checks:
  "io_respects R (update_member_roles_check w p i codes)"
  "io_respects R (disable_member_check p i)"
  unfolding update_member_roles_check_def disable_member_check_def by (intro parts)+

end

sublocale admin_watch \<subseteq> admin_requests
  by unfold_locales
    (auto simp: update_member_roles_def disable_member_def intro!: parts commits checks)

context admin_watch
begin

lemma any_run:
  assumes "list_all (\<lambda>(w, r). allowed w) rs"
  shows "R db (admin_run rs db)"
  using assms
proof (induction rs arbitrary: db)
  case (Cons x rs)
  obtain w r where x: "x = (w, r)" by (cases x)
  have "R db (perform w r db)" if "interleaved r"
    using that commits [of w] by (cases r) (simp_all add: io_respects_def)
  with Cons x performed [of w r db] show ?case by simp (blast intro: trans)
qed (simp add: refl)

end


section \<open>What has ended stays ended\<close>

text \<open>The table each statement changes, and how.\<close>

lemma session_effects:
  "snd (revoke_sessions_where w P s) = s\<lparr>ad_sessions := update_where (\<lambda>x. P x \<and> asn_revoked_at x = None)
     (\<lambda>x. x\<lparr>asn_revoked_at := Some (aw_db_now w)\<rparr>) (ad_sessions s)\<rparr>"
  "create_admin_session_in_transaction w tenant m ip e s = Inr (x, t) \<Longrightarrow>
     \<exists>ip. t = s\<lparr>ad_sessions := ad_sessions s @ [new_admin_session w tenant m ip e]\<rparr>"
  "extend_admin_session_in_transaction w i e s = Inr (x, t) \<Longrightarrow>
     t = s\<lparr>ad_sessions := update_where (\<lambda>x. asn_id x = i \<and> asn_revoked_at x = None)
       (\<lambda>x. x\<lparr>asn_expires_at := e, asn_last_seen_at := Some (aw_db_now w)\<rparr>) (ad_sessions s)\<rparr>"
  "snd (delete_outdated_sessions w s) = s\<lparr>ad_sessions := filter (\<lambda>x. \<not> outdated_session w x) (ad_sessions s)\<rparr>"
  by (auto simp: revoke_sessions_where_def create_admin_session_in_transaction_def delete_outdated_sessions_def
      extend_admin_session_in_transaction_def tx_success insert_row_Inr update_returning_Inr Let_def)

lemma code_effects:
  "snd (use_codes w tenant m h s) = s\<lparr>ad_recovery_codes :=
     update_where (\<lambda>c. live_code tenant m c \<and> rc_code_hash c = h)
       (\<lambda>c. c\<lparr>rc_used_at := Some (aw_db_now w)\<rparr>) (ad_recovery_codes s)\<rparr>"
  "revoke_recovery_codes_in_transaction w tenant m s = Inr (x, t) \<Longrightarrow>
     t = s\<lparr>ad_recovery_codes := update_where (live_code tenant m)
       (\<lambda>c. c\<lparr>rc_revoked_at := Some (aw_db_now w)\<rparr>) (ad_recovery_codes s)\<rparr>"
  by (auto simp: use_codes_def revoke_recovery_codes_in_transaction_def tx_count_def Let_def)

lemma insert_codes_effect:
  "insert_recovery_codes w tenant m xs s = Inr (u, t) \<Longrightarrow>
     \<exists>cs. t = s\<lparr>ad_recovery_codes := ad_recovery_codes s @ cs\<rparr> \<and> rc_code_hash ` set cs \<subseteq> snd ` set xs"
proof (induction xs arbitrary: s)
  case Nil
  then show ?case by (auto simp: tx_success intro!: exI [of _ "[]"])
next
  case (Cons x xs)
  obtain i h where x: "x = (i, h)" by (cases x)
  let ?c = "\<lparr>rc_id = i, rc_tenant_id = tenant, rc_team_member_id = m, rc_code_hash = h,
    rc_used_at = None, rc_revoked_at = None, rc_created_at = aw_db_now w\<rparr>"
  from Cons.prems x have "insert_recovery_codes w tenant m xs
      (s\<lparr>ad_recovery_codes := ad_recovery_codes s @ [?c]\<rparr>) = Inr (u, t)"
    by (auto simp: tx_success insert_row_Inr)
  from Cons.IH [OF this] obtain cs where "t = s\<lparr>ad_recovery_codes := ad_recovery_codes s @ ?c # cs\<rparr>"
    and "rc_code_hash ` set cs \<subseteq> snd ` set xs" by auto
  with x show ?case by (intro exI [of _ "?c # cs"]) auto
qed

lemma token_effects:
  "insert_one_time_token w err tenant purpose subject email h author expires s = Inr (x, t) \<Longrightarrow>
     \<exists>r. t = s\<lparr>ad_one_time_tokens := ad_one_time_tokens s @ [r]\<rparr>
       \<and> ott_token_hash r \<notin> ott_token_hash ` set (ad_one_time_tokens s)"
  "consume_one_time_token w err i s = Inr (u, t) \<Longrightarrow>
     t = s\<lparr>ad_one_time_tokens := update_where (\<lambda>x. ott_id x = i \<and> live_one_time_token (aw_db_now w) x)
       (\<lambda>x. x\<lparr>ott_consumed_at := Some (aw_db_now w)\<rparr>) (ad_one_time_tokens s)\<rparr>"
  by (auto simp: insert_one_time_token_def consume_one_time_token_def tx_success insert_row_Inr tx_count_def
      Let_def one_time_token_clash_def list_all_iff split: if_splits)

lemma team_effects:
  "update_member w err C f s = Inr (x, t) \<Longrightarrow>
     t = s\<lparr>ad_members := update_where C (\<lambda>m. (f m)\<lparr>tm_updated_at := aw_db_now w\<rparr>) (ad_members s)\<rparr>"
  "insert_role w tenant code name d s = Inr (r, t) \<Longrightarrow>
     t = s\<lparr>ad_roles := ad_roles s @ [r]\<rparr> \<and> rl_code r = code \<and> rl_tenant_id r = tenant \<and> \<not> rl_builtin r
     \<and> list_all (\<lambda>x. \<not> role_clash r x) (ad_roles s) \<and> rl_deleted_at r = None"
  "update_role_row w tenant i name d s = Inr (r, t) \<Longrightarrow>
     t = s\<lparr>ad_roles := update_where (role_at tenant i)
       (\<lambda>r. r\<lparr>rl_name := name, rl_description := d, rl_updated_at := aw_db_now w\<rparr>) (ad_roles s)\<rparr>"
  by (auto simp: update_member_def insert_role_def update_role_row_def tx_success insert_row_Inr
      update_returning_Inr Let_def)

lemmas effects = session_effects code_effects insert_codes_effect token_effects team_effects

definition session_ended :: "uuid \<Rightarrow> admin_db \<Rightarrow> bool" where
  "session_ended i db \<longleftrightarrow> list_all (\<lambda>s. asn_id s = i \<longrightarrow> asn_revoked_at s \<noteq> None) (ad_sessions db)"

definition code_gone :: "uuid \<Rightarrow> uuid \<Rightarrow> string \<Rightarrow> admin_db \<Rightarrow> bool" where
  "code_gone tenant m h db \<longleftrightarrow>
     list_all (\<lambda>c. \<not> (live_code tenant m c \<and> rc_code_hash c = h)) (ad_recovery_codes db)"

definition token_spent :: "string \<Rightarrow> admin_db \<Rightarrow> bool" where
  "token_spent h db \<longleftrightarrow> h \<in> ott_token_hash ` set (ad_one_time_tokens db)
     \<and> list_all (\<lambda>t. ott_token_hash t = h \<longrightarrow> ott_consumed_at t \<noteq> None \<or> ott_revoked_at t \<noteq> None)
         (ad_one_time_tokens db)"

text \<open>A world whose fresh recovery codes do not have a given hash.\<close>

definition fresh_codes_avoid :: "string \<Rightarrow> admin_world \<Rightarrow> bool" where
  "fresh_codes_avoid h w \<longleftrightarrow>
     (case hash_recovery_codes w (generate_recovery_codes w) of Inl _ \<Rightarrow> True | Inr hs \<Rightarrow> h \<notin> set hs)"

lemma list_all_update:
  "list_all Q t \<Longrightarrow> (\<And>r. Q r \<Longrightarrow> P r \<Longrightarrow> Q (f r)) \<Longrightarrow> list_all Q (update_where P f t)"
  by (induction t) auto

lemma list_all_filter: "list_all Q t \<Longrightarrow> list_all Q (filter P t)"
  by (induction t) auto

interpretation gone: admin_watch "\<lambda>s t. session_ended i s \<longrightarrow> session_ended i t" "\<lambda>w. aw_session_id w \<noteq> i" for i
  by unfold_locales
    (auto simp: session_ended_def tx_respects_def session_effects(1,4) code_effects(1)
      update_session_user_agent_in_transaction_def tx_modify_Inr new_admin_session_def
      dest!: session_effects(2,3) code_effects(2) insert_codes_effect token_effects team_effects
      intro!: list_all_update list_all_filter)

lemma fresh_codes:
  assumes "code_gone tenant m h s" and "fresh_codes_avoid h w"
    and "hash_recovery_codes w (generate_recovery_codes w) = Inr hs"
    and "insert_recovery_codes w tenant' m' (zip ids hs) s = Inr (u, t)"
  shows "code_gone tenant m h t"
proof -
  from insert_codes_effect [OF assms(4)] obtain cs
    where t: "t = s\<lparr>ad_recovery_codes := ad_recovery_codes s @ cs\<rparr>"
      and cs: "rc_code_hash ` set cs \<subseteq> snd ` set (zip ids hs)" by blast
  have "snd ` set (zip ids hs) \<subseteq> set hs" by (auto dest: set_zip_rightD)
  with cs assms(2,3) have "h \<notin> rc_code_hash ` set cs" by (auto simp: fresh_codes_avoid_def)
  with t assms(1) show ?thesis by (auto simp: code_gone_def list_all_iff)
qed

interpretation used: admin_watch "\<lambda>s t. code_gone tenant m h s \<longrightarrow> code_gone tenant m h t" "fresh_codes_avoid h"
  for tenant m h
proof unfold_locales
  show "tx_respects (\<lambda>s t. code_gone tenant m h s \<longrightarrow> code_gone tenant m h t)
      (insert_recovery_codes w tenant' m' (zip ids hs))"
    if "fresh_codes_avoid h w" "hash_recovery_codes w (generate_recovery_codes w) = Inr hs"
    for w hs tenant' m' ids
    using fresh_codes that unfolding tx_respects_def by blast
qed (auto simp: code_gone_def tx_respects_def session_effects(1,4) code_effects(1) live_code_def
    update_session_user_agent_in_transaction_def tx_modify_Inr
    dest!: session_effects(2,3) code_effects(2) token_effects team_effects
    intro!: list_all_update)

lemma new_one_time_token:
  "token_spent h s \<Longrightarrow> insert_one_time_token w err tenant purpose subject email h' author expires s = Inr (x, t) \<Longrightarrow>
    token_spent h t"
  by (drule token_effects(1)) (auto simp: token_spent_def)

lemma consumed_token:
  "token_spent h s \<Longrightarrow> consume_one_time_token w err i s = Inr (u, t) \<Longrightarrow> token_spent h t"
  by (drule token_effects(2))
    (auto simp: token_spent_def set_update_where list_all_iff image_image live_one_time_token_def)

interpretation spent: admin_watch "\<lambda>s t. token_spent h s \<longrightarrow> token_spent h t" "\<lambda>_. True" for h
proof unfold_locales
  show "tx_respects (\<lambda>s t. token_spent h s \<longrightarrow> token_spent h t)
      (insert_one_time_token w err tenant purpose subject email h' author expires)"
    for w err tenant purpose subject email h' author expires
    using new_one_time_token unfolding tx_respects_def by blast
  show "tx_respects (\<lambda>s t. token_spent h s \<longrightarrow> token_spent h t) (consume_one_time_token w err i)" for w err i
    using consumed_token unfolding tx_respects_def by blast
qed (auto simp: token_spent_def tx_respects_def session_effects(1,4) code_effects(1)
    update_session_user_agent_in_transaction_def tx_modify_Inr
    dest!: session_effects(2,3) code_effects(2) insert_codes_effect team_effects)

end
