(* ===== verification/AdminSafety.thy ===== *)
theory AdminSafety
  imports AdminRuns
begin

text \<open>
  What the requests of administrators promise: who is let in at a login and by the middleware,
  and that a reset password, a used recovery code and a used reset token are final whatever
  requests follow. The sample world at the end makes these facts concrete.
\<close>


section \<open>The middleware\<close>

text \<open>A session that lets its member in at a given time.\<close>

definition usable_session :: "time \<Rightarrow> uuid \<Rightarrow> admin_db \<Rightarrow> bool" where
  "usable_session now i db \<longleftrightarrow>
     list_ex (\<lambda>s. asn_id s = i \<and> asn_revoked_at s = None \<and> asn_expires_at s > now) (ad_sessions db)"

lemma load_session_Some:
  assumes "load_session w i db = Some (s, m, t)"
  shows "s \<in> set (ad_sessions db)" and "asn_id s = i" and "asn_revoked_at s = None"
    and "asn_expires_at s > aw_db_now w" and "session_principal s db = Some (m, t)"
  using assms by (auto simp: load_session_def dest!: find_some split: option.splits)

lemma session_principal_Some:
  assumes "session_principal s db = Some (m, t)"
  shows "m \<in> set (ad_members db)" and "tm_id m = asn_team_member_id s" and "tm_tenant_id m = asn_tenant_id s"
    and "tm_deleted_at m = None" and "t \<in> set (ad_tenants db)" and "tn_id t = asn_tenant_id s"
    and "tn_deleted_at t = None"
proof -
  let ?rows = "[(m, t). m \<leftarrow> ad_members db, tm_id m = asn_team_member_id s \<and> tm_tenant_id m = asn_tenant_id s
    \<and> tm_deleted_at m = None, t \<leftarrow> ad_tenants db, tn_id t = asn_tenant_id s \<and> tn_deleted_at t = None]"
  from assms have "(m, t) \<in> set ?rows"
    unfolding session_principal_def by (cases ?rows) (simp_all only: list.case option.inject option.distinct, simp)
  then show "m \<in> set (ad_members db)" "tm_id m = asn_team_member_id s" "tm_tenant_id m = asn_tenant_id s"
    "tm_deleted_at m = None" "t \<in> set (ad_tenants db)" "tn_id t = asn_tenant_id s" "tn_deleted_at t = None"
    by (auto split: if_splits)
qed

lemma require_admin_session_Inr:
  assumes "require_admin_session w db = Inr p"
  obtains v s m t where "read_signed_session_cookie w = Inr (Some v)" and "aw_parse_uuid w v = Some (asn_id s)"
    and "load_session w (asn_id s) db = Some (s, m, t)" and "tm_status m = ''active''" and "tn_status t = ''active''"
    and "ap_session_id p = asn_id s" and "ap_team_member_id p = tm_id m" and "ap_tenant_id p = tm_tenant_id m"
    and "ap_roles p = list_role_codes_for_member (tm_tenant_id m) (tm_id m) db"
    and "ap_permissions p = list_permissions_for_member (tm_tenant_id m) (tm_id m) db"
proof -
  from assms obtain v i s m t where v: "read_signed_session_cookie w = Inr (Some v)" "aw_parse_uuid w v = Some i"
      "load_session w i db = Some (s, m, t)" "principal_usable m t = Inr ()"
    and p: "p = \<lparr>ap_session_id = asn_id s, ap_tenant_id = asn_tenant_id s,
       ap_team_member_id = asn_team_member_id s, ap_email = tm_email m, ap_name = tm_name m,
       ap_email_verified = tm_email_verified m, ap_mfa_enabled = tm_mfa_enabled m,
       ap_tenant_name = tn_name t,
       ap_roles = list_role_codes_for_member (asn_tenant_id s) (asn_team_member_id s) db,
       ap_permissions = list_permissions_for_member (asn_tenant_id s) (asn_team_member_id s) db\<rparr>"
    by (auto simp: require_admin_session_def rs_bind_Inr ok_or_Inr split: option.splits)
  note ls = load_session_Some [OF v(3)]
  from v(4) have "tm_status m = ''active''" "tn_status t = ''active''"
    by (auto simp: principal_usable_def split: if_splits)
  with that v ls session_principal_Some [OF ls(5)] p show thesis by auto
qed

text \<open>
  C35. The middleware lets a request in only with the signed cookie of a stored session that is
  neither revoked nor expired, of an active, undeleted member of an active, undeleted tenant, and
  the permissions it hands on are those of the member's roles at that moment.
\<close>

theorem admitted_session_is_live:
  assumes "require_admin_session w db = Inr p"
  shows "usable_session (aw_db_now w) (ap_session_id p) db
    \<and> (\<exists>v. read_signed_session_cookie w = Inr (Some v) \<and> aw_parse_uuid w v = Some (ap_session_id p))
    \<and> (\<exists>m \<in> set (ad_members db). tm_id m = ap_team_member_id p \<and> tm_tenant_id m = ap_tenant_id p
           \<and> tm_deleted_at m = None \<and> tm_status m = ''active'')
    \<and> (\<exists>t \<in> set (ad_tenants db). tn_id t = ap_tenant_id p \<and> tn_deleted_at t = None \<and> tn_status t = ''active'')
    \<and> ap_permissions p = list_permissions_for_member (ap_tenant_id p) (ap_team_member_id p) db"
proof -
  from assms obtain v s m t where *: "read_signed_session_cookie w = Inr (Some v)" "aw_parse_uuid w v = Some (asn_id s)"
    "load_session w (asn_id s) db = Some (s, m, t)" "tm_status m = ''active''" "tn_status t = ''active''"
    "ap_session_id p = asn_id s" "ap_team_member_id p = tm_id m" "ap_tenant_id p = tm_tenant_id m"
    "ap_permissions p = list_permissions_for_member (tm_tenant_id m) (tm_id m) db"
    by (rule require_admin_session_Inr)
  note ls = load_session_Some [OF *(3)]
  note sp = session_principal_Some [OF ls(5)]
  have "usable_session (aw_db_now w) (ap_session_id p) db"
    using ls(1,3,4) *(6) by (auto simp: usable_session_def list_ex_iff)
  moreover have "\<exists>m \<in> set (ad_members db). tm_id m = ap_team_member_id p \<and> tm_tenant_id m = ap_tenant_id p
      \<and> tm_deleted_at m = None \<and> tm_status m = ''active''"
    using * sp by auto
  moreover have "\<exists>t \<in> set (ad_tenants db). tn_id t = ap_tenant_id p \<and> tn_deleted_at t = None \<and> tn_status t = ''active''"
    using * sp by auto
  ultimately show ?thesis using *(1,2,6-9) by simp
qed

lemma ended_session_is_refused:
  assumes "session_ended i db" and "require_admin_session w db = Inr p"
  shows "ap_session_id p \<noteq> i"
  using assms(2)
proof (rule require_admin_session_Inr)
  fix v s m t
  assume "load_session w (asn_id s) db = Some (s, m, t)" and "ap_session_id p = asn_id s"
  with load_session_Some [of w "asn_id s" db s m t] assms(1) show ?thesis
    by (auto simp: session_ended_def list_all_iff)
qed


section \<open>Login\<close>

lemma redis_only: "snd (on_admin_redis f db) = db\<lparr>ad_redis := snd (f (ad_redis db))\<rparr>"
  by (simp add: on_admin_redis_def split: prod.split)

lemma login_limit_Inr: "login_rate_limit w key db = (Inr u, db') \<Longrightarrow> \<exists>r. db' = db\<lparr>ad_redis := r\<rparr>"
  unfolding login_rate_limit_def using redis_only [of _ db] by (metis snd_conv)

lemma admin_login_Inr:
  assumes "admin_login w q db = (Inr r, db')"
  obtains m t rd db1 where "find_login_candidates w (lgr_email q) (db\<lparr>ad_redis := rd\<rparr>) = [(m, t)]"
    and "tm_status m = ''active''" and "tn_status t = ''active''"
    and "verify_password (aw_parse_hash w) (lgr_password q) (tm_password_hash m) = Inr True"
    and "login_second_factor w (m, t) (lgr_mfa_code q) (db\<lparr>ad_redis := rd\<rparr>) = (Inr (), db1)"
    and "login_session w (m, t) db1 = (Inr r, db')"
proof -
  from assms obtain db0 where l: "login_rate_limit w (login_key (aw_lower w) (lgr_email q) (client_ip (aw_ip_header w))) db
      = (Inr (), db0)"
    and c: "(case find_login_candidates w (lgr_email q) db0 of
       [(m, t)] \<Rightarrow>
         if tm_status m \<noteq> ''active'' \<or> tn_status t \<noteq> ''active''
         then refuse_login w (Some (m, t)) (tm_email m) ''inactive_principal'' invalid_credentials
         else
           io_bind (io_of (verify_password (aw_parse_hash w) (lgr_password q) (tm_password_hash m))) (\<lambda>ok.
           if \<not> ok then refuse_login w (Some (m, t)) (tm_email m) ''invalid_password'' invalid_credentials
           else
             io_bind (login_second_factor w (m, t) (lgr_mfa_code q)) (\<lambda>_.
             login_session w (m, t)))
     | _ \<Rightarrow> refuse_login w None (lgr_email q) ''candidate_not_found'' invalid_credentials) db0 = (Inr r, db')"
    unfolding admin_login_def by (auto simp: io_bind_Inr io_read_Inr)
  from login_limit_Inr [OF l] obtain rd where db0: "db0 = db\<lparr>ad_redis := rd\<rparr>" by blast
  have refused: "refuse_login w who email reason e db0 \<noteq> (Inr r, db')" for who email reason e
    by (auto simp: refuse_login_def io_bind_Inr io_fail_Inr)
  from c refused obtain m t where f: "find_login_candidates w (lgr_email q) db0 = [(m, t)]"
    by (auto split: list.splits)
  from c [unfolded f] refused show thesis
    by (auto simp: io_bind_Inr io_of_Inr split: if_splits intro: that [of rd m t] f [unfolded db0] simp: db0)
qed

lemma candidate_facts:
  assumes "find_login_candidates w email db = [(m, t)]"
  shows "m \<in> set (ad_members db)" and "tm_deleted_at m = None" and "t \<in> set (ad_tenants db)"
    and "tn_id t = tm_tenant_id m" and "tn_deleted_at t = None"
proof -
  have "(m, t) \<in> set (find_login_candidates w email db)" using assms by simp
  then show "m \<in> set (ad_members db)" "tm_deleted_at m = None" "t \<in> set (ad_tenants db)"
    "tn_id t = tm_tenant_id m" "tn_deleted_at t = None"
    unfolding find_login_candidates_def by (auto dest!: in_set_takeD split: if_splits)
qed

text \<open>What the second factor of a login was: nothing, an authenticator's code, or a recovery code.\<close>

definition totp_accepted :: "admin_world \<Rightarrow> team_member \<Rightarrow> string \<Rightarrow> bool" where
  "totp_accepted w m code \<longleftrightarrow>
     rs_bind (rs_bind (ok_or (tm_mfa_secret_encrypted m) mfa_secret_missing) (decrypt_secret_text w))
       (\<lambda>secret. verify_totp_code (aw_hmac_sha1 w) (aw_now w) secret code) = Inr True"

definition recovery_accepted :: "admin_world \<Rightarrow> team_member \<Rightarrow> string \<Rightarrow> admin_db \<Rightarrow> bool" where
  "recovery_accepted w m code db \<longleftrightarrow>
     (case normalize_recovery_code code of
        None \<Rightarrow> False
      | Some recovery \<Rightarrow> list_ex (\<lambda>c. live_code (tm_tenant_id m) (tm_id m) c
          \<and> admin_hash_token w recovery = Inr (rc_code_hash c)) (ad_recovery_codes db))"

lemma recovery_accepted_redis [simp]: "recovery_accepted w m code (db\<lparr>ad_redis := r\<rparr>) = recovery_accepted w m code db"
  by (simp add: recovery_accepted_def split: option.split)

lemma candidates_redis [simp]: "find_login_candidates w email (db\<lparr>ad_redis := r\<rparr>) = find_login_candidates w email db"
  by (simp add: find_login_candidates_def cong: if_cong)

lemma count_where_pos: "0 < count_where P t \<Longrightarrow> \<exists>r \<in> set t. P r"
  by (auto simp: count_where_def filter_empty_conv)

lemma io_count_Inr: "io_count f s = (Inr n, s') \<longleftrightarrow> f s = (n, s')"
  by (auto simp: io_count_def split: prod.splits)

lemma verify_member_mfa_code_True:
  assumes "verify_member_mfa_code w (tm_tenant_id m) (tm_id m) (tm_mfa_secret_encrypted m) code db = (Inr True, db')"
  shows "totp_accepted w m code \<and> db' = db
    \<or> recovery_accepted w m code db \<and> (\<exists>recovery h. normalize_recovery_code code = Some recovery
        \<and> admin_hash_token w recovery = Inr h \<and> db' = snd (use_codes w (tm_tenant_id m) (tm_id m) h db))"
proof -
  from assms obtain secret ok where s: "rs_bind (ok_or (tm_mfa_secret_encrypted m) mfa_secret_missing) (decrypt_secret_text w) = Inr secret"
    and v: "verify_totp_code (aw_hmac_sha1 w) (aw_now w) secret code = Inr ok"
    and rest: "(if ok then io_return True
      else (case normalize_recovery_code code of
         None \<Rightarrow> io_return False
       | Some recovery \<Rightarrow>
           io_bind (io_of (admin_hash_token w recovery)) (\<lambda>h.
           io_bind (io_count (use_codes w (tm_tenant_id m) (tm_id m) h)) (\<lambda>n. io_return (n > 0))))) db = (Inr True, db')"
    unfolding verify_member_mfa_code_def by (auto simp: io_bind_Inr io_of_Inr)
  show ?thesis
  proof (cases ok)
    case True
    with s v rest show ?thesis by (simp add: totp_accepted_def rs_bind_def io_return_Inr)
  next
    case False
    with rest obtain recovery where n: "normalize_recovery_code code = Some recovery"
      by (cases "normalize_recovery_code code") (simp_all add: io_return_Inr)
    from False rest n obtain h where h: "admin_hash_token w recovery = Inr h"
      and "io_bind (io_count (use_codes w (tm_tenant_id m) (tm_id m) h)) (\<lambda>n. io_return (n > 0)) db = (Inr True, db')"
      by (simp add: io_bind_Inr [of "io_of _"] io_of_Inr) blast
    then obtain n where u: "use_codes w (tm_tenant_id m) (tm_id m) h db = (n, db')" "0 < n"
      unfolding io_bind_Inr io_count_Inr io_return_Inr by blast
    from u have "0 < count_where (\<lambda>c. live_code (tm_tenant_id m) (tm_id m) c \<and> rc_code_hash c = h) (ad_recovery_codes db)"
      by (simp add: use_codes_def Let_def)
    from count_where_pos [OF this]
    have "\<exists>c \<in> set (ad_recovery_codes db). live_code (tm_tenant_id m) (tm_id m) c \<and> rc_code_hash c = h" .
    with n h have "recovery_accepted w m code db" by (auto simp: recovery_accepted_def list_ex_iff)
    moreover from u have "db' = snd (use_codes w (tm_tenant_id m) (tm_id m) h db)" by simp
    ultimately show ?thesis using n h by blast
  qed
qed

lemma second_factor_Inr:
  assumes "login_second_factor w (m, t) given db = (Inr (), db')" and "tm_mfa_enabled m"
  obtains code rd where "trimmed given = Some code"
    and "verify_member_mfa_code w (tm_tenant_id m) (tm_id m) (tm_mfa_secret_encrypted m) code (db\<lparr>ad_redis := rd\<rparr>)
      = (Inr True, db')"
proof -
  from assms obtain code db0 ok db1 where c: "trimmed given = Some code"
    and l: "login_rate_limit w (mfa_key (aw_uuid_text w (tm_id m)) (client_ip (aw_ip_header w))) db = (Inr (), db0)"
    and v: "verify_member_mfa_code w (tm_tenant_id m) (tm_id m) (tm_mfa_secret_encrypted m) code db0 = (Inr ok, db1)"
    and r: "(if ok then io_return () else refuse_login w (Some (m, t)) (tm_email m) ''mfa_failed'' mfa_failed) db1
      = (Inr (), db')"
    by (auto simp: login_second_factor_def Let_def io_bind_Inr io_fail_Inr split: option.splits)
  from r have "ok" "db1 = db'" by (auto simp: refuse_login_def io_bind_Inr io_fail_Inr io_return_Inr split: if_splits)
  with that c v login_limit_Inr [OF l] show thesis by auto
qed

lemma session_answer_Inr:
  assumes "session_answer w (m, t) i db = (Inr r, db')"
  shows "db' = db" and "lgn_id r = tm_id m" and "lgn_tenant_id r = tn_id t"
    and "lgn_mfa_enabled r = tm_mfa_enabled m"
    and "lgn_permissions r = list_permissions_for_member (tm_tenant_id m) (tm_id m) db"
    and "lgn_roles r = list_role_codes_for_member (tm_tenant_id m) (tm_id m) db"
    and "build_session_cookie w i (ac_admin_session_ttl_seconds (aw_cfg w)) = Inr (lgn_session_cookie r)"
  using assms by (auto simp: session_answer_def Let_def io_bind_Inr io_read_Inr io_of_Inr io_return_Inr)

lemma audit_Inr: "record_admin_audit w i db = Inr (u, db') \<Longrightarrow> \<exists>logs. db' = db\<lparr>ad_audit_logs := logs\<rparr>"
  by (auto simp: record_admin_audit_def tx_success)

definition adds_token :: "admin_world \<Rightarrow> string \<Rightarrow> admin_refresh_token list \<Rightarrow> admin_refresh_token list \<Rightarrow> bool" where
  "adds_token w h ts ts' \<longleftrightarrow>
     (\<exists>x. ts' = ts @ [x] \<and> art_id x = aw_refresh_token_id w \<and> art_token_hash x = h)"

lemma new_refresh_token_Inr:
  "create_admin_refresh_token_in_transaction w i h e db = Inr (x, db') \<Longrightarrow>
    \<exists>tokens. db' = db\<lparr>ad_refresh_tokens := tokens\<rparr> \<and> adds_token w h (ad_refresh_tokens db) tokens"
  by (auto simp: create_admin_refresh_token_in_transaction_def tx_success insert_row_Inr adds_token_def Let_def)

lemma new_session_Inr:
  "create_admin_session_in_transaction w tenant m ip e db = Inr (s, db') \<Longrightarrow>
    (\<exists>ip. s = new_admin_session w tenant m ip e) \<and> asn_id s \<notin> asn_id ` set (ad_sessions db)
      \<and> db' = db\<lparr>ad_sessions := ad_sessions db @ [s]\<rparr>"
  by (auto simp: create_admin_session_in_transaction_def tx_success insert_row_Inr Let_def list_all_iff)

lemma admin_login_transaction_Inr:
  assumes "admin_login_transaction w m h e db = Inr (s, db')"
  shows "\<exists>ip. s = new_admin_session w (tm_tenant_id m) (tm_id m) ip e"
    and "asn_id s \<notin> asn_id ` set (ad_sessions db)"
    and "\<exists>tokens logs. db' = db\<lparr>ad_sessions := ad_sessions db @ [s], ad_refresh_tokens := tokens, ad_audit_logs := logs\<rparr>
      \<and> adds_token w h (ad_refresh_tokens db) tokens"
proof -
  from assms obtain s1 x u db1 db2 where
    1: "create_admin_session_in_transaction w (tm_tenant_id m) (tm_id m) (client_ip (aw_ip_header w)) e db = Inr (s1, db1)"
    and 2: "create_admin_refresh_token_in_transaction w (asn_id s1) h e db1 = Inr (x, db2)"
    and 3: "record_admin_audit w (login_audit w m (asn_id s1)) db2 = Inr (u, db')" and "s1 = s"
    unfolding admin_login_transaction_def tx_bind_Inr tx_return_Inr by blast
  with new_session_Inr [OF 1] have s: "s1 = s" "\<exists>ip. s = new_admin_session w (tm_tenant_id m) (tm_id m) ip e"
      "asn_id s \<notin> asn_id ` set (ad_sessions db)" "db1 = db\<lparr>ad_sessions := ad_sessions db @ [s]\<rparr>"
    by blast+
  from new_refresh_token_Inr [OF 2] obtain tokens where t: "db2 = db1\<lparr>ad_refresh_tokens := tokens\<rparr>"
    "adds_token w h (ad_refresh_tokens db1) tokens" by blast
  from audit_Inr [OF 3] obtain logs where l: "db' = db2\<lparr>ad_audit_logs := logs\<rparr>" by blast
  from s show "\<exists>ip. s = new_admin_session w (tm_tenant_id m) (tm_id m) ip e"
    "asn_id s \<notin> asn_id ` set (ad_sessions db)" by blast+
  from s(4) t l show "\<exists>tokens logs. db' = db\<lparr>ad_sessions := ad_sessions db @ [s], ad_refresh_tokens := tokens, ad_audit_logs := logs\<rparr>
      \<and> adds_token w h (ad_refresh_tokens db) tokens"
    by (intro exI conjI [of "db' = _"]) simp_all
qed

lemma login_session_Inr:
  assumes "login_session w (m, t) db = (Inr r, db')"
  obtains ip tokens logs s where "s = new_admin_session w (tm_tenant_id m) (tm_id m) ip
      (aw_now w + seconds (ac_admin_session_ttl_seconds (aw_cfg w)))"
    and "asn_id s \<notin> asn_id ` set (ad_sessions db)"
    and "db' = db\<lparr>ad_sessions := ad_sessions db @ [s], ad_refresh_tokens := tokens, ad_audit_logs := logs\<rparr>"
    and "session_answer w (m, t) (asn_id s) db' = (Inr r, db')"
    and "\<exists>h. refresh_token_hash w (aw_token w) = Inr h \<and> adds_token w h (ad_refresh_tokens db) tokens"
proof -
  from assms obtain h s db1 where h: "refresh_token_hash w (aw_token w) = Inr h"
    and l: "admin_login_transaction w m h
        (aw_now w + seconds (ac_admin_session_ttl_seconds (aw_cfg w))) db = Inr (s, db1)"
    and a: "session_answer w (m, t) (asn_id s) db1 = (Inr r, db')"
    by (auto simp: login_session_def Let_def io_bind_Inr io_of_Inr commit_Inr)
  from admin_login_transaction_Inr [OF l] obtain ip tokens logs
    where "s = new_admin_session w (tm_tenant_id m) (tm_id m) ip
        (aw_now w + seconds (ac_admin_session_ttl_seconds (aw_cfg w)))"
      and "asn_id s \<notin> asn_id ` set (ad_sessions db)"
      and "db1 = db\<lparr>ad_sessions := ad_sessions db @ [s], ad_refresh_tokens := tokens, ad_audit_logs := logs\<rparr>"
      and "adds_token w h (ad_refresh_tokens db) tokens"
    by blast
  with that h a session_answer_Inr(1) [OF a] show thesis by metis
qed

text \<open>
  C33. A login that succeeds has found exactly one account for the address, an active member of an
  active tenant, and the password is that account's; if the account has a second factor, the
  request carried an authenticator's code that is valid now or one of the account's unused recovery
  codes. The session it opens is usable until it expires.
\<close>

theorem login_needs_every_factor:
  assumes "admin_login w q db = (Inr r, db')"
  shows "\<exists>m t. find_login_candidates w (lgr_email q) db = [(m, t)]
    \<and> tm_status m = ''active'' \<and> tn_status t = ''active'' \<and> lgn_id r = tm_id m \<and> lgn_tenant_id r = tm_tenant_id m
    \<and> verify_password (aw_parse_hash w) (lgr_password q) (tm_password_hash m) = Inr True
    \<and> (tm_mfa_enabled m \<longrightarrow> (\<exists>code. trimmed (lgr_mfa_code q) = Some code
         \<and> (totp_accepted w m code \<or> recovery_accepted w m code db)))
    \<and> (0 < ac_admin_session_ttl_seconds (aw_cfg w) \<longrightarrow> usable_session (aw_now w) (aw_session_id w) db')"
  using assms
proof (rule admin_login_Inr)
  fix m t rd db1
  assume c: "find_login_candidates w (lgr_email q) (db\<lparr>ad_redis := rd\<rparr>) = [(m, t)]"
    and active: "tm_status m = ''active''" "tn_status t = ''active''"
    and pw: "verify_password (aw_parse_hash w) (lgr_password q) (tm_password_hash m) = Inr True"
    and f: "login_second_factor w (m, t) (lgr_mfa_code q) (db\<lparr>ad_redis := rd\<rparr>) = (Inr (), db1)"
    and s: "login_session w (m, t) db1 = (Inr r, db')"
  have "\<exists>code. trimmed (lgr_mfa_code q) = Some code \<and> (totp_accepted w m code \<or> recovery_accepted w m code db)"
    if "tm_mfa_enabled m"
  proof (rule second_factor_Inr [OF f that])
    fix code rd'
    assume "trimmed (lgr_mfa_code q) = Some code"
      and "verify_member_mfa_code w (tm_tenant_id m) (tm_id m) (tm_mfa_secret_encrypted m) code
        (db\<lparr>ad_redis := rd, ad_redis := rd'\<rparr>) = (Inr True, db1)"
    with verify_member_mfa_code_True [of w m code "db\<lparr>ad_redis := rd'\<rparr>" db1] show ?thesis by auto
  qed
  moreover from s have "0 < ac_admin_session_ttl_seconds (aw_cfg w) \<longrightarrow> usable_session (aw_now w) (aw_session_id w) db'"
    by (rule login_session_Inr) (auto simp: usable_session_def new_admin_session_def)
  moreover from s have "lgn_id r = tm_id m" "lgn_tenant_id r = tn_id t"
    by (auto elim!: login_session_Inr dest: session_answer_Inr(2,3))
  ultimately show ?thesis
    using c active pw candidate_facts(4) [OF c] by auto
qed


section \<open>Recovery codes\<close>

lemma recovery_code_not_six_digits:
  assumes "normalize_recovery_code code = Some recovery"
  shows "normalize_totp_code code = None"
proof -
  let ?c = "to_ascii_uppercase (filter (\<lambda>c. \<not> is_ascii_whitespace c \<and> c \<noteq> CHR ''-'') (trim code))"
  from assms have "length ?c = 16" by (auto simp: normalize_recovery_code_def Let_def split: if_splits)
  moreover have "length ?c \<le> length (trim code)" by (simp add: to_ascii_uppercase_def)
  ultimately show ?thesis by (simp add: normalize_totp_code_def totp_digits_def)
qed

lemma recovery_code_is_no_totp:
  "normalize_recovery_code code = Some recovery \<Longrightarrow> \<not> totp_accepted w m code"
  by (auto dest!: recovery_code_not_six_digits
      simp: totp_accepted_def verify_totp_code_def rs_bind_def split: sum.splits)

lemma used_code_is_gone: "code_gone tenant m h (snd (use_codes w tenant m h db))"
  unfolding code_gone_def code_effects(1) by (auto intro!: list_all_update_where simp: live_code_def)

lemma gone_code_is_refused:
  assumes "code_gone (tm_tenant_id m) (tm_id m) h db" and "normalize_recovery_code code = Some recovery"
    and "admin_hash_token w recovery = Inr h"
  shows "\<not> recovery_accepted w m code db"
  using assms by (auto simp: recovery_accepted_def code_gone_def list_ex_iff list_all_iff)

text \<open>
  C36. A recovery code logs its account in once: after a login with it, no later login of the
  account with the same code succeeds while its second factor is on, whatever requests come in
  between, as long as none of them draws a code with the same hash again.
\<close>

theorem recovery_code_logs_in_once:
  assumes "admin_login w q db = (Inr r, db1)" and "trimmed (lgr_mfa_code q) = Some code" and "lgn_mfa_enabled r"
    and "normalize_recovery_code code = Some recovery" and "admin_hash_token w recovery = Inr h"
    and "list_all (\<lambda>(w, _). fresh_codes_avoid h w) run"
    and "admin_login w' q' (admin_run run db1) = (Inr r', db2)" and "lgn_mfa_enabled r'"
    and "lgn_id r' = lgn_id r" and "lgn_tenant_id r' = lgn_tenant_id r"
    and "aw_crypto w' = aw_crypto w" and "ac_token_hash_pepper (aw_cfg w') = ac_token_hash_pepper (aw_cfg w)"
  shows "trimmed (lgr_mfa_code q') \<noteq> Some code"
proof
  assume again: "trimmed (lgr_mfa_code q') = Some code"
  have h': "admin_hash_token w' recovery = Inr h" using assms(5,11,12) by (simp add: admin_hash_token_def)
  have accepted: "\<exists>m e. recovery_accepted v m code d \<and> lgn_id x = tm_id m \<and> lgn_tenant_id x = tm_tenant_id m
      \<and> ad_recovery_codes d' = ad_recovery_codes (snd (use_codes v (tm_tenant_id m) (tm_id m) h e))"
    if l: "admin_login v p d = (Inr x, d')" and code: "trimmed (lgr_mfa_code p) = Some code"
      and on: "lgn_mfa_enabled x" and hv: "admin_hash_token v recovery = Inr h" for v p d x d'
    using l
  proof (rule admin_login_Inr)
    fix m t rd d1
    assume c: "find_login_candidates v (lgr_email p) (d\<lparr>ad_redis := rd\<rparr>) = [(m, t)]"
      and f: "login_second_factor v (m, t) (lgr_mfa_code p) (d\<lparr>ad_redis := rd\<rparr>) = (Inr (), d1)"
      and s: "login_session v (m, t) d1 = (Inr x, d')"
    from s have x: "lgn_id x = tm_id m" "lgn_tenant_id x = tm_tenant_id m" "lgn_mfa_enabled x = tm_mfa_enabled m"
      using candidate_facts(4) [OF c] by (auto elim!: login_session_Inr dest: session_answer_Inr(2,3,4))
    from s have same: "ad_recovery_codes d' = ad_recovery_codes d1" by (rule login_session_Inr) simp
    from x on have "tm_mfa_enabled m" by simp
    from f this show ?thesis
    proof (rule second_factor_Inr)
      fix code' rd'
      assume "trimmed (lgr_mfa_code p) = Some code'"
        and v: "verify_member_mfa_code v (tm_tenant_id m) (tm_id m) (tm_mfa_secret_encrypted m) code'
          (d\<lparr>ad_redis := rd, ad_redis := rd'\<rparr>) = (Inr True, d1)"
      with code have [simp]: "code' = code" by simp
      from verify_member_mfa_code_True [OF v] recovery_code_is_no_totp [OF assms(4)]
      have "recovery_accepted v m code d \<and> d1 = snd (use_codes v (tm_tenant_id m) (tm_id m) h (d\<lparr>ad_redis := rd'\<rparr>))"
        using assms(4) hv by auto
      with x same show ?thesis by blast
    qed
  qed
  from accepted [OF assms(1,2,3,5)] obtain m :: team_member and e
    where m: "lgn_id r = tm_id m" "lgn_tenant_id r = tm_tenant_id m"
      and g: "ad_recovery_codes db1 = ad_recovery_codes (snd (use_codes w (tm_tenant_id m) (tm_id m) h e))" by blast
  from g used_code_is_gone have "code_gone (tm_tenant_id m) (tm_id m) h db1" by (auto simp: code_gone_def)
  with used.any_run [OF assms(6)] have gone: "code_gone (tm_tenant_id m) (tm_id m) h (admin_run run db1)" by blast
  from accepted [OF assms(7) again assms(8) h'] obtain m' :: team_member where "recovery_accepted w' m' code (admin_run run db1)"
    "lgn_id r' = tm_id m'" "lgn_tenant_id r' = tm_tenant_id m'" by blast
  with gone_code_is_refused [of m' h "admin_run run db1" code recovery w'] gone m assms(4,9,10) h' show False by simp
qed


section \<open>Password resets\<close>

lemma find_token_subject_Inr:
  assumes "find_token_subject w err purpose h db = Inr (x, db')"
  obtains t where "db' = db" and "t \<in> set (ad_one_time_tokens db)" and "ott_token_hash t = h"
    and "live_one_time_token (aw_db_now w) t" and "fst x = ott_id t"
    and "ott_tenant_id t = Some (fst (snd x))" and "ott_subject_id t = Some (fst (snd (snd x)))"
  using assms by (auto simp: find_token_subject_def tx_read_Inr split: option.splits dest!: find_some)

lemma spent_token_not_found:
  assumes "token_spent h db"
  shows "find_token_subject w err purpose h db = Inl err"
proof (cases "find_token_subject w err purpose h db")
  case (Inl e)
  then show ?thesis by (auto simp: find_token_subject_def tx_read_def split: option.splits)
next
  case (Inr r)
  obtain x db' where "r = (x, db')" by (cases r)
  with Inr have "find_token_subject w err purpose h db = Inr (x, db')" by simp
  with assms show ?thesis
    by (auto elim!: find_token_subject_Inr simp: token_spent_def list_all_iff live_one_time_token_def)
qed

lemma ends_of_member:
  "revoke_admin_sessions_in_transaction w tenant m except db = Inr (n, db') \<Longrightarrow>
     db' = db\<lparr>ad_sessions := update_where (\<lambda>s. sessions_of_member tenant m except s \<and> asn_revoked_at s = None)
       (\<lambda>s. s\<lparr>asn_revoked_at := Some (aw_db_now w)\<rparr>) (ad_sessions db)\<rparr>"
  "revoke_admin_refresh_tokens_in_transaction w tenant m except db = Inr (n, db') \<Longrightarrow>
     \<exists>tokens. db' = db\<lparr>ad_refresh_tokens := tokens\<rparr>"
  by (auto simp: revoke_admin_sessions_in_transaction_def revoke_admin_refresh_tokens_in_transaction_def
      tx_count_def revoke_sessions_where_def revoke_tokens_where_def Let_def)

lemma password_updated:
  "update_member_password_in_transaction w tenant i h db = Inr (u, db') \<Longrightarrow> \<exists>ms. db' = db\<lparr>ad_members := ms\<rparr>"
  by (auto simp: update_member_password_in_transaction_def tx_success dest: team_effects(1) split: if_splits)

text \<open>What a confirmed reset does to the tokens and to the sessions.\<close>

lemma confirm_reset_Inr:
  assumes "confirm_password_reset w token new db = (Inr n, db')"
  obtains h t tenant m where "admin_hash_token w (trim token) = Inr h" and "t \<in> set (ad_one_time_tokens db)"
    and "ott_token_hash t = h" and "live_one_time_token (aw_db_now w) t"
    and "ott_tenant_id t = Some tenant" and "ott_subject_id t = Some m"
    and "ad_one_time_tokens db' = update_where (\<lambda>x. ott_id x = ott_id t \<and> live_one_time_token (aw_db_now w) x)
       (\<lambda>x. x\<lparr>ott_consumed_at := Some (aw_db_now w)\<rparr>) (ad_one_time_tokens db)"
    and "ad_sessions db' = update_where (\<lambda>s. sessions_of_member tenant m None s \<and> asn_revoked_at s = None)
       (\<lambda>s. s\<lparr>asn_revoked_at := Some (aw_db_now w)\<rparr>) (ad_sessions db)"
proof -
  from assms obtain h ph where h: "admin_hash_token w (trim token) = Inr h"
    and tx: "confirm_password_reset_transaction w h ph db = Inr (n, db')"
    by (auto simp: confirm_password_reset_def normalize_one_time_token_def io_bind_Inr io_of_Inr commit_Inr split: if_splits)
  from tx obtain tid tenant m email d0 found before_row u1 d1 u2 d2 k d3 k' d4 u3 where
    s: "find_token_subject w password_reset_token_invalid admin_password_reset_purpose h db
      = Inr ((tid, tenant, m, email), d0)"
    and p: "update_member_password_in_transaction w tenant m ph d0 = Inr (u1, d1)"
    and c: "consume_one_time_token w password_reset_token_invalid tid d1 = Inr (u2, d2)"
    and r: "revoke_admin_sessions_in_transaction w tenant m None d2 = Inr (k, d3)"
    and f: "revoke_admin_refresh_tokens_in_transaction w tenant m None d3 = Inr (k', d4)"
    and a: "record_admin_audit w (anonymous_audit w tenant m ''team_member.password_reset.confirm''
       (Some (team_member_audit_json w before_row))
       (Some (JObject [(''id'', aw_uuid_json w m), (''email'', JString email), (''password_changed'', JBool True)]))
       (JObject [(''one_time_token_id'', aw_uuid_json w tid), (''revoked_sessions'', count_json k),
         (''revoked_refresh_tokens'', count_json k')])) d4 = Inr (u3, db')"
    unfolding confirm_password_reset_transaction_def find_member_for_update_def
    by (auto simp: tx_success)
  from s obtain t where t: "d0 = db" "t \<in> set (ad_one_time_tokens db)" "ott_token_hash t = h"
      "live_one_time_token (aw_db_now w) t" "tid = ott_id t" "ott_tenant_id t = Some tenant" "ott_subject_id t = Some m"
    by (rule find_token_subject_Inr) auto
  from password_updated [OF p] token_effects(2) [OF c] ends_of_member(1) [OF r] ends_of_member(2) [OF f]
    audit_Inr [OF a] t(1,5)
  have "ad_one_time_tokens db' = update_where (\<lambda>x. ott_id x = ott_id t \<and> live_one_time_token (aw_db_now w) x)
       (\<lambda>x. x\<lparr>ott_consumed_at := Some (aw_db_now w)\<rparr>) (ad_one_time_tokens db)"
    and "ad_sessions db' = update_where (\<lambda>s. sessions_of_member tenant m None s \<and> asn_revoked_at s = None)
       (\<lambda>s. s\<lparr>asn_revoked_at := Some (aw_db_now w)\<rparr>) (ad_sessions db)"
    by auto
  with that h t show thesis by blast
qed

text \<open>
  C37. Resetting a password with a token ends every session of its account for good: no such session
  passes the middleware again, whatever requests follow and whatever cookie is presented, as long
  as no login draws the session's id again.
\<close>

theorem password_reset_ends_sessions:
  assumes "confirm_password_reset w token new db = (Inr n, db')"
    and "admin_hash_token w (trim token) = Inr (ott_token_hash t)" and "t \<in> set (ad_one_time_tokens db)"
    and "s \<in> set (ad_sessions db)" and "ott_tenant_id t = Some (asn_tenant_id s)"
    and "ott_subject_id t = Some (asn_team_member_id s)"
    and "distinct (map ott_token_hash (ad_one_time_tokens db))" and "distinct (map asn_id (ad_sessions db))"
    and "list_all (\<lambda>(w, _). aw_session_id w \<noteq> asn_id s) run"
    and "require_admin_session w' (admin_run run db') = Inr p"
  shows "ap_session_id p \<noteq> asn_id s"
  using assms(1)
proof (rule confirm_reset_Inr)
  fix h t' tenant m
  assume "admin_hash_token w (trim token) = Inr h" and t': "t' \<in> set (ad_one_time_tokens db)" "ott_token_hash t' = h"
    and m: "ott_tenant_id t' = Some tenant" "ott_subject_id t' = Some m"
    and r: "ad_sessions db' = update_where (\<lambda>s. sessions_of_member tenant m None s \<and> asn_revoked_at s = None)
       (\<lambda>s. s\<lparr>asn_revoked_at := Some (aw_db_now w)\<rparr>) (ad_sessions db)"
  with assms(2) have "ott_token_hash t' = ott_token_hash t" by simp
  with t' assms(3,7) have "t' = t" by (meson distinct_map inj_onD)
  with m assms(5,6) have mine: "sessions_of_member tenant m None s" by (simp add: sessions_of_member_def)
  have "x = s" if "x \<in> set (ad_sessions db)" "asn_id x = asn_id s" for x
    using that assms(4,8) by (meson distinct_map inj_onD)
  with mine have "session_ended (asn_id s) db'"
    unfolding session_ended_def r by (auto simp: list_all_iff set_update_where)
  with gone.any_run [OF assms(9)] have "session_ended (asn_id s) (admin_run run db')" by blast
  from ended_session_is_refused [OF this assms(10)] show ?thesis .
qed

text \<open>
  C38. A reset token works once: after it has reset a password, confirming with it again is an error
  that changes nothing, whatever the new password and whatever requests came in between; with an
  acceptable new password the error is that the token is invalid.
\<close>

theorem reset_token_works_once:
  assumes "confirm_password_reset w token new db = (Inr n, db')"
    and "distinct (map ott_token_hash (ad_one_time_tokens db))"
    and "aw_crypto w' = aw_crypto w" and "ac_token_hash_pepper (aw_cfg w') = ac_token_hash_pepper (aw_cfg w)"
  shows "\<exists>e. confirm_password_reset w' token new' (admin_run run db') = (Inl e, admin_run run db')
    \<and> (validate_new_password new' = Inr () \<and> (\<exists>ph. hash_password w' new' = Inr ph)
       \<longrightarrow> e = password_reset_token_invalid)"
  using assms(1)
proof (rule confirm_reset_Inr)
  fix h t tenant m
  assume h: "admin_hash_token w (trim token) = Inr h" and t: "t \<in> set (ad_one_time_tokens db)" "ott_token_hash t = h"
    and live: "live_one_time_token (aw_db_now w) t"
    and c: "ad_one_time_tokens db' = update_where (\<lambda>x. ott_id x = ott_id t \<and> live_one_time_token (aw_db_now w) x)
       (\<lambda>x. x\<lparr>ott_consumed_at := Some (aw_db_now w)\<rparr>) (ad_one_time_tokens db)"
  have only: "x = t" if "x \<in> set (ad_one_time_tokens db)" "ott_token_hash x = h" for x
    using that t assms(2) by (auto simp: distinct_map dest: inj_onD)
  have "ott_consumed_at x \<noteq> None" if "x \<in> set (ad_one_time_tokens db')" and xh: "ott_token_hash x = h" for x
  proof -
    from that(1) obtain y where y: "y \<in> set (ad_one_time_tokens db)"
      and x: "x = (if ott_id y = ott_id t \<and> live_one_time_token (aw_db_now w) y
                   then y\<lparr>ott_consumed_at := Some (aw_db_now w)\<rparr> else y)"
      unfolding c set_update_where by blast
    from x xh have "ott_token_hash y = h" by (simp split: if_splits)
    from only [OF y this] x live show ?thesis by simp
  qed
  moreover have "map ott_token_hash (ad_one_time_tokens db') = map ott_token_hash (ad_one_time_tokens db)"
    unfolding c by (simp add: map_update_where_same)
  then have "ott_token_hash ` set (ad_one_time_tokens db') = ott_token_hash ` set (ad_one_time_tokens db)"
    by (metis list.set_map)
  ultimately have "token_spent h db'" using t by (simp add: token_spent_def list_all_iff) blast
  with spent.any_run [of run h db'] have "token_spent h (admin_run run db')" by (auto simp: list_all_iff)
  note spent_token_not_found [OF this, of w' password_reset_token_invalid admin_password_reset_purpose]
  moreover have "normalize_one_time_token token = Inr (trim token)"
    using assms(1) by (auto simp: confirm_password_reset_def normalize_one_time_token_def io_bind_Inr io_of_Inr split: if_splits)
  moreover have "admin_hash_token w' (trim token) = Inr h" using h assms(3,4) by (simp add: admin_hash_token_def)
  ultimately show ?thesis
    by (cases "validate_new_password new'"; cases "hash_password w' new'")
      (auto simp: confirm_password_reset_def confirm_password_reset_transaction_def io_bind_def io_of_def
        commit_def tx_bind_def)
qed


section \<open>From the login to the next request\<close>

text \<open>
  What the cookie relies on: base64, a signature that is not empty, and texts of uuids that are
  read back and hold no blank and no semicolon.
\<close>

definition cookie_laws :: "admin_world \<Rightarrow> bool" where
  "cookie_laws w \<longleftrightarrow> base64_laws (aw_crypto w)
     \<and> (\<forall>u mac. hmac_sha256 (aw_crypto w) (ac_session_secret (aw_cfg w)) (aw_uuid_text w u) = Inr mac
          \<longrightarrow> b64_url (aw_crypto w) mac \<noteq> [])
     \<and> (\<forall>u. aw_parse_uuid w (aw_uuid_text w u) = Some u \<and> aw_uuid_text w u \<noteq> []
          \<and> list_all graphic (aw_uuid_text w u) \<and> CHR '';'' \<notin> set (aw_uuid_text w u))"

text \<open>What a browser sends back of a \<open>Set-Cookie\<close> header.\<close>

definition cookie_pair :: "string \<Rightarrow> string" where
  "cookie_pair header = takeWhile (\<lambda>c. c \<noteq> CHR '';'') header"

lemma b64_char_no_semicolon: "b64_char c \<Longrightarrow> c \<noteq> CHR '';''"
  by (auto simp: b64_char_def byte_def)

lemma rsplit_last: "d \<notin> set b \<Longrightarrow> rsplit_once d (a @ d # b) = Some (a, b)"
proof -
  assume "d \<notin> set b"
  then have "\<forall>x \<in> set (rev b). x \<noteq> d" by auto
  then show ?thesis by (simp add: rsplit_once_def split_once_def dropWhile_append takeWhile_append)
qed

lemma read_named_cookie:
  assumes "list_all graphic (name @ CHR ''='' # v)" and "CHR '';'' \<notin> set (name @ CHR ''='' # v)"
    and "CHR ''='' \<notin> set name"
  shows "read_cookie (Some (name @ CHR ''='' # v)) name = Some v"
proof -
  have "trim (name @ CHR ''='' # v) = name @ CHR ''='' # v" using assms(1) by (rule trim_all_graphic)
  moreover have "split_char (CHR '';'') (name @ CHR ''='' # v) = [name @ CHR ''='' # v]"
    using assms(2) by (rule split_char_nosep)
  moreover have "\<forall>x \<in> set name. x \<noteq> CHR ''=''" using assms(3) by auto
  then have "split_once (CHR ''='') (name @ CHR ''='' # v) = Some (name, v)"
    by (simp add: split_once_def dropWhile_append takeWhile_append)
  ultimately show ?thesis by (simp add: read_cookie_def List.map_filter_def)
qed

lemma session_cookie_reads_back:
  assumes "build_session_cookie w i ttl = Inr header" and "cookie_laws w"
    and "aw_cookie w' = Some (cookie_pair header)" and "aw_crypto w' = aw_crypto w"
    and "ac_session_secret (aw_cfg w') = ac_session_secret (aw_cfg w)"
  shows "read_signed_session_cookie w' = Inr (Some (aw_uuid_text w i))"
proof -
  let ?u = "aw_uuid_text w i" and ?name = "''admin_session''"
  from assms(1) obtain sig where
    sig: "hash_token (aw_crypto w) (ac_session_secret (aw_cfg w)) ?u = Inr sig"
    and header: "header = ?name @ CHR ''='' # (?u @ CHR ''.'' # sig) @ CHR '';'' # '' HttpOnly; SameSite=Lax; Path=/; Max-Age=''
       @ show_i64 ttl @ secure_attr (ac_cookie_secure (aw_cfg w))"
    by (auto simp: build_session_cookie_def sign_cookie_value_def cookie_header_def rs_bind_Inr split: if_splits)
  from sig obtain mac where mac: "hmac_sha256 (aw_crypto w) (ac_session_secret (aw_cfg w)) ?u = Inr mac"
      "sig = b64_url (aw_crypto w) mac"
    by (auto simp: hash_token_def split: sum.splits)
  have u: "?u \<noteq> []" "list_all graphic ?u" "CHR '';'' \<notin> set ?u" using assms(2) by (auto simp: cookie_laws_def)
  have "list_all b64_char sig" "sig \<noteq> []" using assms(2) mac by (auto simp: cookie_laws_def base64_laws_def)
  then have s: "sig \<noteq> []" "list_all graphic sig" "CHR '';'' \<notin> set sig" "CHR ''.'' \<notin> set sig"
    using b64_char_graphic b64_char_no_semicolon by (auto simp: list_all_iff)
  let ?v = "?u @ CHR ''.'' # sig"
  have clean: "list_all graphic (?name @ CHR ''='' # ?v)" "CHR '';'' \<notin> set (?name @ CHR ''='' # ?v)"
    using u s by (auto simp: graphic_def byte_def)
  have "cookie_pair header = ?name @ CHR ''='' # ?v"
    using clean(2) unfolding cookie_pair_def header by (subst append_assoc [symmetric]) (auto simp: takeWhile_append)
  then have "read_cookie (aw_cookie w') ?name = Some ?v"
    using read_named_cookie [OF clean] assms(3) by simp
  then show ?thesis
    using sig u(1) s(1) rsplit_last [OF s(4), of ?u] assms(4,5)
    by (simp add: read_signed_session_cookie_def verify_cookie_value_def verify_token_hash_def rs_bind_def)
qed

lemma second_factor_frame:
  assumes "login_second_factor w (m, t) given db = (Inr (), db')"
  shows "ad_members db' = ad_members db \<and> ad_tenants db' = ad_tenants db \<and> ad_sessions db' = ad_sessions db"
proof (cases "tm_mfa_enabled m")
  case True
  from assms True show ?thesis
    by (rule second_factor_Inr) (auto dest!: verify_member_mfa_code_True simp: code_effects(1))
next
  case False
  with assms show ?thesis by (simp add: login_second_factor_def io_return_Inr)
qed

lemma unique_row:
  assumes "x \<in> set t" and "distinct (map k t)" and "P x"
  shows "filter (\<lambda>y. k y = k x \<and> P y) t = [x]"
  using assms
proof (induction t)
  case (Cons a t)
  show ?case
  proof (cases "a = x")
    case True
    with Cons.prems(2) have "k x \<notin> k ` set t" by simp
    then have "\<forall>y \<in> set t. k y \<noteq> k x" by (metis image_eqI)
    then have "filter (\<lambda>y. k y = k x \<and> P y) t = []" by (simp add: filter_empty_conv)
    with True Cons.prems(3) show ?thesis by simp
  next
    case False
    with Cons.prems have "k a \<noteq> k x" by auto
    with False Cons show ?thesis by auto
  qed
qed simp

lemma principal_of_member:
  assumes "m \<in> set (ad_members db)" and "distinct (map tm_id (ad_members db))" and "tm_deleted_at m = None"
    and "t \<in> set (ad_tenants db)" and "distinct (map tn_id (ad_tenants db))" and "tn_deleted_at t = None"
    and "tn_id t = tm_tenant_id m" and "asn_team_member_id s = tm_id m" and "asn_tenant_id s = tm_tenant_id m"
  shows "session_principal s db = Some (m, t)"
proof -
  have comp: "[(x, y). x \<leftarrow> xs, Q x, y \<leftarrow> ys, S y] = List.product (filter Q xs) (filter S ys)"
    for xs :: "team_member list" and ys :: "tenant_row list" and Q S
  proof -
    have "concat (map (\<lambda>y. if S y then [f y] else []) ys) = map f (filter S ys)" for f :: "tenant_row \<Rightarrow> team_member \<times> tenant_row"
      by (induction ys) simp_all
    then show ?thesis by (induction xs) simp_all
  qed
  show ?thesis
    unfolding session_principal_def comp
    using unique_row [of m "ad_members db" tm_id "\<lambda>x. tm_tenant_id x = tm_tenant_id m \<and> tm_deleted_at x = None"]
      unique_row [of t "ad_tenants db" tn_id "\<lambda>x. tn_deleted_at x = None"] assms
    by simp
qed


text \<open>A stored session's cookie gets its member through the middleware.\<close>

lemma cookie_admits:
  assumes "build_session_cookie w (asn_id s) ttl = Inr header" and "cookie_laws w"
    and "aw_cookie w' = Some (cookie_pair header)" and "aw_crypto w' = aw_crypto w"
    and "ac_session_secret (aw_cfg w') = ac_session_secret (aw_cfg w)" and "aw_parse_uuid w' = aw_parse_uuid w"
    and "load_session w' (asn_id s) db = Some (s, m, t)" and "tm_status m = ''active''" and "tn_status t = ''active''"
  shows "\<exists>p. require_admin_session w' db = Inr p \<and> ap_session_id p = asn_id s
    \<and> ap_team_member_id p = asn_team_member_id s \<and> ap_tenant_id p = asn_tenant_id s
    \<and> ap_roles p = list_role_codes_for_member (asn_tenant_id s) (asn_team_member_id s) db
    \<and> ap_permissions p = list_permissions_for_member (asn_tenant_id s) (asn_team_member_id s) db"
proof -
  have "aw_parse_uuid w' (aw_uuid_text w (asn_id s)) = Some (asn_id s)" using assms(2,6) by (simp add: cookie_laws_def)
  with session_cookie_reads_back [OF assms(1-5)] assms(7-9) show ?thesis
    by (simp add: require_admin_session_def rs_bind_def ok_or_def principal_usable_def)
qed

text \<open>
  What a session needs at a time to be let in: its row is neither revoked nor expired, its member
  and tenant are active and not deleted, and the ids are keys.
\<close>

definition login_stands :: "time \<Rightarrow> uuid \<Rightarrow> uuid \<Rightarrow> uuid \<Rightarrow> admin_db \<Rightarrow> bool" where
  "login_stands now i tenant member db \<longleftrightarrow>
     distinct (map asn_id (ad_sessions db)) \<and> distinct (map tm_id (ad_members db))
     \<and> distinct (map tn_id (ad_tenants db))
     \<and> list_ex (\<lambda>s. asn_id s = i \<and> asn_tenant_id s = tenant \<and> asn_team_member_id s = member
          \<and> asn_revoked_at s = None \<and> asn_expires_at s > now) (ad_sessions db)
     \<and> list_ex (\<lambda>m. tm_id m = member \<and> tm_tenant_id m = tenant \<and> tm_deleted_at m = None
          \<and> tm_status m = ''active'') (ad_members db)
     \<and> list_ex (\<lambda>t. tn_id t = tenant \<and> tn_deleted_at t = None \<and> tn_status t = ''active'') (ad_tenants db)"

lemma standing_login_loads:
  assumes "login_stands (aw_db_now w) i tenant member db"
  obtains s m t where "load_session w i db = Some (s, m, t)" and "asn_id s = i" and "asn_tenant_id s = tenant"
    and "asn_team_member_id s = member" and "tm_status m = ''active''" and "tn_status t = ''active''"
proof -
  from assms obtain s m t where
    s: "s \<in> set (ad_sessions db)" "asn_id s = i" "asn_tenant_id s = tenant" "asn_team_member_id s = member"
      "asn_revoked_at s = None" "asn_expires_at s > aw_db_now w"
    and m: "m \<in> set (ad_members db)" "tm_id m = member" "tm_tenant_id m = tenant" "tm_deleted_at m = None"
      "tm_status m = ''active''"
    and t: "t \<in> set (ad_tenants db)" "tn_id t = tenant" "tn_deleted_at t = None" "tn_status t = ''active''"
    by (auto simp: login_stands_def list_ex_iff)
  have keys: "distinct (map asn_id (ad_sessions db))" "distinct (map tm_id (ad_members db))"
    "distinct (map tn_id (ad_tenants db))" using assms by (simp_all add: login_stands_def)
  have "List.find (\<lambda>x. asn_id x = i \<and> asn_revoked_at x = None \<and> asn_expires_at x > aw_db_now w) (ad_sessions db) = Some s"
    by (rule find_distinct_key [OF keys(1) s(1)]) (use s in auto)
  moreover have "session_principal s db = Some (m, t)"
    using s(3,4) m t keys by (intro principal_of_member) simp_all
  ultimately have "load_session w i db = Some (s, m, t)" by (simp add: load_session_def)
  then show thesis by (rule that) (use s m t in simp_all)
qed

text \<open>
  C34. A login lets its member in: after it, and in every later state in which its session is neither
  revoked nor expired and its member and tenant are still active, a request with the session cookie
  it set passes the middleware, as the same member with the roles and permissions that the member has
  at that moment. The state the login leaves is one of these until the session expires, and the roles
  and permissions there are those of the response.
\<close>

theorem login_is_admitted:
  assumes "admin_login w q db = (Inr r, db')" and "cookie_laws w"
    and "distinct (map asn_id (ad_sessions db))"
    and "distinct (map tm_id (ad_members db))" and "distinct (map tn_id (ad_tenants db))"
    and "aw_cookie w' = Some (cookie_pair (lgn_session_cookie r))"
    and "aw_crypto w' = aw_crypto w" and "aw_parse_uuid w' = aw_parse_uuid w"
    and "ac_session_secret (aw_cfg w') = ac_session_secret (aw_cfg w)"
  shows "(\<forall>now < aw_now w + seconds (ac_admin_session_ttl_seconds (aw_cfg w)).
        login_stands now (aw_session_id w) (lgn_tenant_id r) (lgn_id r) db')
    \<and> lgn_roles r = list_role_codes_for_member (lgn_tenant_id r) (lgn_id r) db'
    \<and> lgn_permissions r = list_permissions_for_member (lgn_tenant_id r) (lgn_id r) db'
    \<and> (\<forall>later. login_stands (aw_db_now w') (aw_session_id w) (lgn_tenant_id r) (lgn_id r) later \<longrightarrow>
        (\<exists>p. require_admin_session w' later = Inr p \<and> ap_session_id p = aw_session_id w
          \<and> ap_team_member_id p = lgn_id r \<and> ap_tenant_id p = lgn_tenant_id r
          \<and> ap_roles p = list_role_codes_for_member (lgn_tenant_id r) (lgn_id r) later
          \<and> ap_permissions p = list_permissions_for_member (lgn_tenant_id r) (lgn_id r) later))"
  using assms(1)
proof (rule admin_login_Inr)
  fix m t rd db1
  assume c: "find_login_candidates w (lgr_email q) (db\<lparr>ad_redis := rd\<rparr>) = [(m, t)]"
    and active: "tm_status m = ''active''" "tn_status t = ''active''"
    and f: "login_second_factor w (m, t) (lgr_mfa_code q) (db\<lparr>ad_redis := rd\<rparr>) = (Inr (), db1)"
    and l: "login_session w (m, t) db1 = (Inr r, db')"
  note cand = candidate_facts [OF c, simplified]
  from l show ?thesis
  proof (rule login_session_Inr)
    fix ip tokens logs s
    assume s: "s = new_admin_session w (tm_tenant_id m) (tm_id m) ip
        (aw_now w + seconds (ac_admin_session_ttl_seconds (aw_cfg w)))"
      and new: "asn_id s \<notin> asn_id ` set (ad_sessions db1)"
      and db': "db' = db1\<lparr>ad_sessions := ad_sessions db1 @ [s], ad_refresh_tokens := tokens, ad_audit_logs := logs\<rparr>"
      and a: "session_answer w (m, t) (asn_id s) db' = (Inr r, db')"
    have i: "asn_id s = aw_session_id w" using s by (simp add: new_admin_session_def)
    have rows: "ad_members db1 = ad_members db" "ad_tenants db1 = ad_tenants db" "ad_sessions db1 = ad_sessions db"
      using second_factor_frame [OF f] by simp_all
    note ans = session_answer_Inr [OF a]
    have ids: "lgn_id r = tm_id m" "lgn_tenant_id r = tm_tenant_id m" using ans(2,3) cand(4) by simp_all
    have "login_stands now (aw_session_id w) (lgn_tenant_id r) (lgn_id r) db'"
      if "now < aw_now w + seconds (ac_admin_session_ttl_seconds (aw_cfg w))" for now
      using that new assms(3-5) cand active s i ids
      by (auto simp: login_stands_def rows db' list_ex_iff new_admin_session_def)
    moreover have "\<exists>p. require_admin_session w' later = Inr p \<and> ap_session_id p = aw_session_id w
          \<and> ap_team_member_id p = lgn_id r \<and> ap_tenant_id p = lgn_tenant_id r
          \<and> ap_roles p = list_role_codes_for_member (lgn_tenant_id r) (lgn_id r) later
          \<and> ap_permissions p = list_permissions_for_member (lgn_tenant_id r) (lgn_id r) later"
      if stands: "login_stands (aw_db_now w') (aw_session_id w) (lgn_tenant_id r) (lgn_id r) later" for later
      using stands
    proof (rule standing_login_loads)
      fix s' m' t'
      assume ld: "load_session w' (aw_session_id w) later = Some (s', m', t')" and s': "asn_id s' = aw_session_id w"
        "asn_tenant_id s' = lgn_tenant_id r" "asn_team_member_id s' = lgn_id r"
        and act: "tm_status m' = ''active''" "tn_status t' = ''active''"
      show ?thesis
        using cookie_admits [where s = s' and db = later, OF _ assms(2,6,7,9,8) _ act] ans(7) ld s' i by simp
    qed
    ultimately show ?thesis using ans(5,6) ids by simp
  qed
qed


section \<open>The right credentials log in\<close>

text \<open>
  The way through a login, for the concrete instances: its rate limits have no entry for the
  request, its ids are fresh and its cookies can be printed.
\<close>

lemma audit_succeeds:
  "(\<And>ip. ai_ip i = Some ip \<Longrightarrow> aw_inet w ip \<noteq> None) \<Longrightarrow>
    \<exists>logs. record_admin_audit w i db = Inr ((), db\<lparr>ad_audit_logs := logs\<rparr>)"
  by (cases "ai_ip i")
    (auto simp: record_admin_audit_def audit_log_row_def Let_def tx_bind_def tx_of_def tx_modify_def)

definition free_key :: "admin_world \<Rightarrow> string \<Rightarrow> admin_db \<Rightarrow> bool" where
  "free_key w key db \<longleftrightarrow> redis_get (aw_now w) key (ad_redis db) = None"

definition limits_work :: "admin_world \<Rightarrow> bool" where
  "limits_work w \<longleftrightarrow> aw_fault w = no_fault \<and> 0 < ac_login_rate_limit_max (aw_cfg w)
     \<and> 0 < ac_login_rate_limit_window_seconds (aw_cfg w)"

definition counted :: "admin_world \<Rightarrow> string \<Rightarrow> admin_db \<Rightarrow> admin_db" where
  "counted w key db = db\<lparr>ad_redis := (ad_redis db)(key \<mapsto> \<lparr>red_count = 1,
     red_expires_at = Some (aw_now w + seconds (int (ac_login_rate_limit_window_seconds (aw_cfg w))))\<rparr>)\<rparr>"

lemma counted_tables [simp]:
  "ad_recovery_codes (counted w k db) = ad_recovery_codes db" "ad_sessions (counted w k db) = ad_sessions db"
  "ad_refresh_tokens (counted w k db) = ad_refresh_tokens db" "ad_members (counted w k db) = ad_members db"
  "ad_tenants (counted w k db) = ad_tenants db"
  by (simp_all add: counted_def)

lemma limit_passes:
  "limits_work w \<Longrightarrow> free_key w key db \<Longrightarrow> login_rate_limit w key db = (Inr (), counted w key db)"
  by (simp add: login_rate_limit_def on_admin_redis_def free_key_def limits_work_def counted_def
      check_fixed_window_def no_fault_def redis_incr_def redis_expire_def redis_get_def Let_def)

definition login_ids_fresh :: "admin_world \<Rightarrow> admin_db \<Rightarrow> bool" where
  "login_ids_fresh w db \<longleftrightarrow> aw_session_id w \<notin> asn_id ` set (ad_sessions db)
     \<and> aw_refresh_token_id w \<notin> art_id ` set (ad_refresh_tokens db)
     \<and> (\<exists>h. refresh_token_hash w (aw_token w) = Inr h \<and> h \<notin> art_token_hash ` set (ad_refresh_tokens db))
     \<and> aw_inet w (client_ip (aw_ip_header w)) \<noteq> None"

definition cookies_print :: "admin_world \<Rightarrow> bool" where
  "cookies_print w \<longleftrightarrow> (let ttl = ac_admin_session_ttl_seconds (aw_cfg w) in
     \<not> isl (build_session_cookie w (aw_session_id w) ttl) \<and> \<not> isl (build_refresh_cookie w (aw_token w) ttl)
     \<and> \<not> isl (rs_bind (issue_csrf_token w) (\<lambda>csrf. build_csrf_cookie w csrf ttl)))"

lemma not_isl: "\<not> isl x \<Longrightarrow> \<exists>a. x = Inr a"
  by (cases x) auto

lemma login_session_succeeds:
  assumes "login_ids_fresh w db" and "cookies_print w"
  shows "\<exists>r db'. login_session w (m, t) db = (Inr r, db')"
proof -
  let ?e = "aw_now w + seconds (ac_admin_session_ttl_seconds (aw_cfg w))"
  from assms(1) obtain h ip where h: "refresh_token_hash w (aw_token w) = Inr h"
      "h \<notin> art_token_hash ` set (ad_refresh_tokens db)"
    and ip: "aw_inet w (client_ip (aw_ip_header w)) = Some ip"
    by (auto simp: login_ids_fresh_def)
  let ?s = "new_admin_session w (tm_tenant_id m) (tm_id m) (Some ip) ?e"
  let ?d1 = "db\<lparr>ad_sessions := ad_sessions db @ [?s]\<rparr>"
  let ?t = "\<lparr>art_id = aw_refresh_token_id w, art_session_id = asn_id ?s, art_token_hash = h,
            art_created_at = aw_db_now w, art_expires_at = ?e, art_used_at = None, art_revoked_at = None\<rparr>"
  let ?d2 = "?d1\<lparr>ad_refresh_tokens := ad_refresh_tokens db @ [?t]\<rparr>"
  have "create_admin_session_in_transaction w (tm_tenant_id m) (tm_id m) (client_ip (aw_ip_header w)) ?e db = Inr (?s, ?d1)"
    using assms(1) ip by (auto simp: create_admin_session_in_transaction_def tx_success insert_row_Inr Let_def
        list_all_iff login_ids_fresh_def new_admin_session_def)
  moreover have "create_admin_refresh_token_in_transaction w (asn_id ?s) h ?e ?d1 = Inr (?t, ?d2)"
    using assms(1) h(2) by (auto simp: create_admin_refresh_token_in_transaction_def tx_success insert_row_Inr Let_def
        list_all_iff login_ids_fresh_def admin_token_clash_def)
  moreover have "\<exists>logs. record_admin_audit w (login_audit w m (asn_id ?s)) ?d2 = Inr ((), ?d2\<lparr>ad_audit_logs := logs\<rparr>)"
    by (rule audit_succeeds) (use ip in \<open>auto simp: login_audit_def\<close>)
  ultimately have "\<exists>d3. admin_login_transaction w m h ?e db = Inr (?s, d3)"
    by (auto simp: admin_login_transaction_def tx_bind_def tx_return_def)
  then obtain d3 where tx: "admin_login_transaction w m h ?e db = Inr (?s, d3)" by blast
  have i: "asn_id ?s = aw_session_id w" by (simp add: new_admin_session_def)
  from assms(2) obtain a b c d where "build_session_cookie w (aw_session_id w) (ac_admin_session_ttl_seconds (aw_cfg w)) = Inr a"
    "build_refresh_cookie w (aw_token w) (ac_admin_session_ttl_seconds (aw_cfg w)) = Inr b"
    "issue_csrf_token w = Inr c" "build_csrf_cookie w c (ac_admin_session_ttl_seconds (aw_cfg w)) = Inr d"
    unfolding cookies_print_def Let_def by (auto dest!: not_isl simp: rs_bind_Inr)
  with tx h(1) i show ?thesis
    by (auto simp: login_session_def session_answer_def Let_def io_bind_Inr io_of_Inr io_read_Inr io_return_Inr commit_Inr)
qed

lemma login_succeeds:
  assumes "limits_work w" and "free_key w (login_key (aw_lower w) (lgr_email q) (client_ip (aw_ip_header w))) db"
    and "find_login_candidates w (lgr_email q) db = [(m, t)]"
    and "tm_status m = ''active''" and "tn_status t = ''active''"
    and "verify_password (aw_parse_hash w) (lgr_password q) (tm_password_hash m) = Inr True"
    and "login_second_factor w (m, t) (lgr_mfa_code q)
       (counted w (login_key (aw_lower w) (lgr_email q) (client_ip (aw_ip_header w))) db) = (Inr (), db1)"
    and "login_ids_fresh w db1" and "cookies_print w"
  shows "\<exists>r db'. admin_login w q db = (Inr r, db') \<and> login_session w (m, t) db1 = (Inr r, db')"
proof -
  from login_session_succeeds [OF assms(8,9)] obtain r db' where "login_session w (m, t) db1 = (Inr r, db')" by blast
  moreover have "find_login_candidates w (lgr_email q) (counted w (login_key (aw_lower w) (lgr_email q) (client_ip (aw_ip_header w))) db) = [(m, t)]"
    using assms(3) by (simp add: counted_def)
  ultimately show ?thesis
    using limit_passes [OF assms(1,2)] assms(4-7)
    by (simp add: admin_login_def io_bind_def io_of_def io_read_def)
qed

lemma recovery_second_factor:
  assumes "limits_work w" and "free_key w (mfa_key (aw_uuid_text w (tm_id m)) (client_ip (aw_ip_header w))) db"
    and "tm_mfa_enabled m" and "trimmed given = Some code" and "tm_mfa_secret_encrypted m = Some e"
    and "decrypt_secret_text w e = Inr secret" and "normalize_recovery_code code = Some recovery"
    and "admin_hash_token w recovery = Inr h"
    and "c \<in> set (ad_recovery_codes db)" and "live_code (tm_tenant_id m) (tm_id m) c" and "rc_code_hash c = h"
  shows "login_second_factor w (m, t) given db = (Inr (),
    snd (use_codes w (tm_tenant_id m) (tm_id m) h (counted w (mfa_key (aw_uuid_text w (tm_id m)) (client_ip (aw_ip_header w))) db)))"
proof -
  let ?d = "counted w (mfa_key (aw_uuid_text w (tm_id m)) (client_ip (aw_ip_header w))) db"
  obtain n d' where u: "use_codes w (tm_tenant_id m) (tm_id m) h ?d = (n, d')" by fastforce
  have "filter (\<lambda>c. live_code (tm_tenant_id m) (tm_id m) c \<and> rc_code_hash c = h) (ad_recovery_codes db) \<noteq> []"
    using assms(9-11) by (auto simp: filter_empty_conv)
  with u have n: "0 < n" by (auto simp: use_codes_def Let_def counted_def count_where_def)
  have "verify_totp_code (aw_hmac_sha1 w) (aw_now w) secret code = Inr False"
    using recovery_code_not_six_digits [OF assms(7)] by (simp add: verify_totp_code_def)
  then show ?thesis
    using limit_passes [OF assms(1,2)] assms(3-8) u n
    by (simp add: login_second_factor_def Let_def io_bind_def verify_member_mfa_code_def io_of_def ok_or_def
        rs_bind_def io_count_def io_return_def)
qed

section \<open>Concrete instances\<close>

definition sample_admin_config :: admin_config where
  "sample_admin_config = \<lparr>ac_app_name = ''Hub'', ac_base_url = None, ac_master_key = ''master'',
     ac_token_hash_pepper = ''p'', ac_refresh_token_pepper = ''q'', ac_session_secret = ''s'',
     ac_csrf_secret = ''c'', ac_cookie_secure = True, ac_admin_session_ttl_seconds = 3600,
     ac_login_rate_limit_max = 10, ac_login_rate_limit_window_seconds = 300,
     ac_refresh_rate_limit_max = 60, ac_refresh_rate_limit_window_seconds = 300\<rparr>"

definition sample_envelope :: private_key_envelope where
  "sample_envelope = \<lparr>pe_ciphertext = ''ebebebeb'', pe_nonce = ''dbdcdddedfdgdhdidjdadbdc'',
     pe_tag = ''aaaaaaaaaaaaaaaaaaaaaaaaaaaaaaaa'', pe_key_version = ''v1'', pe_alg = ''AES-256-GCM''\<rparr>"

definition sample_envelope_of_text :: "string \<Rightarrow> string + private_key_envelope" where
  "sample_envelope_of_text t = Inr sample_envelope"

definition sample_hmac_sha1 :: "string \<Rightarrow> string \<Rightarrow> string" where
  "sample_hmac_sha1 k m = replicate 20 (CHR ''h'')"

definition sample_uuid_text :: "uuid \<Rightarrow> string" where
  "sample_uuid_text u = replicate (Suc u) (CHR ''u'')"

definition sample_parse_uuid :: "string \<Rightarrow> uuid option" where
  "sample_parse_uuid t = Some (length t - 1)"

definition sample_time_text :: "time \<Rightarrow> string" where
  "sample_time_text t = ''time''"

definition sample_parse_hash :: "string \<Rightarrow> string + (string \<Rightarrow> bool)" where
  "sample_parse_hash h = Inr (\<lambda>p. p = h)"

text \<open>A world at a time that draws the ids and tokens of a number.\<close>

definition sample_admin_world :: "time \<Rightarrow> nat \<Rightarrow> admin_world" where
  "sample_admin_world now n = \<lparr>aw_now = now, aw_db_now = now, aw_session_id = n, aw_refresh_token_id = n,
     aw_member_id = n, aw_one_time_token_id = n, aw_role_id = n, aw_outbox_id = n, aw_audit_id = n,
     aw_recovery_ids = [], aw_token = replicate n (CHR ''t''), aw_csrf_nonce = ''n'', aw_placeholder = ''x'',
     aw_secret_bytes = ''12345678901234567890'', aw_recovery_draws = [],
     aw_nonce = Some ''123456789012'', aw_cfg = sample_admin_config, aw_crypto = sample_crypto,
     aw_hmac_sha1 = sample_hmac_sha1, aw_hash_password = Inr,
     aw_parse_hash = sample_parse_hash, aw_envelope_text = (\<lambda>e. Inr (pe_ciphertext e)),
     aw_envelope_of_text = sample_envelope_of_text, aw_envelope_to_value = (\<lambda>e. Inr (JString (pe_ciphertext e))),
     aw_fault = no_fault, aw_ip_header = None, aw_user_agent = None, aw_cookie = None,
     aw_csrf_header = None, aw_request_id = ''r'', aw_db_error = [],
     aw_uuid_text = sample_uuid_text, aw_parse_uuid = sample_parse_uuid,
     aw_time_text = sample_time_text, aw_rfc3339 = sample_time_text, aw_inet = Some, aw_lower = id,
     aw_db_lower = id\<rparr>"

definition sample_member :: "uuid \<Rightarrow> string \<Rightarrow> bool \<Rightarrow> team_member" where
  "sample_member i email mfa = \<lparr>tm_id = i, tm_tenant_id = 1, tm_email = email, tm_password_hash = ''secret'',
     tm_name = email, tm_phone = None, tm_avatar = None, tm_status = ''active'', tm_email_verified = True,
     tm_mfa_enabled = mfa, tm_mfa_secret_encrypted = (if mfa then Some ''e'' else None),
     tm_last_login_at = None, tm_last_login_ip = None, tm_created_at = 0, tm_updated_at = 0,
     tm_deleted_at = None\<rparr>"

definition sample_admin_session :: "uuid \<Rightarrow> uuid \<Rightarrow> admin_session" where
  "sample_admin_session i m = \<lparr>asn_id = i, asn_tenant_id = 1, asn_team_member_id = m, asn_user_agent = None,
     asn_ip = None, asn_created_at = 0, asn_last_seen_at = None, asn_expires_at = seconds 9000,
     asn_revoked_at = None\<rparr>"

definition sample_recovery_code :: "uuid \<Rightarrow> string \<Rightarrow> mfa_recovery_code" where
  "sample_recovery_code i code = \<lparr>rc_id = i, rc_tenant_id = 1, rc_team_member_id = 1,
     rc_code_hash = letters (''p'' @ code), rc_used_at = None, rc_revoked_at = None, rc_created_at = 0\<rparr>"

definition sample_reset_token :: one_time_token where
  "sample_reset_token = \<lparr>ott_id = 1, ott_tenant_id = Some 1, ott_purpose = admin_password_reset_purpose,
     ott_subject_type = ''team_member'', ott_subject_id = Some 1, ott_email = Some ''a@x'',
     ott_token_hash = letters ''ptok'', ott_created_by = None, ott_expires_at = seconds 7200,
     ott_consumed_at = None, ott_revoked_at = None, ott_metadata = JObject [], ott_created_at = 0\<rparr>"

definition sample_admin_db :: admin_db where
  "sample_admin_db = \<lparr>ad_tenants = [\<lparr>tn_id = 1, tn_name = ''T'', tn_slug = ''t'', tn_status = ''active'', tn_deleted_at = None\<rparr>],
     ad_members = [sample_member 1 ''a@x'' True, sample_member 2 ''b@x'' False],
     ad_sessions = [sample_admin_session 1 1, sample_admin_session 2 2], ad_refresh_tokens = [],
     ad_recovery_codes = [sample_recovery_code 1 ''ABCD-EFGH-JKLM-NPQR'', sample_recovery_code 2 ''STUV-WXYZ-2345-6789''], ad_one_time_tokens = [sample_reset_token],
     ad_roles = [], ad_permissions = [], ad_role_permissions = [], ad_member_roles = [], ad_outbox = [],
     ad_audit_logs = [], ad_redis = Map.empty\<rparr>"

definition sample_admin_login :: "string \<Rightarrow> string option \<Rightarrow> admin_login_request" where
  "sample_admin_login email code = \<lparr>lgr_email = email, lgr_password = ''secret'', lgr_mfa_code = code\<rparr>"

lemma sample_world_fields [simp]:
  "aw_now (sample_admin_world now n) = now" "aw_db_now (sample_admin_world now n) = now"
  "aw_session_id (sample_admin_world now n) = n" "aw_refresh_token_id (sample_admin_world now n) = n"
  "aw_cfg (sample_admin_world now n) = sample_admin_config" "aw_crypto (sample_admin_world now n) = sample_crypto"
  "aw_token (sample_admin_world now n) = replicate n (CHR ''t'')" "aw_fault (sample_admin_world now n) = no_fault"
  "aw_ip_header (sample_admin_world now n) = None" "aw_cookie (sample_admin_world now n) = None"
  "aw_uuid_text (sample_admin_world now n) = sample_uuid_text" "aw_parse_uuid (sample_admin_world now n) = sample_parse_uuid"
  "aw_inet (sample_admin_world now n) = Some" "aw_parse_hash (sample_admin_world now n) = sample_parse_hash"
  "aw_lower (sample_admin_world now n) = id" "aw_db_lower (sample_admin_world now n) = id"
  by (simp_all add: sample_admin_world_def)

lemma sample_hash: "admin_hash_token (sample_admin_world now n) code = Inr (letters (''p'' @ code))"
  by (simp add: admin_hash_token_def hash_token_def sample_crypto_def sample_admin_config_def)

lemma sample_limits: "limits_work (sample_admin_world now n)"
  by (simp add: limits_work_def sample_admin_config_def)

lemma letters_nonempty: "m \<noteq> [] \<Longrightarrow> letters m \<noteq> []"
  by (cases m) auto

lemma sample_uuid_chars: "list_all graphic (sample_uuid_text u)" "CHR '';'' \<notin> set (sample_uuid_text u)"
  by (auto simp: sample_uuid_text_def list_all_iff graphic_def byte_def)

lemma sample_cookie_laws: "cookie_laws (sample_admin_world now n)"
  using sample_base64_laws sample_uuid_chars letters_nonempty
  by (auto simp: cookie_laws_def sample_uuid_text_def sample_parse_uuid_def sample_crypto_def)

lemma header_bytes:
  "list_all graphic s \<Longrightarrow> list_all header_byte s" "list_all b64_char s \<Longrightarrow> list_all header_byte s"
proof -
  have "graphic c \<Longrightarrow> header_byte c" for c by (simp add: graphic_def header_byte_def)
  then show "list_all graphic s \<Longrightarrow> list_all header_byte s" "list_all b64_char s \<Longrightarrow> list_all header_byte s"
    using b64_char_graphic by (auto simp: list_all_iff)
qed

lemma fixed_texts:
  "list_all header_byte ''admin_session='' \<and> list_all header_byte ''admin_refresh='' \<and> list_all header_byte ''admin_csrf=''"
  "list_all header_byte ''; HttpOnly; SameSite=Lax; Path=/; Max-Age=''"
  "list_all header_byte ''; HttpOnly; SameSite=Lax; Path=/api/auth/refresh; Max-Age=''"
  "list_all header_byte ''; SameSite=Lax; Path=/; Max-Age=''"
  "list_all header_byte (show_i64 3600 @ ''; Secure'')" "header_byte (CHR ''.'')" "header_byte (CHR ''t'')" "header_byte (CHR ''n'')"
  by code_simp+

lemma sample_cookies: "cookies_print (sample_admin_world now n)"
proof -
  have "list_all header_byte (letters s)" for s using header_bytes(2) letters_chars by blast
  moreover have "list_all header_byte (sample_uuid_text u)" for u using header_bytes(1) sample_uuid_chars(1) by blast
  moreover have "list_all header_byte (replicate n (CHR ''t''))" using fixed_texts by (simp add: list_all_iff)
  moreover have "aw_csrf_nonce (sample_admin_world now n) = ''n''" by (simp add: sample_admin_world_def)
  ultimately show ?thesis
    using fixed_texts
    by (simp add: cookies_print_def build_session_cookie_def build_refresh_cookie_def build_csrf_cookie_def
        issue_csrf_token_def sign_nonce_def sign_cookie_value_def hash_token_def cookie_header_def
        csrf_cookie_header_def secure_attr_def sample_crypto_def sample_admin_config_def rs_bind_def
        Let_def del: letters.simps)
qed

lemma sample_decrypt_secret: "decrypt_secret_text (sample_admin_world now n) ''e'' = Inr ''AAAA''"
proof -
  have "decrypt_bytes sample_crypto ''master'' sample_envelope = Inr ''AAAA''" "valid_utf8 ''AAAA''" by code_simp+
  then show ?thesis
    by (simp add: decrypt_secret_text_def sample_admin_world_def sample_envelope_of_text_def sample_admin_config_def rs_bind_def)
qed

lemma sample_codes:
  "normalize_recovery_code ''abcd-efgh-jklm-npqr'' = Some ''ABCD-EFGH-JKLM-NPQR''"
  "normalize_recovery_code ''stuv-wxyz-2345-6789'' = Some ''STUV-WXYZ-2345-6789''"
  "trimmed (Some ''abcd-efgh-jklm-npqr'') = Some ''abcd-efgh-jklm-npqr''"
  "trimmed (Some ''stuv-wxyz-2345-6789'') = Some ''stuv-wxyz-2345-6789''"
  by code_simp+

abbreviation "sample_tenant \<equiv> \<lparr>tn_id = 1, tn_name = ''T'', tn_slug = ''t'', tn_status = ''active'', tn_deleted_at = None\<rparr>"

lemma sample_candidates:
  "ad_members db = ad_members sample_admin_db \<Longrightarrow> ad_tenants db = ad_tenants sample_admin_db \<Longrightarrow>
    find_login_candidates (sample_admin_world now n) ''a@x'' db = [(sample_member 1 ''a@x'' True, sample_tenant)]"
  "ad_members db = ad_members sample_admin_db \<Longrightarrow> ad_tenants db = ad_tenants sample_admin_db \<Longrightarrow>
    find_login_candidates (sample_admin_world now n) ''b@x'' db = [(sample_member 2 ''b@x'' False, sample_tenant)]"
  by (simp_all add: find_login_candidates_def sample_admin_db_def sample_member_def)

text \<open>Every entry of redis has expired at a time.\<close>

definition expired_by :: "time \<Rightarrow> admin_db \<Rightarrow> bool" where
  "expired_by now db \<longleftrightarrow> (\<forall>k e. ad_redis db k = Some e \<longrightarrow> (\<exists>x \<le> now. red_expires_at e = Some x))"

lemma expired_key_is_free: "expired_by (aw_now w) db \<Longrightarrow> free_key w k db"
  by (cases "ad_redis db k") (fastforce simp: free_key_def redis_get_def expired_by_def)+

lemma free_other_key: "k \<noteq> k' \<Longrightarrow> free_key w k (counted w k' db) = free_key w k db"
  by (simp add: free_key_def redis_get_def counted_def)

lemma expired_later: "expired_by now db \<Longrightarrow> now \<le> t \<Longrightarrow> expired_by t db"
  unfolding expired_by_def by (meson order_trans)

lemma counted_expires:
  "expired_by t db \<Longrightarrow> aw_now w + seconds (int (ac_login_rate_limit_window_seconds (aw_cfg w))) \<le> t \<Longrightarrow>
    expired_by t (counted w k db)"
  by (simp add: expired_by_def counted_def)

lemma sample_recovery_login:
  assumes "ad_members db = ad_members sample_admin_db" and "ad_tenants db = ad_tenants sample_admin_db"
    and "expired_by now db" and "n \<notin> asn_id ` set (ad_sessions db)" and "n \<notin> art_id ` set (ad_refresh_tokens db)"
    and "letters (''q'' @ replicate n (CHR ''t'')) \<notin> art_token_hash ` set (ad_refresh_tokens db)"
    and "trimmed given = Some code" and "normalize_recovery_code code = Some recovery"
    and "c \<in> set (ad_recovery_codes db)" and "live_code 1 1 c" and "rc_code_hash c = letters (''p'' @ recovery)"
  shows "\<exists>r db' s ts. admin_login (sample_admin_world now n) (sample_admin_login ''a@x'' given) db = (Inr r, db')
    \<and> lgn_mfa_enabled r \<and> lgn_id r = 1 \<and> lgn_tenant_id r = 1
    \<and> ad_members db' = ad_members sample_admin_db \<and> ad_tenants db' = ad_tenants sample_admin_db
    \<and> expired_by (now + seconds 300) db' \<and> ad_sessions db' = ad_sessions db @ [s] \<and> asn_id s = n
    \<and> ad_refresh_tokens db' = ts \<and> adds_token (sample_admin_world now n) (letters (''q'' @ replicate n (CHR ''t''))) (ad_refresh_tokens db) ts
    \<and> ad_recovery_codes db' = update_where (\<lambda>c. live_code 1 1 c \<and> rc_code_hash c = letters (''p'' @ recovery))
        (\<lambda>c. c\<lparr>rc_used_at := Some now\<rparr>) (ad_recovery_codes db)"
proof -
  let ?w = "sample_admin_world now n" and ?q = "sample_admin_login ''a@x'' given" and ?m = "sample_member 1 ''a@x'' True"
  let ?k1 = "login_key id ''a@x'' ''unknown''" and ?k2 = "mfa_key (sample_uuid_text 1) ''unknown''"
  let ?d1 = "counted ?w ?k1 db"
  let ?d2 = "counted ?w ?k2 ?d1"
  let ?d3 = "snd (use_codes ?w 1 1 (letters (''p'' @ recovery)) ?d2)"
  have [simp]: "client_ip None = ''unknown''" by (simp add: client_ip_def)
  have m: "tm_id ?m = 1" "tm_tenant_id ?m = 1" "tm_mfa_enabled ?m" "tm_status ?m = ''active''"
      "tm_mfa_secret_encrypted ?m = Some ''e''" "tm_password_hash ?m = ''secret''"
    by (simp_all add: sample_member_def)
  have keys: "?k1 \<noteq> ?k2" by (simp add: login_key_def mfa_key_def)
  have free: "free_key ?w ?k1 db" "free_key ?w ?k2 ?d1"
    using assms(3) keys by (simp_all add: expired_key_is_free free_other_key)
  have window: "ac_login_rate_limit_window_seconds sample_admin_config = 300" by (simp add: sample_admin_config_def)
  have f: "login_second_factor ?w (?m, sample_tenant) given ?d1 = (Inr (), ?d3)"
    using recovery_second_factor [OF sample_limits, of now n ?m ?d1 given code "''e''" "''AAAA''" recovery
        "letters (''p'' @ recovery)" c sample_tenant] free(2) m assms(7-11) sample_decrypt_secret [of now n] sample_hash
    by simp
  have fresh: "login_ids_fresh ?w ?d3"
    using assms(4-6)
    by (simp add: login_ids_fresh_def code_effects(1) refresh_token_hash_def hash_token_def sample_crypto_def
        sample_admin_config_def del: letters.simps)
  have "\<exists>r db'. admin_login ?w ?q db = (Inr r, db') \<and> login_session ?w (?m, sample_tenant) ?d3 = (Inr r, db')"
    using login_succeeds [OF sample_limits, of now n ?q db ?m sample_tenant ?d3] free(1) m f fresh sample_cookies [of now n]
      sample_candidates(1) [OF assms(1,2), of now n]
    by (simp add: sample_admin_login_def verify_password_def sample_parse_hash_def)
  then obtain r db' where r: "admin_login ?w ?q db = (Inr r, db')" and l: "login_session ?w (?m, sample_tenant) ?d3 = (Inr r, db')"
    by blast
  from l obtain ip tokens logs s where s: "s = new_admin_session ?w 1 1 ip (now + seconds (ac_admin_session_ttl_seconds sample_admin_config))"
    and db': "db' = ?d3\<lparr>ad_sessions := ad_sessions ?d3 @ [s], ad_refresh_tokens := tokens, ad_audit_logs := logs\<rparr>"
    and a: "session_answer ?w (?m, sample_tenant) (asn_id s) db' = (Inr r, db')"
    and h: "\<exists>h. refresh_token_hash ?w (aw_token ?w) = Inr h \<and> adds_token ?w h (ad_refresh_tokens ?d3) tokens"
    by (rule login_session_Inr) (use m in simp)
  have "refresh_token_hash ?w (aw_token ?w) = Inr (letters (''q'' @ replicate n (CHR ''t'')))"
    by (simp add: refresh_token_hash_def hash_token_def sample_crypto_def sample_admin_config_def del: letters.simps)
  with h have h: "adds_token ?w (letters (''q'' @ replicate n (CHR ''t''))) (ad_refresh_tokens db) tokens"
    by (simp add: code_effects(1))
  have e: "expired_by (now + seconds 300) ?d2"
    using expired_later [OF assms(3)] by (intro counted_expires) (simp_all add: window)
  have "ad_redis db' = ad_redis ?d2" by (simp add: db' code_effects(1))
  with e have "expired_by (now + seconds 300) db'" by (simp add: expired_by_def)
  moreover have "asn_id s = n" by (simp add: s new_admin_session_def)
  moreover have "lgn_mfa_enabled r" "lgn_id r = 1" "lgn_tenant_id r = 1" using session_answer_Inr(2-4) [OF a] m by simp_all
  ultimately show ?thesis using r h assms(1,2) by (auto simp: db' code_effects(1))
qed

lemma sample_keys: "distinct (map tm_id (ad_members sample_admin_db))" "distinct (map tn_id (ad_tenants sample_admin_db))"
  "distinct (map asn_id (ad_sessions sample_admin_db))" "distinct (map ott_token_hash (ad_one_time_tokens sample_admin_db))"
  by (simp_all add: sample_admin_db_def sample_member_def sample_admin_session_def)

lemma sample_first_login:
  "\<exists>r db' s ts. admin_login (sample_admin_world 50 7) (sample_admin_login ''a@x'' (Some ''abcd-efgh-jklm-npqr'')) sample_admin_db
      = (Inr r, db')
    \<and> lgn_mfa_enabled r \<and> lgn_id r = 1 \<and> lgn_tenant_id r = 1
    \<and> ad_members db' = ad_members sample_admin_db \<and> ad_tenants db' = ad_tenants sample_admin_db
    \<and> expired_by (50 + seconds 300) db' \<and> ad_sessions db' = ad_sessions sample_admin_db @ [s] \<and> asn_id s = 7
    \<and> ad_refresh_tokens db' = ts \<and> adds_token (sample_admin_world 50 7) (letters (''q'' @ replicate 7 (CHR ''t''))) (ad_refresh_tokens sample_admin_db) ts
    \<and> ad_recovery_codes db' = update_where (\<lambda>c. live_code 1 1 c \<and> rc_code_hash c = letters (''p'' @ ''ABCD-EFGH-JKLM-NPQR''))
        (\<lambda>c. c\<lparr>rc_used_at := Some 50\<rparr>) (ad_recovery_codes sample_admin_db)"
  by (rule sample_recovery_login [where code = "''abcd-efgh-jklm-npqr''" and c = "sample_recovery_code 1 ''ABCD-EFGH-JKLM-NPQR''"])
    (simp_all add: sample_codes expired_by_def live_code_def sample_recovery_code_def sample_admin_db_def
      sample_admin_session_def del: letters.simps)

lemma sample_second_login:
  assumes "ad_members db = ad_members sample_admin_db" and "ad_tenants db = ad_tenants sample_admin_db"
    and "expired_by (50 + seconds 300) db" and "ad_sessions db = ad_sessions sample_admin_db @ [s]" and "asn_id s = 7"
    and "adds_token (sample_admin_world 50 7) (letters (''q'' @ replicate 7 (CHR ''t''))) (ad_refresh_tokens sample_admin_db) (ad_refresh_tokens db)"
    and "ad_recovery_codes db = update_where (\<lambda>c. live_code 1 1 c \<and> rc_code_hash c = letters (''p'' @ ''ABCD-EFGH-JKLM-NPQR''))
        (\<lambda>c. c\<lparr>rc_used_at := Some 50\<rparr>) (ad_recovery_codes sample_admin_db)"
  shows "\<exists>r db'. admin_login (sample_admin_world (seconds 900) 8) (sample_admin_login ''a@x'' (Some ''stuv-wxyz-2345-6789'')) db
      = (Inr r, db') \<and> lgn_mfa_enabled r \<and> lgn_id r = 1 \<and> lgn_tenant_id r = 1"
proof -
  have inj: "letters a = letters b \<longleftrightarrow> a = b" for a b by (metis of_letters_letters option.inject)
  have "sample_recovery_code 2 ''STUV-WXYZ-2345-6789'' \<in> set (ad_recovery_codes db)"
    unfolding assms(7) by (simp add: sample_admin_db_def sample_recovery_code_def inj del: letters.simps)
  moreover have "expired_by (seconds 900) db" by (rule expired_later [OF assms(3)]) simp
  moreover have "8 \<notin> asn_id ` set (ad_sessions db)"
    using assms(5) by (simp add: assms(4) sample_admin_db_def sample_admin_session_def)
  moreover have "8 \<notin> art_id ` set (ad_refresh_tokens db)"
    "letters (''q'' @ replicate 8 (CHR ''t'')) \<notin> art_token_hash ` set (ad_refresh_tokens db)"
    using assms(6) by (auto simp: adds_token_def sample_admin_db_def inj simp del: letters.simps)
  ultimately show ?thesis
    using sample_recovery_login [where n = 8 and now = "seconds 900" and code = "''stuv-wxyz-2345-6789''" and given = "Some ''stuv-wxyz-2345-6789''"
        and c = "sample_recovery_code 2 ''STUV-WXYZ-2345-6789''" and recovery = "''STUV-WXYZ-2345-6789''", OF assms(1,2)]
      sample_codes(2,4)
    by (auto simp: live_code_def sample_recovery_code_def simp del: letters.simps)
qed

lemma sample_admits:
  assumes "ad_tenants db = ad_tenants sample_admin_db" and "i \<in> {1, 2}" and "mm \<in> set (ad_members db)"
    and "distinct (map tm_id (ad_members db))" and "tm_id mm = i" and "tm_tenant_id mm = 1"
    and "tm_deleted_at mm = None" and "tm_status mm = ''active''"
    and "List.find (\<lambda>s. asn_id s = i \<and> asn_revoked_at s = None \<and> asn_expires_at s > 70) (ad_sessions db)
      = Some (sample_admin_session i i)"
  shows "\<exists>header p. require_admin_session ((sample_admin_world 70 9)\<lparr>aw_cookie := Some (cookie_pair header)\<rparr>) db = Inr p
    \<and> ap_session_id p = i \<and> ap_team_member_id p = i"
proof -
  let ?s = "sample_admin_session i i"
  from sample_cookies [of 60 i] obtain header where
    h: "build_session_cookie (sample_admin_world 60 i) i (ac_admin_session_ttl_seconds sample_admin_config) = Inr header"
    by (auto simp: cookies_print_def Let_def dest!: not_isl)
  have "session_principal ?s db = Some (mm, sample_tenant)"
    using assms(1,3-7) by (intro principal_of_member) (simp_all add: sample_admin_session_def sample_admin_db_def)
  with assms(9) have "load_session ((sample_admin_world 70 9)\<lparr>aw_cookie := Some (cookie_pair header)\<rparr>) (asn_id ?s) db
      = Some (?s, mm, sample_tenant)"
    by (simp add: load_session_def) (simp add: sample_admin_session_def)
  with h assms(8) sample_cookie_laws
    cookie_admits [of "sample_admin_world 60 i" ?s "ac_admin_session_ttl_seconds sample_admin_config" header
      "(sample_admin_world 70 9)\<lparr>aw_cookie := Some (cookie_pair header)\<rparr>" db mm sample_tenant]
  have "\<exists>p. require_admin_session ((sample_admin_world 70 9)\<lparr>aw_cookie := Some (cookie_pair header)\<rparr>) db = Inr p
    \<and> ap_session_id p = i \<and> ap_team_member_id p = i"
    by (simp add: sample_admin_session_def) blast
  then show ?thesis by blast
qed

lemma sample_reset:
  "\<exists>n db'. confirm_password_reset (sample_admin_world 60 8) ''tok'' ''Long-pass1'' sample_admin_db = (Inr n, db')
     \<and> ad_tenants db' = ad_tenants sample_admin_db
     \<and> ad_members db' = [(sample_member 1 ''a@x'' True)\<lparr>tm_password_hash := ''Long-pass1'', tm_updated_at := 60\<rparr>,
          sample_member 2 ''b@x'' False]
     \<and> ad_sessions db' = [(sample_admin_session 1 1)\<lparr>asn_revoked_at := Some 60\<rparr>, sample_admin_session 2 2]"
proof -
  let ?w = "sample_admin_world 60 8"
  have "trim ''tok'' = ''tok''" "validate_new_password ''Long-pass1'' = Inr ()" by code_simp+
  moreover have "hash_password ?w p = Inr p" for p by (simp add: hash_password_def sample_admin_world_def)
  ultimately show ?thesis
    by (simp add: confirm_password_reset_def normalize_one_time_token_def io_bind_def io_of_def sample_hash
        commit_def confirm_password_reset_transaction_def tx_bind_def find_token_subject_def tx_read_def
        sample_admin_db_def sample_reset_token_def live_one_time_token_def admin_password_reset_purpose_def
        find_member_for_update_def member_find_by_id_def sample_member_def tx_of_def ok_or_def
        update_member_password_in_transaction_def update_member_def update_returning_def member_check_def
        tx_modify_def tx_return_def consume_one_time_token_def tx_count_def count_where_def Let_def
        revoke_admin_sessions_in_transaction_def revoke_sessions_where_def sessions_of_member_def
        revoke_admin_refresh_tokens_in_transaction_def revoke_tokens_where_def sample_admin_session_def
        record_admin_audit_def audit_log_row_def anonymous_audit_def
        del: letters.simps)
qed

theorem admitted_session_is_live_witness:
  "\<exists>w p. require_admin_session w sample_admin_db = Inr p \<and> ap_session_id p = 1
     \<and> usable_session (aw_db_now w) 1 sample_admin_db
     \<and> ap_permissions p = list_permissions_for_member (ap_tenant_id p) (ap_team_member_id p) sample_admin_db"
proof -
  have "\<exists>header p. require_admin_session ((sample_admin_world 70 9)\<lparr>aw_cookie := Some (cookie_pair header)\<rparr>) sample_admin_db = Inr p
    \<and> ap_session_id p = 1 \<and> ap_team_member_id p = 1"
    by (rule sample_admits [where mm = "sample_member 1 ''a@x'' True"])
      (simp_all add: sample_admin_db_def sample_member_def sample_admin_session_def)
  then obtain w p where "require_admin_session w sample_admin_db = Inr p" "ap_session_id p = 1" by blast
  with admitted_session_is_live [of w sample_admin_db p] show ?thesis by auto
qed

theorem login_needs_every_factor_witness:
  "\<exists>r db' m t. admin_login (sample_admin_world 50 7) (sample_admin_login ''a@x'' (Some ''abcd-efgh-jklm-npqr'')) sample_admin_db
      = (Inr r, db')
    \<and> find_login_candidates (sample_admin_world 50 7) ''a@x'' sample_admin_db = [(m, t)] \<and> lgn_id r = tm_id m
    \<and> usable_session 50 7 db'"
proof -
  obtain r db' where l: "admin_login (sample_admin_world 50 7)
      (sample_admin_login ''a@x'' (Some ''abcd-efgh-jklm-npqr'')) sample_admin_db = (Inr r, db')"
    using sample_first_login by blast
  from login_needs_every_factor [OF l] l show ?thesis
    by (simp add: sample_admin_login_def sample_admin_config_def) blast
qed

theorem recovery_code_logs_in_once_witness:
  "\<exists>r db1 r' db2. admin_login (sample_admin_world 50 7) (sample_admin_login ''a@x'' (Some ''abcd-efgh-jklm-npqr'')) sample_admin_db
      = (Inr r, db1)
    \<and> admin_login (sample_admin_world (seconds 900) 8) (sample_admin_login ''a@x'' (Some ''stuv-wxyz-2345-6789'')) db1 = (Inr r', db2)
    \<and> trimmed (Some ''stuv-wxyz-2345-6789'') \<noteq> Some ''abcd-efgh-jklm-npqr''"
proof -
  obtain r db1 s where 1: "admin_login (sample_admin_world 50 7) (sample_admin_login ''a@x'' (Some ''abcd-efgh-jklm-npqr'')) sample_admin_db
      = (Inr r, db1)" "lgn_mfa_enabled r" "lgn_id r = 1" "lgn_tenant_id r = 1"
    and d: "ad_members db1 = ad_members sample_admin_db" "ad_tenants db1 = ad_tenants sample_admin_db"
      "expired_by (50 + seconds 300) db1" "ad_sessions db1 = ad_sessions sample_admin_db @ [s]" "asn_id s = 7"
      "adds_token (sample_admin_world 50 7) (letters (''q'' @ replicate 7 (CHR ''t''))) (ad_refresh_tokens sample_admin_db) (ad_refresh_tokens db1)"
      "ad_recovery_codes db1 = update_where (\<lambda>c. live_code 1 1 c \<and> rc_code_hash c = letters (''p'' @ ''ABCD-EFGH-JKLM-NPQR''))
        (\<lambda>c. c\<lparr>rc_used_at := Some 50\<rparr>) (ad_recovery_codes sample_admin_db)"
    using sample_first_login by blast
  obtain r' db2 where 2: "admin_login (sample_admin_world (seconds 900) 8) (sample_admin_login ''a@x'' (Some ''stuv-wxyz-2345-6789'')) db1
      = (Inr r', db2)" "lgn_mfa_enabled r'" "lgn_id r' = 1" "lgn_tenant_id r' = 1"
    using sample_second_login [OF d] by blast
  have 3: "admin_login (sample_admin_world (seconds 900) 8) (sample_admin_login ''a@x'' (Some ''stuv-wxyz-2345-6789''))
      (admin_run [] db1) = (Inr r', db2)"
    using 2(1) by simp
  have "trimmed (lgr_mfa_code (sample_admin_login ''a@x'' (Some ''stuv-wxyz-2345-6789''))) \<noteq> Some ''abcd-efgh-jklm-npqr''"
    by (rule recovery_code_logs_in_once [OF 1(1) _ 1(2) sample_codes(1) sample_hash _ 3 2(2)])
      (use 1 2 sample_codes(3) in \<open>simp_all add: sample_admin_login_def\<close>)
  with 1(1) 2(1) show ?thesis by (auto simp: sample_admin_login_def)
qed

theorem password_reset_ends_sessions_witness:
  "\<exists>n db' w' p. confirm_password_reset (sample_admin_world 60 8) ''tok'' ''Long-pass1'' sample_admin_db = (Inr n, db')
     \<and> require_admin_session w' (admin_run [] db') = Inr p \<and> ap_session_id p \<noteq> asn_id (sample_admin_session 1 1)"
proof -
  obtain n db' where r: "confirm_password_reset (sample_admin_world 60 8) ''tok'' ''Long-pass1'' sample_admin_db = (Inr n, db')"
    and d: "ad_tenants db' = ad_tenants sample_admin_db"
      "ad_members db' = [(sample_member 1 ''a@x'' True)\<lparr>tm_password_hash := ''Long-pass1'', tm_updated_at := 60\<rparr>,
          sample_member 2 ''b@x'' False]"
      "ad_sessions db' = [(sample_admin_session 1 1)\<lparr>asn_revoked_at := Some 60\<rparr>, sample_admin_session 2 2]"
    using sample_reset by blast
  have "\<exists>header p. require_admin_session ((sample_admin_world 70 9)\<lparr>aw_cookie := Some (cookie_pair header)\<rparr>) db' = Inr p
    \<and> ap_session_id p = 2 \<and> ap_team_member_id p = 2"
    by (rule sample_admits [where mm = "sample_member 2 ''b@x'' False"])
      (simp_all add: d sample_member_def sample_admin_session_def)
  then obtain w' p where p: "require_admin_session w' (admin_run [] db') = Inr p" by auto
  have "trim ''tok'' = ''tok''" by code_simp
  then have "ap_session_id p \<noteq> asn_id (sample_admin_session 1 1)"
    by (intro password_reset_ends_sessions [OF r _ _ _ _ _ sample_keys(4,3) _ p, where t = sample_reset_token])
      (simp_all add: sample_hash sample_reset_token_def sample_admin_db_def sample_admin_session_def del: letters.simps)
  with r p show ?thesis by blast
qed

theorem reset_token_works_once_witness:
  "\<exists>n db'. confirm_password_reset (sample_admin_world 60 8) ''tok'' ''Long-pass1'' sample_admin_db = (Inr n, db')
     \<and> confirm_password_reset (sample_admin_world 80 9) ''tok'' ''Long-pass2'' (admin_run [] db')
       = (Inl password_reset_token_invalid, admin_run [] db')"
proof -
  obtain n db' where r: "confirm_password_reset (sample_admin_world 60 8) ''tok'' ''Long-pass1'' sample_admin_db = (Inr n, db')"
    using sample_reset by blast
  have "validate_new_password ''Long-pass2'' = Inr ()" by code_simp
  with reset_token_works_once [OF r sample_keys(4), of "sample_admin_world 80 9" "''Long-pass2''" "[]"] r
  show ?thesis by (auto simp: hash_password_def sample_admin_world_def)
qed

theorem login_is_admitted_witness:
  "\<exists>r db' w' p. admin_login (sample_admin_world 50 7) (sample_admin_login ''a@x'' (Some ''abcd-efgh-jklm-npqr'')) sample_admin_db
      = (Inr r, db')
    \<and> require_admin_session w' db' = Inr p \<and> ap_session_id p = 7 \<and> ap_team_member_id p = lgn_id r"
proof -
  obtain r db' where l: "admin_login (sample_admin_world 50 7)
      (sample_admin_login ''a@x'' (Some ''abcd-efgh-jklm-npqr'')) sample_admin_db = (Inr r, db')"
    using sample_first_login by blast
  let ?w = "(sample_admin_world 60 9)\<lparr>aw_cookie := Some (cookie_pair (lgn_session_cookie r))\<rparr>"
  from login_is_admitted [OF l sample_cookie_laws sample_keys(3,1,2), of ?w]
  have "login_stands (aw_db_now ?w) 7 (lgn_tenant_id r) (lgn_id r) db'"
    "login_stands (aw_db_now ?w) 7 (lgn_tenant_id r) (lgn_id r) db' \<longrightarrow>
      (\<exists>p. require_admin_session ?w db' = Inr p \<and> ap_session_id p = 7 \<and> ap_team_member_id p = lgn_id r)"
    by (force simp: sample_admin_config_def sample_admin_world_def)+
  then obtain p where "require_admin_session ?w db' = Inr p" "ap_session_id p = 7" "ap_team_member_id p = lgn_id r"
    by blast
  with l show ?thesis by blast
qed

end
