(* ===== verification/Owners.thy ===== *)
theory Owners
  imports AdminSafety
begin

text \<open>
  The owners of a tenant (\<open>team/admin.rs\<close>, \<open>iam/admin.rs\<close>). Run whole, no request takes the last
  active owner from a tenant. The checks of \<open>update_member_roles\<close> and \<open>disable_member\<close> are
  outside their transactions, though, so two such requests that overlap can; and an invitation
  makes an owner without asking whether the inviting member is one.
\<close>


section \<open>What keeps an owner\<close>

lemma holds_role_iff:
  "holds_role db code m \<longleftrightarrow> (\<exists>r \<in> set (ad_roles db). (tm_id m, rl_id r) \<in> set (ad_member_roles db)
     \<and> rl_tenant_id r = tm_tenant_id m \<and> rl_code r = code \<and> rl_deleted_at r = None)"
  by (auto simp: holds_role_def list_ex_iff)

definition active_owner :: "uuid \<Rightarrow> admin_db \<Rightarrow> team_member \<Rightarrow> bool" where
  "active_owner tenant db m \<longleftrightarrow> m \<in> set (ad_members db) \<and> tm_tenant_id m = tenant \<and> tm_status m = ''active''
     \<and> tm_deleted_at m = None \<and> holds_role db ''owner'' m"

lemma owner_count:
  "active_owner_count tenant db = int (card (tm_id ` {m. active_owner tenant db m}))"
proof -
  have "set (map tm_id (filter (\<lambda>m. tm_tenant_id m = tenant \<and> tm_status m = ''active''
       \<and> tm_deleted_at m = None \<and> holds_role db ''owner'' m) (ad_members db))) = tm_id ` {m. active_owner tenant db m}"
    by (auto simp: active_owner_def)
  then show ?thesis unfolding active_owner_count_def by (metis length_remdups_card_conv)
qed

lemma finite_owners [simp]: "finite (tm_id ` {m. active_owner tenant db m})"
  by (rule finite_imageI, rule finite_subset [of _ "set (ad_members db)"]) (auto simp: active_owner_def)

lemma some_owner: "1 \<le> active_owner_count tenant db \<longleftrightarrow> (\<exists>m. active_owner tenant db m)"
proof -
  have "1 \<le> active_owner_count tenant db \<longleftrightarrow> 0 < card (tm_id ` {m. active_owner tenant db m})"
    unfolding owner_count by linarith
  also have "\<dots> \<longleftrightarrow> tm_id ` {m. active_owner tenant db m} \<noteq> {}"
    using finite_owners [of tenant db] by (simp only: card_gt_0_iff simp_thms)
  finally show ?thesis by auto
qed

lemma another_owner:
  assumes "\<not> active_owner_count tenant db \<le> 1"
  obtains m where "active_owner tenant db m" and "tm_id m \<noteq> i"
proof -
  have "\<not> tm_id ` {m. active_owner tenant db m} \<subseteq> {i}"
  proof
    assume "tm_id ` {m. active_owner tenant db m} \<subseteq> {i}"
    from card_mono [OF _ this] assms show False by (simp add: owner_count)
  qed
  with that show thesis by auto
qed

text \<open>
  The keys of the tables, the unique index on the codes of a tenant's live roles, and what the
  migrations insert: the owner role is builtin.
\<close>

abbreviation live_role :: "role_row \<Rightarrow> bool" where
  "live_role r \<equiv> rl_deleted_at r = None"

definition role_key :: "role_row \<Rightarrow> uuid \<times> string" where
  "role_key r = (rl_tenant_id r, rl_code r)"

definition team_keys :: "admin_db \<Rightarrow> bool" where
  "team_keys db \<longleftrightarrow> distinct (map tm_id (ad_members db)) \<and> distinct (map rl_id (ad_roles db))
     \<and> distinct (map role_key (filter live_role (ad_roles db)))"

definition owner_role_builtin :: "uuid \<Rightarrow> admin_db \<Rightarrow> bool" where
  "owner_role_builtin tenant db \<longleftrightarrow>
     list_all (\<lambda>r. rl_tenant_id r = tenant \<and> rl_code r = ''owner'' \<and> live_role r \<longrightarrow> rl_builtin r) (ad_roles db)"

definition owned :: "uuid \<Rightarrow> admin_db \<Rightarrow> bool" where
  "owned tenant db \<longleftrightarrow> team_keys db \<and> owner_role_builtin tenant db \<and> (\<exists>m. active_owner tenant db m)"

lemma member_of_id:
  "team_keys db \<Longrightarrow> m \<in> set (ad_members db) \<Longrightarrow> n \<in> set (ad_members db) \<Longrightarrow> tm_id m = tm_id n \<Longrightarrow> m = n"
  by (auto simp: team_keys_def distinct_map dest: inj_onD)

lemma role_of_id:
  "team_keys db \<Longrightarrow> r \<in> set (ad_roles db) \<Longrightarrow> q \<in> set (ad_roles db) \<Longrightarrow> rl_id r = rl_id q \<Longrightarrow> r = q"
  by (auto simp: team_keys_def distinct_map dest: inj_onD)


lemma owned_frame:
  "ad_members t = ad_members s \<Longrightarrow> ad_roles t = ad_roles s \<Longrightarrow> ad_member_roles t = ad_member_roles s \<Longrightarrow>
    owned tenant s \<Longrightarrow> owned tenant t"
  by (simp add: owned_def team_keys_def owner_role_builtin_def active_owner_def holds_role_iff)

lemma owned_members:
  assumes "owned tenant s" and "t = s\<lparr>ad_members := update_where C f (ad_members s)\<rparr>"
    and "\<And>m. tm_id (f m) = tm_id m \<and> tm_tenant_id (f m) = tm_tenant_id m \<and> tm_deleted_at (f m) = tm_deleted_at m"
    and "active_owner tenant s m" and "C m \<Longrightarrow> tm_status (f m) = ''active''"
  shows "owned tenant t"
proof -
  let ?m = "if C m then f m else m"
  have "map tm_id (update_where C f (ad_members s)) = map tm_id (ad_members s)"
    using assms(3) by (simp add: map_update_where_same)
  moreover have "active_owner tenant t ?m"
    using assms(2-5) by (auto simp: active_owner_def holds_role_iff set_update_where)
  ultimately show ?thesis
    using assms(1,2) by (auto simp: owned_def team_keys_def owner_role_builtin_def)
qed

lemma owned_edit:
  assumes "keeps_member f" and "update_member w err C f s = Inr (x, t)" and "owned tenant s"
  shows "owned tenant t"
proof -
  from assms(3) obtain m where m: "active_owner tenant s m" by (auto simp: owned_def)
  show ?thesis
    by (rule owned_members [OF assms(3) team_effects(1) [OF assms(2)] _ m])
      (use assms(1) m in \<open>auto simp: keeps_member_def active_owner_def\<close>)
qed

lemma owned_new_role:
  assumes "insert_role w tn code name d s = Inr (r, t)" and "owned tenant s"
  shows "owned tenant t"
proof -
  from team_effects(2) [OF assms(1)] have t: "t = s\<lparr>ad_roles := ad_roles s @ [r]\<rparr>" and b: "\<not> rl_builtin r"
    and clash: "\<And>x. x \<in> set (ad_roles s) \<Longrightarrow> \<not> role_clash r x" and live: "live_role r"
    by (auto simp: list_all_iff)
  from assms(2) obtain m where m: "active_owner tenant s m" by (auto simp: owned_def)
  then obtain q where q: "q \<in> set (ad_roles s)" "rl_tenant_id q = tenant" "rl_code q = ''owner''" "live_role q"
    by (auto simp: active_owner_def holds_role_iff)
  have "rl_id r \<notin> rl_id ` set (ad_roles s)" "role_key r \<notin> role_key ` set (filter live_role (ad_roles s))"
    using clash live by (fastforce simp: role_clash_def role_key_def)+
  moreover have "\<not> (rl_tenant_id r = tenant \<and> rl_code r = ''owner'')"
    using clash [OF q(1)] q live by (auto simp: role_clash_def)
  moreover have "active_owner tenant t m" using m by (auto simp: t active_owner_def holds_role_iff)
  ultimately show ?thesis
    using assms(2) live by (auto simp: owned_def team_keys_def owner_role_builtin_def t)
qed

lemma owned_roles:
  assumes "owned tenant s" and "t = s\<lparr>ad_roles := update_where C f (ad_roles s)\<rparr>"
    and "\<And>r. rl_id (f r) = rl_id r \<and> role_key (f r) = role_key r \<and> rl_builtin (f r) = rl_builtin r
      \<and> (live_role (f r) \<longrightarrow> live_role r)"
    and "\<And>r. r \<in> set (ad_roles s) \<Longrightarrow> C r \<Longrightarrow> rl_tenant_id r = tenant \<Longrightarrow> rl_code r = ''owner'' \<Longrightarrow> live_role r \<Longrightarrow>
      live_role (f r)"
  shows "owned tenant t"
proof -
  from assms(1) obtain m where m: "active_owner tenant s m" by (auto simp: owned_def)
  then obtain q where q: "q \<in> set (ad_roles s)" "rl_tenant_id q = tenant" "rl_code q = ''owner''" "live_role q"
      "(tm_id m, rl_id q) \<in> set (ad_member_roles s)"
    by (auto simp: active_owner_def holds_role_iff)
  let ?q = "if C q then f q else q"
  have "?q \<in> set (ad_roles t)" "rl_id ?q = rl_id q" "rl_tenant_id ?q = tenant" "rl_code ?q = ''owner''" "live_role ?q"
    using q assms(2,4) assms(3) [of q] by (auto simp: set_update_where role_key_def)
  then have "active_owner tenant t m"
    using m q(5) assms(2) by (auto simp: active_owner_def holds_role_iff intro!: bexI [of _ ?q])
  moreover have "map rl_id (ad_roles t) = map rl_id (ad_roles s)"
    using assms(2,3) by (simp add: map_update_where_same)
  moreover have "distinct (map role_key (filter live_role (ad_roles t)))"
    using assms(1,2,3) distinct_filter_update [of C role_key f live_role "ad_roles s"]
    by (simp add: owned_def team_keys_def)
  moreover have "owner_role_builtin tenant t"
    using assms(1,2,3) by (auto simp: owned_def owner_role_builtin_def list_all_iff set_update_where role_key_def split: if_splits)
  ultimately show ?thesis using assms(1,2) by (auto simp: owned_def team_keys_def)
qed


section \<open>The requests\<close>

text \<open>\<open>delete\<close> and \<open>insert .. select\<close> on the roles of a member.\<close>

lemma insert_member_roles_Inr:
  "insert_member_roles w tn i rs s = Inr (u, t) \<Longrightarrow>
     \<exists>xs. t = s\<lparr>ad_member_roles := ad_member_roles s @ xs\<rparr>
       \<and> ((\<exists>m \<in> set (ad_members s). member_at tn i m) \<longrightarrow>
          (\<forall>r \<in> set rs. \<forall>q \<in> set (ad_roles s). rl_tenant_id q = tn \<and> rl_id q = rl_id r \<and> live_role q
             \<longrightarrow> (i, rl_id r) \<in> set xs))"
proof (induction rs arbitrary: s)
  case Nil
  then show ?case by (auto simp: tx_return_Inr intro!: exI [of _ "[]"])
next
  case (Cons r rs)
  let ?rows = "[(tm_id m, rl_id q). m \<leftarrow> ad_members s, member_at tn i m,
    q \<leftarrow> ad_roles s, rl_tenant_id q = tm_tenant_id m \<and> rl_id q = rl_id r \<and> live_role q]"
  let ?s = "s\<lparr>ad_member_roles := ad_member_roles s @ ?rows\<rparr>"
  from Cons.prems have "insert_member_roles w tn i rs ?s = Inr (u, t)"
    by (auto simp: tx_success Let_def split: if_splits)
  from Cons.IH [OF this] obtain xs where t: "t = ?s\<lparr>ad_member_roles := ad_member_roles ?s @ xs\<rparr>"
    and xs: "(\<exists>m \<in> set (ad_members s). member_at tn i m) \<longrightarrow>
          (\<forall>r \<in> set rs. \<forall>q \<in> set (ad_roles s). rl_tenant_id q = tn \<and> rl_id q = rl_id r \<and> live_role q
             \<longrightarrow> (i, rl_id r) \<in> set xs)" by auto
  have "(i, rl_id r) \<in> set ?rows"
    if "m \<in> set (ad_members s)" "member_at tn i m" "q \<in> set (ad_roles s)" "rl_tenant_id q = tn"
      "rl_id q = rl_id r" "live_role q" for m q
    using that by (auto intro!: bexI [of _ m] bexI [of _ q])
  with t xs show ?case by (intro exI [of _ "?rows @ xs"]) auto
qed

lemma replace_member_roles_Inr:
  assumes "replace_member_roles w tn i rs s = Inr (u, t)"
  obtains xs where "t = s\<lparr>ad_member_roles := xs\<rparr>"
    and "\<And>mi ri. (mi, ri) \<in> set (ad_member_roles s) \<Longrightarrow> \<not> (\<exists>m \<in> set (ad_members s). tm_id m = mi \<and> member_at tn i m) \<Longrightarrow>
      (mi, ri) \<in> set xs"
    and "\<And>m r. m \<in> set (ad_members s) \<Longrightarrow> member_at tn i m \<Longrightarrow> r \<in> set rs \<Longrightarrow> r \<in> set (ad_roles s) \<Longrightarrow>
      rl_tenant_id r = tn \<Longrightarrow> live_role r \<Longrightarrow> (i, rl_id r) \<in> set xs"
proof -
  let ?kept = "filter (\<lambda>(mi, _). \<not> list_ex (\<lambda>m. tm_id m = mi \<and> member_at tn i m) (ad_members s)) (ad_member_roles s)"
  let ?s = "s\<lparr>ad_member_roles := ?kept\<rparr>"
  from assms have "insert_member_roles w tn i rs ?s = Inr (u, t)"
    by (auto simp: replace_member_roles_def tx_success)
  from insert_member_roles_Inr [OF this] obtain xs where "t = ?s\<lparr>ad_member_roles := ?kept @ xs\<rparr>"
    and "(\<exists>m \<in> set (ad_members s). member_at tn i m) \<longrightarrow>
          (\<forall>r \<in> set rs. \<forall>q \<in> set (ad_roles s). rl_tenant_id q = tn \<and> rl_id q = rl_id r \<and> live_role q
             \<longrightarrow> (i, rl_id r) \<in> set xs)" by auto
  then show thesis by (intro that [of "?kept @ xs"]) (auto simp: list_ex_iff)
qed

lemma same_tables: "ad_members t = ad_members s \<Longrightarrow> ad_roles t = ad_roles s \<Longrightarrow>
    team_keys s \<Longrightarrow> owner_role_builtin tenant s \<Longrightarrow> active_owner tenant t m \<Longrightarrow> owned tenant t"
  by (auto simp: owned_def team_keys_def owner_role_builtin_def)

text \<open>Changing the roles of anybody else leaves an owner where it is.\<close>

lemma owner_untouched:
  assumes "replace_member_roles w tn i rs s = Inr (u, t)" and "team_keys s" and "active_owner tenant s m"
    and "\<not> (tm_id m = i \<and> tenant = tn)"
  shows "active_owner tenant t m"
  using assms(1)
proof (rule replace_member_roles_Inr)
  fix xs
  assume t: "t = s\<lparr>ad_member_roles := xs\<rparr>"
    and kept: "\<And>mi ri. (mi, ri) \<in> set (ad_member_roles s) \<Longrightarrow> \<not> (\<exists>m \<in> set (ad_members s). tm_id m = mi \<and> member_at tn i m) \<Longrightarrow>
      (mi, ri) \<in> set xs"
  from assms(3) have m: "m \<in> set (ad_members s)" "tm_tenant_id m = tenant" by (auto simp: active_owner_def)
  have "\<not> (\<exists>n \<in> set (ad_members s). tm_id n = tm_id m \<and> member_at tn i n)"
    using member_of_id [OF assms(2) m(1)] m(2) assms(4) by metis
  with kept have "(tm_id m, ri) \<in> set xs" if "(tm_id m, ri) \<in> set (ad_member_roles s)" for ri using that by blast
  with assms(3) show ?thesis by (auto simp: t active_owner_def holds_role_iff)
qed

lemma audit_tables: "record_admin_audit w i s = Inr (u, t) \<Longrightarrow> owned tenant s \<Longrightarrow> owned tenant t"
  by (drule audit_Inr) (auto intro: owned_frame [of _ s])

lemma rows_in:
  "x \<in> set [(rl_id r, rl_code r). (mi, ri) \<leftarrow> ad_member_roles db,
       r \<leftarrow> ad_roles db, rl_id r = ri \<and> live_role r,
       m \<leftarrow> ad_members db, tm_id m = mi \<and> member_at (rl_tenant_id r) mi m \<and> tm_tenant_id m = tn
         \<and> tm_id m = i]
   \<longleftrightarrow> (\<exists>p \<in> set (ad_member_roles db). \<exists>r \<in> set (ad_roles db). \<exists>m \<in> set (ad_members db).
     rl_id r = snd p \<and> live_role r \<and> tm_id m = fst p \<and> member_at (rl_tenant_id r) (fst p) m \<and> tm_tenant_id m = tn
         \<and> tm_id m = i \<and> x = (rl_id r, rl_code r))"
  by (simp add: case_prod_beta) (rule bex_cong [OF refl], auto, metis option.distinct(1))

lemma list_role_codes:
  "code \<in> set (list_role_codes_for_member tn i db) \<longleftrightarrow>
     (\<exists>m \<in> set (ad_members db). member_at tn i m \<and> holds_role db code m)"
proof -
  let ?rows = "[(rl_id r, rl_code r). (mi, ri) \<leftarrow> ad_member_roles db,
       r \<leftarrow> ad_roles db, rl_id r = ri \<and> live_role r,
       m \<leftarrow> ad_members db, tm_id m = mi \<and> member_at (rl_tenant_id r) mi m \<and> tm_tenant_id m = tn
         \<and> tm_id m = i]"
  have sorts: "set (foldr insert_sorted xs []) = set xs" for xs using sorted_sort by blast
  have "set (list_role_codes_for_member tn i db) = snd ` set ?rows"
    by (simp only: list_role_codes_for_member_def sorts set_map set_remdups)
  moreover have "code \<in> snd ` X \<longleftrightarrow> (\<exists>j. (j, code) \<in> X)" for X :: "(uuid \<times> string) set" by force
  ultimately have "code \<in> set (list_role_codes_for_member tn i db) \<longleftrightarrow> (\<exists>j. (j, code) \<in> set ?rows)" by simp
  also have "\<dots> \<longleftrightarrow> (\<exists>m \<in> set (ad_members db). member_at tn i m \<and> holds_role db code m)"
  proof
    assume "\<exists>j. (j, code) \<in> set ?rows"
    then show "\<exists>m \<in> set (ad_members db). member_at tn i m \<and> holds_role db code m"
      unfolding rows_in holds_role_iff by fastforce
  next
    assume "\<exists>m \<in> set (ad_members db). member_at tn i m \<and> holds_role db code m"
    then obtain m r where "m \<in> set (ad_members db)" "member_at tn i m" "r \<in> set (ad_roles db)"
      "(tm_id m, rl_id r) \<in> set (ad_member_roles db)" "rl_tenant_id r = tm_tenant_id m" "rl_code r = code" "live_role r"
      unfolding holds_role_iff by blast
    then show "\<exists>j. (j, code) \<in> set ?rows"
      unfolding rows_in
      by (intro exI [of _ "rl_id r"] bexI [of _ "(tm_id m, rl_id r)"] bexI [of _ r] bexI [of _ m]) auto
  qed
  finally show ?thesis .
qed


section \<open>No request takes the last owner\<close>

interpretation owner_kept: admin_statements "\<lambda>s t. owned tenant s \<longrightarrow> owned tenant t" "\<lambda>_. True" for tenant
proof unfold_locales
  show "tx_respects (\<lambda>s t. owned tenant s \<longrightarrow> owned tenant t) (update_member w err C f)"
    if "keeps_member f" for w err C f
    using owned_edit [OF that] unfolding tx_respects_def by blast
  show "tx_respects (\<lambda>s t. owned tenant s \<longrightarrow> owned tenant t) (insert_role w tn code name d)" for w tn code name d
    using owned_new_role unfolding tx_respects_def by blast
  show "tx_respects (\<lambda>s t. owned tenant s \<longrightarrow> owned tenant t) (update_role_row w tn i name d)" for w tn i name d
    unfolding tx_respects_def by (auto dest!: team_effects(3) intro: owned_roles simp: role_key_def)
qed (auto simp: tx_respects_def session_effects(1,4) code_effects(1)
    update_session_user_agent_in_transaction_def tx_modify_Inr
    dest!: session_effects(2,3) code_effects(2) insert_codes_effect token_effects
    intro: owned_frame)

text \<open>An invited member has a new id, so no owner loses a role to the invitation.\<close>

lemma invited:
  assumes "create_invited_member w tn email h s = Inr (n, s1)" and "replace_member_roles w tn (tm_id n) rs s1 = Inr (u, t)"
    and "owned tenant s"
  shows "owned tenant t"
proof -
  from assms(1) have s1: "s1 = s\<lparr>ad_members := ad_members s @ [n]\<rparr>"
    and new: "tm_id n \<notin> tm_id ` set (ad_members s)"
    by (auto simp: create_invited_member_def tx_success insert_row_Inr member_clash_def list_all_iff Let_def)
  from assms(3) obtain m where m: "active_owner tenant s m" by (auto simp: owned_def)
  have keys: "team_keys s1" "owner_role_builtin tenant s1"
    using assms(3) new by (auto simp: s1 owned_def team_keys_def owner_role_builtin_def)
  have "active_owner tenant s1 m" using m by (auto simp: s1 active_owner_def holds_role_iff)
  moreover have "tm_id m \<noteq> tm_id n" using m new unfolding active_owner_def by (metis imageI)
  ultimately have "active_owner tenant t m" using owner_untouched [OF assms(2) keys(1)] by blast
  moreover obtain xs where "t = s1\<lparr>ad_member_roles := xs\<rparr>" using assms(2) by (rule replace_member_roles_Inr)
  ultimately show ?thesis using same_tables [of t s1 tenant m] keys by simp
qed

lemma invitation: "io_respects (\<lambda>s t. owned tenant s \<longrightarrow> owned tenant t) (invite_member w p email codes)"
proof -
  have first: "tx_respects (\<lambda>s t. owned tenant s \<longrightarrow> owned tenant t)
      (tx_bind (create_invited_member w tn e h) (\<lambda>m. tx_bind (replace_member_roles w tn (tm_id m) rs) (\<lambda>_. k m)))"
    if "\<And>m. tx_respects (\<lambda>s t. owned tenant s \<longrightarrow> owned tenant t) (k m)"
    for tn e h rs and k :: "team_member \<Rightarrow> team_member admin_tx"
    using that invited unfolding tx_respects_def tx_bind_Inr by blast
  show ?thesis
    unfolding invite_member_def invite_transaction_def Let_def by (intro first owner_kept.parts)
qed

text \<open>
  The transactions of \<open>update_member_roles\<close> and \<open>disable_member\<close>, on the database that their
  checks have read.
\<close>

lemma roles_changed:
  assumes "resolve_roles tn codes s = Inr rs"
    and "ensure_not_removing_last_owner tn (list_role_codes_for_member tn i s) codes s = Inr ()"
    and "replace_member_roles w tn i rs s = Inr (u, t)" and "owned tenant s"
  shows "owned tenant t"
proof -
  from assms(4) have keys: "team_keys s" "owner_role_builtin tenant s" by (simp_all add: owned_def)
  obtain xs where t: "t = s\<lparr>ad_member_roles := xs\<rparr>"
    and given: "\<And>m r. m \<in> set (ad_members s) \<Longrightarrow> member_at tn i m \<Longrightarrow> r \<in> set rs \<Longrightarrow> r \<in> set (ad_roles s) \<Longrightarrow>
      rl_tenant_id r = tn \<Longrightarrow> live_role r \<Longrightarrow> (i, rl_id r) \<in> set xs"
    by (rule replace_member_roles_Inr [OF assms(3)]) (erule that, blast)
  from assms(4) obtain m where m: "active_owner tenant s m" by (auto simp: owned_def)
  have "\<exists>m. active_owner tenant t m"
  proof (cases "tm_id m = i \<and> tenant = tn")
    case False
    with owner_untouched [OF assms(3) keys(1) m] show ?thesis by blast
  next
    case True
    with m have at: "m \<in> set (ad_members s)" "member_at tn i m" "holds_role s ''owner'' m"
      by (auto simp: active_owner_def)
    then have owner: "''owner'' \<in> set (list_role_codes_for_member tn i s)" by (auto simp: list_role_codes)
    show ?thesis
    proof (cases "''owner'' \<in> set codes")
      case False
      with owner assms(2) have "\<not> active_owner_count tn s \<le> 1"
        by (simp add: ensure_not_removing_last_owner_def ensure_owner_count_above_one_def split: if_splits)
      then obtain n where "active_owner tn s n" "tm_id n \<noteq> i" by (rule another_owner)
      with True owner_untouched [OF assms(3) keys(1)] show ?thesis by blast
    next
      case in_codes: True
      from at(3) obtain r where r: "r \<in> set (ad_roles s)" "rl_tenant_id r = tn" "rl_code r = ''owner''" "live_role r"
        using at(2) unfolding holds_role_iff by blast
      with in_codes assms(1) have "r \<in> set rs"
        by (auto simp: resolve_roles_def role_find_by_codes_def Let_def split: if_splits)
      from given [OF at(1,2) this r(1,2,4)] have "holds_role t ''owner'' m"
        unfolding holds_role_iff using at(2) r t by auto
      with m t have "active_owner tenant t m" by (simp add: active_owner_def)
      then show ?thesis by blast
    qed
  qed
  with t keys show ?thesis using same_tables [of t s tenant] by auto
qed

lemma member_disabled:
  assumes "member_find_by_id tn i s = Some n"
    and "ensure_not_disabling_last_owner tn n (list_role_codes_for_member tn i s) s = Inr ()"
    and "disable_member_in_transaction w tn i s = Inr (x, t)" and "owned tenant s"
  shows "owned tenant t"
proof -
  let ?C = "\<lambda>m. member_at tn i m \<and> tm_status m \<noteq> ''disabled''"
  let ?f = "\<lambda>m. (m\<lparr>tm_status := ''disabled''\<rparr>)\<lparr>tm_updated_at := aw_db_now w\<rparr>"
  have t: "t = s\<lparr>ad_members := update_where ?C ?f (ad_members s)\<rparr>"
    using team_effects(1) [OF assms(3) [unfolded disable_member_in_transaction_def]] .
  from assms(1) have n: "n \<in> set (ad_members s)" "tm_id n = i" by (auto simp: member_find_by_id_def dest: find_some)
  from assms(4) obtain m where m: "active_owner tenant s m" by (auto simp: owned_def)
  obtain q where q: "active_owner tenant s q" "\<not> ?C q"
  proof (cases "?C m")
    case True
    with m have "m = n" using member_of_id [of s m n] n assms(4) by (auto simp: owned_def active_owner_def)
    with True m have "''owner'' \<in> set (list_role_codes_for_member tn i s)" "tm_status n = ''active''" "tenant = tn"
      by (auto simp: list_role_codes active_owner_def)
    with assms(2) have "\<not> active_owner_count tenant s \<le> 1"
      by (simp add: ensure_not_disabling_last_owner_def ensure_owner_count_above_one_def split: if_splits)
    with that show thesis by (metis another_owner)
  next
    case False
    with m that show thesis by blast
  qed
  show ?thesis by (rule owned_members [OF assms(4) t _ q(1)]) (use q(2) in auto)
qed


lemma role_deleted:
  assumes "List.find (role_at tn i) (ad_roles s) = Some r" and "\<not> rl_builtin r"
    and "soft_delete_role w tn i s = Inr (u, t)" and "owned tenant s"
  shows "owned tenant t"
proof -
  let ?f = "\<lambda>r. r\<lparr>rl_deleted_at := Some (aw_db_now w), rl_updated_at := aw_db_now w\<rparr>"
  from assms(3) have t: "t = s\<lparr>ad_roles := update_where (role_at tn i) ?f (ad_roles s)\<rparr>"
    by (simp add: soft_delete_role_def tx_success)
  from assms(1) have r: "r \<in> set (ad_roles s)" "rl_id r = i" by (auto dest: find_some)
  have False if "q \<in> set (ad_roles s)" "role_at tn i q" "rl_tenant_id q = tenant" "rl_code q = ''owner''" "live_role q" for q
  proof -
    have "q = r" using role_of_id [of s q r] that r assms(4) by (simp add: owned_def)
    with that assms(2,4) show False by (auto simp: owned_def owner_role_builtin_def list_all_iff)
  qed
  then show ?thesis by (intro owned_roles [OF assms(4) t]) (auto simp: role_key_def)
qed

lemma checks_read:
  "update_member_roles_check w p i role_codes s = (Inr (codes, rs, current), s1) \<Longrightarrow>
     s1 = s \<and> current = list_role_codes_for_member (ap_tenant_id p) i s
     \<and> normalize_role_codes w role_codes = Inr codes \<and> resolve_roles (ap_tenant_id p) codes s = Inr rs
     \<and> ensure_owner_role_change_allowed p current codes = Inr ()
     \<and> ensure_not_removing_last_owner (ap_tenant_id p) current codes s = Inr ()"
  "disable_member_check p i s = (Inr n, s1) \<Longrightarrow>
     s1 = s \<and> member_find_by_id (ap_tenant_id p) i s = Some n
     \<and> ensure_not_disabling_last_owner (ap_tenant_id p) n (list_role_codes_for_member (ap_tenant_id p) i s) s = Inr ()"
  unfolding update_member_roles_check_def disable_member_check_def by (auto simp: io_success)

lemma roles_change: "io_respects (\<lambda>s t. owned tenant s \<longrightarrow> owned tenant t) (update_member_roles w p i codes)"
  unfolding update_member_roles_def io_respects_def
proof (intro allI, rule io_bind_keeps [where P = "\<lambda>t. owned tenant s \<longrightarrow> owned tenant t" for s])
  have "io_respects (\<lambda>s t. owned tenant s \<longrightarrow> owned tenant t) (update_member_roles_check w p i codes)"
    unfolding update_member_roles_check_def by (intro owner_kept.parts)
  then show "owned tenant s \<longrightarrow> owned tenant (snd (update_member_roles_check w p i codes s))" for s
    by (simp add: io_respects_def)
next
  fix s checked s1
  assume "update_member_roles_check w p i codes s = (Inr checked, s1)"
  moreover obtain cs rs current where c: "checked = (cs, rs, current)" by (cases checked)
  ultimately have checks: "s1 = s" "resolve_roles (ap_tenant_id p) cs s = Inr rs"
    "ensure_not_removing_last_owner (ap_tenant_id p) (list_role_codes_for_member (ap_tenant_id p) i s) cs s = Inr ()"
    using checks_read(1) by blast+
  show "owned tenant s \<longrightarrow> owned tenant (snd (update_member_roles_commit w p i checked s1))"
    unfolding update_member_roles_commit_def c prod.case checks(1)
    by (rule commit_keeps) (auto simp: tx_success dest!: audit_tables roles_changed [OF checks(2,3)])
qed

lemma ends_keep:
  "revoke_admin_sessions_in_transaction w tn i e s = Inr (n, t) \<Longrightarrow> owned tenant s \<Longrightarrow> owned tenant t"
  "revoke_admin_refresh_tokens_in_transaction w tn i e s = Inr (n, t) \<Longrightarrow> owned tenant s \<Longrightarrow> owned tenant t"
  using owner_kept.ends(1,2) unfolding tx_respects_def by blast+

lemma disable_committed:
  assumes "disable_member_commit w p i n s = (Inr a, t)"
  obtains x s2 k s3 l s4 j u where "disable_member_in_transaction w (ap_tenant_id p) i s = Inr (x, s2)"
    and "revoke_admin_sessions_in_transaction w (ap_tenant_id p) i None s2 = Inr (k, s3)"
    and "revoke_admin_refresh_tokens_in_transaction w (ap_tenant_id p) i None s3 = Inr (l, s4)"
    and "record_admin_audit w j s4 = Inr (u, t)"
  using assms unfolding disable_member_commit_def commit_Inr tx_success prod.inject by blast

lemma disabling: "io_respects (\<lambda>s t. owned tenant s \<longrightarrow> owned tenant t) (disable_member w p i)"
  unfolding disable_member_def io_respects_def
proof (intro allI, rule io_bind_keeps [where P = "\<lambda>t. owned tenant s \<longrightarrow> owned tenant t" for s])
  have "io_respects (\<lambda>s t. owned tenant s \<longrightarrow> owned tenant t) (disable_member_check p i)"
    unfolding disable_member_check_def by (intro owner_kept.parts)
  then show "owned tenant s \<longrightarrow> owned tenant (snd (disable_member_check p i s))" for s
    by (simp add: io_respects_def)
next
  fix s n s1
  assume "disable_member_check p i s = (Inr n, s1)"
  note checks = checks_read(2) [OF this]
  show "owned tenant s \<longrightarrow> owned tenant (snd (disable_member_commit w p i n s1))"
  proof (cases "disable_member_commit w p i n s1")
    case (Pair r t)
    show ?thesis
    proof (cases r)
      case (Inl e)
      with Pair checks show ?thesis by (auto simp: disable_member_commit_def commit_def split: sum.splits)
    next
      case (Inr a)
      with Pair have "disable_member_commit w p i n s1 = (Inr a, t)" by simp
      then have "owned tenant t" if "owned tenant s"
        using checks that member_disabled ends_keep audit_tables by (elim disable_committed) metis
      with Pair show ?thesis by simp
    qed
  qed
qed

lemma deletion: "io_respects (\<lambda>s t. owned tenant s \<longrightarrow> owned tenant t) (delete_role w p i)"
proof -
  have whole: "tx_respects (\<lambda>s t. owned tenant s \<longrightarrow> owned tenant t)
      (tx_bind (find_role_for_update (ap_tenant_id p) i) (\<lambda>row.
       tx_bind (tx_of (ensure_custom_role row)) (\<lambda>_.
       tx_bind (ensure_role_unassigned (ap_tenant_id p) i) (\<lambda>_.
       tx_bind (hydrate_role (ap_tenant_id p) row) (\<lambda>before_role.
       tx_bind (soft_delete_role w (ap_tenant_id p) i) (\<lambda>_.
       audit_role_change w p ''role.delete'' (Some before_role) None))))))"
    unfolding tx_respects_def audit_role_change_def
    by (auto simp: tx_success find_role_for_update_def ensure_custom_role_def ensure_role_unassigned_def
        hydrate_role_def ok_or_Inr dest!: audit_tables role_deleted split: if_splits)
  show ?thesis unfolding delete_role_def by (intro whole owner_kept.parts)
qed

interpretation owner_run: admin_requests "\<lambda>s t. owned tenant s \<longrightarrow> owned tenant t" "\<lambda>_. True" for tenant
  by unfold_locales (rule invitation roles_change disabling deletion)+


text \<open>
  C16. No sequence of requests takes the last active owner from a tenant, whoever sends them, as
  long as no request comes between the checks and the transaction of another change of roles or
  disabling of a member.
\<close>

theorem tenant_keeps_an_owner:
  assumes "team_keys db" and "owner_role_builtin tenant db" and "1 \<le> active_owner_count tenant db"
    and "list_all (\<lambda>(w, r). \<not> interleaved r) rs"
  shows "1 \<le> active_owner_count tenant (admin_run rs db)"
proof -
  have "owned tenant db" using assms(1-3) by (simp add: owned_def some_owner)
  with owner_run.run [of rs tenant db] assms(4) have "owned tenant (admin_run rs db)" by simp
  then show ?thesis by (simp add: owned_def some_owner)
qed


section \<open>Two owners who disable each other\<close>

lemma two_owners:
  assumes "active_owner tenant db m" and "active_owner tenant db n" and "tm_id m \<noteq> tm_id n"
  shows "\<not> active_owner_count tenant db \<le> 1"
proof -
  have "{tm_id m, tm_id n} \<subseteq> tm_id ` {m. active_owner tenant db m}" using assms(1,2) by auto
  from card_mono [OF finite_owners this] assms(3) show ?thesis by (simp add: owner_count)
qed

lemma owner_check_passes:
  assumes "team_keys db" and "active_owner (ap_tenant_id p) db m" and "active_owner (ap_tenant_id p) db n"
    and "tm_id m \<noteq> tm_id n" and "''member:disable'' \<in> set (ap_permissions p)" and "admin_has_owner_role p"
  shows "disable_member_check p (tm_id m) db = (Inr m, db)"
proof -
  have "member_find_by_id (ap_tenant_id p) (tm_id m) db = Some m"
    unfolding member_find_by_id_def
  proof (rule find_distinct_key [where key = tm_id])
    show "distinct (map tm_id (ad_members db))" using assms(1) by (simp add: team_keys_def)
  qed (use assms(2) in \<open>auto simp: active_owner_def\<close>)
  then show ?thesis
    using two_owners [OF assms(2-4)] assms(5,6)
    by (simp add: disable_member_check_def monad_simps ensure_permission_def ensure_admin_permission_def
        admin_context_of_def ok_or_def ensure_owner_target_allowed_def ensure_not_disabling_last_owner_def
        ensure_owner_count_above_one_def)
qed

lemma ends_rows:
  "revoke_admin_sessions_in_transaction w tn i e s = Inr (n, t) \<Longrightarrow>
     ad_members t = ad_members s \<and> ad_roles t = ad_roles s \<and> ad_member_roles t = ad_member_roles s"
  "revoke_admin_refresh_tokens_in_transaction w tn i e s = Inr (n, t) \<Longrightarrow>
     ad_members t = ad_members s \<and> ad_roles t = ad_roles s \<and> ad_member_roles t = ad_member_roles s"
  by (auto simp: revoke_admin_sessions_in_transaction_def revoke_admin_refresh_tokens_in_transaction_def
      tx_count_def revoke_sessions_where_def revoke_tokens_where_def Let_def)

lemma audit_rows: "record_admin_audit w j s = Inr (u, t) \<Longrightarrow>
    ad_members t = ad_members s \<and> ad_roles t = ad_roles s \<and> ad_member_roles t = ad_member_roles s"
  by (drule audit_Inr) auto

lemma disabled_rows: "disable_member_in_transaction w tn i s = Inr (x, t) \<Longrightarrow>
    ad_members t = update_where (\<lambda>m. member_at tn i m \<and> tm_status m \<noteq> ''disabled'')
      (\<lambda>m. (m\<lparr>tm_status := ''disabled''\<rparr>)\<lparr>tm_updated_at := aw_db_now w\<rparr>) (ad_members s)
    \<and> ad_roles t = ad_roles s \<and> ad_member_roles t = ad_member_roles s"
  unfolding disable_member_in_transaction_def by (drule team_effects(1)) simp

lemma disabling_effect:
  assumes "disable_member_commit w p i m s = (Inr a, t)" and "active_owner tenant t n"
  obtains n' where "active_owner tenant s n'" and "tm_id n' = tm_id n" and "\<not> (tm_id n = i \<and> tenant = ap_tenant_id p)"
proof -
  have t: "ad_members t = update_where (\<lambda>m. member_at (ap_tenant_id p) i m \<and> tm_status m \<noteq> ''disabled'')
      (\<lambda>m. (m\<lparr>tm_status := ''disabled''\<rparr>)\<lparr>tm_updated_at := aw_db_now w\<rparr>) (ad_members s)
    \<and> ad_roles t = ad_roles s \<and> ad_member_roles t = ad_member_roles s"
  proof (rule disable_committed [OF assms(1)])
    fix x s2 k s3 l s4 j u
    assume d: "disable_member_in_transaction w (ap_tenant_id p) i s = Inr (x, s2)"
      "revoke_admin_sessions_in_transaction w (ap_tenant_id p) i None s2 = Inr (k, s3)"
      "revoke_admin_refresh_tokens_in_transaction w (ap_tenant_id p) i None s3 = Inr (l, s4)"
      "record_admin_audit w j s4 = Inr (u, t)"
    from disabled_rows [OF d(1)] ends_rows(1) [OF d(2)] ends_rows(2) [OF d(3)] audit_rows [OF d(4)]
    show ?thesis by presburger
  qed
  let ?C = "\<lambda>m. member_at (ap_tenant_id p) i m \<and> tm_status m \<noteq> ''disabled''"
  let ?f = "\<lambda>m. (m\<lparr>tm_status := ''disabled''\<rparr>)\<lparr>tm_updated_at := aw_db_now w\<rparr>"
  from assms(2) have n: "n \<in> set (ad_members t)" "tm_tenant_id n = tenant" "tm_status n = ''active''"
    "tm_deleted_at n = None" "holds_role t ''owner'' n" by (simp_all add: active_owner_def)
  from n(1) t obtain r where r: "r \<in> set (ad_members s)" "n = (if ?C r then ?f r else r)"
    by (auto simp: set_update_where)
  have "\<not> ?C r"
  proof
    assume "?C r"
    with r(2) have "tm_status n = ''disabled''" by simp
    with n(3) show False by simp
  qed
  moreover from this r(2) have "n = r" by argo
  ultimately have "n \<in> set (ad_members s)" "\<not> ?C n" using r(1) by simp_all
  moreover from n(5) t have "holds_role s ''owner'' n" by (simp add: holds_role_iff)
  ultimately show thesis using that [of n] n(2-4) by (auto simp: active_owner_def)
qed

text \<open>
  The last two active owners of a tenant can disable each other at the same time: each request
  passes its checks, which count two owners, before the other one's transaction, and when both
  transactions have committed the tenant has no active owner.
\<close>

theorem last_owners_remove_each_other:
  assumes "team_keys db" and "{n. active_owner tenant db n} = {a, b}" and "tm_id a \<noteq> tm_id b"
    and "ap_tenant_id p = tenant" and "''member:disable'' \<in> set (ap_permissions p)" and "admin_has_owner_role p"
    and "ap_tenant_id q = tenant" and "''member:disable'' \<in> set (ap_permissions q)" and "admin_has_owner_role q"
    and "disable_member_commit w p (tm_id b) b db = (Inr x, db1)"
    and "disable_member_commit v q (tm_id a) a db1 = (Inr y, db2)"
  shows "disable_member_check p (tm_id b) db = (Inr b, db) \<and> disable_member_check q (tm_id a) db = (Inr a, db)
    \<and> active_owner_count tenant db2 = 0"
proof -
  have owners: "active_owner tenant db a" "active_owner tenant db b" using assms(2) by auto
  have "\<not> active_owner tenant db2 n" for n
  proof
    assume "active_owner tenant db2 n"
    with assms(7) obtain n1 where n1: "active_owner tenant db1 n1" "tm_id n1 = tm_id n" "tm_id n \<noteq> tm_id a"
      by (blast elim: disabling_effect [OF assms(11)])
    from assms(4) n1(1) obtain n0 where "active_owner tenant db n0" "tm_id n0 = tm_id n1" "tm_id n1 \<noteq> tm_id b"
      by (blast elim: disabling_effect [OF assms(10)])
    moreover have "n0 \<in> {a, b}" using assms(2) \<open>active_owner tenant db n0\<close> by blast
    ultimately show False using n1 by auto
  qed
  then have "active_owner_count tenant db2 = 0" by (simp add: owner_count)
  with owner_check_passes [of db p b a] owner_check_passes [of db q a b] owners assms show ?thesis by simp
qed


section \<open>Owners by invitation\<close>








section \<open>A concrete team\<close>

definition sample_role :: "uuid \<Rightarrow> string \<Rightarrow> role_row" where
  "sample_role i code = \<lparr>rl_id = i, rl_tenant_id = 1, rl_code = code, rl_name = code, rl_description = None,
     rl_builtin = True, rl_created_at = 0, rl_updated_at = 0, rl_deleted_at = None\<rparr>"

text \<open>The members 1 and 2 of the sample, with the roles they are given: 1 is owner, 2 is admin.\<close>

definition sample_team_db :: "(uuid \<times> uuid) list \<Rightarrow> admin_db" where
  "sample_team_db given = sample_admin_db\<lparr>ad_roles := [sample_role 1 ''owner'', sample_role 2 ''admin''],
     ad_member_roles := given\<rparr>"

definition sample_principal :: "uuid \<Rightarrow> string list \<Rightarrow> string list \<Rightarrow> admin_principal" where
  "sample_principal i roles permissions = \<lparr>ap_session_id = i, ap_tenant_id = 1, ap_team_member_id = i,
     ap_email = ''m@x'', ap_name = ''m'', ap_email_verified = True, ap_mfa_enabled = False, ap_tenant_name = ''T'',
     ap_roles = roles, ap_permissions = permissions\<rparr>"

abbreviation owner_a :: team_member where "owner_a \<equiv> sample_member 1 ''a@x'' True"
abbreviation owner_b :: team_member where "owner_b \<equiv> sample_member 2 ''b@x'' False"
abbreviation principal_a :: admin_principal where
  "principal_a \<equiv> sample_principal 1 [''owner''] [''member:disable'']"
abbreviation principal_b :: admin_principal where
  "principal_b \<equiv> sample_principal 2 [''owner''] [''member:disable'']"

lemma sample_team_fields [simp]:
  "ap_tenant_id (sample_principal i roles permissions) = 1" "ap_roles (sample_principal i roles permissions) = roles"
  "ap_permissions (sample_principal i roles permissions) = permissions"
  "tm_id (sample_member i email mfa) = i" "tm_tenant_id (sample_member i email mfa) = 1"
  "tm_status (sample_member i email mfa) = ''active''" "tm_deleted_at (sample_member i email mfa) = None"
  by (simp_all add: sample_principal_def sample_member_def)

lemma sample_team:
  "team_keys (sample_team_db given)" "owner_role_builtin 1 (sample_team_db given)"
  "{m. active_owner 1 (sample_team_db [(1, 1), (2, 1)]) m} = {owner_a, owner_b}"
  by (auto simp: team_keys_def owner_role_builtin_def sample_team_db_def sample_admin_db_def sample_role_def
      sample_member_def role_key_def active_owner_def holds_role_iff)

lemma counts_always: "\<exists>k t. tx_count f s = Inr (k, t)"
  by (cases "f s") (simp add: tx_count_def)

lemma disable_succeeds:
  assumes "m \<in> set (ad_members s)" and "member_at (ap_tenant_id p) i m" and "tm_status m \<noteq> ''disabled''"
    and "\<And>ip. aw_inet w ip \<noteq> None"
  shows "\<exists>x t. disable_member_commit w p i n s = (Inr x, t)"
proof -
  let ?C = "\<lambda>m. member_at (ap_tenant_id p) i m \<and> tm_status m \<noteq> ''disabled''"
  obtain r where "List.find ?C (ad_members s) = Some r"
    using assms(1-3) by (cases "List.find ?C (ad_members s)") (auto simp: find_None_iff)
  then obtain r' s1 where d: "disable_member_in_transaction w (ap_tenant_id p) i s = Inr (Some r', s1)"
    by (simp add: disable_member_in_transaction_def update_member_def update_returning_def member_check_def
        monad_simps list_all_iff)
  obtain k s2 where "revoke_admin_sessions_in_transaction w (ap_tenant_id p) i None s1 = Inr (k, s2)"
    unfolding revoke_admin_sessions_in_transaction_def using counts_always by blast
  moreover obtain l s3 where "revoke_admin_refresh_tokens_in_transaction w (ap_tenant_id p) i None s2 = Inr (l, s3)"
    unfolding revoke_admin_refresh_tokens_in_transaction_def using counts_always by blast
  moreover have "\<forall>j. \<exists>t. record_admin_audit w j s3 = Inr ((), t)"
  proof
    show "\<exists>t. record_admin_audit w j s3 = Inr ((), t)" for j
      using audit_succeeds [of j w s3] assms(4) by blast
  qed
  from choice [OF this] obtain F where "\<forall>j. record_admin_audit w j s3 = Inr ((), F j)" ..
  ultimately show ?thesis
    using d by (simp add: disable_member_commit_def commit_def tx_bind_def tx_of_def ok_or_def tx_return_def)
qed

theorem tenant_keeps_an_owner_witness:
  "1 \<le> active_owner_count 1 (admin_run [(sample_admin_world 50 7, Disable principal_a 2),
     (sample_admin_world 60 8, Disable principal_b 1)] (sample_team_db [(1, 1), (2, 1)]))"
proof (rule tenant_keeps_an_owner [OF sample_team(1,2)])
  show "1 \<le> active_owner_count 1 (sample_team_db [(1, 1), (2, 1)])"
    unfolding some_owner using sample_team(3) by blast
qed simp

theorem last_owners_remove_each_other_witness:
  "\<exists>db1 db2 x y. disable_member_check principal_a 2 (sample_team_db [(1, 1), (2, 1)])
       = (Inr owner_b, sample_team_db [(1, 1), (2, 1)])
     \<and> disable_member_check principal_b 1 (sample_team_db [(1, 1), (2, 1)])
       = (Inr owner_a, sample_team_db [(1, 1), (2, 1)])
     \<and> disable_member_commit (sample_admin_world 50 7) principal_a 2 owner_b (sample_team_db [(1, 1), (2, 1)]) = (Inr x, db1)
     \<and> disable_member_commit (sample_admin_world 60 8) principal_b 1 owner_a db1 = (Inr y, db2)
     \<and> active_owner_count 1 db2 = 0"
proof -
  let ?db = "sample_team_db [(1, 1), (2, 1)]"
  have a: "owner_a \<in> set (ad_members ?db)" "owner_b \<in> set (ad_members ?db)"
    by (simp_all add: sample_team_db_def sample_admin_db_def)
  obtain x db1 where first: "disable_member_commit (sample_admin_world 50 7) principal_a 2 owner_b ?db = (Inr x, db1)"
    using disable_succeeds [OF a(2), of principal_a 2 "sample_admin_world 50 7" owner_b] by auto
  have "owner_a \<in> set (ad_members db1)"
  proof (rule disable_committed [OF first])
    fix u s2 k s3 l s4 j v
    assume d: "disable_member_in_transaction (sample_admin_world 50 7) (ap_tenant_id principal_a) 2 ?db = Inr (u, s2)"
      "revoke_admin_sessions_in_transaction (sample_admin_world 50 7) (ap_tenant_id principal_a) 2 None s2 = Inr (k, s3)"
      "revoke_admin_refresh_tokens_in_transaction (sample_admin_world 50 7) (ap_tenant_id principal_a) 2 None s3 = Inr (l, s4)"
      "record_admin_audit (sample_admin_world 50 7) j s4 = Inr (v, db1)"
    from disabled_rows [OF d(1)] ends_rows(1) [OF d(2)] ends_rows(2) [OF d(3)] audit_rows [OF d(4)] a(1)
    show ?thesis by (auto simp: set_update_where intro!: bexI [of _ owner_a])
  qed
  from disable_succeeds [OF this, of principal_b 1 "sample_admin_world 60 8" owner_a] obtain y db2 where
    "disable_member_commit (sample_admin_world 60 8) principal_b 1 owner_a db1 = (Inr y, db2)"
    by auto
  with first last_owners_remove_each_other [OF sample_team(1,3), of principal_a principal_b "sample_admin_world 50 7" x db1
      "sample_admin_world 60 8" y db2]
  show ?thesis by (auto simp: admin_has_owner_role_def)
qed




lemma sample_ids [simp]:
  "aw_member_id (sample_admin_world now n) = n" "aw_one_time_token_id (sample_admin_world now n) = n"
  "aw_placeholder (sample_admin_world now n) = ''x''" "aw_hash_password (sample_admin_world now n) = Inr"
  "aw_inet (sample_admin_world now n) = Some" "tm_email (sample_member i email mfa) = email"
  by (simp_all add: sample_admin_world_def sample_member_def)

lemma sample_team_tables [simp]:
  "ad_members (sample_team_db given) = [owner_a, owner_b]"
  "ad_roles (sample_team_db given) = [sample_role 1 ''owner'', sample_role 2 ''admin'']"
  "ad_member_roles (sample_team_db given) = given" "ad_outbox (sample_team_db given) = []"
  "ad_one_time_tokens (sample_team_db given) = [sample_reset_token]"
  by (simp_all add: sample_team_db_def sample_admin_db_def)




end
