(* ===== verification/Spec2Isabelle.thy ===== *)
theory Spec2Isabelle
  imports SessionRuns Signatures JobFailures Owners
begin

text \<open>
  EntitleHub's backend (\<open>src/backend\<close>) sells access to applications: an administrator issues
  licenses and subscriptions to customers, a client program activates a device with one of them,
  holds a session on it, and spends the customer's wallet at a gateway to AI providers. This
  development models the code that decides who gets in, what it costs and what is recorded, and
  proves what that code keeps. Paths below are relative to \<open>src/backend/src\<close>.

  \<^bold>\<open>How a request is modelled.\<close> The database is a record of tables and a table a list of rows
  (\<open>access_db\<close> for licenses, subscriptions, devices and sessions, \<open>ai_db\<close> for the gateway);
  redis is a store of its own. A statement is a function on the database. A transaction is a \<open>tx\<close>:
  an error drops its state, as a rollback does. A handler is an \<open>io\<close>: it can fail
  after it has committed something, so its result is an error or a value and the database in both
  cases. An error is a value of \<open>app_error\<close>, with the constructors of \<open>error.rs\<close>. What a request
  gets from outside is a record that is an argument: the clocks, fresh identifiers and random
  bytes, the configuration, the primitives of the crypto crates, the faults of redis, and the
  provider behind HTTP. Two readings of a clock in one request are one value. Integers
  are \<open>int\<close>, with the checked, saturating and wrapping operations of \<open>i64\<close> written out
  wherever the code computes; a string is the list of its UTF-8 bytes.

  \<^bold>\<open>Access to applications.\<close>
  \<^item> \<open>Prelude\<close>, \<open>Json\<close>, \<open>Text\<close>: the vocabulary above, JSON values, the reading and printing of
    numbers.
  \<^item> \<open>Errors\<close> (\<open>error.rs\<close>), \<open>AuditLog\<close> (\<open>modules/audit\<close>), \<open>RateLimit\<close> (\<open>rate_limit.rs\<close>),
    \<open>Crypto\<close> (\<open>crypto/\<close>): the services every handler uses. An internal error shows no message;
    audited values are masked; a window admits at most its number of attempts (and, when \<open>EXPIRE\<close>
    fails, never again any); tokens, signatures and envelopes round-trip, and a verified token
    was signed.
  \<^item> \<open>AccessModel\<close>, \<open>Entitlements\<close> (\<open>modules/license\<close>, \<open>modules/subscription\<close>: model, service,
    repository): when a grant is valid and which subscription a login selects.
  \<^item> \<open>Devices\<close> (\<open>modules/device\<close>): binding a machine to a grant, within its limit of devices, and
    the blacklist.
  \<^item> \<open>AccessAdmin\<close> (\<open>license/admin.rs\<close>, \<open>subscription/admin.rs\<close>, \<open>device/admin.rs\<close>): the
    administrator's operations stay in the administrator's tenant; revoking ends the sessions;
    cancelled and revoked grants stay so unless the code has a way around it.
  \<^item> \<open>Sessions\<close>, \<open>ClientAuth\<close> (\<open>modules/client_auth\<close>): the middleware, activation,
    login and refresh. An authenticated request has an active session whose grant, device and
    tenant are valid.
  \<^item> \<open>Signatures\<close> (\<open>client_auth/signature.rs\<close>): signed requests and their nonces.
  \<^item> \<open>SessionRuns\<close>: all of these handlers in any order, with \<open>refresh\<close> split at its
    transaction. The invariant is that a session has at most one refresh token that is neither
    used nor revoked; a token rotates once, a revoked session stays dead and a live one can always
    refresh.

  \<^bold>\<open>The AI gateway.\<close>
  \<^item> \<open>AiModel\<close>: the \<open>ai_*\<close> tables. \<open>Capabilities\<close> (\<open>ai/capabilities.rs\<close>) and \<open>Pricing\<close>: what a
    model accepts, the estimate that is held and the charge that is captured.
  \<^item> \<open>Wallets\<close>, \<open>WalletAdmin\<close> (\<open>ai/gateway.rs\<close>, \<open>ai/admin.rs\<close>): the transactions on wallets,
    usage records and the ledger.
  \<^item> \<open>Billing\<close>: the abstract account of a wallet, its balance and the multiset of its holds, and
    that each transaction is one step of it. \<open>BillingRuns\<close>: interleaved requests refine the
    accounts, and every reservation can be settled.
  \<^item> \<open>Assets\<close>: files a provider names are downloaded, stored and replaced in the response.
  \<^item> \<open>Gateway\<close>, \<open>GatewayRuns\<close> (\<open>ai/gateway.rs\<close>): the four synchronous routes; a request leaves
    no hold behind and takes money only when it answers with the provider's response, as long as
    the token prices of the models are within \<open>10 ^ 15\<close> (\<open>prices_bounded\<close>).

  \<^bold>\<open>AI generation jobs\<close> (\<open>ai/jobs.rs\<close>). A job is submitted to a provider, polled by a worker that
  claims a batch of jobs at a time, and billed when its files are stored; customers cancel jobs and
  administrators poll, cache, fail or refund them by hand.
  \<^item> \<open>Providers\<close>: the payloads of the providers, the reading of their answers. Identifiers of stored
    files never leave the server; the files of an answer are those it names.
  \<^item> \<open>JobInputs\<close>: the files a request refers to, which are the customer's own. \<open>JobPrices\<close>: what a job
    may cost, exactly or refused.
  \<^item> \<open>JobBilling\<close>: the transactions of a job on its usage record, its wallet and its row.
  \<^item> \<open>Jobs\<close>: submission, the worker, the actions of customers and administrators, the listings.
  \<^item> \<open>JobSteps\<close>, \<open>JobRuns\<close>: all of them in any order, together with requests at the gateway, refine
    the accounts of \<open>Billing\<close>: the hold of a wallet is the sum of its open usage records, and a job
    whose outcome is open has an open usage record. Left out of those runs is the one request
    that breaks the invariant, caching the files of a failed job again.
    Polling an unreachable provider ends with the 240th attempt, whatever happens to other jobs.
  \<^item> \<open>JobFailures\<close>: that request takes the hold of a failed job out of the wallet once more; and
    a submission that fails after its reservation uses its idempotency key up in every later state
    (\<open>keeps_keys\<close>: what every step keeps of the keys).

  \<^bold>\<open>Administrators\<close> (\<open>modules/auth\<close>, \<open>team\<close>, \<open>iam\<close>). An administrator is a member of a tenant's
  team, logs in with a password and, when it is on, a second factor, and holds a session in a
  signed cookie.
  \<^item> \<open>AdminCodes\<close> (\<open>auth/mfa.rs\<close>): base32 with its buffers as words, authenticator codes and recovery
    codes; each is read back as it was made.
  \<^item> \<open>AdminModel\<close> (\<open>auth/admin_session.rs\<close>, \<open>team/repository.rs\<close>, \<open>iam/role.rs\<close>,
    \<open>iam/permission.rs\<close>, \<open>outbox/mod.rs\<close>): the tables of administrators (\<open>admin_db\<close>), what a request
    gets from outside (\<open>admin_world\<close>) and the statements.
  \<^item> \<open>AdminAccess\<close> (\<open>auth/session.rs\<close>, \<open>csrf.rs\<close>, \<open>login.rs\<close>, \<open>refresh.rs\<close>, \<open>logout.rs\<close>,
    \<open>admin_sessions.rs\<close>, \<open>session_cleanup.rs\<close>) and \<open>AdminAccounts\<close> (the handlers of \<open>mfa.rs\<close>,
    \<open>password.rs\<close>, \<open>email_verify.rs\<close>, \<open>team\<close> and \<open>iam\<close>).
  \<^item> \<open>AdminRuns\<close>: these requests in any order (\<open>admin_run\<close>). What the statements keep, the requests
    keep: the locales \<open>admin_statements\<close>, \<open>admin_requests\<close> and \<open>admin_watch\<close>, interpreted for an ended
    session, a used recovery code and a spent token.
  \<^item> \<open>AdminSafety\<close>: who passes a login and the middleware; a used code, a used token and a session
    ended by a password reset are dead in every later state.
  \<^item> \<open>Owners\<close>: requests that run whole never take the last active owner from a tenant; two that
    overlap can, and an invitation hands out the owner role without looking at who sends it.

  \<^bold>\<open>Interfaces.\<close> Where components rely on one another, the contract is a locale with an
  interpretation on the model's own definitions, e.g. \<open>timed_grant\<close> (both grants),
  \<open>keyed_table\<close> (every table with a primary key), \<open>evolution\<close> (what a handler keeps of the state,
  composed over its statements).

  \<^bold>\<open>Recursion.\<close> The loops of the code that are modelled are structural, over lists of rows or
  JSON values, or have a measure (\<open>cache_video_assets\<close>, \<open>urls_in_value\<close>: the size of the value);
  there is no fuel. The worker's endless loop is the relation \<open>job_work\<close>, one batch per step.

  \<^bold>\<open>Not modelled.\<close> SQL is modelled by its documented meaning on the tables, without isolation
  anomalies: a handler's transaction is one step, while what it reads before its transaction is
  interleaved where it matters (\<open>SessionRuns\<close>, \<open>BillingRuns\<close>). In \<open>JobRuns\<close> a batch of the worker
  and a submission are one step each. Connection failures of the
  database, logging and metrics are left out. The other parts of the repository
  (tenants, customers and applications, the e-mails of customers and their sending, releases,
  scripts, the web pages' assets and works apart from what the gateway stores there,
  configuration, the SDK and the web interface) are not modelled: they are administration of rows
  of the same shape as what is modelled, or input and output.
\<close>

end
